(* ===== verification/GoPrelude.thy ===== *)
theory GoPrelude
  imports Main "HOL-Library.AList" "HOL-Library.Word"
begin

text \<open>
  Shared vocabulary of the development. A Go map is an association list with distinct
  keys: the list order stands for the (unspecified) iteration order of the map, so a
  theorem about every list is a theorem about every iteration order. The operations are
  \<open>mget\<close> (\<open>v, ok := m[k]\<close>), \<open>mput\<close> (\<open>m[k] = v\<close>), \<open>mdel\<close> (\<open>delete(m, k)\<close>), \<open>mkeys\<close>
  and \<open>mmerge\<close> (the loop \<open>for k, v := range b { a[k] = v }\<close>).
\<close>

named_theorems gomap_simps \<open>rewriting for Go maps\<close>
named_theorems op_defs \<open>definitions of the modelled operations\<close>
named_theorems wf_intros \<open>preservation of well-formedness\<close>

section \<open>Go maps as association lists\<close>

type_synonym 'v gomap = "(string \<times> 'v) list"

definition mget :: "'v gomap \<Rightarrow> string \<Rightarrow> 'v option" where
  "mget m k = map_of m k"

definition mput :: "string \<Rightarrow> 'v \<Rightarrow> 'v gomap \<Rightarrow> 'v gomap" where
  "mput k v m = AList.update k v m"

definition mdel :: "string \<Rightarrow> 'v gomap \<Rightarrow> 'v gomap" where
  "mdel k m = AList.delete k m"

definition mkeys :: "'v gomap \<Rightarrow> string list" where
  "mkeys m = map fst m"

definition mhas :: "'v gomap \<Rightarrow> string \<Rightarrow> bool" where
  "mhas m k = (mget m k \<noteq> None)"

definition mwf :: "'v gomap \<Rightarrow> bool" where
  "mwf m = distinct (mkeys m)"

fun mmerge :: "'v gomap \<Rightarrow> 'v gomap \<Rightarrow> 'v gomap" where
  "mmerge a [] = a"
| "mmerge a ((k, v) # b) = mmerge (mput k v a) b"

text \<open>\<open>m[k]\<close> without the comma-ok form: the zero value when the key is absent.\<close>

definition mgetd :: "'v \<Rightarrow> 'v gomap \<Rightarrow> string \<Rightarrow> 'v" where
  "mgetd z m k = (case mget m k of None \<Rightarrow> z | Some v \<Rightarrow> v)"

lemma mget_nil [simp, gomap_simps]: "mget [] k = None"
  by (simp add: mget_def)

lemma mget_cons [simp, gomap_simps]: "mget ((k', v) # m) k = (if k = k' then Some v else mget m k)"
  by (simp add: mget_def)

lemma mget_mput [simp, gomap_simps]: "mget (mput k v m) k' = (if k' = k then Some v else mget m k')"
  by (simp add: mget_def mput_def update_conv')

lemma mget_mput_fun: "mget (mput k v m) = (mget m)(k \<mapsto> v)"
  by (rule ext) simp

lemma mget_mdel [simp, gomap_simps]: "mget (mdel k m) k' = (if k' = k then None else mget m k')"
  by (simp add: mget_def mdel_def delete_conv')

lemma mput_nil [simp]: "mput k v [] = [(k, v)]"
  by (simp add: mput_def)

lemma mput_cons [simp]:
  "mput k v ((k', w) # m) = (if k' = k then (k', v) # m else (k', w) # mput k v m)"
  by (auto simp: mput_def)

lemma mdel_nil [simp]: "mdel k [] = []"
  by (simp add: mdel_def)

lemma mdel_cons [simp]: "mdel k ((k', w) # m) = (if k' = k then mdel k m else (k', w) # mdel k m)"
  by (simp add: mdel_def)

lemma mkeys_nil [simp]: "mkeys [] = []"
  by (simp add: mkeys_def)

lemma mkeys_cons [simp]: "mkeys (p # m) = fst p # mkeys m"
  by (simp add: mkeys_def)

lemma mhas_iff [gomap_simps]: "mhas m k \<longleftrightarrow> k \<in> set (mkeys m)"
  by (induction m) (auto simp: mhas_def split: if_splits)

lemma mget_None_iff: "mget m k = None \<longleftrightarrow> k \<notin> set (mkeys m)"
  by (induction m) (auto split: if_splits)

lemma mget_Some_key: "mget m k = Some v \<Longrightarrow> k \<in> set (mkeys m)"
  using mget_None_iff [of m k] by auto

lemma mget_Some_mem: "mget m k = Some v \<Longrightarrow> (k, v) \<in> set m"
  by (simp add: mget_def map_of_SomeD)

lemma mem_mget: "mwf m \<Longrightarrow> (k, v) \<in> set m \<Longrightarrow> mget m k = Some v"
  by (simp add: mget_def mwf_def mkeys_def)

lemma mkeys_mput [gomap_simps]: "set (mkeys (mput k v m)) = insert k (set (mkeys m))"
  by (auto simp: mput_def mkeys_def dom_update)

lemma mkeys_mdel [gomap_simps]: "set (mkeys (mdel k m)) = set (mkeys m) - {k}"
  by (auto simp: mdel_def mkeys_def delete_keys)

lemma mwf_nil [simp, intro, wf_intros]: "mwf []"
  by (simp add: mwf_def)

lemma mwf_mput [simp, wf_intros]: "mwf m \<Longrightarrow> mwf (mput k v m)"
  by (simp add: mwf_def mkeys_def mput_def distinct_update)

lemma mwf_mdel [simp, wf_intros]: "mwf m \<Longrightarrow> mwf (mdel k m)"
  by (simp add: mwf_def mkeys_def mdel_def distinct_delete)

lemma mwf_cons: "mwf (p # m) \<longleftrightarrow> fst p \<notin> set (mkeys m) \<and> mwf m"
  by (auto simp: mwf_def)

lemma mwf_append: "mwf (a @ b) \<longleftrightarrow> mwf a \<and> mwf b \<and> set (mkeys a) \<inter> set (mkeys b) = {}"
  by (auto simp: mwf_def mkeys_def)

lemma mwf_mmerge [wf_intros]: "mwf a \<Longrightarrow> mwf (mmerge a b)"
  by (induction a b rule: mmerge.induct) auto

lemma mput_absent: "k \<notin> set (mkeys m) \<Longrightarrow> mput k v m = m @ [(k, v)]"
  by (induction m) auto

lemma length_mput: "length (mput k v m) = (if mhas m k then length m else Suc (length m))"
  by (induction m) (auto simp: mhas_def split: if_splits)

lemma length_mdel_le: "length (mdel k m) \<le> length m"
  by (induction m) auto

lemma mdel_absent: "k \<notin> set (mkeys m) \<Longrightarrow> mdel k m = m"
  by (induction m) auto

lemma length_mdel_present: "mwf m \<Longrightarrow> mhas m k \<Longrightarrow> Suc (length (mdel k m)) = length m"
  by (induction m) (auto simp: mwf_cons mhas_iff mdel_absent)

text \<open>The merge loop is right-biased map union, whatever the iteration order.\<close>

lemma mget_mmerge:
  "mwf b \<Longrightarrow> mget (mmerge a b) k = (case mget b k of None \<Rightarrow> mget a k | Some v \<Rightarrow> Some v)"
proof (induction a b rule: mmerge.induct)
  case (1 a)
  then show ?case by simp
next
  case (2 a k' v b)
  from "2.prems" have wf: "mwf b" and fresh: "mget b k' = None"
    by (auto simp: mwf_cons mget_None_iff)
  show ?case
    using "2.IH" [OF wf] fresh by (auto split: option.splits)
qed

lemma mkeys_mmerge: "set (mkeys (mmerge a b)) = set (mkeys a) \<union> set (mkeys b)"
  by (induction a b rule: mmerge.induct) (auto simp: mkeys_mput)

text \<open>Copying a map by inserting its entries one by one into an empty map.\<close>

lemma mmerge_app: "mwf (a @ b) \<Longrightarrow> mmerge a b = a @ b"
proof (induction a b rule: mmerge.induct)
  case (1 a)
  then show ?case by simp
next
  case (2 a k v b)
  from "2.prems" have "k \<notin> set (mkeys a)" by (auto simp: mwf_def mkeys_def)
  then have put: "mput k v a = a @ [(k, v)]" by (rule mput_absent)
  with "2.prems" have "mwf (mput k v a @ b)" by simp
  from "2.IH" [OF this] put show ?case by simp
qed

lemma mmerge_copy [simp]: "mwf m \<Longrightarrow> mmerge [] m = m"
  using mmerge_app [of "[]" m] by simp

lemma mget_map_prod: "mget (map (map_prod id f) m) k = map_option f (mget m k)"
  by (induction m) auto

lemma mwf_map_prod: "mwf m \<Longrightarrow> mwf (map (map_prod id f) m)"
  by (simp add: mwf_def mkeys_def comp_def)

section \<open>Splitting and joining strings\<close>

text \<open>\<open>strings.Split\<close> and \<open>strings.Join\<close> with a separator of one byte.\<close>

fun split_on :: "char \<Rightarrow> string \<Rightarrow> string list" where
  "split_on c [] = [[]]"
| "split_on c (x # xs) =
     (if x = c then [] # split_on c xs
      else case split_on c xs of [] \<Rightarrow> [[x]] | w # ws \<Rightarrow> (x # w) # ws)"

fun join_with :: "char \<Rightarrow> string list \<Rightarrow> string" where
  "join_with c [] = []"
| "join_with c [w] = w"
| "join_with c (w # v # ws) = w @ c # join_with c (v # ws)"

lemma split_on_ne [simp]: "split_on c s \<noteq> []"
  by (induction s) (auto split: list.splits)

lemma join_split [simp]: "join_with c (split_on c s) = s"
proof (induction s)
  case Nil
  then show ?case by simp
next
  case (Cons x s)
  obtain w ws where "split_on c s = w # ws" by (cases "split_on c s") auto
  with Cons show ?case by (cases ws) auto
qed

lemma split_on_plain: "c \<notin> set w \<Longrightarrow> split_on c w = [w]"
  by (induction w) auto

lemma split_on_append: "c \<notin> set w \<Longrightarrow> split_on c (w @ c # s) = w # split_on c s"
  by (induction w) auto

lemma split_join:
  "ws \<noteq> [] \<Longrightarrow> \<forall>w \<in> set ws. c \<notin> set w \<Longrightarrow> split_on c (join_with c ws) = ws"
  by (induction c ws rule: join_with.induct) (auto simp: split_on_plain split_on_append)

section \<open>Nil pointers in a list\<close>

fun somes :: "'a option list \<Rightarrow> 'a list" where
  "somes [] = []"
| "somes (None # xs) = somes xs"
| "somes (Some x # xs) = x # somes xs"

section \<open>Folds that may fail\<close>

text \<open>
  A \<open>for\<close> loop whose body may return early with an error: the state reached so far is
  kept, because the callers of the modelled code see those effects.
\<close>

fun floop :: "('x \<Rightarrow> 's \<Rightarrow> ('e + unit) \<times> 's) \<Rightarrow> 'x list \<Rightarrow> 's \<Rightarrow> ('e + unit) \<times> 's" where
  "floop f [] s = (Inr (), s)"
| "floop f (x # xs) s =
     (case f x s of (Inl e, s') \<Rightarrow> (Inl e, s') | (Inr _, s') \<Rightarrow> floop f xs s')"

lemma floop_append:
  "floop f (xs @ ys) s =
     (case floop f xs s of (Inl e, s') \<Rightarrow> (Inl e, s') | (Inr _, s') \<Rightarrow> floop f ys s')"
  by (induction xs arbitrary: s) (auto split: prod.splits sum.splits)

lemma floop_inv:
  assumes "\<And>x s. P s \<Longrightarrow> P (snd (f x s))" and "P s"
  shows "P (snd (floop f xs s))"
  using assms(2)
proof (induction xs arbitrary: s)
  case Nil
  then show ?case by simp
next
  case (Cons x xs)
  from assms(1) [OF Cons.prems, of x] Cons.IH show ?case
    by (auto split: prod.splits sum.splits)
qed

end
