(* ===== verification/GoValues.thy ===== *)
theory GoValues
  imports GoPrelude
begin

text \<open>
  The dynamic values (\<open>interface{}\<close>) the graph engine moves around, its error values, and
  what Go's \<open>encoding/json\<close> does to a value that is marshalled and unmarshalled again.
  A \<open>float64\<close> is NaN, an infinity or a dyadic rational \<open>Fin m e\<close> = \<open>m * 2^e\<close> in lowest
  terms (\<open>m\<close> odd, or \<open>Fin 0 0\<close>; negative zero is identified with zero, which it equals in
  Go). Addition and the conversion from \<open>int\<close> round to nearest, ties to even, at 53 bits.
\<close>

section \<open>float64\<close>

datatype f64 = NaN | Inf bool | Fin int int

fun bitlen :: "nat \<Rightarrow> nat" where
  "bitlen n = (if n = 0 then 0 else Suc (bitlen (n div 2)))"

declare bitlen.simps [simp del]

function canon :: "int \<Rightarrow> int \<Rightarrow> int \<times> int" where
  "canon m e = (if m = 0 then (0, 0) else if even m then canon (m div 2) (e + 1) else (m, e))"
  by pat_completeness auto
termination
  by (relation "measure (\<lambda>(m, e). nat \<bar>m\<bar>)") (auto elim!: evenE)

declare canon.simps [simp del]

definition round_half_even :: "nat \<Rightarrow> nat \<Rightarrow> nat" where
  "round_half_even n s =
     (let q = n div 2 ^ s; r = n mod 2 ^ s; h = 2 ^ (s - 1)
      in if h < r \<or> (r = h \<and> odd q) then q + 1 else q)"

definition f64_round :: "int \<Rightarrow> int \<Rightarrow> f64" where
  "f64_round m e =
     (if m = 0 then Fin 0 0
      else
        let n = nat \<bar>m\<bar>;
            s = max (int (bitlen n) - 53) (- 1074 - e);
            (n', e') = (if s \<le> 0 then (n, e) else (round_half_even n (nat s), e + s))
        in if 1024 < int (bitlen n') + e' then Inf (m < 0)
           else let (c, k) = canon (sgn m * int n') e' in Fin c k)"

definition f64_of_int :: "int \<Rightarrow> f64" where
  "f64_of_int i = f64_round i 0"

fun f64_add :: "f64 \<Rightarrow> f64 \<Rightarrow> f64" where
  "f64_add NaN y = NaN"
| "f64_add x NaN = NaN"
| "f64_add (Inf a) (Inf b) = (if a = b then Inf a else NaN)"
| "f64_add (Inf a) y = Inf a"
| "f64_add x (Inf b) = Inf b"
| "f64_add (Fin m1 e1) (Fin m2 e2) =
     (let e = min e1 e2
      in f64_round (m1 * 2 ^ nat (e1 - e) + m2 * 2 ^ nat (e2 - e)) e)"

text \<open>
  \<open>int(x)\<close>: truncation towards zero; outside the range of \<open>int\<close> the language leaves the
  result to the implementation, and this is amd64's.
\<close>

definition f64_trunc :: "int \<Rightarrow> int \<Rightarrow> int" where
  "f64_trunc m e = (if 0 \<le> e then m * 2 ^ nat e else sgn m * (\<bar>m\<bar> div 2 ^ nat (- e)))"

fun f64_to_int :: "f64 \<Rightarrow> 64 word" where
  "f64_to_int (Fin m e) =
     (let i = f64_trunc m e
      in if - (2 ^ 63) \<le> i \<and> i < 2 ^ 63 then word_of_int i else word_of_int (- (2 ^ 63)))"
| "f64_to_int x = word_of_int (- (2 ^ 63))"

lemma bitlen_0 [simp]: "bitlen 0 = 0"
  by (simp add: bitlen.simps)

lemma bitlen_le: "n < 2 ^ k \<Longrightarrow> bitlen n \<le> k"
proof (induction k arbitrary: n)
  case 0
  then show ?case by simp
next
  case (Suc k)
  then have "n div 2 < 2 ^ k" by (simp add: less_mult_imp_div_less mult.commute)
  from Suc.IH [OF this] show ?case by (subst bitlen.simps) simp
qed

lemma canon_value:
  assumes "0 \<le> e" and "canon m e = (c, k)"
  shows "0 \<le> k \<and> c * 2 ^ nat k = m * 2 ^ nat e"
  using assms
proof (induction m e arbitrary: c k rule: canon.induct)
  case (1 m e)
  show ?case
  proof (cases "m = 0 \<or> odd m")
    case True
    with 1 show ?thesis by (auto simp: canon.simps [of m e] split: if_splits)
  next
    case False
    then have ne: "m \<noteq> 0" and ev: "even m" by auto
    from ne ev "1.prems"(2) have eq: "canon (m div 2) (e + 1) = (c, k)"
      by (simp add: canon.simps [of m e])
    have ih: "0 \<le> k \<and> c * 2 ^ nat k = (m div 2) * 2 ^ nat (e + 1)"
      using "1.IH" [OF ne ev _ eq] "1.prems"(1) by simp
    have "nat (e + 1) = Suc (nat e)" using "1.prems"(1) by simp
    then have "(m div 2) * 2 ^ nat (e + 1) = (m div 2 * 2) * 2 ^ nat e"
      by (simp add: ac_simps)
    also have "m div 2 * 2 = m" using ev by simp
    finally show ?thesis using ih by simp
  qed
qed

text \<open>Integers of at most 53 bits survive the trip through \<open>float64\<close>.\<close>

lemma f64_of_int_exact:
  assumes "\<bar>i\<bar> < 2 ^ 53"
  shows "f64_to_int (f64_of_int i) = word_of_int i"
proof (cases "i = 0")
  case True
  then show ?thesis by (simp add: f64_of_int_def f64_round_def f64_trunc_def)
next
  case False
  have "nat \<bar>i\<bar> < 2 ^ 53" using assms by (simp add: nat_less_iff)
  then have bl: "bitlen (nat \<bar>i\<bar>) \<le> 53" by (rule bitlen_le)
  obtain c k where ck: "canon i 0 = (c, k)" by (cases "canon i 0")
  from canon_value [OF _ ck] have val: "0 \<le> k" "c * 2 ^ nat k = i" by auto
  have "f64_of_int i = Fin c k"
    using False bl ck by (simp add: f64_of_int_def f64_round_def mult_sgn_abs)
  moreover have "- (2 ^ 63) \<le> i" "i < 2 ^ 63" using assms by auto
  ultimately show ?thesis using val by (simp add: f64_trunc_def)
qed

definition small :: "int \<Rightarrow> bool" where
  "small i = (\<bar>i\<bar> < 2 ^ 53)"

lemma sint_small: "small i \<Longrightarrow> sint (word_of_int i :: 64 word) = i"
  by (simp add: small_def signed_take_bit_int_eq_self sint_sbintrunc' abs_less_iff)

lemma read_small: "small i \<Longrightarrow> sint (f64_to_int (f64_of_int i)) = i"
  using f64_of_int_exact [of i] sint_small [of i] by (simp add: small_def)

section \<open>Dynamic values\<close>

text \<open>
  One constructor per dynamic type the code distinguishes with a type assertion or a type
  switch. \<open>VNum k i\<close> is a value of a numeric type other than \<open>int\<close> and \<open>float64\<close>;
  \<open>VOverwrite\<close> is a \<open>*types.Overwrite\<close>, \<open>VMissing\<close> the channel sentinel, \<open>VType\<close> a
  \<open>reflect.Type\<close> descriptor and \<open>VZero\<close> the zero value of one of the three struct types
  that \<open>createZeroValue\<close> can produce. \<open>VBytes\<close> is a \<open>[]byte\<close>. \<open>VBoolMap\<close>, \<open>VIntMap\<close>, \<open>VIntMapMap\<close> and \<open>VMapList\<close> are
  \<open>map[string]bool\<close>, \<open>map[string]int\<close>, \<open>map[string]map[string]int\<close> and
  \<open>[]map[string]interface{}\<close>, \<open>VStrs\<close> and \<open>VFloats\<close> are \<open>[]string\<close> and \<open>[]float64\<close>: a type switch tells them from \<open>map[string]interface{}\<close> (\<open>VMap\<close>)
  and \<open>[]interface{}\<close> (\<open>VList\<close>).
\<close>

datatype rkind = KSlice | KArray | KMap | KInt | KInt8 | KInt16 | KInt32 | KInt64
  | KUint | KUint8 | KUint16 | KUint32 | KUint64 | KFloat32 | KFloat64
  | KString | KBool | KStruct | KPtr | KInterface

datatype zstruct = ZMissing | ZOverwrite | ZRtype

datatype gval =
    VNil
  | VMissing
  | VBool bool
  | VInt "64 word"
  | VNum rkind int
  | VFloat f64
  | VStr string
  | VBytes string
  | VList "gval list"
  | VMap "(string \<times> gval) list"
  | VBoolMap "(string \<times> bool) list"
  | VIntMap "(string \<times> int) list"
  | VIntMapMap "(string \<times> (string \<times> int) list) list"
  | VMapList "(string \<times> gval) list list"
  | VStrs "string list"
  | VFloats "f64 list"
  | VOverwrite gval
  | VType rkind
  | VZero zstruct

definition IsMissing :: "gval \<Rightarrow> bool" where
  "IsMissing v = (v = VMissing)"

section \<open>Errors\<close>

text \<open>
  The error types of \<open>graph/errors\<close> and of the callers. A message built with \<open>Sprintf\<close> is
  kept as a constructor with its arguments. \<open>Wrap\<close> is \<open>fmt.Errorf\<close> with \<open>%w\<close>: as in Go, a
  type assertion on the wrapper does not see the wrapped error.
\<close>

datatype update_fault =
    OneValuePerStep string
  | OneOverwritePerStep
  | NotAString gval
  | UnexpectedName string

record interrupt =
  intr_value :: gval
  intr_id :: string

datatype gerror =
    EmptyChannelError
  | InvalidUpdateError update_fault
  | ChannelNotFoundError string
  | NodeNotFoundError string
  | GraphRecursionError int
  | GraphInterrupt "interrupt list"
  | VersionConflictError int int string string
  | RetryExhaustedError string int "gerror option" gval
  | Wrap string gerror
  | Fail string
  | CtxErr

type_synonym 'a res = "gerror + 'a"

fun IsEmptyChannelError :: "gerror \<Rightarrow> bool" where
  "IsEmptyChannelError EmptyChannelError = True"
| "IsEmptyChannelError _ = False"

fun IsGraphInterrupt :: "gerror \<Rightarrow> bool" where
  "IsGraphInterrupt (GraphInterrupt _) = True"
| "IsGraphInterrupt _ = False"

fun IsGraphRecursionError :: "gerror \<Rightarrow> bool" where
  "IsGraphRecursionError (GraphRecursionError _) = True"
| "IsGraphRecursionError _ = False"

fun IsRetryExhausted :: "gerror \<Rightarrow> bool" where
  "IsRetryExhausted (RetryExhaustedError _ _ _ _) = True"
| "IsRetryExhausted _ = False"

section \<open>JSON\<close>

text \<open>
  The length of the UTF-8 sequence at the head of a byte string, 0 if it is not well formed:
  the table of \<open>unicode/utf8\<close>. \<open>encoding/json\<close> writes U+FFFD for a byte that starts no
  sequence, everything else is read back as it was written.
\<close>

definition byte_in :: "nat \<Rightarrow> nat \<Rightarrow> char \<Rightarrow> bool" where
  "byte_in lo hi c = (lo \<le> of_char c \<and> of_char c \<le> (hi :: nat))"

fun cont_bytes :: "nat \<Rightarrow> string \<Rightarrow> bool" where
  "cont_bytes 0 s = True"
| "cont_bytes (Suc n) [] = False"
| "cont_bytes (Suc n) (c # s) = (byte_in 128 191 c \<and> cont_bytes n s)"

fun rune_len :: "string \<Rightarrow> nat" where
  "rune_len [] = 0"
| "rune_len [c] = (if byte_in 0 127 c then 1 else 0)"
| "rune_len (c # d # s) =
     (if byte_in 0 127 c then 1
      else if byte_in 194 223 c then (if byte_in 128 191 d then 2 else 0)
      else if byte_in 224 224 c then (if byte_in 160 191 d \<and> cont_bytes 1 s then 3 else 0)
      else if byte_in 237 237 c then (if byte_in 128 159 d \<and> cont_bytes 1 s then 3 else 0)
      else if byte_in 225 239 c then (if byte_in 128 191 d \<and> cont_bytes 1 s then 3 else 0)
      else if byte_in 240 240 c then (if byte_in 144 191 d \<and> cont_bytes 2 s then 4 else 0)
      else if byte_in 241 243 c then (if byte_in 128 191 d \<and> cont_bytes 2 s then 4 else 0)
      else if byte_in 244 244 c then (if byte_in 128 143 d \<and> cont_bytes 2 s then 4 else 0)
      else 0)"

definition replacement_rune :: string where
  "replacement_rune = [char_of (239 :: nat), char_of (191 :: nat), char_of (189 :: nat)]"

function utf8_fix :: "string \<Rightarrow> string" where
  "utf8_fix [] = []"
| "utf8_fix (c # s) =
     (let n = rune_len (c # s)
      in if n = 0 then replacement_rune @ utf8_fix s
         else take n (c # s) @ utf8_fix (drop n (c # s)))"
  by pat_completeness auto
termination
  by (relation "measure length") auto

definition ascii :: "string \<Rightarrow> bool" where
  "ascii s = list_all (byte_in 0 127) s"

lemma rune_len_ascii: "byte_in 0 127 c \<Longrightarrow> rune_len (c # s) = 1"
  by (cases s) auto

text \<open>A string that \<open>encoding/json\<close> has written and read once is valid UTF-8 and does not change again.\<close>

lemma cont_bytes_take: "cont_bytes n s \<Longrightarrow> n \<le> length s \<and> cont_bytes n (take n s @ t)"
  by (induction n s rule: cont_bytes.induct) auto

lemma rune_len_le: "rune_len s \<le> length s"
proof (cases s rule: rune_len.cases)
  case (3 c d s)
  then show ?thesis using cont_bytes_take [of 1 s] cont_bytes_take [of 2 s] by auto
qed auto

lemma rune_len_2: "rune_len (c # d # s) = 2 \<Longrightarrow> rune_len (c # d # s') = 2"
  by (simp split: if_splits)

lemma rune_len_3: "rune_len (c # d # s) = 3 \<Longrightarrow> cont_bytes 1 s' \<Longrightarrow> rune_len (c # d # s') = 3"
  by (simp split: if_splits)

lemma rune_len_4: "rune_len (c # d # s) = 4 \<Longrightarrow> cont_bytes 2 s' \<Longrightarrow> rune_len (c # d # s') = 4"
  by (simp split: if_splits)

lemma rune_len_take:
  assumes "0 < rune_len s"
  shows "rune_len (take (rune_len s) s @ t) = rune_len s"
proof (cases s rule: rune_len.cases)
  case (2 c)
  with assms show ?thesis by (auto simp: rune_len_ascii split: if_splits)
next
  case (3 c d s')
  have one: "rune_len (c # xs) = Suc 0" if "byte_in 0 127 c" for xs
    using that by (simp add: rune_len_ascii)
  show ?thesis
  proof (cases "byte_in 0 127 c")
    case True
    with 3 show ?thesis by (simp add: one)
  next
    case False
    have "rune_len s = 2 \<or> rune_len s = 3 \<and> cont_bytes 1 s' \<or> rune_len s = 4 \<and> cont_bytes 2 s'"
      using assms False unfolding 3 by (simp split: if_splits)
    then show ?thesis
    proof (elim disjE conjE)
      assume n: "rune_len s = 2"
      have "take 2 s @ t = c # d # t" unfolding 3 by simp
      then show ?thesis using n rune_len_2 [of c d s' t] unfolding 3 by (metis 3)
    next
      assume n: "rune_len s = 3" and c: "cont_bytes 1 s'"
      have "take 3 s @ t = c # d # (take 1 s' @ t)" unfolding 3 by simp
      moreover have "cont_bytes 1 (take 1 s' @ t)" using cont_bytes_take [OF c] by blast
      ultimately show ?thesis
        using n rune_len_3 [of c d s' "take 1 s' @ t"] unfolding 3 by (metis 3)
    next
      assume n: "rune_len s = 4" and c: "cont_bytes 2 s'"
      have "take 4 s @ t = c # d # (take 2 s' @ t)" unfolding 3 by simp
      moreover have "cont_bytes 2 (take 2 s' @ t)" using cont_bytes_take [OF c] by blast
      ultimately show ?thesis
        using n rune_len_4 [of c d s' "take 2 s' @ t"] unfolding 3 by (metis 3)
    qed
  qed
qed (use assms in auto)

declare utf8_fix.simps [simp del]

lemma utf8_fix_nil [simp]: "utf8_fix [] = []"
  by (simp add: utf8_fix.simps)

lemma utf8_fix_unfold:
  "s \<noteq> [] \<Longrightarrow> utf8_fix s = (if rune_len s = 0 then replacement_rune @ utf8_fix (tl s)
     else take (rune_len s) s @ utf8_fix (drop (rune_len s) s))"
  by (cases s) (simp_all add: utf8_fix.simps Let_def)

lemma utf8_fix_ascii: "ascii s \<Longrightarrow> utf8_fix s = s"
  by (induction s) (auto simp: ascii_def rune_len_ascii utf8_fix_unfold)

lemma utf8_fix_rune:
  assumes "0 < rune_len s"
  shows "utf8_fix (take (rune_len s) s @ t) = take (rune_len s) s @ utf8_fix t"
proof -
  let ?n = "rune_len s"
  have len: "length (take ?n s) = ?n" using rune_len_le [of s] by simp
  with assms have "take ?n s @ t \<noteq> []" by auto
  from utf8_fix_unfold [OF this] show ?thesis
    using rune_len_take [OF assms, of t] len assms by simp
qed

lemma utf8_fix_replacement: "utf8_fix (replacement_rune @ t) = replacement_rune @ utf8_fix t"
proof -
  have "rune_len replacement_rune = 3" "length replacement_rune = 3"
    by (simp_all add: replacement_rune_def byte_in_def)
  then show ?thesis using utf8_fix_rune [of replacement_rune t] by simp
qed

lemma utf8_fix_idem [simp]: "utf8_fix (utf8_fix s) = utf8_fix s"
proof (induction s rule: utf8_fix.induct)
  case 1
  then show ?case by simp
next
  case (2 c s)
  show ?case
  proof (cases "rune_len (c # s) = 0")
    case True
    then show ?thesis using 2(1) [OF refl] by (simp add: utf8_fix_unfold utf8_fix_replacement)
  next
    case False
    then show ?thesis
      using 2(2) [OF refl] utf8_fix_rune [of "c # s"] by (simp add: utf8_fix_unfold)
  qed
qed

text \<open>\<open>encoding/json\<close> writes a \<open>[]byte\<close> as a string in the standard base64 alphabet.\<close>

definition base64_digit :: "nat \<Rightarrow> char" where
  "base64_digit i = ''ABCDEFGHIJKLMNOPQRSTUVWXYZabcdefghijklmnopqrstuvwxyz0123456789+/'' ! (i mod 64)"

fun base64 :: "string \<Rightarrow> string" where
  "base64 [] = []"
| "base64 [a] =
     (let x = of_char a in [base64_digit (x div 4), base64_digit (x mod 4 * 16), CHR ''='', CHR ''=''])"
| "base64 [a, b] =
     (let x = of_char a; y = of_char b
      in [base64_digit (x div 4), base64_digit (x mod 4 * 16 + y div 16),
          base64_digit (y mod 16 * 4), CHR ''=''])"
| "base64 (a # b # c # s) =
     (let x = of_char a; y = of_char b; z = of_char c
      in [base64_digit (x div 4), base64_digit (x mod 4 * 16 + y div 16),
          base64_digit (y mod 16 * 4 + z div 64), base64_digit z] @ base64 s)"

lemma base64_digit_ascii: "byte_in 0 127 (base64_digit i)"
proof -
  let ?s = "''ABCDEFGHIJKLMNOPQRSTUVWXYZabcdefghijklmnopqrstuvwxyz0123456789+/''"
  have "list_all (byte_in 0 127) ?s" by (simp add: byte_in_def)
  moreover have "i mod 64 < length ?s" by simp
  ultimately show ?thesis
    unfolding base64_digit_def by (simp only: list_all_length)
qed

lemma utf8_fix_base64 [simp]: "utf8_fix (base64 b) = base64 b"
proof -
  have "ascii (base64 b)"
    by (induction b rule: base64.induct)
      (simp_all add: ascii_def Let_def base64_digit_ascii byte_in_def [of _ _ "CHR ''=''"])
  then show ?thesis by (rule utf8_fix_ascii)
qed

definition jobject :: "(string \<times> gval option) list \<Rightarrow> gval option" where
  "jobject kvs =
     map_option (\<lambda>vs. VMap (mmerge [] (zip (map (utf8_fix \<circ> fst) kvs) vs))) (those (map snd kvs))"

definition json_int :: "int \<Rightarrow> gval option" where
  "json_int i = Some (VFloat (f64_of_int i))"

primrec json_rt :: "gval \<Rightarrow> gval option" where
  "json_rt VNil = Some VNil"
| "json_rt VMissing = Some (VMap [])"
| "json_rt (VBool b) = Some (VBool b)"
| "json_rt (VInt w) = Some (VFloat (f64_of_int (sint w)))"
| "json_rt (VNum k i) = Some (VFloat (f64_of_int i))"
| "json_rt (VFloat x) = (case x of Fin m e \<Rightarrow> Some (VFloat x) | _ \<Rightarrow> None)"
| "json_rt (VStr s) = Some (VStr (utf8_fix s))"
| "json_rt (VBytes b) = Some (VStr (base64 b))"
| "json_rt (VList vs) = map_option VList (those (map json_rt vs))"
| "json_rt (VMap m) = jobject (map (map_prod id json_rt) m)"
| "json_rt (VBoolMap m) = jobject (map (map_prod id (\<lambda>b. Some (VBool b))) m)"
| "json_rt (VIntMap m) = jobject (map (map_prod id json_int) m)"
| "json_rt (VIntMapMap m) = jobject (map (map_prod id (jobject \<circ> map (map_prod id json_int))) m)"
| "json_rt (VMapList ms) =
     map_option VList (those (map jobject (map (map (map_prod id json_rt)) ms)))"
| "json_rt (VStrs ss) = Some (VList (map (VStr \<circ> utf8_fix) ss))"
| "json_rt (VFloats xs) =
     (if list_all (\<lambda>x. case x of Fin m e \<Rightarrow> True | _ \<Rightarrow> False) xs then Some (VList (map VFloat xs)) else None)"
| "json_rt (VOverwrite v) = jobject [(''Value'', json_rt v)]"
| "json_rt (VType k) = Some (VMap [])"
| "json_rt (VZero z) =
     (case z of ZOverwrite \<Rightarrow> Some (VMap [(''Value'', VNil)]) | _ \<Rightarrow> Some (VMap []))"

end
