(* ===== verification/Channels.thy ===== *)
theory Channels
  imports GoValues
begin

text \<open>
  The channel types of \<open>graph/channels\<close>: one record per Go struct (embedding \<open>BaseChannel\<close>
  is record extension) and one definition per method. A method that may change its receiver
  returns the new receiver beside its result. \<open>LastValue\<close>, \<open>AnyValue\<close> and
  \<open>UntrackedValue\<close> have the same fields, hence the same record; what differs is their
  methods. The channel interface itself is the theory \<open>ChannelSum\<close>.
\<close>

section \<open>State\<close>

record base_channel =
  Key :: string
  Typ :: gval
  Version :: int

record value_channel = base_channel +
  cvalue :: gval

record ephemeral_channel = value_channel +
  guard :: bool

record binop_channel = value_channel +
  operator :: "gval \<Rightarrow> gval \<Rightarrow> gval"

record value_af_channel = value_channel +
  vfinished :: bool

record topic_channel = base_channel +
  cvalues :: "gval list"
  accumulate :: bool

record barrier_channel = base_channel +
  names :: "bool gomap"
  seen :: "bool gomap"

record barrier_af_channel = barrier_channel +
  bfinished :: bool

section \<open>BaseChannel\<close>

definition BaseChannel_GetKey :: "'a base_channel_scheme \<Rightarrow> string" where
  "BaseChannel_GetKey c = Key c"

definition BaseChannel_SetKey :: "'a base_channel_scheme \<Rightarrow> string \<Rightarrow> 'a base_channel_scheme" where
  "BaseChannel_SetKey c k = c\<lparr>Key := k\<rparr>"

definition BaseChannel_Consume :: "'a base_channel_scheme \<Rightarrow> bool \<times> 'a base_channel_scheme" where
  "BaseChannel_Consume c = (False, c)"

definition BaseChannel_Finish :: "'a base_channel_scheme \<Rightarrow> bool \<times> 'a base_channel_scheme" where
  "BaseChannel_Finish c = (False, c)"

definition BaseChannel_GetVersion :: "'a base_channel_scheme \<Rightarrow> int" where
  "BaseChannel_GetVersion c = Version c"

definition BaseChannel_SetVersion :: "'a base_channel_scheme \<Rightarrow> int \<Rightarrow> 'a base_channel_scheme" where
  "BaseChannel_SetVersion c v = c\<lparr>Version := v\<rparr>"

lemmas base_defs [op_defs] =
  BaseChannel_GetKey_def BaseChannel_SetKey_def BaseChannel_Consume_def BaseChannel_Finish_def
  BaseChannel_GetVersion_def BaseChannel_SetVersion_def

section \<open>LastValue\<close>

definition NewLastValue :: "gval \<Rightarrow> value_channel" where
  "NewLastValue typ = \<lparr>Key = [], Typ = typ, Version = 0, cvalue = VMissing\<rparr>"

definition LastValue_Get :: "value_channel \<Rightarrow> gval res" where
  "LastValue_Get c = (if IsMissing (cvalue c) then Inl EmptyChannelError else Inr (cvalue c))"

definition LastValue_IsAvailable :: "value_channel \<Rightarrow> bool" where
  "LastValue_IsAvailable c = (\<not> IsMissing (cvalue c))"

definition LastValue_Update :: "value_channel \<Rightarrow> gval list \<Rightarrow> bool res \<times> value_channel" where
  "LastValue_Update c vs =
     (if vs = [] then (Inr False, c)
      else if length vs \<noteq> 1 then (Inl (InvalidUpdateError (OneValuePerStep (Key c))), c)
      else (Inr True, c\<lparr>cvalue := last vs\<rparr>))"

definition LastValue_Copy :: "value_channel \<Rightarrow> value_channel" where
  "LastValue_Copy c = (NewLastValue (Typ c))\<lparr>Key := Key c, cvalue := cvalue c\<rparr>"

definition LastValue_Checkpoint :: "value_channel \<Rightarrow> gval" where
  "LastValue_Checkpoint c = cvalue c"

definition LastValue_FromCheckpoint :: "value_channel \<Rightarrow> gval \<Rightarrow> value_channel" where
  "LastValue_FromCheckpoint c cp =
     (let n = (NewLastValue (Typ c))\<lparr>Key := Key c\<rparr>
      in if \<not> IsMissing cp then n\<lparr>cvalue := cp\<rparr> else n)"

section \<open>AnyValue\<close>

definition NewAnyValue :: "gval \<Rightarrow> value_channel" where
  "NewAnyValue typ = \<lparr>Key = [], Typ = typ, Version = 0, cvalue = VMissing\<rparr>"

definition AnyValue_Get :: "value_channel \<Rightarrow> gval res" where
  "AnyValue_Get c = (if IsMissing (cvalue c) then Inl EmptyChannelError else Inr (cvalue c))"

definition AnyValue_IsAvailable :: "value_channel \<Rightarrow> bool" where
  "AnyValue_IsAvailable c = (\<not> IsMissing (cvalue c))"

definition AnyValue_Update :: "value_channel \<Rightarrow> gval list \<Rightarrow> bool res \<times> value_channel" where
  "AnyValue_Update c vs =
     (if vs = [] then (Inr False, c) else (Inr True, c\<lparr>cvalue := last vs\<rparr>))"

definition AnyValue_Copy :: "value_channel \<Rightarrow> value_channel" where
  "AnyValue_Copy c = (NewAnyValue (Typ c))\<lparr>Key := Key c, cvalue := cvalue c\<rparr>"

definition AnyValue_Checkpoint :: "value_channel \<Rightarrow> gval" where
  "AnyValue_Checkpoint c = cvalue c"

definition AnyValue_FromCheckpoint :: "value_channel \<Rightarrow> gval \<Rightarrow> value_channel" where
  "AnyValue_FromCheckpoint c cp =
     (let n = (NewAnyValue (Typ c))\<lparr>Key := Key c\<rparr>
      in if \<not> IsMissing cp then n\<lparr>cvalue := cp\<rparr> else n)"

section \<open>EphemeralValue\<close>

definition NewEphemeralValue :: "gval \<Rightarrow> bool \<Rightarrow> ephemeral_channel" where
  "NewEphemeralValue typ g =
     \<lparr>Key = [], Typ = typ, Version = 0, cvalue = VMissing, guard = g\<rparr>"

text \<open>Reading clears the value.\<close>

definition EphemeralValue_Get :: "ephemeral_channel \<Rightarrow> gval res \<times> ephemeral_channel" where
  "EphemeralValue_Get c =
     (if IsMissing (cvalue c) then
        (if guard c then (Inl EmptyChannelError, c) else (Inr VNil, c))
      else (Inr (cvalue c), c\<lparr>cvalue := VMissing\<rparr>))"

definition EphemeralValue_IsAvailable :: "ephemeral_channel \<Rightarrow> bool" where
  "EphemeralValue_IsAvailable c = (\<not> IsMissing (cvalue c))"

definition EphemeralValue_Update ::
    "ephemeral_channel \<Rightarrow> gval list \<Rightarrow> bool res \<times> ephemeral_channel" where
  "EphemeralValue_Update c vs =
     (if vs = [] then (Inr False, c) else (Inr True, c\<lparr>cvalue := last vs\<rparr>))"

definition EphemeralValue_Copy :: "ephemeral_channel \<Rightarrow> ephemeral_channel" where
  "EphemeralValue_Copy c =
     (NewEphemeralValue (Typ c) (guard c))\<lparr>Key := Key c, cvalue := cvalue c\<rparr>"

definition EphemeralValue_Checkpoint :: "ephemeral_channel \<Rightarrow> gval" where
  "EphemeralValue_Checkpoint c = cvalue c"

definition EphemeralValue_FromCheckpoint :: "ephemeral_channel \<Rightarrow> gval \<Rightarrow> ephemeral_channel" where
  "EphemeralValue_FromCheckpoint c cp =
     (let n = (NewEphemeralValue (Typ c) (guard c))\<lparr>Key := Key c\<rparr>
      in if \<not> IsMissing cp then n\<lparr>cvalue := cp\<rparr> else n)"

section \<open>UntrackedValue\<close>

definition NewUntrackedValue :: "gval \<Rightarrow> value_channel" where
  "NewUntrackedValue typ = \<lparr>Key = [], Typ = typ, Version = 0, cvalue = VMissing\<rparr>"

definition UntrackedValue_Get :: "value_channel \<Rightarrow> gval res" where
  "UntrackedValue_Get c = (if IsMissing (cvalue c) then Inl EmptyChannelError else Inr (cvalue c))"

definition UntrackedValue_IsAvailable :: "value_channel \<Rightarrow> bool" where
  "UntrackedValue_IsAvailable c = (\<not> IsMissing (cvalue c))"

definition UntrackedValue_Update :: "value_channel \<Rightarrow> gval list \<Rightarrow> bool res \<times> value_channel" where
  "UntrackedValue_Update c vs =
     (if vs = [] then (Inr False, c) else (Inr True, c\<lparr>cvalue := last vs\<rparr>))"

definition UntrackedValue_Copy :: "value_channel \<Rightarrow> value_channel" where
  "UntrackedValue_Copy c = (NewUntrackedValue (Typ c))\<lparr>Key := Key c\<rparr>"

definition UntrackedValue_Checkpoint :: "value_channel \<Rightarrow> gval" where
  "UntrackedValue_Checkpoint c = VMissing"

definition UntrackedValue_FromCheckpoint :: "value_channel \<Rightarrow> gval \<Rightarrow> value_channel" where
  "UntrackedValue_FromCheckpoint c cp = NewUntrackedValue (Typ c)"

section \<open>Topic\<close>

definition NewTopic :: "gval \<Rightarrow> bool \<Rightarrow> topic_channel" where
  "NewTopic typ acc = \<lparr>Key = [], Typ = typ, Version = 0, cvalues = [], accumulate = acc\<rparr>"

definition Topic_Get :: "topic_channel \<Rightarrow> gval res" where
  "Topic_Get c = (if cvalues c = [] then Inl EmptyChannelError else Inr (VList (cvalues c)))"

definition Topic_IsAvailable :: "topic_channel \<Rightarrow> bool" where
  "Topic_IsAvailable c = (cvalues c \<noteq> [])"

fun flatten :: "gval list \<Rightarrow> gval list" where
  "flatten [] = []"
| "flatten (VList xs # vs) = xs @ flatten vs"
| "flatten (v # vs) = v # flatten vs"

definition Topic_Update :: "topic_channel \<Rightarrow> gval list \<Rightarrow> bool res \<times> topic_channel" where
  "Topic_Update c vs =
     (let updated = (\<not> accumulate c \<and> cvalues c \<noteq> []);
          c1 = (if accumulate c then c else c\<lparr>cvalues := []\<rparr>);
          flat = flatten vs
      in if flat \<noteq> [] then (Inr True, c1\<lparr>cvalues := cvalues c1 @ flat\<rparr>)
         else (Inr updated, c1))"

definition Topic_Copy :: "topic_channel \<Rightarrow> topic_channel" where
  "Topic_Copy c = (NewTopic (Typ c) (accumulate c))\<lparr>Key := Key c, cvalues := cvalues c\<rparr>"

definition Topic_Checkpoint :: "topic_channel \<Rightarrow> gval" where
  "Topic_Checkpoint c = (if cvalues c = [] then VMissing else VList (cvalues c))"

definition Topic_FromCheckpoint :: "topic_channel \<Rightarrow> gval \<Rightarrow> topic_channel" where
  "Topic_FromCheckpoint c cp =
     (let n = (NewTopic (Typ c) (accumulate c))\<lparr>Key := Key c\<rparr>
      in case cp of VList vs \<Rightarrow> n\<lparr>cvalues := vs\<rparr> | _ \<Rightarrow> n)"

end
