(* ===== verification/ChannelAgg.thy ===== *)
theory ChannelAgg
  imports Channels
begin

text \<open>
  The aggregating channels: \<open>BinaryOperatorAggregate\<close> with its operators and zero values
  (\<open>binop.go\<close>), the built-in reducers (\<open>reducer.go\<close>, and the registry of \<open>graph/state.go\<close>)
  and the barrier and after-finish channels (\<open>barrier.go\<close>).
\<close>

section \<open>Zero values\<close>

text \<open>
  \<open>createZeroValue\<close> looks at the dynamic type of its argument. A \<open>reflect.Type\<close> descriptor
  is itself a pointer to a struct, so passing one yields a zero descriptor struct.
\<close>

fun createZeroValue :: "gval \<Rightarrow> gval" where
  "createZeroValue VNil = VMissing"
| "createZeroValue (VList _) = VList []"
| "createZeroValue (VMap _) = VMap []"
| "createZeroValue (VBoolMap _) = VBoolMap []"
| "createZeroValue (VIntMap _) = VIntMap []"
| "createZeroValue (VIntMapMap _) = VIntMapMap []"
| "createZeroValue (VMapList _) = VMapList []"
| "createZeroValue (VStrs _) = VStrs []"
| "createZeroValue (VFloats _) = VFloats []"
| "createZeroValue (VBytes _) = VBytes []"
| "createZeroValue (VBool _) = VBool False"
| "createZeroValue (VInt _) = VInt 0"
| "createZeroValue (VNum k _) = VNum k 0"
| "createZeroValue (VFloat _) = VFloat (Fin 0 0)"
| "createZeroValue (VStr _) = VStr []"
| "createZeroValue VMissing = VZero ZMissing"
| "createZeroValue (VOverwrite _) = VZero ZOverwrite"
| "createZeroValue (VType _) = VZero ZRtype"
| "createZeroValue (VZero z) = VZero z"

section \<open>BinaryOperatorAggregate\<close>

definition NewBinaryOperatorAggregate :: "gval \<Rightarrow> (gval \<Rightarrow> gval \<Rightarrow> gval) \<Rightarrow> binop_channel" where
  "NewBinaryOperatorAggregate typ f =
     \<lparr>Key = [], Typ = typ, Version = 0, cvalue = createZeroValue typ, operator = f\<rparr>"

definition BinOp_Get :: "binop_channel \<Rightarrow> gval res" where
  "BinOp_Get c = (if IsMissing (cvalue c) then Inl EmptyChannelError else Inr (cvalue c))"

definition BinOp_IsAvailable :: "binop_channel \<Rightarrow> bool" where
  "BinOp_IsAvailable c = (\<not> IsMissing (cvalue c))"

text \<open>
  The assertion \<open>value.(overwriter)\<close> asks for a method \<open>GetValue() interface{}\<close>. No type of
  the repository that can reach a channel declares one; in particular \<open>*types.Overwrite\<close>
  has a field \<open>Value\<close> and no method.
\<close>

fun GetValue_method :: "gval \<Rightarrow> gval option" where
  "GetValue_method _ = None"

definition overwrite_key :: string where
  "overwrite_key = ''__overwrite__''"

definition isOverwrite :: "gval \<Rightarrow> gval option" where
  "isOverwrite v =
     (if v = VNil then None
      else case GetValue_method v of Some w \<Rightarrow> Some w
        | None \<Rightarrow> (case v of VMap m \<Rightarrow> (if length m = 1 then mget m overwrite_key else None)
                  | _ \<Rightarrow> None))"

fun binop_loop :: "(gval \<Rightarrow> gval \<Rightarrow> gval) \<Rightarrow> gval list \<Rightarrow> bool \<Rightarrow> gval \<Rightarrow> bool res \<times> gval" where
  "binop_loop f [] seenOverwrite v = (Inr True, v)"
| "binop_loop f (x # xs) seenOverwrite v =
     (case isOverwrite x of
        Some w \<Rightarrow>
          if seenOverwrite then (Inl (InvalidUpdateError OneOverwritePerStep), v)
          else binop_loop f xs True w
      | None \<Rightarrow> binop_loop f xs seenOverwrite (if seenOverwrite then v else f v x))"

definition BinOp_Update :: "binop_channel \<Rightarrow> gval list \<Rightarrow> bool res \<times> binop_channel" where
  "BinOp_Update c vs =
     (if vs = [] then (Inr False, c)
      else
        let (v0, rest) = (if IsMissing (cvalue c) then (hd vs, tl vs) else (cvalue c, vs));
            (r, v) = binop_loop (operator c) rest False v0
        in (r, c\<lparr>cvalue := v\<rparr>))"

definition BinOp_Copy :: "binop_channel \<Rightarrow> binop_channel" where
  "BinOp_Copy c =
     (NewBinaryOperatorAggregate (Typ c) (operator c))\<lparr>Key := Key c, cvalue := cvalue c\<rparr>"

definition BinOp_Checkpoint :: "binop_channel \<Rightarrow> gval" where
  "BinOp_Checkpoint c = cvalue c"

definition BinOp_FromCheckpoint :: "binop_channel \<Rightarrow> gval \<Rightarrow> binop_channel" where
  "BinOp_FromCheckpoint c cp =
     (let n = (NewBinaryOperatorAggregate (Typ c) (operator c))\<lparr>Key := Key c\<rparr>
      in if \<not> IsMissing cp then n\<lparr>cvalue := cp\<rparr> else n)"

section \<open>Operators\<close>

fun digits_rev :: "nat \<Rightarrow> string" where
  "digits_rev n =
     char_of (48 + n mod 10) # (if n < 10 then [] else digits_rev (n div 10))"

declare digits_rev.simps [simp del]

definition show_int :: "int \<Rightarrow> string" where
  "show_int i = (if i < 0 then CHR ''-'' # rev (digits_rev (nat (- i))) else rev (digits_rev (nat i)))"

text \<open>
  \<open>fmt.Sprint\<close> and \<open>%v\<close> of one operand; floats, collections and pointers are printed by the
  argument \<open>fmt_other\<close>.
\<close>

definition go_sprint :: "(gval \<Rightarrow> string) \<Rightarrow> gval \<Rightarrow> string" where
  "go_sprint fmt_other v =
     (case v of VNil \<Rightarrow> ''<nil>'' | VMissing \<Rightarrow> ''<MISSING>''
      | VBool b \<Rightarrow> (if b then ''true'' else ''false'')
      | VInt w \<Rightarrow> show_int (sint w) | VNum k i \<Rightarrow> show_int i
      | VStr s \<Rightarrow> s | _ \<Rightarrow> fmt_other v)"

definition StringConcat :: "(gval \<Rightarrow> string) \<Rightarrow> gval \<Rightarrow> gval \<Rightarrow> gval" where
  "StringConcat fmt_other a b =
     (case (a, b) of (VStr sa, VStr sb) \<Rightarrow> VStr (sa @ sb)
      | _ \<Rightarrow> VStr (go_sprint fmt_other a @ go_sprint fmt_other b))"

definition IntAdd :: "gval \<Rightarrow> gval \<Rightarrow> gval" where
  "IntAdd a b =
     (case a of
        VInt ai \<Rightarrow> (case b of VInt bi \<Rightarrow> VInt (ai + bi) | _ \<Rightarrow> a)
      | VFloat af \<Rightarrow> (case b of VFloat bf \<Rightarrow> VFloat (f64_add af bf) | _ \<Rightarrow> a)
      | _ \<Rightarrow> a)"

definition ListAppend :: "gval \<Rightarrow> gval \<Rightarrow> gval" where
  "ListAppend a b =
     (case a of
        VList al \<Rightarrow> (case b of VList bl \<Rightarrow> VList (al @ bl) | _ \<Rightarrow> VList (al @ [b]))
      | _ \<Rightarrow> VList [a, b])"

section \<open>Reducers\<close>

definition AddReducer :: "gval \<Rightarrow> gval \<Rightarrow> gval" where
  "AddReducer c u =
     (case c of
        VNil \<Rightarrow> u
      | VInt ci \<Rightarrow> (case u of VInt ui \<Rightarrow> VInt (ci + ui) | _ \<Rightarrow> u)
      | VFloat cf \<Rightarrow> (case u of VFloat uf \<Rightarrow> VFloat (f64_add cf uf) | _ \<Rightarrow> u)
      | _ \<Rightarrow> u)"

definition AppendReducer :: "gval \<Rightarrow> gval \<Rightarrow> gval" where
  "AppendReducer c u =
     (case c of VNil \<Rightarrow> VList [u] | VList xs \<Rightarrow> VList (xs @ [u]) | _ \<Rightarrow> VList [c, u])"

definition MergeReducer :: "gval \<Rightarrow> gval \<Rightarrow> gval" where
  "MergeReducer c u =
     (case c of
        VNil \<Rightarrow> u
      | VMap a \<Rightarrow> (case u of VMap b \<Rightarrow> VMap (mmerge (mmerge [] a) b) | _ \<Rightarrow> u)
      | _ \<Rightarrow> u)"

text \<open>The merge operator \<open>CreateReducerChannel\<close> installs on a map field.\<close>

definition MapMergeOp :: "gval \<Rightarrow> gval \<Rightarrow> gval" where
  "MapMergeOp a b =
     (case a of
        VMap am \<Rightarrow> (case b of VMap bm \<Rightarrow> VMap (mmerge (mmerge [] am) bm) | _ \<Rightarrow> b)
      | _ \<Rightarrow> b)"

text \<open>The three entries of the tag registry \<open>reducers\<close> of \<open>graph/state.go\<close>.\<close>

definition state_reducer_add :: "gval \<Rightarrow> gval \<Rightarrow> gval" where
  "state_reducer_add c u =
     (case c of
        VNil \<Rightarrow> u
      | VInt ci \<Rightarrow> (case u of VInt ui \<Rightarrow> VInt (ci + ui) | _ \<Rightarrow> u)
      | VFloat cf \<Rightarrow> (case u of VFloat uf \<Rightarrow> VFloat (f64_add cf uf) | _ \<Rightarrow> u)
      | _ \<Rightarrow> u)"

definition state_reducer_append :: "gval \<Rightarrow> gval \<Rightarrow> gval" where
  "state_reducer_append c u =
     (case c of VNil \<Rightarrow> VList [u] | VList xs \<Rightarrow> VList (xs @ [u]) | _ \<Rightarrow> VList [c, u])"

definition state_reducer_merge :: "gval \<Rightarrow> gval \<Rightarrow> gval" where
  "state_reducer_merge c u =
     (case c of
        VNil \<Rightarrow> u
      | VMap a \<Rightarrow> (case u of VMap b \<Rightarrow> VMap (mmerge (mmerge [] a) b) | _ \<Rightarrow> u)
      | _ \<Rightarrow> u)"

definition reducers :: "string \<Rightarrow> (gval \<Rightarrow> gval \<Rightarrow> gval) option" where
  "reducers k =
     (if k = ''add'' then Some state_reducer_add
      else if k = ''append'' then Some state_reducer_append
      else if k = ''merge'' then Some state_reducer_merge else None)"

section \<open>NamedBarrierValue\<close>

definition names_of :: "string list \<Rightarrow> bool gomap" where
  "names_of ws = foldl (\<lambda>m w. mput w True m) [] ws"

definition NewNamedBarrierValue :: "gval \<Rightarrow> string list \<Rightarrow> barrier_channel" where
  "NewNamedBarrierValue typ waitFor =
     \<lparr>Key = [], Typ = typ, Version = 0, names = names_of waitFor, seen = []\<rparr>"

definition namesMatchSeen :: "bool gomap \<Rightarrow> bool gomap \<Rightarrow> bool" where
  "namesMatchSeen ns sn = (length ns = length sn \<and> list_all (mgetd False sn) (mkeys ns))"

definition Barrier_namesMatchSeen :: "'a barrier_channel_scheme \<Rightarrow> bool" where
  "Barrier_namesMatchSeen c = namesMatchSeen (names c) (seen c)"

definition Barrier_Get :: "barrier_channel \<Rightarrow> gval res" where
  "Barrier_Get c = (if \<not> Barrier_namesMatchSeen c then Inl EmptyChannelError else Inr VNil)"

definition Barrier_IsAvailable :: "barrier_channel \<Rightarrow> bool" where
  "Barrier_IsAvailable c = Barrier_namesMatchSeen c"

text \<open>The loop of both \<open>Update\<close> methods; names marked before a faulty value stay marked.\<close>

fun barrier_loop :: "bool gomap \<Rightarrow> gval list \<Rightarrow> bool \<Rightarrow> bool gomap \<Rightarrow> bool res \<times> bool gomap" where
  "barrier_loop ns [] updated sn = (Inr updated, sn)"
| "barrier_loop ns (VStr name # vs) updated sn =
     (if mhas ns name then
        (if \<not> mgetd False sn name then barrier_loop ns vs True (mput name True sn)
         else barrier_loop ns vs updated sn)
      else (Inl (InvalidUpdateError (UnexpectedName name)), sn))"
| "barrier_loop ns (v # vs) updated sn = (Inl (InvalidUpdateError (NotAString v)), sn)"

definition Barrier_Update :: "barrier_channel \<Rightarrow> gval list \<Rightarrow> bool res \<times> barrier_channel" where
  "Barrier_Update c vs =
     (if vs = [] then (Inr False, c)
      else let (r, sn) = barrier_loop (names c) vs False (seen c) in (r, c\<lparr>seen := sn\<rparr>))"

definition Barrier_Copy :: "barrier_channel \<Rightarrow> barrier_channel" where
  "Barrier_Copy c =
     (NewNamedBarrierValue (Typ c) [])\<lparr>Key := Key c, names := mmerge [] (names c),
                                       seen := mmerge [] (seen c)\<rparr>"

definition Barrier_Checkpoint :: "barrier_channel \<Rightarrow> gval" where
  "Barrier_Checkpoint c = (if seen c = [] then VMissing else VBoolMap (mmerge [] (seen c)))"

text \<open>The \<open>switch\<close> on the saved set: entries that are not booleans are dropped.\<close>

fun bool_entries :: "gval gomap \<Rightarrow> bool gomap \<Rightarrow> bool gomap" where
  "bool_entries [] m = m"
| "bool_entries ((k, VBool b) # kvs) m = bool_entries kvs (mput k b m)"
| "bool_entries (_ # kvs) m = bool_entries kvs m"

fun seen_of :: "gval \<Rightarrow> bool gomap" where
  "seen_of (VBoolMap m) = mmerge [] m"
| "seen_of (VMap m) = bool_entries m []"
| "seen_of _ = []"

definition Barrier_FromCheckpoint :: "barrier_channel \<Rightarrow> gval \<Rightarrow> barrier_channel" where
  "Barrier_FromCheckpoint c cp =
     (let n = (NewNamedBarrierValue (Typ c) [])\<lparr>Key := Key c, names := mmerge [] (names c)\<rparr>
      in if cp \<noteq> VNil \<and> \<not> IsMissing cp then n\<lparr>seen := seen_of cp\<rparr> else n)"

definition Barrier_Finish :: "barrier_channel \<Rightarrow> bool \<times> barrier_channel" where
  "Barrier_Finish c = (if seen c \<noteq> [] then (True, c\<lparr>seen := []\<rparr>) else (False, c))"

definition Barrier_Consume :: "barrier_channel \<Rightarrow> bool \<times> barrier_channel" where
  "Barrier_Consume c =
     (if Barrier_namesMatchSeen c \<and> seen c \<noteq> [] then (True, c\<lparr>seen := []\<rparr>) else (False, c))"

section \<open>NamedBarrierValueAfterFinish\<close>

definition NewNamedBarrierValueAfterFinish :: "gval \<Rightarrow> string list \<Rightarrow> barrier_af_channel" where
  "NewNamedBarrierValueAfterFinish typ waitFor =
     \<lparr>Key = [], Typ = typ, Version = 0, names = names_of waitFor, seen = [], bfinished = False\<rparr>"

definition BarrierAF_namesMatchSeen :: "barrier_af_channel \<Rightarrow> bool" where
  "BarrierAF_namesMatchSeen c = namesMatchSeen (names c) (seen c)"

definition BarrierAF_Get :: "barrier_af_channel \<Rightarrow> gval res" where
  "BarrierAF_Get c =
     (if \<not> bfinished c \<or> \<not> BarrierAF_namesMatchSeen c then Inl EmptyChannelError else Inr VNil)"

definition BarrierAF_IsAvailable :: "barrier_af_channel \<Rightarrow> bool" where
  "BarrierAF_IsAvailable c = (bfinished c \<and> BarrierAF_namesMatchSeen c)"

definition BarrierAF_Update ::
    "barrier_af_channel \<Rightarrow> gval list \<Rightarrow> bool res \<times> barrier_af_channel" where
  "BarrierAF_Update c vs =
     (if vs = [] then (Inr False, c)
      else let (r, sn) = barrier_loop (names c) vs False (seen c) in (r, c\<lparr>seen := sn\<rparr>))"

definition BarrierAF_Copy :: "barrier_af_channel \<Rightarrow> barrier_af_channel" where
  "BarrierAF_Copy c =
     (NewNamedBarrierValueAfterFinish (Typ c) [])\<lparr>Key := Key c, names := mmerge [] (names c),
        seen := mmerge [] (seen c), bfinished := bfinished c\<rparr>"

definition BarrierAF_Checkpoint :: "barrier_af_channel \<Rightarrow> gval" where
  "BarrierAF_Checkpoint c =
     (if seen c = [] \<and> \<not> bfinished c then VMissing
      else VMap [(''seen'', VBoolMap (seen c)), (''finished'', VBool (bfinished c))])"

definition BarrierAF_FromCheckpoint :: "barrier_af_channel \<Rightarrow> gval \<Rightarrow> barrier_af_channel" where
  "BarrierAF_FromCheckpoint c cp =
     (let n = (NewNamedBarrierValueAfterFinish (Typ c) [])\<lparr>Key := Key c,
                names := mmerge [] (names c)\<rparr>
      in case cp of
           VMap m \<Rightarrow>
             (let n1 = n\<lparr>seen := (case mget m ''seen'' of None \<Rightarrow> [] | Some v \<Rightarrow> seen_of v)\<rparr>
              in case mget m ''finished'' of Some (VBool b) \<Rightarrow> n1\<lparr>bfinished := b\<rparr> | _ \<Rightarrow> n1)
         | _ \<Rightarrow> n)"

definition BarrierAF_Finish :: "barrier_af_channel \<Rightarrow> bool \<times> barrier_af_channel" where
  "BarrierAF_Finish c =
     (if \<not> bfinished c \<and> BarrierAF_namesMatchSeen c then (True, c\<lparr>bfinished := True\<rparr>)
      else (False, c))"

definition BarrierAF_Consume :: "barrier_af_channel \<Rightarrow> bool \<times> barrier_af_channel" where
  "BarrierAF_Consume c =
     (if bfinished c \<and> BarrierAF_namesMatchSeen c \<and> seen c \<noteq> []
      then (True, c\<lparr>bfinished := False, seen := []\<rparr>) else (False, c))"

section \<open>LastValueAfterFinish\<close>

definition NewLastValueAfterFinish :: "gval \<Rightarrow> value_af_channel" where
  "NewLastValueAfterFinish typ =
     \<lparr>Key = [], Typ = typ, Version = 0, cvalue = VMissing, vfinished = False\<rparr>"

definition LastAF_Get :: "value_af_channel \<Rightarrow> gval res" where
  "LastAF_Get c =
     (if \<not> vfinished c then Inl EmptyChannelError
      else if IsMissing (cvalue c) then Inl EmptyChannelError else Inr (cvalue c))"

definition LastAF_IsAvailable :: "value_af_channel \<Rightarrow> bool" where
  "LastAF_IsAvailable c = (vfinished c \<and> \<not> IsMissing (cvalue c))"

definition LastAF_Update :: "value_af_channel \<Rightarrow> gval list \<Rightarrow> bool res \<times> value_af_channel" where
  "LastAF_Update c vs =
     (if vs = [] then (Inr False, c)
      else if 1 < length vs then (Inl (InvalidUpdateError (OneValuePerStep [])), c)
      else (Inr True, c\<lparr>cvalue := hd vs\<rparr>))"

definition LastAF_Copy :: "value_af_channel \<Rightarrow> value_af_channel" where
  "LastAF_Copy c =
     (NewLastValueAfterFinish (Typ c))\<lparr>Key := Key c, cvalue := cvalue c, vfinished := vfinished c\<rparr>"

definition LastAF_Checkpoint :: "value_af_channel \<Rightarrow> gval" where
  "LastAF_Checkpoint c = cvalue c"

definition LastAF_FromCheckpoint :: "value_af_channel \<Rightarrow> gval \<Rightarrow> value_af_channel" where
  "LastAF_FromCheckpoint c cp =
     (let n = (NewLastValueAfterFinish (Typ c))\<lparr>Key := Key c\<rparr>
      in if \<not> IsMissing cp then n\<lparr>cvalue := cp\<rparr> else n)"

definition LastAF_Finish :: "value_af_channel \<Rightarrow> bool \<times> value_af_channel" where
  "LastAF_Finish c = (if \<not> vfinished c then (True, c\<lparr>vfinished := True\<rparr>) else (False, c))"

definition LastAF_Consume :: "value_af_channel \<Rightarrow> bool \<times> value_af_channel" where
  "LastAF_Consume c = (False, c)"

end
