(* ===== verification/ChannelSum.thy ===== *)
theory ChannelSum
  imports ChannelAgg
begin

text \<open>
  The \<open>Channel\<close> interface as a sum over the channel types, with one dispatching definition
  per interface method, the \<open>ReducerChannel\<close> wrapper of \<open>reducer.go\<close>, and the contract of
  the interface as locales: \<open>readable_channel\<close> (availability and \<open>Get\<close> agree) and
  \<open>restorable_channel\<close> (a channel rebuilt from its checkpoint cannot be told apart from
  the original by any further sequence of calls). Every channel type of the code that
  keeps the contract is an interpretation; the two that break it have theorems that say how.
\<close>

section \<open>The sum type and its methods\<close>

datatype channel =
    LastValue value_channel
  | AnyValue value_channel
  | EphemeralValue ephemeral_channel
  | UntrackedValue value_channel
  | Topic topic_channel
  | BinaryOperatorAggregate binop_channel
  | NamedBarrierValue barrier_channel
  | NamedBarrierValueAfterFinish barrier_af_channel
  | LastValueAfterFinish value_af_channel
  | ReducerChannel channel "gval \<Rightarrow> gval \<Rightarrow> gval"

primrec chan_Get :: "channel \<Rightarrow> gval res \<times> channel" where
  "chan_Get (LastValue c) = (LastValue_Get c, LastValue c)"
| "chan_Get (AnyValue c) = (AnyValue_Get c, AnyValue c)"
| "chan_Get (EphemeralValue c) = (let (r, c') = EphemeralValue_Get c in (r, EphemeralValue c'))"
| "chan_Get (UntrackedValue c) = (UntrackedValue_Get c, UntrackedValue c)"
| "chan_Get (Topic c) = (Topic_Get c, Topic c)"
| "chan_Get (BinaryOperatorAggregate c) = (BinOp_Get c, BinaryOperatorAggregate c)"
| "chan_Get (NamedBarrierValue c) = (Barrier_Get c, NamedBarrierValue c)"
| "chan_Get (NamedBarrierValueAfterFinish c) = (BarrierAF_Get c, NamedBarrierValueAfterFinish c)"
| "chan_Get (LastValueAfterFinish c) = (LastAF_Get c, LastValueAfterFinish c)"
| "chan_Get (ReducerChannel ch f) = (let (r, ch') = chan_Get ch in (r, ReducerChannel ch' f))"

primrec chan_IsAvailable :: "channel \<Rightarrow> bool" where
  "chan_IsAvailable (LastValue c) = LastValue_IsAvailable c"
| "chan_IsAvailable (AnyValue c) = AnyValue_IsAvailable c"
| "chan_IsAvailable (EphemeralValue c) = EphemeralValue_IsAvailable c"
| "chan_IsAvailable (UntrackedValue c) = UntrackedValue_IsAvailable c"
| "chan_IsAvailable (Topic c) = Topic_IsAvailable c"
| "chan_IsAvailable (BinaryOperatorAggregate c) = BinOp_IsAvailable c"
| "chan_IsAvailable (NamedBarrierValue c) = Barrier_IsAvailable c"
| "chan_IsAvailable (NamedBarrierValueAfterFinish c) = BarrierAF_IsAvailable c"
| "chan_IsAvailable (LastValueAfterFinish c) = LastAF_IsAvailable c"
| "chan_IsAvailable (ReducerChannel ch f) = chan_IsAvailable ch"

text \<open>
  \<open>ReducerChannel.Update\<close>: the current value (if any) and the new values are folded with
  the reducer, and the wrapped channel receives the one result.
\<close>

definition reducer_combine :: "(gval \<Rightarrow> gval \<Rightarrow> gval) \<Rightarrow> gval res \<Rightarrow> gval list \<Rightarrow> gval" where
  "reducer_combine f current vs =
     foldl f (case current of Inr v \<Rightarrow> f v (hd vs) | Inl _ \<Rightarrow> hd vs) (tl vs)"

text \<open>How many reducers wrap a channel; reading does not change it.\<close>

primrec wraps :: "channel \<Rightarrow> nat" where
  "wraps (LastValue c) = 0"
| "wraps (AnyValue c) = 0"
| "wraps (EphemeralValue c) = 0"
| "wraps (UntrackedValue c) = 0"
| "wraps (Topic c) = 0"
| "wraps (BinaryOperatorAggregate c) = 0"
| "wraps (NamedBarrierValue c) = 0"
| "wraps (NamedBarrierValueAfterFinish c) = 0"
| "wraps (LastValueAfterFinish c) = 0"
| "wraps (ReducerChannel ch f) = Suc (wraps ch)"

lemma wraps_Get: "chan_Get ch = (r, ch') \<Longrightarrow> wraps ch' = wraps ch"
  by (induction ch arbitrary: r ch') (auto split: prod.splits)

function chan_Update :: "channel \<Rightarrow> gval list \<Rightarrow> bool res \<times> channel" where
  "chan_Update (LastValue c) vs = (let (r, c') = LastValue_Update c vs in (r, LastValue c'))"
| "chan_Update (AnyValue c) vs = (let (r, c') = AnyValue_Update c vs in (r, AnyValue c'))"
| "chan_Update (EphemeralValue c) vs =
     (let (r, c') = EphemeralValue_Update c vs in (r, EphemeralValue c'))"
| "chan_Update (UntrackedValue c) vs =
     (let (r, c') = UntrackedValue_Update c vs in (r, UntrackedValue c'))"
| "chan_Update (Topic c) vs = (let (r, c') = Topic_Update c vs in (r, Topic c'))"
| "chan_Update (BinaryOperatorAggregate c) vs =
     (let (r, c') = BinOp_Update c vs in (r, BinaryOperatorAggregate c'))"
| "chan_Update (NamedBarrierValue c) vs =
     (let (r, c') = Barrier_Update c vs in (r, NamedBarrierValue c'))"
| "chan_Update (NamedBarrierValueAfterFinish c) vs =
     (let (r, c') = BarrierAF_Update c vs in (r, NamedBarrierValueAfterFinish c'))"
| "chan_Update (LastValueAfterFinish c) vs =
     (let (r, c') = LastAF_Update c vs in (r, LastValueAfterFinish c'))"
| "chan_Update (ReducerChannel ch f) vs =
     (if vs = [] then (Inr False, ReducerChannel ch f)
      else case chan_Get ch of (cur, ch1) \<Rightarrow>
        (case chan_Update ch1 [reducer_combine f cur vs] of (r, ch2) \<Rightarrow>
           (r, ReducerChannel ch2 f)))"
  by pat_completeness auto
termination
  by (relation "measure (\<lambda>(ch, vs). wraps ch)") (auto dest!: wraps_Get [OF sym])

primrec chan_Copy :: "channel \<Rightarrow> channel" where
  "chan_Copy (LastValue c) = LastValue (LastValue_Copy c)"
| "chan_Copy (AnyValue c) = AnyValue (AnyValue_Copy c)"
| "chan_Copy (EphemeralValue c) = EphemeralValue (EphemeralValue_Copy c)"
| "chan_Copy (UntrackedValue c) = UntrackedValue (UntrackedValue_Copy c)"
| "chan_Copy (Topic c) = Topic (Topic_Copy c)"
| "chan_Copy (BinaryOperatorAggregate c) = BinaryOperatorAggregate (BinOp_Copy c)"
| "chan_Copy (NamedBarrierValue c) = NamedBarrierValue (Barrier_Copy c)"
| "chan_Copy (NamedBarrierValueAfterFinish c) = NamedBarrierValueAfterFinish (BarrierAF_Copy c)"
| "chan_Copy (LastValueAfterFinish c) = LastValueAfterFinish (LastAF_Copy c)"
| "chan_Copy (ReducerChannel ch f) = ReducerChannel (chan_Copy ch) f"

primrec chan_Checkpoint :: "channel \<Rightarrow> gval" where
  "chan_Checkpoint (LastValue c) = LastValue_Checkpoint c"
| "chan_Checkpoint (AnyValue c) = AnyValue_Checkpoint c"
| "chan_Checkpoint (EphemeralValue c) = EphemeralValue_Checkpoint c"
| "chan_Checkpoint (UntrackedValue c) = UntrackedValue_Checkpoint c"
| "chan_Checkpoint (Topic c) = Topic_Checkpoint c"
| "chan_Checkpoint (BinaryOperatorAggregate c) = BinOp_Checkpoint c"
| "chan_Checkpoint (NamedBarrierValue c) = Barrier_Checkpoint c"
| "chan_Checkpoint (NamedBarrierValueAfterFinish c) = BarrierAF_Checkpoint c"
| "chan_Checkpoint (LastValueAfterFinish c) = LastAF_Checkpoint c"
| "chan_Checkpoint (ReducerChannel ch f) = chan_Checkpoint ch"

primrec chan_FromCheckpoint :: "channel \<Rightarrow> gval \<Rightarrow> channel" where
  "chan_FromCheckpoint (LastValue c) cp = LastValue (LastValue_FromCheckpoint c cp)"
| "chan_FromCheckpoint (AnyValue c) cp = AnyValue (AnyValue_FromCheckpoint c cp)"
| "chan_FromCheckpoint (EphemeralValue c) cp = EphemeralValue (EphemeralValue_FromCheckpoint c cp)"
| "chan_FromCheckpoint (UntrackedValue c) cp = UntrackedValue (UntrackedValue_FromCheckpoint c cp)"
| "chan_FromCheckpoint (Topic c) cp = Topic (Topic_FromCheckpoint c cp)"
| "chan_FromCheckpoint (BinaryOperatorAggregate c) cp =
     BinaryOperatorAggregate (BinOp_FromCheckpoint c cp)"
| "chan_FromCheckpoint (NamedBarrierValue c) cp = NamedBarrierValue (Barrier_FromCheckpoint c cp)"
| "chan_FromCheckpoint (NamedBarrierValueAfterFinish c) cp =
     NamedBarrierValueAfterFinish (BarrierAF_FromCheckpoint c cp)"
| "chan_FromCheckpoint (LastValueAfterFinish c) cp =
     LastValueAfterFinish (LastAF_FromCheckpoint c cp)"
| "chan_FromCheckpoint (ReducerChannel ch f) cp = ReducerChannel (chan_FromCheckpoint ch cp) f"

primrec chan_Consume :: "channel \<Rightarrow> bool \<times> channel" where
  "chan_Consume (LastValue c) = map_prod id LastValue (BaseChannel_Consume c)"
| "chan_Consume (AnyValue c) = map_prod id AnyValue (BaseChannel_Consume c)"
| "chan_Consume (EphemeralValue c) = map_prod id EphemeralValue (BaseChannel_Consume c)"
| "chan_Consume (UntrackedValue c) = map_prod id UntrackedValue (BaseChannel_Consume c)"
| "chan_Consume (Topic c) = map_prod id Topic (BaseChannel_Consume c)"
| "chan_Consume (BinaryOperatorAggregate c) =
     map_prod id BinaryOperatorAggregate (BaseChannel_Consume c)"
| "chan_Consume (NamedBarrierValue c) = map_prod id NamedBarrierValue (Barrier_Consume c)"
| "chan_Consume (NamedBarrierValueAfterFinish c) =
     map_prod id NamedBarrierValueAfterFinish (BarrierAF_Consume c)"
| "chan_Consume (LastValueAfterFinish c) = map_prod id LastValueAfterFinish (LastAF_Consume c)"
| "chan_Consume (ReducerChannel ch f) = map_prod id (\<lambda>ch'. ReducerChannel ch' f) (chan_Consume ch)"

primrec chan_Finish :: "channel \<Rightarrow> bool \<times> channel" where
  "chan_Finish (LastValue c) = map_prod id LastValue (BaseChannel_Finish c)"
| "chan_Finish (AnyValue c) = map_prod id AnyValue (BaseChannel_Finish c)"
| "chan_Finish (EphemeralValue c) = map_prod id EphemeralValue (BaseChannel_Finish c)"
| "chan_Finish (UntrackedValue c) = map_prod id UntrackedValue (BaseChannel_Finish c)"
| "chan_Finish (Topic c) = map_prod id Topic (BaseChannel_Finish c)"
| "chan_Finish (BinaryOperatorAggregate c) =
     map_prod id BinaryOperatorAggregate (BaseChannel_Finish c)"
| "chan_Finish (NamedBarrierValue c) = map_prod id NamedBarrierValue (Barrier_Finish c)"
| "chan_Finish (NamedBarrierValueAfterFinish c) =
     map_prod id NamedBarrierValueAfterFinish (BarrierAF_Finish c)"
| "chan_Finish (LastValueAfterFinish c) = map_prod id LastValueAfterFinish (LastAF_Finish c)"
| "chan_Finish (ReducerChannel ch f) = map_prod id (\<lambda>ch'. ReducerChannel ch' f) (chan_Finish ch)"

primrec chan_GetVersion :: "channel \<Rightarrow> int" where
  "chan_GetVersion (LastValue c) = BaseChannel_GetVersion c"
| "chan_GetVersion (AnyValue c) = BaseChannel_GetVersion c"
| "chan_GetVersion (EphemeralValue c) = BaseChannel_GetVersion c"
| "chan_GetVersion (UntrackedValue c) = BaseChannel_GetVersion c"
| "chan_GetVersion (Topic c) = BaseChannel_GetVersion c"
| "chan_GetVersion (BinaryOperatorAggregate c) = BaseChannel_GetVersion c"
| "chan_GetVersion (NamedBarrierValue c) = BaseChannel_GetVersion c"
| "chan_GetVersion (NamedBarrierValueAfterFinish c) = BaseChannel_GetVersion c"
| "chan_GetVersion (LastValueAfterFinish c) = BaseChannel_GetVersion c"
| "chan_GetVersion (ReducerChannel ch f) = chan_GetVersion ch"

text \<open>
  \<open>SetVersion\<close> is not in the interface: the engine asks for it with the assertion
  \<open>ch.(interface{ SetVersion(int) })\<close>. It is promoted from an embedded struct, not through
  the embedded interface of a \<open>ReducerChannel\<close>, so there the assertion fails.
\<close>

fun chan_SetVersion :: "channel \<Rightarrow> int \<Rightarrow> channel option" where
  "chan_SetVersion (LastValue c) v = Some (LastValue (BaseChannel_SetVersion c v))"
| "chan_SetVersion (AnyValue c) v = Some (AnyValue (BaseChannel_SetVersion c v))"
| "chan_SetVersion (EphemeralValue c) v = Some (EphemeralValue (BaseChannel_SetVersion c v))"
| "chan_SetVersion (UntrackedValue c) v = Some (UntrackedValue (BaseChannel_SetVersion c v))"
| "chan_SetVersion (Topic c) v = Some (Topic (BaseChannel_SetVersion c v))"
| "chan_SetVersion (BinaryOperatorAggregate c) v =
     Some (BinaryOperatorAggregate (BaseChannel_SetVersion c v))"
| "chan_SetVersion (NamedBarrierValue c) v = Some (NamedBarrierValue (BaseChannel_SetVersion c v))"
| "chan_SetVersion (NamedBarrierValueAfterFinish c) v =
     Some (NamedBarrierValueAfterFinish (BaseChannel_SetVersion c v))"
| "chan_SetVersion (LastValueAfterFinish c) v =
     Some (LastValueAfterFinish (BaseChannel_SetVersion c v))"
| "chan_SetVersion (ReducerChannel ch f) v = None"

primrec chan_GetKey :: "channel \<Rightarrow> string" where
  "chan_GetKey (LastValue c) = BaseChannel_GetKey c"
| "chan_GetKey (AnyValue c) = BaseChannel_GetKey c"
| "chan_GetKey (EphemeralValue c) = BaseChannel_GetKey c"
| "chan_GetKey (UntrackedValue c) = BaseChannel_GetKey c"
| "chan_GetKey (Topic c) = BaseChannel_GetKey c"
| "chan_GetKey (BinaryOperatorAggregate c) = BaseChannel_GetKey c"
| "chan_GetKey (NamedBarrierValue c) = BaseChannel_GetKey c"
| "chan_GetKey (NamedBarrierValueAfterFinish c) = BaseChannel_GetKey c"
| "chan_GetKey (LastValueAfterFinish c) = BaseChannel_GetKey c"
| "chan_GetKey (ReducerChannel ch f) = chan_GetKey ch"

primrec chan_SetKey :: "channel \<Rightarrow> string \<Rightarrow> channel" where
  "chan_SetKey (LastValue c) k = LastValue (BaseChannel_SetKey c k)"
| "chan_SetKey (AnyValue c) k = AnyValue (BaseChannel_SetKey c k)"
| "chan_SetKey (EphemeralValue c) k = EphemeralValue (BaseChannel_SetKey c k)"
| "chan_SetKey (UntrackedValue c) k = UntrackedValue (BaseChannel_SetKey c k)"
| "chan_SetKey (Topic c) k = Topic (BaseChannel_SetKey c k)"
| "chan_SetKey (BinaryOperatorAggregate c) k = BinaryOperatorAggregate (BaseChannel_SetKey c k)"
| "chan_SetKey (NamedBarrierValue c) k = NamedBarrierValue (BaseChannel_SetKey c k)"
| "chan_SetKey (NamedBarrierValueAfterFinish c) k =
     NamedBarrierValueAfterFinish (BaseChannel_SetKey c k)"
| "chan_SetKey (LastValueAfterFinish c) k = LastValueAfterFinish (BaseChannel_SetKey c k)"
| "chan_SetKey (ReducerChannel ch f) k = ReducerChannel (chan_SetKey ch k) f"

section \<open>CreateReducerChannel\<close>

definition zero_of_kind :: "rkind \<Rightarrow> gval" where
  "zero_of_kind k =
     (if k = KInt then VInt 0 else if k = KFloat64 then VFloat (Fin 0 0) else VNum k 0)"

definition numeric_kinds :: "rkind list" where
  "numeric_kinds = [KInt, KInt8, KInt16, KInt32, KInt64, KUint, KUint8, KUint16, KUint32, KUint64,
     KFloat32, KFloat64]"

definition CreateReducerChannel ::
    "string \<Rightarrow> rkind \<Rightarrow> (gval \<Rightarrow> gval \<Rightarrow> gval) option \<Rightarrow> channel" where
  "CreateReducerChannel fieldName kind reducer =
     (let ch =
        (if kind = KSlice \<or> kind = KArray then
           BinaryOperatorAggregate (NewBinaryOperatorAggregate (VType kind) ListAppend)
         else if kind = KMap then
           BinaryOperatorAggregate (NewBinaryOperatorAggregate (VType kind) MapMergeOp)
         else if kind \<in> set numeric_kinds then
           BinaryOperatorAggregate (NewBinaryOperatorAggregate (zero_of_kind kind) IntAdd)
         else LastValue (NewLastValue (VType kind)));
        ch = chan_SetKey ch fieldName
      in case reducer of Some f \<Rightarrow> ReducerChannel ch f | None \<Rightarrow> ch)"

end
