(* ===== verification/ChannelContract.thy ===== *)
theory ChannelContract
  imports ChannelSum
begin

text \<open>
  The contract of the \<open>Channel\<close> interface. \<open>readable_channel\<close>: a channel is available
  exactly when \<open>Get\<close> succeeds, and a failing \<open>Get\<close> leaves it alone. \<open>restorable_channel\<close>:
  no method looks at the version counter (\<open>norm\<close> forgets it), and a channel rebuilt from a
  checkpoint is the checkpointed one up to that counter; it follows that no sequence of
  calls tells the two apart. The contract is interpreted on each channel type that keeps
  it, and from these on the sum type.
\<close>

section \<open>Sequences of calls\<close>

datatype chan_call = CGet | CUpdate "gval list" | CConsume | CFinish

datatype chan_answer = AGet "gval res" | AUpdate "bool res" | AFlag bool

fun run_calls ::
    "('c \<Rightarrow> gval res \<times> 'c) \<Rightarrow> ('c \<Rightarrow> gval list \<Rightarrow> bool res \<times> 'c) \<Rightarrow> ('c \<Rightarrow> bool \<times> 'c) \<Rightarrow>
     ('c \<Rightarrow> bool \<times> 'c) \<Rightarrow> 'c \<Rightarrow> chan_call list \<Rightarrow> chan_answer list" where
  "run_calls get upd con fin c [] = []"
| "run_calls get upd con fin c (CGet # cs) =
     (case get c of (r, c') \<Rightarrow> AGet r # run_calls get upd con fin c' cs)"
| "run_calls get upd con fin c (CUpdate vs # cs) =
     (case upd c vs of (r, c') \<Rightarrow> AUpdate r # run_calls get upd con fin c' cs)"
| "run_calls get upd con fin c (CConsume # cs) =
     (case con c of (b, c') \<Rightarrow> AFlag b # run_calls get upd con fin c' cs)"
| "run_calls get upd con fin c (CFinish # cs) =
     (case fin c of (b, c') \<Rightarrow> AFlag b # run_calls get upd con fin c' cs)"

section \<open>The locales\<close>

locale readable_channel =
  fixes get :: "'c \<Rightarrow> gval res \<times> 'c"
    and avail :: "'c \<Rightarrow> bool"
    and ok :: "'c \<Rightarrow> bool"
  assumes get_available: "ok c \<Longrightarrow> avail c \<Longrightarrow> \<exists>v. fst (get c) = Inr v"
    and get_unavailable: "ok c \<Longrightarrow> \<not> avail c \<Longrightarrow> get c = (Inl EmptyChannelError, c)"
begin

lemma available_iff_get: "ok c \<Longrightarrow> avail c \<longleftrightarrow> (\<exists>v. fst (get c) = Inr v)"
  using get_available [of c] get_unavailable [of c] by (cases "avail c") auto

lemma get_only_error: "ok c \<Longrightarrow> fst (get c) = Inl e \<Longrightarrow> e = EmptyChannelError"
  using get_available [of c] get_unavailable [of c] by (cases "avail c") auto

end

locale restorable_channel =
  fixes get :: "'c \<Rightarrow> gval res \<times> 'c"
    and upd :: "'c \<Rightarrow> gval list \<Rightarrow> bool res \<times> 'c"
    and con :: "'c \<Rightarrow> bool \<times> 'c"
    and fin :: "'c \<Rightarrow> bool \<times> 'c"
    and ckpt :: "'c \<Rightarrow> gval"
    and restore :: "'c \<Rightarrow> gval \<Rightarrow> 'c"
    and norm :: "'c \<Rightarrow> 'c"
    and compat :: "'c \<Rightarrow> 'c \<Rightarrow> bool"
    and ok :: "'c \<Rightarrow> bool"
  assumes get_norm: "get (norm c) = map_prod id norm (get c)"
    and upd_norm: "upd (norm c) vs = map_prod id norm (upd c vs)"
    and con_norm: "con (norm c) = map_prod id norm (con c)"
    and fin_norm: "fin (norm c) = map_prod id norm (fin c)"
    and restore_norm: "ok c \<Longrightarrow> compat c0 c \<Longrightarrow> norm (restore c0 (ckpt c)) = norm c"
begin

lemma run_calls_norm: "run_calls get upd con fin (norm c) cs = run_calls get upd con fin c cs"
proof (induction cs arbitrary: c)
  case Nil
  then show ?case by simp
next
  case (Cons call cs)
  then show ?case
    by (cases call)
      (auto simp: get_norm upd_norm con_norm fin_norm split: prod.splits)
qed

lemma same_norm_same_calls:
  assumes "norm c = norm d"
  shows "run_calls get upd con fin c cs = run_calls get upd con fin d cs"
  using run_calls_norm [of c cs] run_calls_norm [of d cs] assms by simp

lemma restore_unobservable:
  assumes "ok c" and "compat c0 c"
  shows "run_calls get upd con fin (restore c0 (ckpt c)) cs = run_calls get upd con fin c cs"
  using restore_norm [OF assms] by (rule same_norm_same_calls)

end

locale channel_contract =
  readable_channel get avail ok +
  restorable_channel get upd con fin ckpt restore norm compat ok
  for get :: "'c \<Rightarrow> gval res \<times> 'c" and avail :: "'c \<Rightarrow> bool"
    and upd :: "'c \<Rightarrow> gval list \<Rightarrow> bool res \<times> 'c"
    and con :: "'c \<Rightarrow> bool \<times> 'c" and fin :: "'c \<Rightarrow> bool \<times> 'c"
    and ckpt :: "'c \<Rightarrow> gval" and restore :: "'c \<Rightarrow> gval \<Rightarrow> 'c"
    and norm :: "'c \<Rightarrow> 'c" and compat :: "'c \<Rightarrow> 'c \<Rightarrow> bool" and ok :: "'c \<Rightarrow> bool"
begin

lemma restored_available:
  assumes "ok c" and "ok (restore c0 (ckpt c))" and "compat c0 c"
  shows "avail (restore c0 (ckpt c)) \<longleftrightarrow> avail c"
proof -
  have "run_calls get upd con fin (restore c0 (ckpt c)) [CGet] = run_calls get upd con fin c [CGet]"
    using assms(1,3) by (rule restore_unobservable)
  then have "fst (get (restore c0 (ckpt c))) = fst (get c)"
    by (simp split: prod.splits)
  then show ?thesis using assms(1,2) by (simp add: available_iff_get)
qed

end

section \<open>Configuration, version and well-formedness of each type\<close>

definition unversioned :: "'a base_channel_scheme \<Rightarrow> 'a base_channel_scheme" where
  "unversioned c = c\<lparr>Version := 0\<rparr>"

definition same_base :: "'a base_channel_scheme \<Rightarrow> 'a base_channel_scheme \<Rightarrow> bool" where
  "same_base c0 c = (Key c0 = Key c \<and> Typ c0 = Typ c)"

definition ephemeral_compat :: "ephemeral_channel \<Rightarrow> ephemeral_channel \<Rightarrow> bool" where
  "ephemeral_compat c0 c = (same_base c0 c \<and> guard c0 = guard c)"

definition topic_compat :: "topic_channel \<Rightarrow> topic_channel \<Rightarrow> bool" where
  "topic_compat c0 c = (same_base c0 c \<and> accumulate c0 = accumulate c)"

definition binop_compat :: "binop_channel \<Rightarrow> binop_channel \<Rightarrow> bool" where
  "binop_compat c0 c = (same_base c0 c \<and> operator c0 = operator c)"

definition binop_ok :: "binop_channel \<Rightarrow> bool" where
  "binop_ok c = (IsMissing (cvalue c) \<longrightarrow> createZeroValue (Typ c) = VMissing)"

definition barrier_compat :: "'a barrier_channel_scheme \<Rightarrow> 'a barrier_channel_scheme \<Rightarrow> bool" where
  "barrier_compat c0 c = (same_base c0 c \<and> names c0 = names c)"

definition barrier_ok :: "'a barrier_channel_scheme \<Rightarrow> bool" where
  "barrier_ok c = (mwf (names c) \<and> mwf (seen c))"

lemmas config_defs =
  unversioned_def same_base_def ephemeral_compat_def topic_compat_def binop_compat_def binop_ok_def
  barrier_compat_def barrier_ok_def

lemmas value_defs =
  NewLastValue_def LastValue_Get_def LastValue_IsAvailable_def LastValue_Update_def
  LastValue_Copy_def LastValue_Checkpoint_def LastValue_FromCheckpoint_def
  NewAnyValue_def AnyValue_Get_def AnyValue_IsAvailable_def AnyValue_Update_def
  AnyValue_Copy_def AnyValue_Checkpoint_def AnyValue_FromCheckpoint_def
  NewUntrackedValue_def UntrackedValue_Get_def UntrackedValue_IsAvailable_def
  UntrackedValue_Update_def UntrackedValue_Copy_def UntrackedValue_Checkpoint_def
  UntrackedValue_FromCheckpoint_def

lemmas ephemeral_defs =
  NewEphemeralValue_def EphemeralValue_Get_def EphemeralValue_IsAvailable_def
  EphemeralValue_Update_def EphemeralValue_Copy_def EphemeralValue_Checkpoint_def
  EphemeralValue_FromCheckpoint_def

lemmas topic_defs =
  NewTopic_def Topic_Get_def Topic_IsAvailable_def Topic_Update_def Topic_Copy_def
  Topic_Checkpoint_def Topic_FromCheckpoint_def

lemmas binop_defs =
  NewBinaryOperatorAggregate_def BinOp_Get_def BinOp_IsAvailable_def BinOp_Update_def
  BinOp_Copy_def BinOp_Checkpoint_def BinOp_FromCheckpoint_def

lemmas barrier_defs =
  NewNamedBarrierValue_def Barrier_namesMatchSeen_def Barrier_Get_def Barrier_IsAvailable_def
  Barrier_Update_def Barrier_Copy_def Barrier_Checkpoint_def Barrier_FromCheckpoint_def
  Barrier_Finish_def Barrier_Consume_def

lemmas barrier_af_defs =
  NewNamedBarrierValueAfterFinish_def BarrierAF_namesMatchSeen_def BarrierAF_Get_def
  BarrierAF_IsAvailable_def BarrierAF_Update_def BarrierAF_Copy_def BarrierAF_Checkpoint_def
  BarrierAF_FromCheckpoint_def BarrierAF_Finish_def BarrierAF_Consume_def

lemmas last_af_defs =
  NewLastValueAfterFinish_def LastAF_Get_def LastAF_IsAvailable_def LastAF_Update_def
  LastAF_Copy_def LastAF_Checkpoint_def LastAF_FromCheckpoint_def LastAF_Finish_def
  LastAF_Consume_def

section \<open>Interpretations on the channel types\<close>

interpretation lv: channel_contract "\<lambda>c. (LastValue_Get c, c)" LastValue_IsAvailable
  LastValue_Update BaseChannel_Consume BaseChannel_Finish LastValue_Checkpoint
  LastValue_FromCheckpoint unversioned same_base "\<lambda>_. True"
  by unfold_locales (auto simp: value_defs base_defs config_defs IsMissing_def Let_def)

interpretation av: channel_contract "\<lambda>c. (AnyValue_Get c, c)" AnyValue_IsAvailable
  AnyValue_Update BaseChannel_Consume BaseChannel_Finish AnyValue_Checkpoint
  AnyValue_FromCheckpoint unversioned same_base "\<lambda>_. True"
  by unfold_locales (auto simp: value_defs base_defs config_defs IsMissing_def Let_def)

interpretation ev: channel_contract EphemeralValue_Get EphemeralValue_IsAvailable
  EphemeralValue_Update BaseChannel_Consume BaseChannel_Finish EphemeralValue_Checkpoint
  EphemeralValue_FromCheckpoint unversioned ephemeral_compat guard
  by unfold_locales (auto simp: ephemeral_defs base_defs config_defs IsMissing_def Let_def)

interpretation tp: channel_contract "\<lambda>c. (Topic_Get c, c)" Topic_IsAvailable
  Topic_Update BaseChannel_Consume BaseChannel_Finish Topic_Checkpoint
  Topic_FromCheckpoint unversioned topic_compat "\<lambda>_. True"
  by unfold_locales (auto simp: topic_defs base_defs config_defs Let_def)

interpretation bo: channel_contract "\<lambda>c. (BinOp_Get c, c)" BinOp_IsAvailable
  BinOp_Update BaseChannel_Consume BaseChannel_Finish BinOp_Checkpoint
  BinOp_FromCheckpoint unversioned binop_compat binop_ok
  by unfold_locales
    (auto simp: binop_defs base_defs config_defs IsMissing_def Let_def split: prod.splits)

interpretation nb: channel_contract "\<lambda>c. (Barrier_Get c, c)" Barrier_IsAvailable
  Barrier_Update Barrier_Consume Barrier_Finish Barrier_Checkpoint
  Barrier_FromCheckpoint unversioned barrier_compat barrier_ok
  by unfold_locales
    (auto simp: barrier_defs base_defs config_defs IsMissing_def Let_def split: prod.splits)

interpretation nf: channel_contract "\<lambda>c. (BarrierAF_Get c, c)" BarrierAF_IsAvailable
  BarrierAF_Update BarrierAF_Consume BarrierAF_Finish BarrierAF_Checkpoint
  BarrierAF_FromCheckpoint unversioned barrier_compat barrier_ok
  by unfold_locales
    (auto simp: barrier_af_defs base_defs config_defs IsMissing_def Let_def split: prod.splits)

section \<open>The sum type\<close>

primrec chan_norm :: "channel \<Rightarrow> channel" where
  "chan_norm (LastValue c) = LastValue (unversioned c)"
| "chan_norm (AnyValue c) = AnyValue (unversioned c)"
| "chan_norm (EphemeralValue c) = EphemeralValue (unversioned c)"
| "chan_norm (UntrackedValue c) = UntrackedValue (unversioned c)"
| "chan_norm (Topic c) = Topic (unversioned c)"
| "chan_norm (BinaryOperatorAggregate c) = BinaryOperatorAggregate (unversioned c)"
| "chan_norm (NamedBarrierValue c) = NamedBarrierValue (unversioned c)"
| "chan_norm (NamedBarrierValueAfterFinish c) = NamedBarrierValueAfterFinish (unversioned c)"
| "chan_norm (LastValueAfterFinish c) = LastValueAfterFinish (unversioned c)"
| "chan_norm (ReducerChannel ch f) = ReducerChannel (chan_norm ch) f"

text \<open>
  \<open>chan_compat c0 c\<close>: the channel \<open>c0\<close> (say, the copy a new run makes of the graph's channel)
  has the type and the configuration of \<open>c\<close>.
\<close>

primrec chan_compat :: "channel \<Rightarrow> channel \<Rightarrow> bool" where
  "chan_compat (LastValue c0) ch = (case ch of LastValue c \<Rightarrow> same_base c0 c | _ \<Rightarrow> False)"
| "chan_compat (AnyValue c0) ch = (case ch of AnyValue c \<Rightarrow> same_base c0 c | _ \<Rightarrow> False)"
| "chan_compat (EphemeralValue c0) ch =
     (case ch of EphemeralValue c \<Rightarrow> ephemeral_compat c0 c | _ \<Rightarrow> False)"
| "chan_compat (UntrackedValue c0) ch = (case ch of UntrackedValue c \<Rightarrow> same_base c0 c | _ \<Rightarrow> False)"
| "chan_compat (Topic c0) ch = (case ch of Topic c \<Rightarrow> topic_compat c0 c | _ \<Rightarrow> False)"
| "chan_compat (BinaryOperatorAggregate c0) ch =
     (case ch of BinaryOperatorAggregate c \<Rightarrow> binop_compat c0 c | _ \<Rightarrow> False)"
| "chan_compat (NamedBarrierValue c0) ch =
     (case ch of NamedBarrierValue c \<Rightarrow> barrier_compat c0 c | _ \<Rightarrow> False)"
| "chan_compat (NamedBarrierValueAfterFinish c0) ch =
     (case ch of NamedBarrierValueAfterFinish c \<Rightarrow> barrier_compat c0 c | _ \<Rightarrow> False)"
| "chan_compat (LastValueAfterFinish c0) ch =
     (case ch of LastValueAfterFinish c \<Rightarrow> same_base c0 c | _ \<Rightarrow> False)"
| "chan_compat (ReducerChannel ch0 f) ch =
     (case ch of ReducerChannel c g \<Rightarrow> chan_compat ch0 c \<and> f = g | _ \<Rightarrow> False)"

text \<open>
  The channels that keep the contract: every type but \<open>UntrackedValue\<close> and
  \<open>LastValueAfterFinish\<close>, an \<open>EphemeralValue\<close> only when it is guarded.
\<close>

primrec chan_ok :: "channel \<Rightarrow> bool" where
  "chan_ok (LastValue c) = True"
| "chan_ok (AnyValue c) = True"
| "chan_ok (EphemeralValue c) = guard c"
| "chan_ok (UntrackedValue c) = False"
| "chan_ok (Topic c) = True"
| "chan_ok (BinaryOperatorAggregate c) = binop_ok c"
| "chan_ok (NamedBarrierValue c) = barrier_ok c"
| "chan_ok (NamedBarrierValueAfterFinish c) = barrier_ok c"
| "chan_ok (LastValueAfterFinish c) = False"
| "chan_ok (ReducerChannel ch f) = chan_ok ch"

lemma untracked_norms:
  "UntrackedValue_Get (unversioned c) = UntrackedValue_Get c"
  "UntrackedValue_Update (unversioned c) vs = map_prod id unversioned (UntrackedValue_Update c vs)"
  by (auto simp: value_defs config_defs)

lemma last_af_norms:
  "LastAF_Get (unversioned c) = LastAF_Get c"
  "LastAF_Update (unversioned c) vs = map_prod id unversioned (LastAF_Update c vs)"
  "LastAF_Consume (unversioned c) = map_prod id unversioned (LastAF_Consume c)"
  "LastAF_Finish (unversioned c) = map_prod id unversioned (LastAF_Finish c)"
  by (auto simp: last_af_defs config_defs)

lemma base_norms:
  "BaseChannel_Consume (unversioned c) = map_prod id unversioned (BaseChannel_Consume c)"
  "BaseChannel_Finish (unversioned c) = map_prod id unversioned (BaseChannel_Finish c)"
  by (auto simp: base_defs config_defs)

lemmas get_norms = lv.get_norm av.get_norm ev.get_norm tp.get_norm bo.get_norm nb.get_norm
  nf.get_norm untracked_norms(1) last_af_norms(1)

lemmas upd_norms = lv.upd_norm av.upd_norm ev.upd_norm tp.upd_norm bo.upd_norm nb.upd_norm
  nf.upd_norm untracked_norms(2) last_af_norms(2)

lemmas restore_norms = lv.restore_norm av.restore_norm ev.restore_norm tp.restore_norm
  bo.restore_norm nb.restore_norm nf.restore_norm

lemma chan_Get_norm: "chan_Get (chan_norm c) = map_prod id chan_norm (chan_Get c)"
  by (induction c) (use get_norms in \<open>auto split: prod.splits\<close>)

lemma chan_Update_norm: "chan_Update (chan_norm c) vs = map_prod id chan_norm (chan_Update c vs)"
proof (induction c vs rule: chan_Update.induct)
  case (10 ch f vs)
  show ?case
  proof (cases "vs = []")
    case True
    then show ?thesis by simp
  next
    case False
    obtain cur ch1 where g: "chan_Get ch = (cur, ch1)" by fastforce
    have "chan_Get (chan_norm ch) = (cur, chan_norm ch1)"
      by (simp add: chan_Get_norm g)
    then show ?thesis
      using False g 10 [OF False g [symmetric]] by (auto split: prod.splits)
  qed
qed (use upd_norms in \<open>auto split: prod.splits\<close>)

lemma chan_Consume_norm: "chan_Consume (chan_norm c) = map_prod id chan_norm (chan_Consume c)"
  by (induction c)
    (simp_all add: base_norms nb.con_norm nf.con_norm last_af_norms prod.map_comp o_def)

lemma chan_Finish_norm: "chan_Finish (chan_norm c) = map_prod id chan_norm (chan_Finish c)"
  by (induction c)
    (simp_all add: base_norms nb.fin_norm nf.fin_norm last_af_norms prod.map_comp o_def)

lemma chan_restore_norm:
  "chan_ok c \<Longrightarrow> chan_compat c0 c \<Longrightarrow> chan_norm (chan_FromCheckpoint c0 (chan_Checkpoint c)) = chan_norm c"
  by (induction c arbitrary: c0) (case_tac c0; use restore_norms in auto)+

lemma chan_readable:
  "chan_ok c \<Longrightarrow>
     (chan_IsAvailable c \<longrightarrow> (\<exists>v. fst (chan_Get c) = Inr v)) \<and>
     (\<not> chan_IsAvailable c \<longrightarrow> chan_Get c = (Inl EmptyChannelError, c))"
proof (induction c)
  case (EphemeralValue c)
  then show ?case
    using ev.get_available [of c] ev.get_unavailable [of c] by (auto split: prod.splits)
qed (use lv.get_available lv.get_unavailable av.get_available av.get_unavailable
    tp.get_available tp.get_unavailable bo.get_available bo.get_unavailable
    nb.get_available nb.get_unavailable nf.get_available nf.get_unavailable
    in \<open>auto split: prod.splits\<close>)

interpretation ch: channel_contract chan_Get chan_IsAvailable chan_Update chan_Consume chan_Finish
  chan_Checkpoint chan_FromCheckpoint chan_norm chan_compat chan_ok
  by unfold_locales
    (use chan_readable in \<open>auto simp: chan_Get_norm chan_Update_norm chan_Consume_norm
       chan_Finish_norm chan_restore_norm\<close>)

end
