(* ===== verification/ChannelProps.thy ===== *)
theory ChannelProps
  imports ChannelContract
begin

text \<open>
  What the channel types do: the functional behaviour of the aggregating channels on every
  branch of \<open>Update\<close>, the barrier's release condition, and the cases in which a channel
  does not do what its comment says.
\<close>

section \<open>Barriers\<close>

text \<open>The set of names received so far, as the map the code keeps.\<close>

definition received :: "bool gomap \<Rightarrow> string set \<Rightarrow> bool" where
  "received sn N = (mwf sn \<and> (\<forall>k. mget sn k = (if k \<in> N then Some True else None)))"

lemma received_empty [simp]: "received [] {}"
  by (simp add: received_def)

lemma received_keys: "received sn N \<Longrightarrow> set (mkeys sn) = N"
  by (auto simp: received_def mhas_iff [symmetric] mhas_def split: if_splits)

lemma received_mput: "received sn N \<Longrightarrow> received (mput k True sn) (insert k N)"
  by (auto simp: received_def)

lemma received_seen: "received sn N \<Longrightarrow> mgetd False sn k \<longleftrightarrow> k \<in> N"
  by (auto simp: received_def mgetd_def)

lemma names_of_received: "received (names_of ws) (set ws)"
proof -
  have "received m N \<Longrightarrow> received (foldl (\<lambda>m w. mput w True m) m ws) (N \<union> set ws)" for m N
  proof (induction ws arbitrary: m N)
    case Nil
    then show ?case by simp
  next
    case (Cons w ws)
    from Cons.IH [OF received_mput [OF Cons.prems, of w]] show ?case by simp
  qed
  from this [OF received_empty] show ?thesis by (simp add: names_of_def)
qed

lemma card_received: "received sn N \<Longrightarrow> length sn = card N"
  using received_keys [of sn N] by (auto simp: received_def mwf_def mkeys_def dest: distinct_card)

lemma namesMatchSeen_received:
  assumes "received ns W" and "received sn N" and "N \<subseteq> W"
  shows "namesMatchSeen ns sn \<longleftrightarrow> W \<subseteq> N"
proof -
  have "list_all (mgetd False sn) (mkeys ns) \<longleftrightarrow> W \<subseteq> N"
    using assms by (auto simp: list_all_iff received_seen received_keys)
  moreover have "W \<subseteq> N \<Longrightarrow> length ns = length sn"
    using assms by (simp add: card_received subset_antisym)
  ultimately show ?thesis by (auto simp: namesMatchSeen_def)
qed

lemma barrier_loop_received:
  assumes "received ns W" and "received sn N" and "set ws \<subseteq> W"
  shows "\<exists>b sn'. barrier_loop ns (map VStr ws) u sn = (Inr b, sn') \<and> received sn' (N \<union> set ws)"
  using assms(2,3)
proof (induction ws arbitrary: u sn N)
  case Nil
  then show ?case by auto
next
  case (Cons w ws)
  have w: "mhas ns w" using assms(1) Cons.prems(2) by (auto simp: received_def mhas_def)
  show ?case
  proof (cases "mgetd False sn w")
    case True
    then have "w \<in> N" using Cons.prems(1) by (simp add: received_seen)
    then show ?thesis
      using Cons.IH [OF Cons.prems(1), of u] Cons.prems(2) w True by (auto simp: insert_absorb)
  next
    case False
    then show ?thesis
      using Cons.IH [OF received_mput [OF Cons.prems(1), of w], of True] Cons.prems(2) w by auto
  qed
qed

lemma Barrier_Update_received:
  assumes "received (names c) W" and "received (seen c) N" and "set ws \<subseteq> W"
  shows "received (seen (snd (Barrier_Update c (map VStr ws)))) (N \<union> set ws) \<and>
         names (snd (Barrier_Update c (map VStr ws))) = names c"
proof -
  obtain b sn' where "barrier_loop (names c) (map VStr ws) False (seen c) = (Inr b, sn')"
      and "received sn' (N \<union> set ws)"
    using barrier_loop_received [OF assms] by blast
  then show ?thesis using assms(2) by (auto simp: Barrier_Update_def)
qed

lemma Barrier_feed_received:
  assumes "received (names c) W" and "received (seen c) N" and "\<forall>ws \<in> set batches. set ws \<subseteq> W"
  shows "received (seen (foldl (\<lambda>c ws. snd (Barrier_Update c (map VStr ws))) c batches))
           (N \<union> \<Union> (set ` set batches)) \<and>
         received (names (foldl (\<lambda>c ws. snd (Barrier_Update c (map VStr ws))) c batches)) W"
  using assms
proof (induction batches arbitrary: c N)
  case Nil
  then show ?case by simp
next
  case (Cons ws batches)
  have "set ws \<subseteq> W" using Cons.prems(3) by simp
  from Barrier_Update_received [OF Cons.prems(1,2) this] Cons.prems(1)
  have s: "received (seen (snd (Barrier_Update c (map VStr ws)))) (N \<union> set ws)"
    and n: "received (names (snd (Barrier_Update c (map VStr ws)))) W" by auto
  from Cons.IH [OF n s] Cons.prems(3) show ?case by (simp add: Un_assoc)
qed

text \<open>
  C39: a \<open>NamedBarrierValue\<close> opens exactly when every awaited name has arrived: after any
  number of updates with awaited names, in any order and with any repetition, it is
  available if and only if the updates together cover the names it was built with.
\<close>

theorem barrier_opens_when_all_received:
  assumes "\<forall>ws \<in> set batches. set ws \<subseteq> set waitFor"
  shows "Barrier_IsAvailable
           (foldl (\<lambda>c ws. snd (Barrier_Update c (map VStr ws))) (NewNamedBarrierValue t waitFor) batches)
         \<longleftrightarrow> set waitFor \<subseteq> \<Union> (set ` set batches)"
proof -
  let ?c = "NewNamedBarrierValue t waitFor"
  let ?d = "foldl (\<lambda>c ws. snd (Barrier_Update c (map VStr ws))) ?c batches"
  have "received (names ?c) (set waitFor)" "received (seen ?c) {}"
    by (simp_all add: NewNamedBarrierValue_def names_of_received)
  from Barrier_feed_received [OF this assms]
  have "received (seen ?d) (\<Union> (set ` set batches))" "received (names ?d) (set waitFor)" by auto
  from namesMatchSeen_received [OF this(2,1)] assms show ?thesis
    by (auto simp: Barrier_IsAvailable_def Barrier_namesMatchSeen_def)
qed

theorem barrier_opens_when_all_received_witness:
  "Barrier_IsAvailable
     (foldl (\<lambda>c ws. snd (Barrier_Update c (map VStr ws)))
        (NewNamedBarrierValue VNil [''a'', ''b'']) [[''b''], [''a'', ''b'']])"
  using barrier_opens_when_all_received
    [of "[[''b''], [''a'', ''b'']]" "[''a'', ''b'']" VNil] by simp

section \<open>BinaryOperatorAggregate\<close>

lemma binop_loop_plain:
  "\<forall>x \<in> set xs. isOverwrite x = None \<Longrightarrow>
     binop_loop f xs so v = (Inr True, if so then v else foldl f v xs)"
  by (induction xs arbitrary: v) auto

lemma binop_loop_after_overwrite:
  "binop_loop f xs True w =
     (if \<exists>x \<in> set xs. isOverwrite x \<noteq> None
      then (Inl (InvalidUpdateError OneOverwritePerStep), w) else (Inr True, w))"
  by (induction xs) (auto split: option.splits)

lemma binop_loop_split:
  "\<forall>x \<in> set xs. isOverwrite x = None \<Longrightarrow>
     binop_loop f (xs @ y # ys) False v = binop_loop f (y # ys) False (foldl f v xs)"
  by (induction xs arbitrary: v) auto

text \<open>
  what one update does to a \<open>BinaryOperatorAggregate\<close> that holds a value: without
  overwrite wrappers the operator is folded over the new values; with exactly one, its
  content replaces the value and every ordinary value of the step is ignored; with more,
  the update is an error and the content of the first has already been stored.
\<close>

lemma binop_update_meaning:
  assumes "\<not> IsMissing (cvalue c)" and "vs \<noteq> []"
  shows "BinOp_Update c vs =
     (case filter (\<lambda>v. isOverwrite v \<noteq> None) vs of
        [] \<Rightarrow> (Inr True, c\<lparr>cvalue := foldl (operator c) (cvalue c) vs\<rparr>)
      | [w] \<Rightarrow> (Inr True, c\<lparr>cvalue := the (isOverwrite w)\<rparr>)
      | w # _ \<Rightarrow> (Inl (InvalidUpdateError OneOverwritePerStep),
                  c\<lparr>cvalue := the (isOverwrite w)\<rparr>))"
proof -
  let ?P = "\<lambda>v. isOverwrite v \<noteq> None"
  have upd: "BinOp_Update c vs =
      (let (r, v) = binop_loop (operator c) vs False (cvalue c) in (r, c\<lparr>cvalue := v\<rparr>))"
    using assms by (simp add: BinOp_Update_def)
  show ?thesis
  proof (cases "filter ?P vs")
    case Nil
    then have "\<forall>x \<in> set vs. isOverwrite x = None" by (simp add: filter_empty_conv)
    then show ?thesis using upd Nil by (simp add: binop_loop_plain)
  next
    case (Cons w ws)
    then obtain xs ys where vs: "vs = xs @ w # ys" and xs: "\<forall>x \<in> set xs. isOverwrite x = None"
        and w: "isOverwrite w \<noteq> None" and ws: "ws = filter ?P ys"
      by (auto simp: filter_eq_Cons_iff)
    have "binop_loop (operator c) vs False (cvalue c) =
        binop_loop (operator c) ys True (the (isOverwrite w))"
      using xs w by (auto simp: vs binop_loop_split)
    then show ?thesis
      using upd Cons ws
      by (auto simp: binop_loop_after_overwrite filter_empty_conv split: list.splits)
  qed
qed

lemma binop_update_meaning_witness:
  "\<not> IsMissing (VInt 1) \<and>
   BinOp_Update ((NewBinaryOperatorAggregate (VInt 0) IntAdd)\<lparr>cvalue := VInt 1\<rparr>) [VInt 2, VInt 3] =
     (Inr True, (NewBinaryOperatorAggregate (VInt 0) IntAdd)\<lparr>cvalue := VInt 6\<rparr>)"
  using binop_update_meaning
    [of "(NewBinaryOperatorAggregate (VInt 0) IntAdd)\<lparr>cvalue := VInt 1\<rparr>" "[VInt 2, VInt 3]"]
  by (simp add: IsMissing_def isOverwrite_def NewBinaryOperatorAggregate_def IntAdd_def)

text \<open>
  the wrapper \<open>types.Overwrite\<close>, documented to bypass a reducer and write directly to a
  channel, has no effect on an adding channel: \<open>isOverwrite\<close> does not recognise it, and
  \<open>IntAdd\<close> returns its first argument on operands it does not know. The update reports
  success and the channel keeps its value.
\<close>

lemma overwrite_wrapper_is_ignored:
  assumes "operator c = IntAdd" and "\<not> IsMissing (cvalue c)"
  shows "BinOp_Update c [VOverwrite v] = (Inr True, c)"
proof -
  have "IntAdd (cvalue c) (VOverwrite v) = cvalue c"
    by (cases "cvalue c") (simp_all add: IntAdd_def)
  then show ?thesis using assms by (simp add: BinOp_Update_def isOverwrite_def)
qed

lemma overwrite_wrapper_is_ignored_witness:
  "BinOp_Update (NewBinaryOperatorAggregate (VInt 0) IntAdd) [VOverwrite (VInt 99)] =
     (Inr True, NewBinaryOperatorAggregate (VInt 0) IntAdd)"
  using overwrite_wrapper_is_ignored [of "NewBinaryOperatorAggregate (VInt 0) IntAdd" "VInt 99"]
  by (simp add: NewBinaryOperatorAggregate_def IsMissing_def)

section \<open>Topics\<close>

lemma flatten_append [simp]: "flatten (xs @ ys) = flatten xs @ flatten ys"
  by (induction xs rule: flatten.induct) auto

lemma Topic_Update_fields:
  "accumulate (snd (Topic_Update c vs)) = accumulate c"
  "cvalues (snd (Topic_Update c vs)) = (if accumulate c then cvalues c else []) @ flatten vs"
  by (auto simp: Topic_Update_def Let_def)

lemma Topic_feed:
  "accumulate (foldl (\<lambda>c vs. snd (Topic_Update c vs)) c batches) = accumulate c \<and>
   cvalues (foldl (\<lambda>c vs. snd (Topic_Update c vs)) c batches) =
     (if accumulate c then cvalues c @ concat (map flatten batches)
      else if batches = [] then cvalues c else flatten (last batches))"
  by (induction batches arbitrary: c) (auto simp: Topic_Update_fields)

text \<open>
  after any sequence of updates an accumulating \<open>Topic\<close> holds every value ever written,
  one level of lists flattened, in order; a non-accumulating one holds the values of the
  last update only, and nothing if that update was empty.
\<close>

lemma topic_contents:
  "cvalues (foldl (\<lambda>c vs. snd (Topic_Update c vs)) (NewTopic t acc) batches) =
     (if acc then concat (map flatten batches)
      else if batches = [] then [] else flatten (last batches))"
  by (simp add: Topic_feed) (simp add: NewTopic_def)

section \<open>ReducerChannel\<close>

text \<open>
  a \<open>ReducerChannel\<close> over a \<open>LastValue\<close> accepts any number of values in a step (where
  the bare \<open>LastValue\<close> accepts one) and stores the fold of the reducer over the current
  value, if there is one, and the new values in order.
\<close>

lemma reducer_over_last_value:
  assumes "vs \<noteq> []"
  shows "chan_Update (ReducerChannel (LastValue c) f) vs =
     (Inr True, ReducerChannel (LastValue (c\<lparr>cvalue :=
        (if IsMissing (cvalue c) then foldl f (hd vs) (tl vs) else foldl f (cvalue c) vs)\<rparr>)) f)"
  using assms
  by (cases vs)
    (simp_all add: reducer_combine_def LastValue_Get_def LastValue_Update_def)

lemma reducer_over_last_value_witness:
  "[VInt 4, VInt 5] \<noteq> [] \<and>
   chan_Update (ReducerChannel (LastValue (NewLastValue VNil)) AddReducer) [VInt 4, VInt 5] =
     (Inr True, ReducerChannel (LastValue ((NewLastValue VNil)\<lparr>cvalue := VInt 9\<rparr>)) AddReducer)"
  using reducer_over_last_value [of "[VInt 4, VInt 5]" "NewLastValue VNil" AddReducer]
  by (simp add: NewLastValue_def IsMissing_def AddReducer_def)

section \<open>Checkpoint and restore\<close>



text \<open>
  \<open>LastValueAfterFinish\<close> loses its value's availability across a checkpoint: the
  checkpoint stores the value but not the finished flag, so a channel that was readable is
  empty after the restore, and becomes readable again only at the next \<open>Finish\<close>.
\<close>

lemma last_value_after_finish_loses_finish:
  assumes "LastAF_IsAvailable c"
  shows "\<not> LastAF_IsAvailable (LastAF_FromCheckpoint c0 (LastAF_Checkpoint c)) \<and>
         LastAF_Get (LastAF_FromCheckpoint c0 (LastAF_Checkpoint c)) = Inl EmptyChannelError \<and>
         LastAF_Get (snd (LastAF_Finish (LastAF_FromCheckpoint c0 (LastAF_Checkpoint c)))) =
           LastAF_Get c"
  using assms by (auto simp: last_af_defs Let_def IsMissing_def)

lemma last_value_after_finish_loses_finish_witness:
  "LastAF_IsAvailable ((NewLastValueAfterFinish VNil)\<lparr>cvalue := VInt 1, vfinished := True\<rparr>) \<and>
   LastAF_Get (LastAF_FromCheckpoint (NewLastValueAfterFinish VNil)
     (LastAF_Checkpoint ((NewLastValueAfterFinish VNil)\<lparr>cvalue := VInt 1, vfinished := True\<rparr>))) =
   Inl EmptyChannelError"
  using last_value_after_finish_loses_finish
    [of "(NewLastValueAfterFinish VNil)\<lparr>cvalue := VInt 1, vfinished := True\<rparr>"
        "NewLastValueAfterFinish VNil"]
  by (simp add: last_af_defs IsMissing_def)

section \<open>Channels made from the state schema\<close>

text \<open>
  the channel made for a slice field starts with the zero value of a reflection
  descriptor, not with an empty slice, so it is available before any write and the first
  write yields a two-element list that begins with that descriptor.
\<close>

lemma slice_field_channel_starts_with_descriptor:
  "fst (chan_Get (CreateReducerChannel n KSlice None)) = Inr (VZero ZRtype) \<and>
   fst (chan_Get (snd (chan_Update (CreateReducerChannel n KSlice None) [VList xs]))) =
     Inr (VList [VZero ZRtype, VList xs])"
  by (simp add: CreateReducerChannel_def binop_defs base_defs IsMissing_def isOverwrite_def
      ListAppend_def)

text \<open>
  The channel made for a field of any numeric type other than \<open>int\<close> and \<open>float64\<close> never
  changes: \<open>IntAdd\<close> does not know the type, every update reports success and the value
  stays zero.
\<close>

lemma sized_number_channel_never_changes:
  assumes "k \<in> set numeric_kinds" and "k \<noteq> KInt" and "k \<noteq> KFloat64" and "is \<noteq> []"
  shows "chan_Update (CreateReducerChannel n k None) (map (VNum k) is) =
           (Inr True, CreateReducerChannel n k None)"
proof -
  have "foldl IntAdd (VNum k 0) (map (VNum k) is) = VNum k 0"
    by (induction "is") (simp_all add: IntAdd_def)
  moreover have "binop_loop IntAdd (map (VNum k) is) False (VNum k 0) =
      (Inr True, foldl IntAdd (VNum k 0) (map (VNum k) is))"
    by (simp add: binop_loop_plain isOverwrite_def)
  ultimately show ?thesis
    using assms
    by (auto simp: CreateReducerChannel_def numeric_kinds_def zero_of_kind_def binop_defs base_defs
        IsMissing_def)
qed

end
