(* ===== verification/Registry.thy ===== *)
theory Registry
  imports ChannelContract
begin

text \<open>
  The channel registry of \<open>channels/base.go\<close>: a map from names to channels and the
  operations the engine runs on all channels at once. A method that stops at an error has
  already changed the channels before the failing one, and the model keeps that state.
\<close>

type_synonym registry = "channel gomap"

section \<open>Operations\<close>

definition NewRegistry :: registry where
  "NewRegistry = []"

definition Registry_Register :: "registry \<Rightarrow> string \<Rightarrow> channel \<Rightarrow> registry" where
  "Registry_Register r name c = mput name c r"

definition Registry_Get :: "registry \<Rightarrow> string \<Rightarrow> channel option" where
  "Registry_Get r name = mget r name"

definition Registry_Remove :: "registry \<Rightarrow> string \<Rightarrow> registry" where
  "Registry_Remove r name = mdel name r"

definition Registry_Len :: "registry \<Rightarrow> nat" where
  "Registry_Len r = length r"

definition Registry_Names :: "registry \<Rightarrow> string list" where
  "Registry_Names r = mkeys r"

definition Registry_List :: "registry \<Rightarrow> string list" where
  "Registry_List r = Registry_Names r"

fun Registry_CreateCheckpoint :: "registry \<Rightarrow> gval gomap" where
  "Registry_CreateCheckpoint [] = []"
| "Registry_CreateCheckpoint ((name, c) # r) =
     (let cp = chan_Checkpoint c; rest = Registry_CreateCheckpoint r
      in if \<not> IsMissing cp then (name, cp) # rest else rest)"

definition restore_step :: "string \<times> gval \<Rightarrow> registry \<Rightarrow> unit res \<times> registry" where
  "restore_step p r =
     (case p of (name, cp) \<Rightarrow>
        (case mget r name of
           None \<Rightarrow> (Inl (Fail (''channel '' @ name @ '' not found in registry'')), r)
         | Some c \<Rightarrow> (Inr (), mput name (chan_FromCheckpoint c cp) r)))"

definition Registry_RestoreFromCheckpoint :: "registry \<Rightarrow> gval gomap \<Rightarrow> unit res \<times> registry" where
  "Registry_RestoreFromCheckpoint r checkpoint = floop restore_step checkpoint r"

definition update_step :: "string \<times> gval list \<Rightarrow> registry \<Rightarrow> unit res \<times> registry" where
  "update_step p r =
     (case p of (name, vs) \<Rightarrow>
        (case mget r name of
           None \<Rightarrow> (Inl (ChannelNotFoundError name), r)
         | Some c \<Rightarrow>
             (case chan_Update c vs of
                (Inl e, c') \<Rightarrow> (Inl (Wrap (''failed to update channel '' @ name) e), mput name c' r)
              | (Inr _, c') \<Rightarrow> (Inr (), mput name c' r))))"

definition Registry_UpdateChannels :: "registry \<Rightarrow> gval list gomap \<Rightarrow> unit res \<times> registry" where
  "Registry_UpdateChannels r writes = floop update_step writes r"

text \<open>\<open>GetValues\<close> calls \<open>Get\<close> on every channel, so it empties every \<open>EphemeralValue\<close>.\<close>

fun Registry_GetValues :: "registry \<Rightarrow> gval gomap res \<times> registry" where
  "Registry_GetValues [] = (Inr [], [])"
| "Registry_GetValues ((name, c) # r) =
     (case chan_Get c of
        (Inl e, c') \<Rightarrow>
          (if IsEmptyChannelError e then
             (case Registry_GetValues r of (res, r') \<Rightarrow> (res, (name, c') # r'))
           else (Inl (Wrap (''failed to get value from channel '' @ name) e), (name, c') # r))
      | (Inr v, c') \<Rightarrow>
          (case Registry_GetValues r of
             (Inl e, r') \<Rightarrow> (Inl e, (name, c') # r')
           | (Inr vs, r') \<Rightarrow> (Inr ((name, v) # vs), (name, c') # r')))"

lemmas registry_defs =
  NewRegistry_def Registry_Register_def Registry_Get_def Registry_Remove_def Registry_Len_def
  Registry_Names_def Registry_List_def Registry_RestoreFromCheckpoint_def
  Registry_UpdateChannels_def

section \<open>Checkpoints of a registry\<close>

lemma CreateCheckpoint_get:
  "mwf r \<Longrightarrow> mget (Registry_CreateCheckpoint r) k =
     (case mget r k of None \<Rightarrow> None
      | Some c \<Rightarrow> if IsMissing (chan_Checkpoint c) then None else Some (chan_Checkpoint c))"
proof (induction r rule: Registry_CreateCheckpoint.induct)
  case 1
  then show ?case by simp
next
  case (2 name c r)
  then have "mwf r" "mget r name = None" by (auto simp: mwf_cons mget_None_iff)
  then show ?case using 2 by (auto simp: Let_def split: option.splits)
qed

lemma CreateCheckpoint_keys: "set (mkeys (Registry_CreateCheckpoint r)) \<subseteq> set (mkeys r)"
  by (induction r rule: Registry_CreateCheckpoint.induct) (auto simp: Let_def)

lemma CreateCheckpoint_wf: "mwf r \<Longrightarrow> mwf (Registry_CreateCheckpoint r)"
  using CreateCheckpoint_keys
  by (induction r rule: Registry_CreateCheckpoint.induct) (fastforce simp: Let_def mwf_cons)+

lemma restore_loop:
  assumes "mwf cps" and "set (mkeys cps) \<subseteq> set (mkeys r)"
  shows "\<exists>r'. floop restore_step cps r = (Inr (), r') \<and> mkeys r' = mkeys r \<and>
     (\<forall>k. mget r' k = (case mget cps k of None \<Rightarrow> mget r k
        | Some cp \<Rightarrow> map_option (\<lambda>c. chan_FromCheckpoint c cp) (mget r k)))"
  using assms
proof (induction cps arbitrary: r)
  case Nil
  then show ?case by simp
next
  case (Cons p cps)
  obtain name cp where p: "p = (name, cp)" by fastforce
  from Cons.prems p obtain c where c: "mget r name = Some c"
    using mget_None_iff [of r name] by auto
  let ?r = "mput name (chan_FromCheckpoint c cp) r"
  have keys: "mkeys ?r = mkeys r"
    using c by (auto simp: mput_def mkeys_def update_keys dest: mget_Some_key)
  have step: "restore_step p r = (Inr (), ?r)" by (simp add: restore_step_def p c)
  from Cons.prems keys p have "mwf cps" "set (mkeys cps) \<subseteq> set (mkeys ?r)" "mget cps name = None"
    by (auto simp: mwf_cons mget_None_iff)
  from Cons.IH [OF this(1,2)] this(3) show ?case
    using step keys p c by (fastforce split: option.splits)
qed

text \<open>A channel that restoring from the missing checkpoint does not change.\<close>

definition chan_blank :: "channel \<Rightarrow> bool" where
  "chan_blank c = (chan_norm (chan_FromCheckpoint c VMissing) = chan_norm c)"

text \<open>
  a registry restored from the checkpoint of another: if the second registry has the
  same channel names, compatible channels and nothing in them yet, restoring succeeds and
  every channel then equals the checkpointed one up to its version counter, the channels
  that were empty and so left out of the checkpoint included.
\<close>

lemma registry_restore_roundtrip:
  assumes wf: "mwf r" and keys: "set (mkeys r0) = set (mkeys r)"
    and chans: "\<And>k c c0. mget r k = Some c \<Longrightarrow> mget r0 k = Some c0 \<Longrightarrow>
                  chan_ok c \<and> chan_compat c0 c \<and> chan_blank c0"
  shows "\<exists>r'. Registry_RestoreFromCheckpoint r0 (Registry_CreateCheckpoint r) = (Inr (), r') \<and>
     (\<forall>k. map_option chan_norm (mget r' k) = map_option chan_norm (mget r k))"
proof -
  let ?cps = "Registry_CreateCheckpoint r"
  have "mwf ?cps" "set (mkeys ?cps) \<subseteq> set (mkeys r0)"
    using CreateCheckpoint_wf [OF wf] CreateCheckpoint_keys [of r] keys by auto
  from restore_loop [OF this] obtain r' where
    r': "Registry_RestoreFromCheckpoint r0 ?cps = (Inr (), r')"
    and get: "\<And>k. mget r' k = (case mget ?cps k of None \<Rightarrow> mget r0 k
        | Some cp \<Rightarrow> map_option (\<lambda>c. chan_FromCheckpoint c cp) (mget r0 k))"
    unfolding Registry_RestoreFromCheckpoint_def by blast
  have "map_option chan_norm (mget r' k) = map_option chan_norm (mget r k)" for k
  proof (cases "mget r k")
    case None
    then have "mget r0 k = None" using keys by (simp add: mget_None_iff)
    moreover have "mget ?cps k = None" using None CreateCheckpoint_get [OF wf, of k] by simp
    ultimately show ?thesis using None get [of k] by simp
  next
    case (Some c)
    then obtain c0 where c0: "mget r0 k = Some c0"
      using keys mget_None_iff [of r0 k] mget_Some_key [of r k c] by auto
    from chans [OF Some c0] have rn: "chan_norm (chan_FromCheckpoint c0 (chan_Checkpoint c)) = chan_norm c"
        and "chan_blank c0"
      by (auto intro: ch.restore_norm)
    then show ?thesis
      using get [of k] CreateCheckpoint_get [OF wf, of k] Some c0
      by (auto simp: IsMissing_def chan_blank_def split: if_splits)
  qed
  with r' show ?thesis by blast
qed

lemma registry_restore_roundtrip_witness:
  "\<exists>r'. Registry_RestoreFromCheckpoint
           [(''t'', Topic (NewTopic VNil True)), (''x'', LastValue (NewLastValue VNil))]
           (Registry_CreateCheckpoint
              [(''x'', LastValue (NewLastValue VNil)),
               (''t'', Topic ((NewTopic VNil True)\<lparr>cvalues := [VInt 1]\<rparr>))]) = (Inr (), r') \<and>
     map_option chan_norm (mget r' ''t'') =
       Some (Topic ((NewTopic VNil True)\<lparr>cvalues := [VInt 1]\<rparr>))"
proof -
  let ?r = "[(''x'', LastValue (NewLastValue VNil)),
             (''t'', Topic ((NewTopic VNil True)\<lparr>cvalues := [VInt 1]\<rparr>))]"
  let ?q = "[(''t'', Topic (NewTopic VNil True)), (''x'', LastValue (NewLastValue VNil))]"
  have "mwf ?r" "set (mkeys ?q) = set (mkeys ?r)"
    by (auto simp: mwf_def)
  moreover have "\<And>k c c0. mget ?r k = Some c \<Longrightarrow> mget ?q k = Some c0 \<Longrightarrow>
      chan_ok c \<and> chan_compat c0 c \<and> chan_blank c0"
    by (auto simp: config_defs chan_blank_def NewTopic_def Topic_FromCheckpoint_def Let_def
        NewLastValue_def LastValue_FromCheckpoint_def IsMissing_def split: if_splits)
  ultimately have "\<exists>r'. Registry_RestoreFromCheckpoint ?q (Registry_CreateCheckpoint ?r) = (Inr (), r') \<and>
     (\<forall>k. map_option chan_norm (mget r' k) = map_option chan_norm (mget ?r k))"
    by (rule registry_restore_roundtrip)
  then obtain r' where
    "Registry_RestoreFromCheckpoint ?q (Registry_CreateCheckpoint ?r) = (Inr (), r')"
    "\<forall>k. map_option chan_norm (mget r' k) = map_option chan_norm (mget ?r k)" by blast
  then show ?thesis
    by (intro exI [of _ r']) (simp add: NewTopic_def unversioned_def)
qed

section \<open>Reading all values\<close>

text \<open>An \<open>EphemeralValue\<close>, possibly inside reducers.\<close>

fun is_ephemeral :: "channel \<Rightarrow> bool" where
  "is_ephemeral (EphemeralValue c) = True"
| "is_ephemeral (ReducerChannel ch f) = is_ephemeral ch"
| "is_ephemeral _ = False"

lemma Get_drains_ephemeral:
  "is_ephemeral c \<Longrightarrow> \<not> chan_IsAvailable (snd (chan_Get c)) \<and> is_ephemeral (snd (chan_Get c))"
  by (induction c rule: is_ephemeral.induct)
    (auto simp: ephemeral_defs IsMissing_def split: prod.splits)

lemma Get_keeps_others: "\<not> is_ephemeral c \<Longrightarrow> snd (chan_Get c) = c"
  by (induction c rule: is_ephemeral.induct) (auto split: prod.splits)

lemma Get_error_empty: "chan_Get c = (Inl e, c') \<Longrightarrow> IsEmptyChannelError e"
  by (induction c arbitrary: c')
    (auto simp: value_defs ephemeral_defs topic_defs binop_defs barrier_defs barrier_af_defs
      last_af_defs split: prod.splits if_splits)

lemma GetValues_total:
  "\<exists>vs. Registry_GetValues r = (Inr vs, map (map_prod id (\<lambda>c. snd (chan_Get c))) r) \<and>
     (mwf r \<longrightarrow> mwf vs \<and> set (mkeys vs) \<subseteq> set (mkeys r)) \<and>
     (mwf r \<longrightarrow> (\<forall>k. mget vs k = (case mget r k of None \<Rightarrow> None
        | Some c \<Rightarrow> (case fst (chan_Get c) of Inl _ \<Rightarrow> None | Inr v \<Rightarrow> Some v))))"
proof (induction r)
  case Nil
  then show ?case by simp
next
  case (Cons p r)
  obtain name c where p: "p = (name, c)" by fastforce
  from Cons.IH obtain vs where
    vs: "Registry_GetValues r = (Inr vs, map (map_prod id (\<lambda>c. snd (chan_Get c))) r)"
    and wf: "mwf r \<Longrightarrow> mwf vs \<and> set (mkeys vs) \<subseteq> set (mkeys r)"
    and get: "mwf r \<Longrightarrow> mget vs k = (case mget r k of None \<Rightarrow> None
        | Some c \<Rightarrow> (case fst (chan_Get c) of Inl _ \<Rightarrow> None | Inr v \<Rightarrow> Some v))" for k
    by blast
  obtain res c' where g: "chan_Get c = (res, c')" by fastforce
  have fresh: "mwf (p # r) \<Longrightarrow> mget r name = None" by (simp add: p mwf_cons mget_None_iff)
  show ?case
  proof (cases res)
    case (Inl e)
    with g have "IsEmptyChannelError e" by (auto intro: Get_error_empty)
    then show ?thesis
      using Inl g vs wf get fresh by (auto simp: p mwf_cons split: option.splits)
  next
    case (Inr v)
    then show ?thesis
      using g vs wf get by (auto simp: p mwf_cons)
  qed
qed

text \<open>
  reading all values never fails, returns exactly the values of the available
  channels, leaves every other channel as it is and empties every \<open>EphemeralValue\<close>.
\<close>

lemma get_values_drains_ephemerals:
  assumes "mwf r"
  shows "\<exists>vs r'. Registry_GetValues r = (Inr vs, r') \<and> mkeys r' = mkeys r \<and>
     (\<forall>k. mget vs k = (case mget r k of None \<Rightarrow> None
        | Some c \<Rightarrow> (case fst (chan_Get c) of Inl _ \<Rightarrow> None | Inr v \<Rightarrow> Some v))) \<and>
     (\<forall>k c. mget r k = Some c \<longrightarrow> (\<exists>c'. mget r' k = Some c' \<and>
        (if is_ephemeral c then \<not> chan_IsAvailable c' else c' = c)))"
proof -
  have m: "mget (map (map_prod id (\<lambda>c. snd (chan_Get c))) r) k =
      map_option (\<lambda>c. snd (chan_Get c)) (mget r k)" for k
    by (induction r) auto
  have k: "mkeys (map (map_prod id (\<lambda>c. snd (chan_Get c))) r) = mkeys r"
    by (induction r) auto
  obtain vs where "Registry_GetValues r = (Inr vs, map (map_prod id (\<lambda>c. snd (chan_Get c))) r)"
    and "\<forall>k. mget vs k = (case mget r k of None \<Rightarrow> None
        | Some c \<Rightarrow> (case fst (chan_Get c) of Inl _ \<Rightarrow> None | Inr v \<Rightarrow> Some v))"
    using GetValues_total [of r] assms by blast
  moreover have "\<exists>c'. mget (map (map_prod id (\<lambda>c. snd (chan_Get c))) r) k = Some c' \<and>
      (if is_ephemeral c then \<not> chan_IsAvailable c' else c' = c)" if "mget r k = Some c" for k c
    using that Get_drains_ephemeral [of c] Get_keeps_others [of c] by (auto simp: m)
  ultimately show ?thesis
    using k by blast
qed

lemma get_values_drains_ephemerals_witness:
  "\<exists>vs r'. Registry_GetValues
       [(''e'', EphemeralValue ((NewEphemeralValue VNil True)\<lparr>cvalue := VInt 1\<rparr>))] = (Inr vs, r') \<and>
     mget vs ''e'' = Some (VInt 1) \<and> (\<exists>c'. mget r' ''e'' = Some c' \<and> \<not> chan_IsAvailable c')"
proof -
  let ?r = "[(''e'', EphemeralValue ((NewEphemeralValue VNil True)\<lparr>cvalue := VInt 1\<rparr>))]"
  have "mwf ?r" by (simp add: mwf_def)
  from get_values_drains_ephemerals [OF this] obtain vs r' where
    "Registry_GetValues ?r = (Inr vs, r')"
    and vs: "mget vs ''e'' = (case mget ?r ''e'' of None \<Rightarrow> None
        | Some c \<Rightarrow> (case fst (chan_Get c) of Inl _ \<Rightarrow> None | Inr v \<Rightarrow> Some v))"
    and r': "\<forall>c. mget ?r ''e'' = Some c \<longrightarrow> (\<exists>c'. mget r' ''e'' = Some c' \<and>
        (if is_ephemeral c then \<not> chan_IsAvailable c' else c' = c))"
    by blast
  moreover have "mget vs ''e'' = Some (VInt 1)"
    using vs by (simp add: ephemeral_defs IsMissing_def)
  moreover have "\<exists>c'. mget r' ''e'' = Some c' \<and> \<not> chan_IsAvailable c'"
    using r' by auto
  ultimately show ?thesis by blast
qed

end
