(* ===== verification/MemorySaver.thy ===== *)
theory MemorySaver
  imports GoValues
begin

text \<open>
  The in-memory checkpointer of \<open>checkpoint/memory.go\<close> with the copying helpers of
  \<open>checkpoint/checkpoint.go\<close>. The identifier made by \<open>uuid.New\<close> and the time read by
  \<open>time.Now\<close> are arguments of \<open>Put\<close>. The maps with fixed keys that \<open>List\<close> builds are records.
\<close>

section \<open>Copying through JSON\<close>

text \<open>
  \<open>deepCopy\<close> copies maps and slices structurally; every other value goes through JSON, and a
  value that JSON cannot represent becomes nil.
\<close>

primrec deepCopy :: "gval \<Rightarrow> gval" where
  "deepCopy VNil = VNil"
| "deepCopy (VMap m) = VMap (map (map_prod id deepCopy) m)"
| "deepCopy (VList vs) = VList (map deepCopy vs)"
| "deepCopy VMissing = (case json_rt VMissing of None \<Rightarrow> VNil | Some v \<Rightarrow> v)"
| "deepCopy (VBool b) = (case json_rt (VBool b) of None \<Rightarrow> VNil | Some v \<Rightarrow> v)"
| "deepCopy (VInt w) = (case json_rt (VInt w) of None \<Rightarrow> VNil | Some v \<Rightarrow> v)"
| "deepCopy (VNum k i) = (case json_rt (VNum k i) of None \<Rightarrow> VNil | Some v \<Rightarrow> v)"
| "deepCopy (VFloat x) = (case json_rt (VFloat x) of None \<Rightarrow> VNil | Some v \<Rightarrow> v)"
| "deepCopy (VStr s) = (case json_rt (VStr s) of None \<Rightarrow> VNil | Some v \<Rightarrow> v)"
| "deepCopy (VBytes b) = (case json_rt (VBytes b) of None \<Rightarrow> VNil | Some v \<Rightarrow> v)"
| "deepCopy (VBoolMap m) = (case json_rt (VBoolMap m) of None \<Rightarrow> VNil | Some v \<Rightarrow> v)"
| "deepCopy (VIntMap m) = (case json_rt (VIntMap m) of None \<Rightarrow> VNil | Some v \<Rightarrow> v)"
| "deepCopy (VIntMapMap m) = (case json_rt (VIntMapMap m) of None \<Rightarrow> VNil | Some v \<Rightarrow> v)"
| "deepCopy (VMapList ms) = (case json_rt (VMapList ms) of None \<Rightarrow> VNil | Some v \<Rightarrow> v)"
| "deepCopy (VStrs ss) = (case json_rt (VStrs ss) of None \<Rightarrow> VNil | Some v \<Rightarrow> v)"
| "deepCopy (VFloats xs) = (case json_rt (VFloats xs) of None \<Rightarrow> VNil | Some v \<Rightarrow> v)"
| "deepCopy (VOverwrite v) = (case json_rt (VOverwrite v) of None \<Rightarrow> VNil | Some v \<Rightarrow> v)"
| "deepCopy (VType k) = (case json_rt (VType k) of None \<Rightarrow> VNil | Some v \<Rightarrow> v)"
| "deepCopy (VZero z) = (case json_rt (VZero z) of None \<Rightarrow> VNil | Some v \<Rightarrow> v)"

definition deepCopyMap :: "gval gomap \<Rightarrow> gval gomap" where
  "deepCopyMap src = map (map_prod id deepCopy) src"

definition deepCopySlice :: "gval list \<Rightarrow> gval list" where
  "deepCopySlice xs = map deepCopy xs"

section \<open>The saver\<close>

record checkpoint_entry =
  entry_ID :: string
  entry_ThreadID :: string
  entry_Checkpoint :: "gval gomap"
  entry_Metadata :: "gval gomap"
  entry_CreatedAt :: int
  entry_ParentID :: string

record memory_saver =
  checkpoints :: "gval gomap gomap"
  versions :: "checkpoint_entry list gomap"

definition NewMemorySaver :: memory_saver where
  "NewMemorySaver = \<lparr>checkpoints = [], versions = []\<rparr>"

text \<open>\<open>config[key].(string)\<close> in the comma-ok form.\<close>

definition cfg_str :: "gval gomap \<Rightarrow> string \<Rightarrow> string option" where
  "cfg_str config key = (case mget config key of Some (VStr s) \<Rightarrow> Some s | _ \<Rightarrow> None)"

text \<open>\<open>s.versions[threadID]\<close>: the nil slice for an unknown thread.\<close>

definition saver_versions :: "memory_saver \<Rightarrow> string \<Rightarrow> checkpoint_entry list" where
  "saver_versions s tid = mgetd [] (versions s) tid"

definition find_entry :: "string \<Rightarrow> checkpoint_entry list \<Rightarrow> checkpoint_entry option" where
  "find_entry i es = List.find (\<lambda>e. entry_ID e = i) es"

definition MemorySaver_Get :: "memory_saver \<Rightarrow> gval gomap \<Rightarrow> gval gomap option res" where
  "MemorySaver_Get s config =
     (case cfg_str config ''thread_id'' of
        None \<Rightarrow> Inl (Fail ''thread_id is required'')
      | Some tid \<Rightarrow>
          (case cfg_str config ''checkpoint_id'' of
             Some cid \<Rightarrow>
               (case find_entry cid (saver_versions s tid) of
                  Some e \<Rightarrow> Inr (Some (deepCopyMap (entry_Checkpoint e)))
                | None \<Rightarrow> Inl (Fail (''checkpoint not found: '' @ cid)))
           | None \<Rightarrow>
               (case saver_versions s tid of
                  [] \<Rightarrow> Inr None
                | es \<Rightarrow> Inr (Some (deepCopyMap (entry_Checkpoint (last es)))))))"

definition MemorySaver_Put ::
    "string \<Rightarrow> int \<Rightarrow> memory_saver \<Rightarrow> gval gomap \<Rightarrow> gval gomap \<Rightarrow> unit res \<times> memory_saver" where
  "MemorySaver_Put uuid now s config checkpoint =
     (case cfg_str config ''thread_id'' of
        None \<Rightarrow> (Inl (Fail ''thread_id is required''), s)
      | Some tid \<Rightarrow>
          (let cid = (case cfg_str config ''checkpoint_id'' of None \<Rightarrow> uuid | Some i \<Rightarrow> i);
               entry = \<lparr>entry_ID = cid, entry_ThreadID = tid,
                        entry_Checkpoint = deepCopyMap checkpoint,
                        entry_Metadata = deepCopyMap config, entry_CreatedAt = now,
                        entry_ParentID =
                          (case cfg_str config ''parent_checkpoint_id'' of None \<Rightarrow> [] | Some p \<Rightarrow> p)\<rparr>
           in (Inr (), s\<lparr>versions := mput tid (saver_versions s tid @ [entry]) (versions s),
                        checkpoints := mput tid (deepCopyMap checkpoint) (checkpoints s)\<rparr>)))"

record list_item =
  item_checkpoint_id :: string
  item_thread_id :: string
  item_metadata :: "gval gomap"
  item_created_at :: int
  item_parent_id :: string

definition list_item_of :: "checkpoint_entry \<Rightarrow> list_item" where
  "list_item_of e =
     \<lparr>item_checkpoint_id = entry_ID e, item_thread_id = entry_ThreadID e,
      item_metadata = deepCopyMap (entry_Metadata e), item_created_at = entry_CreatedAt e,
      item_parent_id = entry_ParentID e\<rparr>"

text \<open>The index loop \<open>for i := n-1; i >= n-limit && i >= 0; i--\<close>; \<open>i + 1\<close> is the argument.\<close>

fun list_loop :: "checkpoint_entry list \<Rightarrow> int \<Rightarrow> nat \<Rightarrow> list_item list" where
  "list_loop es limit 0 = []"
| "list_loop es limit (Suc i) =
     (if int (length es) - limit \<le> int i then list_item_of (es ! i) # list_loop es limit i else [])"

definition MemorySaver_List :: "memory_saver \<Rightarrow> gval gomap \<Rightarrow> int \<Rightarrow> list_item list res" where
  "MemorySaver_List s config limit =
     (case cfg_str config ''thread_id'' of
        None \<Rightarrow> Inl (Fail ''thread_id is required'')
      | Some tid \<Rightarrow>
          (let es = saver_versions s tid;
               limit' = (if limit \<le> 0 \<or> int (length es) < limit then int (length es) else limit)
           in Inr (list_loop es limit' (length es))))"

record checkpoint_state =
  state_Checkpoint :: "gval gomap"
  state_Metadata :: "gval gomap"

definition state_of_entry :: "checkpoint_entry \<Rightarrow> checkpoint_state" where
  "state_of_entry e =
     \<lparr>state_Checkpoint = deepCopyMap (entry_Checkpoint e),
      state_Metadata = deepCopyMap (entry_Metadata e)\<rparr>"

definition MemorySaver_GetState :: "memory_saver \<Rightarrow> gval gomap \<Rightarrow> checkpoint_state option res" where
  "MemorySaver_GetState s config =
     (case cfg_str config ''thread_id'' of
        None \<Rightarrow> Inl (Fail ''thread_id is required'')
      | Some tid \<Rightarrow>
          (case cfg_str config ''checkpoint_id'' of
             None \<Rightarrow>
               (case saver_versions s tid of
                  [] \<Rightarrow> Inr None
                | es \<Rightarrow> Inr (Some (state_of_entry (last es))))
           | Some cid \<Rightarrow>
               (case find_entry cid (saver_versions s tid) of
                  Some e \<Rightarrow> Inr (Some (state_of_entry e))
                | None \<Rightarrow> Inl (Fail (''checkpoint not found: '' @ cid)))))"

lemmas saver_defs =
  NewMemorySaver_def MemorySaver_Get_def MemorySaver_Put_def MemorySaver_List_def
  MemorySaver_GetState_def saver_versions_def

section \<open>What a copy keeps\<close>

text \<open>Integers as Go has them, at most 64 bits wide.\<close>

definition num64 :: "int \<Rightarrow> bool" where
  "num64 i = (\<bar>i\<bar> \<le> 2 ^ 64)"

primrec gval_ok :: "gval \<Rightarrow> bool" where
  "gval_ok VNil = True"
| "gval_ok VMissing = True"
| "gval_ok (VBool b) = True"
| "gval_ok (VInt w) = True"
| "gval_ok (VNum k i) = num64 i"
| "gval_ok (VFloat x) = True"
| "gval_ok (VStr s) = True"
| "gval_ok (VList vs) = list_all id (map gval_ok vs)"
| "gval_ok (VMap m) = list_all snd (map (map_prod id gval_ok) m)"
| "gval_ok (VBytes b) = True"
| "gval_ok (VBoolMap m) = True"
| "gval_ok (VIntMap m) = list_all (num64 \<circ> snd) m"
| "gval_ok (VIntMapMap m) = list_all (list_all (num64 \<circ> snd) \<circ> snd) m"
| "gval_ok (VMapList ms) = list_all (list_all snd) (map (map (map_prod id gval_ok)) ms)"
| "gval_ok (VStrs ss) = True"
| "gval_ok (VFloats xs) = True"
| "gval_ok (VOverwrite v) = gval_ok v"
| "gval_ok (VType k) = True"
| "gval_ok (VZero z) = True"

definition map_ok :: "gval gomap \<Rightarrow> bool" where
  "map_ok m = list_all (gval_ok \<circ> snd) m"

lemma bitlen_round: "n < 2 ^ k \<Longrightarrow> bitlen (round_half_even n s) \<le> Suc k"
proof -
  assume "n < 2 ^ k"
  moreover have "round_half_even n s \<le> n + 1"
    using div_le_dividend [of n "2 ^ s"] le_SucI [OF div_le_dividend [of n "2 ^ s"]]
    by (auto simp: round_half_even_def Let_def)
  ultimately have "round_half_even n s < 2 ^ Suc k" by simp
  then show ?thesis by (rule bitlen_le)
qed

lemma f64_of_int_fin:
  assumes "num64 i"
  shows "\<exists>m e. f64_of_int i = Fin m e"
proof (cases "i = 0")
  case True
  then show ?thesis by (simp add: f64_of_int_def f64_round_def)
next
  case False
  let ?n = "nat \<bar>i\<bar>"
  let ?s = "max (int (bitlen ?n) - 53) (- 1074)"
  have n: "?n < 2 ^ 65" using assms by (simp add: num64_def nat_less_iff)
  then have bl: "bitlen ?n \<le> 65" by (rule bitlen_le)
  have "int (bitlen (round_half_even ?n (nat ?s))) + ?s \<le> 1024"
    using bitlen_round [OF n, of "nat ?s"] bl by simp
  then show ?thesis
    using False bl by (auto simp: f64_of_int_def f64_round_def Let_def split: prod.splits)
qed

lemma set_mput: "set (mput k v m) \<subseteq> insert (k, v) (set m)"
  by (induction m) (auto split: if_splits)

lemma mmerge_values: "snd ` set (mmerge a b) \<subseteq> snd ` set a \<union> snd ` set b"
proof (induction a b rule: mmerge.induct)
  case (2 a k v b)
  have "snd ` set (mput k v a) \<subseteq> insert v (snd ` set a)"
    using image_mono [OF set_mput, of snd k v a] by simp
  with 2 show ?case by (simp; blast)
qed simp

lemma deepCopy_map_id: "(\<And>v. v \<in> snd ` set m \<Longrightarrow> deepCopy v = v) \<Longrightarrow> deepCopy (VMap m) = VMap m"
  by (induction m) auto

lemma those_mem: "those xs = Some ys \<Longrightarrow> y \<in> set ys \<Longrightarrow> Some y \<in> set xs"
  by (induction xs arbitrary: ys) (auto split: option.splits)

lemma jobject_stable:
  assumes "jobject kvs = Some v" and "\<And>k w. (k, Some w) \<in> set kvs \<Longrightarrow> deepCopy w = w"
  shows "deepCopy v = v"
proof -
  from assms(1) obtain vs where vs: "those (map snd kvs) = Some vs"
    and v: "v = VMap (mmerge [] (zip (map (utf8_fix \<circ> fst) kvs) vs))"
    by (auto simp: jobject_def)
  have "deepCopy w = w" if "w \<in> snd ` set (zip (map (utf8_fix \<circ> fst) kvs) vs)" for w
  proof -
    from that have "w \<in> set vs" by (auto dest: set_zip_rightD)
    from those_mem [OF vs this] assms(2) show ?thesis by auto
  qed
  then show ?thesis
    unfolding v using mmerge_values [of "[]" "zip (map (utf8_fix \<circ> fst) kvs) vs"]
    by (intro deepCopy_map_id) fastforce
qed

lemma jobject_map_stable:
  assumes "jobject (map (map_prod id f) m) = Some v"
    and "\<And>k x w. (k, x) \<in> set m \<Longrightarrow> f x = Some w \<Longrightarrow> deepCopy w = w"
  shows "deepCopy v = v"
  by (rule jobject_stable [OF assms(1)]) (auto dest: assms(2) [OF _ sym])

lemma json_int_stable: "num64 i \<Longrightarrow> json_int i = Some v \<Longrightarrow> deepCopy v = v"
  using f64_of_int_fin [of i] by (auto simp: json_int_def)

lemma int_object_stable: "list_all (num64 \<circ> snd) m \<Longrightarrow> jobject (map (map_prod id json_int) m) = Some v
  \<Longrightarrow> deepCopy v = v"
  by (erule jobject_map_stable) (auto simp: list_all_iff intro: json_int_stable)

lemma json_rt_stable: "json_rt v = Some v' \<Longrightarrow> gval_ok v \<Longrightarrow> deepCopy v' = v'"
proof (induction v arbitrary: v')
  case (VInt w)
  have "num64 (sint w)"
    using sint_range_size [of w] by (auto simp: num64_def word_size abs_if)
  with VInt show ?case using f64_of_int_fin by fastforce
next
  case (VNum k i)
  then show ?case using f64_of_int_fin by fastforce
next
  case (VFloat x)
  then show ?case by (auto split: f64.splits)
next
  case (VBytes b)
  then show ?case by (auto simp: utf8_fix_base64)
next
  case (VList vs)
  then obtain ws where ws: "those (map json_rt vs) = Some ws" "v' = VList ws" by auto
  have "deepCopy w = w" if "w \<in> set ws" for w
    using those_mem [OF ws(1) that] VList by (auto simp: list_all_iff)
  then show ?case by (simp add: ws map_idI)
next
  case (VMap m)
  have "jobject (map (map_prod id json_rt) m) = Some v'" using VMap.prems by simp
  then show ?case
    by (rule jobject_map_stable) (use VMap in \<open>fastforce simp: list_all_iff\<close>)
next
  case (VBoolMap m)
  have "jobject (map (map_prod id (\<lambda>b. Some (VBool b))) m) = Some v'" using VBoolMap.prems by simp
  then show ?case by (rule jobject_map_stable) auto
next
  case (VIntMap m)
  then show ?case using int_object_stable [of m v'] by simp
next
  case (VIntMapMap m)
  have "jobject (map (map_prod id (jobject \<circ> map (map_prod id json_int))) m) = Some v'"
    using VIntMapMap.prems by simp
  then show ?case
    by (rule jobject_map_stable)
      (use VIntMapMap in \<open>auto simp: list_all_iff intro!: int_object_stable\<close>)
next
  case (VMapList ms)
  then obtain ws where ws: "those (map jobject (map (map (map_prod id json_rt)) ms)) = Some ws"
    "v' = VList ws" by auto
  have "deepCopy w = w" if "w \<in> set ws" for w
  proof -
    from those_mem [OF ws(1) that] obtain m where m: "m \<in> set ms"
      "jobject (map (map_prod id json_rt) m) = Some w" by auto
    show ?thesis
      by (rule jobject_map_stable [OF m(2)]) (use VMapList m(1) in \<open>fastforce simp: list_all_iff\<close>)
  qed
  then show ?case by (simp add: ws map_idI)
next
  case (VStrs ss)
  then show ?case by (auto intro!: map_idI simp: utf8_fix_idem)
next
  case (VFloats xs)
  then have "list_all (\<lambda>x. case x of Fin m e \<Rightarrow> True | _ \<Rightarrow> False) xs" "v' = VList (map VFloat xs)"
    by (auto split: if_splits)
  then show ?case by (auto intro!: map_idI simp: list_all_iff split: f64.splits)
next
  case (VOverwrite v)
  then show ?case by (auto intro!: jobject_stable [of _ v'])
next
  case (VZero z)
  then show ?case by (auto split: zstruct.splits)
qed auto

lemma deepCopy_idem: "gval_ok v \<Longrightarrow> deepCopy (deepCopy v) = deepCopy v"
  by (induction v) (auto simp: list_all_iff json_rt_stable split: option.splits
      dest: json_rt_stable simp del: json_rt.simps)

section \<open>The checkpointer contract\<close>

text \<open>
  What the engine relies on: the latest checkpoint of a thread is the last one put there, a
  checkpoint with an identifier is the first one put under it, and threads do not interfere.
  \<open>norm\<close> is what a stored checkpoint looks like when it is read back.
\<close>

locale checkpointer =
  fixes put :: "string \<Rightarrow> int \<Rightarrow> 's \<Rightarrow> gval gomap \<Rightarrow> gval gomap \<Rightarrow> unit res \<times> 's"
    and get :: "'s \<Rightarrow> gval gomap \<Rightarrow> gval gomap option res"
    and norm :: "gval gomap \<Rightarrow> gval gomap"
    and empty :: 's
  assumes put_ok: "cfg_str c ''thread_id'' = Some t \<Longrightarrow> fst (put u n s c cp) = Inr ()"
    and put_no_thread: "cfg_str c ''thread_id'' = None \<Longrightarrow>
          (\<exists>e. fst (put u n s c cp) = Inl e) \<and> snd (put u n s c cp) = s"
    and get_empty: "cfg_str q ''thread_id'' = Some t \<Longrightarrow> cfg_str q ''checkpoint_id'' = None \<Longrightarrow>
          get empty q = Inr None"
    and get_empty_id: "cfg_str q ''thread_id'' = Some t \<Longrightarrow> cfg_str q ''checkpoint_id'' = Some i \<Longrightarrow>
          \<exists>e. get empty q = Inl e"
    and put_latest: "cfg_str c ''thread_id'' = Some t \<Longrightarrow> cfg_str q ''thread_id'' = Some t \<Longrightarrow>
          cfg_str q ''checkpoint_id'' = None \<Longrightarrow> get (snd (put u n s c cp)) q = Inr (Some (norm cp))"
    and put_other: "cfg_str c ''thread_id'' = Some t \<Longrightarrow> cfg_str q ''thread_id'' = Some t' \<Longrightarrow> t \<noteq> t' \<Longrightarrow>
          get (snd (put u n s c cp)) q = get s q"
    and put_id: "cfg_str c ''thread_id'' = Some t \<Longrightarrow> cfg_str q ''thread_id'' = Some t \<Longrightarrow>
          cfg_str q ''checkpoint_id'' = Some i \<Longrightarrow>
          get (snd (put u n s c cp)) q =
            (case get s q of
               Inr r \<Rightarrow> Inr r
             | Inl e \<Rightarrow> if (case cfg_str c ''checkpoint_id'' of None \<Rightarrow> u | Some j \<Rightarrow> j) = i
                        then Inr (Some (norm cp)) else Inl e)"

text \<open>A history of \<open>Put\<close> calls: identifier supply, time, configuration, checkpoint.\<close>

type_synonym put_call = "string \<times> int \<times> gval gomap \<times> gval gomap"

fun run_puts ::
    "(string \<Rightarrow> int \<Rightarrow> 's \<Rightarrow> gval gomap \<Rightarrow> gval gomap \<Rightarrow> unit res \<times> 's) \<Rightarrow> 's \<Rightarrow> put_call list \<Rightarrow> 's" where
  "run_puts put s [] = s"
| "run_puts put s ((u, n, c, cp) # ps) = run_puts put (snd (put u n s c cp)) ps"

text \<open>The checkpoints a history puts under a thread, with their identifiers, in order.\<close>

fun puts_of :: "string \<Rightarrow> put_call list \<Rightarrow> (string \<times> gval gomap) list" where
  "puts_of t [] = []"
| "puts_of t ((u, n, c, cp) # ps) =
     (if cfg_str c ''thread_id'' = Some t
      then ((case cfg_str c ''checkpoint_id'' of None \<Rightarrow> u | Some i \<Rightarrow> i), cp) # puts_of t ps
      else puts_of t ps)"

lemma run_puts_append: "run_puts put s (ps @ qs) = run_puts put (run_puts put s ps) qs"
  by (induction put s ps rule: run_puts.induct) auto

lemma puts_of_append: "puts_of t (ps @ qs) = puts_of t ps @ puts_of t qs"
  by (induction t ps rule: puts_of.induct) auto

context checkpointer
begin

lemma get_untouched:
  assumes "cfg_str q ''thread_id'' = Some t" and "cfg_str c ''thread_id'' \<noteq> Some t"
  shows "get (snd (put u n s c cp)) q = get s q"
proof (cases "cfg_str c ''thread_id''")
  case None
  then show ?thesis using put_no_thread by simp
next
  case (Some t')
  with assms show ?thesis by (intro put_other [OF Some assms(1)]) auto
qed

lemma latest_of_history:
  assumes q: "cfg_str q ''thread_id'' = Some t" "cfg_str q ''checkpoint_id'' = None"
  shows "get (run_puts put empty ps) q =
     Inr (if puts_of t ps = [] then None else Some (norm (snd (last (puts_of t ps)))))"
proof (induction ps rule: rev_induct)
  case Nil
  then show ?case using get_empty [OF q] by simp
next
  case (snoc p ps)
  obtain u n c cp where p: "p = (u, n, c, cp)" by (cases p) auto
  show ?case
  proof (cases "cfg_str c ''thread_id'' = Some t")
    case True
    then show ?thesis using put_latest [OF True q] by (simp add: p run_puts_append puts_of_append)
  next
    case False
    then show ?thesis
      using snoc get_untouched [OF q(1) False] by (simp add: p run_puts_append puts_of_append)
  qed
qed

lemma id_of_history:
  assumes q: "cfg_str q ''thread_id'' = Some t" "cfg_str q ''checkpoint_id'' = Some i"
  shows "case map_of (puts_of t ps) i of
      None \<Rightarrow> \<exists>e. get (run_puts put empty ps) q = Inl e
    | Some cp \<Rightarrow> get (run_puts put empty ps) q = Inr (Some (norm cp))"
proof (induction ps rule: rev_induct)
  case Nil
  then show ?case using get_empty_id [OF q] by simp
next
  case (snoc p ps)
  obtain u n c cp where p: "p = (u, n, c, cp)" by (cases p) auto
  show ?case
  proof (cases "cfg_str c ''thread_id'' = Some t")
    case True
    then show ?thesis
      using snoc put_id [OF True q]
      by (auto simp: p run_puts_append puts_of_append map_add_def split: option.splits)
  next
    case False
    then show ?thesis
      using snoc get_untouched [OF q(1) False]
      by (auto simp: p run_puts_append puts_of_append split: option.splits)
  qed
qed

end

lemma find_entry_snoc:
  "find_entry i (es @ [e]) =
     (case find_entry i es of Some x \<Rightarrow> Some x | None \<Rightarrow> if entry_ID e = i then Some e else None)"
  by (induction es) (auto simp: find_entry_def)

lemma find_entry_nil [simp]: "find_entry i [] = None"
  by (simp add: find_entry_def)

lemma mgetd_mput [simp]: "mgetd z (mput k v m) k' = (if k' = k then v else mgetd z m k')"
  by (simp add: mgetd_def)

lemma Get_latest:
  "cfg_str q ''thread_id'' = Some t \<Longrightarrow> cfg_str q ''checkpoint_id'' = None \<Longrightarrow>
   MemorySaver_Get s q =
     Inr (if saver_versions s t = [] then None
          else Some (deepCopyMap (entry_Checkpoint (last (saver_versions s t)))))"
  by (simp add: MemorySaver_Get_def split: list.splits)

lemma Get_by_id:
  "cfg_str q ''thread_id'' = Some t \<Longrightarrow> cfg_str q ''checkpoint_id'' = Some i \<Longrightarrow>
   MemorySaver_Get s q =
     (case find_entry i (saver_versions s t) of
        Some e \<Rightarrow> Inr (Some (deepCopyMap (entry_Checkpoint e)))
      | None \<Rightarrow> Inl (Fail (''checkpoint not found: '' @ i)))"
  by (simp add: MemorySaver_Get_def)

lemma Put_versions:
  "cfg_str c ''thread_id'' = Some t \<Longrightarrow>
   \<exists>e. saver_versions (snd (MemorySaver_Put u n s c cp)) t = saver_versions s t @ [e] \<and>
     entry_Checkpoint e = deepCopyMap cp \<and>
     entry_ID e = (case cfg_str c ''checkpoint_id'' of None \<Rightarrow> u | Some j \<Rightarrow> j)"
  by (auto simp: MemorySaver_Put_def saver_versions_def Let_def)

lemma Put_versions_other:
  "cfg_str c ''thread_id'' = Some t \<Longrightarrow> t \<noteq> t' \<Longrightarrow>
   saver_versions (snd (MemorySaver_Put u n s c cp)) t' = saver_versions s t'"
  by (auto simp: MemorySaver_Put_def saver_versions_def Let_def)

lemma saver_versions_new [simp]: "saver_versions NewMemorySaver t = []"
  by (simp add: saver_versions_def NewMemorySaver_def mgetd_def)

interpretation ms: checkpointer MemorySaver_Put MemorySaver_Get
  "\<lambda>cp. deepCopyMap (deepCopyMap cp)" NewMemorySaver
proof
  fix c q t i u n s cp
  show "cfg_str c ''thread_id'' = Some t \<Longrightarrow> fst (MemorySaver_Put u n s c cp) = Inr ()"
    by (simp add: MemorySaver_Put_def Let_def)
  show "cfg_str c ''thread_id'' = None \<Longrightarrow> (\<exists>e. fst (MemorySaver_Put u n s c cp) = Inl e) \<and>
      snd (MemorySaver_Put u n s c cp) = s"
    by (simp add: MemorySaver_Put_def)
  show "cfg_str c ''thread_id'' = Some t \<Longrightarrow> cfg_str q ''thread_id'' = Some t \<Longrightarrow>
      cfg_str q ''checkpoint_id'' = None \<Longrightarrow> MemorySaver_Get (snd (MemorySaver_Put u n s c cp)) q =
      Inr (Some (deepCopyMap (deepCopyMap cp)))"
    using Put_versions [of c t u n s cp] by (auto simp: Get_latest)
  show "MemorySaver_Get (snd (MemorySaver_Put u n s c cp)) q = MemorySaver_Get s q"
    if "cfg_str c ''thread_id'' = Some t" "cfg_str q ''thread_id'' = Some t'" "t \<noteq> t'" for t'
    using Put_versions_other [OF that(1,3)] that(2)
    by (cases "cfg_str q ''checkpoint_id''") (simp_all add: Get_latest Get_by_id)
  show "cfg_str c ''thread_id'' = Some t \<Longrightarrow> cfg_str q ''thread_id'' = Some t \<Longrightarrow>
      cfg_str q ''checkpoint_id'' = Some i \<Longrightarrow> MemorySaver_Get (snd (MemorySaver_Put u n s c cp)) q =
      (case MemorySaver_Get s q of
         Inr r \<Rightarrow> Inr r
       | Inl e \<Rightarrow> if (case cfg_str c ''checkpoint_id'' of None \<Rightarrow> u | Some j \<Rightarrow> j) = i
                  then Inr (Some (deepCopyMap (deepCopyMap cp))) else Inl e)"
    using Put_versions [of c t u n s cp]
    by (auto simp: Get_by_id find_entry_snoc split: option.splits if_splits)
qed (simp_all add: Get_latest Get_by_id)

lemma deepCopyMap_idem: "map_ok m \<Longrightarrow> deepCopyMap (deepCopyMap m) = deepCopyMap m"
  by (induction m) (auto simp: deepCopyMap_def map_ok_def deepCopy_idem)

section \<open>Properties\<close>

text \<open>Values JSON represents exactly.\<close>

primrec json_value :: "gval \<Rightarrow> bool" where
  "json_value VNil = True"
| "json_value VMissing = False"
| "json_value (VBool b) = True"
| "json_value (VInt w) = False"
| "json_value (VNum k i) = False"
| "json_value (VFloat x) = (case x of Fin m e \<Rightarrow> True | _ \<Rightarrow> False)"
| "json_value (VStr s) = (utf8_fix s = s)"
| "json_value (VList vs) = list_all id (map json_value vs)"
| "json_value (VMap m) = list_all snd (map (map_prod id json_value) m)"
| "json_value (VBytes b) = False"
| "json_value (VBoolMap m) = False"
| "json_value (VIntMap m) = False"
| "json_value (VIntMapMap m) = False"
| "json_value (VMapList ms) = False"
| "json_value (VStrs ss) = False"
| "json_value (VFloats xs) = False"
| "json_value (VOverwrite v) = False"
| "json_value (VType k) = False"
| "json_value (VZero z) = False"

lemma json_value_copy: "json_value v \<Longrightarrow> deepCopy v = v"
proof (induction v)
  case (VList vs)
  then show ?case by (auto simp: list_all_iff intro: map_idI)
next
  case (VMap m)
  then show ?case by (intro deepCopy_map_id) (fastforce simp: list_all_iff)
qed (auto split: f64.splits)

definition json_map :: "gval gomap \<Rightarrow> bool" where
  "json_map m = list_all (json_value \<circ> snd) m"

lemma json_map_copy: "json_map m \<Longrightarrow> deepCopyMap m = m"
  by (induction m) (auto simp: json_map_def deepCopyMap_def json_value_copy)

definition puts_ok :: "put_call list \<Rightarrow> bool" where
  "puts_ok ps = list_all (\<lambda>(u, n, c, cp). map_ok cp) ps"

lemma puts_of_ok: "puts_ok ps \<Longrightarrow> (i, cp) \<in> set (puts_of t ps) \<Longrightarrow> map_ok cp"
  by (induction t ps rule: puts_of.induct) (auto simp: puts_ok_def split: if_splits)

text \<open>
  C11: after any sequence of \<open>Put\<close> calls on a new saver, \<open>Get\<close> for a thread returns the deep copy
  of the last checkpoint put under that thread, or nothing if there is none; calls for other
  threads and calls without a thread do not matter, and a copy read back is not changed by
  further copying.
\<close>

theorem memory_saver_latest:
  assumes "puts_ok ps" and "cfg_str q ''thread_id'' = Some t" and "cfg_str q ''checkpoint_id'' = None"
  shows "MemorySaver_Get (run_puts MemorySaver_Put NewMemorySaver ps) q =
     Inr (if puts_of t ps = [] then None else Some (deepCopyMap (snd (last (puts_of t ps)))))"
proof (cases "puts_of t ps = []")
  case True
  then show ?thesis using ms.latest_of_history [OF assms(2,3)] by simp
next
  case False
  then have "map_ok (snd (last (puts_of t ps)))"
    using puts_of_ok [OF assms(1)] by (metis last_in_set prod.collapse)
  then show ?thesis
    using ms.latest_of_history [OF assms(2,3), of ps] by (simp add: deepCopyMap_idem)
qed

theorem memory_saver_latest_witness:
  "MemorySaver_Get
     (run_puts MemorySaver_Put NewMemorySaver
        [(''u1'', 1, [(''thread_id'', VStr ''a'')], [(''x'', VInt 1)]),
         (''u2'', 2, [(''thread_id'', VStr ''b'')], [(''x'', VInt 2)])])
     [(''thread_id'', VStr ''a'')] = Inr (Some [(''x'', VFloat (f64_of_int 1))])"
  using memory_saver_latest [of
      "[(''u1'', 1, [(''thread_id'', VStr ''a'')], [(''x'', VInt 1)]),
        (''u2'', 2, [(''thread_id'', VStr ''b'')], [(''x'', VInt 2)])]"
      "[(''thread_id'', VStr ''a'')]" "''a''"]
  by (simp add: cfg_str_def puts_ok_def map_ok_def deepCopyMap_def)

text \<open>
  \<open>Get\<close> with a checkpoint identifier returns the first checkpoint that was put under that
  thread and identifier, so putting again under the same identifier never changes what is
  read, and an identifier never used under the thread is an error.
\<close>

lemma memory_saver_by_id:
  assumes "puts_ok ps" and "cfg_str q ''thread_id'' = Some t"
    and "cfg_str q ''checkpoint_id'' = Some i"
  shows "case map_of (puts_of t ps) i of
      None \<Rightarrow> \<exists>e. MemorySaver_Get (run_puts MemorySaver_Put NewMemorySaver ps) q = Inl e
    | Some cp \<Rightarrow>
        MemorySaver_Get (run_puts MemorySaver_Put NewMemorySaver ps) q = Inr (Some (deepCopyMap cp))"
proof -
  have "map_of (puts_of t ps) i = Some cp \<Longrightarrow> map_ok cp" for cp
    using puts_of_ok [OF assms(1)] by (metis map_of_SomeD)
  then show ?thesis
    using ms.id_of_history [OF assms(2,3), of ps]
    by (auto simp: deepCopyMap_idem split: option.splits)
qed

lemma memory_saver_by_id_witness:
  "MemorySaver_Get
     (run_puts MemorySaver_Put NewMemorySaver
        [(''u1'', 1, [(''thread_id'', VStr ''a''), (''checkpoint_id'', VStr ''i'')], [(''x'', VBool True)]),
         (''u2'', 2, [(''thread_id'', VStr ''a''), (''checkpoint_id'', VStr ''i'')], [(''x'', VBool False)])])
     [(''thread_id'', VStr ''a''), (''checkpoint_id'', VStr ''i'')] = Inr (Some [(''x'', VBool True)])"
  using memory_saver_by_id [of
      "[(''u1'', 1, [(''thread_id'', VStr ''a''), (''checkpoint_id'', VStr ''i'')], [(''x'', VBool True)]),
        (''u2'', 2, [(''thread_id'', VStr ''a''), (''checkpoint_id'', VStr ''i'')], [(''x'', VBool False)])]"
      "[(''thread_id'', VStr ''a''), (''checkpoint_id'', VStr ''i'')]" "''a''" "''i''"]
  by (simp add: cfg_str_def puts_ok_def map_ok_def deepCopyMap_def)

text \<open>
  a checkpoint made of JSON values only (nil, booleans, finite floats, valid strings, slices
  and maps of such) is read back exactly as it was put.
\<close>

lemma json_checkpoint_survives:
  assumes "cfg_str q ''thread_id'' = Some t" and "cfg_str q ''checkpoint_id'' = None"
    and "puts_of t ps \<noteq> []" and "json_map (snd (last (puts_of t ps)))"
  shows "MemorySaver_Get (run_puts MemorySaver_Put NewMemorySaver ps) q =
     Inr (Some (snd (last (puts_of t ps))))"
  using ms.latest_of_history [OF assms(1,2), of ps] assms(3) json_map_copy [OF assms(4)] by simp

lemma json_checkpoint_survives_witness:
  "MemorySaver_Get
     (run_puts MemorySaver_Put NewMemorySaver
        [(''u'', 1, [(''thread_id'', VStr ''a'')], [(''x'', VList [VFloat (Fin 1 (-1)), VStr ''hi''])])])
     [(''thread_id'', VStr ''a'')] = Inr (Some [(''x'', VList [VFloat (Fin 1 (-1)), VStr ''hi''])])"
proof -
  have "utf8_fix ''hi'' = ''hi''" by (simp add: utf8_fix_ascii ascii_def byte_in_def)
  then show ?thesis
    using json_checkpoint_survives [of "[(''thread_id'', VStr ''a'')]" "''a''"
      "[(''u'', 1, [(''thread_id'', VStr ''a'')], [(''x'', VList [VFloat (Fin 1 (-1)), VStr ''hi''])])]"]
    by (simp add: cfg_str_def puts_ok_def map_ok_def json_map_def)
qed

lemma list_loop_spec:
  "n \<le> length es \<Longrightarrow> 0 \<le> limit \<Longrightarrow>
   list_loop es limit n =
     map list_item_of (take (nat (limit - (int (length es) - int n))) (rev (take n es)))"
proof (induction es limit n rule: list_loop.induct)
  case (1 es limit)
  then show ?case by simp
next
  case (2 es limit i)
  show ?case
  proof (cases "int (length es) - limit \<le> int i")
    case True
    have split: "nat (limit - (int (length es) - int (Suc i))) =
        Suc (nat (limit - (int (length es) - int i)))"
      using True by simp
    have "rev (take (Suc i) es) = es ! i # rev (take i es)"
      using 2(2) by (simp add: take_Suc_conv_app_nth)
    with True split 2 show ?thesis by simp
  next
    case False
    then show ?thesis by simp
  qed
qed

text \<open>
  \<open>List\<close> returns the newest \<open>limit\<close> entries of the thread, newest first; a limit that is
  not positive, or too large, returns all of them.
\<close>

lemma memory_saver_list_newest_first:
  assumes "cfg_str config ''thread_id'' = Some t"
  shows "MemorySaver_List s config limit =
     Inr (map list_item_of
       (if limit \<le> 0 then rev (saver_versions s t)
        else take (nat limit) (rev (saver_versions s t))))"
  using assms by (simp add: MemorySaver_List_def Let_def list_loop_spec)

end
