(* ===== verification/Config.thy ===== *)
theory Config
  imports GoValues
begin

text \<open>
  The run configuration of \<open>types/config.go\<close>. The two maps may be nil, which is \<open>None\<close>: reading
  a nil map is allowed, \<open>Set\<close> replaces it, and \<open>Merge\<close> panics when it has to write to a nil
  \<open>Metadata\<close>. The methods change their receiver and return it; the model returns it.
\<close>

record runnable_config =
  Configurable :: "gval gomap option"
  RecursionLimit :: int
  Tags :: "string list"
  Metadata :: "gval gomap option"
  RunID :: string
  ThreadID :: string
  Durability :: string

definition DurabilitySync :: string where
  "DurabilitySync = ''sync''"

definition DefaultRecursionLimit :: int where
  "DefaultRecursionLimit = 50"

definition NewRunnableConfig :: runnable_config where
  "NewRunnableConfig =
     \<lparr>Configurable = Some [], RecursionLimit = DefaultRecursionLimit, Tags = [], Metadata = Some [],
      RunID = [], ThreadID = [], Durability = DurabilitySync\<rparr>"

definition Config_Get :: "runnable_config \<Rightarrow> string \<Rightarrow> gval option" where
  "Config_Get c key = (case Configurable c of None \<Rightarrow> None | Some m \<Rightarrow> mget m key)"

definition Config_Set :: "runnable_config \<Rightarrow> string \<Rightarrow> gval \<Rightarrow> runnable_config" where
  "Config_Set c key v =
     (let m = (case Configurable c of None \<Rightarrow> [] | Some m \<Rightarrow> m)
      in c\<lparr>Configurable := Some (mput key v m)\<rparr>)"

fun config_set_all :: "runnable_config \<Rightarrow> gval gomap \<Rightarrow> runnable_config" where
  "config_set_all c [] = c"
| "config_set_all c ((k, v) # m) = config_set_all (Config_Set c k v) m"

text \<open>The loop over the other's \<open>Metadata\<close>; \<open>None\<close> is the panic on a nil map.\<close>

fun metadata_put_all :: "gval gomap option \<Rightarrow> gval gomap \<Rightarrow> gval gomap option option" where
  "metadata_put_all md [] = Some md"
| "metadata_put_all None (p # m) = None"
| "metadata_put_all (Some md) ((k, v) # m) = metadata_put_all (Some (mput k v md)) m"

definition nil_map :: "gval gomap option \<Rightarrow> gval gomap" where
  "nil_map m = (case m of None \<Rightarrow> [] | Some m \<Rightarrow> m)"

definition Config_Merge ::
    "runnable_config \<Rightarrow> runnable_config option \<Rightarrow> runnable_config option" where
  "Config_Merge c other =
     (case other of
        None \<Rightarrow> Some c
      | Some oc \<Rightarrow>
          (let c1 = config_set_all c (nil_map (Configurable oc));
               c2 = (if 0 < RecursionLimit oc then c1\<lparr>RecursionLimit := RecursionLimit oc\<rparr> else c1);
               c3 = c2\<lparr>Tags := Tags c2 @ Tags oc\<rparr>
           in (case metadata_put_all (Metadata c3) (nil_map (Metadata oc)) of
                 None \<Rightarrow> None
               | Some md \<Rightarrow>
                   (let c4 = c3\<lparr>Metadata := md\<rparr>;
                        c5 = (if RunID oc \<noteq> [] then c4\<lparr>RunID := RunID oc\<rparr> else c4);
                        c6 = (if ThreadID oc \<noteq> [] then c5\<lparr>ThreadID := ThreadID oc\<rparr> else c5)
                    in Some (if Durability oc \<noteq> [] \<and> Durability oc \<noteq> DurabilitySync
                             then c6\<lparr>Durability := Durability oc\<rparr> else c6)))))"

definition WithConfigurable :: "runnable_config \<Rightarrow> gval gomap option \<Rightarrow> runnable_config" where
  "WithConfigurable c m = c\<lparr>Configurable := m\<rparr>"

definition Config_WithRecursionLimit :: "runnable_config \<Rightarrow> int \<Rightarrow> runnable_config" where
  "Config_WithRecursionLimit c limit = c\<lparr>RecursionLimit := limit\<rparr>"

definition WithTags :: "runnable_config \<Rightarrow> string list \<Rightarrow> runnable_config" where
  "WithTags c tags = c\<lparr>Tags := tags\<rparr>"

definition WithMetadata :: "runnable_config \<Rightarrow> gval gomap option \<Rightarrow> runnable_config" where
  "WithMetadata c m = c\<lparr>Metadata := m\<rparr>"

definition WithRunID :: "runnable_config \<Rightarrow> string \<Rightarrow> runnable_config" where
  "WithRunID c i = c\<lparr>RunID := i\<rparr>"

definition WithThreadID :: "runnable_config \<Rightarrow> string \<Rightarrow> runnable_config" where
  "WithThreadID c i = c\<lparr>ThreadID := i\<rparr>"

definition WithDurability :: "runnable_config \<Rightarrow> string \<Rightarrow> runnable_config" where
  "WithDurability c d = c\<lparr>Durability := d\<rparr>"

definition GetOrEmpty :: "runnable_config \<Rightarrow> string \<Rightarrow> string" where
  "GetOrEmpty c key =
     (case Configurable c of
        None \<Rightarrow> []
      | Some m \<Rightarrow> (case mget m key of None \<Rightarrow> [] | Some (VStr s) \<Rightarrow> s | Some _ \<Rightarrow> []))"

type_synonym config_patcher = "runnable_config option \<Rightarrow> runnable_config option"

fun apply_patches :: "runnable_config option \<Rightarrow> config_patcher option list \<Rightarrow> runnable_config option" where
  "apply_patches c [] = c"
| "apply_patches c (None # ps) = apply_patches c ps"
| "apply_patches c (Some p # ps) = apply_patches (p c) ps"

definition EnsureConfig :: "runnable_config option \<Rightarrow> runnable_config" where
  "EnsureConfig c = (case c of None \<Rightarrow> NewRunnableConfig | Some c \<Rightarrow> c)"

definition PatchConfig :: "runnable_config option \<Rightarrow> config_patcher option list \<Rightarrow> runnable_config option" where
  "PatchConfig c ps =
     apply_patches (Some (case c of None \<Rightarrow> NewRunnableConfig | Some c \<Rightarrow> c)) ps"

fun merge_all :: "runnable_config \<Rightarrow> runnable_config option list \<Rightarrow> runnable_config option" where
  "merge_all r [] = Some r"
| "merge_all r (c # cs) = (case Config_Merge r c of None \<Rightarrow> None | Some r' \<Rightarrow> merge_all r' cs)"

definition MergeConfigs :: "runnable_config option list \<Rightarrow> runnable_config option" where
  "MergeConfigs cs = merge_all NewRunnableConfig cs"

section \<open>Merging\<close>

lemma Config_Get_Set [simp]:
  "Config_Get (Config_Set c k v) k' = (if k' = k then Some v else Config_Get c k')"
  by (simp add: Config_Get_def Config_Set_def split: option.splits)

lemma config_set_all_get:
  "mwf m \<Longrightarrow> Config_Get (config_set_all c m) k =
     (case mget m k of None \<Rightarrow> Config_Get c k | Some v \<Rightarrow> Some v)"
proof (induction c m rule: config_set_all.induct)
  case (1 c)
  then show ?case by simp
next
  case (2 c k' v m)
  then have "mwf m" "mget m k' = None" by (auto simp: mwf_cons mget_None_iff)
  with 2 show ?case by (auto split: option.splits)
qed

lemma config_set_all_fields [simp]:
  "RecursionLimit (config_set_all c m) = RecursionLimit c"
  "Tags (config_set_all c m) = Tags c"
  "Metadata (config_set_all c m) = Metadata c"
  "RunID (config_set_all c m) = RunID c"
  "ThreadID (config_set_all c m) = ThreadID c"
  "Durability (config_set_all c m) = Durability c"
  by (induction c m rule: config_set_all.induct) (simp_all add: Config_Set_def Let_def)

lemma metadata_put_all_some: "metadata_put_all (Some md) m = Some (Some (mmerge md m))"
  by (induction md m rule: mmerge.induct) auto

lemma metadata_put_all_None: "metadata_put_all md m = None \<longleftrightarrow> md = None \<and> m \<noteq> []"
  by (cases m; cases md) (auto simp: metadata_put_all_some)

text \<open>The value a non-nil configuration gives to a key, \<open>other\<close> first.\<close>

definition or_else :: "'a option \<Rightarrow> 'a option \<Rightarrow> 'a option" where
  "or_else x y = (case x of None \<Rightarrow> y | Some _ \<Rightarrow> x)"

fun latest :: "('a \<Rightarrow> 'b option) \<Rightarrow> 'b option \<Rightarrow> 'a option list \<Rightarrow> 'b option" where
  "latest f d [] = d"
| "latest f d (None # cs) = latest f d cs"
| "latest f d (Some c # cs) = latest f (or_else (f c) d) cs"

lemma Config_Merge_eq:
  assumes "Metadata c = Some md"
  shows "Config_Merge c (Some oc) = Some \<lparr>
     Configurable = Configurable (config_set_all c (nil_map (Configurable oc))),
     RecursionLimit = (if 0 < RecursionLimit oc then RecursionLimit oc else RecursionLimit c),
     Tags = Tags c @ Tags oc,
     Metadata = Some (mmerge md (nil_map (Metadata oc))),
     RunID = (if RunID oc \<noteq> [] then RunID oc else RunID c),
     ThreadID = (if ThreadID oc \<noteq> [] then ThreadID oc else ThreadID c),
     Durability = (if Durability oc \<noteq> [] \<and> Durability oc \<noteq> DurabilitySync
           then Durability oc else Durability c)\<rparr>"
proof -
  let ?X = "config_set_all c (nil_map (Configurable oc))"
  have X: "?X = \<lparr>Configurable = Configurable ?X, RecursionLimit = RecursionLimit c, Tags = Tags c,
      Metadata = Some md, RunID = RunID c, ThreadID = ThreadID c, Durability = Durability c\<rparr>"
    by (rule runnable_config.equality) (simp_all add: assms)
  obtain cf where "?X = \<lparr>Configurable = cf, RecursionLimit = RecursionLimit c, Tags = Tags c,
      Metadata = Some md, RunID = RunID c, ThreadID = ThreadID c, Durability = Durability c\<rparr>"
    using X by blast
  then show ?thesis
    by (simp add: Config_Merge_def Let_def metadata_put_all_some)
qed

lemma Config_Merge_get:
  assumes "mwf (nil_map (Configurable oc))" and "Config_Merge c (Some oc) = Some r" and "Metadata c = Some md"
  shows "Config_Get r k = or_else (Config_Get oc k) (Config_Get c k)"
proof -
  have "Config_Get oc k = mget (nil_map (Configurable oc)) k"
    by (simp add: Config_Get_def nil_map_def split: option.splits)
  moreover have "Config_Get r k = Config_Get (config_set_all c (nil_map (Configurable oc))) k"
    using assms(2) by (simp add: Config_Merge_eq [OF assms(3)] Config_Get_def [of r]) (auto simp: Config_Get_def)
  ultimately show ?thesis
    by (simp add: config_set_all_get [OF assms(1)] or_else_def split: option.splits)
qed

lemma merge_all_spec:
  assumes "Metadata c \<noteq> None" and "\<forall>oc. Some oc \<in> set cs \<longrightarrow> mwf (nil_map (Configurable oc))"
  shows "\<exists>r. merge_all c cs = Some r \<and>
     (\<forall>k. Config_Get r k = latest (\<lambda>c. Config_Get c k) (Config_Get c k) cs) \<and>
     Tags r = Tags c @ concat (map Tags (somes cs)) \<and>
     RecursionLimit r = last (RecursionLimit c # filter ((<) 0) (map RecursionLimit (somes cs))) \<and>
     ThreadID r = last (ThreadID c # filter ((\<noteq>) []) (map ThreadID (somes cs))) \<and>
     Durability r = last (Durability c #
       filter (\<lambda>d. d \<noteq> [] \<and> d \<noteq> DurabilitySync) (map Durability (somes cs)))"
  using assms
proof (induction cs arbitrary: c)
  case Nil
  then show ?case by simp
next
  case (Cons x cs)
  show ?case
  proof (cases x)
    case None
    then have "Config_Merge c x = Some c" by (simp add: Config_Merge_def)
    with Cons None show ?thesis by auto
  next
    case (Some oc)
    with Cons.prems have wf: "mwf (nil_map (Configurable oc))" by simp
    obtain md where md: "Metadata c = Some md" using Cons.prems(1) by blast
    obtain r where r: "Config_Merge c (Some oc) = Some r" by (simp add: Config_Merge_eq [OF md])
    have fields: "Metadata r \<noteq> None" "Tags r = Tags c @ Tags oc"
      "RecursionLimit r = (if 0 < RecursionLimit oc then RecursionLimit oc else RecursionLimit c)"
      "ThreadID r = (if ThreadID oc \<noteq> [] then ThreadID oc else ThreadID c)"
      "Durability r = (if Durability oc \<noteq> [] \<and> Durability oc \<noteq> DurabilitySync
           then Durability oc else Durability c)"
      using r by (auto simp: Config_Merge_eq [OF md])
    have "\<forall>oc. Some oc \<in> set cs \<longrightarrow> mwf (nil_map (Configurable oc))"
      using Cons.prems(2) by simp
    from Cons.IH [OF fields(1) this] obtain r' where
      r': "merge_all r cs = Some r'"
        "\<forall>k. Config_Get r' k = latest (\<lambda>c. Config_Get c k) (Config_Get r k) cs"
        "Tags r' = Tags r @ concat (map Tags (somes cs))"
        "RecursionLimit r' =
           last (RecursionLimit r # filter ((<) 0) (map RecursionLimit (somes cs)))"
        "ThreadID r' = last (ThreadID r # filter ((\<noteq>) []) (map ThreadID (somes cs)))"
        "Durability r' = last (Durability r #
           filter (\<lambda>d. d \<noteq> [] \<and> d \<noteq> DurabilitySync) (map Durability (somes cs)))"
      by blast
    show ?thesis
    proof (intro exI [of _ r'] conjI)
      show "merge_all c (x # cs) = Some r'" using Some r r' by simp
      show "\<forall>k. Config_Get r' k = latest (\<lambda>c. Config_Get c k) (Config_Get c k) (x # cs)"
        using Some r' Config_Merge_get [OF wf r md] by simp
    qed (use Some r' fields in \<open>simp_all\<close>)
  qed
qed

text \<open>
  merging a list of configurations never panics, skips the nil ones, and gives every key of
  the configurable map, the recursion limit, the thread and the durability the value of the
  last configuration that sets it (an explicit \<open>sync\<close> counts as not set), with the tags of
  all configurations in order.
\<close>

lemma merge_configs_last_wins:
  assumes "\<forall>oc. Some oc \<in> set cs \<longrightarrow> mwf (nil_map (Configurable oc))"
  shows "\<exists>r. MergeConfigs cs = Some r \<and>
     (\<forall>k. Config_Get r k = latest (\<lambda>c. Config_Get c k) None cs) \<and>
     Tags r = concat (map Tags (somes cs)) \<and>
     RecursionLimit r = last (50 # filter ((<) 0) (map RecursionLimit (somes cs))) \<and>
     ThreadID r = last ([] # filter ((\<noteq>) []) (map ThreadID (somes cs))) \<and>
     Durability r = last (''sync'' #
       filter (\<lambda>d. d \<noteq> [] \<and> d \<noteq> ''sync'') (map Durability (somes cs)))"
  using merge_all_spec [OF _ assms, of NewRunnableConfig]
  by (simp add: MergeConfigs_def NewRunnableConfig_def DefaultRecursionLimit_def
      DurabilitySync_def Config_Get_def)

lemma merge_configs_last_wins_witness:
  "\<exists>r. MergeConfigs [Some (NewRunnableConfig\<lparr>Durability := ''async'', ThreadID := ''t''\<rparr>), None,
        Some (Config_Set (NewRunnableConfig\<lparr>Durability := ''sync'', RecursionLimit := 3\<rparr>) ''k'' (VInt 1))]
     = Some r \<and> Config_Get r ''k'' = Some (VInt 1) \<and> Durability r = ''async'' \<and> ThreadID r = ''t''
     \<and> RecursionLimit r = 3"
proof -
  let ?cs = "[Some (NewRunnableConfig\<lparr>Durability := ''async'', ThreadID := ''t''\<rparr>), None,
        Some (Config_Set (NewRunnableConfig\<lparr>Durability := ''sync'', RecursionLimit := 3\<rparr>) ''k'' (VInt 1))]"
  have "\<forall>oc. Some oc \<in> set ?cs \<longrightarrow> mwf (nil_map (Configurable oc))"
    by (auto simp: NewRunnableConfig_def nil_map_def Config_Set_def mwf_def)
  from merge_configs_last_wins [OF this] show ?thesis
    by (elim exE conjE) (intro exI conjI, assumption,
      simp_all add: NewRunnableConfig_def Config_Set_def or_else_def
        Config_Get_def)
qed

end
