(* ===== verification/Checkpoints.thy ===== *)
theory Checkpoints
  imports MemorySaver Config
begin

text \<open>
  The versioned checkpoints of \<open>checkpoint/checkpoint.go\<close>: the \<open>Checkpoint\<close> value with its
  bookkeeping, its storage form (\<open>ToMap\<close>, \<open>FromMap\<close>), and the \<open>CheckpointManager\<close> that keeps
  the versions of every thread and detects conflicting writers. A \<open>time.Time\<close> is the RFC 3339
  text that denotes it; identifiers made by \<open>uuid.New\<close> and times read by \<open>time.Now\<close> are
  arguments. Version counters are unbounded integers. A stored checkpoint is a value: the
  model does not cover a caller that changes a checkpoint after handing it to \<open>Save\<close>.
\<close>

section \<open>Data\<close>

record checkpoint_metadata =
  md_ID :: string
  md_ParentID :: string
  md_ThreadID :: string
  md_Step :: int
  md_CreatedAt :: string
  md_Source :: string
  md_Metadata :: "gval gomap"

record pending_write =
  pw_Channel :: string
  pw_Value :: gval
  pw_Overwrite :: bool
  pw_Node :: string
  pw_Timestamp :: string
  pw_TaskID :: string

record checkpoint =
  cp_ID :: string
  cp_Version :: int
  cp_ParentID :: string
  cp_ChannelVersions :: "int gomap"
  cp_VersionsSeen :: "int gomap gomap"
  cp_State :: "gval gomap"
  cp_PendingWrites :: "pending_write list"
  cp_Metadata :: checkpoint_metadata

definition zero_time :: string where
  "zero_time = ''0001-01-01T00:00:00Z''"

definition NewPendingWrite ::
    "string \<Rightarrow> string \<Rightarrow> gval \<Rightarrow> bool \<Rightarrow> string \<Rightarrow> string \<Rightarrow> pending_write" where
  "NewPendingWrite now channel v overwrite node taskID =
     \<lparr>pw_Channel = channel, pw_Value = v, pw_Overwrite = overwrite, pw_Node = node,
      pw_Timestamp = now, pw_TaskID = taskID\<rparr>"

definition NewCheckpoint :: "string \<Rightarrow> string \<Rightarrow> string \<Rightarrow> int \<Rightarrow> checkpoint" where
  "NewCheckpoint uuid now threadID step =
     \<lparr>cp_ID = uuid, cp_Version = 0, cp_ParentID = [], cp_ChannelVersions = [], cp_VersionsSeen = [],
      cp_State = [], cp_PendingWrites = [],
      cp_Metadata = \<lparr>md_ID = uuid, md_ParentID = [], md_ThreadID = threadID, md_Step = step,
        md_CreatedAt = now, md_Source = ''node'', md_Metadata = []\<rparr>\<rparr>"

text \<open>The copying loops of \<open>Clone\<close> build new maps entry by entry.\<close>

definition copy_map :: "'v gomap \<Rightarrow> 'v gomap" where
  "copy_map m = mmerge [] m"

definition Checkpoint_Clone :: "string \<Rightarrow> string \<Rightarrow> checkpoint \<Rightarrow> checkpoint" where
  "Checkpoint_Clone newID now c =
     \<lparr>cp_ID = newID, cp_Version = cp_Version c, cp_ParentID = cp_ID c,
      cp_ChannelVersions = copy_map (cp_ChannelVersions c),
      cp_VersionsSeen = copy_map (map (map_prod id copy_map) (cp_VersionsSeen c)),
      cp_State = copy_map (map (map_prod id deepCopy) (cp_State c)),
      cp_PendingWrites =
        map (\<lambda>pw. pw\<lparr>pw_Value := deepCopy (pw_Value pw)\<rparr>) (cp_PendingWrites c),
      cp_Metadata = \<lparr>md_ID = newID, md_ParentID = cp_ID c, md_ThreadID = md_ThreadID (cp_Metadata c),
        md_Step = md_Step (cp_Metadata c), md_CreatedAt = now, md_Source = md_Source (cp_Metadata c),
        md_Metadata = copy_map (map (map_prod id deepCopy) (md_Metadata (cp_Metadata c)))\<rparr>\<rparr>"

definition IncrementChannel :: "checkpoint \<Rightarrow> string \<Rightarrow> checkpoint" where
  "IncrementChannel c channel =
     c\<lparr>cp_ChannelVersions :=
        mput channel (mgetd 0 (cp_ChannelVersions c) channel + 1) (cp_ChannelVersions c)\<rparr>"

definition MarkSeen :: "checkpoint \<Rightarrow> string \<Rightarrow> string \<Rightarrow> checkpoint" where
  "MarkSeen c node channel =
     (let seen = (if mhas (cp_VersionsSeen c) node then cp_VersionsSeen c
                  else mput node [] (cp_VersionsSeen c))
      in c\<lparr>cp_VersionsSeen :=
           mput node (mput channel (mgetd 0 (cp_ChannelVersions c) channel) (mgetd [] seen node)) seen\<rparr>)"

definition HasSeen :: "checkpoint \<Rightarrow> string \<Rightarrow> string \<Rightarrow> bool" where
  "HasSeen c node channel =
     (case mget (cp_VersionsSeen c) node of
        None \<Rightarrow> False
      | Some vs \<Rightarrow>
          (case mget vs channel of
             None \<Rightarrow> False
           | Some v \<Rightarrow> v = mgetd 0 (cp_ChannelVersions c) channel))"

definition AddPendingWrite :: "checkpoint \<Rightarrow> string \<Rightarrow> gval \<Rightarrow> bool \<Rightarrow> string \<Rightarrow> checkpoint" where
  "AddPendingWrite c channel v overwrite node =
     c\<lparr>cp_PendingWrites := cp_PendingWrites c @
        [\<lparr>pw_Channel = channel, pw_Value = v, pw_Overwrite = overwrite, pw_Node = node,
          pw_Timestamp = zero_time, pw_TaskID = []\<rparr>]\<rparr>"

definition ClearPendingWrites :: "checkpoint \<Rightarrow> checkpoint" where
  "ClearPendingWrites c = c\<lparr>cp_PendingWrites := []\<rparr>"

section \<open>The storage form\<close>

definition pending_map :: "pending_write \<Rightarrow> gval gomap" where
  "pending_map pw =
     [(''channel'', VStr (pw_Channel pw)), (''value'', pw_Value pw),
      (''overwrite'', VBool (pw_Overwrite pw)), (''node'', VStr (pw_Node pw))]"

definition metadata_map :: "checkpoint_metadata \<Rightarrow> gval gomap" where
  "metadata_map md =
     mmerge
       [(''id'', VStr (md_ID md)), (''parent_id'', VStr (md_ParentID md)),
        (''thread_id'', VStr (md_ThreadID md)), (''step'', VInt (word_of_int (md_Step md))),
        (''created_at'', VStr (md_CreatedAt md)), (''source'', VStr (md_Source md))]
       (md_Metadata md)"

definition Checkpoint_ToMap :: "checkpoint \<Rightarrow> gval gomap" where
  "Checkpoint_ToMap c =
     [(''id'', VStr (cp_ID c)),
      (''version'', VInt (word_of_int (cp_Version c))),
      (''parent_id'', VStr (cp_ParentID c)),
      (''channel_versions'', VIntMap (copy_map (cp_ChannelVersions c))),
      (''versions_seen'', VIntMapMap (copy_map (map (map_prod id copy_map) (cp_VersionsSeen c)))),
      (''state'', VMap (copy_map (map (map_prod id deepCopy) (cp_State c)))),
      (''pending_writes'', VMapList (map pending_map (cp_PendingWrites c))),
      (''metadata'', VMap (metadata_map (cp_Metadata c)))]"

definition getString :: "gval gomap \<Rightarrow> string \<Rightarrow> string" where
  "getString data key = (case mget data key of Some (VStr s) \<Rightarrow> s | _ \<Rightarrow> [])"

definition getInt :: "gval gomap \<Rightarrow> string \<Rightarrow> int \<Rightarrow> int" where
  "getInt data key d = (case mget data key of Some (VFloat x) \<Rightarrow> sint (f64_to_int x) | _ \<Rightarrow> d)"

definition getBool :: "gval gomap \<Rightarrow> string \<Rightarrow> bool \<Rightarrow> bool" where
  "getBool data key d = (case mget data key of Some (VBool b) \<Rightarrow> b | _ \<Rightarrow> d)"

text \<open>The loop that keeps the numbers of a map read from JSON.\<close>

fun int_entries :: "int gomap \<Rightarrow> gval gomap \<Rightarrow> int gomap" where
  "int_entries acc [] = acc"
| "int_entries acc ((k, v) # m) =
     int_entries (case v of VFloat x \<Rightarrow> mput k (sint (f64_to_int x)) acc | _ \<Rightarrow> acc) m"

fun seen_entries :: "int gomap gomap \<Rightarrow> gval gomap \<Rightarrow> int gomap gomap" where
  "seen_entries acc [] = acc"
| "seen_entries acc ((node, v) # m) =
     seen_entries (case v of VMap vm \<Rightarrow> mput node (int_entries [] vm) acc | _ \<Rightarrow> acc) m"

fun pending_entries :: "gval list \<Rightarrow> pending_write list" where
  "pending_entries [] = []"
| "pending_entries (v # vs) =
     (case v of
        VMap m \<Rightarrow>
          \<lparr>pw_Channel = getString m ''channel'', pw_Value = mgetd VNil m ''value'',
           pw_Overwrite = getBool m ''overwrite'' False, pw_Node = getString m ''node'',
           pw_Timestamp = zero_time, pw_TaskID = []\<rparr> # pending_entries vs
      | _ \<Rightarrow> pending_entries vs)"

text \<open>
  \<open>time.Parse(time.RFC3339Nano, s)\<close>: the shape the formatter writes, with the ranges of the
  fields. The parser also reads a few shapes the formatter never writes (an hour of one
  digit, a comma for the fraction); those are not modelled.
\<close>

definition digit :: "char \<Rightarrow> bool" where
  "digit c = byte_in 48 57 c"

definition num2 :: "string \<Rightarrow> nat \<Rightarrow> nat option" where
  "num2 s i =
     (if digit (s ! i) \<and> digit (s ! Suc i)
      then Some ((of_char (s ! i) - 48) * 10 + (of_char (s ! Suc i) - 48)) else None)"

definition in_range :: "nat \<Rightarrow> nat \<Rightarrow> nat option \<Rightarrow> bool" where
  "in_range lo hi n = (case n of None \<Rightarrow> False | Some x \<Rightarrow> lo \<le> x \<and> x \<le> hi)"

definition days_in_month :: "nat \<Rightarrow> nat \<Rightarrow> nat" where
  "days_in_month y m =
     (if m = 2 then (if y mod 4 = 0 \<and> (y mod 100 \<noteq> 0 \<or> y mod 400 = 0) then 29 else 28)
      else if m \<in> {4, 6, 9, 11} then 30 else 31)"

definition rfc3339_zone :: "string \<Rightarrow> bool" where
  "rfc3339_zone s =
     (s = ''Z'' \<or>
      (length s = 6 \<and> (s ! 0 = CHR ''+'' \<or> s ! 0 = CHR ''-'') \<and> s ! 3 = CHR '':'' \<and>
       in_range 0 23 (num2 s 1) \<and> in_range 0 59 (num2 s 4)))"

definition rfc3339 :: "string \<Rightarrow> bool" where
  "rfc3339 s =
     (20 \<le> length s \<and> s ! 4 = CHR ''-'' \<and> s ! 7 = CHR ''-'' \<and> s ! 10 = CHR ''T'' \<and>
      s ! 13 = CHR '':'' \<and> s ! 16 = CHR '':'' \<and>
      (case (num2 s 0, num2 s 2, num2 s 5) of
         (Some y1, Some y2, Some m) \<Rightarrow>
           1 \<le> m \<and> m \<le> 12 \<and> in_range 1 (days_in_month (y1 * 100 + y2) m) (num2 s 8)
       | _ \<Rightarrow> False) \<and>
      in_range 0 23 (num2 s 11) \<and> in_range 0 59 (num2 s 14) \<and> in_range 0 59 (num2 s 17) \<and>
      (let r = drop 19 s
       in if r ! 0 = CHR ''.''
          then takeWhile digit (tl r) \<noteq> [] \<and> rfc3339_zone (dropWhile digit (tl r))
          else rfc3339_zone r))"

definition metadata_fields :: "string list" where
  "metadata_fields =
     [''id'', ''parent_id'', ''thread_id'', ''step'', ''created_at'', ''source'']"

definition zero_metadata :: checkpoint_metadata where
  "zero_metadata =
     \<lparr>md_ID = [], md_ParentID = [], md_ThreadID = [], md_Step = 0, md_CreatedAt = zero_time,
      md_Source = [], md_Metadata = []\<rparr>"

definition parse_metadata :: "gval gomap \<Rightarrow> checkpoint_metadata" where
  "parse_metadata md =
     \<lparr>md_ID = getString md ''id'', md_ParentID = getString md ''parent_id'',
      md_ThreadID = getString md ''thread_id'', md_Step = getInt md ''step'' 0,
      md_CreatedAt =
        (let s = getString md ''created_at''
         in if s \<noteq> [] \<and> rfc3339 s then s else zero_time),
      md_Source = getString md ''source'',
      md_Metadata = copy_map (filter (\<lambda>(k, v). k \<notin> set metadata_fields) md)\<rparr>"

definition Checkpoint_FromMap :: "gval gomap \<Rightarrow> checkpoint" where
  "Checkpoint_FromMap data =
     \<lparr>cp_ID = getString data ''id'',
      cp_Version = getInt data ''version'' 0,
      cp_ParentID = getString data ''parent_id'',
      cp_ChannelVersions =
        (case mget data ''channel_versions'' of Some (VMap m) \<Rightarrow> int_entries [] m | _ \<Rightarrow> []),
      cp_VersionsSeen =
        (case mget data ''versions_seen'' of Some (VMap m) \<Rightarrow> seen_entries [] m | _ \<Rightarrow> []),
      cp_State =
        (case mget data ''state'' of
           Some (VMap m) \<Rightarrow> copy_map (map (map_prod id deepCopy) m) | _ \<Rightarrow> []),
      cp_PendingWrites =
        (case mget data ''pending_writes'' of Some (VList vs) \<Rightarrow> pending_entries vs | _ \<Rightarrow> []),
      cp_Metadata =
        (case mget data ''metadata'' of Some (VMap m) \<Rightarrow> parse_metadata m | _ \<Rightarrow> zero_metadata)\<rparr>"

end
