(* ===== verification/CheckpointManager.thy ===== *)
theory CheckpointManager
  imports Checkpoints ChannelAgg
begin

text \<open>
  The \<open>CheckpointManager\<close> of \<open>checkpoint/checkpoint.go\<close>: the checkpoints of every thread, oldest
  first, with conflict detection on \<open>Save\<close> and \<open>PutWrites\<close>. Every method runs under the mutex of
  the manager, so each is one step here. The identifiers and times the clones get are
  arguments; a method that clones several checkpoints takes one per clone.
\<close>

record checkpoint_manager =
  cm_checkpoints :: "checkpoint list gomap"
  cm_maxVersions :: int

definition DefaultCheckpointMaxVersions :: int where
  "DefaultCheckpointMaxVersions = 100"

definition NewCheckpointManager :: "int \<Rightarrow> checkpoint_manager" where
  "NewCheckpointManager maxVersions =
     \<lparr>cm_checkpoints = [],
      cm_maxVersions = (if maxVersions \<le> 0 then DefaultCheckpointMaxVersions else maxVersions)\<rparr>"

definition thread :: "checkpoint_manager \<Rightarrow> string \<Rightarrow> checkpoint list" where
  "thread cm t = mgetd [] (cm_checkpoints cm) t"

definition set_thread :: "checkpoint_manager \<Rightarrow> string \<Rightarrow> checkpoint list \<Rightarrow> checkpoint_manager" where
  "set_thread cm t cps = cm\<lparr>cm_checkpoints := mput t cps (cm_checkpoints cm)\<rparr>"

definition RunnableConfigToMap :: "runnable_config option \<Rightarrow> gval gomap" where
  "RunnableConfigToMap cfg =
     (case cfg of
        None \<Rightarrow> []
      | Some c \<Rightarrow>
          [(''thread_id'', VStr (ThreadID c)),
           (''checkpoint_id'', VStr (GetOrEmpty c ''checkpoint_id'')),
           (''checkpoint_ns'', VStr (GetOrEmpty c ''checkpoint_ns''))])"

definition Save :: "checkpoint_manager \<Rightarrow> checkpoint \<Rightarrow> unit res \<times> checkpoint_manager" where
  "Save cm c =
     (let t = md_ThreadID (cp_Metadata c);
          cps = thread cm t;
          latest = last cps;
          conflict = VersionConflictError (cp_Version c) (cp_Version latest + 1) (cp_ID c) t
      in if cps \<noteq> [] \<and> cp_ParentID c \<noteq> [] \<and> cp_ID latest \<noteq> cp_ParentID c then (Inl conflict, cm)
         else if cps \<noteq> [] \<and> 0 < cp_Version c \<and> cp_Version latest \<noteq> cp_Version c - 1 then (Inl conflict, cm)
         else
           let cps' = cps @ [c];
               cps'' = (if cm_maxVersions cm < int (length cps')
                        then drop (nat (int (length cps') - cm_maxVersions cm)) cps' else cps')
           in (Inr (), set_thread cm t cps''))"

fun apply_pending :: "checkpoint \<Rightarrow> pending_write list \<Rightarrow> checkpoint" where
  "apply_pending c [] = c"
| "apply_pending c (w # ws) =
     apply_pending
       (IncrementChannel (c\<lparr>cp_State := mput (pw_Channel w) (pw_Value w) (cp_State c)\<rparr>) (pw_Channel w)) ws"

definition PutWrites ::
    "string \<Rightarrow> string \<Rightarrow> checkpoint_manager \<Rightarrow> runnable_config \<Rightarrow> pending_write list \<Rightarrow>
     unit res \<times> checkpoint_manager" where
  "PutWrites uuid now cm config writes =
     (let t = ThreadID config
      in if t = [] then (Inl (Fail ''thread ID is required for put_writes''), cm)
         else case thread cm t of
           [] \<Rightarrow> (Inl (Fail (''no checkpoint found for thread '' @ t)), cm)
         | cps \<Rightarrow>
             (let current = last cps; callerID = GetOrEmpty config ''checkpoint_id''
              in if callerID = []
                 then (Inl (Fail (''checkpoint_id is required for put_writes on thread '' @ t)), cm)
                 else if callerID \<noteq> cp_ID current
                 then (Inl (VersionConflictError (cp_Version current) (cp_Version current + 1)
                              (cp_ID current) t), cm)
                 else
                   let new = (Checkpoint_Clone uuid now current)
                               \<lparr>cp_Version := cp_Version current + 1, cp_ParentID := cp_ID current\<rparr>
                   in (Inr (), set_thread cm t (cps @ [apply_pending new writes]))))"

definition Load :: "string \<Rightarrow> string \<Rightarrow> checkpoint_manager \<Rightarrow> string \<Rightarrow> checkpoint option" where
  "Load uuid now cm t =
     (case thread cm t of [] \<Rightarrow> None | cps \<Rightarrow> Some (Checkpoint_Clone uuid now (last cps)))"

definition LoadByCheckpointID ::
    "string \<Rightarrow> string \<Rightarrow> checkpoint_manager \<Rightarrow> string \<Rightarrow> checkpoint res" where
  "LoadByCheckpointID uuid now cm cid =
     (case List.find (\<lambda>c. cp_ID c = cid) (concat (map snd (cm_checkpoints cm))) of
        Some c \<Rightarrow> Inr (Checkpoint_Clone uuid now c)
      | None \<Rightarrow> Inl (Fail (''checkpoint not found: '' @ cid)))"

text \<open>\<open>ids i\<close> and \<open>now i\<close> are the identifier and the time of the \<open>i\<close>-th clone.\<close>

fun clone_all ::
    "(nat \<Rightarrow> string) \<Rightarrow> (nat \<Rightarrow> string) \<Rightarrow> nat \<Rightarrow> checkpoint list \<Rightarrow> checkpoint list" where
  "clone_all ids now i [] = []"
| "clone_all ids now i (c # cs) = Checkpoint_Clone (ids i) (now i) c # clone_all ids now (Suc i) cs"

definition clip_limit :: "int \<Rightarrow> nat \<Rightarrow> nat" where
  "clip_limit limit n = (if limit \<le> 0 \<or> int n < limit then n else nat limit)"

definition Manager_List ::
    "(nat \<Rightarrow> string) \<Rightarrow> (nat \<Rightarrow> string) \<Rightarrow> checkpoint_manager \<Rightarrow> string \<Rightarrow> int \<Rightarrow> checkpoint list" where
  "Manager_List ids now cm t limit =
     (let cps = thread cm t; n = clip_limit limit (length cps)
      in clone_all ids now 0 (take n (drop (length cps - n) cps)))"

section \<open>Tuples\<close>

text \<open>The map \<open>NewCheckpointTuple\<close> builds has fixed keys; it is empty when there is no checkpoint.\<close>

record tuple_metadata =
  tm_id :: string
  tm_version :: int
  tm_thread_id :: string
  tm_step :: int
  tm_source :: string
  tm_created_at :: string

record checkpoint_tuple =
  tup_Config :: runnable_config
  tup_Checkpoint :: "checkpoint option"
  tup_ParentConfig :: "runnable_config option"
  tup_Metadata :: "tuple_metadata option"

definition NewCheckpointTuple ::
    "runnable_config option \<Rightarrow> checkpoint option \<Rightarrow> runnable_config option \<Rightarrow> checkpoint_tuple" where
  "NewCheckpointTuple config checkpoint parentConfig =
     \<lparr>tup_Config = (case config of None \<Rightarrow> NewRunnableConfig | Some c \<Rightarrow> c),
      tup_Checkpoint = checkpoint, tup_ParentConfig = parentConfig,
      tup_Metadata = map_option
        (\<lambda>c. \<lparr>tm_id = cp_ID c, tm_version = cp_Version c, tm_thread_id = md_ThreadID (cp_Metadata c),
              tm_step = md_Step (cp_Metadata c), tm_source = md_Source (cp_Metadata c),
              tm_created_at = md_CreatedAt (cp_Metadata c)\<rparr>) checkpoint\<rparr>"

definition config_for :: "string \<Rightarrow> string \<Rightarrow> runnable_config" where
  "config_for t cid = Config_Set (NewRunnableConfig\<lparr>ThreadID := t\<rparr>) ''checkpoint_id'' (VStr cid)"

definition GetTuple ::
    "(nat \<Rightarrow> string) \<Rightarrow> (nat \<Rightarrow> string) \<Rightarrow> checkpoint_manager \<Rightarrow> runnable_config \<Rightarrow> checkpoint_tuple res" where
  "GetTuple ids now cm config =
     (let t = ThreadID config; cps = thread cm t
      in if t = [] then Inl (Fail ''thread ID is required'')
         else if cps = [] then Inr (NewCheckpointTuple (Some config) None None)
         else
           let latest = Checkpoint_Clone (ids 0) (now 0) (last cps);
               parent = (if 1 < length cps
                         then Some (Checkpoint_Clone (ids 1) (now 1) (cps ! (length cps - 2))) else None);
               parentConfig = map_option (\<lambda>p. config_for t (cp_ID p)) parent
           in Inr (NewCheckpointTuple (Some config) (Some latest) parentConfig))"

text \<open>The search loop: the target's clone with the clone of the entry before it.\<close>

fun version_loop ::
    "(nat \<Rightarrow> string) \<Rightarrow> (nat \<Rightarrow> string) \<Rightarrow> int \<Rightarrow> checkpoint option \<Rightarrow> checkpoint list \<Rightarrow>
     (checkpoint \<times> checkpoint option) option" where
  "version_loop ids now v prev [] = None"
| "version_loop ids now v prev (c # cs) =
     (if cp_Version c = v
      then Some (Checkpoint_Clone (ids 0) (now 0) c,
                 map_option (Checkpoint_Clone (ids 1) (now 1)) prev)
      else version_loop ids now v (Some c) cs)"

definition GetTupleByVersion ::
    "(nat \<Rightarrow> string) \<Rightarrow> (nat \<Rightarrow> string) \<Rightarrow> checkpoint_manager \<Rightarrow> runnable_config \<Rightarrow> int \<Rightarrow>
     checkpoint_tuple res" where
  "GetTupleByVersion ids now cm config v =
     (let t = ThreadID config
      in if t = [] then Inl (Fail ''thread ID is required'')
         else case version_loop ids now v None (thread cm t) of
           None \<Rightarrow> Inl (Fail (''version not found: '' @ show_int v))
         | Some (target, parent) \<Rightarrow>
             Inr (NewCheckpointTuple (Some config) (Some target)
                    (map_option (\<lambda>p. config_for t (cp_ID p)) parent)))"

text \<open>The loop of \<open>GetLineage\<close>; \<open>prev\<close> is the stored entry before the list.\<close>

fun lineage_loop ::
    "(nat \<Rightarrow> string) \<Rightarrow> (nat \<Rightarrow> string) \<Rightarrow> string \<Rightarrow> nat \<Rightarrow> checkpoint option \<Rightarrow> checkpoint list \<Rightarrow>
     checkpoint_tuple list" where
  "lineage_loop ids now t i prev [] = []"
| "lineage_loop ids now t i prev (c # cs) =
     (let cp = Checkpoint_Clone (ids i) (now i) c
      in NewCheckpointTuple (Some (config_for t (cp_ID cp))) (Some cp)
           (map_option (\<lambda>p. config_for t (cp_ID p)) prev) # lineage_loop ids now t (Suc i) (Some c) cs)"

definition GetLineage ::
    "(nat \<Rightarrow> string) \<Rightarrow> (nat \<Rightarrow> string) \<Rightarrow> checkpoint_manager \<Rightarrow> string \<Rightarrow> int \<Rightarrow>
     checkpoint_tuple list" where
  "GetLineage ids now cm t limit =
     (let cps = thread cm t; n = clip_limit limit (length cps); i = length cps - n
      in lineage_loop ids now t 0 (if 0 < i then Some (cps ! (i - 1)) else None) (drop i cps))"

definition Manager_GetVersion ::
    "string \<Rightarrow> string \<Rightarrow> checkpoint_manager \<Rightarrow> string \<Rightarrow> int \<Rightarrow> checkpoint res" where
  "Manager_GetVersion uuid now cm t v =
     (case List.find (\<lambda>c. cp_Version c = v) (thread cm t) of
        Some c \<Rightarrow> Inr (Checkpoint_Clone uuid now c)
      | None \<Rightarrow> Inl (Fail (''version not found: '' @ show_int v)))"

section \<open>Deletion\<close>

fun remove_first :: "('a \<Rightarrow> bool) \<Rightarrow> 'a list \<Rightarrow> 'a list" where
  "remove_first P [] = []"
| "remove_first P (x # xs) = (if P x then xs else x # remove_first P xs)"

fun delete_loop ::
    "string \<Rightarrow> checkpoint list gomap \<Rightarrow> (string \<times> checkpoint list) option" where
  "delete_loop cid [] = None"
| "delete_loop cid ((t, cps) # m) =
     (if \<exists>c \<in> set cps. cp_ID c = cid then Some (t, remove_first (\<lambda>c. cp_ID c = cid) cps)
      else delete_loop cid m)"

definition Manager_Delete :: "checkpoint_manager \<Rightarrow> string \<Rightarrow> unit res \<times> checkpoint_manager" where
  "Manager_Delete cm cid =
     (case delete_loop cid (cm_checkpoints cm) of
        None \<Rightarrow> (Inl (Fail (''checkpoint not found: '' @ cid)), cm)
      | Some (t, cps) \<Rightarrow> (Inr (), set_thread cm t cps))"

definition ClearThread :: "checkpoint_manager \<Rightarrow> string \<Rightarrow> checkpoint_manager" where
  "ClearThread cm t = cm\<lparr>cm_checkpoints := mdel t (cm_checkpoints cm)\<rparr>"

definition ClearAll :: "checkpoint_manager \<Rightarrow> checkpoint_manager" where
  "ClearAll cm = cm\<lparr>cm_checkpoints := []\<rparr>"

end
