(* ===== verification/CheckpointProps.thy ===== *)
theory CheckpointProps
  imports CheckpointManager
begin

text \<open>
  Properties of checkpoints and of the manager: the seen-version protocol, the storage form
  with and without JSON, optimistic concurrency, and what the listing methods return.
\<close>

section \<open>Seen versions\<close>

lemma copy_map_id [simp]: "mwf m \<Longrightarrow> copy_map m = m"
  by (simp add: copy_map_def)

lemma HasSeen_MarkSeen:
  "HasSeen (MarkSeen c node ch) node' ch' = (if node' = node \<and> ch' = ch then True else HasSeen c node' ch')"
  by (auto simp: HasSeen_def MarkSeen_def Let_def mhas_def mgetd_def split: option.splits)

lemma HasSeen_Increment:
  "HasSeen (IncrementChannel c ch) node ch' \<longleftrightarrow>
     (if ch' = ch then \<exists>vs. mget (cp_VersionsSeen c) node = Some vs \<and>
                       mget vs ch = Some (mgetd 0 (cp_ChannelVersions c) ch + 1)
      else HasSeen c node ch')"
  by (auto simp: HasSeen_def IncrementChannel_def mgetd_def split: option.splits)

text \<open>No node has seen a version that does not exist yet.\<close>

definition seen_ok :: "checkpoint \<Rightarrow> bool" where
  "seen_ok c = (\<forall>node vs ch v. mget (cp_VersionsSeen c) node = Some vs \<longrightarrow> mget vs ch = Some v \<longrightarrow>
     v \<le> mgetd 0 (cp_ChannelVersions c) ch)"

text \<open>The operations of the protocol.\<close>

datatype seen_op = Bump string | See string string

fun seen_run :: "checkpoint \<Rightarrow> seen_op list \<Rightarrow> checkpoint" where
  "seen_run c [] = c"
| "seen_run c (Bump ch # ops) = seen_run (IncrementChannel c ch) ops"
| "seen_run c (See node ch # ops) = seen_run (MarkSeen c node ch) ops"

lemma seen_ok_increment: "seen_ok c \<Longrightarrow> seen_ok (IncrementChannel c ch)"
  unfolding seen_ok_def by (fastforce simp: IncrementChannel_def mgetd_def split: option.splits)

lemma seen_ok_mark: "seen_ok c \<Longrightarrow> seen_ok (MarkSeen c node ch)"
  unfolding seen_ok_def
  by (fastforce simp: MarkSeen_def Let_def mgetd_def mhas_def split: option.splits if_splits)

lemma seen_ok_run: "seen_ok c \<Longrightarrow> seen_ok (seen_run c ops)"
  by (induction c ops rule: seen_run.induct) (auto simp: seen_ok_increment seen_ok_mark)

lemma seen_run_append: "seen_run c (ops @ ops') = seen_run (seen_run c ops) ops'"
  by (induction c ops rule: seen_run.induct) auto

lemma seen_after_bump: "seen_ok c \<Longrightarrow> \<not> HasSeen (IncrementChannel c ch) node ch"
  unfolding seen_ok_def by (fastforce simp: HasSeen_Increment)

text \<open>The last operation of a history that concerns the node and the channel.\<close>

fun last_is_see :: "string \<Rightarrow> string \<Rightarrow> seen_op list \<Rightarrow> bool" where
  "last_is_see node ch [] = False"
| "last_is_see node ch (Bump ch' # ops) = (if ch' = ch then False else last_is_see node ch ops)"
| "last_is_see node ch (See n ch' # ops) =
     (if n = node \<and> ch' = ch then True else last_is_see node ch ops)"

text \<open>
  in a new checkpoint, after any sequence of channel increments and seen marks, \<open>HasSeen\<close>
  holds of a node and a channel exactly if the latest operation that concerns them is the
  node's mark, that is if the channel has not changed since the node last saw it.
\<close>

lemma has_seen_iff_unchanged:
  "HasSeen (seen_run (NewCheckpoint uuid now t step) ops) node ch = last_is_see node ch (rev ops)"
proof (induction ops rule: rev_induct)
  case Nil
  then show ?case by (simp add: NewCheckpoint_def HasSeen_def)
next
  case (snoc op ops)
  have "seen_ok (NewCheckpoint uuid now t step)"
    by (simp add: seen_ok_def NewCheckpoint_def)
  then have ok: "seen_ok (seen_run (NewCheckpoint uuid now t step) ops)"
    by (rule seen_ok_run)
  show ?case
  proof (cases op)
    case (Bump ch')
    then show ?thesis
      using snoc seen_after_bump [OF ok, of ch'] by (auto simp: seen_run_append HasSeen_Increment)
  next
    case (See n ch')
    then show ?thesis using snoc by (auto simp: seen_run_append HasSeen_MarkSeen)
  qed
qed

section \<open>The storage form\<close>

definition valid_str :: "string \<Rightarrow> bool" where
  "valid_str s = (utf8_fix s = s)"

definition json_exact :: "gval \<Rightarrow> bool" where
  "json_exact v = (json_rt v = Some v \<and> gval_ok v)"

lemma json_exact_copy [simp]: "json_exact v \<Longrightarrow> deepCopy v = v"
  by (auto simp: json_exact_def intro: json_rt_stable)

lemma those_map_Some: "(\<And>x. x \<in> set xs \<Longrightarrow> f x = Some (g x)) \<Longrightarrow> those (map f xs) = Some (map g xs)"
  by (induction xs) auto

lemma jobject_exact:
  assumes "mwf m" and "\<And>k v. (k, v) \<in> set m \<Longrightarrow> valid_str k \<and> f v = Some (g v)"
  shows "jobject (map (map_prod id f) m) = Some (VMap (map (map_prod id g) m))"
proof -
  have "those (map snd (map (map_prod id f) m)) = Some (map snd (map (map_prod id g) m))"
    using assms(2) by (auto intro!: those_map_Some simp: comp_def)
  moreover have "map (utf8_fix \<circ> fst) (map (map_prod id f) m) = mkeys m"
    using assms(2) by (auto simp: mkeys_def valid_str_def)
  moreover have "zip (mkeys m) (map snd (map (map_prod id g) m)) = map (map_prod id g) m"
    by (induction m) auto
  moreover have "mwf (map (map_prod id g) m)"
    using assms(1) by (simp add: mwf_def mkeys_def comp_def)
  ultimately show ?thesis by (simp add: jobject_def)
qed

definition json_of :: "gval \<Rightarrow> gval" where
  "json_of v = the (json_rt v)"

lemma json_rt_map:
  assumes "mwf m" and "\<And>k v. (k, v) \<in> set m \<Longrightarrow> valid_str k \<and> json_rt v \<noteq> None"
  shows "json_rt (VMap m) = Some (VMap (map (map_prod id json_of) m))"
  using jobject_exact [of m json_rt json_of] assms by (fastforce simp: json_of_def)

definition ints_ok :: "int gomap \<Rightarrow> bool" where
  "ints_ok m = (mwf m \<and> list_all (\<lambda>(k, i). valid_str k \<and> small i) m)"

definition json_ints :: "int gomap \<Rightarrow> gval gomap" where
  "json_ints m = map (map_prod id (\<lambda>i. VFloat (f64_of_int i))) m"

lemma json_rt_ints: "ints_ok m \<Longrightarrow> jobject (map (map_prod id json_int) m) = Some (VMap (json_ints m))"
  unfolding json_ints_def
  by (rule jobject_exact) (auto simp: ints_ok_def list_all_iff json_int_def)

lemma int_entries_json: "list_all (small \<circ> snd) m \<Longrightarrow> int_entries acc (json_ints m) = mmerge acc m"
  by (induction acc m rule: mmerge.induct) (auto simp: json_ints_def read_small)

lemma int_entries_ok: "ints_ok m \<Longrightarrow> int_entries [] (json_ints m) = m"
  by (subst int_entries_json) (auto simp: ints_ok_def list_all_iff)

lemma seen_entries_json:
  "list_all (ints_ok \<circ> snd) m \<Longrightarrow>
   seen_entries acc (map (map_prod id (\<lambda>m. VMap (json_ints m))) m) = mmerge acc m"
  by (induction acc m rule: mmerge.induct) (auto simp: int_entries_ok)

text \<open>A checkpoint whose contents JSON can represent, with counters below \<open>2 ^ 53\<close>.\<close>

definition md_ok :: "checkpoint_metadata \<Rightarrow> bool" where
  "md_ok md =
     (valid_str (md_ID md) \<and> valid_str (md_ParentID md) \<and> valid_str (md_ThreadID md) \<and>
      small (md_Step md) \<and> valid_str (md_CreatedAt md) \<and> rfc3339 (md_CreatedAt md) \<and>
      valid_str (md_Source md) \<and> mwf (md_Metadata md) \<and>
      list_all (\<lambda>(k, v). valid_str k \<and> json_exact v \<and> k \<notin> set metadata_fields) (md_Metadata md))"

definition pw_ok :: "pending_write \<Rightarrow> bool" where
  "pw_ok pw = (valid_str (pw_Channel pw) \<and> valid_str (pw_Node pw) \<and> json_exact (pw_Value pw))"

definition cp_ok :: "checkpoint \<Rightarrow> bool" where
  "cp_ok c =
     (valid_str (cp_ID c) \<and> valid_str (cp_ParentID c) \<and> small (cp_Version c) \<and>
      ints_ok (cp_ChannelVersions c) \<and>
      mwf (cp_VersionsSeen c) \<and> list_all (\<lambda>(k, m). valid_str k \<and> ints_ok m) (cp_VersionsSeen c) \<and>
      mwf (cp_State c) \<and> list_all (\<lambda>(k, v). valid_str k \<and> json_exact v) (cp_State c) \<and>
      list_all pw_ok (cp_PendingWrites c) \<and> md_ok (cp_Metadata c))"

lemma valid_ascii [simp]: "ascii s \<Longrightarrow> valid_str s"
  by (simp add: valid_str_def utf8_fix_ascii)

lemma map_deepCopy_exact:
  "list_all (\<lambda>(k, v). valid_str k \<and> json_exact v) m \<Longrightarrow> map (map_prod id deepCopy) m = m"
  by (induction m) auto

lemma json_of_exact [simp]: "json_exact v \<Longrightarrow> json_rt v = Some v"
  by (simp add: json_exact_def)

lemma metadata_map_absent:
  "list_all (\<lambda>(k, v). valid_str k \<and> json_exact v \<and> k \<notin> set metadata_fields) m \<Longrightarrow>
   k \<in> set metadata_fields \<Longrightarrow> k \<notin> set (mkeys m)"
  by (induction m) auto

lemma metadata_map_eq:
  assumes "md_ok md"
  shows "metadata_map md =
       [(''id'', VStr (md_ID md)), (''parent_id'', VStr (md_ParentID md)),
        (''thread_id'', VStr (md_ThreadID md)), (''step'', VInt (word_of_int (md_Step md))),
        (''created_at'', VStr (md_CreatedAt md)), (''source'', VStr (md_Source md))] @ md_Metadata md"
    and "mwf (metadata_map md)"
proof -
  let ?fs = "[(''id'', VStr (md_ID md)), (''parent_id'', VStr (md_ParentID md)),
        (''thread_id'', VStr (md_ThreadID md)), (''step'', VInt (word_of_int (md_Step md))),
        (''created_at'', VStr (md_CreatedAt md)), (''source'', VStr (md_Source md))]"
  have keys: "mkeys ?fs = metadata_fields" by (simp add: metadata_fields_def)
  have "mwf ?fs" by (simp add: mwf_def)
  moreover have "set metadata_fields \<inter> set (mkeys (md_Metadata md)) = {}"
    using assms metadata_map_absent [of "md_Metadata md"] by (auto simp: md_ok_def)
  ultimately have wf: "mwf (?fs @ md_Metadata md)"
    using assms keys by (simp only: mwf_append md_ok_def)
  then show eq: "metadata_map md = ?fs @ md_Metadata md"
    unfolding metadata_map_def by (rule mmerge_app)
  from wf show "mwf (metadata_map md)" by (simp only: eq)
qed

lemma filter_metadata:
  "list_all (\<lambda>(k, v). valid_str k \<and> json_exact v \<and> k \<notin> set metadata_fields) m \<Longrightarrow>
   filter (\<lambda>(k, v). k \<notin> set metadata_fields) m = m"
  by (rule filter_True) (auto simp: list_all_iff)

lemma map_json_exact:
  "list_all (\<lambda>(k, v). valid_str k \<and> json_exact v \<and> P k) m \<Longrightarrow> map (map_prod id json_of) m = m"
  by (induction m) (auto simp: json_of_def)

lemma metadata_roundtrip:
  assumes "md_ok md"
  shows "\<exists>m. json_rt (VMap (metadata_map md)) = Some (VMap m) \<and> parse_metadata m = md"
proof -
  let ?n = "VFloat (f64_of_int (sint (word_of_int (md_Step md) :: 64 word)))"
  let ?m = "[(''id'', VStr (md_ID md)), (''parent_id'', VStr (md_ParentID md)),
        (''thread_id'', VStr (md_ThreadID md)), (''step'', ?n),
        (''created_at'', VStr (md_CreatedAt md)), (''source'', VStr (md_Source md))] @ md_Metadata md"
  have names: "ascii ''id''" "ascii ''parent_id''" "ascii ''thread_id''" "ascii ''step''"
    "ascii ''created_at''" "ascii ''source''"
    by (simp_all add: ascii_def byte_in_def)
  have "json_rt (VMap (metadata_map md)) = Some (VMap (map (map_prod id json_of) (metadata_map md)))"
    using assms names
    by (intro json_rt_map metadata_map_eq) (auto simp: metadata_map_eq(1) md_ok_def list_all_iff)
  moreover have "map (map_prod id json_of) (metadata_map md) = ?m"
    using assms map_json_exact [of "\<lambda>k. k \<notin> set metadata_fields" "md_Metadata md"]
    by (simp add: metadata_map_eq(1) json_of_def md_ok_def valid_str_def)
  moreover have "parse_metadata ?m = md"
  proof -
    have "md_CreatedAt md \<noteq> []" using assms by (auto simp: md_ok_def rfc3339_def)
    moreover have "filter (\<lambda>(k, v). k \<notin> set metadata_fields) ?m = md_Metadata md"
      using assms filter_metadata [of "md_Metadata md"] by (simp add: md_ok_def metadata_fields_def)
    ultimately show ?thesis
      using assms
      by (auto simp: parse_metadata_def getString_def getInt_def md_ok_def sint_small read_small
          simp del: filter.simps intro!: checkpoint_metadata.equality)
  qed
  ultimately show ?thesis by auto
qed

text \<open>What storing forgets: the timestamp and the task of a pending write.\<close>

definition stored_write :: "pending_write \<Rightarrow> pending_write" where
  "stored_write pw = pw\<lparr>pw_Timestamp := zero_time, pw_TaskID := []\<rparr>"

lemma pending_roundtrip:
  assumes "list_all pw_ok pws"
  shows "\<exists>vs. those (map (\<lambda>pw. jobject (map (map_prod id json_rt) (pending_map pw))) pws) = Some vs \<and>
     pending_entries vs = map stored_write pws"
  using assms
proof (induction pws)
  case Nil
  then show ?case by simp
next
  case (Cons pw pws)
  from Cons.prems have "list_all pw_ok pws" by simp
  from Cons.IH [OF this] obtain vs where
    vs: "those (map (\<lambda>pw. jobject (map (map_prod id json_rt) (pending_map pw))) pws) = Some vs"
      "pending_entries vs = map stored_write pws" by blast
  let ?p = "pending_map pw"
  have names: "ascii ''channel''" "ascii ''value''" "ascii ''overwrite''" "ascii ''node''"
    by (simp_all add: ascii_def byte_in_def)
  have ok: "pw_ok pw" using Cons.prems by simp
  have "json_rt (VMap ?p) = Some (VMap (map (map_prod id json_of) ?p))"
    using ok names by (intro json_rt_map) (auto simp: pending_map_def pw_ok_def mwf_def)
  moreover have "map (map_prod id json_of) ?p = ?p"
    using ok by (simp add: pending_map_def pw_ok_def json_of_def valid_str_def)
  ultimately have "jobject (map (map_prod id json_rt) ?p) = Some (VMap ?p)" by simp
  moreover have "pending_entries (VMap ?p # vs) = stored_write pw # map stored_write pws"
    using vs(2) by (auto simp: pending_map_def getString_def getBool_def mgetd_def stored_write_def
        intro!: pending_write.equality)
  ultimately show ?case
    using vs(1) by (intro exI [of _ "VMap ?p # vs"]) (simp only: list.map those.simps option.case option.map simp_thms)
qed

definition stored :: "checkpoint \<Rightarrow> checkpoint" where
  "stored c = c\<lparr>cp_PendingWrites := map stored_write (cp_PendingWrites c)\<rparr>"

lemma to_map_wf: "mwf (Checkpoint_ToMap c)"
  by (simp add: Checkpoint_ToMap_def mwf_def)

lemma seen_rt:
  assumes "mwf m" and "list_all (\<lambda>(k, m). valid_str k \<and> ints_ok m) m"
  shows "json_rt (VIntMapMap (copy_map (map (map_prod id copy_map) m))) =
      Some (VMap (map (map_prod id (\<lambda>m. VMap (json_ints m))) m))"
proof -
  have "map (map_prod id copy_map) m = m"
    using assms(2) by (induction m) (auto simp: ints_ok_def)
  then show ?thesis
    using assms by (simp del: id_apply) (intro jobject_exact, auto simp: list_all_iff json_rt_ints)
qed


definition sample_checkpoint :: checkpoint where
  "sample_checkpoint =
     \<lparr>cp_ID = ''c2'', cp_Version = 7, cp_ParentID = ''c1'', cp_ChannelVersions = [(''x'', 3)],
      cp_VersionsSeen = [(''n'', [(''x'', 3)])], cp_State = [(''x'', VBool True)],
      cp_PendingWrites = [\<lparr>pw_Channel = ''x'', pw_Value = VStr ''v'', pw_Overwrite = True,
        pw_Node = ''n'', pw_Timestamp = ''2024-02-29T12:00:00.5Z'', pw_TaskID = ''t''\<rparr>],
      cp_Metadata = \<lparr>md_ID = ''c2'', md_ParentID = ''c1'', md_ThreadID = ''a'', md_Step = 4,
        md_CreatedAt = ''2024-02-29T12:00:00.5Z'', md_Source = ''node'', md_Metadata = []\<rparr>\<rparr>"

lemma sample_ok: "cp_ok sample_checkpoint"
  by code_simp


text \<open>
  reading the storage form back without JSON in between, as a saver that keeps Go values
  does, loses every counter: the version, the step, the channel versions, the seen versions
  and the pending writes, because \<open>FromMap\<close> only recognises the types JSON produces.
\<close>

lemma checkpoint_map_loses_counters:
  "cp_Version (Checkpoint_FromMap (Checkpoint_ToMap c)) = 0 \<and>
   cp_ChannelVersions (Checkpoint_FromMap (Checkpoint_ToMap c)) = [] \<and>
   cp_VersionsSeen (Checkpoint_FromMap (Checkpoint_ToMap c)) = [] \<and>
   cp_PendingWrites (Checkpoint_FromMap (Checkpoint_ToMap c)) = [] \<and>
   cp_ID (Checkpoint_FromMap (Checkpoint_ToMap c)) = cp_ID c \<and>
   cp_ParentID (Checkpoint_FromMap (Checkpoint_ToMap c)) = cp_ParentID c"
  by (simp add: Checkpoint_FromMap_def Checkpoint_ToMap_def getInt_def getString_def)

section \<open>The manager\<close>

lemma thread_set [simp]: "thread (set_thread cm t cps) t' = (if t' = t then cps else thread cm t')"
  by (simp add: thread_def set_thread_def)

lemma thread_maxVersions [simp]:
  "cm_maxVersions (set_thread cm t cps) = cm_maxVersions cm"
  by (simp add: set_thread_def)

lemma thread_clear [simp]:
  "thread (ClearThread cm t) t' = (if t' = t then [] else thread cm t')"
  "thread (ClearAll cm) t' = []"
  "thread (NewCheckpointManager n) t' = []"
  by (simp_all add: thread_def ClearThread_def ClearAll_def NewCheckpointManager_def mgetd_def)

lemma apply_pending_fields [simp]:
  "cp_ID (apply_pending c ws) = cp_ID c"
  "cp_Version (apply_pending c ws) = cp_Version c"
  "cp_ParentID (apply_pending c ws) = cp_ParentID c"
  "cp_Metadata (apply_pending c ws) = cp_Metadata c"
  by (induction c ws rule: apply_pending.induct) (simp_all add: IncrementChannel_def)

lemma clone_fields [simp]:
  "cp_ID (Checkpoint_Clone i n c) = i"
  "cp_Version (Checkpoint_Clone i n c) = cp_Version c"
  "cp_ParentID (Checkpoint_Clone i n c) = cp_ID c"
  "md_ThreadID (cp_Metadata (Checkpoint_Clone i n c)) = md_ThreadID (cp_Metadata c)"
  by (simp_all add: Checkpoint_Clone_def)

text \<open>One call on the manager that may change it, deletion of single checkpoints apart.\<close>

inductive cm_step :: "checkpoint_manager \<Rightarrow> checkpoint_manager \<Rightarrow> bool" where
  save: "cm_step cm (snd (Save cm c))"
| put_writes: "cm_step cm (snd (PutWrites uuid now cm config ws))"
| clear_thread: "cm_step cm (ClearThread cm t)"
| clear_all: "cm_step cm (ClearAll cm)"

inductive cm_reachable :: "int \<Rightarrow> checkpoint_manager \<Rightarrow> bool" for n where
  start: "cm_reachable n (NewCheckpointManager n)"
| step: "cm_reachable n cm \<Longrightarrow> cm_step cm cm' \<Longrightarrow> cm_reachable n cm'"

text \<open>Each checkpoint that names a parent or a version follows the one stored before it.\<close>

definition follows :: "checkpoint \<Rightarrow> checkpoint \<Rightarrow> bool" where
  "follows a b =
     ((cp_ParentID b = [] \<or> cp_ParentID b = cp_ID a) \<and>
      (cp_Version b \<le> 0 \<or> cp_Version b = cp_Version a + 1))"

fun chained :: "checkpoint list \<Rightarrow> bool" where
  "chained (a # b # cs) = (follows a b \<and> chained (b # cs))"
| "chained _ = True"

definition thread_ok :: "string \<Rightarrow> checkpoint list \<Rightarrow> bool" where
  "thread_ok t cps = (chained cps \<and> list_all (\<lambda>c. md_ThreadID (cp_Metadata c) = t) cps)"

lemma chained_snoc: "chained (cps @ [c]) \<longleftrightarrow> chained cps \<and> (cps \<noteq> [] \<longrightarrow> follows (last cps) c)"
  by (induction cps rule: chained.induct) auto

lemma chained_tl: "chained cps \<Longrightarrow> chained (tl cps)"
  by (cases cps rule: chained.cases) auto

lemma chained_drop: "chained cps \<Longrightarrow> chained (drop n cps)"
  by (induction n arbitrary: cps) (auto simp: drop_Suc chained_tl)

lemma thread_ok_drop: "thread_ok t cps \<Longrightarrow> thread_ok t (drop n cps)"
  by (auto simp: thread_ok_def chained_drop list_all_iff dest: in_set_dropD)

lemma thread_ok_snoc:
  "thread_ok t (cps @ [c]) \<longleftrightarrow>
   thread_ok t cps \<and> md_ThreadID (cp_Metadata c) = t \<and> (cps \<noteq> [] \<longrightarrow> follows (last cps) c)"
  by (auto simp: thread_ok_def chained_snoc)

lemma Save_cases:
  obtains (conflict) e where "Save cm c = (Inl e, cm)" "thread cm (md_ThreadID (cp_Metadata c)) \<noteq> []"
      "\<not> follows (last (thread cm (md_ThreadID (cp_Metadata c)))) c"
  | (saved) n where "Save cm c = (Inr (), set_thread cm (md_ThreadID (cp_Metadata c))
        (drop n (thread cm (md_ThreadID (cp_Metadata c)) @ [c])))"
      "thread cm (md_ThreadID (cp_Metadata c)) \<noteq> [] \<Longrightarrow>
         follows (last (thread cm (md_ThreadID (cp_Metadata c)))) c"
      "n = nat (int (Suc (length (thread cm (md_ThreadID (cp_Metadata c))))) - cm_maxVersions cm)"
proof -
  let ?t = "md_ThreadID (cp_Metadata c)"
  let ?l = "last (thread cm ?t)"
  show thesis
  proof (cases "thread cm ?t \<noteq> [] \<and> \<not> follows ?l c")
    case True
    then show thesis
      by (intro conflict [of "VersionConflictError (cp_Version c) (cp_Version ?l + 1) (cp_ID c) ?t"])
        (auto simp: Save_def Let_def follows_def)
  next
    case False
    then have 1: "\<not> (thread cm ?t \<noteq> [] \<and> cp_ParentID c \<noteq> [] \<and> cp_ID ?l \<noteq> cp_ParentID c)"
      and 2: "\<not> (thread cm ?t \<noteq> [] \<and> 0 < cp_Version c \<and> cp_Version ?l \<noteq> cp_Version c - 1)"
      by (auto simp: follows_def)
    show thesis
      by (rule saved [OF _ _ refl]) (use 1 2 False in \<open>auto simp: Save_def Let_def\<close>)
  qed
qed

lemma PutWrites_cases:
  obtains (rejected) e where "PutWrites uuid now cm config ws = (Inl e, cm)"
  | (stored) t cur where "t = ThreadID config" "thread cm t \<noteq> []" "cur = last (thread cm t)"
      "GetOrEmpty config ''checkpoint_id'' = cp_ID cur" "cp_ID cur \<noteq> []"
      "PutWrites uuid now cm config ws = (Inr (), set_thread cm t (thread cm t @
         [apply_pending ((Checkpoint_Clone uuid now cur)
            \<lparr>cp_Version := cp_Version cur + 1, cp_ParentID := cp_ID cur\<rparr>) ws]))"
proof -
  let ?t = "ThreadID config"
  show thesis
  proof (cases "?t = [] \<or> thread cm ?t = [] \<or> GetOrEmpty config ''checkpoint_id'' = [] \<or>
      GetOrEmpty config ''checkpoint_id'' \<noteq> cp_ID (last (thread cm ?t))")
    case True
    then have "\<exists>e. PutWrites uuid now cm config ws = (Inl e, cm)"
      by (auto simp: PutWrites_def Let_def split: list.splits)
    then show thesis using rejected by blast
  next
    case False
    then show thesis
      by (intro stored [OF refl _ refl]) (auto simp: PutWrites_def Let_def split: list.splits)
  qed
qed

lemma cm_step_ok:
  assumes "cm_step cm cm'" and "\<And>t. thread_ok t (thread cm t)"
  shows "thread_ok t (thread cm' t)"
  using assms(1)
proof (cases rule: cm_step.cases)
  case (save c)
  show ?thesis
  proof (cases cm c rule: Save_cases)
    case (conflict e)
    then show ?thesis using save assms(2) by simp
  next
    case (saved n)
    then have "thread_ok (md_ThreadID (cp_Metadata c)) (thread cm (md_ThreadID (cp_Metadata c)) @ [c])"
      using assms(2) by (simp add: thread_ok_snoc)
    from thread_ok_drop [OF this, of n] show ?thesis
      using save saved(1) assms(2) by simp
  qed
next
  case (put_writes uuid now config ws)
  show ?thesis
  proof (cases rule: PutWrites_cases [where uuid = uuid and now = now and cm = cm and config = config and ws = ws])
    case (rejected e)
    then show ?thesis using put_writes assms(2) by simp
  next
    case (stored t' cur)
    have "md_ThreadID (cp_Metadata cur) = t'"
      using assms(2) [of t'] stored(2,3) by (auto simp: thread_ok_def list_all_iff)
    then show ?thesis
      using put_writes stored assms(2) by (simp add: thread_ok_snoc follows_def)
  qed
qed (use assms(2) in \<open>auto simp: thread_ok_def\<close>)


definition demo_manager :: checkpoint_manager where
  "demo_manager = snd (Save (NewCheckpointManager 10) (NewCheckpoint ''c1'' zero_time ''a'' 0))"

definition demo_writes :: "checkpoint_manager \<Rightarrow> string \<Rightarrow> string \<Rightarrow> unit res \<times> checkpoint_manager" where
  "demo_writes cm uuid cid =
     PutWrites uuid zero_time cm (config_for ''a'' cid) [NewPendingWrite zero_time ''x'' (VBool True) False [] []]"

lemma demo_thread: "thread demo_manager ''a'' = [NewCheckpoint ''c1'' zero_time ''a'' 0]"
  by (simp add: demo_manager_def Save_def Let_def NewCheckpoint_def)
    (simp add: thread_def NewCheckpointManager_def mgetd_def)

lemma demo_max: "0 < cm_maxVersions demo_manager"
  by (simp add: demo_manager_def Save_def Let_def NewCheckpointManager_def)


lemma Save_ok:
  assumes "thread cm (md_ThreadID (cp_Metadata c)) = [] \<or> follows (last (thread cm (md_ThreadID (cp_Metadata c)))) c"
    and "0 < cm_maxVersions cm"
  shows "\<exists>cm' cps. Save cm c = (Inr (), cm') \<and> thread cm' (md_ThreadID (cp_Metadata c)) = cps @ [c] \<and>
     int (length (cps @ [c])) \<le> max (cm_maxVersions cm) 1 \<and> cm_maxVersions cm' = cm_maxVersions cm"
proof (cases cm c rule: Save_cases)
  case (conflict e)
  with assms show ?thesis by blast
next
  case (saved n)
  have "n \<le> length (thread cm (md_ThreadID (cp_Metadata c)))" using saved(3) assms(2) by linarith
  then show ?thesis using saved(1,3) assms(2) by (auto simp: max_def nat_le_iff)
qed

text \<open>What a client may do with a loaded checkpoint before saving it.\<close>

definition edit_of :: "checkpoint \<Rightarrow> checkpoint \<Rightarrow> bool" where
  "edit_of c c' =
     (cp_ID c' = cp_ID c \<and> cp_ParentID c' = cp_ParentID c \<and>
      md_ThreadID (cp_Metadata c') = md_ThreadID (cp_Metadata c) \<and>
      (cp_Version c' = 0 \<or> cp_Version c' = cp_Version c + 1))"

text \<open>
  C8: two clients that load the latest checkpoint of a thread, edit their copies and save them:
  the first save is accepted, the second is rejected and changes nothing. A loaded checkpoint
  with a positive version that is saved without raising the version is rejected too.
\<close>

theorem save_prevents_lost_update:
  assumes "thread_ok t (thread cm t)" and "0 < cm_maxVersions cm"
    and "thread cm t \<noteq> []" and "cp_ID (last (thread cm t)) \<noteq> []"
    and "Load u1 n1 cm t = Some c1" and "Load u2 n2 cm t = Some c2"
    and "u1 \<noteq> cp_ID (last (thread cm t))"
    and "edit_of c1 c1'" and "edit_of c2 c2'"
  shows "\<exists>cm'. Save cm c1' = (Inr (), cm') \<and> last (thread cm' t) = c1' \<and>
     (\<exists>e. Save cm' c2' = (Inl e, cm')) \<and>
     (0 < cp_Version c1 \<longrightarrow> (\<exists>e. Save cm c1 = (Inl e, cm)))"
proof -
  let ?cur = "last (thread cm t)"
  have c: "c1 = Checkpoint_Clone u1 n1 ?cur" "c2 = Checkpoint_Clone u2 n2 ?cur"
    using assms(3,5,6) by (auto simp: Load_def split: list.splits)
  have t: "md_ThreadID (cp_Metadata ?cur) = t"
    using assms(1,3) by (auto simp: thread_ok_def list_all_iff)
  have t': "md_ThreadID (cp_Metadata c1') = t" "md_ThreadID (cp_Metadata c2') = t"
    using assms(8,9) c t by (auto simp: edit_of_def)
  have "follows ?cur c1'" using assms(8) c by (auto simp: follows_def edit_of_def)
  then obtain cm' cps where s1: "Save cm c1' = (Inr (), cm')" "thread cm' t = cps @ [c1']"
    using Save_ok [of cm c1'] assms(2) t' by auto
  have "\<not> follows c1' c2'" using assms(4,7,8,9) c by (auto simp: follows_def edit_of_def)
  then have "\<exists>e. Save cm' c2' = (Inl e, cm')"
    using s1(2) t' by (cases cm' c2' rule: Save_cases) auto
  moreover have "\<exists>e. Save cm c1 = (Inl e, cm)" if "0 < cp_Version c1"
  proof -
    have "\<not> follows ?cur c1" using that c by (auto simp: follows_def)
    then show ?thesis using c t assms(3) by (cases cm c1 rule: Save_cases) auto
  qed
  ultimately show ?thesis using s1 by auto
qed

theorem save_prevents_lost_update_witness:
  "\<exists>c1 c2 cm'. Load ''u1'' zero_time demo_manager ''a'' = Some c1 \<and>
     Load ''u2'' zero_time demo_manager ''a'' = Some c2 \<and>
     Save demo_manager (c1\<lparr>cp_State := [(''x'', VBool True)]\<rparr>) = (Inr (), cm') \<and>
     (\<exists>e. Save cm' (c2\<lparr>cp_State := [(''x'', VBool False)]\<rparr>) = (Inl e, cm'))"
proof -
  let ?c1 = "Checkpoint_Clone ''u1'' zero_time (NewCheckpoint ''c1'' zero_time ''a'' 0)"
  let ?c2 = "Checkpoint_Clone ''u2'' zero_time (NewCheckpoint ''c1'' zero_time ''a'' 0)"
  have l: "Load ''u1'' zero_time demo_manager ''a'' = Some ?c1"
    "Load ''u2'' zero_time demo_manager ''a'' = Some ?c2" by (simp_all add: Load_def demo_thread)
  have "thread_ok ''a'' (thread demo_manager ''a'')" "cp_ID (last (thread demo_manager ''a'')) \<noteq> []"
    "''u1'' \<noteq> cp_ID (last (thread demo_manager ''a''))"
    by (simp_all add: demo_thread thread_ok_def NewCheckpoint_def)
  moreover have "edit_of ?c1 (?c1\<lparr>cp_State := [(''x'', VBool True)]\<rparr>)"
    "edit_of ?c2 (?c2\<lparr>cp_State := [(''x'', VBool False)]\<rparr>)"
    by (simp_all add: edit_of_def NewCheckpoint_def)
  ultimately have "\<exists>cm'. Save demo_manager (?c1\<lparr>cp_State := [(''x'', VBool True)]\<rparr>) = (Inr (), cm') \<and>
     last (thread cm' ''a'') = ?c1\<lparr>cp_State := [(''x'', VBool True)]\<rparr> \<and>
     (\<exists>e. Save cm' (?c2\<lparr>cp_State := [(''x'', VBool False)]\<rparr>) = (Inl e, cm')) \<and>
     (0 < cp_Version ?c1 \<longrightarrow> (\<exists>e. Save demo_manager ?c1 = (Inl e, demo_manager)))"
    using demo_max l demo_thread by (intro save_prevents_lost_update [of "''a''" demo_manager "''u1''" zero_time ?c1 "''u2''" zero_time ?c2]) auto
  then show ?thesis using l by blast
qed

section \<open>Writes, tuples and lists\<close>

text \<open>The last value a list of writes puts on a channel, and how many writes it has for it.\<close>

definition writes_to :: "string \<Rightarrow> pending_write list \<Rightarrow> pending_write list" where
  "writes_to k ws = filter (\<lambda>w. pw_Channel w = k) ws"

lemma apply_pending_state:
  "mget (cp_State (apply_pending c ws)) k =
     (if writes_to k ws = [] then mget (cp_State c) k else Some (pw_Value (last (writes_to k ws))))"
  by (induction c ws rule: apply_pending.induct) (auto simp: writes_to_def IncrementChannel_def)

lemma apply_pending_versions:
  "mgetd 0 (cp_ChannelVersions (apply_pending c ws)) k =
     mgetd 0 (cp_ChannelVersions c) k + int (length (writes_to k ws))"
  by (induction c ws rule: apply_pending.induct) (auto simp: writes_to_def IncrementChannel_def)

text \<open>
  an accepted \<open>PutWrites\<close> appends one checkpoint, a child of the latest with the next
  version: each written channel has the value of its last write and its version advanced
  once per write, every other channel is copied, no other thread changes, and nothing is
  trimmed, whatever the version limit of the manager.
\<close>

lemma put_writes_effect:
  assumes "ThreadID config = t" and "t \<noteq> []" and "thread cm t \<noteq> []"
    and "cur = last (thread cm t)" and "GetOrEmpty config ''checkpoint_id'' = cp_ID cur" and "cp_ID cur \<noteq> []"
    and "mwf (cp_State cur)" and "mwf (cp_ChannelVersions cur)"
  shows "\<exists>new cm'. PutWrites uuid now cm config ws = (Inr (), cm') \<and>
     thread cm' t = thread cm t @ [new] \<and> (\<forall>t'. t' \<noteq> t \<longrightarrow> thread cm' t' = thread cm t') \<and>
     cp_ID new = uuid \<and> cp_ParentID new = cp_ID cur \<and> cp_Version new = cp_Version cur + 1 \<and>
     (\<forall>k. mget (cp_State new) k =
        (if writes_to k ws = [] then map_option deepCopy (mget (cp_State cur) k)
         else Some (pw_Value (last (writes_to k ws))))) \<and>
     (\<forall>k. mgetd 0 (cp_ChannelVersions new) k =
        mgetd 0 (cp_ChannelVersions cur) k + int (length (writes_to k ws)))"
proof -
  let ?new = "apply_pending ((Checkpoint_Clone uuid now cur)
     \<lparr>cp_Version := cp_Version cur + 1, cp_ParentID := cp_ID cur\<rparr>) ws"
  have "PutWrites uuid now cm config ws = (Inr (), set_thread cm t (thread cm t @ [?new]))"
    using assms(1-6) by (auto simp: PutWrites_def Let_def split: list.splits)
  moreover have "mget (cp_State ?new) k =
      (if writes_to k ws = [] then map_option deepCopy (mget (cp_State cur) k)
       else Some (pw_Value (last (writes_to k ws))))" for k
    using assms(7) by (simp add: apply_pending_state Checkpoint_Clone_def mget_map_prod mwf_map_prod)
  moreover have "mgetd 0 (cp_ChannelVersions ?new) k =
      mgetd 0 (cp_ChannelVersions cur) k + int (length (writes_to k ws))" for k
    using assms(8) by (simp add: apply_pending_versions Checkpoint_Clone_def)
  ultimately show ?thesis by (intro exI [of _ ?new] exI conjI) auto
qed

lemma put_writes_effect_witness:
  "\<exists>new cm'. demo_writes demo_manager ''c2'' ''c1'' = (Inr (), cm') \<and>
     mget (cp_State new) ''x'' = Some (VBool True) \<and> mgetd 0 (cp_ChannelVersions new) ''x'' = 1 \<and>
     thread cm' ''a'' = [NewCheckpoint ''c1'' zero_time ''a'' 0, new]"
proof -
  let ?ws = "[NewPendingWrite zero_time ''x'' (VBool True) False [] []]"
  have "writes_to ''x'' ?ws = ?ws" by (simp add: writes_to_def NewPendingWrite_def)
  then show ?thesis
    using put_writes_effect [of "config_for ''a'' ''c1''" "''a''" demo_manager
        "NewCheckpoint ''c1'' zero_time ''a'' 0" "''c2''" zero_time ?ws]
    by (fastforce simp: demo_writes_def demo_thread config_for_def GetOrEmpty_def Config_Set_def
        NewRunnableConfig_def NewCheckpoint_def NewPendingWrite_def mgetd_def)
qed

definition stored_ids :: "checkpoint_manager \<Rightarrow> string list" where
  "stored_ids cm = map cp_ID (concat (map snd (cm_checkpoints cm)))"

text \<open>
  the parent configuration in the tuple of the latest checkpoint names the identifier of a
  fresh copy of the parent, not of the stored parent, so loading it fails.
\<close>

lemma tuple_parent_cannot_be_loaded:
  assumes "ThreadID config \<noteq> []" and "1 < length (thread cm (ThreadID config))"
    and "ids 1 \<notin> set (stored_ids cm)"
  shows "\<exists>tup pc e. GetTuple ids now cm config = Inr tup \<and> tup_ParentConfig tup = Some pc \<and>
     LoadByCheckpointID uuid time cm (GetOrEmpty pc ''checkpoint_id'') = Inl e"
proof -
  let ?t = "ThreadID config"
  let ?p = "Checkpoint_Clone (ids 1) (now 1) (thread cm ?t ! (length (thread cm ?t) - 2))"
  have "thread cm ?t \<noteq> []" using assms(2) by auto
  then obtain tup where "GetTuple ids now cm config = Inr tup"
    and "tup_ParentConfig tup = Some (config_for ?t (cp_ID ?p))"
    using assms(1,2) by (auto simp: GetTuple_def Let_def NewCheckpointTuple_def)
  moreover have "GetOrEmpty (config_for ?t (cp_ID ?p)) ''checkpoint_id'' = ids 1"
    by (simp add: GetOrEmpty_def config_for_def Config_Set_def NewRunnableConfig_def)
  moreover have "List.find (\<lambda>c. cp_ID c = ids 1) (concat (map snd (cm_checkpoints cm))) = None"
    using assms(3) unfolding stored_ids_def find_None_iff by (metis image_eqI set_map)
  ultimately show ?thesis by (auto simp: LoadByCheckpointID_def)
qed

lemma demo_manager_eq:
  "demo_manager = \<lparr>cm_checkpoints = [(''a'', [NewCheckpoint ''c1'' zero_time ''a'' 0])], cm_maxVersions = 10\<rparr>"
  by (simp add: demo_manager_def Save_def Let_def NewCheckpoint_def set_thread_def NewCheckpointManager_def
      thread_def mgetd_def)

lemma tuple_parent_cannot_be_loaded_witness:
  "\<exists>cm tup pc e. demo_writes demo_manager ''c2'' ''c1'' = (Inr (), cm) \<and>
     GetTuple (\<lambda>i. ''fresh'') (\<lambda>i. zero_time) cm (config_for ''a'' []) = Inr tup \<and>
     tup_ParentConfig tup = Some pc \<and>
     LoadByCheckpointID ''u'' zero_time cm (GetOrEmpty pc ''checkpoint_id'') = Inl e"
proof -
  obtain cm where cm: "demo_writes demo_manager ''c2'' ''c1'' = (Inr (), cm)"
    "length (thread cm ''a'') = 2" "''fresh'' \<notin> set (stored_ids cm)"
    by (simp add: demo_writes_def PutWrites_def Let_def demo_manager_eq thread_def mgetd_def config_for_def
        GetOrEmpty_def Config_Set_def NewRunnableConfig_def NewCheckpoint_def set_thread_def stored_ids_def
        IncrementChannel_def)
  then show ?thesis
    using tuple_parent_cannot_be_loaded [of "config_for ''a'' []" cm "\<lambda>i. ''fresh''" "\<lambda>i. zero_time" "''u''" zero_time]
    by (auto simp: config_for_def Config_Set_def NewRunnableConfig_def)
qed

lemma clone_all_parents: "map cp_ParentID (clone_all ids now i cs) = map cp_ID cs"
  by (induction ids now i cs rule: clone_all.induct) auto

text \<open>
  \<open>List\<close> returns copies of the newest \<open>limit\<close> checkpoints of the thread in the order they
  were stored, so the oldest of them comes first; the identifier of a stored checkpoint is
  only found in the parent field of its copy.
\<close>

lemma manager_list_oldest_first:
  "map cp_ParentID (Manager_List ids now cm t limit) =
     (let stored = map cp_ID (thread cm t)
      in if limit \<le> 0 \<or> int (length stored) < limit then stored
         else drop (length stored - nat limit) stored)"
  by (auto simp: Manager_List_def Let_def clone_all_parents clip_limit_def drop_map)

end
