(* ===== verification/Interrupts.thy ===== *)
theory Interrupts
  imports ChannelAgg
begin

text \<open>
  Interrupts and resume values, \<open>interrupt/interrupt.go\<close>. A request context either carries an
  interrupt context of its own or the process-wide one is used; \<open>int_state\<close> holds both and
  the counter for identifiers. Every accessor locks the context, so each is one step. The
  argument \<open>hash8\<close> is the hex text of the first eight bytes of the SHA-256 of the printed value.
\<close>

record interrupt_context =
  resumeValues :: "gval list"
  index :: nat
  nullResume :: gval

record int_state =
  request_ic :: "interrupt_context option"
  globalContext :: interrupt_context
  interruptIDCounter :: int

definition new_interrupt_context :: interrupt_context where
  "new_interrupt_context = \<lparr>resumeValues = [], index = 0, nullResume = VNil\<rparr>"

definition WithInterruptContext :: "int_state \<Rightarrow> int_state" where
  "WithInterruptContext s = s\<lparr>request_ic := Some new_interrupt_context\<rparr>"

definition GetInterruptContext :: "int_state \<Rightarrow> interrupt_context option" where
  "GetInterruptContext s = request_ic s"

definition IsInterruptContext :: "int_state \<Rightarrow> bool" where
  "IsInterruptContext s = (GetInterruptContext s \<noteq> None)"

text \<open>The context an operation works on, with the fallback to the global one.\<close>

definition current_ic :: "int_state \<Rightarrow> interrupt_context" where
  "current_ic s = (case GetInterruptContext s of None \<Rightarrow> globalContext s | Some ic \<Rightarrow> ic)"

definition set_ic :: "int_state \<Rightarrow> interrupt_context \<Rightarrow> int_state" where
  "set_ic s ic =
     (case GetInterruptContext s of
        None \<Rightarrow> s\<lparr>globalContext := ic\<rparr> | Some _ \<Rightarrow> s\<lparr>request_ic := Some ic\<rparr>)"

definition consumeNextResumeValue :: "interrupt_context \<Rightarrow> (gval \<times> interrupt_context) option" where
  "consumeNextResumeValue ic =
     (if index ic < length (resumeValues ic)
      then Some (resumeValues ic ! index ic, ic\<lparr>index := Suc (index ic)\<rparr>) else None)"

definition appendResumeValue :: "interrupt_context \<Rightarrow> gval \<Rightarrow> interrupt_context" where
  "appendResumeValue ic v = ic\<lparr>resumeValues := resumeValues ic @ [v]\<rparr>"

definition setNullResume :: "interrupt_context \<Rightarrow> gval \<Rightarrow> interrupt_context" where
  "setNullResume ic v = ic\<lparr>nullResume := v\<rparr>"

definition setResumeValues :: "interrupt_context \<Rightarrow> gval list \<Rightarrow> interrupt_context" where
  "setResumeValues ic vs = ic\<lparr>resumeValues := vs\<rparr>"

definition reset_ic :: "interrupt_context \<Rightarrow> interrupt_context" where
  "reset_ic ic = new_interrupt_context"

definition generateInterruptID :: "(gval \<Rightarrow> string) \<Rightarrow> int_state \<Rightarrow> gval \<Rightarrow> string \<times> int_state" where
  "generateInterruptID hash8 s v =
     (let n = interruptIDCounter s + 1
      in (hash8 v @ ''_'' @ show_int n, s\<lparr>interruptIDCounter := n\<rparr>))"

definition Interrupt :: "(gval \<Rightarrow> string) \<Rightarrow> int_state \<Rightarrow> gval \<Rightarrow> gval res \<times> int_state" where
  "Interrupt hash8 s v =
     (let ic = current_ic s
      in case consumeNextResumeValue ic of
           Some (r, ic') \<Rightarrow> (Inr r, set_ic s ic')
         | None \<Rightarrow>
             (let r = nullResume ic
              in if r \<noteq> VNil
                 then (Inr r, set_ic s (appendResumeValue (setNullResume ic VNil) r))
                 else (case generateInterruptID hash8 s v of
                         (i, s') \<Rightarrow> (Inl (GraphInterrupt [\<lparr>intr_value = v, intr_id = i\<rparr>]), s'))))"

definition GetResumeValues :: "int_state \<Rightarrow> gval list" where
  "GetResumeValues s = resumeValues (current_ic s)"

definition GetInterruptIndex :: "int_state \<Rightarrow> nat" where
  "GetInterruptIndex s = index (current_ic s)"

definition AppendResumeValue :: "int_state \<Rightarrow> gval \<Rightarrow> int_state" where
  "AppendResumeValue s v = set_ic s (appendResumeValue (current_ic s) v)"

definition GetNullResume :: "int_state \<Rightarrow> bool \<Rightarrow> gval \<times> int_state" where
  "GetNullResume s consume =
     (let ic = current_ic s
      in (nullResume ic, if consume then set_ic s (setNullResume ic VNil) else s))"

definition Reset_interrupts :: "int_state \<Rightarrow> int_state" where
  "Reset_interrupts s = set_ic s (reset_ic (current_ic s))"

definition SetResumeValues :: "int_state \<Rightarrow> gval list \<Rightarrow> int_state" where
  "SetResumeValues s vs = set_ic s (setResumeValues (current_ic s) vs)"

definition IsInterrupt :: "gerror \<Rightarrow> bool" where
  "IsInterrupt e = IsGraphInterrupt e"

definition GetInterruptValue :: "gerror \<Rightarrow> gval option" where
  "GetInterruptValue e =
     (if \<not> IsGraphInterrupt e then None
      else case e of GraphInterrupt (i # is) \<Rightarrow> Some (intr_value i) | _ \<Rightarrow> None)"

lemmas interrupt_defs =
  Interrupt_def consumeNextResumeValue_def appendResumeValue_def setNullResume_def
  generateInterruptID_def Let_def

lemma current_set_ic [simp]: "current_ic (set_ic s ic) = ic"
  by (simp add: current_ic_def set_ic_def GetInterruptContext_def split: option.splits)

lemma request_isolated: "request_ic s \<noteq> None \<Longrightarrow> globalContext (set_ic s ic) = globalContext s"
  by (auto simp: set_ic_def GetInterruptContext_def)

section \<open>The answers a node gets\<close>

text \<open>A node that calls \<open>Interrupt\<close> with the given values, ignoring what it gets.\<close>

fun interrupt_calls ::
    "(gval \<Rightarrow> string) \<Rightarrow> int_state \<Rightarrow> gval list \<Rightarrow> gval res list \<times> int_state" where
  "interrupt_calls hash8 s [] = ([], s)"
| "interrupt_calls hash8 s (v # vs) =
     (case Interrupt hash8 s v of
        (r, s') \<Rightarrow> (case interrupt_calls hash8 s' vs of (rs, s'') \<Rightarrow> (r # rs, s'')))"

text \<open>The pending answers: the values not consumed yet, then the single resume value, twice.\<close>

definition pending_answers :: "interrupt_context \<Rightarrow> gval list" where
  "pending_answers ic =
     drop (index ic) (resumeValues ic) @
     (if nullResume ic = VNil then [] else [nullResume ic, nullResume ic])"

definition ic_ok :: "interrupt_context \<Rightarrow> bool" where
  "ic_ok ic = (index ic \<le> length (resumeValues ic))"

lemma Interrupt_answers:
  assumes "ic_ok (current_ic s)"
  shows "case pending_answers (current_ic s) of
      [] \<Rightarrow> \<exists>i. fst (Interrupt hash8 s v) = Inl (GraphInterrupt [\<lparr>intr_value = v, intr_id = i\<rparr>])
    | a # as \<Rightarrow> fst (Interrupt hash8 s v) = Inr a \<and>
        pending_answers (current_ic (snd (Interrupt hash8 s v))) = as"
    and "ic_ok (current_ic (snd (Interrupt hash8 s v)))"
proof -
  let ?ic = "current_ic s"
  have keep: "current_ic (s\<lparr>interruptIDCounter := n\<rparr>) = ?ic" for n
    by (simp add: current_ic_def GetInterruptContext_def split: option.splits)
  have step: "drop (index ?ic) (resumeValues ?ic) =
      resumeValues ?ic ! index ?ic # drop (Suc (index ?ic)) (resumeValues ?ic)"
    if "index ?ic < length (resumeValues ?ic)"
    using that by (simp add: Cons_nth_drop_Suc)
  show "case pending_answers ?ic of
      [] \<Rightarrow> \<exists>i. fst (Interrupt hash8 s v) = Inl (GraphInterrupt [\<lparr>intr_value = v, intr_id = i\<rparr>])
    | a # as \<Rightarrow> fst (Interrupt hash8 s v) = Inr a \<and>
        pending_answers (current_ic (snd (Interrupt hash8 s v))) = as"
  proof (cases "index ?ic < length (resumeValues ?ic)")
    case True
    then show ?thesis using step by (simp add: interrupt_defs pending_answers_def)
  next
    case False
    then show ?thesis using assms by (simp add: interrupt_defs pending_answers_def ic_ok_def)
  qed
  show "ic_ok (current_ic (snd (Interrupt hash8 s v)))"
    using assms by (auto simp: interrupt_defs ic_ok_def keep)
qed

text \<open>
  the calls a node makes to \<open>Interrupt\<close> are answered, in order, by the resume values not
  consumed yet and then by the single resume value, which two calls in a row get, not one;
  the first call after that raises the interrupt with the value it was called with.
\<close>

lemma interrupt_answers_in_order:
  assumes "ic_ok (current_ic s)" and "length vs = length (pending_answers (current_ic s))"
  shows "fst (interrupt_calls hash8 s vs) = map Inr (pending_answers (current_ic s)) \<and>
     (\<exists>i. fst (Interrupt hash8 (snd (interrupt_calls hash8 s vs)) v) =
        Inl (GraphInterrupt [\<lparr>intr_value = v, intr_id = i\<rparr>]))"
  using assms
proof (induction vs arbitrary: s)
  case Nil
  then show ?case using Interrupt_answers(1) [of s hash8 v] by simp
next
  case (Cons x vs)
  then obtain a as where as: "pending_answers (current_ic s) = a # as" "length vs = length as"
    by (metis length_Suc_conv)
  let ?s = "snd (Interrupt hash8 s x)"
  have "fst (Interrupt hash8 s x) = Inr a" "pending_answers (current_ic ?s) = as"
    using Interrupt_answers(1) [OF Cons.prems(1), of hash8 x] as by auto
  with Cons.IH [of ?s] Interrupt_answers(2) [OF Cons.prems(1), of hash8 x] as
  show ?case by (auto split: prod.splits)
qed

lemma interrupt_answers_in_order_witness:
  "map_sum (\<lambda>e. ()) id ` set (fst (interrupt_calls (\<lambda>v. ''h'')
     \<lparr>request_ic = Some \<lparr>resumeValues = [VInt 1], index = 0, nullResume = VInt 2\<rparr>,
      globalContext = new_interrupt_context, interruptIDCounter = 0\<rparr> [VNil, VNil, VNil])) =
   {Inr (VInt 1), Inr (VInt 2)}"
proof -
  let ?s = "\<lparr>request_ic = Some \<lparr>resumeValues = [VInt 1], index = 0, nullResume = VInt 2\<rparr>,
      globalContext = new_interrupt_context, interruptIDCounter = 0\<rparr>"
  have "pending_answers (current_ic ?s) = [VInt 1, VInt 2, VInt 2]" "ic_ok (current_ic ?s)"
    by (simp_all add: pending_answers_def current_ic_def GetInterruptContext_def ic_ok_def)
  then show ?thesis
    using interrupt_answers_in_order [of ?s "[VNil, VNil, VNil]" "\<lambda>v. ''h''" VNil] by simp
qed

end
