(* ===== verification/Retry.thy ===== *)
theory Retry
  imports ChannelAgg
begin

text \<open>
  Retrying node executions: \<open>RetryPolicy\<close> and its backoff (\<open>types/types.go\<close>), \<open>RetryExecutor\<close> and
  the error predicates (\<open>pregel/retry.go\<close>), \<open>MultiPolicyRetryExecutor\<close> (\<open>pregel/retry_multi.go\<close>).
  A node is a function of the world \<open>'w\<close>: it returns a value and perhaps an error, or panics
  with a value printed as a string. \<open>cancel w\<close> is the error of the context if it is done
  before the backoff that starts in world \<open>w\<close> has passed.
\<close>

section \<open>Multiplication of float64\<close>

fun f64_neg :: "f64 \<Rightarrow> bool" where
  "f64_neg (Fin m e) = (m < 0)"
| "f64_neg (Inf b) = b"
| "f64_neg NaN = False"

fun f64_mul :: "f64 \<Rightarrow> f64 \<Rightarrow> f64" where
  "f64_mul (Fin m1 e1) (Fin m2 e2) = f64_round (m1 * m2) (e1 + e2)"
| "f64_mul NaN y = NaN"
| "f64_mul x NaN = NaN"
| "f64_mul (Fin m e) (Inf b) = (if m = 0 then NaN else Inf (b \<noteq> (m < 0)))"
| "f64_mul (Inf b) (Fin m e) = (if m = 0 then NaN else Inf (b \<noteq> (m < 0)))"
| "f64_mul (Inf a) (Inf b) = Inf (a \<noteq> b)"

section \<open>Policies\<close>

text \<open>Durations are nanoseconds in an \<open>int64\<close>.\<close>

record retry_policy =
  InitialInterval :: "64 word"
  BackoffFactor :: f64
  MaxInterval :: "64 word"
  MaxAttempts :: int
  Jitter :: bool
  RetryOn :: "(gerror \<Rightarrow> bool) option"

definition DefaultRetryOn :: "gerror \<Rightarrow> bool" where
  "DefaultRetryOn e = True"

definition DefaultRetryPolicy :: retry_policy where
  "DefaultRetryPolicy =
     \<lparr>InitialInterval = 500000000, BackoffFactor = Fin 1 1, MaxInterval = 128000000000,
      MaxAttempts = 3, Jitter = True, RetryOn = Some DefaultRetryOn\<rparr>"

fun powFloat :: "f64 \<Rightarrow> nat \<Rightarrow> f64" where
  "powFloat base 0 = Fin 1 0"
| "powFloat base (Suc n) = f64_mul (powFloat base n) base"

text \<open>\<open>rnd\<close> is the random number in \<open>[0, 1)\<close>; \<open>Fin 1 (-1)\<close> is 0.5.\<close>

definition CalculateBackoff :: "f64 \<Rightarrow> retry_policy \<Rightarrow> int \<Rightarrow> 64 word" where
  "CalculateBackoff rnd p attempt =
     (let b0 = f64_to_int (f64_mul (f64_of_int (sint (InitialInterval p)))
                             (powFloat (BackoffFactor p) (nat (attempt - 1))));
          b = (if sint (MaxInterval p) < sint b0 then MaxInterval p else b0)
      in if Jitter p then
           let j = f64_to_int (f64_mul (f64_mul (f64_of_int (sint b)) (Fin 1 (-1))) rnd);
               b' = b - j
           in if sint b' < 0 then 0 else b'
         else b)"

section \<open>RetryExecutor\<close>

datatype outcome = Returns gval "gerror option" | Panics string

type_synonym 'w node_run = "'w \<Rightarrow> outcome \<times> 'w"

definition NewRetryExecutor :: "retry_policy option \<Rightarrow> retry_policy" where
  "NewRetryExecutor p = (case p of None \<Rightarrow> DefaultRetryPolicy | Some p \<Rightarrow> p)"

definition panic_error :: "string \<Rightarrow> string \<Rightarrow> gerror" where
  "panic_error name r = Fail (''node '' @ name @ '' panicked: '' @ r)"

definition not_retryable :: "string \<Rightarrow> gerror \<Rightarrow> gerror" where
  "not_retryable name e = Wrap (''node '' @ name @ '' failed with non-retryable error'') e"

definition retries :: "retry_policy \<Rightarrow> gerror \<Rightarrow> bool" where
  "retries p e = (case RetryOn p of None \<Rightarrow> True | Some f \<Rightarrow> f e)"

function retry_loop ::
    "retry_policy \<Rightarrow> string \<Rightarrow> ('w \<Rightarrow> gerror option) \<Rightarrow> 'w node_run \<Rightarrow> int \<Rightarrow> gerror option \<Rightarrow> gval \<Rightarrow> 'w \<Rightarrow>
     gval res \<times> 'w" where
  "retry_loop p name cancel fn attempt lastErr lastOutput w =
     (if attempt \<le> MaxAttempts p then
        (case fn w of
           (Panics r, w') \<Rightarrow> (Inl (panic_error name r), w')
         | (Returns out None, w') \<Rightarrow> (Inr out, w')
         | (Returns out (Some e), w') \<Rightarrow>
             (if IsGraphInterrupt e then (Inl e, w')
              else if \<not> retries p e then (Inl (not_retryable name e), w')
              else if MaxAttempts p \<le> attempt
              then (Inl (RetryExhaustedError name (MaxAttempts p) (Some e) out), w')
              else case cancel w' of
                Some ce \<Rightarrow> (Inl (Wrap (''node '' @ name @ '' cancelled during retry'') ce), w')
              | None \<Rightarrow> retry_loop p name cancel fn (attempt + 1) (Some e) out w'))
      else (Inl (RetryExhaustedError name (MaxAttempts p) lastErr lastOutput), w))"
  by pat_completeness auto
termination
  by (relation "measure (\<lambda>(p, name, cancel, fn, attempt, le, lo, w). nat (MaxAttempts p - attempt + 1))")
    auto

declare retry_loop.simps [simp del]

definition RetryExecutor_Execute ::
    "retry_policy \<Rightarrow> string \<Rightarrow> ('w \<Rightarrow> gerror option) \<Rightarrow> 'w node_run \<Rightarrow> 'w \<Rightarrow> gval res \<times> 'w" where
  "RetryExecutor_Execute p name cancel fn w = retry_loop p name cancel fn 1 None VNil w"

section \<open>MultiPolicyRetryExecutor\<close>

text \<open>\<open>None\<close> as the result is a panic of the node, which this executor does not recover.\<close>

definition findMatchingPolicy :: "retry_policy list \<Rightarrow> gerror \<Rightarrow> retry_policy option" where
  "findMatchingPolicy ps e = List.find (\<lambda>p. retries p e) ps"

definition max_attempts :: "retry_policy list \<Rightarrow> int" where
  "max_attempts ps = fold max (map MaxAttempts ps) 0"

lemma fold_max_ge: "x \<in> set xs \<or> x \<le> a \<Longrightarrow> x \<le> fold max xs (a :: int)"
proof (induction xs arbitrary: a)
  case (Cons y xs)
  then show ?case using Cons.IH [of "max y a"] by fastforce
qed simp

lemma max_attempts_ge: "findMatchingPolicy ps e = Some p \<Longrightarrow> MaxAttempts p \<le> max_attempts ps"
  by (auto simp: findMatchingPolicy_def max_attempts_def find_Some_iff intro!: fold_max_ge)

function multi_loop ::
    "retry_policy list \<Rightarrow> string \<Rightarrow> ('w \<Rightarrow> gerror option) \<Rightarrow> 'w node_run \<Rightarrow> int \<Rightarrow> 'w \<Rightarrow>
     gval res option \<times> 'w" where
  "multi_loop ps name cancel fn attempt w =
     (case fn w of
        (Panics r, w') \<Rightarrow> (None, w')
      | (Returns out None, w') \<Rightarrow> (Some (Inr out), w')
      | (Returns out (Some e), w') \<Rightarrow>
          (case findMatchingPolicy ps e of
             None \<Rightarrow> (Some (Inl (not_retryable name e)), w')
           | Some p \<Rightarrow>
               (if MaxAttempts p \<le> attempt + 1
                then (Some (Inl (RetryExhaustedError name (attempt + 1) (Some e) out)), w')
                else
                  let remaining = MaxAttempts p - (attempt + 1)
                  in case RetryExecutor_Execute (p\<lparr>MaxAttempts := remaining + 1\<rparr>) name cancel fn w' of
                       (Inr r, w'') \<Rightarrow> (Some (Inr r), w'')
                     | (Inl _, w'') \<Rightarrow> multi_loop ps name cancel fn (attempt + 1 + remaining) w'')))"
  by pat_completeness auto
termination
  by (relation "measure (\<lambda>(ps, name, cancel, fn, attempt, w). nat (max_attempts ps - attempt))")
    (use max_attempts_ge in \<open>fastforce+\<close>)

declare multi_loop.simps [simp del]

definition MultiPolicy_Execute ::
    "retry_policy list \<Rightarrow> string \<Rightarrow> ('w \<Rightarrow> gerror option) \<Rightarrow> 'w node_run \<Rightarrow> 'w \<Rightarrow>
     gval res option \<times> 'w" where
  "MultiPolicy_Execute ps name cancel fn w =
     (if ps = [] then
        (case fn w of
           (Panics r, w') \<Rightarrow> (None, w')
         | (Returns out None, w') \<Rightarrow> (Some (Inr out), w')
         | (Returns out (Some e), w') \<Rightarrow> (Some (Inl e), w'))
      else multi_loop ps name cancel fn 0 w)"

section \<open>Error predicates\<close>

text \<open>\<open>toLower\<close> adds 32 to the bytes \<open>'A'..'Z'\<close>. The predicates look at the error's text.\<close>

definition lower_byte :: "char \<Rightarrow> char" where
  "lower_byte c = (if byte_in 65 90 c then char_of (of_char c + 32 :: nat) else c)"

definition toLower :: "string \<Rightarrow> string" where
  "toLower s = map lower_byte s"

definition containsIgnoreCase :: "string \<Rightarrow> string \<Rightarrow> bool" where
  "containsIgnoreCase s sub =
     (length (toLower sub) \<le> length (toLower s) \<and>
      take (length (toLower sub)) (toLower s) = toLower sub)"

definition contains :: "string \<Rightarrow> string \<Rightarrow> bool" where
  "contains s sub =
     (length sub \<le> length s \<and>
      (s = sub \<or>
       (length sub < length s \<and> (take (length sub) s = sub \<or> containsIgnoreCase s sub))))"

definition network_keywords :: "string list" where
  "network_keywords =
     [''connection refused'', ''connection reset'', ''timeout'', ''network'', ''dns'',
      ''temporary failure'', ''503'', ''502'', ''504'']"

definition temporary_keywords :: "string list" where
  "temporary_keywords =
     [''temporary'', ''transient'', ''rate limit'', ''too many requests'', ''429'']"

definition resource_keywords :: "string list" where
  "resource_keywords =
     [''resource exhausted'', ''too many requests'', ''rate limit'', ''quota exceeded'', ''429'', ''503'']"

definition timeout_keywords :: "string list" where
  "timeout_keywords =
     [''timeout'', ''deadline exceeded'', ''context deadline'', ''408'', ''504'']"

definition keyword_match :: "string list \<Rightarrow> (gerror \<Rightarrow> string) \<Rightarrow> gerror \<Rightarrow> bool" where
  "keyword_match kws text e = list_ex (contains (text e)) kws"

definition NetworkErrors :: "(gerror \<Rightarrow> string) \<Rightarrow> gerror \<Rightarrow> bool" where
  "NetworkErrors text e = keyword_match network_keywords text e"

definition TemporaryErrors :: "(gerror \<Rightarrow> string) \<Rightarrow> gerror \<Rightarrow> bool" where
  "TemporaryErrors text e = keyword_match temporary_keywords text e"

definition RetryPolicyPresets :: "(gerror \<Rightarrow> string) \<Rightarrow> retry_policy list" where
  "RetryPolicyPresets text =
     [\<lparr>InitialInterval = 100000000, BackoffFactor = Fin 1 1, MaxInterval = 30000000000,
       MaxAttempts = 5, Jitter = True, RetryOn = Some (NetworkErrors text)\<rparr>,
      \<lparr>InitialInterval = 500000000, BackoffFactor = Fin 3 (-1), MaxInterval = 10000000000,
       MaxAttempts = 3, Jitter = True, RetryOn = Some (TemporaryErrors text)\<rparr>,
      \<lparr>InitialInterval = 1000000000, BackoffFactor = Fin 1 1, MaxInterval = 30000000000,
       MaxAttempts = 3, Jitter = False, RetryOn = Some (keyword_match timeout_keywords text)\<rparr>,
      \<lparr>InitialInterval = 1000000000, BackoffFactor = Fin 3 (-1), MaxInterval = 60000000000,
       MaxAttempts = 10, Jitter = True, RetryOn = Some (keyword_match resource_keywords text)\<rparr>]"

text \<open>\<open>NewMultiRetryConfig\<close>: the default policy when no policy is given.\<close>

definition NewMultiRetryConfig :: "retry_policy list \<Rightarrow> retry_policy list" where
  "NewMultiRetryConfig ps = (if ps = [] then [DefaultRetryPolicy] else ps)"

definition CreateDefaultMultiPolicy :: "(gerror \<Rightarrow> string) \<Rightarrow> retry_policy list" where
  "CreateDefaultMultiPolicy text = NewMultiRetryConfig (RetryPolicyPresets text)"

end
