(* ===== verification/RetryProps.thy ===== *)
theory RetryProps
  imports Retry
begin

text \<open>
  What the retry executors do with a node whose outcomes are given by a script: how often it
  runs, what comes back, how long the executor waits, and which errors count as transient.
\<close>

section \<open>One policy\<close>

text \<open>The world counts the calls: call \<open>n\<close> has the outcome \<open>script n\<close>.\<close>

definition scripted :: "(nat \<Rightarrow> outcome) \<Rightarrow> nat node_run" where
  "scripted script n = (script n, Suc n)"

definition try_again ::
    "retry_policy \<Rightarrow> (nat \<Rightarrow> gerror option) \<Rightarrow> (nat \<Rightarrow> outcome) \<Rightarrow> nat \<Rightarrow> bool" where
  "try_again p cancel script n =
     (case script n of
        Returns out (Some e) \<Rightarrow> \<not> IsGraphInterrupt e \<and> retries p e \<and> cancel (Suc n) = None
      | _ \<Rightarrow> False)"

definition verdict ::
    "retry_policy \<Rightarrow> string \<Rightarrow> (nat \<Rightarrow> gerror option) \<Rightarrow> (nat \<Rightarrow> outcome) \<Rightarrow> nat \<Rightarrow> gval res" where
  "verdict p name cancel script n =
     (case script n of
        Panics r \<Rightarrow> Inl (panic_error name r)
      | Returns out None \<Rightarrow> Inr out
      | Returns out (Some e) \<Rightarrow>
          (if IsGraphInterrupt e then Inl e
           else if \<not> retries p e then Inl (not_retryable name e)
           else if MaxAttempts p \<le> int (Suc n)
           then Inl (RetryExhaustedError name (MaxAttempts p) (Some e) out)
           else Inl (Wrap (''node '' @ name @ '' cancelled during retry'') (the (cancel (Suc n))))))"

lemma retry_loop_script:
  assumes "\<forall>i. k0 \<le> i \<and> i < k \<longrightarrow> try_again p cancel script i"
    and "k0 \<le> k" and "int k < MaxAttempts p"
    and "try_again p cancel script k \<Longrightarrow> MaxAttempts p \<le> int (Suc k)"
  shows "retry_loop p name cancel (scripted script) (int (Suc k0)) le lo k0 =
     (verdict p name cancel script k, Suc k)"
  using assms(1,2)
proof (induction "k - k0" arbitrary: k0 le lo)
  case 0
  then have k: "k0 = k" by simp
  show ?case
    unfolding k using assms(3,4)
    by (subst retry_loop.simps)
      (auto simp: scripted_def verdict_def try_again_def split: outcome.splits option.splits)
next
  case (Suc d)
  then have lt: "k0 < k" by simp
  with Suc.prems have again: "try_again p cancel script k0" by blast
  then obtain out e where out: "script k0 = Returns out (Some e)" "\<not> IsGraphInterrupt e" "retries p e"
      "cancel (Suc k0) = None"
    by (auto simp: try_again_def split: outcome.splits option.splits)
  have "retry_loop p name cancel (scripted script) (int (Suc (Suc k0))) (Some e) out (Suc k0) =
      (verdict p name cancel script k, Suc k)"
    using Suc.hyps(1) [of "Suc k0" "Some e" out] Suc.hyps(2) Suc.prems lt by simp
  then show ?case
    using lt assms(3) out by (subst retry_loop.simps) (simp add: scripted_def add.commute)
qed

text \<open>
  C26: a node runs until the first attempt that succeeds, panics, interrupts, fails with an error
  the policy does not retry, exhausts the attempts or is followed by a cancelled wait; that
  attempt decides the result, and the node has run exactly that often. An interrupt comes
  back as it is, never wrapped and never retried.
\<close>

theorem retry_first_decisive_attempt:
  assumes "\<forall>i < k. try_again p cancel script i" and "int k < MaxAttempts p"
    and "try_again p cancel script k \<Longrightarrow> MaxAttempts p \<le> int (Suc k)"
  shows "RetryExecutor_Execute p name cancel (scripted script) 0 =
     (verdict p name cancel script k, Suc k)"
  using retry_loop_script [of 0 k p cancel script name None VNil] assms
  by (simp add: RetryExecutor_Execute_def)

theorem retry_first_decisive_attempt_witness:
  "RetryExecutor_Execute DefaultRetryPolicy ''n'' (\<lambda>w. None)
     (scripted (\<lambda>i. if i = 0 then Returns VNil (Some (Fail ''x'')) else Returns (VInt 5) None)) 0 =
   (Inr (VInt 5), 2)"
  by (subst retry_first_decisive_attempt [of 1])
    (simp_all add: try_again_def verdict_def DefaultRetryPolicy_def retries_def DefaultRetryOn_def)

section \<open>Several policies\<close>

text \<open>
  with one policy of \<open>m\<close> attempts, at least 2, a node that keeps failing runs \<open>m + 2\<close> times,
  and a node that interrupts runs three times and its interrupt is lost: the result is a
  retry-exhausted error that claims \<open>m + 1\<close> attempts.
\<close>

lemma multi_policy_overruns:
  assumes "2 \<le> MaxAttempts p" and "retries p e"
  shows "MultiPolicy_Execute [p] name (\<lambda>w. None) (scripted (\<lambda>i. Returns VNil (Some e))) 0 =
     (Some (Inl (RetryExhaustedError name (MaxAttempts p + 1) (Some e) VNil)),
      if IsGraphInterrupt e then 3 else nat (MaxAttempts p) + 2)"
proof -
  let ?f = "scripted (\<lambda>i. Returns VNil (Some e))"
  let ?p = "p\<lparr>MaxAttempts := MaxAttempts p - 1 + 1\<rparr>"
  define calls where "calls = (if IsGraphInterrupt e then 1 else nat (MaxAttempts p))"
  have find: "findMatchingPolicy [p] e = Some p"
    using assms(2) by (simp add: findMatchingPolicy_def)
  have p: "?p = p" by simp
  have inner: "\<exists>ie. RetryExecutor_Execute p name (\<lambda>w. None) ?f 1 = (Inl ie, Suc calls)"
  proof -
    let ?k = "calls"
    have "retry_loop p name (\<lambda>w. None) (scripted (\<lambda>i. Returns VNil (Some e))) (int (Suc j)) le lo (Suc j) =
        (verdict p name (\<lambda>w. None) (\<lambda>i. Returns VNil (Some e)) (calls - 1), Suc calls)"
      if "j < calls" for j le lo
      using that
    proof (induction "calls - Suc j" arbitrary: j le lo)
      case 0
      then have j: "Suc j = calls" by simp
      then show ?case
        using assms by (subst retry_loop.simps) (auto simp: scripted_def verdict_def calls_def split: if_splits)
    next
      case (Suc d)
      then have ne: "\<not> IsGraphInterrupt e" "Suc j < calls" by (auto simp: calls_def split: if_splits)
      then have "retry_loop p name (\<lambda>w. None) (scripted (\<lambda>i. Returns VNil (Some e))) (int (Suc (Suc j)))
          (Some e) VNil (Suc (Suc j)) =
        (verdict p name (\<lambda>w. None) (\<lambda>i. Returns VNil (Some e)) (calls - 1), Suc calls)"
        using Suc.hyps(1) [of "Suc j" "Some e" VNil] Suc.hyps(2) ne by simp
      then show ?case
        using ne assms by (subst retry_loop.simps) (auto simp: scripted_def calls_def add.commute)
    qed
    from this [of 0 None VNil] assms show ?thesis
      by (auto simp: RetryExecutor_Execute_def verdict_def calls_def)
  qed
  then obtain ie where ie: "RetryExecutor_Execute p name (\<lambda>w. None) ?f 1 = (Inl ie, Suc calls)" ..
  have last: "multi_loop [p] name (\<lambda>w. None) ?f (MaxAttempts p) (Suc calls) =
      (Some (Inl (RetryExhaustedError name (MaxAttempts p + 1) (Some e) VNil)), Suc (Suc calls))"
    by (subst multi_loop.simps) (simp add: scripted_def find)
  have "multi_loop [p] name (\<lambda>w. None) ?f 0 0 =
      (Some (Inl (RetryExhaustedError name (MaxAttempts p + 1) (Some e) VNil)), Suc (Suc calls))"
    using ie last assms(1) by (subst multi_loop.simps) (simp add: scripted_def [of _ 0] find)
  then show ?thesis
    by (simp add: MultiPolicy_Execute_def calls_def)
qed

lemma multi_policy_overruns_witness:
  "snd (MultiPolicy_Execute [DefaultRetryPolicy] ''n'' (\<lambda>w. None)
     (scripted (\<lambda>i. Returns VNil (Some (Fail ''x'')))) 0) = 5"
  by (subst multi_policy_overruns) (simp_all add: DefaultRetryPolicy_def retries_def DefaultRetryOn_def)

section \<open>Which errors are transient\<close>

text \<open>
  the network predicate accepts an error exactly if its text is one of the keywords or
  begins with one in any letter case and goes on after it; a keyword anywhere else in the
  text does not count, although the function is meant as a substring test.
\<close>

lemma network_errors_only_at_start:
  "NetworkErrors text e \<longleftrightarrow>
     (\<exists>kw \<in> set network_keywords. text e = kw \<or>
        (\<exists>a b. text e = a @ b \<and> b \<noteq> [] \<and> toLower a = kw))"
proof -
  have low: "toLower kw = kw" if "kw \<in> set network_keywords" for kw
    using that by (auto simp: network_keywords_def toLower_def lower_byte_def byte_in_def)
  have len: "length (toLower s) = length s" for s by (simp add: toLower_def)
  have tk: "take n (toLower s) = toLower (take n s)" for n s by (simp add: toLower_def take_map)
  have "contains s kw \<longleftrightarrow> s = kw \<or> (\<exists>a b. s = a @ b \<and> b \<noteq> [] \<and> toLower a = kw)"
    if "kw \<in> set network_keywords" for s kw
  proof -
    have "toLower (take (length kw) s) = kw \<Longrightarrow> length kw < length s \<Longrightarrow>
        \<exists>a b. s = a @ b \<and> b \<noteq> [] \<and> toLower a = kw"
      by (rule exI [of _ "take (length kw) s"], rule exI [of _ "drop (length kw) s"]) simp
    moreover have "toLower (take (length kw) s) = kw" if "take (length kw) s = kw"
      using that low [OF \<open>kw \<in> set network_keywords\<close>] by simp
    ultimately show ?thesis
      using low [OF that] len by (auto simp: contains_def containsIgnoreCase_def tk)
  qed
  then show ?thesis by (auto simp: NetworkErrors_def keyword_match_def list_ex_iff)
qed

section \<open>Backoff\<close>

lemma round_small:
  assumes "0 < m" and "m < 2 ^ 53" and "odd m" and "- 1074 \<le> e"
  shows "f64_round m e = (if 1024 < int (bitlen (nat m)) + e then Inf False else Fin m e)"
proof -
  have "nat m < 2 ^ 53" using assms(1,2) by (simp add: nat_less_iff)
  then have "bitlen (nat m) \<le> 53" by (rule bitlen_le)
  moreover have "canon m e = (m, e)" using assms(1,3) by (simp add: canon.simps)
  ultimately show ?thesis using assms(1,4) by (simp add: f64_round_def Let_def)
qed

lemma bitlen_values: "bitlen 1 = 1" "bitlen 1953125 = 21" "bitlen (Suc 0) = 1"
  by (simp_all add: bitlen.simps)

lemma pow_two: "n \<le> 1023 \<Longrightarrow> powFloat (Fin 1 1) n = Fin 1 (int n)"
  by (induction n) (simp_all add: round_small bitlen_values)

lemma pow_two_large: "1024 \<le> n \<Longrightarrow> powFloat (Fin 1 1) n = Inf False"
proof (induction n rule: dec_induct)
  case base
  have "powFloat (Fin 1 1) 1024 = f64_mul (powFloat (Fin 1 1) 1023) (Fin 1 1)"
    by (simp add: numeral_eq_Suc)
  then show ?case by (simp add: pow_two round_small bitlen_values)
qed simp

lemma half_second: "f64_of_int 500000000 = Fin 1953125 8"
proof -
  have "bitlen 500000000 \<le> 53" by (rule bitlen_le) simp
  moreover have "canon 500000000 0 = (1953125, 8)" by (simp add: canon.simps)
  ultimately show ?thesis by (simp add: f64_of_int_def f64_round_def)
qed

lemma sint_word: "0 \<le> i \<Longrightarrow> i < 2 ^ 63 \<Longrightarrow> sint (word_of_int i :: 64 word) = i"
  by (simp add: signed_take_bit_int_eq_self sint_sbintrunc')

text \<open>
  the default schedule without jitter: the wait doubles from half a second, stays at the cap
  of 128 seconds, and from the 36th attempt on the conversion to a duration overflows and the
  wait is the most negative duration, so the cap no longer holds and there is no wait at all.
\<close>

lemma default_backoff_schedule:
  "CalculateBackoff rnd (DefaultRetryPolicy\<lparr>Jitter := False\<rparr>) (int (Suc n)) =
     (if n \<le> 8 then 500000000 * 2 ^ n
      else if n \<le> 34 then 128000000000 else word_of_int (- (2 ^ 63)))"
proof -
  let ?f = "f64_mul (Fin 1953125 8) (powFloat (Fin 1 1) n)"
  have cb: "CalculateBackoff rnd (DefaultRetryPolicy\<lparr>Jitter := False\<rparr>) (int (Suc n)) =
      (if 128000000000 < sint (f64_to_int ?f) then 128000000000 else f64_to_int ?f)"
    by (simp add: CalculateBackoff_def DefaultRetryPolicy_def half_second Let_def)
  have mul: "?f = Fin 1953125 (8 + int n)" if "n \<le> 995"
    using that by (simp add: pow_two round_small bitlen_values)
  have inf: "?f = Inf False" if "996 \<le> n"
  proof (cases "n \<le> 1023")
    case True
    then show ?thesis using that by (simp add: pow_two round_small bitlen_values)
  next
    case False
    then show ?thesis by (simp add: pow_two_large)
  qed
  have trunc: "f64_trunc 1953125 (8 + int n) = 500000000 * 2 ^ n"
    by (simp add: f64_trunc_def nat_add_distrib power_add)
  show ?thesis
  proof (cases "n \<le> 34")
    case True
    then have "(2 :: int) ^ n \<le> 2 ^ 34" by (intro power_increasing) simp_all
    then have fits: "500000000 * 2 ^ n < (2 :: int) ^ 63" by simp
    have conv: "f64_to_int ?f = word_of_int (500000000 * 2 ^ n)"
      using True fits order_trans [of "- 36028797018963968" 0 "1953125 * (2 :: int) ^ n"]
      by (simp add: mul trunc Let_def)
    have sint: "sint (500000000 * 2 ^ n :: 64 word) = 500000000 * 2 ^ n"
      using sint_word [of "500000000 * 2 ^ n"] fits by simp
    show ?thesis
    proof (cases "n \<le> 8")
      case True
      then have "(2 :: int) ^ n \<le> 2 ^ 8" by (intro power_increasing) simp_all
      then show ?thesis using True by (simp add: cb [unfolded of_nat_Suc] conv sint word_of_int_power_hom)
    next
      case False
      then have "(2 :: int) ^ 9 \<le> 2 ^ n" by (intro power_increasing) simp_all
      then show ?thesis using False True \<open>n \<le> 34\<close> by (simp add: cb [unfolded of_nat_Suc] conv sint)
    qed
  next
    case False
    have "f64_to_int ?f = word_of_int (- (2 ^ 63))"
    proof (cases "n \<le> 995")
      case True
      from False have "(2 :: int) ^ 35 \<le> 2 ^ n" by (intro power_increasing) simp_all
      then have "\<not> 500000000 * 2 ^ n < (2 :: int) ^ 63" by simp
      then show ?thesis using True by (simp add: mul trunc Let_def)
    next
      case False
      then show ?thesis by (simp add: inf)
    qed
    then show ?thesis using False by (simp add: cb [unfolded of_nat_Suc])
  qed
qed

end
