(* ===== verification/StateGraph.thy ===== *)
theory StateGraph
  imports ChannelSum Retry
begin

text \<open>
  Building and compiling a state graph: \<open>graph/graph.go\<close>, \<open>graph/state.go\<close> and the graph types of
  \<open>types/types.go\<close>. A node function takes the state and the world \<open>'w\<close>; a condition takes the
  state. A state schema is nil, a struct with its fields, or a map; a failing operation
  leaves the graph as it was.
\<close>

section \<open>Data\<close>

record field_mapping =
  fm_From :: string
  fm_To :: string

type_synonym 'w node_fn = "gval \<Rightarrow> 'w node_run"

record 'w graph_node =
  node_Name :: string
  node_Function :: "'w node_fn option"
  node_Triggers :: "string list"
  node_Writes :: "string list"
  node_RetryPolicy :: "retry_policy option"
  node_Tags :: "string list"
  node_Metadata :: "gval gomap"
  node_FieldMapping :: "field_mapping list"

record edge =
  edge_From :: string
  edge_To :: string

record data_edge =
  de_From :: string
  de_To :: string
  de_Mapping :: "field_mapping list"

type_synonym edge_fn = "gval \<Rightarrow> gval \<times> gerror option"

record conditional_edge =
  ce_From :: string
  ce_Condition :: edge_fn
  ce_Mapping :: "string gomap"

record branch =
  br_From :: string
  br_Condition :: edge_fn
  br_Then :: "gval \<Rightarrow> string list"

record schema_field =
  sf_Name :: string
  sf_Exported :: bool
  sf_Kind :: rkind
  sf_Tag :: string

text \<open>\<open>SchemaMap b\<close> is a map whose key kind is string exactly if \<open>b\<close>.\<close>

datatype schema = SchemaNil | SchemaStruct "schema_field list" | SchemaMap bool | SchemaOther

record 'w state_graph =
  g_nodes :: "'w graph_node gomap"
  g_edges :: "edge list"
  g_dataEdges :: "data_edge list"
  g_conditionalEdges :: "conditional_edge list"
  g_branches :: "branch list"
  g_entryPoint :: string
  g_finishPoints :: "string list"
  g_channels :: "channel gomap"
  g_reducers :: "(gval \<Rightarrow> gval \<Rightarrow> gval) gomap"
  g_stateSchema :: schema
  g_inputSchema :: schema
  g_outputSchema :: schema
  g_NodeTriggerMode :: string

definition Start :: string where "Start = ''__start__''"

definition End :: string where "End = ''__end__''"

definition NewStateGraph :: "schema \<Rightarrow> 'w state_graph" where
  "NewStateGraph s =
     \<lparr>g_nodes = [], g_edges = [], g_dataEdges = [], g_conditionalEdges = [], g_branches = [],
      g_entryPoint = [], g_finishPoints = [], g_channels = [], g_reducers = [],
      g_stateSchema = s, g_inputSchema = s, g_outputSchema = s, g_NodeTriggerMode = []\<rparr>"

definition WithInputSchema :: "'w state_graph \<Rightarrow> schema \<Rightarrow> 'w state_graph" where
  "WithInputSchema g s = g\<lparr>g_inputSchema := s\<rparr>"

definition WithOutputSchema :: "'w state_graph \<Rightarrow> schema \<Rightarrow> 'w state_graph" where
  "WithOutputSchema g s = g\<lparr>g_outputSchema := s\<rparr>"

section \<open>Nodes\<close>

definition AddNode :: "'w state_graph \<Rightarrow> string \<Rightarrow> 'w node_fn option \<Rightarrow> 'w state_graph" where
  "AddNode g name fn =
     g\<lparr>g_nodes := mput name
        \<lparr>node_Name = name, node_Function = fn, node_Triggers = [], node_Writes = [],
         node_RetryPolicy = None, node_Tags = [], node_Metadata = [], node_FieldMapping = []\<rparr>
        (g_nodes g)\<rparr>"

record 'w node_options =
  opt_RetryPolicy :: "retry_policy option"
  opt_Tags :: "string list"
  opt_Metadata :: "gval gomap"
  opt_Triggers :: "string list"
  opt_Writes :: "string list"
  opt_FieldMapping :: "field_mapping list"
  opt_StatePre :: "'w node_fn option"
  opt_StatePost :: "'w node_fn option"

text \<open>The node function with a pre- and a post-handler around it; a panic of any of them goes through.\<close>

definition quoted :: "string \<Rightarrow> string" where
  "quoted s = [CHR 0x27] @ s @ [CHR 0x27]"

definition wrap_handlers ::
    "string \<Rightarrow> 'w node_fn option \<Rightarrow> 'w node_fn option \<Rightarrow> 'w node_fn \<Rightarrow> 'w node_fn" where
  "wrap_handlers name pre post orig state w =
     (let post_run = (\<lambda>out w.
        (case post of
           None \<Rightarrow> (Returns out None, w)
         | Some f \<Rightarrow>
             (case f out w of
                (Returns o' (Some e), w') \<Rightarrow>
                  (Returns VNil (Some (Wrap (''state post-handler for '' @ quoted name) e)), w')
              | r \<Rightarrow> r)));
          run = (\<lambda>state w.
            (case orig state w of
               (Returns out (Some e), w') \<Rightarrow> (Returns VNil (Some e), w')
             | (Returns out None, w') \<Rightarrow> post_run out w'
             | (Panics r, w') \<Rightarrow> (Panics r, w')))
      in case pre of
           None \<Rightarrow> run state w
         | Some f \<Rightarrow>
             (case f state w of
                (Returns s (Some e), w') \<Rightarrow>
                  (Returns VNil (Some (Wrap (''state pre-handler for '' @ quoted name) e)), w')
              | (Returns s None, w') \<Rightarrow> run s w'
              | (Panics r, w') \<Rightarrow> (Panics r, w')))"

definition AddNodeWithOptions ::
    "'w state_graph \<Rightarrow> string \<Rightarrow> 'w node_fn \<Rightarrow> 'w node_options \<Rightarrow> 'w state_graph" where
  "AddNodeWithOptions g name fn opts =
     (let fn' = (if opt_StatePre opts \<noteq> None \<or> opt_StatePost opts \<noteq> None
                 then wrap_handlers name (opt_StatePre opts) (opt_StatePost opts) fn else fn);
          g' = AddNode g name (Some fn')
      in case mget (g_nodes g') name of
           None \<Rightarrow> g'
         | Some n \<Rightarrow>
             g'\<lparr>g_nodes := mput name
                (n\<lparr>node_RetryPolicy :=
                      (case opt_RetryPolicy opts of None \<Rightarrow> node_RetryPolicy n | Some p \<Rightarrow> Some p),
                   node_Tags := node_Tags n @ opt_Tags opts,
                   node_Metadata := mmerge (node_Metadata n) (opt_Metadata opts),
                   node_Triggers := node_Triggers n @ opt_Triggers opts,
                   node_Writes := node_Writes n @ opt_Writes opts,
                   node_FieldMapping := node_FieldMapping n @ opt_FieldMapping opts\<rparr>)
                (g_nodes g')\<rparr>)"

definition MapFields :: "string \<Rightarrow> string \<Rightarrow> field_mapping" where
  "MapFields from to = \<lparr>fm_From = from, fm_To = to\<rparr>"

definition MapTo :: "string \<Rightarrow> field_mapping" where
  "MapTo to = \<lparr>fm_From = [], fm_To = to\<rparr>"

section \<open>Edges\<close>

definition AddEdge :: "'w state_graph \<Rightarrow> string \<Rightarrow> string \<Rightarrow> unit res \<times> 'w state_graph" where
  "AddEdge g from to =
     (if \<not> mhas (g_nodes g) from \<and> from \<noteq> Start then (Inl (NodeNotFoundError from), g)
      else if \<not> mhas (g_nodes g) to \<and> to \<noteq> End then (Inl (NodeNotFoundError to), g)
      else
        let g1 = g\<lparr>g_edges := g_edges g @ [\<lparr>edge_From = from, edge_To = to\<rparr>]\<rparr>;
            g2 = (if from = Start then g1\<lparr>g_entryPoint := to\<rparr> else g1);
            g3 = (if to = End \<and> from \<notin> set (g_finishPoints g2)
                  then g2\<lparr>g_finishPoints := g_finishPoints g2 @ [from]\<rparr> else g2)
        in (Inr (), g3))"

text \<open>The first mapping target, in iteration order, that is neither a node nor \<open>End\<close>.\<close>

definition bad_target :: "'w state_graph \<Rightarrow> string gomap \<Rightarrow> string option" where
  "bad_target g mapping =
     List.find (\<lambda>t. \<not> mhas (g_nodes g) t \<and> t \<noteq> End) (map snd mapping)"

definition AddConditionalEdges ::
    "'w state_graph \<Rightarrow> string \<Rightarrow> edge_fn \<Rightarrow> string gomap \<Rightarrow> unit res \<times> 'w state_graph" where
  "AddConditionalEdges g from cond mapping =
     (if \<not> mhas (g_nodes g) from then (Inl (NodeNotFoundError from), g)
      else case bad_target g mapping of
        Some t \<Rightarrow> (Inl (NodeNotFoundError t), g)
      | None \<Rightarrow>
          (Inr (), g\<lparr>g_conditionalEdges := g_conditionalEdges g @
             [\<lparr>ce_From = from, ce_Condition = cond, ce_Mapping = mapping\<rparr>]\<rparr>))"

definition AddBranch ::
    "'w state_graph \<Rightarrow> string \<Rightarrow> edge_fn \<Rightarrow> (gval \<Rightarrow> string list) \<Rightarrow> unit res \<times> 'w state_graph" where
  "AddBranch g from cond th =
     (if \<not> mhas (g_nodes g) from then (Inl (NodeNotFoundError from), g)
      else (Inr (), g\<lparr>g_branches := g_branches g @
              [\<lparr>br_From = from, br_Condition = cond, br_Then = th\<rparr>]\<rparr>))"

definition AddDataEdge ::
    "'w state_graph \<Rightarrow> string \<Rightarrow> string \<Rightarrow> field_mapping list \<Rightarrow> unit res \<times> 'w state_graph" where
  "AddDataEdge g from to mappings =
     (if \<not> mhas (g_nodes g) from \<and> from \<noteq> Start then (Inl (NodeNotFoundError from), g)
      else if \<not> mhas (g_nodes g) to \<and> to \<noteq> End then (Inl (NodeNotFoundError to), g)
      else (Inr (), g\<lparr>g_dataEdges := g_dataEdges g @
              [\<lparr>de_From = from, de_To = to, de_Mapping = mappings\<rparr>]\<rparr>))"

definition SetNodeTriggerMode :: "'w state_graph \<Rightarrow> string \<Rightarrow> 'w state_graph" where
  "SetNodeTriggerMode g mode = g\<lparr>g_NodeTriggerMode := mode\<rparr>"

definition GetNode :: "'w state_graph \<Rightarrow> string \<Rightarrow> 'w graph_node option" where
  "GetNode g name = mget (g_nodes g) name"

definition SetEntryPoint :: "'w state_graph \<Rightarrow> string \<Rightarrow> unit res \<times> 'w state_graph" where
  "SetEntryPoint g node =
     (if \<not> mhas (g_nodes g) node then (Inl (NodeNotFoundError node), g)
      else (Inr (), g\<lparr>g_entryPoint := node\<rparr>))"

definition SetFinishPoint :: "'w state_graph \<Rightarrow> string \<Rightarrow> unit res \<times> 'w state_graph" where
  "SetFinishPoint g node =
     (if \<not> mhas (g_nodes g) node then (Inl (NodeNotFoundError node), g)
      else (Inr (), g\<lparr>g_finishPoints := g_finishPoints g @ [node]\<rparr>))"

section \<open>Channels\<close>

definition AddChannel :: "'w state_graph \<Rightarrow> string \<Rightarrow> channel \<Rightarrow> 'w state_graph" where
  "AddChannel g name ch = g\<lparr>g_channels := mput name (chan_SetKey ch name) (g_channels g)\<rparr>"

definition SetReducer ::
    "'w state_graph \<Rightarrow> string \<Rightarrow> (gval \<Rightarrow> gval \<Rightarrow> gval) \<Rightarrow> 'w state_graph" where
  "SetReducer g name f =
     (let g1 = (case mget (g_channels g) name of
                  None \<Rightarrow> g
                | Some ch \<Rightarrow> g\<lparr>g_channels := mput name (ReducerChannel ch f) (g_channels g)\<rparr>)
      in g1\<lparr>g_reducers := mput name f (g_reducers g1)\<rparr>)"

definition AddChannelWithReducer ::
    "'w state_graph \<Rightarrow> string \<Rightarrow> channel \<Rightarrow> (gval \<Rightarrow> gval \<Rightarrow> gval) option \<Rightarrow> 'w state_graph" where
  "AddChannelWithReducer g name ch red =
     (let ch' = chan_SetKey ch name
      in case red of
           Some f \<Rightarrow> g\<lparr>g_channels := mput name (ReducerChannel ch' f) (g_channels g),
                       g_reducers := mput name f (g_reducers g)\<rparr>
         | None \<Rightarrow> g\<lparr>g_channels := mput name ch' (g_channels g)\<rparr>)"

section \<open>The state schema\<close>

record annotation =
  an_Reducer :: "(gval \<Rightarrow> gval \<Rightarrow> gval) option"
  an_Metadata :: "gval gomap"

text \<open>\<open>strings.TrimSpace\<close> on a struct tag, which is ASCII.\<close>

definition space_byte :: "char \<Rightarrow> bool" where
  "space_byte c = (c = CHR '' '' \<or> byte_in 9 13 c)"

definition TrimSpace :: "string \<Rightarrow> string" where
  "TrimSpace s = rev (dropWhile space_byte (rev (dropWhile space_byte s)))"

text \<open>\<open>strings.SplitN(pair, "=", 2)\<close>: \<open>None\<close> when there is no separator.\<close>

definition split_eq :: "string \<Rightarrow> (string \<times> string) option" where
  "split_eq pair =
     (if CHR ''='' \<in> set pair
      then Some (takeWhile (\<lambda>c. c \<noteq> CHR ''='') pair, tl (dropWhile (\<lambda>c. c \<noteq> CHR ''='') pair))
      else None)"

fun annotation_loop :: "string list \<Rightarrow> annotation \<Rightarrow> annotation res" where
  "annotation_loop [] a = Inr a"
| "annotation_loop (pair # ps) a =
     (case split_eq pair of
        None \<Rightarrow> annotation_loop ps (a\<lparr>an_Metadata := mput pair (VBool True) (an_Metadata a)\<rparr>)
      | Some (k, v) \<Rightarrow>
          (let key = TrimSpace k; val = TrimSpace v
           in if key = ''reducer'' then
                (case reducers val of
                   None \<Rightarrow> Inl (Fail (''unknown reducer: '' @ val))
                 | Some f \<Rightarrow> annotation_loop ps (a\<lparr>an_Reducer := Some f\<rparr>))
              else annotation_loop ps (a\<lparr>an_Metadata := mput key (VStr val) (an_Metadata a)\<rparr>)))"

definition parseAnnotation :: "string \<Rightarrow> annotation res" where
  "parseAnnotation tag =
     annotation_loop (split_on (CHR '','') tag) \<lparr>an_Reducer = None, an_Metadata = []\<rparr>"

record field_info =
  fi_Name :: string
  fi_Kind :: rkind
  fi_Channel :: channel
  fi_Annotation :: "annotation option"

definition processField :: "schema_field \<Rightarrow> field_info res" where
  "processField f =
     (case (if sf_Tag f \<noteq> [] then map_sum id Some (parseAnnotation (sf_Tag f)) else Inr None) of
        Inl e \<Rightarrow> Inl (Wrap ''invalid annotation'' e)
      | Inr an \<Rightarrow>
          Inr \<lparr>fi_Name = sf_Name f, fi_Kind = sf_Kind f,
               fi_Channel = CreateReducerChannel (sf_Name f) (sf_Kind f)
                 (case an of None \<Rightarrow> None | Some a \<Rightarrow> an_Reducer a),
               fi_Annotation = an\<rparr>)"

fun process_fields :: "schema_field list \<Rightarrow> field_info gomap \<Rightarrow> field_info gomap res" where
  "process_fields [] m = Inr m"
| "process_fields (f # fs) m =
     (if \<not> sf_Exported f then process_fields fs m
      else case processField f of
        Inl e \<Rightarrow> Inl (Wrap (''field '' @ sf_Name f) e)
      | Inr info \<Rightarrow> process_fields fs (mput (fi_Name info) info m))"

definition validateStateSchema :: "schema \<Rightarrow> field_info gomap res" where
  "validateStateSchema s =
     (case s of
        SchemaNil \<Rightarrow> Inl (Fail ''state schema cannot be nil'')
      | SchemaStruct fs \<Rightarrow> process_fields fs []
      | SchemaMap string_keys \<Rightarrow>
          (if string_keys then Inr [] else Inl (Fail ''state schema map must have string keys''))
      | SchemaOther \<Rightarrow> Inl (Fail ''state schema must be a struct or map''))"

definition ValidateStateSchema :: "'w state_graph \<Rightarrow> unit res" where
  "ValidateStateSchema g = map_sum id (\<lambda>_. ()) (validateStateSchema (g_stateSchema g))"

fun configure_loop :: "field_info gomap \<Rightarrow> 'w state_graph \<Rightarrow> 'w state_graph" where
  "configure_loop [] g = g"
| "configure_loop ((name, info) # m) g =
     (let g1 = (if mhas (g_channels g) name then g
                else g\<lparr>g_channels := mput name (fi_Channel info) (g_channels g)\<rparr>);
          g2 = (case fi_Annotation info of
                  None \<Rightarrow> g1
                | Some a \<Rightarrow>
                    (case an_Reducer a of
                       None \<Rightarrow> g1 | Some f \<Rightarrow> g1\<lparr>g_reducers := mput name f (g_reducers g1)\<rparr>))
      in configure_loop m g2)"

definition configureChannelsFromSchema :: "'w state_graph \<Rightarrow> unit res \<times> 'w state_graph" where
  "configureChannelsFromSchema g =
     (case validateStateSchema (g_stateSchema g) of
        Inl e \<Rightarrow> (Inl e, g)
      | Inr infos \<Rightarrow> (Inr (), configure_loop infos g))"

end
