(* ===== verification/GraphCompile.thy ===== *)
theory GraphCompile
  imports StateGraph
begin

text \<open>
  Validation and compilation of a state graph, the rest of \<open>graph/graph.go\<close>: the breadth-first
  search for reachable nodes, \<open>Validate\<close>, the compile options and \<open>Compile\<close>. The checkpointer is
  passed to the engine separately; here only its presence is recorded.
\<close>

section \<open>Reachability\<close>

text \<open>One pass over the edges, then over the conditional edges, for the node \<open>cur\<close>.\<close>

fun edge_loop :: "string \<Rightarrow> edge list \<Rightarrow> string list \<times> string list \<Rightarrow> string list \<times> string list" where
  "edge_loop cur [] rq = rq"
| "edge_loop cur (e # es) (r, q) =
     (if edge_From e = cur \<and> edge_To e \<notin> set r \<and> edge_To e \<noteq> End
      then edge_loop cur es (edge_To e # r, q @ [edge_To e]) else edge_loop cur es (r, q))"

fun target_loop ::
    "'w graph_node gomap \<Rightarrow> string list \<Rightarrow> string list \<times> string list \<Rightarrow> string list \<times> string list" where
  "target_loop ns [] rq = rq"
| "target_loop ns (t # ts) (r, q) =
     (if mhas ns t \<and> t \<notin> set r \<and> t \<noteq> End
      then target_loop ns ts (t # r, q @ [t]) else target_loop ns ts (r, q))"

fun cond_loop ::
    "'w graph_node gomap \<Rightarrow> string \<Rightarrow> conditional_edge list \<Rightarrow> string list \<times> string list \<Rightarrow>
     string list \<times> string list" where
  "cond_loop ns cur [] rq = rq"
| "cond_loop ns cur (c # cs) rq =
     cond_loop ns cur cs (if ce_From c = cur then target_loop ns (map snd (ce_Mapping c)) rq else rq)"

definition visit :: "'w state_graph \<Rightarrow> string \<Rightarrow> string list \<times> string list \<Rightarrow> string list \<times> string list" where
  "visit g cur rq = cond_loop (g_nodes g) cur (g_conditionalEdges g) (edge_loop cur (g_edges g) rq)"

text \<open>Every name an edge can lead to.\<close>

definition targets :: "'w state_graph \<Rightarrow> string set" where
  "targets g = set (map edge_To (g_edges g)) \<union> set (concat (map (map snd \<circ> ce_Mapping) (g_conditionalEdges g)))"

definition grows :: "'a set \<Rightarrow> 'a list \<times> 'a list \<Rightarrow> 'a list \<times> 'a list \<Rightarrow> bool" where
  "grows T rq rq' =
     (\<exists>new. set new \<subseteq> T \<and> distinct new \<and> set new \<inter> set (fst rq) = {} \<and>
        set (fst rq') = set (fst rq) \<union> set new \<and> snd rq' = snd rq @ new)"

lemma grows_refl: "grows T rq rq"
  unfolding grows_def by (rule exI [of _ "[]"]) simp

lemma grows_trans: "grows T a b \<Longrightarrow> grows T b c \<Longrightarrow> grows T a c"
  unfolding grows_def
proof (elim exE conjE)
  fix n m
  assume "set n \<subseteq> T" "distinct n" "set n \<inter> set (fst a) = {}" "set (fst b) = set (fst a) \<union> set n"
    "snd b = snd a @ n" "set m \<subseteq> T" "distinct m" "set m \<inter> set (fst b) = {}"
    "set (fst c) = set (fst b) \<union> set m" "snd c = snd b @ m"
  then show "\<exists>new. set new \<subseteq> T \<and> distinct new \<and> set new \<inter> set (fst a) = {} \<and>
      set (fst c) = set (fst a) \<union> set new \<and> snd c = snd a @ new"
    by (intro exI [of _ "n @ m"]) auto
qed

lemma grows_one: "x \<in> T \<Longrightarrow> x \<notin> set r \<Longrightarrow> grows T (r, q) (x # r, q @ [x])"
  unfolding grows_def by (rule exI [of _ "[x]"]) auto

lemma edge_loop_grows: "set (map edge_To es) \<subseteq> T \<Longrightarrow> grows T rq (edge_loop cur es rq)"
proof (induction cur es rq rule: edge_loop.induct)
  case (1 cur rq)
  then show ?case by (simp add: grows_refl)
next
  case (2 cur e es r q)
  then show ?case
    by (auto intro: grows_trans [OF grows_one])
qed

lemma target_loop_grows: "set ts \<subseteq> T \<Longrightarrow> grows T rq (target_loop ns ts rq)"
proof (induction ns ts rq rule: target_loop.induct)
  case (1 ns rq)
  then show ?case by (simp add: grows_refl)
next
  case (2 ns t ts r q)
  then show ?case
    by (auto intro: grows_trans [OF grows_one])
qed

lemma cond_loop_grows:
  "set (concat (map (map snd \<circ> ce_Mapping) cs)) \<subseteq> T \<Longrightarrow> grows T rq (cond_loop ns cur cs rq)"
proof (induction ns cur cs rq rule: cond_loop.induct)
  case (1 ns cur rq)
  then show ?case by (simp add: grows_refl)
next
  case (2 ns cur c cs rq)
  have "grows T rq (target_loop ns (map snd (ce_Mapping c)) rq)"
    using 2(2) by (intro target_loop_grows) auto
  then show ?case
    using 2 by (auto intro: grows_trans grows_refl)
qed

lemma visit_grows: "grows (targets g) rq (visit g cur rq)"
  unfolding visit_def targets_def
  by (rule grows_trans [OF edge_loop_grows cond_loop_grows]) auto

lemma finite_targets: "finite (targets g)"
  by (simp add: targets_def)

lemma grows_measure:
  assumes "grows T rq rq'" and "finite T"
  shows "card (T - set (fst rq')) + length (snd rq') = card (T - set (fst rq)) + length (snd rq)"
proof -
  from assms(1) obtain new where new: "set new \<subseteq> T" "distinct new" "set new \<inter> set (fst rq) = {}"
    "set (fst rq') = set (fst rq) \<union> set new" "snd rq' = snd rq @ new"
    unfolding grows_def by blast
  have "T - set (fst rq') = (T - set (fst rq)) - set new" using new(4) by auto
  moreover have "card ((T - set (fst rq)) - set new) = card (T - set (fst rq)) - card (set new)"
    using new(1,3) by (intro card_Diff_subset) auto
  moreover have "card (set new) \<le> card (T - set (fst rq))"
    using new(1,3) assms(2) by (intro card_mono) auto
  ultimately show ?thesis using new(2,5) by (simp add: distinct_card)
qed

function bfs :: "'w state_graph \<Rightarrow> string list \<times> string list \<Rightarrow> string list" where
  "bfs g (r, []) = r"
| "bfs g (r, cur # q) = bfs g (visit g cur (r, q))"
  by pat_completeness auto
termination
proof (relation "measure (\<lambda>(g, r, q). card (targets g - set r) + length q)", goal_cases)
  case (2 g r cur q)
  obtain r' q' where v: "visit g cur (r, q) = (r', q')" by fastforce
  from grows_measure [OF visit_grows [of g "(r, q)" cur] finite_targets] v show ?case by simp
qed simp

definition computeReachable :: "'w state_graph \<Rightarrow> string list" where
  "computeReachable g =
     (if g_entryPoint g = [] then [] else bfs g ([g_entryPoint g], [g_entryPoint g]))"

section \<open>Validation and compilation\<close>

definition Validate :: "'w state_graph \<Rightarrow> unit res" where
  "Validate g =
     (if g_entryPoint g = [] then Inl (Fail ''no entry point set'')
      else if g_finishPoints g = [] then Inl (Fail ''no finish points set'')
      else
        let reachable = computeReachable g
        in case List.find (\<lambda>n. n \<notin> set reachable) (mkeys (g_nodes g)) of
             Some n \<Rightarrow> Inl (Fail (''node '' @ n @ '' is not reachable from entry point''))
           | None \<Rightarrow>
               (case ValidateStateSchema g of
                  Inl e \<Rightarrow> Inl (Wrap ''state schema validation failed'' e)
                | Inr _ \<Rightarrow> Inr ()))"

record 'w compiled_graph =
  cg_graph :: "'w state_graph"
  cg_checkpointer :: bool
  cg_interrupts :: "bool gomap"
  cg_interruptsAfter :: "bool gomap"
  cg_recursionLimit :: int
  cg_debug :: bool
  cg_nodeTriggerMode :: string

datatype compile_option =
    WithCheckpointer bool
  | WithInterrupts "string list"
  | WithInterruptsAfter "string list"
  | WithRecursionLimit int
  | WithDebug bool
  | WithNodeTriggerMode string

definition put_names :: "string list \<Rightarrow> bool gomap \<Rightarrow> bool gomap" where
  "put_names ns m = foldl (\<lambda>m n. mput n True m) m ns"

fun apply_option :: "compile_option \<Rightarrow> 'w compiled_graph \<Rightarrow> 'w compiled_graph" where
  "apply_option (WithCheckpointer b) cg = cg\<lparr>cg_checkpointer := b\<rparr>"
| "apply_option (WithInterrupts ns) cg = cg\<lparr>cg_interrupts := put_names ns (cg_interrupts cg)\<rparr>"
| "apply_option (WithInterruptsAfter ns) cg =
     cg\<lparr>cg_interruptsAfter := put_names ns (cg_interruptsAfter cg)\<rparr>"
| "apply_option (WithRecursionLimit n) cg = cg\<lparr>cg_recursionLimit := n\<rparr>"
| "apply_option (WithDebug b) cg = cg\<lparr>cg_debug := b\<rparr>"
| "apply_option (WithNodeTriggerMode m) cg = cg\<lparr>cg_nodeTriggerMode := m\<rparr>"

definition NodeTriggerAnyPredecessor :: string where
  "NodeTriggerAnyPredecessor = ''any''"

definition NodeTriggerAllPredecessor :: string where
  "NodeTriggerAllPredecessor = ''all''"

text \<open>The graph is changed in place: the second component is the graph after the call.\<close>

definition Compile ::
    "'w state_graph \<Rightarrow> compile_option list \<Rightarrow> 'w compiled_graph res \<times> 'w state_graph" where
  "Compile g opts =
     (case Validate g of
        Inl e \<Rightarrow> (Inl (Wrap ''graph validation failed'' e), g)
      | Inr _ \<Rightarrow>
          (case configureChannelsFromSchema g of
             (Inl e, g1) \<Rightarrow> (Inl (Wrap ''failed to configure channels from schema'' e), g1)
           | (Inr _, g1) \<Rightarrow>
               (let cg = fold apply_option opts
                      \<lparr>cg_graph = g1, cg_checkpointer = False, cg_interrupts = [],
                       cg_interruptsAfter = [], cg_recursionLimit = 50, cg_debug = False,
                       cg_nodeTriggerMode = NodeTriggerAnyPredecessor\<rparr>;
                    g2 = g1\<lparr>g_NodeTriggerMode := cg_nodeTriggerMode cg\<rparr>
                in (Inr (cg\<lparr>cg_graph := g2\<rparr>), g2))))"

section \<open>The search finds exactly the reachable nodes\<close>

text \<open>The edges validation looks at: plain edges, and conditional edges to nodes. Branches are not.\<close>

inductive reach_step :: "'w state_graph \<Rightarrow> string \<Rightarrow> string \<Rightarrow> bool" for g where
  plain: "e \<in> set (g_edges g) \<Longrightarrow> edge_To e \<noteq> End \<Longrightarrow> reach_step g (edge_From e) (edge_To e)"
| conditional: "c \<in> set (g_conditionalEdges g) \<Longrightarrow> t \<in> snd ` set (ce_Mapping c) \<Longrightarrow>
    mhas (g_nodes g) t \<Longrightarrow> t \<noteq> End \<Longrightarrow> reach_step g (ce_From c) t"

lemma edge_loop_set:
  "set (fst (edge_loop cur es rq)) =
     set (fst rq) \<union> {edge_To e | e. e \<in> set es \<and> edge_From e = cur \<and> edge_To e \<noteq> End}"
  by (induction cur es rq rule: edge_loop.induct) auto

lemma target_loop_set:
  "set (fst (target_loop ns ts rq)) = set (fst rq) \<union> {t \<in> set ts. mhas ns t \<and> t \<noteq> End}"
  by (induction ns ts rq rule: target_loop.induct) auto

lemma cond_loop_set:
  "set (fst (cond_loop ns cur cs rq)) = set (fst rq) \<union>
     {t. \<exists>c \<in> set cs. ce_From c = cur \<and> t \<in> snd ` set (ce_Mapping c) \<and> mhas ns t \<and> t \<noteq> End}"
  by (induction ns cur cs rq rule: cond_loop.induct) (auto simp: target_loop_set)

lemma visit_set: "set (fst (visit g cur rq)) = set (fst rq) \<union> {x. reach_step g cur x}"
  unfolding visit_def by (auto simp: cond_loop_set edge_loop_set reach_step.simps)

lemma visit_queue: "set (snd (visit g cur rq)) = set (snd rq) \<union> (set (fst (visit g cur rq)) - set (fst rq))"
  using visit_grows [of g rq cur] unfolding grows_def by auto

lemma bfs_sound:
  "(\<And>x. x \<in> set (fst rq) \<union> set (snd rq) \<Longrightarrow> (reach_step g)\<^sup>*\<^sup>* s x) \<Longrightarrow>
   x \<in> set (bfs g rq) \<Longrightarrow> (reach_step g)\<^sup>*\<^sup>* s x"
proof (induction g rq rule: bfs.induct)
  case (1 g r)
  then show ?case by simp
next
  case (2 g r cur q)
  show ?case
  proof (rule 2(1))
    fix x
    assume "x \<in> set (fst (visit g cur (r, q))) \<union> set (snd (visit g cur (r, q)))"
    then have "x \<in> set r \<union> set q \<or> reach_step g cur x" by (auto simp: visit_queue visit_set)
    then show "(reach_step g)\<^sup>*\<^sup>* s x"
      using 2(2) [of cur] 2(2) [of x] by (auto intro: rtranclp.rtrancl_into_rtrancl)
  qed (use 2(3) in simp)
qed

lemma bfs_closed:
  "(\<And>x y. x \<in> set (fst rq) \<Longrightarrow> x \<notin> set (snd rq) \<Longrightarrow> reach_step g x y \<Longrightarrow> y \<in> set (fst rq)) \<Longrightarrow>
   set (snd rq) \<subseteq> set (fst rq) \<Longrightarrow>
   set (fst rq) \<subseteq> set (bfs g rq) \<and> (\<forall>x y. x \<in> set (bfs g rq) \<longrightarrow> reach_step g x y \<longrightarrow> y \<in> set (bfs g rq))"
proof (induction g rq rule: bfs.induct)
  case (1 g r)
  then show ?case by auto
next
  case (2 g r cur q)
  have "y \<in> set (fst (visit g cur (r, q)))"
    if "x \<in> set (fst (visit g cur (r, q)))" "x \<notin> set (snd (visit g cur (r, q)))" "reach_step g x y" for x y
  proof (cases "x = cur")
    case True
    with that(3) show ?thesis by (simp add: visit_set)
  next
    case False
    with that(1,2) have "x \<in> set r" "x \<notin> set q" by (auto simp: visit_queue)
    with 2(2) [of x y] False that(3) show ?thesis by (simp add: visit_set)
  qed
  moreover have "set (snd (visit g cur (r, q))) \<subseteq> set (fst (visit g cur (r, q)))"
    using 2(3) by (auto simp: visit_queue visit_set)
  ultimately have "set (fst (visit g cur (r, q))) \<subseteq> set (bfs g (visit g cur (r, q))) \<and>
      (\<forall>x y. x \<in> set (bfs g (visit g cur (r, q))) \<longrightarrow> reach_step g x y \<longrightarrow>
        y \<in> set (bfs g (visit g cur (r, q))))"
    by (rule 2(1))
  then show ?case by (auto simp: visit_set)
qed

lemma bfs_complete:
  assumes "(reach_step g)\<^sup>*\<^sup>* s x"
  shows "x \<in> set (bfs g ([s], [s]))"
  using assms
proof (induction rule: rtranclp_induct)
  case base
  show ?case using bfs_closed [of "([s], [s])" g] by auto
next
  case (step y z)
  then show ?case using bfs_closed [of "([s], [s])" g] by auto
qed

lemma find_SomeD: "List.find P xs = Some x \<Longrightarrow> x \<in> set xs \<and> P x"
  by (induction xs) (auto split: if_splits)

text \<open>
  C28: validation accepts a graph exactly if it has an entry point and a finish point, its schema
  is valid, and every node is reachable from the entry point along plain edges and conditional
  edges; a node that only a branch leads to makes validation fail.
\<close>

theorem validate_iff_reachable:
  "Validate g = Inr () \<longleftrightarrow>
     g_entryPoint g \<noteq> [] \<and> g_finishPoints g \<noteq> [] \<and>
     set (mkeys (g_nodes g)) \<subseteq> {n. (reach_step g)\<^sup>*\<^sup>* (g_entryPoint g) n} \<and>
     (\<exists>infos. validateStateSchema (g_stateSchema g) = Inr infos)"
proof -
  have "x \<in> set (computeReachable g) \<longleftrightarrow> (reach_step g)\<^sup>*\<^sup>* (g_entryPoint g) x" if "g_entryPoint g \<noteq> []" for x
    using that bfs_complete [of g "g_entryPoint g" x]
      bfs_sound [of "([g_entryPoint g], [g_entryPoint g])" g "g_entryPoint g" x]
    by (auto simp: computeReachable_def)
  then show ?thesis
    by (cases "validateStateSchema (g_stateSchema g)") (auto simp: Validate_def Let_def ValidateStateSchema_def mhas_iff find_None_iff
        split: option.splits sum.splits dest!: find_SomeD)
qed

section \<open>What compiling does\<close>

lemma configure_loop_channels:
  "mget (g_channels (configure_loop m g)) k =
     (case mget (g_channels g) k of
        Some ch \<Rightarrow> Some ch | None \<Rightarrow> map_option fi_Channel (mget m k))"
proof (induction m g rule: configure_loop.induct)
  case (1 g)
  then show ?case by (simp split: option.splits)
next
  case (2 name info m g)
  then show ?case
    by (auto simp: Let_def mhas_def split: option.splits)
qed

lemma configure_loop_mode [simp]: "g_NodeTriggerMode (configure_loop m g) = g_NodeTriggerMode g"
  by (induction m g rule: configure_loop.induct) (auto simp: Let_def split: option.splits)

lemma apply_options_mode:
  "cg_nodeTriggerMode (fold apply_option opts cg) =
     last (cg_nodeTriggerMode cg # [m. WithNodeTriggerMode m \<leftarrow> opts])"
proof (induction opts arbitrary: cg)
  case Nil
  then show ?case by simp
next
  case (Cons opt opts)
  then show ?case by (cases opt) simp_all
qed

lemma apply_options_limit:
  "cg_recursionLimit (fold apply_option opts cg) =
     last (cg_recursionLimit cg # [n. WithRecursionLimit n \<leftarrow> opts])"
proof (induction opts arbitrary: cg)
  case Nil
  then show ?case by simp
next
  case (Cons opt opts)
  then show ?case by (cases opt) simp_all
qed

text \<open>
  compiling gives the graph a channel for every schema field that has none, keeps every
  channel it has, and sets the trigger mode to the last one among the options, or to \<open>any\<close>:
  a mode set with \<open>SetNodeTriggerMode\<close> before compiling is lost.
\<close>

lemma compile_sets_channels_and_mode:
  assumes "Compile g opts = (Inr cg, g')" and "validateStateSchema (g_stateSchema g) = Inr infos"
  shows "cg_graph cg = g' \<and>
     (\<forall>k. mget (g_channels g') k =
        (case mget (g_channels g) k of
           Some ch \<Rightarrow> Some ch | None \<Rightarrow> map_option fi_Channel (mget infos k))) \<and>
     g_NodeTriggerMode g' = last (''any'' # [m. WithNodeTriggerMode m \<leftarrow> opts]) \<and>
     cg_recursionLimit cg = last (50 # [n. WithRecursionLimit n \<leftarrow> opts])"
  using assms
  by (auto simp: Compile_def Let_def configureChannelsFromSchema_def configure_loop_channels
      apply_options_mode apply_options_limit NodeTriggerAnyPredecessor_def split: sum.splits)

definition demo_graph :: "unit state_graph" where
  "demo_graph =
     snd (AddEdge (snd (AddEdge (AddNode (SetNodeTriggerMode (NewStateGraph
       (SchemaStruct [\<lparr>sf_Name = ''Count'', sf_Exported = True, sf_Kind = KInt, sf_Tag = []\<rparr>])) ''all'')
       ''a'' None) Start ''a'')) ''a'' End)"

lemma demo_graph_valid: "Validate demo_graph = Inr ()"
  by (simp add: demo_graph_def Validate_def computeReachable_def visit_def AddEdge_def AddNode_def
      NewStateGraph_def SetNodeTriggerMode_def Start_def End_def mhas_def Let_def ValidateStateSchema_def
      validateStateSchema_def processField_def)

lemma compile_sets_channels_and_mode_witness:
  "\<exists>cg g'. Compile demo_graph [WithRecursionLimit 7] = (Inr cg, g') \<and>
     g_NodeTriggerMode demo_graph = ''all'' \<and> g_NodeTriggerMode g' = ''any'' \<and>
     cg_recursionLimit cg = 7 \<and> mhas (g_channels g') ''Count''"
proof -
  obtain infos where infos: "validateStateSchema (g_stateSchema demo_graph) = Inr infos" "mhas infos ''Count''"
    by (simp add: demo_graph_def AddEdge_def AddNode_def NewStateGraph_def SetNodeTriggerMode_def
        Start_def End_def Let_def validateStateSchema_def processField_def mhas_def)
  then obtain cg g' where c: "Compile demo_graph [WithRecursionLimit 7] = (Inr cg, g')"
    by (auto simp: Compile_def demo_graph_valid configureChannelsFromSchema_def Let_def)
  have "mget (g_channels demo_graph) ''Count'' = None" "g_NodeTriggerMode demo_graph = ''all''"
    by (simp_all add: demo_graph_def AddEdge_def AddNode_def NewStateGraph_def SetNodeTriggerMode_def
        Start_def End_def Let_def)
  then show ?thesis
    using c compile_sets_channels_and_mode [OF c infos(1)] infos(2) by (auto simp: mhas_def)
qed

end
