(* ===== verification/Engine.thy ===== *)
theory Engine
  imports GraphCompile Registry CheckpointManager
    "HOL-Library.List_Lexorder" "HOL-Library.Char_ord"
begin

text \<open>
  The parts of the Pregel engine, \<open>pregel/engine.go\<close>, in the order a step uses them: input,
  scheduling, interrupts, task input, execution, writes, output. Each is a function of the
  state it changes. Maps nested in node outputs are values; a map that a field mapping
  stores in two places is not shared. The iteration order of the sets of node names is the
  argument \<open>ord\<close>, a function on lists of names; other maps iterate in list order.
\<close>

section \<open>Conversions\<close>

text \<open>\<open>toMap\<close>; the struct values here are those behind the pointers a \<open>gval\<close> can hold.\<close>

definition toMap :: "gval \<Rightarrow> gval gomap res" where
  "toMap v =
     (case v of
        VNil \<Rightarrow> Inl (Fail ''nil value'')
      | VMap m \<Rightarrow> Inr m
      | VBoolMap m \<Rightarrow> Inr (map (map_prod id VBool) m)
      | VIntMap m \<Rightarrow> Inr (map (map_prod id (\<lambda>i. VInt (word_of_int i))) m)
      | VIntMapMap m \<Rightarrow> Inr (map (map_prod id VIntMap) m)
      | VMissing \<Rightarrow> Inr []
      | VOverwrite x \<Rightarrow> Inr [(''Value'', x)]
      | VType k \<Rightarrow> Inr []
      | VZero z \<Rightarrow> Inr (case z of ZOverwrite \<Rightarrow> [(''Value'', VNil)] | _ \<Rightarrow> [])
      | _ \<Rightarrow> Inr [(''__root__'', v)])"

definition mergeStates :: "gval \<Rightarrow> gval \<Rightarrow> gval" where
  "mergeStates existing nxt =
     (if existing = VNil then nxt
      else if nxt = VNil then existing
      else case (existing, nxt) of
        (VMap a, VMap b) \<Rightarrow> VMap (mmerge (mmerge [] a) b)
      | _ \<Rightarrow> nxt)"

text \<open>The field conversion of struct schemas is done by reflection; it is the argument \<open>fill\<close>.\<close>

definition mapToStateSchema ::
    "(schema_field list \<Rightarrow> gval gomap \<Rightarrow> gval) \<Rightarrow> schema \<Rightarrow> gval \<Rightarrow> gval" where
  "mapToStateSchema fill sch input =
     (case input of
        VMap m \<Rightarrow> (case sch of SchemaStruct fs \<Rightarrow> fill fs m | _ \<Rightarrow> VMap m)
      | v \<Rightarrow> v)"

definition TaskPathStr :: "string list \<Rightarrow> string" where
  "TaskPathStr path = (if path = [] then [] else join_with (CHR ''/'') path)"

definition ParseTaskPath :: "string \<Rightarrow> string list" where
  "ParseTaskPath s = (if s = [] then [] else split_on (CHR ''/'') s)"

section \<open>Input\<close>

definition upper_first :: "char \<Rightarrow> char" where
  "upper_first c = char_of (of_char c - 32 :: nat)"

definition lower_first :: "char \<Rightarrow> char" where
  "lower_first c = char_of (of_char c + 32 :: nat)"

definition caseFoldKey :: "registry \<Rightarrow> string \<Rightarrow> string" where
  "caseFoldKey r key =
     (case key of
        [] \<Rightarrow> []
      | c # cs \<Rightarrow>
          (if byte_in 97 122 c \<and> mhas r (upper_first c # cs) then upper_first c # cs
           else if byte_in 65 90 c \<and> mhas r (lower_first c # cs) then lower_first c # cs
           else []))"

text \<open>
  The loop of \<open>applyInput\<close> changes the map it ranges over. It deletes only the current key and
  writes only keys that are registered, which the loop skips, so ranging over the entries
  the map has at the start is the same.
\<close>

fun input_loop :: "gval gomap \<Rightarrow> registry \<times> gval gomap \<Rightarrow> registry \<times> gval gomap" where
  "input_loop [] s = s"
| "input_loop ((key, v) # es) (r, m) =
     (if mhas r key then input_loop es (r, m)
      else
        let guessed = caseFoldKey r key
        in if guessed \<noteq> [] then input_loop es (r, mput guessed v (mdel key m))
           else input_loop es (Registry_Register r key (LastValue (NewLastValue v)), m))"

text \<open>The input map is the caller's, so its renamed keys are part of the result.\<close>

definition applyInput :: "registry \<Rightarrow> gval \<Rightarrow> unit res \<times> registry \<times> gval" where
  "applyInput r input =
     (case toMap input of
        Inl e \<Rightarrow> (Inl e, r, input)
      | Inr m \<Rightarrow>
          (let (r1, m1) = input_loop m (r, m);
               input1 = (case input of VMap _ \<Rightarrow> VMap m1 | _ \<Rightarrow> input);
               writes = map (map_prod id (\<lambda>v. [v])) m1
           in if writes \<noteq> []
              then (case Registry_UpdateChannels r1 writes of (res, r2) \<Rightarrow> (res, r2, input1))
              else (Inr (), r1, input1)))"

section \<open>Scheduling\<close>

record 'w task =
  task_Name :: string
  task_Func :: "'w node_fn option"
  task_Channels :: "string list"
  task_RetryPolicy :: "retry_policy option"

definition createTask :: "'w graph_node \<Rightarrow> string list \<Rightarrow> 'w task" where
  "createTask n chans =
     \<lparr>task_Name = node_Name n, task_Func = node_Function n, task_Channels = chans,
      task_RetryPolicy = None\<rparr>"

definition createTaskInfo :: "'w graph_node \<Rightarrow> string list \<Rightarrow> 'w task" where
  "createTaskInfo n chans =
     \<lparr>task_Name = node_Name n, task_Func = None, task_Channels = chans, task_RetryPolicy = None\<rparr>"

definition add_name :: "string \<Rightarrow> string list \<Rightarrow> string list" where
  "add_name x xs = (if x \<in> set xs then xs else xs @ [x])"

text \<open>
  The conditional edges of a node: whether it has any, the targets so far, and whether the
  search has returned because a condition chose \<open>End\<close>. An error of a condition is ignored.
\<close>

fun conditional_next ::
    "(gval \<Rightarrow> string) \<Rightarrow> conditional_edge list \<Rightarrow> string \<Rightarrow> gval \<Rightarrow> bool \<times> string list \<Rightarrow>
     bool \<times> string list \<times> bool" where
  "conditional_next fmt [] node state (h, ns) = (h, ns, False)"
| "conditional_next fmt (c # cs) node state (h, ns) =
     (if ce_From c \<noteq> node then conditional_next fmt cs node state (h, ns)
      else case mget (ce_Mapping c) (go_sprint fmt (fst (ce_Condition c state))) of
        None \<Rightarrow> conditional_next fmt cs node state (True, ns)
      | Some t \<Rightarrow>
          (if t = End then (True, ns, True)
           else conditional_next fmt cs node state (True, add_name t ns)))"

fun plain_next :: "edge list \<Rightarrow> string \<Rightarrow> string list \<Rightarrow> string list \<times> bool" where
  "plain_next [] node ns = (ns, False)"
| "plain_next (e # es) node ns =
     (if edge_From e \<noteq> node then plain_next es node ns
      else if edge_To e = End then (ns, True)
      else plain_next es node (add_name (edge_To e) ns))"

definition resume_next :: "'w state_graph \<Rightarrow> gval \<Rightarrow> string list" where
  "resume_next g state =
     (case state of
        VMap st \<Rightarrow>
          (case mget st ''_next'' of
             Some (VStr s) \<Rightarrow> (if mhas (g_nodes g) s then [s] else [])
           | Some (VList (VStr s # _)) \<Rightarrow> (if mhas (g_nodes g) s then [s] else [])
           | _ \<Rightarrow> [])
      | _ \<Rightarrow> [])"

fun branch_next :: "branch list \<Rightarrow> string \<Rightarrow> gval \<Rightarrow> string list \<Rightarrow> string list" where
  "branch_next [] node state ns = ns"
| "branch_next (b # bs) node state ns =
     branch_next bs node state
       (if br_From b = node then
          (case br_Condition b state of
             (r, Some e) \<Rightarrow> ns
           | (r, None) \<Rightarrow> foldl (\<lambda>ns t. if t = End then ns else add_name t ns) ns (br_Then b r))
        else ns)"

definition getNextNodes ::
    "(gval \<Rightarrow> string) \<Rightarrow> 'w state_graph \<Rightarrow> string \<Rightarrow> gval \<Rightarrow> string list" where
  "getNextNodes fmt g node state =
     (case conditional_next fmt (g_conditionalEdges g) node state (False, []) of
        (h, ns, True) \<Rightarrow> ns
      | (h, ns, False) \<Rightarrow>
          (case (if \<not> h \<and> ns = [] then plain_next (g_edges g) node [] else (ns, False)) of
             (ns1, True) \<Rightarrow> ns1
           | (ns1, False) \<Rightarrow>
               branch_next (g_branches g) node state
                 (if ns1 = [] then resume_next g state else ns1)))"

definition task_channels :: "'w graph_node \<Rightarrow> string list \<Rightarrow> string list" where
  "task_channels n all = (if node_Triggers n = [] then all else node_Triggers n)"

definition make_task :: "bool \<Rightarrow> 'w graph_node \<Rightarrow> string list \<Rightarrow> 'w task" where
  "make_task forExecution n chans = (if forExecution then createTask n chans else createTaskInfo n chans)"

fun schedule_loop ::
    "bool \<Rightarrow> 'w state_graph \<Rightarrow> registry \<Rightarrow> string list \<Rightarrow> 'w task list \<times> string list" where
  "schedule_loop ex g r [] = ([], [])"
| "schedule_loop ex g r (name # ns) =
     (case (GetNode g name, schedule_loop ex g r ns) of
        (None, rest) \<Rightarrow> rest
      | (Some n, (ts, trs)) \<Rightarrow>
          (let chans = task_channels n (Registry_Names r) in (make_task ex n chans # ts, chans @ trs)))"

definition buildIncomingEdges :: "'w state_graph \<Rightarrow> string list gomap" where
  "buildIncomingEdges g =
     foldl (\<lambda>adj e. mput (edge_To e) (mgetd [] adj (edge_To e) @ [edge_From e]) adj) [] (g_edges g)"

definition dag_ready :: "'w state_graph \<Rightarrow> bool gomap \<Rightarrow> string \<Rightarrow> bool" where
  "dag_ready g completed name =
     list_all (\<lambda>p. p = Start \<or> p = End \<or> mgetd False completed p)
       (mgetd [] (buildIncomingEdges g) name)"

fun dag_loop ::
    "bool \<Rightarrow> 'w state_graph \<Rightarrow> bool gomap \<Rightarrow> string list \<Rightarrow> 'w task list \<times> string list" where
  "dag_loop ex g completed [] = ([], [])"
| "dag_loop ex g completed (name # ns) =
     (case (GetNode g name, dag_loop ex g completed ns) of
        (None, rest) \<Rightarrow> rest
      | (Some n, (ts, trs)) \<Rightarrow>
          (if mgetd False completed name \<or> \<not> dag_ready g completed name then (ts, trs)
           else let chans = task_channels n (mkeys (g_channels g))
                in (make_task ex n chans # ts, chans @ trs)))"

definition prepareNextTasksDAG ::
    "(string list \<Rightarrow> string list) \<Rightarrow> bool \<Rightarrow> 'w state_graph \<Rightarrow> bool gomap \<Rightarrow> 'w task list \<times> string list" where
  "prepareNextTasksDAG ord ex g completed = dag_loop ex g completed (ord (mkeys (g_nodes g)))"

definition prepareNextTasksWithMode ::
    "(gval \<Rightarrow> string) \<Rightarrow> (string list \<Rightarrow> string list) \<Rightarrow> 'w state_graph \<Rightarrow> registry \<Rightarrow> bool gomap \<Rightarrow>
     string \<Rightarrow> gval \<Rightarrow> bool \<Rightarrow> ('w task list \<times> string list) res" where
  "prepareNextTasksWithMode fmt ord g r completed lastNode state ex =
     (if completed = [] then
        (let entry = g_entryPoint g
         in if entry = [] then Inl (Fail ''no entry point set'')
            else if entry = End then Inr ([], [])
            else case GetNode g entry of
              None \<Rightarrow> Inl (NodeNotFoundError entry)
            | Some n \<Rightarrow>
                Inr ([createTask n (task_channels n (Registry_Names r))], [''__start__'']))
      else if g_NodeTriggerMode g = NodeTriggerAllPredecessor
      then Inr (prepareNextTasksDAG ord ex g completed)
      else Inr (schedule_loop ex g r (ord (getNextNodes fmt g lastNode state))))"

definition prepareNextTasks ::
    "(gval \<Rightarrow> string) \<Rightarrow> (string list \<Rightarrow> string list) \<Rightarrow> 'w state_graph \<Rightarrow> registry \<Rightarrow> bool gomap \<Rightarrow>
     string \<Rightarrow> gval \<Rightarrow> ('w task list \<times> string list) res" where
  "prepareNextTasks fmt ord g r completed lastNode state =
     prepareNextTasksWithMode fmt ord g r completed lastNode state True"

definition PrepareNextTasksForInspection ::
    "(gval \<Rightarrow> string) \<Rightarrow> (string list \<Rightarrow> string list) \<Rightarrow> 'w state_graph \<Rightarrow> registry \<Rightarrow> bool gomap \<Rightarrow>
     string \<Rightarrow> gval \<Rightarrow> ('w task list \<times> string list) res" where
  "PrepareNextTasksForInspection fmt ord g r completed lastNode state =
     prepareNextTasksWithMode fmt ord g r completed lastNode state False"

section \<open>Interrupt points\<close>

definition All :: string where "All = ''*''"

definition shouldInterrupt :: "bool gomap \<Rightarrow> 'w task list \<Rightarrow> 'w task list" where
  "shouldInterrupt interrupts tasks =
     (if interrupts = [] then []
      else filter (\<lambda>t. mgetd False interrupts All \<or> mgetd False interrupts (task_Name t)) tasks)"

record task_result =
  res_Name :: string
  res_Output :: gval
  res_Err :: "gerror option"

definition shouldInterruptAfter :: "bool gomap \<Rightarrow> task_result list \<Rightarrow> bool" where
  "shouldInterruptAfter after results =
     (after \<noteq> [] \<and>
      list_ex (\<lambda>r. res_Err r = None \<and> (mgetd False after All \<or> mgetd False after (res_Name r))) results)"

section \<open>Task input and execution\<close>

fun read_channels :: "string list \<Rightarrow> registry \<Rightarrow> gval gomap \<Rightarrow> gval res \<times> registry" where
  "read_channels [] r vs = (Inr (VMap vs), r)"
| "read_channels (c # cs) r vs =
     (case Registry_Get r c of
        None \<Rightarrow> read_channels cs r vs
      | Some ch \<Rightarrow>
          (case chan_Get ch of
             (Inr v, ch') \<Rightarrow> read_channels cs (mput c ch' r) (mput c v vs)
           | (Inl e, ch') \<Rightarrow>
               (if IsEmptyChannelError e then read_channels cs (mput c ch' r) vs
                else (Inl e, mput c ch' r))))"

definition readTaskInput :: "registry \<Rightarrow> 'w task \<Rightarrow> gval res \<times> registry" where
  "readTaskInput r t = (if task_Channels t = [] then (Inr (VMap []), r) else read_channels (task_Channels t) r [])"

text \<open>
  The tasks of a step run concurrently; here they run one after the other in the given order.
  A task without a function panics when it is called, and the executor turns the panic into
  an error. \<open>run_task\<close> is the part both ways of executing a task share.
\<close>

definition run_task ::
    "(schema_field list \<Rightarrow> gval gomap \<Rightarrow> gval) \<Rightarrow> ('w \<Rightarrow> gerror option) \<Rightarrow> 'w state_graph \<Rightarrow>
     'w task \<Rightarrow> registry \<Rightarrow> 'w \<Rightarrow> gval res \<times> registry \<times> 'w" where
  "run_task fill cancel g t r w =
     (case readTaskInput r t of
        (Inl e, r1) \<Rightarrow> (Inl (Wrap ''failed to read task input'' e), r1, w)
      | (Inr v, r1) \<Rightarrow>
          (let input = mapToStateSchema fill (g_stateSchema g) v;
               fn = (case task_Func t of
                       None \<Rightarrow> (\<lambda>w. (Panics ''invalid memory address or nil pointer dereference'', w))
                     | Some f \<Rightarrow> f input);
               policy = (case task_RetryPolicy t of None \<Rightarrow> DefaultRetryPolicy | Some p \<Rightarrow> p)
           in case RetryExecutor_Execute (NewRetryExecutor (Some policy)) (task_Name t) cancel fn w of
                (out, w1) \<Rightarrow> (out, r1, w1)))"

definition result_of :: "string \<Rightarrow> gval res \<Rightarrow> task_result" where
  "result_of name out =
     (case out of
        Inl e \<Rightarrow> \<lparr>res_Name = name, res_Output = VNil, res_Err = Some e\<rparr>
      | Inr v \<Rightarrow> \<lparr>res_Name = name, res_Output = v, res_Err = None\<rparr>)"

definition executeTask ::
    "(schema_field list \<Rightarrow> gval gomap \<Rightarrow> gval) \<Rightarrow> ('w \<Rightarrow> gerror option) \<Rightarrow> 'w state_graph \<Rightarrow>
     'w task \<Rightarrow> registry \<Rightarrow> 'w \<Rightarrow> task_result \<times> registry \<times> 'w" where
  "executeTask fill cancel g t r w =
     (case run_task fill cancel g t r w of
        (out, r1, w1) \<Rightarrow>
          (result_of (task_Name t)
             (case out of
                Inl e \<Rightarrow> Inl (if IsRetryExhausted e then Wrap ''max retries exceeded'' e else e)
              | Inr v \<Rightarrow> Inr v), r1, w1))"

fun executeTasks ::
    "(schema_field list \<Rightarrow> gval gomap \<Rightarrow> gval) \<Rightarrow> ('w \<Rightarrow> gerror option) \<Rightarrow> 'w state_graph \<Rightarrow>
     'w task list \<Rightarrow> registry \<Rightarrow> 'w \<Rightarrow> task_result list \<times> registry \<times> 'w" where
  "executeTasks fill cancel g [] r w = ([], r, w)"
| "executeTasks fill cancel g (t # ts) r w =
     (case executeTask fill cancel g t r w of
        (res, r1, w1) \<Rightarrow>
          (case executeTasks fill cancel g ts r1 w1 of (rs, r2, w2) \<Rightarrow> (res # rs, r2, w2)))"

text \<open>One task in the asynchronous pipeline: an exhausted retry is not wrapped again.\<close>

definition pipeline_task ::
    "(schema_field list \<Rightarrow> gval gomap \<Rightarrow> gval) \<Rightarrow> ('w \<Rightarrow> gerror option) \<Rightarrow> 'w state_graph \<Rightarrow>
     'w task \<Rightarrow> registry \<Rightarrow> 'w \<Rightarrow> task_result \<times> registry \<times> 'w" where
  "pipeline_task fill cancel g t r w =
     (case run_task fill cancel g t r w of
        (out, r1, w1) \<Rightarrow> (result_of (task_Name t) out, r1, w1))"

fun executeTasksAsync ::
    "(schema_field list \<Rightarrow> gval gomap \<Rightarrow> gval) \<Rightarrow> ('w \<Rightarrow> gerror option) \<Rightarrow> 'w state_graph \<Rightarrow>
     'w task list \<Rightarrow> registry \<Rightarrow> 'w \<Rightarrow> task_result list \<times> registry \<times> 'w" where
  "executeTasksAsync fill cancel g [] r w = ([], r, w)"
| "executeTasksAsync fill cancel g (t # ts) r w =
     (case pipeline_task fill cancel g t r w of
        (res, r1, w1) \<Rightarrow>
          (case executeTasksAsync fill cancel g ts r1 w1 of (rs, r2, w2) \<Rightarrow> (res # rs, r2, w2)))"

end
