(* ===== verification/EngineRun.thy ===== *)
theory EngineRun
  imports Engine
begin

text \<open>
  The second half of the Pregel engine, \<open>pregel/engine.go\<close>: applying the writes of a step,
  persisting checkpoints, and the run loop. The checkpointer is a pair of functions on its
  own state \<open>'s\<close>; \<open>enc\<close> and \<open>dec\<close> are \<open>encoding/json\<close>'s text form of a value. An
  asynchronous save happens at once and its error is dropped.
\<close>

section \<open>Field mappings\<close>

fun nested_get :: "gval \<Rightarrow> string list \<Rightarrow> gval" where
  "nested_get cur [] = cur"
| "nested_get cur (p # ps) =
     (case cur of
        VMap m \<Rightarrow> (case mget m p of None \<Rightarrow> VNil | Some VNil \<Rightarrow> VNil | Some v \<Rightarrow> nested_get v ps)
      | _ \<Rightarrow> VNil)"

definition getNestedField :: "gval gomap \<Rightarrow> string \<Rightarrow> gval" where
  "getNestedField m path =
     (if path = [] then VMap m else nested_get (VMap m) (split_on (CHR ''.'') path))"

fun nested_set :: "gval gomap \<Rightarrow> string list \<Rightarrow> gval \<Rightarrow> gval gomap" where
  "nested_set m [] v = m"
| "nested_set m [p] v = mput p v m"
| "nested_set m (p # q # ps) v =
     mput p (VMap (nested_set (case mget m p of Some (VMap s) \<Rightarrow> s | _ \<Rightarrow> []) (q # ps) v)) m"

text \<open>\<open>None\<close>: the type assertion on a value that is not a map panics.\<close>

definition setNestedField :: "gval gomap \<Rightarrow> string \<Rightarrow> gval \<Rightarrow> gval gomap option" where
  "setNestedField m path v =
     (if path = [] then (case v of VMap vm \<Rightarrow> Some (mmerge m vm) | _ \<Rightarrow> None)
      else Some (nested_set m (split_on (CHR ''.'') path) v))"

fun mapping_loop :: "gval gomap \<Rightarrow> field_mapping list \<Rightarrow> gval gomap \<Rightarrow> gval gomap option" where
  "mapping_loop out [] res = Some res"
| "mapping_loop out (fm # fms) res =
     (let v = getNestedField out (fm_From fm)
      in if v = VNil then mapping_loop out fms res
         else case setNestedField res (fm_To fm) v of
           None \<Rightarrow> None | Some res' \<Rightarrow> mapping_loop out fms res')"

definition applyFieldMapping :: "gval gomap \<Rightarrow> field_mapping list \<Rightarrow> gval gomap option" where
  "applyFieldMapping out ms = (if ms = [] then Some out else mapping_loop out ms [])"

section \<open>Sets of names in a checkpoint\<close>

definition NUL :: char where "NUL = CHR 0x00"

definition serializeStringSet :: "bool gomap \<Rightarrow> string" where
  "serializeStringSet s = (if s = [] then [] else join_with NUL (sort (mkeys s)))"

definition deserializeStringSet :: "string \<Rightarrow> bool gomap option" where
  "deserializeStringSet encoded =
     (if encoded = [] then None
      else Some (foldl (\<lambda>m p. mput p True m) [] (split_on NUL encoded)))"

section \<open>Applying writes\<close>

record engine_state =
  channelVersions :: "int gomap"
  versionsSeen :: "int gomap gomap"
  currentCheckpoint :: "checkpoint option"

definition markSeen :: "engine_state \<Rightarrow> string \<Rightarrow> string \<Rightarrow> engine_state" where
  "markSeen e node channel =
     e\<lparr>versionsSeen := mput node
          (mput channel (mgetd 0 (channelVersions e) channel) (mgetd [] (versionsSeen e) node))
          (versionsSeen e),
       currentCheckpoint := map_option (\<lambda>c. MarkSeen c node channel) (currentCheckpoint e)\<rparr>"

definition hasSeen :: "engine_state \<Rightarrow> string \<Rightarrow> string \<Rightarrow> bool" where
  "hasSeen e node channel =
     (case mget (versionsSeen e) node of
        None \<Rightarrow> False
      | Some vs \<Rightarrow>
          (case mget vs channel of
             None \<Rightarrow> False | Some v \<Rightarrow> v = mgetd 0 (channelVersions e) channel))"

record grouped_write =
  gw_Value :: gval
  gw_Overwrite :: bool
  gw_Node :: string

type_synonym write_groups = "gval list gomap \<times> grouped_write gomap"

fun group_entries :: "string \<Rightarrow> gval gomap \<Rightarrow> write_groups \<Rightarrow> write_groups" where
  "group_entries node [] g = g"
| "group_entries node ((key, v) # m) (ws, pend) =
     (if v = VNil then group_entries node m (ws, pend)
      else
        let (val, ow) = (case v of VOverwrite x \<Rightarrow> (x, True) | _ \<Rightarrow> (v, False))
        in group_entries node m
             (mput key (mgetd [] ws key @ [val]) ws,
              mput key \<lparr>gw_Value = val, gw_Overwrite = ow, gw_Node = node\<rparr> pend))"

text \<open>
  The writes of the results, grouped by channel. \<open>None\<close> is the panic of a field mapping,
  \<open>Some (Inl e)\<close> an output that is no map.
\<close>

fun group_results ::
    "'w state_graph \<Rightarrow> task_result list \<Rightarrow> write_groups \<Rightarrow> write_groups res option" where
  "group_results g [] grp = Some (Inr grp)"
| "group_results g (r # rs) grp =
     (if res_Err r \<noteq> None \<or> res_Output r = VNil then group_results g rs grp
      else case toMap (res_Output r) of
        Inl e \<Rightarrow> Some (Inl (Wrap ''failed to convert output to map'' e))
      | Inr out \<Rightarrow>
          (case (case GetNode g (res_Name r) of
                   Some n \<Rightarrow> applyFieldMapping out (node_FieldMapping n) | None \<Rightarrow> Some out) of
             None \<Rightarrow> None
           | Some out' \<Rightarrow> group_results g rs (group_entries (res_Name r) out' grp)))"

text \<open>Several values for a channel that is no aggregate and no reducer: only the last is kept.\<close>

definition keeps_all :: "channel \<Rightarrow> bool" where
  "keeps_all ch = (case ch of BinaryOperatorAggregate _ \<Rightarrow> True | ReducerChannel _ _ \<Rightarrow> True | _ \<Rightarrow> False)"

definition collapse_values :: "channel \<Rightarrow> gval list \<Rightarrow> gval list" where
  "collapse_values ch vs =
     (let fs = filter (\<lambda>v. v \<noteq> VNil) vs
      in if 1 < length fs \<and> \<not> keeps_all ch then [last fs] else fs)"

definition bump :: "engine_state \<Rightarrow> string \<Rightarrow> engine_state" where
  "bump e c =
     e\<lparr>channelVersions := mput c (mgetd 0 (channelVersions e) c + 1) (channelVersions e),
       currentCheckpoint := map_option (\<lambda>cp. IncrementChannel cp c) (currentCheckpoint e)\<rparr>"

text \<open>One channel of the write loop; the list collects the updated channels.\<close>

definition write_step ::
    "string \<times> gval list \<Rightarrow> registry \<times> engine_state \<times> string list \<Rightarrow>
     unit res \<times> registry \<times> engine_state \<times> string list" where
  "write_step p s =
     (case (p, s) of ((name, vs), (r, e, upd)) \<Rightarrow>
        (let ch0 = (case Registry_Get r name of None \<Rightarrow> LastValue (NewLastValue VNil) | Some c \<Rightarrow> c)
         in case chan_Update ch0 (collapse_values ch0 vs) of
              (Inl err, ch1) \<Rightarrow>
                (Inl (Wrap (''failed to update channel '' @ name) err), (mput name ch1 r, e, upd))
            | (Inr updated, ch1) \<Rightarrow>
                (if updated \<and> chan_IsAvailable ch1 then
                   (let e1 = bump e name;
                        ch2 = (case chan_SetVersion ch1 (mgetd 0 (channelVersions e1) name) of
                                 None \<Rightarrow> ch1 | Some c \<Rightarrow> c)
                    in (Inr (), (mput name ch2 r, e1, add_name name upd)))
                 else (Inr (), (mput name ch1 r, e, upd)))))"

definition add_pending :: "checkpoint \<Rightarrow> string \<times> grouped_write \<Rightarrow> checkpoint" where
  "add_pending c p = (case p of (k, w) \<Rightarrow> AddPendingWrite c k (gw_Value w) (gw_Overwrite w) (gw_Node w))"

text \<open>\<open>None\<close> as the result is a panic. The error leaves the channels written so far changed.\<close>

definition applyWrites ::
    "'w state_graph \<Rightarrow> registry \<Rightarrow> engine_state \<Rightarrow> task_result list \<Rightarrow> string list \<Rightarrow>
     (string list res \<times> registry \<times> engine_state) option" where
  "applyWrites g r e results triggers =
     (case group_results g (sort_key res_Name results) ([], []) of
        None \<Rightarrow> None
      | Some (Inl err) \<Rightarrow> Some (Inl err, r, e)
      | Some (Inr (ws, pend)) \<Rightarrow>
          (case floop write_step ws (r, e, []) of
             (Inl err, (r1, e1, upd)) \<Rightarrow> Some (Inl err, r1, e1)
           | (Inr _, (r1, e1, upd)) \<Rightarrow>
               (let e2 = e1\<lparr>currentCheckpoint :=
                           map_option (\<lambda>c. foldl add_pending c pend) (currentCheckpoint e1)\<rparr>;
                    e3 = foldl (\<lambda>e n. if n \<in> set triggers then foldl (\<lambda>e c. markSeen e n c) e upd else e)
                           e2 (mkeys ws)
                in Some (Inr upd, r1, e3))))"

section \<open>Checkpoints of a run\<close>

record 's checkpointer_ops =
  ck_Put :: "string \<Rightarrow> int \<Rightarrow> 's \<Rightarrow> gval gomap \<Rightarrow> gval gomap \<Rightarrow> unit res \<times> 's"
  ck_Get :: "'s \<Rightarrow> gval gomap \<Rightarrow> gval gomap option res"

record deferred_checkpoint =
  dc_ThreadID :: string
  dc_CheckpointID :: string
  dc_Step :: int
  dc_Checkpoint :: "gval gomap"

text \<open>The identifier a saver would make up is not used here, because the engine gives one.\<close>

definition saveCheckpoint ::
    "'s checkpointer_ops option \<Rightarrow> int \<Rightarrow> 's \<Rightarrow> string \<Rightarrow> string \<Rightarrow> int \<Rightarrow> gval gomap \<Rightarrow> unit res \<times> 's" where
  "saveCheckpoint ck now s threadID cpID stp cp =
     (case ck of
        None \<Rightarrow> (Inr (), s)
      | Some c \<Rightarrow>
          ck_Put c [] now s
            [(''thread_id'', VStr threadID), (''checkpoint_id'', VStr cpID),
             (''step'', VInt (word_of_int stp))] cp)"

definition deferCheckpoint ::
    "deferred_checkpoint list \<Rightarrow> string \<Rightarrow> string \<Rightarrow> int \<Rightarrow> gval gomap \<Rightarrow> deferred_checkpoint list" where
  "deferCheckpoint ds threadID cpID stp cp =
     ds @ [\<lparr>dc_ThreadID = threadID, dc_CheckpointID = cpID, dc_Step = stp, dc_Checkpoint = cp\<rparr>]"

fun save_deferred_loop ::
    "'s checkpointer_ops option \<Rightarrow> int \<Rightarrow> 's \<Rightarrow> deferred_checkpoint list \<Rightarrow> unit res \<Rightarrow> unit res \<times> 's" where
  "save_deferred_loop ck now s [] lastErr = (lastErr, s)"
| "save_deferred_loop ck now s (d # ds) lastErr =
     (case saveCheckpoint ck now s (dc_ThreadID d) (dc_CheckpointID d) (dc_Step d) (dc_Checkpoint d) of
        (Inl e, s') \<Rightarrow> save_deferred_loop ck now s' ds (Inl e)
      | (Inr _, s') \<Rightarrow> save_deferred_loop ck now s' ds lastErr)"

definition saveDeferredCheckpoints ::
    "'s checkpointer_ops option \<Rightarrow> int \<Rightarrow> 's \<Rightarrow> deferred_checkpoint list \<Rightarrow> unit res \<times> 's" where
  "saveDeferredCheckpoints ck now s ds =
     (if Option.is_none ck \<or> ds = [] then (Inr (), s) else save_deferred_loop ck now s ds (Inr ()))"

definition buildOutput :: "registry \<Rightarrow> gval \<Rightarrow> gval \<times> registry" where
  "buildOutput r lastState =
     (case Registry_GetValues r of
        (Inl _, r') \<Rightarrow> (lastState, r')
      | (Inr vs, r') \<Rightarrow> (if vs \<noteq> [] then VMap vs else lastState, r'))"

definition getThreadID :: "string \<Rightarrow> runnable_config option \<Rightarrow> string" where
  "getThreadID uuid cfg =
     (case cfg of
        None \<Rightarrow> uuid
      | Some c \<Rightarrow> (case Config_Get c ''thread_id'' of Some (VStr t) \<Rightarrow> t | _ \<Rightarrow> uuid))"

end
