(* ===== verification/EngineLoop.thy ===== *)
theory EngineLoop
  imports EngineRun
begin

text \<open>
  \<open>Engine.Run\<close> and \<open>RunSync\<close> of \<open>pregel/engine.go\<close>. Everything a run takes from outside is in
  \<open>engine_env\<close>: the graph and the options of the engine, the checkpointer, the contexts
  (\<open>env_done\<close> at the start of a step, \<open>env_cancel\<close> during a retry wait), printing (\<open>env_fmt\<close>),
  JSON text (\<open>env_enc\<close>, \<open>env_dec\<close>), iteration orders, identifiers and the clock. A run
  first drops what an earlier run of the engine left, so a run state starts from nothing. Stream
  events and callbacks are not modelled, and the text of the error for a step whose tasks all
  failed is shortened.
\<close>

record ('w, 's) engine_env =
  env_graph :: "'w state_graph"
  env_checkpointer :: "'s checkpointer_ops option"
  env_interrupts :: "bool gomap"
  env_interruptsAfter :: "bool gomap"
  env_recursionLimit :: int
  env_config :: runnable_config
  env_fmt :: "gval \<Rightarrow> string"
  env_ord :: "string list \<Rightarrow> string list"
  env_fill :: "schema_field list \<Rightarrow> gval gomap \<Rightarrow> gval"
  env_done :: "'w \<Rightarrow> gerror option"
  env_cancel :: "'w \<Rightarrow> gerror option"
  env_enc :: "gval \<Rightarrow> string option"
  env_dec :: "string \<Rightarrow> gval option"
  env_uuid :: "nat \<Rightarrow> string"
  env_now :: int

record ('w, 's) run_state =
  rs_registry :: registry
  rs_engine :: engine_state
  rs_completed :: "bool gomap"
  rs_lastNode :: string
  rs_lastState :: gval
  rs_saver :: 's
  rs_deferred :: "deferred_checkpoint list"
  rs_world :: 'w
  rs_step :: nat

text \<open>How a step ends: the run is complete, goes on, stops with an error, or the process panics.\<close>

datatype step_end = Complete | GoOn | Stop gerror | Crash

section \<open>Starting a run\<close>

definition cp_config :: "runnable_config \<Rightarrow> string \<Rightarrow> gval gomap \<times> string" where
  "cp_config cfg threadID =
     (let base = [(''thread_id'', VStr threadID)]
      in case Config_Get cfg ''checkpoint_id'' of
           Some (VStr i) \<Rightarrow> (if i \<noteq> [] then (base @ [(''checkpoint_id'', VStr i)], i) else (base, []))
         | _ \<Rightarrow> (base, []))"

definition text_of :: "gval option \<Rightarrow> string option" where
  "text_of v = (case v of Some (VStr s) \<Rightarrow> Some s | Some (VBytes b) \<Rightarrow> Some b | _ \<Rightarrow> None)"

text \<open>\<open>json.Unmarshal\<close> into a \<open>map[string]any\<close>: an object, or null which leaves a nil map.\<close>

definition decode_state :: "(string \<Rightarrow> gval option) \<Rightarrow> gval gomap \<Rightarrow> gval" where
  "decode_state dec cp =
     (case text_of (mget cp ''__last_state__'') of
        None \<Rightarrow> VNil
      | Some s \<Rightarrow> (case dec s of Some (VMap m) \<Rightarrow> VMap m | Some VNil \<Rightarrow> VMap [] | _ \<Rightarrow> VNil))"

definition sub_state :: "gval gomap \<Rightarrow> string option" where
  "sub_state cp = text_of (mget cp ''__sub_state__'')"

definition restored_completed :: "gval gomap \<Rightarrow> bool gomap" where
  "restored_completed cp =
     (case mget cp ''__completed_tasks__'' of
        Some (VStr s) \<Rightarrow> (case deserializeStringSet s of None \<Rightarrow> [] | Some m \<Rightarrow> m)
      | _ \<Rightarrow> [])"

definition restored_last :: "gval gomap \<Rightarrow> string" where
  "restored_last cp = (case mget cp ''__last_completed_node__'' of Some (VStr s) \<Rightarrow> s | _ \<Rightarrow> [])"

definition copied_channels :: "'w state_graph \<Rightarrow> registry" where
  "copied_channels g =
     foldl (\<lambda>r (name, ch). Registry_Register r name (chan_Copy ch)) NewRegistry (g_channels g)"

definition start_state ::
    "registry \<Rightarrow> checkpoint \<Rightarrow> bool gomap \<Rightarrow> string \<Rightarrow> gval \<Rightarrow> 's \<Rightarrow> 'w \<Rightarrow> ('w, 's) run_state" where
  "start_state r cp completed lastNode lastState s w =
     \<lparr>rs_registry = r,
      rs_engine = \<lparr>channelVersions = [], versionsSeen = [], currentCheckpoint = Some cp\<rparr>,
      rs_completed = completed, rs_lastNode = lastNode, rs_lastState = lastState, rs_saver = s,
      rs_deferred = [], rs_world = w, rs_step = 0\<rparr>"

text \<open>The run from a checkpoint: the input has been applied once, before the channels are restored.\<close>

definition start_loaded ::
    "('w, 's) engine_env \<Rightarrow> registry \<Rightarrow> gval gomap \<Rightarrow> 's \<Rightarrow> 'w \<Rightarrow> gerror + ('w, 's) run_state" where
  "start_loaded env r cp s w =
     (let filtered = filter (\<lambda>(k, v). mhas r k) cp
      in case (if filtered \<noteq> [] then Registry_RestoreFromCheckpoint r filtered else (Inr (), r)) of
           (Inl e, r1) \<Rightarrow> Inl (Wrap ''failed to restore from checkpoint'' e)
         | (Inr _, r1) \<Rightarrow>
             Inr (start_state r1 (Checkpoint_FromMap cp) (restored_completed cp) (restored_last cp)
                    (decode_state (env_dec env) cp) s w))"

text \<open>The run without a checkpoint: the input is applied a second time.\<close>

definition start_fresh ::
    "('w, 's) engine_env \<Rightarrow> string \<Rightarrow> registry \<Rightarrow> gval \<Rightarrow> 's \<Rightarrow> 'w \<Rightarrow> gerror + ('w, 's) run_state" where
  "start_fresh env threadID r input s w =
     (case applyInput r input of
        (Inl e, r1, input1) \<Rightarrow> Inl (Wrap ''failed to apply input'' e)
      | (Inr _, r1, input1) \<Rightarrow>
          Inr (start_state r1 (NewCheckpoint (env_uuid env 1) zero_time threadID 0) [] [] input1 s w))"

definition run_start ::
    "('w, 's) engine_env \<Rightarrow> string \<Rightarrow> gval \<Rightarrow> 's \<Rightarrow> 'w \<Rightarrow> gerror + ('w, 's) run_state" where
  "run_start env threadID input s w =
     (case applyInput (copied_channels (env_graph env)) input of
        (Inl e, r, input1) \<Rightarrow> Inl (Wrap ''failed to apply input'' e)
      | (Inr _, r, input1) \<Rightarrow>
          (case env_checkpointer env of
             None \<Rightarrow> start_fresh env threadID r input1 s w
           | Some ck \<Rightarrow>
               (let (config, requested) = cp_config (env_config env) threadID;
                    got = ck_Get ck s config
                in if requested \<noteq> [] \<and> (case got of Inr (Some _) \<Rightarrow> False | _ \<Rightarrow> True)
                   then Inl (case got of
                       Inl e \<Rightarrow> Wrap (''requested checkpoint_id '' @ requested) e
                     | Inr _ \<Rightarrow> Fail (''requested checkpoint_id '' @ requested @ '': checkpoint not found''))
                   else case got of
                     Inr (Some cp) \<Rightarrow> start_loaded env r cp s w
                   | _ \<Rightarrow> start_fresh env threadID r input1 s w)))"

section \<open>One step\<close>

text \<open>Marking the results: completed tasks, the last of them, and the merged state.\<close>

fun mark_results ::
    "task_result list \<Rightarrow> bool gomap \<times> string \<times> gval \<Rightarrow> bool gomap \<times> string \<times> gval" where
  "mark_results [] s = s"
| "mark_results (r # rs) (completed, lastNode, state) =
     (if res_Err r = None
      then mark_results rs (mput (res_Name r) True completed, res_Name r, mergeStates state (res_Output r))
      else mark_results rs (completed, lastNode, state))"

definition is_interrupted :: "task_result \<Rightarrow> bool" where
  "is_interrupted r = (case res_Err r of Some e \<Rightarrow> IsGraphInterrupt e | None \<Rightarrow> False)"

text \<open>The interrupts of the first result whose interrupt carries any.\<close>

fun first_interrupts :: "task_result list \<Rightarrow> interrupt list" where
  "first_interrupts [] = []"
| "first_interrupts (r # rs) =
     (case res_Err r of
        Some (GraphInterrupt (i # is)) \<Rightarrow> i # is
      | _ \<Rightarrow> first_interrupts rs)"

definition interrupt_payload ::
    "('w, 's) engine_env \<Rightarrow> ('w, 's) run_state \<Rightarrow> task_result list \<Rightarrow> gval gomap" where
  "interrupt_payload env rs results =
     (let p0 = mmerge [] (Registry_CreateCheckpoint (rs_registry rs));
          p1 = mput ''__completed_tasks__'' (VStr (serializeStringSet (rs_completed rs))) p0;
          p2 = mput ''__last_completed_node__'' (VStr (rs_lastNode rs)) p1;
          p3 = mput ''__step__'' (VFloat (f64_of_int (int (rs_step rs)))) p2;
          p4 = (if rs_lastState rs = VNil then p3
                else case env_enc env (rs_lastState rs) of
                  None \<Rightarrow> p3 | Some t \<Rightarrow> mput ''__last_state__'' (VStr t) p3)
      in case first_interrupts results of
           i # is \<Rightarrow>
             (if intr_value i = VNil then p4
              else case env_enc env (intr_value i) of
                None \<Rightarrow> p4 | Some t \<Rightarrow> mput ''__sub_state__'' (VBytes t) p4)
         | [] \<Rightarrow> p4)"

text \<open>A save under the thread only, as at an interrupt; the saver makes the identifier up.\<close>

definition put_thread ::
    "('w, 's) engine_env \<Rightarrow> string \<Rightarrow> nat \<Rightarrow> 's \<Rightarrow> gval gomap \<Rightarrow> unit res \<times> 's" where
  "put_thread env threadID n s cp =
     (case env_checkpointer env of
        None \<Rightarrow> (Inr (), s)
      | Some ck \<Rightarrow> ck_Put ck (env_uuid env (n + 2)) (env_now env) s [(''thread_id'', VStr threadID)] cp)"

definition interrupt_before ::
    "('w, 's) engine_env \<Rightarrow> string \<Rightarrow> ('w, 's) run_state \<Rightarrow> step_end \<times> ('w, 's) run_state" where
  "interrupt_before env threadID rs =
     (case put_thread env threadID (rs_step rs) (rs_saver rs) (Registry_CreateCheckpoint (rs_registry rs)) of
        (Inl e, s) \<Rightarrow> (Stop (Wrap ''failed to save checkpoint'' e), rs\<lparr>rs_saver := s\<rparr>)
      | (Inr _, s) \<Rightarrow> (Stop (GraphInterrupt []), rs\<lparr>rs_saver := s\<rparr>))"

definition interrupt_in_node ::
    "('w, 's) engine_env \<Rightarrow> string \<Rightarrow> ('w, 's) run_state \<Rightarrow> task_result list \<Rightarrow>
     step_end \<times> ('w, 's) run_state" where
  "interrupt_in_node env threadID rs results =
     (case put_thread env threadID (rs_step rs) (rs_saver rs) (interrupt_payload env rs results) of
        (Inl e, s) \<Rightarrow> (Stop (Wrap ''failed to save checkpoint on interrupt'' e), rs\<lparr>rs_saver := s\<rparr>)
      | (Inr _, s) \<Rightarrow> (Stop (GraphInterrupt (first_interrupts results)), rs\<lparr>rs_saver := s\<rparr>))"

definition persist ::
    "('w, 's) engine_env \<Rightarrow> string \<Rightarrow> ('w, 's) run_state \<Rightarrow> unit res \<times> ('w, 's) run_state" where
  "persist env threadID rs =
     (case env_checkpointer env of
        None \<Rightarrow> (Inr (), rs)
      | Some ck \<Rightarrow>
          (let cp = Registry_CreateCheckpoint (rs_registry rs);
               cpID = env_uuid env (rs_step rs + 2);
               d = Durability (env_config env);
               save = saveCheckpoint (Some ck) (env_now env) (rs_saver rs) threadID cpID (int (rs_step rs)) cp
           in if d = ''exit''
              then (Inr (), rs\<lparr>rs_deferred := deferCheckpoint (rs_deferred rs) threadID cpID (int (rs_step rs)) cp\<rparr>)
              else (case save of
                      (Inl e, s) \<Rightarrow>
                        (if d = ''async'' then Inr () else Inl (Wrap ''failed to save checkpoint'' e),
                         rs\<lparr>rs_saver := s\<rparr>)
                    | (Inr _, s) \<Rightarrow> (Inr (), rs\<lparr>rs_saver := s\<rparr>))))"

text \<open>A step from the results of its tasks on.\<close>

definition finish_step ::
    "('w, 's) engine_env \<Rightarrow> string \<Rightarrow> ('w, 's) run_state \<Rightarrow> task_result list \<Rightarrow> string list \<Rightarrow>
     step_end \<times> ('w, 's) run_state" where
  "finish_step env threadID rs results triggers =
     (let (completed, lastNode, state) =
        mark_results results (rs_completed rs, rs_lastNode rs, rs_lastState rs);
          rs1 = rs\<lparr>rs_completed := completed, rs_lastNode := lastNode, rs_lastState := state\<rparr>
      in if list_ex is_interrupted results then interrupt_in_node env threadID rs1 results
         else if results \<noteq> [] \<and> list_all (\<lambda>r. res_Err r \<noteq> None) results
         then (Stop (Fail ''all tasks failed''), rs1)
         else case applyWrites (env_graph env) (rs_registry rs1) (rs_engine rs1) results triggers of
           None \<Rightarrow> (Crash, rs1)
         | Some (Inl e, r, eng) \<Rightarrow>
             (Stop (Wrap ''failed to apply writes'' e), rs1\<lparr>rs_registry := r, rs_engine := eng\<rparr>)
         | Some (Inr upd, r, eng) \<Rightarrow>
             (let rs2 = rs1\<lparr>rs_registry := snd (Registry_GetValues r), rs_engine := eng\<rparr>
              in case persist env threadID rs2 of
                   (Inl e, rs3) \<Rightarrow> (Stop e, rs3)
                 | (Inr _, rs3) \<Rightarrow>
                     (if shouldInterruptAfter (env_interruptsAfter env) results
                      then (Stop (GraphInterrupt []), rs3) else (GoOn, rs3))))"

definition run_step ::
    "('w, 's) engine_env \<Rightarrow> string \<Rightarrow> ('w, 's) run_state \<Rightarrow> step_end \<times> ('w, 's) run_state" where
  "run_step env threadID rs =
     (case env_done env (rs_world rs) of
        Some e \<Rightarrow> (Stop e, rs)
      | None \<Rightarrow>
          (if env_recursionLimit env \<le> int (rs_step rs)
           then (Stop (GraphRecursionError (env_recursionLimit env)), rs)
           else case prepareNextTasks (env_fmt env) (env_ord env) (env_graph env) (rs_registry rs)
                       (rs_completed rs) (rs_lastNode rs) (rs_lastState rs) of
             Inl e \<Rightarrow> (Stop (Wrap ''failed to prepare next tasks'' e), rs)
           | Inr (tasks, triggers) \<Rightarrow>
               (if tasks = [] then (Complete, rs)
                else if shouldInterrupt (env_interrupts env) tasks \<noteq> []
                then interrupt_before env threadID rs
                else case executeTasksAsync (env_fill env) (env_cancel env) (env_graph env) tasks
                            (rs_registry rs) (rs_world rs) of
                  (results, r1, w1) \<Rightarrow>
                    finish_step env threadID (rs\<lparr>rs_registry := r1, rs_world := w1\<rparr>) results triggers)))"

section \<open>The loop\<close>

lemma run_step_GoOn: "run_step env t rs = (GoOn, rs') \<Longrightarrow> int (rs_step rs) < env_recursionLimit env"
  by (auto simp: run_step_def split: option.splits if_splits)

function run_loop ::
    "('w, 's) engine_env \<Rightarrow> string \<Rightarrow> ('w, 's) run_state \<Rightarrow> step_end \<times> ('w, 's) run_state" where
  "run_loop env threadID rs =
     (case run_step env threadID rs of
        (GoOn, rs') \<Rightarrow> run_loop env threadID (rs'\<lparr>rs_step := Suc (rs_step rs)\<rparr>)
      | (Complete, rs') \<Rightarrow> (Complete, rs')
      | (Stop e, rs') \<Rightarrow> (Stop e, rs')
      | (Crash, rs') \<Rightarrow> (Crash, rs'))"
  by pat_completeness auto
termination
  by (relation "measure (\<lambda>(env, t, rs). nat (env_recursionLimit env - int (rs_step rs)))")
    (auto dest: run_step_GoOn [OF sym])

declare run_loop.simps [simp del]

text \<open>The result of a run; \<open>None\<close> is a panic that ends the process.\<close>

definition finish_run ::
    "('w, 's) engine_env \<Rightarrow> ('w, 's) run_state \<Rightarrow> gval res \<times> ('w, 's) run_state" where
  "finish_run env rs =
     (case buildOutput (rs_registry rs) (rs_lastState rs) of
        (final, r) \<Rightarrow>
          (if Durability (env_config env) = ''exit'' then
             (case saveDeferredCheckpoints (env_checkpointer env) (env_now env) (rs_saver rs) (rs_deferred rs) of
                (Inl e, s) \<Rightarrow>
                  (Inl (Wrap ''failed to save deferred checkpoints'' e), rs\<lparr>rs_registry := r, rs_saver := s\<rparr>)
              | (Inr _, s) \<Rightarrow> (Inr final, rs\<lparr>rs_registry := r, rs_saver := s\<rparr>))
           else (Inr final, rs\<lparr>rs_registry := r\<rparr>)))"

definition RunSync ::
    "('w, 's) engine_env \<Rightarrow> gval \<Rightarrow> 's \<Rightarrow> 'w \<Rightarrow> gval res option \<times> 's \<times> 'w" where
  "RunSync env input s w =
     (let threadID = getThreadID (env_uuid env 0) (Some (env_config env))
      in case run_start env threadID input s w of
           Inl e \<Rightarrow> (Some (Inl e), s, w)
         | Inr rs \<Rightarrow>
             (case run_loop env threadID rs of
                (Complete, rs1) \<Rightarrow>
                  (case finish_run env rs1 of (res, rs2) \<Rightarrow> (Some res, rs_saver rs2, rs_world rs2))
              | (Stop e, rs1) \<Rightarrow> (Some (Inl e), rs_saver rs1, rs_world rs1)
              | (Crash, rs1) \<Rightarrow> (None, rs_saver rs1, rs_world rs1)
              | (GoOn, rs1) \<Rightarrow> (None, rs_saver rs1, rs_world rs1)))"

end
