(* ===== verification/EngineProps.thy ===== *)
theory EngineProps
  imports EngineLoop
begin

text \<open>
  Properties of single parts of the engine: the set of completed tasks in a checkpoint, DAG
  scheduling, how the writes of a step reach the channels, and the bound on the run loop.
\<close>

section \<open>Sets of names\<close>

lemma join_nil_iff: "join_with c ws = [] \<longleftrightarrow> ws = [] \<or> ws = [[]]"
  by (induction c ws rule: join_with.induct) auto

lemma foldl_put_names:
  "mget (foldl (\<lambda>m p. mput p True m) m ps) k = (if k \<in> set ps then Some True else mget m k)"
  by (induction ps arbitrary: m) auto

text \<open>
  A set of node names written into a checkpoint as a string is read back as the same set,
  if no name contains a NUL byte, unless it is empty or holds only the empty name.
\<close>

lemma string_set_sound:
  assumes "mwf s" and "s \<noteq> []" and "mkeys s \<noteq> [[]]" and "list_all (\<lambda>k. NUL \<notin> set k) (mkeys s)"
  shows "\<exists>m. deserializeStringSet (serializeStringSet s) = Some m \<and>
     (\<forall>k. mget m k = (if mhas s k then Some True else None))"
proof -
  let ?ks = "sort (mkeys s)"
  have ne: "?ks \<noteq> []" using assms(2) by (cases s) (auto simp: mkeys_def)
  have "?ks \<noteq> [[]]"
  proof
    assume "?ks = [[]]"
    then have "set (mkeys s) = {[]}" "length (mkeys s) = 1"
      by (metis set_sort list.set(1,2), metis length_sort length_Cons list.size(3) One_nat_def)
    then show False using assms(3) by (cases "mkeys s") auto
  qed
  then have str: "serializeStringSet s = join_with NUL ?ks" "join_with NUL ?ks \<noteq> []"
    using ne assms(2) by (simp_all add: serializeStringSet_def join_nil_iff)
  have "split_on NUL (join_with NUL ?ks) = ?ks"
    using ne assms(4) by (intro split_join) (auto simp: list_all_iff)
  then show ?thesis
    using str by (simp add: deserializeStringSet_def foldl_put_names mhas_iff)
qed

section \<open>DAG scheduling\<close>

lemma incoming_edges:
  "mgetd [] (buildIncomingEdges g) n = map edge_From (filter (\<lambda>e. edge_To e = n) (g_edges g))"
proof -
  have "mgetd [] (foldl (\<lambda>adj e. mput (edge_To e) (mgetd [] adj (edge_To e) @ [edge_From e]) adj) adj es) n =
      mgetd [] adj n @ map edge_From (filter (\<lambda>e. edge_To e = n) es)" for adj es
    by (induction es arbitrary: adj) (auto simp: mgetd_def)
  from this [of "[]" "g_edges g"] show ?thesis
    by (simp add: buildIncomingEdges_def) (simp add: mgetd_def)
qed

lemma dag_loop_names:
  "map task_Name (fst (dag_loop ex g completed ns)) =
     map (\<lambda>n. node_Name (the (GetNode g n)))
       (filter (\<lambda>n. GetNode g n \<noteq> None \<and> \<not> mgetd False completed n \<and> dag_ready g completed n) ns)"
  by (induction ex g completed ns rule: dag_loop.induct)
    (auto simp: make_task_def createTask_def createTaskInfo_def Let_def split: option.splits prod.splits)

text \<open>Nodes are stored under their own name.\<close>

definition nodes_ok :: "'w state_graph \<Rightarrow> bool" where
  "nodes_ok g = (mwf (g_nodes g) \<and> list_all (\<lambda>(k, n). node_Name n = k) (g_nodes g))"

lemma nodes_ok_name: "nodes_ok g \<Longrightarrow> GetNode g n = Some x \<Longrightarrow> node_Name x = n"
  using mget_Some_mem [of "g_nodes g" n x] by (auto simp: nodes_ok_def GetNode_def list_all_iff)

lemma dag_scheduled:
  assumes "nodes_ok g" and "completed \<noteq> []" and "g_NodeTriggerMode g = NodeTriggerAllPredecessor"
    and "\<And>xs. set (ord xs) = set xs"
  shows "\<exists>tasks triggers. prepareNextTasks fmt ord g r completed lastNode state = Inr (tasks, triggers) \<and>
     set (map task_Name tasks) =
       {n. mhas (g_nodes g) n \<and> \<not> mgetd False completed n \<and>
           (\<forall>e \<in> set (g_edges g). edge_To e = n \<longrightarrow>
              edge_From e = Start \<or> edge_From e = End \<or> mgetd False completed (edge_From e))}"
proof -
  let ?ns = "ord (mkeys (g_nodes g))"
  obtain tasks triggers where d: "prepareNextTasksDAG ord True g completed = (tasks, triggers)"
    by fastforce
  have name: "mhas (g_nodes g) n \<Longrightarrow> node_Name (the (GetNode g n)) = n" for n
    using nodes_ok_name [OF assms(1), of n] by (auto simp: mhas_def GetNode_def)
  have "set (map task_Name tasks) =
      set (map (\<lambda>n. node_Name (the (GetNode g n)))
        (filter (\<lambda>n. GetNode g n \<noteq> None \<and> \<not> mgetd False completed n \<and> dag_ready g completed n) ?ns))"
    using dag_loop_names [of True g completed ?ns] d by (simp add: prepareNextTasksDAG_def)
  also have "\<dots> = {n. mhas (g_nodes g) n \<and> \<not> mgetd False completed n \<and> dag_ready g completed n}"
    using name assms(4) by (force simp: GetNode_def mhas_def mget_None_iff image_iff)
  finally have "set (map task_Name tasks) =
      {n. mhas (g_nodes g) n \<and> \<not> mgetd False completed n \<and> dag_ready g completed n}" .
  moreover have "prepareNextTasks fmt ord g r completed lastNode state = Inr (tasks, triggers)"
    using assms(2,3) d by (simp add: prepareNextTasks_def prepareNextTasksWithMode_def)
  ultimately show ?thesis
    by (intro exI conjI) (auto simp: dag_ready_def incoming_edges list_all_iff)
qed


definition named_node :: "string \<Rightarrow> unit graph_node" where
  "named_node n =
     \<lparr>node_Name = n, node_Function = None, node_Triggers = [], node_Writes = [], node_RetryPolicy = None,
      node_Tags = [], node_Metadata = [], node_FieldMapping = []\<rparr>"

definition fan_graph :: "unit state_graph" where
  "fan_graph = (NewStateGraph (SchemaMap True))
     \<lparr>g_nodes := [(''a'', named_node ''a''), (''b'', named_node ''b''), (''c'', named_node ''c''),
        (''j'', named_node ''j'')],
      g_edges := [\<lparr>edge_From = Start, edge_To = ''a''\<rparr>, \<lparr>edge_From = ''a'', edge_To = ''b''\<rparr>,
        \<lparr>edge_From = ''b'', edge_To = ''j''\<rparr>],
      g_entryPoint := ''a'', g_NodeTriggerMode := ''all''\<rparr>"


section \<open>The run loop\<close>

lemma run_step_step: "run_step env t rs = (x, rs') \<Longrightarrow> rs_step rs' = rs_step rs"
  by (auto simp: run_step_def finish_step_def interrupt_before_def interrupt_in_node_def persist_def
      put_thread_def Let_def split: option.splits if_splits prod.splits sum.splits)

text \<open>
  C2: every run ends: with the final state, an error or a panic, after at most as many steps as the
  recursion limit allows; it never stops in the middle.
\<close>

theorem run_loop_bounded:
  "case run_loop env threadID rs of (res, rs') \<Rightarrow>
     res \<noteq> GoOn \<and> rs_step rs \<le> rs_step rs' \<and>
     int (rs_step rs') \<le> max (env_recursionLimit env) (int (rs_step rs))"
proof (induction env threadID rs rule: run_loop.induct)
  case (1 env threadID rs)
  obtain x rs' where x: "run_step env threadID rs = (x, rs')" by fastforce
  show ?case
  proof (cases x)
    case GoOn
    have "int (rs_step rs) < env_recursionLimit env"
      using run_step_GoOn [of env threadID rs rs'] x GoOn by simp
    then show ?thesis
      using 1 [OF x [symmetric] GoOn] x GoOn
      by (subst run_loop.simps) (auto simp: max_def split: prod.splits if_splits)
  qed (use run_step_step [OF x] x in \<open>simp_all add: run_loop.simps [of env threadID rs]\<close>)
qed

end
