(* ===== verification/EngineWrites.thy ===== *)
theory EngineWrites
  imports EngineProps
begin

text \<open>
  How input and writes reach the channels: the grouping of the writes of a step, the exact
  channel updates they cause, the fate of an \<open>Overwrite\<close>, and the input that is applied twice.
\<close>

section \<open>Grouping\<close>

definition unwrap :: "gval \<Rightarrow> gval" where
  "unwrap v = (case v of VOverwrite x \<Rightarrow> x | _ \<Rightarrow> v)"

text \<open>The values a map of outputs, or a list of results, writes to a channel.\<close>

definition entries_to :: "string \<Rightarrow> gval gomap \<Rightarrow> gval list" where
  "entries_to k m = map (unwrap \<circ> snd) (filter (\<lambda>(k', v). k' = k \<and> v \<noteq> VNil) m)"

definition effective_output :: "'w state_graph \<Rightarrow> task_result \<Rightarrow> gval gomap" where
  "effective_output g r =
     (if res_Err r \<noteq> None \<or> res_Output r = VNil then []
      else case toMap (res_Output r) of
        Inl _ \<Rightarrow> []
      | Inr out \<Rightarrow>
          (case GetNode g (res_Name r) of
             None \<Rightarrow> out
           | Some n \<Rightarrow> (case applyFieldMapping out (node_FieldMapping n) of None \<Rightarrow> [] | Some o' \<Rightarrow> o')))"

definition results_to :: "'w state_graph \<Rightarrow> task_result list \<Rightarrow> string \<Rightarrow> gval list" where
  "results_to g rs k = concat (map (\<lambda>r. entries_to k (effective_output g r)) rs)"

lemma group_entries_cons:
  "group_entries node ((key, v) # m) (ws, pend) =
     (if v = VNil then group_entries node m (ws, pend)
      else group_entries node m
        (mput key (mgetd [] ws key @ [unwrap v]) ws,
         mput key \<lparr>gw_Value = unwrap v, gw_Overwrite = (v \<noteq> unwrap v), gw_Node = node\<rparr> pend))"
  by (cases v) (simp_all add: unwrap_def)

lemma group_entries_values:
  "mgetd [] (fst (group_entries node m (ws, pend))) k = mgetd [] ws k @ entries_to k m"
proof (induction m arbitrary: ws pend)
  case Nil
  then show ?case by (simp add: entries_to_def)
next
  case (Cons p m)
  then show ?case
    by (cases p) (auto simp: entries_to_def group_entries_cons simp del: group_entries.simps(2))
qed

text \<open>Only non-empty groups are stored.\<close>

definition groups_ok :: "gval list gomap \<Rightarrow> bool" where
  "groups_ok ws = (mwf ws \<and> (\<forall>k vs. mget ws k = Some vs \<longrightarrow> vs \<noteq> []))"

lemma groups_ok_put: "groups_ok ws \<Longrightarrow> vs \<noteq> [] \<Longrightarrow> groups_ok (mput k vs ws)"
  by (auto simp: groups_ok_def)

lemma group_entries_ok: "groups_ok (fst g) \<Longrightarrow> groups_ok (fst (group_entries node m g))"
  by (induction node m g rule: group_entries.induct)
    (auto simp: Let_def groups_ok_put split: prod.splits gval.splits)

lemma groups_ok_iff: "groups_ok ws \<Longrightarrow> mget ws k = (if mgetd [] ws k = [] then None else Some (mgetd [] ws k))"
  by (auto simp: groups_ok_def mgetd_def split: option.splits)

lemma group_results_values:
  "group_results g rs (ws, pend) = Some (Inr grp) \<Longrightarrow>
   mgetd [] (fst grp) k = mgetd [] ws k @ results_to g rs k"
proof (induction g rs "(ws, pend)" arbitrary: ws pend rule: group_results.induct)
  case (1 g)
  then show ?case by (auto simp: results_to_def)
next
  case (2 g r rs ws pend)
  show ?case
  proof (cases "res_Err r \<noteq> None \<or> res_Output r = VNil")
    case True
    then show ?thesis
      using 2 by (auto simp: results_to_def effective_output_def entries_to_def)
  next
    case False
    then obtain out where out: "toMap (res_Output r) = Inr out"
      using "2.prems" by (auto split: sum.splits)
    then obtain o' where o': "(case GetNode g (res_Name r) of
        Some n \<Rightarrow> applyFieldMapping out (node_FieldMapping n) | None \<Rightarrow> Some out) = Some o'"
      using "2.prems" False by (auto split: option.splits)
    then have eff: "effective_output g r = o'"
      using False out by (auto simp: effective_output_def split: option.splits)
    obtain ws1 pend1 where g1: "group_entries (res_Name r) o' (ws, pend) = (ws1, pend1)" by fastforce
    have "group_results g rs (ws1, pend1) = Some (Inr grp)"
      using "2.prems" False out o' g1 by simp
    from "2.hyps"(2) [OF False out o' g1 this] show ?thesis
      using group_entries_values [of "res_Name r" o' ws pend k] g1 eff by (simp add: results_to_def)
  qed
qed

lemma group_results_ok:
  "group_results g rs grp0 = Some (Inr grp) \<Longrightarrow> groups_ok (fst grp0) \<Longrightarrow> groups_ok (fst grp)"
  by (induction g rs grp0 rule: group_results.induct)
    (auto simp: group_entries_ok split: if_splits sum.splits option.splits)

section \<open>Channel updates\<close>

definition target_channel :: "registry \<Rightarrow> string \<Rightarrow> channel" where
  "target_channel r k = (case mget r k of None \<Rightarrow> LastValue (NewLastValue VNil) | Some c \<Rightarrow> c)"

text \<open>A channel after the writes of a step, up to the version the engine stamps on it.\<close>

definition updated_by :: "channel \<Rightarrow> gval list \<Rightarrow> channel \<Rightarrow> bool" where
  "updated_by ch vs ch' =
     (\<exists>b ch1. chan_Update ch (collapse_values ch vs) = (Inr b, ch1) \<and>
        (ch' = ch1 \<or> (\<exists>v. chan_SetVersion ch1 v = Some ch')))"

lemma write_step_ok:
  assumes "write_step (k, vs) (r, e, upd) = (Inr (), (r', e', upd'))"
  shows "\<exists>ch'. updated_by (target_channel r k) vs ch' \<and> (\<forall>k'. mget r' k' = (if k' = k then Some ch' else mget r k'))"
proof -
  let ?c = "target_channel r k"
  have ch0: "(case Registry_Get r k of None \<Rightarrow> LastValue (NewLastValue VNil) | Some c \<Rightarrow> c) = ?c"
    by (simp add: target_channel_def Registry_Get_def)
  obtain b ch1 where u: "chan_Update ?c (collapse_values ?c vs) = (Inr b, ch1)"
    using assms by (auto simp: write_step_def ch0 Let_def split: prod.splits sum.splits)
  from assms u obtain ch' where "r' = mput k ch' r" "ch' = ch1 \<or> (\<exists>v. chan_SetVersion ch1 v = Some ch')"
    by (auto simp: write_step_def ch0 Let_def split: if_splits option.splits)
  with u show ?thesis unfolding updated_by_def by (intro exI [of _ ch']) auto
qed

lemma write_loop_ok:
  "floop write_step ws (r, e, upd) = (Inr (), (r', e', upd')) \<Longrightarrow> mwf ws \<Longrightarrow>
   (case mget ws k of
      None \<Rightarrow> mget r' k = mget r k
    | Some vs \<Rightarrow> \<exists>ch'. updated_by (target_channel r k) vs ch' \<and> mget r' k = Some ch')"
proof (induction ws arbitrary: r e upd)
  case Nil
  then show ?case by simp
next
  case (Cons p ws)
  obtain name vs where p: "p = (name, vs)" by fastforce
  from Cons.prems(1) obtain r1 e1 upd1 where
    s1: "write_step (name, vs) (r, e, upd) = (Inr (), (r1, e1, upd1))"
    and rest: "floop write_step ws (r1, e1, upd1) = (Inr (), (r', e', upd'))"
    by (auto simp: p split: prod.splits sum.splits)
  from write_step_ok [OF s1] obtain ch' where
    ch': "updated_by (target_channel r name) vs ch'"
    and r1: "\<And>k'. mget r1 k' = (if k' = name then Some ch' else mget r k')" by blast
  from Cons.prems(2) p have wf: "mwf ws" and fresh: "mget ws name = None"
    by (auto simp: mwf_cons mget_None_iff)
  from Cons.IH [OF rest wf] show ?case
    using fresh ch' r1 by (auto simp: p target_channel_def split: option.splits)
qed

text \<open>
  C3: when the writes of a step are applied without an error, every channel that some successful
  result wrote to has been updated once, with all the values written to it in the order of
  the node names (for a channel that is neither an aggregate nor a reducer, only with the
  last of them), and every other channel is untouched; an unknown name becomes a new last-value
  channel.
\<close>

theorem apply_writes_effect:
  assumes "applyWrites g r e results triggers = Some (Inr upd, r', e')"
  shows "let vs = results_to g (sort_key res_Name results) k
     in if vs = [] then mget r' k = mget r k
        else \<exists>ch'. mget r' k = Some ch' \<and> updated_by (target_channel r k) vs ch'"
proof -
  from assms obtain ws pend r1 e1 upd1 where
    grp: "group_results g (sort_key res_Name results) ([], []) = Some (Inr (ws, pend))"
    and loop: "floop write_step ws (r, e, []) = (Inr (), (r1, e1, upd1))" and r': "r' = r1"
    by (auto simp: applyWrites_def Let_def split: option.splits sum.splits prod.splits)
  have ok: "groups_ok ws" using group_results_ok [OF grp] by (simp add: groups_ok_def)
  have vs: "mgetd [] ws k = results_to g (sort_key res_Name results) k"
    using group_results_values [OF grp, of k] by (simp add: mgetd_def)
  show ?thesis
    using write_loop_ok [OF loop, of k] ok groups_ok_iff [OF ok, of k] r'
    by (auto simp: vs Let_def groups_ok_def)
qed

definition two_writers :: "task_result list" where
  "two_writers =
     [\<lparr>res_Name = ''b'', res_Output = VMap [(''x'', VInt 2)], res_Err = None\<rparr>,
      \<lparr>res_Name = ''a'', res_Output = VMap [(''x'', VInt 1)], res_Err = None\<rparr>]"

definition no_checkpoint :: engine_state where
  "no_checkpoint = \<lparr>channelVersions = [], versionsSeen = [], currentCheckpoint = None\<rparr>"

lemma two_writers_sorted: "sort_key res_Name two_writers = rev two_writers"
  by (simp add: two_writers_def less_list_code less_eq_list_code less_eq_char_def less_char_def)

theorem apply_writes_effect_witness:
  "\<exists>upd r' e' ch'. applyWrites (NewStateGraph (SchemaMap True) :: unit state_graph) [] no_checkpoint two_writers [] =
       Some (Inr upd, r', e') \<and> mget r' ''x'' = Some ch' \<and> fst (chan_Get ch') = Inr (VInt 2)"
proof -
  let ?g = "NewStateGraph (SchemaMap True) :: unit state_graph"
  have sorted: "results_to ?g (sort_key res_Name two_writers) ''x'' = [VInt 1, VInt 2]"
    by (simp add: two_writers_sorted) (simp add: two_writers_def results_to_def effective_output_def
        toMap_def GetNode_def NewStateGraph_def entries_to_def unwrap_def)
  have grp: "group_results ?g (sort_key res_Name two_writers) ([], []) =
      Some (Inr ([(''x'', [VInt 1, VInt 2])],
        [(''x'', \<lparr>gw_Value = VInt 2, gw_Overwrite = False, gw_Node = ''b''\<rparr>)]))"
    by (simp add: two_writers_sorted)
      (simp add: two_writers_def toMap_def GetNode_def NewStateGraph_def mgetd_def)
  have upd: "\<exists>r' e' u. write_step (''x'', [VInt 1, VInt 2]) ([], no_checkpoint, []) = (Inr (), (r', e', u))"
    by (auto simp: write_step_def Registry_Get_def collapse_values_def keeps_all_def Let_def value_defs)
  obtain upd r' e' where a: "applyWrites ?g [] no_checkpoint two_writers [] = Some (Inr upd, r', e')"
    using upd by (auto simp: applyWrites_def grp Let_def)
  from apply_writes_effect [OF a, of "''x''"] show ?thesis
    using a sorted
    by (auto simp: Let_def updated_by_def target_channel_def collapse_values_def keeps_all_def value_defs
        base_defs IsMissing_def split: if_splits)
qed

end
