(* ===== verification/EngineResume.thy ===== *)
theory EngineResume
  imports EngineWrites MemorySaver
begin

text \<open>
  Starting and resuming a run: what the input does to the channels of a new run, what an
  \<open>Overwrite\<close> does to an aggregate, and what a run finds after an interrupt was saved with
  the in-memory checkpointer.
\<close>

section \<open>Channels of a new run\<close>

lemma copied_get:
  assumes "mwf (g_channels g)"
  shows "mget (copied_channels g) k = map_option chan_Copy (mget (g_channels g) k)"
proof -
  have "mget (foldl (\<lambda>r (name, ch). Registry_Register r name (chan_Copy ch)) r m) k =
      (case mget m k of None \<Rightarrow> mget r k | Some c \<Rightarrow> Some (chan_Copy c))" if "mwf m" for r m
    using that
    by (induction m arbitrary: r)
      (auto simp: Registry_Register_def mwf_cons mget_None_iff [symmetric] split: option.splits if_splits)
  from this [OF assms, of NewRegistry] show ?thesis
    by (simp add: copied_channels_def NewRegistry_def split: option.splits)
qed

lemma copied_has: "mwf (g_channels g) \<Longrightarrow> mhas (copied_channels g) k \<longleftrightarrow> mhas (g_channels g) k"
  by (auto simp: mhas_def copied_get)

lemma BinOp_Copy_value: "cvalue (BinOp_Copy c) = cvalue c" "operator (BinOp_Copy c) = operator c"
  by (simp_all add: BinOp_Copy_def NewBinaryOperatorAggregate_def)

text \<open>The input of one key that names an aggregate.\<close>

lemma applyInput_one:
  assumes "mget r k = Some (BinaryOperatorAggregate c)" and "\<not> IsMissing (cvalue c)"
    and "isOverwrite v = None"
  shows "applyInput r (VMap [(k, v)]) =
     (Inr (), mput k (BinaryOperatorAggregate (c\<lparr>cvalue := operator c (cvalue c) v\<rparr>)) r, VMap [(k, v)])"
proof -
  have has: "mhas r k" using assms(1) by (simp add: mhas_def)
  have upd: "Registry_UpdateChannels r [(k, [v])] =
      (Inr (), mput k (BinaryOperatorAggregate (c\<lparr>cvalue := operator c (cvalue c) v\<rparr>)) r)"
    using assms by (simp add: Registry_UpdateChannels_def update_step_def BinOp_Update_def)
  show ?thesis using has by (simp add: applyInput_def toMap_def upd)
qed

text \<open>
  C35: without a checkpoint the input of a run is applied to the channels twice: an aggregate that
  the input names ends up with the operator applied to the input two times before the first
  node runs.
\<close>

theorem fresh_run_applies_input_twice:
  assumes "mwf (g_channels (env_graph env))" and "env_checkpointer env = None"
    and "mget (g_channels (env_graph env)) k = Some (BinaryOperatorAggregate c)"
    and "\<not> IsMissing (operator c (cvalue c) v)" and "\<not> IsMissing (cvalue c)"
    and "isOverwrite v = None"
  shows "\<exists>rs c'. run_start env t (VMap [(k, v)]) s w = Inr rs \<and>
     mget (rs_registry rs) k = Some (BinaryOperatorAggregate c') \<and>
     cvalue c' = operator c (operator c (cvalue c) v) v"
proof -
  let ?c = "BinOp_Copy c"
  have ch: "mget (copied_channels (env_graph env)) k = Some (BinaryOperatorAggregate ?c)"
    using assms(1,3) by (simp add: copied_get)
  note one = applyInput_one [OF ch _ assms(6), unfolded BinOp_Copy_value, OF assms(5)]
  let ?c1 = "?c\<lparr>cvalue := operator c (cvalue c) v\<rparr>"
  have two: "applyInput (mput k (BinaryOperatorAggregate ?c1) (copied_channels (env_graph env))) (VMap [(k, v)]) =
      (Inr (), mput k (BinaryOperatorAggregate (?c1\<lparr>cvalue := operator c (operator c (cvalue c) v) v\<rparr>))
         (mput k (BinaryOperatorAggregate ?c1) (copied_channels (env_graph env))), VMap [(k, v)])"
    using applyInput_one [of _ k ?c1 v] assms(4,6) by (simp add: BinOp_Copy_value)
  show ?thesis
    by (simp add: run_start_def one assms(2) start_fresh_def two start_state_def)
qed

definition plain_env ::
    "unit state_graph \<Rightarrow> 's checkpointer_ops option \<Rightarrow> bool gomap \<Rightarrow> (unit, 's) engine_env" where
  "plain_env g ck interrupts =
     \<lparr>env_graph = g, env_checkpointer = ck, env_interrupts = interrupts, env_interruptsAfter = [],
      env_recursionLimit = 25, env_config = NewRunnableConfig, env_fmt = (\<lambda>v. []), env_ord = id,
      env_fill = (\<lambda>fs m. VMap m), env_done = (\<lambda>w. None), env_cancel = (\<lambda>w. None),
      env_enc = (\<lambda>v. None), env_dec = (\<lambda>s. None), env_uuid = (\<lambda>n. ''id''), env_now = 0\<rparr>"

definition counter_graph :: "unit state_graph" where
  "counter_graph = (NewStateGraph (SchemaMap True))
     \<lparr>g_nodes := [(''a'', named_node ''a'')], g_entryPoint := ''a'',
      g_channels := [(''n'', BinaryOperatorAggregate (NewBinaryOperatorAggregate (VInt 0) IntAdd))]\<rparr>"

lemma plain_env_simps [simp]:
  "env_graph (plain_env g ck i) = g" "env_checkpointer (plain_env g ck i) = ck"
  "env_config (plain_env g ck i) = NewRunnableConfig"
  "env_enc (plain_env g ck i) = (\<lambda>v. None)"
  by (simp_all add: plain_env_def)

lemma counter_graph_channels:
  "g_channels counter_graph =
     [(''n'', BinaryOperatorAggregate (NewBinaryOperatorAggregate (VInt 0) IntAdd))]"
  by (simp add: counter_graph_def NewStateGraph_def)

theorem fresh_run_applies_input_twice_witness:
  "\<exists>rs c'. run_start (plain_env counter_graph None [] :: (unit, unit) engine_env) ''t'' (VMap [(''n'', VInt 5)]) () () =
       Inr rs \<and>
     mget (rs_registry rs) ''n'' = Some (BinaryOperatorAggregate c') \<and> cvalue c' = VInt 10"
  using fresh_run_applies_input_twice
    [of "plain_env counter_graph None [] :: (unit, unit) engine_env" "''n''"
        "NewBinaryOperatorAggregate (VInt 0) IntAdd" "VInt 5" "''t''" "()" "()"]
  by (simp add: counter_graph_channels mwf_def NewBinaryOperatorAggregate_def IntAdd_def
      IsMissing_def isOverwrite_def)

section \<open>Overwrite\<close>

text \<open>
  a node output that wraps a value in \<open>Overwrite\<close> does not replace the value of an aggregate
  channel: the engine unwraps it before the channel sees it, and the operator combines it with
  the old value like any other write.
\<close>

lemma overwrite_is_reduced:
  assumes "mget r k = Some (BinaryOperatorAggregate c)" and "\<not> IsMissing (cvalue c)"
    and "v \<noteq> VNil" and "isOverwrite v = None"
    and "GetNode g n = None \<or> (\<exists>x. GetNode g n = Some x \<and> node_FieldMapping x = [])"
  shows "\<exists>upd r' e' c'. applyWrites g r e
       [\<lparr>res_Name = n, res_Output = VMap [(k, VOverwrite v)], res_Err = None\<rparr>] triggers =
       Some (Inr upd, r', e') \<and>
     mget r' k = Some (BinaryOperatorAggregate c') \<and> cvalue c' = operator c (cvalue c) v"
proof -
  let ?res = "[\<lparr>res_Name = n, res_Output = VMap [(k, VOverwrite v)], res_Err = None\<rparr>]"
  have grp: "group_results g ?res ([], []) =
      Some (Inr ([(k, [v])], [(k, \<lparr>gw_Value = v, gw_Overwrite = True, gw_Node = n\<rparr>)]))"
    using assms(3,5) by (auto simp: toMap_def applyFieldMapping_def mgetd_def)
  have upd: "\<exists>r' e' u c'. write_step (k, [v]) (r, e, []) = (Inr (), (r', e', u)) \<and>
      mget r' k = Some (BinaryOperatorAggregate c') \<and> cvalue c' = operator c (cvalue c) v"
    using assms(1-4)
    by (auto simp: write_step_def Registry_Get_def collapse_values_def keeps_all_def BinOp_Update_def Let_def
        base_defs)
  then obtain r' e' u c' where
    s: "write_step (k, [v]) (r, e, []) = (Inr (), (r', e', u))"
    and c': "mget r' k = Some (BinaryOperatorAggregate c')" "cvalue c' = operator c (cvalue c) v"
    by blast
  show ?thesis
    using c' by (auto simp: applyWrites_def grp s Let_def simp del: group_results.simps)
qed

lemma overwrite_is_reduced_witness:
  "\<exists>upd r' e' c'. applyWrites counter_graph (g_channels counter_graph) no_checkpoint
       [\<lparr>res_Name = ''a'', res_Output = VMap [(''n'', VOverwrite (VInt 5))], res_Err = None\<rparr>] [] =
       Some (Inr upd, r', e') \<and>
     mget r' ''n'' = Some (BinaryOperatorAggregate c') \<and>
     cvalue c' = IntAdd (VInt 0) (VInt 5)"
  using overwrite_is_reduced
    [of "g_channels counter_graph" "''n''" "NewBinaryOperatorAggregate (VInt 0) IntAdd" "VInt 5" counter_graph
        "''a''" no_checkpoint "[]"]
  by (simp add: counter_graph_channels NewBinaryOperatorAggregate_def IsMissing_def isOverwrite_def
      GetNode_def counter_graph_def named_node_def)

section \<open>Resuming\<close>

definition memory_ops :: "memory_saver checkpointer_ops" where
  "memory_ops = \<lparr>ck_Put = MemorySaver_Put, ck_Get = MemorySaver_Get\<rparr>"

text \<open>What is read back after a save under the thread only.\<close>

lemma saved_is_read:
  assumes "env_checkpointer env = Some memory_ops"
    and "put_thread env t n s cp = (Inr (), s')"
  shows "MemorySaver_Get s' [(''thread_id'', VStr t)] = Inr (Some (deepCopyMap (deepCopyMap cp)))"
proof -
  let ?q = "[(''thread_id'', VStr t)]"
  have q: "cfg_str ?q ''thread_id'' = Some t" "cfg_str ?q ''checkpoint_id'' = None"
    by (simp_all add: cfg_str_def)
  have s': "s' = snd (MemorySaver_Put (env_uuid env (n + 2)) (env_now env) s ?q cp)"
    using assms by (simp add: put_thread_def memory_ops_def)
  from Put_versions [OF q(1), of "env_uuid env (n + 2)" "env_now env" s cp] show ?thesis
    by (auto simp: Get_latest [OF q] s')
qed

text \<open>A run that asks for no particular checkpoint.\<close>

definition no_request :: "runnable_config \<Rightarrow> bool" where
  "no_request cfg =
     (case Config_Get cfg ''checkpoint_id'' of Some (VStr i) \<Rightarrow> i = [] | _ \<Rightarrow> True)"

lemma no_request_config: "no_request cfg \<Longrightarrow> cp_config cfg t = ([(''thread_id'', VStr t)], [])"
  by (auto simp: no_request_def cp_config_def split: option.splits gval.splits)

lemma resumed_start:
  assumes "env_checkpointer env = Some memory_ops" and "no_request (env_config env)"
    and "put_thread env t n s cp = (Inr (), s')"
    and "run_start env t input s' w = Inr rs"
  shows "rs_completed rs = restored_completed (deepCopyMap (deepCopyMap cp)) \<and>
    rs_lastNode rs = restored_last (deepCopyMap (deepCopyMap cp))"
proof -
  have got: "ck_Get memory_ops s' [(''thread_id'', VStr t)] = Inr (Some (deepCopyMap (deepCopyMap cp)))"
    using saved_is_read [OF assms(1,3)] by (simp add: memory_ops_def)
  show ?thesis
    using assms(4)
    by (auto simp: run_start_def assms(1) no_request_config [OF assms(2)] got start_loaded_def
        start_state_def Let_def split: prod.splits sum.splits)
qed

lemma mget_deepCopyMap: "mget (deepCopyMap m) k = map_option deepCopy (mget m k)"
  by (simp add: deepCopyMap_def mget_map_prod)

text \<open>Names that come through the saver and the encoding of a set unchanged.\<close>

definition plain_name :: "string \<Rightarrow> bool" where
  "plain_name s = (ascii s \<and> NUL \<notin> set s)"

lemma ascii_join: "list_all ascii ws \<Longrightarrow> ascii (join_with NUL ws)"
proof (induction "NUL" ws rule: join_with.induct)
  case (3 w v ws)
  then show ?case by (simp add: ascii_def NUL_def byte_in_def)
qed (auto simp: ascii_def)

lemma ascii_serialized:
  assumes "list_all plain_name (mkeys s)"
  shows "ascii (serializeStringSet s)"
proof -
  have "list_all ascii (sort (mkeys s))" using assms by (auto simp: list_all_iff plain_name_def)
  then show ?thesis by (auto simp: serializeStringSet_def ascii_join) (simp add: ascii_def)
qed

lemma payload_entries:
  "mget (interrupt_payload env rs results) ''__completed_tasks__'' =
     Some (VStr (serializeStringSet (rs_completed rs)))"
  "mget (interrupt_payload env rs results) ''__last_completed_node__'' = Some (VStr (rs_lastNode rs))"
  by (auto simp: interrupt_payload_def Let_def split: list.splits option.splits)

text \<open>
  C6: a run that was interrupted inside a node and saved with the in-memory checkpointer is
  resumed with exactly the nodes that had completed and with the node that completed last,
  whatever input the resuming call has.
\<close>

theorem node_interrupt_is_resumed:
  assumes "env_checkpointer env = Some memory_ops" and "no_request (env_config env)"
    and "interrupt_in_node env t rs results = (e, rs')"
    and "run_start env t input (rs_saver rs') w = Inr rs2"
    and "mwf (rs_completed rs)" and "mkeys (rs_completed rs) \<noteq> [[]]"
    and "list_all plain_name (mkeys (rs_completed rs))" and "ascii (rs_lastNode rs)"
  shows "(\<forall>n. mget (rs_completed rs2) n = (if mhas (rs_completed rs) n then Some True else None)) \<and>
     rs_lastNode rs2 = rs_lastNode rs"
proof -
  let ?cp = "interrupt_payload env rs results"
  have put: "put_thread env t (rs_step rs) (rs_saver rs) ?cp = (Inr (), rs_saver rs')"
    using assms(1,3)
    by (auto simp: interrupt_in_node_def put_thread_def memory_ops_def MemorySaver_Put_def cfg_str_def
        split: prod.splits sum.splits)
  have str: "utf8_fix (serializeStringSet (rs_completed rs)) = serializeStringSet (rs_completed rs)"
    "utf8_fix (rs_lastNode rs) = rs_lastNode rs"
    using ascii_serialized [OF assms(7)] assms(8) by (simp_all add: utf8_fix_ascii)
  have rs2: "rs_completed rs2 =
      (case deserializeStringSet (serializeStringSet (rs_completed rs)) of None \<Rightarrow> [] | Some m \<Rightarrow> m)"
    "rs_lastNode rs2 = rs_lastNode rs"
    using resumed_start [OF assms(1,2) put assms(4)]
    by (simp_all add: restored_completed_def restored_last_def mget_deepCopyMap payload_entries str)
  show ?thesis
  proof (cases "rs_completed rs = []")
    case True
    then show ?thesis using rs2 by (simp add: serializeStringSet_def deserializeStringSet_def mhas_def)
  next
    case False
    have "list_all (\<lambda>k. NUL \<notin> set k) (mkeys (rs_completed rs))"
      using assms(7) by (auto simp: list_all_iff plain_name_def)
    with string_set_sound [OF assms(5) False assms(6)] show ?thesis using rs2 by auto
  qed
qed

text \<open>A run of one node over no channels, in the state after its first step.\<close>

definition one_node :: "unit state_graph" where
  "one_node = (NewStateGraph (SchemaMap True))
     \<lparr>g_nodes := [(''a'', named_node ''a'')], g_entryPoint := ''a''\<rparr>"

definition saver_env :: "(unit, memory_saver) engine_env" where
  "saver_env = plain_env one_node (Some memory_ops) [(''a'', True)]"

definition after_a :: "(unit, memory_saver) run_state" where
  "after_a = (start_state [] (NewCheckpoint ''id'' zero_time ''t'' 0) [(''a'', True)] ''a'' VNil
     NewMemorySaver ())\<lparr>rs_step := 1\<rparr>"

lemma saver_env_simps:
  "env_checkpointer saver_env = Some memory_ops" "no_request (env_config saver_env)"
  "env_graph saver_env = one_node"
  by (simp_all add: saver_env_def no_request_def Config_Get_def NewRunnableConfig_def)

lemma one_node_simps:
  "g_channels one_node = []" "g_entryPoint one_node = ''a''" "GetNode one_node ''a'' = Some (named_node ''a'')"
  by (simp_all add: one_node_def NewStateGraph_def GetNode_def)

lemma one_node_starts:
  assumes "put_thread saver_env ''t'' n s cp = (Inr (), s')"
  shows "\<exists>rs. run_start saver_env ''t'' (VMap []) s' () = Inr rs"
proof -
  have got: "ck_Get memory_ops s' [(''thread_id'', VStr ''t'')] = Inr (Some (deepCopyMap (deepCopyMap cp)))"
    using saved_is_read [OF saver_env_simps(1) assms(1)] by (simp add: memory_ops_def)
  have "copied_channels one_node = []" by (simp add: copied_channels_def one_node_simps NewRegistry_def)
  then show ?thesis
    by (simp add: run_start_def saver_env_simps no_request_config [OF saver_env_simps(2)] got
        applyInput_def toMap_def start_loaded_def mhas_def)
qed

theorem node_interrupt_is_resumed_witness:
  "\<exists>e rs' rs2. interrupt_in_node saver_env ''t'' after_a [] = (e, rs') \<and>
     run_start saver_env ''t'' (VMap []) (rs_saver rs') () = Inr rs2 \<and>
     mget (rs_completed rs2) ''a'' = Some True \<and> rs_lastNode rs2 = ''a''"
proof -
  obtain e rs' where i: "interrupt_in_node saver_env ''t'' after_a [] = (e, rs')" by fastforce
  have "put_thread saver_env ''t'' 1 NewMemorySaver (interrupt_payload saver_env after_a []) = (Inr (), rs_saver rs')"
    using i by (auto simp: interrupt_in_node_def put_thread_def saver_env_simps memory_ops_def
        MemorySaver_Put_def cfg_str_def after_a_def start_state_def)
  then obtain rs2 where rs2: "run_start saver_env ''t'' (VMap []) (rs_saver rs') () = Inr rs2"
    using one_node_starts by blast
  have "(\<forall>n. mget (rs_completed rs2) n = (if mhas (rs_completed after_a) n then Some True else None)) \<and>
     rs_lastNode rs2 = rs_lastNode after_a"
    by (rule node_interrupt_is_resumed [OF saver_env_simps(1,2) i rs2])
      (simp_all add: after_a_def start_state_def mwf_def plain_name_def ascii_def byte_in_def NUL_def)
  then show ?thesis using i rs2 by (auto simp: after_a_def start_state_def mhas_def)
qed

text \<open>
  C7: an interrupt before a node saves the channels but not which nodes have completed; a run
  resumed from it has no completed node, and its first step schedules the entry point again
  instead of the node it stopped at.
\<close>

theorem before_interrupt_restarts:
  assumes "env_checkpointer env = Some memory_ops" and "no_request (env_config env)"
    and "interrupt_before env t rs = (e, rs')"
    and "run_start env t input (rs_saver rs') w = Inr rs2"
    and "mwf (rs_registry rs)" and "mget (rs_registry rs) ''__completed_tasks__'' = None"
    and "g_entryPoint (env_graph env) \<noteq> []" and "g_entryPoint (env_graph env) \<noteq> End"
    and "GetNode (env_graph env) (g_entryPoint (env_graph env)) = Some n"
  shows "rs_completed rs2 = [] \<and>
     (\<exists>tk triggers. prepareNextTasks (env_fmt env) (env_ord env) (env_graph env) (rs_registry rs2)
        (rs_completed rs2) (rs_lastNode rs2) (rs_lastState rs2) = Inr ([tk], triggers) \<and>
        task_Name tk = node_Name n)"
proof -
  let ?cp = "Registry_CreateCheckpoint (rs_registry rs)"
  have put: "put_thread env t (rs_step rs) (rs_saver rs) ?cp = (Inr (), rs_saver rs')"
    using assms(1,3)
    by (auto simp: interrupt_before_def put_thread_def memory_ops_def MemorySaver_Put_def cfg_str_def
        split: prod.splits sum.splits)
  have "mget ?cp ''__completed_tasks__'' = None"
    using CreateCheckpoint_get [OF assms(5)] assms(6) by simp
  then have "rs_completed rs2 = []"
    using resumed_start [OF assms(1,2) put assms(4)]
    by (simp add: restored_completed_def mget_deepCopyMap)
  then show ?thesis
    using assms(7-9) by (simp add: prepareNextTasks_def prepareNextTasksWithMode_def createTask_def)
qed

theorem before_interrupt_restarts_witness:
  "\<exists>e rs' rs2. interrupt_before saver_env ''t'' after_a = (e, rs') \<and>
     run_start saver_env ''t'' (VMap []) (rs_saver rs') () = Inr rs2 \<and> rs_completed rs2 = []"
proof -
  obtain e rs' where i: "interrupt_before saver_env ''t'' after_a = (e, rs')" by fastforce
  have "put_thread saver_env ''t'' 1 NewMemorySaver [] = (Inr (), rs_saver rs')"
    using i by (auto simp: interrupt_before_def put_thread_def saver_env_simps memory_ops_def
        MemorySaver_Put_def cfg_str_def after_a_def start_state_def)
  then obtain rs2 where rs2: "run_start saver_env ''t'' (VMap []) (rs_saver rs') () = Inr rs2"
    using one_node_starts by blast
  have "rs_completed rs2 = [] \<and>
     (\<exists>tk triggers. prepareNextTasks (env_fmt saver_env) (env_ord saver_env) (env_graph saver_env)
        (rs_registry rs2) (rs_completed rs2) (rs_lastNode rs2) (rs_lastState rs2) = Inr ([tk], triggers) \<and>
        task_Name tk = node_Name (named_node ''a''))"
    by (rule before_interrupt_restarts [OF saver_env_simps(1,2) i rs2])
      (simp_all add: after_a_def start_state_def saver_env_simps one_node_simps End_def)
  then show ?thesis using i rs2 by auto
qed

text \<open>
  the value of an interrupt, saved as JSON bytes for the node that asked for it, comes back
  from the in-memory checkpointer as the base64 text of these bytes.
\<close>

lemma interrupt_value_comes_back_encoded:
  assumes "env_checkpointer env = Some memory_ops"
    and "interrupt_in_node env t rs results = (e, rs')"
    and "first_interrupts results = i # is" and "intr_value i \<noteq> VNil"
    and "env_enc env (intr_value i) = Some txt"
  shows "\<exists>cp. MemorySaver_Get (rs_saver rs') [(''thread_id'', VStr t)] = Inr (Some cp) \<and>
     sub_state cp = Some (base64 txt)"
proof -
  let ?cp = "interrupt_payload env rs results"
  have put: "put_thread env t (rs_step rs) (rs_saver rs) ?cp = (Inr (), rs_saver rs')"
    using assms(1,2)
    by (auto simp: interrupt_in_node_def put_thread_def memory_ops_def MemorySaver_Put_def cfg_str_def
        split: prod.splits sum.splits)
  have "mget ?cp ''__sub_state__'' = Some (VBytes txt)"
    using assms(3-5) by (simp add: interrupt_payload_def Let_def)
  then have "sub_state (deepCopyMap (deepCopyMap ?cp)) = Some (base64 txt)"
    by (simp add: sub_state_def mget_deepCopyMap text_of_def)
  with saved_is_read [OF assms(1) put] show ?thesis by blast
qed

definition asking :: interrupt where
  "asking = \<lparr>intr_value = VInt 1, intr_id = []\<rparr>"

lemma interrupt_value_comes_back_encoded_witness:
  "\<exists>e rs' cp. interrupt_in_node (saver_env\<lparr>env_enc := \<lambda>v. Some ''1''\<rparr>) ''t'' after_a
       [\<lparr>res_Name = ''a'', res_Output = VNil, res_Err = Some (GraphInterrupt [asking])\<rparr>] = (e, rs') \<and>
     MemorySaver_Get (rs_saver rs') [(''thread_id'', VStr ''t'')] = Inr (Some cp) \<and>
     sub_state cp = Some ''MQ==''"
proof -
  let ?env = "saver_env\<lparr>env_enc := \<lambda>v. Some ''1''\<rparr>"
  let ?rs = "[\<lparr>res_Name = ''a'', res_Output = VNil, res_Err = Some (GraphInterrupt [asking])\<rparr>]"
  obtain e rs' where i: "interrupt_in_node ?env ''t'' after_a ?rs = (e, rs')" by fastforce
  have "\<exists>cp. MemorySaver_Get (rs_saver rs') [(''thread_id'', VStr ''t'')] = Inr (Some cp) \<and>
     sub_state cp = Some (base64 ''1'')"
    by (rule interrupt_value_comes_back_encoded [OF _ i, of asking "[]"])
      (simp_all add: saver_env_simps asking_def)
  then show ?thesis using i by (auto simp: base64_digit_def)
qed

text \<open>
  an integer counter that is restored from the in-memory checkpointer no longer counts: its
  value has become a float, and \<open>IntAdd\<close> leaves a float unchanged when an integer is added.
\<close>

lemma restored_counter_stops:
  assumes "operator c = IntAdd" and "cvalue c = VInt n"
  shows "let ch = BinaryOperatorAggregate c;
      restored = chan_FromCheckpoint ch (deepCopy (deepCopy (chan_Checkpoint ch)))
    in chan_Get restored = (Inr (VFloat (f64_of_int (sint n))), restored) \<and>
      chan_Update restored [VInt m] = (Inr True, restored)"
proof -
  have "num64 (sint n)" using sint_range_size [of n] by (auto simp: num64_def word_size abs_if)
  then obtain k x where "f64_of_int (sint n) = Fin k x" using f64_of_int_fin by blast
  then show ?thesis
    using assms
    by (simp add: Let_def BinOp_FromCheckpoint_def BinOp_Checkpoint_def NewBinaryOperatorAggregate_def BinOp_Get_def
        BinOp_Update_def IsMissing_def isOverwrite_def IntAdd_def)
qed

lemma restored_counter_stops_witness:
  "let ch = BinaryOperatorAggregate ((NewBinaryOperatorAggregate (VInt 0) IntAdd)\<lparr>cvalue := VInt 5\<rparr>);
      restored = chan_FromCheckpoint ch (deepCopy (deepCopy (chan_Checkpoint ch)))
    in chan_Get restored = (Inr (VFloat (f64_of_int 5)), restored) \<and>
      chan_Update restored [VInt 1] = (Inr True, restored)"
  using restored_counter_stops
    [of "(NewBinaryOperatorAggregate (VInt 0) IntAdd)\<lparr>cvalue := VInt 5\<rparr>" 5 1]
  by (simp add: NewBinaryOperatorAggregate_def)

end
