(* ===== verification/EngineOrder.thy ===== *)
theory EngineOrder
  imports EngineProps
begin

text \<open>
  The order in which a run executes nodes, as a relation on the states between its steps and
  an invariant of the states it reaches.
\<close>

section \<open>Steps of a run\<close>

inductive run_reach ::
    "('w, 's) engine_env \<Rightarrow> string \<Rightarrow> ('w, 's) run_state \<Rightarrow> ('w, 's) run_state \<Rightarrow> bool"
  for env :: "('w, 's) engine_env" and t :: string and rs0 :: "('w, 's) run_state" where
  reach_start: "run_reach env t rs0 rs0"
| reach_step: "run_reach env t rs0 rs \<Longrightarrow> run_step env t rs = (GoOn, rs') \<Longrightarrow>
     run_reach env t rs0 (rs'\<lparr>rs_step := Suc (rs_step rs)\<rparr>)"

lemma run_reach_trans:
  assumes "run_reach env t rs1 rs2" and "run_reach env t rs0 rs1"
  shows "run_reach env t rs0 rs2"
  using assms by (induction rule: run_reach.induct) (auto intro: reach_step)

lemma run_step_Complete: "run_step env t rs = (Complete, rs') \<Longrightarrow> rs' = rs"
  by (auto simp: run_step_def finish_step_def interrupt_before_def interrupt_in_node_def Let_def
      split: option.splits if_splits prod.splits sum.splits)

text \<open>A run that completes has reached a state with nothing left to schedule.\<close>

lemma run_loop_Complete:
  assumes "run_loop env t rs = (Complete, rs')"
  shows "run_reach env t rs rs' \<and> run_step env t rs' = (Complete, rs')"
  using assms
proof (induction env t rs rule: run_loop.induct)
  case (1 env t rs)
  obtain x r where x: "run_step env t rs = (x, r)" by fastforce
  show ?case
  proof (cases x)
    case Complete
    then show ?thesis
      using 1(2) x run_step_Complete [of env t rs r]
      by (auto simp: run_loop.simps [of env t rs] intro: reach_start)
  next
    case GoOn
    have "run_loop env t (r\<lparr>rs_step := Suc (rs_step rs)\<rparr>) = (Complete, rs')"
      using 1(2) x GoOn by (simp add: run_loop.simps [of env t rs])
    from 1(1) [OF x [symmetric] GoOn this] show ?thesis
      using run_reach_trans [OF _ reach_step [OF reach_start]] x GoOn by blast
  qed (use 1(2) x in \<open>simp_all add: run_loop.simps [of env t rs]\<close>)
qed

section \<open>Tasks and results\<close>

lemma pipeline_task_name: "pipeline_task fill cancel g t r w = (res, r', w') \<Longrightarrow> res_Name res = task_Name t"
  by (auto simp: pipeline_task_def run_task_def result_of_def Let_def split: prod.splits sum.splits)

lemma executeTasks_names:
  "executeTasksAsync fill cancel g ts r w = (res, r', w') \<Longrightarrow> map res_Name res = map task_Name ts"
  by (induction ts arbitrary: r w res r' w')
    (auto dest: pipeline_task_name split: prod.splits)

definition succeeded :: "task_result list \<Rightarrow> string set" where
  "succeeded rs = {res_Name r |r. r \<in> set rs \<and> res_Err r = None}"

lemma mark_results_completed:
  "mark_results rs (completed, l, st) = (completed', l', st') \<Longrightarrow>
   mgetd False completed' n = (n \<in> succeeded rs \<or> mgetd False completed n)"
  by (induction rs arbitrary: completed l st)
    (auto simp: succeeded_def mgetd_def split: if_splits)

text \<open>What a step that goes on has done.\<close>

lemma run_step_GoOn_tasks:
  assumes "run_step env t rs = (GoOn, rs')"
  shows "\<exists>tasks triggers results. prepareNextTasks (env_fmt env) (env_ord env) (env_graph env) (rs_registry rs)
       (rs_completed rs) (rs_lastNode rs) (rs_lastState rs) = Inr (tasks, triggers) \<and> tasks \<noteq> [] \<and>
     map res_Name results = map task_Name tasks \<and>
     (\<forall>n. mgetd False (rs_completed rs') n = (n \<in> succeeded results \<or> mgetd False (rs_completed rs) n))"
proof -
  from assms obtain tasks triggers where
    p: "prepareNextTasks (env_fmt env) (env_ord env) (env_graph env) (rs_registry rs)
       (rs_completed rs) (rs_lastNode rs) (rs_lastState rs) = Inr (tasks, triggers)"
    and ne: "tasks \<noteq> []"
    by (auto simp: run_step_def split: option.splits if_splits sum.splits)
  obtain results r1 w1 where
    e: "executeTasksAsync (env_fill env) (env_cancel env) (env_graph env) tasks (rs_registry rs) (rs_world rs) =
       (results, r1, w1)"
    by (cases "executeTasksAsync (env_fill env) (env_cancel env) (env_graph env) tasks (rs_registry rs) (rs_world rs)")
  have f: "finish_step env t (rs\<lparr>rs_registry := r1, rs_world := w1\<rparr>) results triggers = (GoOn, rs')"
    using assms p ne e
    by (auto simp: run_step_def interrupt_before_def split: option.splits if_splits sum.splits prod.splits)
  obtain c l st where m: "mark_results results (rs_completed rs, rs_lastNode rs, rs_lastState rs) = (c, l, st)"
    by (cases "mark_results results (rs_completed rs, rs_lastNode rs, rs_lastState rs)")
  have "rs_completed rs' = c"
    using f by (auto simp: finish_step_def m persist_def interrupt_in_node_def Let_def
        split: option.splits if_splits sum.splits prod.splits)
  then show ?thesis
    using p ne executeTasks_names [OF e] mark_results_completed [OF m] by blast
qed

section \<open>DAG mode\<close>

definition deps_met :: "'w state_graph \<Rightarrow> bool gomap \<Rightarrow> string \<Rightarrow> bool" where
  "deps_met g completed n =
     (\<forall>e \<in> set (g_edges g). edge_To e = n \<longrightarrow>
        edge_From e = Start \<or> edge_From e = End \<or> mgetd False completed (edge_From e))"

lemma dag_ready_iff: "dag_ready g completed n = deps_met g completed n"
  by (auto simp: dag_ready_def deps_met_def incoming_edges list_all_iff)

definition dag_inv :: "'w state_graph \<Rightarrow> bool gomap \<Rightarrow> bool" where
  "dag_inv g completed =
     (\<forall>n. mgetd False completed n \<longrightarrow> n = g_entryPoint g \<or> deps_met g completed n)"

definition dag_env :: "('w, 's) engine_env \<Rightarrow> bool" where
  "dag_env env =
     (nodes_ok (env_graph env) \<and> g_NodeTriggerMode (env_graph env) = NodeTriggerAllPredecessor \<and>
      (\<forall>xs. set (env_ord env xs) = set xs))"

lemma deps_met_mono:
  "deps_met g c n \<Longrightarrow> (\<And>k. mgetd False c k \<Longrightarrow> mgetd False c' k) \<Longrightarrow> deps_met g c' n"
  by (auto simp: deps_met_def)

lemma first_tasks:
  assumes "prepareNextTasks fmt ord g r [] l st = Inr (tasks, triggers)" and "nodes_ok g"
  shows "set (map task_Name tasks) \<subseteq> {g_entryPoint g}"
  using assms nodes_ok_name [OF assms(2), of "g_entryPoint g"]
  by (auto simp: prepareNextTasks_def prepareNextTasksWithMode_def createTask_def Let_def
      split: if_splits option.splits)

lemma dag_tasks:
  assumes "dag_env env" and "completed \<noteq> []"
    and "prepareNextTasks (env_fmt env) (env_ord env) (env_graph env) r completed l st = Inr (tasks, triggers)"
  shows "set (map task_Name tasks) =
     {n. mhas (g_nodes (env_graph env)) n \<and> \<not> mgetd False completed n \<and> deps_met (env_graph env) completed n}"
  using dag_scheduled [of "env_graph env" completed "env_ord env" "env_fmt env" r l st] assms
  by (auto simp: dag_env_def deps_met_def)

lemma succeeded_tasks:
  "map res_Name results = map task_Name tasks \<Longrightarrow> succeeded results \<subseteq> set (map task_Name tasks)"
  by (drule sym) (auto simp: succeeded_def)

lemma dag_step:
  assumes "dag_env env" and "dag_inv (env_graph env) (rs_completed rs)" and "run_step env t rs = (GoOn, rs')"
  shows "dag_inv (env_graph env) (rs_completed rs')"
proof -
  from run_step_GoOn_tasks [OF assms(3)] obtain tasks triggers results where
    p: "prepareNextTasks (env_fmt env) (env_ord env) (env_graph env) (rs_registry rs)
         (rs_completed rs) (rs_lastNode rs) (rs_lastState rs) = Inr (tasks, triggers)"
    and names: "map res_Name results = map task_Name tasks"
    and c: "\<And>n. mgetd False (rs_completed rs') n = (n \<in> succeeded results \<or> mgetd False (rs_completed rs) n)"
    by blast
  have new: "n = g_entryPoint (env_graph env) \<or> deps_met (env_graph env) (rs_completed rs) n"
    if "n \<in> set (map task_Name tasks)" for n
  proof (cases "rs_completed rs = []")
    case True
    have "nodes_ok (env_graph env)" using assms(1) by (simp add: dag_env_def)
    from first_tasks [OF p [unfolded True] this] show ?thesis using that by blast
  next
    case False
    then show ?thesis using dag_tasks [OF assms(1) False p] that by blast
  qed
  show ?thesis
    unfolding dag_inv_def
  proof (intro allI impI)
    fix n
    assume "mgetd False (rs_completed rs') n"
    then have "n = g_entryPoint (env_graph env) \<or> deps_met (env_graph env) (rs_completed rs) n"
      using c [of n] new [of n] succeeded_tasks [OF names] assms(2) unfolding dag_inv_def by blast
    then show "n = g_entryPoint (env_graph env) \<or> deps_met (env_graph env) (rs_completed rs') n"
      using deps_met_mono [of _ "rs_completed rs" n "rs_completed rs'"] c by blast
  qed
qed

lemma dag_reach:
  "run_reach env t rs0 rs \<Longrightarrow> dag_env env \<Longrightarrow> dag_inv (env_graph env) (rs_completed rs0) \<Longrightarrow>
   dag_inv (env_graph env) (rs_completed rs)"
  by (induction rule: run_reach.induct) (auto dest: dag_step)

lemma run_step_Complete_tasks:
  assumes "run_step env t rs = (Complete, rs')"
  shows "\<exists>triggers. prepareNextTasks (env_fmt env) (env_ord env) (env_graph env) (rs_registry rs)
    (rs_completed rs) (rs_lastNode rs) (rs_lastState rs) = Inr ([], triggers)"
  using assms
  by (auto simp: run_step_def finish_step_def interrupt_before_def interrupt_in_node_def Let_def
      split: option.splits if_splits prod.splits sum.splits)


definition run_ok :: "string \<Rightarrow> unit graph_node" where
  "run_ok n = (named_node n)\<lparr>node_Function := Some (\<lambda>s w. (Returns VNil None, w))\<rparr>"

definition two_steps :: "unit state_graph" where
  "two_steps = (NewStateGraph (SchemaMap True))
     \<lparr>g_nodes := [(''a'', run_ok ''a''), (''b'', run_ok ''b''), (''c'', run_ok ''c'')],
      g_edges := [\<lparr>edge_From = Start, edge_To = ''a''\<rparr>, \<lparr>edge_From = ''a'', edge_To = ''b''\<rparr>,
        \<lparr>edge_From = ''c'', edge_To = ''c''\<rparr>],
      g_entryPoint := ''a'', g_NodeTriggerMode := ''all''\<rparr>"

definition order_env :: "(unit, unit) engine_env" where
  "order_env =
     \<lparr>env_graph = two_steps, env_checkpointer = None, env_interrupts = [], env_interruptsAfter = [],
      env_recursionLimit = 25, env_config = NewRunnableConfig, env_fmt = (\<lambda>v. []), env_ord = id,
      env_fill = (\<lambda>fs m. VMap m), env_done = (\<lambda>w. None), env_cancel = (\<lambda>w. None),
      env_enc = (\<lambda>v. None), env_dec = (\<lambda>s. None), env_uuid = (\<lambda>n. ''id''), env_now = 0\<rparr>"

definition order_state :: "bool gomap \<Rightarrow> string \<Rightarrow> nat \<Rightarrow> (unit, unit) run_state" where
  "order_state completed l n =
     (start_state [] (NewCheckpoint ''id'' zero_time ''t'' 0) completed l VNil () ())\<lparr>rs_step := n\<rparr>"

lemmas order_defs =
  order_env_def two_steps_def NewStateGraph_def run_ok_def named_node_def order_state_def start_state_def
  GetNode_def

lemma order_executes:
  "pipeline_task (env_fill order_env) (env_cancel order_env) two_steps (createTask (run_ok n) []) r w =
     (\<lparr>res_Name = n, res_Output = VNil, res_Err = None\<rparr>, r, w)"
  by (simp add: pipeline_task_def run_task_def result_of_def readTaskInput_def createTask_def run_ok_def named_node_def
      RetryExecutor_Execute_def NewRetryExecutor_def DefaultRetryPolicy_def Let_def order_env_def
      retry_loop.simps)

lemma order_step:
  assumes "prepareNextTasks (env_fmt order_env) (env_ord order_env) two_steps [] c l VNil =
      Inr ([createTask (run_ok n) []], triggers)" and "k < 25"
  shows "\<exists>rs. run_step order_env ''t'' (order_state c l k) = (GoOn, rs) \<and>
     rs\<lparr>rs_step := Suc k\<rparr> = order_state (mput n True c) n (Suc k)"
proof -
  let ?res = "[\<lparr>res_Name = n, res_Output = VNil, res_Err = None\<rparr>]"
  have t: "task_Name (createTask (run_ok n) []) = n" by (simp add: createTask_def run_ok_def named_node_def)
  have w: "applyWrites two_steps [] e ?res triggers = Some (Inr [], [], e)" for e
    by (cases e) (simp add: applyWrites_def Let_def option.map_ident)
  have env: "env_done order_env = (\<lambda>w. None)" "env_recursionLimit order_env = 25"
    "env_graph order_env = two_steps" "env_interrupts order_env = []" "env_interruptsAfter order_env = []"
    "env_checkpointer order_env = None"
    by (simp_all add: order_env_def)
  show ?thesis
    using assms
    by (simp add: run_step_def env order_state_def start_state_def shouldInterrupt_def order_executes
        finish_step_def is_interrupted_def w mergeStates_def persist_def shouldInterruptAfter_def)
qed

lemma two_steps_simps:
  "g_entryPoint two_steps = ''a''" "g_channels two_steps = []"
  "g_NodeTriggerMode two_steps = NodeTriggerAllPredecessor"
  "mkeys (g_nodes two_steps) = [''a'', ''b'', ''c'']"
  "GetNode two_steps ''a'' = Some (run_ok ''a'')" "GetNode two_steps ''b'' = Some (run_ok ''b'')"
  "GetNode two_steps ''c'' = Some (run_ok ''c'')"
  "g_edges two_steps = [\<lparr>edge_From = Start, edge_To = ''a''\<rparr>, \<lparr>edge_From = ''a'', edge_To = ''b''\<rparr>,
     \<lparr>edge_From = ''c'', edge_To = ''c''\<rparr>]"
  by (simp_all add: two_steps_def NewStateGraph_def GetNode_def NodeTriggerAllPredecessor_def mkeys_def)

lemma order_prepare:
  "prepareNextTasks (env_fmt order_env) (env_ord order_env) two_steps [] [] l VNil =
     Inr ([createTask (run_ok ''a'') []], [''__start__''])"
  "prepareNextTasks (env_fmt order_env) (env_ord order_env) two_steps [] [(''a'', True)] l VNil =
     Inr ([createTask (run_ok ''b'') []], [])"
  "prepareNextTasks (env_fmt order_env) (env_ord order_env) two_steps [] [(''a'', True), (''b'', True)] l VNil =
     Inr ([], [])"
  by (simp_all add: prepareNextTasks_def prepareNextTasksWithMode_def two_steps_simps End_def Start_def Let_def
      prepareNextTasksDAG_def dag_ready_iff deps_met_def mgetd_def task_channels_def make_task_def
      order_env_def Registry_Names_def run_ok_def named_node_def)

lemma order_run:
  "\<exists>rs. run_loop order_env ''t'' (order_state [] [] 0) = (Complete, rs) \<and>
     rs_completed rs = [(''a'', True), (''b'', True)]"
proof -
  obtain r1 where r1: "run_step order_env ''t'' (order_state [] [] 0) = (GoOn, r1)"
    "r1\<lparr>rs_step := Suc 0\<rparr> = order_state [(''a'', True)] ''a'' (Suc 0)"
    using order_step [OF order_prepare(1), of 0] by auto
  obtain r2 where r2: "run_step order_env ''t'' (order_state [(''a'', True)] ''a'' (Suc 0)) = (GoOn, r2)"
    "r2\<lparr>rs_step := Suc (Suc 0)\<rparr> = order_state [(''a'', True), (''b'', True)] ''b'' (Suc (Suc 0))"
    using order_step [OF order_prepare(2), of "Suc 0"] by auto
  let ?r3 = "order_state [(''a'', True), (''b'', True)] ''b'' (Suc (Suc 0))"
  have s: "rs_step (order_state c l k) = k" "rs_registry (order_state c l k) = []"
    "rs_completed (order_state c l k) = c" "rs_lastNode (order_state c l k) = l"
    "rs_lastState (order_state c l k) = VNil" for c l k
    by (simp_all add: order_state_def start_state_def)
  have env: "env_done order_env = (\<lambda>w. None)" "env_recursionLimit order_env = 25"
    "env_graph order_env = two_steps" by (simp_all add: order_env_def)
  have r3: "run_step order_env ''t'' ?r3 = (Complete, ?r3)"
    by (simp add: run_step_def env s order_prepare)
  show ?thesis
    by (simp add: run_loop.simps [of order_env "''t''" "order_state [] [] 0"] r1 s
        run_loop.simps [of order_env "''t''" "order_state [(''a'', True)] ''a'' (Suc 0)"] r2
        run_loop.simps [of order_env "''t''" ?r3] r3)
qed


end
