(* ===== verification/EngineApi.thy ===== *)
theory EngineApi
  imports EngineLoop GraphCompile
begin

text \<open>
  How a compiled graph is run: the options of \<open>NewEngine\<close> (\<open>pregel/engine.go\<close>), \<open>runCompiledGraph\<close>
  (\<open>pregel/init_pregel.go\<close>) and \<open>Invoke\<close> and \<open>Stream\<close> of \<open>graph/graph.go\<close>. The cache, the background
  executor and the callbacks of an engine are not modelled. What a run takes from outside
  its engine is the record \<open>outside\<close>.
\<close>

record ('w, 's) engine =
  eng_graph :: "'w state_graph"
  eng_checkpointer :: "'s checkpointer_ops option"
  eng_interrupts :: "bool gomap"
  eng_interruptsAfter :: "bool gomap"
  eng_recursionLimit :: int
  eng_debug :: bool
  eng_config :: runnable_config
  eng_maxConcurrency :: int
  eng_retryPolicy :: "retry_policy option"

datatype 's engine_option =
    OptCheckpointer "'s checkpointer_ops option"
  | OptInterrupts "string list"
  | OptInterruptsAfter "string list"
  | OptRecursionLimit int
  | OptDebug bool
  | OptConfig runnable_config
  | OptMaxConcurrency int
  | OptRetryPolicy "retry_policy option"

fun apply_engine_option :: "'s engine_option \<Rightarrow> ('w, 's) engine \<Rightarrow> ('w, 's) engine" where
  "apply_engine_option (OptCheckpointer c) e = e\<lparr>eng_checkpointer := c\<rparr>"
| "apply_engine_option (OptInterrupts ns) e = e\<lparr>eng_interrupts := put_names ns (eng_interrupts e)\<rparr>"
| "apply_engine_option (OptInterruptsAfter ns) e =
     e\<lparr>eng_interruptsAfter := put_names ns (eng_interruptsAfter e)\<rparr>"
| "apply_engine_option (OptRecursionLimit n) e = e\<lparr>eng_recursionLimit := n\<rparr>"
| "apply_engine_option (OptDebug b) e = e\<lparr>eng_debug := b\<rparr>"
| "apply_engine_option (OptConfig c) e = e\<lparr>eng_config := c\<rparr>"
| "apply_engine_option (OptMaxConcurrency n) e = (if 0 < n then e\<lparr>eng_maxConcurrency := n\<rparr> else e)"
| "apply_engine_option (OptRetryPolicy p) e = e\<lparr>eng_retryPolicy := p\<rparr>"

definition NewEngine :: "'w state_graph \<Rightarrow> 's engine_option list \<Rightarrow> ('w, 's) engine" where
  "NewEngine g opts =
     fold apply_engine_option opts
       \<lparr>eng_graph = g, eng_checkpointer = None, eng_interrupts = [], eng_interruptsAfter = [],
        eng_recursionLimit = 25, eng_debug = False, eng_config = NewRunnableConfig,
        eng_maxConcurrency = 10, eng_retryPolicy = None\<rparr>"

record 'w outside =
  out_fmt :: "gval \<Rightarrow> string"
  out_ord :: "string list \<Rightarrow> string list"
  out_fill :: "schema_field list \<Rightarrow> gval gomap \<Rightarrow> gval"
  out_done :: "'w \<Rightarrow> gerror option"
  out_cancel :: "'w \<Rightarrow> gerror option"
  out_enc :: "gval \<Rightarrow> string option"
  out_dec :: "string \<Rightarrow> gval option"
  out_uuid :: "nat \<Rightarrow> string"
  out_now :: int

text \<open>The run does not read the concurrency bound and the retry policy of the engine.\<close>

definition env_of :: "('w, 's) engine \<Rightarrow> 'w outside \<Rightarrow> ('w, 's) engine_env" where
  "env_of e out =
     \<lparr>env_graph = eng_graph e, env_checkpointer = eng_checkpointer e, env_interrupts = eng_interrupts e,
      env_interruptsAfter = eng_interruptsAfter e, env_recursionLimit = eng_recursionLimit e,
      env_config = eng_config e, env_fmt = out_fmt out, env_ord = out_ord out, env_fill = out_fill out,
      env_done = out_done out, env_cancel = out_cancel out, env_enc = out_enc out,
      env_dec = out_dec out, env_uuid = out_uuid out, env_now = out_now out\<rparr>"

text \<open>\<open>ck\<close> is the checkpointer a compiled graph holds, if it has one.\<close>

definition runCompiledGraph ::
    "'w compiled_graph \<Rightarrow> 's checkpointer_ops \<Rightarrow> 'w outside \<Rightarrow> gval \<Rightarrow> runnable_config \<Rightarrow> 's \<Rightarrow> 'w \<Rightarrow>
     gval res option \<times> 's \<times> 'w" where
  "runCompiledGraph cg ck out input config s w =
     RunSync
       (env_of
          (NewEngine (cg_graph cg)
             [OptCheckpointer (if cg_checkpointer cg then Some ck else None),
              OptInterrupts (mkeys (cg_interrupts cg)), OptInterruptsAfter (mkeys (cg_interruptsAfter cg)),
              OptRecursionLimit (cg_recursionLimit cg), OptDebug (cg_debug cg), OptConfig config])
          out)
       input s w"

definition zero_config :: runnable_config where
  "zero_config =
     \<lparr>Configurable = None, RecursionLimit = 0, Tags = [], Metadata = None, RunID = [], ThreadID = [],
      Durability = []\<rparr>"

text \<open>The optional configurations of a call; the first one counts if it is not nil.\<close>

definition call_config :: "runnable_config option list \<Rightarrow> runnable_config" where
  "call_config configs = (case configs of Some c # _ \<Rightarrow> c | _ \<Rightarrow> zero_config)"

definition Invoke ::
    "'w compiled_graph \<Rightarrow> 's checkpointer_ops \<Rightarrow> 'w outside \<Rightarrow> gval \<Rightarrow> runnable_config option list \<Rightarrow>
     's \<Rightarrow> 'w \<Rightarrow> gval res option \<times> 's \<times> 'w" where
  "Invoke cg ck out input configs s w = runCompiledGraph cg ck out input (call_config configs) s w"

text \<open>A stream carries one value, or one error; the panic ends the process.\<close>

definition Stream ::
    "'w compiled_graph \<Rightarrow> 's checkpointer_ops \<Rightarrow> 'w outside \<Rightarrow> gval \<Rightarrow> runnable_config option list \<Rightarrow>
     's \<Rightarrow> 'w \<Rightarrow> (gval list \<times> gerror list) option \<times> 's \<times> 'w" where
  "Stream cg ck out input configs s w =
     (case runCompiledGraph cg ck out input (call_config configs) s w of
        (None, s', w') \<Rightarrow> (None, s', w')
      | (Some (Inl e), s', w') \<Rightarrow> (Some ([], [e]), s', w')
      | (Some (Inr v), s', w') \<Rightarrow> (Some ([v], []), s', w'))"

section \<open>What a configuration can change\<close>

text \<open>Two configurations a run cannot tell apart.\<close>

definition same_run_config :: "runnable_config \<Rightarrow> runnable_config \<Rightarrow> bool" where
  "same_run_config c c' = (Configurable c = Configurable c' \<and> Durability c = Durability c')"

lemmas branch_congs = option.case_cong sum.case_cong prod.case_cong if_cong list.case_cong step_end.case_cong

lemma run_step_config:
  assumes "same_run_config (env_config env) c"
  shows "run_step (env\<lparr>env_config := c\<rparr>) t rs = run_step env t rs"
proof -
  have p: "persist (env\<lparr>env_config := c\<rparr>) t x = persist env t x" for x
    using assms by (simp add: persist_def same_run_config_def Let_def cong: branch_congs)
  have i: "interrupt_before (env\<lparr>env_config := c\<rparr>) t x = interrupt_before env t x"
    "interrupt_in_node (env\<lparr>env_config := c\<rparr>) t x y = interrupt_in_node env t x y" for x y
    by (simp_all add: interrupt_before_def interrupt_in_node_def put_thread_def interrupt_payload_def Let_def
        cong: branch_congs)
  have f: "finish_step (env\<lparr>env_config := c\<rparr>) t x y z = finish_step env t x y z" for x y z
    by (simp add: finish_step_def p i Let_def cong: branch_congs)
  show ?thesis by (simp add: run_step_def f i cong: branch_congs)
qed

lemma run_loop_config:
  "same_run_config (env_config env) c \<Longrightarrow> run_loop (env\<lparr>env_config := c\<rparr>) t rs = run_loop env t rs"
proof (induction env t rs rule: run_loop.induct)
  case (1 env t rs)
  obtain x rs' where x: "run_step env t rs = (x, rs')" by fastforce
  then have x': "run_step (env\<lparr>env_config := c\<rparr>) t rs = (x, rs')"
    by (simp add: run_step_config [OF 1(2)])
  show ?case
  proof (cases x)
    case GoOn
    with 1(1) [OF x [symmetric] GoOn 1(2)] x x' show ?thesis
      by (simp add: run_loop.simps [of _ t rs])
  qed (use x x' in \<open>simp_all add: run_loop.simps [of _ t rs]\<close>)
qed

lemma RunSync_config:
  assumes "same_run_config (env_config env) c"
  shows "RunSync (env\<lparr>env_config := c\<rparr>) input s w = RunSync env input s w"
proof -
  have g: "Config_Get c k = Config_Get (env_config env) k" for k
    using assms by (simp add: Config_Get_def same_run_config_def)
  have s: "run_start (env\<lparr>env_config := c\<rparr>) t input s w = run_start env t input s w" for t
    by (simp add: run_start_def cp_config_def g start_loaded_def start_fresh_def Let_def cong: branch_congs)
  have f: "finish_run (env\<lparr>env_config := c\<rparr>) x = finish_run env x" for x
    using assms by (simp add: finish_run_def same_run_config_def cong: branch_congs)
  show ?thesis
    by (simp add: RunSync_def getThreadID_def g s f run_loop_config [OF assms] Let_def cong: branch_congs)
qed

text \<open>
  C38: of the configuration passed to \<open>Invoke\<close> a run uses only the \<open>Configurable\<close> map and the
  durability. The recursion limit, the thread id field, the run id, the tags and the metadata
  change nothing.
\<close>

theorem invoke_ignores_recursion_limit:
  assumes "Configurable c = Configurable c'" and "Durability c = Durability c'"
  shows "Invoke cg ck out input [Some c] s w = Invoke cg ck out input [Some c'] s w"
proof -
  let ?env = "\<lambda>c. env_of (NewEngine (cg_graph cg)
     [OptCheckpointer (if cg_checkpointer cg then Some ck else None),
      OptInterrupts (mkeys (cg_interrupts cg)), OptInterruptsAfter (mkeys (cg_interruptsAfter cg)),
      OptRecursionLimit (cg_recursionLimit cg), OptDebug (cg_debug cg), OptConfig c]) out"
  have "?env c' = (?env c)\<lparr>env_config := c'\<rparr>"
    by (simp add: NewEngine_def env_of_def)
  moreover have "same_run_config (env_config (?env c)) c'"
    using assms by (simp add: NewEngine_def env_of_def same_run_config_def)
  ultimately show ?thesis
    by (simp add: Invoke_def call_config_def runCompiledGraph_def RunSync_config)
qed

definition idle_graph :: "unit compiled_graph" where
  "idle_graph =
     \<lparr>cg_graph = (NewStateGraph (SchemaMap True))\<lparr>g_entryPoint := End\<rparr>, cg_checkpointer = False,
      cg_interrupts = [], cg_interruptsAfter = [], cg_recursionLimit = 50, cg_debug = False,
      cg_nodeTriggerMode = NodeTriggerAnyPredecessor\<rparr>"

definition idle_outside :: "unit outside" where
  "idle_outside =
     \<lparr>out_fmt = (\<lambda>v. []), out_ord = id, out_fill = (\<lambda>fs m. VMap m), out_done = (\<lambda>w. None),
      out_cancel = (\<lambda>w. None), out_enc = (\<lambda>v. None), out_dec = (\<lambda>t. None), out_uuid = (\<lambda>n. ''id''),
      out_now = 0\<rparr>"

definition idle_ops :: "unit checkpointer_ops" where
  "idle_ops = \<lparr>ck_Put = (\<lambda>u n s c cp. (Inr (), s)), ck_Get = (\<lambda>s c. Inr None)\<rparr>"

theorem invoke_ignores_recursion_limit_witness:
  "Invoke idle_graph idle_ops idle_outside (VMap [])
       [Some (zero_config\<lparr>RecursionLimit := 1, ThreadID := ''a''\<rparr>)] () () =
     Invoke idle_graph idle_ops idle_outside (VMap [])
       [Some (zero_config\<lparr>RecursionLimit := 100, ThreadID := ''b''\<rparr>)] () ()"
  by (rule invoke_ignores_recursion_limit) simp_all

end
