(* ===== verification/Floats.thy ===== *)
theory Floats
  imports Retry
begin

text \<open>
  Comparison, division and square root of \<open>float64\<close>. Quotient and root are computed to more than
  54 bits with a last bit that tells whether something was cut off, so that \<open>f64_round\<close> rounds
  them as IEEE 754 does.
\<close>

fun f64_less :: "f64 \<Rightarrow> f64 \<Rightarrow> bool" where
  "f64_less (Fin m1 e1) (Fin m2 e2) =
     (let e = min e1 e2 in m1 * 2 ^ nat (e1 - e) < m2 * 2 ^ nat (e2 - e))"
| "f64_less (Inf a) (Inf b) = (a \<and> \<not> b)"
| "f64_less (Inf a) (Fin m e) = a"
| "f64_less (Fin m e) (Inf b) = (\<not> b)"
| "f64_less x y = False"

definition f64_eq :: "f64 \<Rightarrow> f64 \<Rightarrow> bool" where
  "f64_eq x y = (x \<noteq> NaN \<and> x = y)"

fun f64_div :: "f64 \<Rightarrow> f64 \<Rightarrow> f64" where
  "f64_div NaN y = NaN"
| "f64_div x NaN = NaN"
| "f64_div (Inf a) (Inf b) = NaN"
| "f64_div (Inf a) (Fin m e) = Inf (a \<noteq> (m < 0))"
| "f64_div (Fin m e) (Inf b) = Fin 0 0"
| "f64_div (Fin m1 e1) (Fin m2 e2) =
     (if m2 = 0 then (if m1 = 0 then NaN else Inf (m1 < 0))
      else
        let k = 55 + bitlen (nat \<bar>m2\<bar>);
            n = nat \<bar>m1\<bar> * 2 ^ k div nat \<bar>m2\<bar>;
            r = nat \<bar>m1\<bar> * 2 ^ k mod nat \<bar>m2\<bar>;
            n' = 2 * n + (if r \<noteq> 0 then 1 else 0)
        in f64_round (sgn m1 * sgn m2 * int n') (e1 - e2 - int k - 1))"

fun isqrt :: "nat \<Rightarrow> nat" where
  "isqrt n =
     (if n = 0 then 0 else let r = 2 * isqrt (n div 4) in if (r + 1) * (r + 1) \<le> n then r + 1 else r)"

declare isqrt.simps [simp del]

fun f64_sqrt :: "f64 \<Rightarrow> f64" where
  "f64_sqrt NaN = NaN"
| "f64_sqrt (Inf b) = (if b then NaN else Inf False)"
| "f64_sqrt (Fin m e) =
     (if m < 0 then NaN else if m = 0 then Fin 0 0
      else
        let t = (if even e then 112 else 113);
            n = nat m * 2 ^ t; r = isqrt n;
            n' = 2 * r + (if r * r = n then 0 else 1)
        in f64_round (int n') ((e - int t) div 2 - 1))"

lemma isqrt_bounds: "isqrt n * isqrt n \<le> n \<and> n < (isqrt n + 1) * (isqrt n + 1)"
proof (induction n rule: isqrt.induct)
  case (1 n)
  show ?case
  proof (cases "n = 0")
    case True
    then show ?thesis by (simp add: isqrt.simps)
  next
    case False
    let ?q = "isqrt (n div 4)"
    have ih: "?q * ?q \<le> n div 4" "n div 4 < (?q + 1) * (?q + 1)" using 1 [OF False] by auto
    have lo: "(2 * ?q) * (2 * ?q) \<le> n" using ih(1) by simp
    have "n < 4 * ((?q + 1) * (?q + 1))" using ih(2) by simp
    then have hi: "n < (2 * ?q + 2) * (2 * ?q + 2)" by simp
    show ?thesis
      using lo hi False by (subst (1 2 3 4) isqrt.simps) (auto simp: Let_def)
  qed
qed

end
