(* ===== verification/Store.thy ===== *)
theory Store
  imports Floats "HOL-Library.List_Lexorder" "HOL-Library.Char_ord"
begin

text \<open>
  The in-memory key-value store of \<open>store/memory.go\<close>: namespaces, expiry, the filters of a search,
  embeddings, batches and the sweep of expired entries. Times are nanoseconds; \<open>now\<close> is the
  clock during an operation. A value is a map whose fields are dynamic values or \<open>[]float64\<close>
  vectors (\<open>Floats\<close>, so no \<open>Any\<close> holds a \<open>VFloats\<close>); copying one is the identity here. \<open>low\<close> is \<open>strings.ToLower\<close> and \<open>rx\<close> compiles a
  regular expression to its matcher. A range over a map goes in the order of its list.
\<close>

section \<open>State\<close>

datatype store_value = Any gval | Floats "f64 list"

type_synonym svalue = "store_value gomap"

record index_config =
  ic_Dims :: int
  ic_Embed :: bool
  ic_Fields :: "string list"

record mem_store =
  st_data :: "svalue gomap gomap"
  st_ttl :: "int gomap"
  st_indexes :: "f64 list gomap gomap"
  st_indexConfigs :: "index_config gomap"
  st_closed :: bool

definition NewInMemoryStore :: mem_store where
  "NewInMemoryStore =
     \<lparr>st_data = [], st_ttl = [], st_indexes = [], st_indexConfigs = [], st_closed = False\<rparr>"

definition store_closed :: gerror where
  "store_closed = Fail ''store is closed''"

definition nsKey :: "string list \<Rightarrow> string" where
  "nsKey ns = join_with (CHR ''|'') ns"

definition fullKey :: "string \<Rightarrow> string \<Rightarrow> string" where
  "fullKey k key = k @ '':'' @ key"

definition checkTTL :: "int \<Rightarrow> mem_store \<Rightarrow> string \<Rightarrow> bool" where
  "checkTTL now s fk = (case mget (st_ttl s) fk of Some expiry \<Rightarrow> now < expiry | None \<Rightarrow> True)"

text \<open>The value under a key that has not expired, as \<open>Get\<close>, \<open>GetItem\<close> and a batch read it.\<close>

definition live_value :: "int \<Rightarrow> mem_store \<Rightarrow> string \<Rightarrow> string \<Rightarrow> svalue option" where
  "live_value now s k key =
     (case mget (st_data s) k of
        None \<Rightarrow> None
      | Some m \<Rightarrow> (if checkTTL now s (fullKey k key) then mget m key else None))"

definition set_value :: "string \<Rightarrow> string \<Rightarrow> svalue \<Rightarrow> mem_store \<Rightarrow> mem_store" where
  "set_value k key v s = s\<lparr>st_data := mput k (mput key v (mgetd [] (st_data s) k)) (st_data s)\<rparr>"

definition set_ttl :: "string \<Rightarrow> string \<Rightarrow> int \<Rightarrow> mem_store \<Rightarrow> mem_store" where
  "set_ttl k key t s = s\<lparr>st_ttl := mput (fullKey k key) t (st_ttl s)\<rparr>"

section \<open>Reading and writing\<close>

definition Store_Get :: "int \<Rightarrow> mem_store \<Rightarrow> string list \<Rightarrow> string \<Rightarrow> svalue option res" where
  "Store_Get now s ns key =
     (if st_closed s then Inl store_closed else Inr (live_value now s (nsKey ns) key))"

definition Store_Put :: "mem_store \<Rightarrow> string list \<Rightarrow> string \<Rightarrow> svalue \<Rightarrow> unit res \<times> mem_store" where
  "Store_Put s ns key v =
     (if st_closed s then (Inl store_closed, s) else (Inr (), set_value (nsKey ns) key v s))"

definition Store_Delete :: "mem_store \<Rightarrow> string list \<Rightarrow> string \<Rightarrow> unit res \<times> mem_store" where
  "Store_Delete s ns key =
     (if st_closed s then (Inl store_closed, s)
      else case mget (st_data s) (nsKey ns) of
        None \<Rightarrow> (Inr (), s)
      | Some m \<Rightarrow>
          (Inr (), s\<lparr>st_data := mput (nsKey ns) (mdel key m) (st_data s),
                    st_ttl := mdel (fullKey (nsKey ns) key) (st_ttl s)\<rparr>))"

record store_item =
  it_Value :: svalue
  it_Key :: string
  it_Namespace :: "string list"
  it_CreatedAt :: int
  it_UpdatedAt :: int
  it_ExpiresAt :: "int option"

definition item_of :: "int \<Rightarrow> mem_store \<Rightarrow> string list \<Rightarrow> string \<Rightarrow> string \<Rightarrow> svalue \<Rightarrow> store_item" where
  "item_of now s ns k key v =
     \<lparr>it_Value = v, it_Key = key, it_Namespace = ns, it_CreatedAt = now, it_UpdatedAt = now,
      it_ExpiresAt = mget (st_ttl s) (fullKey k key)\<rparr>"

definition GetItem :: "int \<Rightarrow> mem_store \<Rightarrow> string list \<Rightarrow> string \<Rightarrow> store_item option res" where
  "GetItem now s ns key =
     (if st_closed s then Inl store_closed
      else Inr (map_option (item_of now s ns (nsKey ns) key) (live_value now s (nsKey ns) key)))"

datatype index_arg = NoIndex | IndexCfg index_config | IndexFields "string list" | IndexFlag bool

fun first_embedding :: "svalue \<Rightarrow> string list \<Rightarrow> f64 list option" where
  "first_embedding v [] = None"
| "first_embedding v (f # fs) =
     (case mget v f of Some (Floats e) \<Rightarrow> Some e | _ \<Rightarrow> first_embedding v fs)"

definition index_item :: "index_arg \<Rightarrow> string \<Rightarrow> string \<Rightarrow> svalue \<Rightarrow> mem_store \<Rightarrow> mem_store" where
  "index_item idx k key v s =
     (case idx of
        NoIndex \<Rightarrow> s
      | IndexCfg c \<Rightarrow>
          (let s1 = s\<lparr>st_indexConfigs := mput k c (st_indexConfigs s)\<rparr>
           in if ic_Embed c \<and> ic_Fields c \<noteq> [] then
                (case first_embedding v (ic_Fields c) of
                   None \<Rightarrow> s1
                 | Some e \<Rightarrow>
                     s1\<lparr>st_indexes := mput k (mput key e (mgetd [] (st_indexes s1) k)) (st_indexes s1)\<rparr>)
              else s1)
      | IndexFields fs \<Rightarrow>
          (if fs \<noteq> []
           then s\<lparr>st_indexConfigs :=
                  mput k \<lparr>ic_Dims = 0, ic_Embed = False, ic_Fields = fs\<rparr> (st_indexConfigs s)\<rparr>
           else s)
      | IndexFlag b \<Rightarrow>
          (if b
           then s\<lparr>st_indexConfigs :=
                  mput k \<lparr>ic_Dims = 0, ic_Embed = False, ic_Fields = [''embedding'']\<rparr> (st_indexConfigs s)\<rparr>
           else s))"

definition PutItem ::
    "int \<Rightarrow> mem_store \<Rightarrow> string list \<Rightarrow> string \<Rightarrow> svalue \<Rightarrow> index_arg \<Rightarrow> int option \<Rightarrow>
     unit res \<times> mem_store" where
  "PutItem now s ns key v idx ttl =
     (if st_closed s then (Inl store_closed, s)
      else
        let k = nsKey ns;
            s1 = set_value k key v s;
            s2 = (case ttl of None \<Rightarrow> s1 | Some d \<Rightarrow> set_ttl k key (now + d) s1)
        in (Inr (), index_item idx k key v s2))"

definition SetTTL :: "int \<Rightarrow> mem_store \<Rightarrow> string list \<Rightarrow> string \<Rightarrow> int \<Rightarrow> unit res \<times> mem_store" where
  "SetTTL now s ns key ttl =
     (if st_closed s then (Inl store_closed, s)
      else if ttl \<le> 0 then (Inr (), s)
      else (Inr (), set_ttl (nsKey ns) key (now + ttl) s))"

definition BatchPut :: "mem_store \<Rightarrow> (string list \<times> string \<times> svalue) list \<Rightarrow> unit res \<times> mem_store" where
  "BatchPut s ops =
     (if st_closed s then (Inl store_closed, s)
      else (Inr (), foldl (\<lambda>s (ns, key, v). set_value (nsKey ns) key v s) s ops))"

definition Store_Clear :: "mem_store \<Rightarrow> mem_store" where
  "Store_Clear s = s\<lparr>st_data := [], st_ttl := []\<rparr>"

definition Store_Close :: "mem_store \<Rightarrow> mem_store" where
  "Store_Close s = (if st_closed s then s else s\<lparr>st_closed := True\<rparr>)"

text \<open>\<open>List\<close> is None for an unknown namespace (the nil slice).\<close>

definition take_limit :: "int \<Rightarrow> 'a list \<Rightarrow> 'a list" where
  "take_limit limit xs = (if 0 < limit then take (nat limit) xs else xs)"

definition Store_List :: "int \<Rightarrow> mem_store \<Rightarrow> string list \<Rightarrow> int \<Rightarrow> string list option res" where
  "Store_List now s ns limit =
     (if st_closed s then Inl store_closed
      else case mget (st_data s) (nsKey ns) of
        None \<Rightarrow> Inr None
      | Some m \<Rightarrow>
          Inr (Some (take_limit limit
            (filter (\<lambda>key. checkTTL now s (fullKey (nsKey ns) key)) (mkeys m)))))"

section \<open>Filters\<close>

text \<open>
  \<open>a == b\<close> on interface values: None is the panic on two values of one uncomparable type.
  Pointers are compared by what they point to.
\<close>

definition same_uncomparable :: "gval \<Rightarrow> gval \<Rightarrow> bool" where
  "same_uncomparable a b =
     (case (a, b) of
        (VBytes _, VBytes _) \<Rightarrow> True | (VList _, VList _) \<Rightarrow> True | (VMap _, VMap _) \<Rightarrow> True
      | (VBoolMap _, VBoolMap _) \<Rightarrow> True | (VIntMap _, VIntMap _) \<Rightarrow> True
      | (VIntMapMap _, VIntMapMap _) \<Rightarrow> True | (VMapList _, VMapList _) \<Rightarrow> True
      | (VStrs _, VStrs _) \<Rightarrow> True | (VFloats _, VFloats _) \<Rightarrow> True
      | _ \<Rightarrow> False)"

definition store_equal :: "store_value \<Rightarrow> store_value \<Rightarrow> bool option" where
  "store_equal a b =
     (case (a, b) of
        (Any (VFloat x), Any (VFloat y)) \<Rightarrow> Some (f64_eq x y)
      | (Any x, Any y) \<Rightarrow> (if same_uncomparable x y then None else Some (x = y))
      | (Floats _, Floats _) \<Rightarrow> None
      | _ \<Rightarrow> Some False)"

definition store_less :: "store_value \<Rightarrow> store_value \<Rightarrow> bool" where
  "store_less a b =
     (case (a, b) of
        (Any (VInt x), Any (VInt y)) \<Rightarrow> sint x < sint y
      | (Any (VNum KInt64 x), Any (VNum KInt64 y)) \<Rightarrow> x < y
      | (Any (VFloat x), Any (VFloat y)) \<Rightarrow> f64_less x y
      | (Any (VStr x), Any (VStr y)) \<Rightarrow> x < y
      | _ \<Rightarrow> False)"

definition lessThan :: "store_value \<Rightarrow> store_value \<Rightarrow> bool" where
  "lessThan a b = store_less a b"

definition greaterThan :: "store_value \<Rightarrow> store_value \<Rightarrow> bool" where
  "greaterThan a b = store_less b a"

fun in_loop :: "store_value \<Rightarrow> gval list \<Rightarrow> bool option" where
  "in_loop v [] = Some False"
| "in_loop v (x # xs) =
     (case store_equal v (Any x) of
        None \<Rightarrow> None | Some True \<Rightarrow> Some True | Some False \<Rightarrow> in_loop v xs)"

definition inArray :: "store_value \<Rightarrow> store_value \<Rightarrow> bool option" where
  "inArray v arr = (case arr of Any (VList xs) \<Rightarrow> in_loop v xs | _ \<Rightarrow> Some False)"

definition regexMatch ::
    "(string \<Rightarrow> (string \<Rightarrow> bool) option) \<Rightarrow> store_value \<Rightarrow> store_value \<Rightarrow> bool" where
  "regexMatch rx v pattern =
     (case (v, pattern) of
        (Any (VStr s), Any (VStr p)) \<Rightarrow> (case rx p of None \<Rightarrow> False | Some f \<Rightarrow> f s)
      | _ \<Rightarrow> False)"

definition or_else :: "bool \<Rightarrow> bool option \<Rightarrow> bool option" where
  "or_else b x = (if b then Some True else x)"

definition store_compare ::
    "(string \<Rightarrow> (string \<Rightarrow> bool) option) \<Rightarrow> store_value \<Rightarrow> string \<Rightarrow> store_value \<Rightarrow> bool option" where
  "store_compare rx v op x =
     (if op = ''$eq'' then store_equal v x
      else if op = ''$ne'' then map_option Not (store_equal v x)
      else if op = ''$gt'' then Some (greaterThan v x)
      else if op = ''$gte'' then or_else (greaterThan v x) (store_equal v x)
      else if op = ''$lt'' then Some (lessThan v x)
      else if op = ''$lte'' then or_else (lessThan v x) (store_equal v x)
      else if op = ''$in'' then inArray v x
      else if op = ''$nin'' then map_option Not (inArray v x)
      else if op = ''$regex'' then Some (regexMatch rx v x)
      else Some False)"

fun op_loop ::
    "(string \<Rightarrow> (string \<Rightarrow> bool) option) \<Rightarrow> store_value \<Rightarrow> gval gomap \<Rightarrow> bool option" where
  "op_loop rx v [] = Some True"
| "op_loop rx v ((op, x) # ops) =
     (case store_compare rx v op (Any x) of
        None \<Rightarrow> None | Some False \<Rightarrow> Some False | Some True \<Rightarrow> op_loop rx v ops)"

fun matchFilter ::
    "(string \<Rightarrow> (string \<Rightarrow> bool) option) \<Rightarrow> svalue \<Rightarrow> svalue \<Rightarrow> bool option" where
  "matchFilter rx v [] = Some True"
| "matchFilter rx v ((field, cond) # fs) =
     (case mget v field of
        None \<Rightarrow> Some False
      | Some fv \<Rightarrow>
          (case (case cond of Any (VMap ops) \<Rightarrow> op_loop rx fv ops | _ \<Rightarrow> store_compare rx fv ''$eq'' cond) of
             None \<Rightarrow> None | Some False \<Rightarrow> Some False | Some True \<Rightarrow> matchFilter rx v fs))"

fun has_prefix :: "string \<Rightarrow> string \<Rightarrow> bool" where
  "has_prefix [] s = True"
| "has_prefix (c # p) s = (case s of [] \<Rightarrow> False | d # s' \<Rightarrow> c = d \<and> has_prefix p s')"

fun has_substring :: "string \<Rightarrow> string \<Rightarrow> bool" where
  "has_substring sub [] = (sub = [])"
| "has_substring sub (c # s) = (has_prefix sub (c # s) \<or> has_substring sub s)"

definition matchQuery :: "(string \<Rightarrow> string) \<Rightarrow> svalue \<Rightarrow> string \<Rightarrow> bool" where
  "matchQuery low v query =
     list_ex (\<lambda>(k, x). case x of Any (VStr s) \<Rightarrow> has_substring (low query) (low s) | _ \<Rightarrow> False) v"

section \<open>Searching\<close>

definition Store_Search ::
    "(string \<Rightarrow> string) \<Rightarrow> int \<Rightarrow> mem_store \<Rightarrow> string list \<Rightarrow> string \<Rightarrow> int \<Rightarrow> svalue list option res" where
  "Store_Search low now s ns query limit =
     (if st_closed s then Inl store_closed
      else case mget (st_data s) (nsKey ns) of
        None \<Rightarrow> Inr None
      | Some m \<Rightarrow>
          Inr (Some (take_limit limit (map snd (filter
            (\<lambda>(key, v). checkTTL now s (fullKey (nsKey ns) key) \<and> (query = [] \<or> matchQuery low v query))
            m)))))"

text \<open>The test of one entry in a search with query and filter; None is a panic of the filter.\<close>

definition keep_entry ::
    "(string \<Rightarrow> (string \<Rightarrow> bool) option) \<Rightarrow> (string \<Rightarrow> string) \<Rightarrow> int \<Rightarrow> mem_store \<Rightarrow> string \<Rightarrow>
     string option \<Rightarrow> svalue option \<Rightarrow> string \<times> svalue \<Rightarrow> bool option" where
  "keep_entry rx low now s k query fltr e =
     (case e of (key, v) \<Rightarrow>
        (if \<not> checkTTL now s (fullKey k key) then Some False
         else if (case query of None \<Rightarrow> False | Some q \<Rightarrow> q \<noteq> [] \<and> \<not> matchQuery low v q) then Some False
         else case fltr of None \<Rightarrow> Some True | Some f \<Rightarrow> matchFilter rx v f))"

text \<open>The entries that pass, up to the limit; \<open>n\<close> have been collected already.\<close>

fun search_loop ::
    "('e \<Rightarrow> bool option) \<Rightarrow> int \<Rightarrow> nat \<Rightarrow> 'e list \<Rightarrow> 'e list option" where
  "search_loop p limit n [] = Some []"
| "search_loop p limit n (e # es) =
     (case p e of
        None \<Rightarrow> None
      | Some False \<Rightarrow> search_loop p limit n es
      | Some True \<Rightarrow>
          (if 0 < limit \<and> limit \<le> int (Suc n) then Some [e]
           else map_option ((#) e) (search_loop p limit (Suc n) es)))"

definition apply_offset :: "int \<Rightarrow> 'a list \<Rightarrow> 'a list" where
  "apply_offset offset xs = (if 0 < offset \<and> offset < int (length xs) then drop (nat offset) xs else xs)"

definition dot_product :: "f64 list \<Rightarrow> f64 list \<Rightarrow> f64" where
  "dot_product a b = foldl (\<lambda>acc (x, y). f64_add acc (f64_mul x y)) (Fin 0 0) (zip a b)"

definition cosineSimilarity :: "f64 list \<Rightarrow> f64 list \<Rightarrow> f64" where
  "cosineSimilarity a b =
     (if length a \<noteq> length b \<or> a = [] then Fin 0 0
      else
        let na = dot_product a a; nb = dot_product b b
        in if f64_eq na (Fin 0 0) \<or> f64_eq nb (Fin 0 0) then Fin 0 0
           else f64_div (dot_product a b) (f64_mul (f64_sqrt na) (f64_sqrt nb)))"

record search_item =
  si_Item :: store_item
  si_Score :: "f64 option"

fun insert_score :: "f64 \<times> 'a \<Rightarrow> (f64 \<times> 'a) list \<Rightarrow> (f64 \<times> 'a) list" where
  "insert_score x [] = [x]"
| "insert_score x (y # ys) = (if f64_less (fst y) (fst x) then x # y # ys else y # insert_score x ys)"

text \<open>Sorting by descending score; the order among equal scores is left as it was.\<close>

definition sort_scores :: "(f64 \<times> 'a) list \<Rightarrow> (f64 \<times> 'a) list" where
  "sort_scores xs = foldl (\<lambda>ys x. insert_score x ys) [] xs"

definition searchByEmbedding ::
    "int \<Rightarrow> mem_store \<Rightarrow> string \<Rightarrow> f64 list \<Rightarrow> int \<Rightarrow> search_item list option" where
  "searchByEmbedding now s k emb limit =
     (case mget (st_indexes s) k of
        None \<Rightarrow> None
      | Some idx \<Rightarrow>
          (let scored = concat (map (\<lambda>(key, e).
                 let score = cosineSimilarity emb e
                 in case live_value now s k key of
                      None \<Rightarrow> []
                    | Some v \<Rightarrow>
                        [(score, \<lparr>si_Item = item_of now s (split_on (CHR ''|'') k) k key v,
                                  si_Score = Some score\<rparr>)]) idx)
           in Some (map snd (take_limit limit (sort_scores scored)))))"

definition SearchItems ::
    "(string \<Rightarrow> (string \<Rightarrow> bool) option) \<Rightarrow> (string \<Rightarrow> string) \<Rightarrow> int \<Rightarrow> mem_store \<Rightarrow> string list \<Rightarrow>
     string option \<Rightarrow> svalue option \<Rightarrow> int \<Rightarrow> int \<Rightarrow> search_item list option res option" where
  "SearchItems rx low now s ns query fltr limit offset =
     (if st_closed s then Some (Inl store_closed)
      else case (case fltr of None \<Rightarrow> None | Some f \<Rightarrow> mget f ''$embedding'') of
        Some (Floats emb) \<Rightarrow>
          Some (Inr (map_option (apply_offset offset) (searchByEmbedding now s (nsKey ns) emb limit)))
      | _ \<Rightarrow>
          (case mget (st_data s) (nsKey ns) of
             None \<Rightarrow> Some (Inr None)
           | Some m \<Rightarrow>
               map_option (\<lambda>es. Inr (Some (apply_offset offset
                   (map (\<lambda>(key, v). \<lparr>si_Item = item_of now s ns (nsKey ns) key v, si_Score = None\<rparr>) es))))
                 (search_loop (keep_entry rx low now s (nsKey ns) query fltr) limit 0 m)))"

section \<open>Namespaces\<close>

record match_condition =
  mc_MatchType :: string
  mc_Path :: "string list"

fun matchNamespaceConditions :: "string list \<Rightarrow> match_condition list \<Rightarrow> bool" where
  "matchNamespaceConditions ns [] = False"
| "matchNamespaceConditions ns (c # cs) =
     (if mc_MatchType c = ''prefix''
      then length (mc_Path c) \<le> length ns \<and> take (length (mc_Path c)) ns = mc_Path c
      else if mc_MatchType c = ''suffix''
      then length (mc_Path c) \<le> length ns \<and> drop (length ns - length (mc_Path c)) ns = mc_Path c
      else matchNamespaceConditions ns cs)"

definition namespace_matches :: "string list \<Rightarrow> match_condition list \<Rightarrow> bool" where
  "namespace_matches ns cs = (cs = [] \<or> matchNamespaceConditions ns cs)"

definition put_absent :: "string \<Rightarrow> 'v \<Rightarrow> 'v gomap \<Rightarrow> 'v gomap" where
  "put_absent k v m = (if mhas m k then m else mput k v m)"

definition namespace_set :: "string list \<Rightarrow> string list gomap" where
  "namespace_set keys =
     foldl (\<lambda>m k. let parts = split_on (CHR ''|'') k
         in foldl (\<lambda>m i. put_absent (nsKey (take (Suc i) parts)) (take (Suc i) parts) m) m
              [0..<length parts]) [] keys"

text \<open>None: the slice expression with an offset beyond the length panics.\<close>

definition list_namespaces ::
    "mem_store \<Rightarrow> match_condition list \<Rightarrow> int option \<Rightarrow> int \<Rightarrow> int \<Rightarrow> string list list option" where
  "list_namespaces s conditions maxDepth limit offset =
     (let f1 = filter (\<lambda>ns. namespace_matches ns conditions) (map snd (namespace_set (mkeys (st_data s))));
          f2 = (case maxDepth of None \<Rightarrow> f1 | Some d \<Rightarrow> filter (\<lambda>ns. int (length ns) \<le> d) f1)
      in if int (length f2) < offset then None
         else Some (take_limit limit (if 0 < offset then drop (nat offset) f2 else f2)))"

definition ListNamespaces ::
    "mem_store \<Rightarrow> match_condition list \<Rightarrow> int option \<Rightarrow> int \<Rightarrow> int \<Rightarrow> string list list res option" where
  "ListNamespaces s conditions maxDepth limit offset =
     (if st_closed s then Some (Inl store_closed)
      else map_option Inr (list_namespaces s conditions maxDepth limit offset))"

section \<open>Batches\<close>

text \<open>
  A batch holds the write lock. \<open>ListNamespaces\<close> asks for the read lock of the same mutex, which
  is not reentrant, so an operation \<open>ListNamespacesOp\<close> blocks for ever.
\<close>

datatype store_op =
    GetOp "string list" string
  | PutOp "string list" string svalue "int option"
  | SearchOp "string list" "svalue option" int int "string option"
  | ListNamespacesOp "match_condition list" "int option" int int
  | UnknownOp

datatype store_result = RValue "svalue option" | RSearch "svalue list option" | RDone | RError gerror

datatype 'a run_end = Returned 'a | Panicked | Blocked

definition batch_op ::
    "(string \<Rightarrow> (string \<Rightarrow> bool) option) \<Rightarrow> (string \<Rightarrow> string) \<Rightarrow> int \<Rightarrow> store_op \<Rightarrow> mem_store \<Rightarrow>
     store_result run_end \<times> mem_store" where
  "batch_op rx low now op s =
     (case op of
        GetOp ns key \<Rightarrow> (Returned (RValue (live_value now s (nsKey ns) key)), s)
      | PutOp ns key v ttl \<Rightarrow>
          (let s1 = set_value (nsKey ns) key v s
           in (Returned RDone,
               case ttl of None \<Rightarrow> s1 | Some d \<Rightarrow> set_ttl (nsKey ns) key (now + d) s1))
      | SearchOp ns fltr limit offset query \<Rightarrow>
          (case mget (st_data s) (nsKey ns) of
             None \<Rightarrow> (Returned (RSearch None), s)
           | Some m \<Rightarrow>
               (case search_loop (keep_entry rx low now s (nsKey ns) query fltr) limit 0 m of
                  None \<Rightarrow> (Panicked, s)
                | Some es \<Rightarrow> (Returned (RSearch (Some (apply_offset offset (map snd es)))), s)))
      | ListNamespacesOp conditions maxDepth limit offset \<Rightarrow> (Blocked, s)
      | UnknownOp \<Rightarrow> (Returned (RError (Fail ''unknown operation type'')), s))"

fun batch_loop ::
    "(string \<Rightarrow> (string \<Rightarrow> bool) option) \<Rightarrow> (string \<Rightarrow> string) \<Rightarrow> int \<Rightarrow> store_op list \<Rightarrow> mem_store \<Rightarrow>
     store_result list run_end \<times> mem_store" where
  "batch_loop rx low now [] s = (Returned [], s)"
| "batch_loop rx low now (op # ops) s =
     (case batch_op rx low now op s of
        (Returned r, s1) \<Rightarrow>
          (case batch_loop rx low now ops s1 of
             (Returned rs, s2) \<Rightarrow> (Returned (r # rs), s2)
           | (Panicked, s2) \<Rightarrow> (Panicked, s2)
           | (Blocked, s2) \<Rightarrow> (Blocked, s2))
      | (Panicked, s1) \<Rightarrow> (Panicked, s1)
      | (Blocked, s1) \<Rightarrow> (Blocked, s1))"

definition Batch ::
    "(string \<Rightarrow> (string \<Rightarrow> bool) option) \<Rightarrow> (string \<Rightarrow> string) \<Rightarrow> int \<Rightarrow> store_op list \<Rightarrow> mem_store \<Rightarrow>
     store_result list res run_end \<times> mem_store" where
  "Batch rx low now ops s =
     (if st_closed s then (Returned (Inl store_closed), s)
      else case batch_loop rx low now ops s of
        (Returned rs, s1) \<Rightarrow> (Returned (Inr rs), s1)
      | (Panicked, s1) \<Rightarrow> (Panicked, s1)
      | (Blocked, s1) \<Rightarrow> (Blocked, s1))"

section \<open>The sweep\<close>

text \<open>One tick of \<open>cleanupExpired\<close>: the key is taken apart again at its colons.\<close>

definition drop_value :: "string \<Rightarrow> string \<Rightarrow> mem_store \<Rightarrow> mem_store" where
  "drop_value k key s =
     (case mget (st_data s) k of
        None \<Rightarrow> s
      | Some m \<Rightarrow>
          (let m1 = mdel key m
           in s\<lparr>st_data := (if m1 = [] then mdel k (st_data s) else mput k m1 (st_data s))\<rparr>))"

definition sweep_indexes :: "string \<Rightarrow> f64 list gomap gomap \<Rightarrow> f64 list gomap gomap" where
  "sweep_indexes fk idx =
     filter (\<lambda>(k, m). m \<noteq> []) (map (map_prod id (mdel fk)) idx)"

definition sweep_entry :: "int \<Rightarrow> mem_store \<Rightarrow> string \<times> int \<Rightarrow> mem_store" where
  "sweep_entry now s e =
     (case e of (fk, expiry) \<Rightarrow>
        (if expiry < now then
           (let s1 = (case split_on (CHR '':'') fk of [k, key] \<Rightarrow> drop_value k key s | _ \<Rightarrow> s)
            in s1\<lparr>st_ttl := mdel fk (st_ttl s1), st_indexes := sweep_indexes fk (st_indexes s1)\<rparr>)
         else s))"

definition sweep :: "int \<Rightarrow> mem_store \<Rightarrow> mem_store" where
  "sweep now s = foldl (sweep_entry now) s (st_ttl s)"

end
