(* ===== verification/StoreProps.thy ===== *)
theory StoreProps
  imports Store
begin

text \<open>
  The contract of the in-memory store: for names whose parts contain neither \<open>|\<close> nor \<open>:\<close> it is a
  partial map from names to values, with an expiry per name and the set of the namespaces it
  knows. The locale \<open>named_store\<close> states the interface, its interpretation \<open>mem\<close> discharges it for
  the model of \<open>store/memory.go\<close>. After it: batches, and what the sweep does to other names.
\<close>

section \<open>The abstract store\<close>

type_synonym name = "string list \<times> string"

record abstract_store =
  ab_value :: "name \<rightharpoonup> svalue"
  ab_expiry :: "name \<rightharpoonup> int"
  ab_spaces :: "string list set"

definition ab_live :: "int \<Rightarrow> abstract_store \<Rightarrow> name \<Rightarrow> svalue option" where
  "ab_live now a n =
     (case ab_expiry a n of
        None \<Rightarrow> ab_value a n
      | Some t \<Rightarrow> (if now < t then ab_value a n else None))"

definition ab_put :: "name \<Rightarrow> svalue \<Rightarrow> abstract_store \<Rightarrow> abstract_store" where
  "ab_put n v a = a\<lparr>ab_value := (ab_value a)(n \<mapsto> v), ab_spaces := insert (fst n) (ab_spaces a)\<rparr>"

definition ab_expire :: "name \<Rightarrow> int \<Rightarrow> abstract_store \<Rightarrow> abstract_store" where
  "ab_expire n t a = a\<lparr>ab_expiry := (ab_expiry a)(n \<mapsto> t)\<rparr>"

definition ab_delete :: "name \<Rightarrow> abstract_store \<Rightarrow> abstract_store" where
  "ab_delete n a =
     (if fst n \<in> ab_spaces a
      then a\<lparr>ab_value := (ab_value a)(n := None), ab_expiry := (ab_expiry a)(n := None)\<rparr> else a)"

definition ab_expired :: "int \<Rightarrow> abstract_store \<Rightarrow> name \<Rightarrow> bool" where
  "ab_expired now a n = (case ab_expiry a n of None \<Rightarrow> False | Some t \<Rightarrow> t < now)"

section \<open>Names\<close>

definition good_space :: "string list \<Rightarrow> bool" where
  "good_space ns = (ns \<noteq> [] \<and> list_all (\<lambda>c. CHR ''|'' \<notin> set c \<and> CHR '':'' \<notin> set c) ns)"

definition good_name :: "name \<Rightarrow> bool" where
  "good_name n = (good_space (fst n) \<and> CHR '':'' \<notin> set (snd n))"

definition name_key :: "name \<Rightarrow> string" where
  "name_key n = fullKey (nsKey (fst n)) (snd n)"

lemma nsKey_inj: "good_space ns \<Longrightarrow> good_space ns' \<Longrightarrow> nsKey ns = nsKey ns' \<longleftrightarrow> ns = ns'"
  unfolding good_space_def nsKey_def list_all_iff by (metis split_join)

lemma set_join: "c \<noteq> d \<Longrightarrow> \<forall>w \<in> set ws. d \<notin> set w \<Longrightarrow> d \<notin> set (join_with c ws)"
  by (induction c ws rule: join_with.induct) auto

lemma nsKey_no_colon: "good_space ns \<Longrightarrow> CHR '':'' \<notin> set (nsKey ns)"
  unfolding good_space_def nsKey_def list_all_iff by (rule set_join) auto

lemma split_name_key: "good_name n \<Longrightarrow> split_on (CHR '':'') (name_key n) = [nsKey (fst n), snd n]"
  by (simp add: good_name_def name_key_def fullKey_def split_on_append split_on_plain nsKey_no_colon)

lemma name_key_inj: "good_name n \<Longrightarrow> good_name n' \<Longrightarrow> name_key n = name_key n' \<longleftrightarrow> n = n'"
  using split_name_key [of n] split_name_key [of n'] nsKey_inj [of "fst n" "fst n'"]
  by (metis good_name_def list.inject prod_eq_iff)

section \<open>The abstraction\<close>

definition stored :: "mem_store \<Rightarrow> name \<Rightarrow> svalue option" where
  "stored s n =
     (case mget (st_data s) (nsKey (fst n)) of None \<Rightarrow> None | Some m \<Rightarrow> mget m (snd n))"

definition abs_store :: "mem_store \<Rightarrow> abstract_store" where
  "abs_store s =
     \<lparr>ab_value = (\<lambda>n. if good_name n then stored s n else None),
      ab_expiry = (\<lambda>n. if good_name n then mget (st_ttl s) (name_key n) else None),
      ab_spaces = {ns. good_space ns \<and> mhas (st_data s) (nsKey ns)}\<rparr>"

lemma stored_set_value:
  "stored (set_value k key v s) n =
     (if nsKey (fst n) = k \<and> snd n = key then Some v else stored s n)"
  by (auto simp: stored_def set_value_def mgetd_def split: option.splits)

lemma set_value_sel [simp]:
  "st_ttl (set_value k key v s) = st_ttl s" "st_closed (set_value k key v s) = st_closed s"
  "mhas (st_data (set_value k key v s)) k' \<longleftrightarrow> k' = k \<or> mhas (st_data s) k'"
  by (auto simp: set_value_def mhas_def)

lemma abs_set_value:
  assumes "good_name n"
  shows "abs_store (set_value (nsKey (fst n)) (snd n) v s) = ab_put n v (abs_store s)"
proof -
  have g: "good_space (fst n)" using assms by (simp add: good_name_def)
  show ?thesis
    using assms nsKey_inj [OF _ g]
    by (auto simp: abs_store_def ab_put_def stored_set_value good_name_def
          fun_eq_iff prod_eq_iff)
qed

lemma abs_set_ttl:
  assumes "good_name n"
  shows "abs_store (set_ttl (nsKey (fst n)) (snd n) t s) = ab_expire n t (abs_store s)"
  using assms name_key_inj [OF _ assms]
  by (auto simp: abs_store_def ab_expire_def set_ttl_def stored_def name_key_def fun_eq_iff)

lemma live_value_abs:
  "good_name n \<Longrightarrow> live_value now s (nsKey (fst n)) (snd n) = ab_live now (abs_store s) n"
  by (auto simp: live_value_def ab_live_def abs_store_def stored_def checkTTL_def name_key_def
        split: option.splits)

lemma abs_delete:
  assumes g: "good_name n" and open_: "\<not> st_closed s"
  shows "abs_store (snd (Store_Delete s (fst n) (snd n))) = ab_delete n (abs_store s)"
proof (cases "mget (st_data s) (nsKey (fst n))")
  case None
  then show ?thesis using g open_
    by (simp add: Store_Delete_def ab_delete_def abs_store_def mhas_def)
next
  case (Some m)
  have gs: "good_space (fst n)" using g by (simp add: good_name_def)
  have "stored (snd (Store_Delete s (fst n) (snd n))) n' = (if n' = n then None else stored s n')"
    if "good_name n'" for n'
    using Some open_ nsKey_inj [of "fst n'" "fst n"] that gs
    by (auto simp: Store_Delete_def stored_def good_name_def prod_eq_iff)
  moreover have "mget (st_ttl (snd (Store_Delete s (fst n) (snd n)))) (name_key n') =
      (if n' = n then None else mget (st_ttl s) (name_key n'))" if "good_name n'" for n'
    using Some open_ name_key_inj [OF that g] by (simp add: Store_Delete_def name_key_def)
  moreover have "mhas (st_data (snd (Store_Delete s (fst n) (snd n)))) k = mhas (st_data s) k" for k
    using Some open_ by (auto simp: Store_Delete_def mhas_def)
  ultimately show ?thesis
    using Some gs g by (auto simp: abs_store_def ab_delete_def mhas_def fun_eq_iff)
qed


section \<open>The sweep\<close>

definition ab_drop :: "int \<Rightarrow> name \<times> int \<Rightarrow> abstract_store \<Rightarrow> abstract_store" where
  "ab_drop now e a =
     (if snd e < now then
        (let v = (ab_value a)(fst e := None)
         in a\<lparr>ab_value := v, ab_expiry := (ab_expiry a)(fst e := None),
              ab_spaces := ab_spaces a - {ns. ns = fst (fst e) \<and> (\<forall>key. v (ns, key) = None)}\<rparr>)
      else a)"

lemma mdel_empty_other: "mdel k m = [] \<Longrightarrow> k' \<noteq> k \<Longrightarrow> mget m k' = None"
  by (metis mget_mdel mget_nil)

lemma stored_drop_value:
  "stored (drop_value k key s) n =
     (if nsKey (fst n) = k \<and> snd n = key then None else stored s n)"
  by (auto simp: stored_def drop_value_def Let_def dest: mdel_empty_other split: option.splits)

lemma mhas_drop_value:
  "mhas (st_data (drop_value k key s)) k' \<longleftrightarrow>
     mhas (st_data s) k' \<and> (k' = k \<longrightarrow> (\<exists>key'. key' \<noteq> key \<and> mget (mgetd [] (st_data s) k) key' \<noteq> None))"
proof (cases "mget (st_data s) k")
  case None
  then show ?thesis by (auto simp: drop_value_def mhas_def mgetd_def)
next
  case (Some m)
  have "mdel key m \<noteq> [] \<longleftrightarrow> (\<exists>key'. key' \<noteq> key \<and> mget m key' \<noteq> None)"
  proof
    assume "mdel key m \<noteq> []"
    then obtain p ps where "mdel key m = p # ps" by (cases "mdel key m") auto
    then have "mget (mdel key m) (fst p) \<noteq> None" by (cases p) simp
    then show "\<exists>key'. key' \<noteq> key \<and> mget m key' \<noteq> None"
      by (auto split: if_splits)
  qed (auto dest: mdel_empty_other)
  with Some show ?thesis by (auto simp: drop_value_def mhas_def mgetd_def Let_def)
qed

text \<open>The states that only good names have been used with.\<close>

definition store_inv :: "mem_store \<Rightarrow> bool" where
  "store_inv s =
     (\<not> st_closed s \<and> mwf (st_ttl s) \<and>
      (\<forall>k \<in> set (mkeys (st_ttl s)). \<exists>n. good_name n \<and> k = name_key n) \<and>
      (\<forall>ns key. good_space ns \<longrightarrow> stored s (ns, key) \<noteq> None \<longrightarrow> good_name (ns, key)))"

lemma drop_value_sel [simp]:
  "st_ttl (drop_value k key s) = st_ttl s" "st_closed (drop_value k key s) = st_closed s"
  by (simp_all add: drop_value_def Let_def split: option.splits)

lemma sweep_entry_good:
  assumes "good_name n" and "t < now"
  shows "sweep_entry now s (name_key n, t) =
     (let s1 = drop_value (nsKey (fst n)) (snd n) s
      in s1\<lparr>st_ttl := mdel (name_key n) (st_ttl s1),
            st_indexes := sweep_indexes (name_key n) (st_indexes s1)\<rparr>)"
  using assms by (simp add: sweep_entry_def split_name_key)

lemma sweep_entry_abs:
  assumes g: "good_name n" and inv: "store_inv s"
  shows "abs_store (sweep_entry now s (name_key n, t)) = ab_drop now (n, t) (abs_store s) \<and>
         store_inv (sweep_entry now s (name_key n, t))"
proof (cases "t < now")
  case False
  then show ?thesis using inv by (simp add: sweep_entry_def ab_drop_def)
next
  case True
  let ?s = "sweep_entry now s (name_key n, t)"
  have gs: "good_space (fst n)" using g by (simp add: good_name_def)
  have ttl: "st_ttl ?s = mdel (name_key n) (st_ttl s)" and closed: "st_closed ?s = st_closed s"
    and data: "st_data ?s = st_data (drop_value (nsKey (fst n)) (snd n) s)"
    using sweep_entry_good [OF g True, of s] by (simp_all add: Let_def)
  have st: "stored ?s n' = (if n' = n then None else stored s n')" if "good_space (fst n')" for n'
    using stored_drop_value [of "nsKey (fst n)" "snd n" s n'] nsKey_inj [OF that gs]
    by (auto simp: stored_def data prod_eq_iff)
  have inv': "good_name (fst n, key)" if "stored s (fst n, key) \<noteq> None" for key
    using inv that gs by (auto simp: store_inv_def)
  have vals: "mget (mgetd [] (st_data s) (nsKey (fst n))) key = stored s (fst n, key)" for key
    by (simp add: stored_def mgetd_def split: option.splits)
  have sp: "mhas (st_data ?s) (nsKey ns) \<longleftrightarrow> mhas (st_data s) (nsKey ns) \<and>
      (ns = fst n \<longrightarrow> (\<exists>key. key \<noteq> snd n \<and> stored s (fst n, key) \<noteq> None))"
    if "good_space ns" for ns
    using nsKey_inj [OF that gs] by (simp add: data mhas_drop_value vals)
  have "ab_value (abs_store ?s) = (ab_value (abs_store s))(n := None)"
    using st by (auto simp: abs_store_def good_name_def fun_eq_iff)
  moreover have "ab_expiry (abs_store ?s) = (ab_expiry (abs_store s))(n := None)"
    using name_key_inj [OF _ g] by (auto simp: abs_store_def ttl fun_eq_iff)
  moreover have "ab_spaces (abs_store ?s) = ab_spaces (abs_store s) -
      {ns. ns = fst n \<and> (\<forall>key. ((ab_value (abs_store s))(n := None)) (ns, key) = None)}"
    (is "_ = _ - ?E")
  proof (rule set_eqI)
    fix ns
    have "ns \<in> ?E \<longleftrightarrow> ns = fst n \<and> (\<forall>key. key \<noteq> snd n \<longrightarrow> stored s (fst n, key) = None)"
    proof -
      have "ab_value (abs_store s) (fst n, key) = stored s (fst n, key)" for key
        using inv' [of key] by (cases "stored s (fst n, key)") (simp_all add: abs_store_def)
      then show ?thesis by (cases n) auto
    qed
    then show "ns \<in> ab_spaces (abs_store ?s) \<longleftrightarrow> ns \<in> ab_spaces (abs_store s) - ?E"
      using sp [of ns] by (simp add: abs_store_def) blast
  qed
  ultimately have "abs_store ?s = ab_drop now (n, t) (abs_store s)"
    using True by (simp add: ab_drop_def Let_def)
  moreover have "store_inv ?s"
    using inv st by (auto simp: store_inv_def ttl closed mkeys_mdel split: if_splits)
  ultimately show ?thesis by simp
qed

definition ab_remove :: "name set \<Rightarrow> abstract_store \<Rightarrow> abstract_store" where
  "ab_remove X a =
     (let v = (\<lambda>n. if n \<in> X then None else ab_value a n)
      in a\<lparr>ab_value := v, ab_expiry := (\<lambda>n. if n \<in> X then None else ab_expiry a n),
           ab_spaces := ab_spaces a - {ns. (\<exists>key. (ns, key) \<in> X) \<and> (\<forall>key. v (ns, key) = None)}\<rparr>)"

text \<open>The sweep, abstractly: every expired name goes, and every namespace that this empties.\<close>

definition ab_sweep :: "int \<Rightarrow> abstract_store \<Rightarrow> abstract_store" where
  "ab_sweep now a = ab_remove {n. ab_expired now a n} a"

lemma ab_drop_remove:
  assumes "t < now"
  shows "ab_drop now (n, t) (ab_remove X a) = ab_remove (insert n X) a"
proof (rule abstract_store.equality)
  show "ab_spaces (ab_drop now (n, t) (ab_remove X a)) = ab_spaces (ab_remove (insert n X) a)"
    using assms by (cases n) (auto simp: ab_drop_def ab_remove_def Let_def)
qed (use assms in \<open>auto simp: ab_drop_def ab_remove_def Let_def fun_eq_iff\<close>)

lemma ab_drop_fold:
  "foldl (\<lambda>a e. ab_drop now e a) a es = ab_remove {n. \<exists>t. (n, t) \<in> set es \<and> t < now} a"
proof (induction es rule: rev_induct)
  case Nil
  show ?case by (simp add: ab_remove_def)
next
  case (snoc e es)
  obtain n t where e: "e = (n, t)" by (cases e)
  let ?X = "{n. \<exists>t. (n, t) \<in> set es \<and> t < now}"
  show ?case
  proof (cases "t < now")
    case False
    then have "{n'. \<exists>t. (n', t) \<in> set (es @ [e]) \<and> t < now} = ?X" by (auto simp: e)
    then show ?thesis using snoc False by (simp add: e ab_drop_def)
  next
    case True
    then have "{n'. \<exists>t. (n', t) \<in> set (es @ [e]) \<and> t < now} = insert n ?X" by (auto simp: e)
    with snoc ab_drop_remove [OF True, of n ?X a] show ?thesis by (simp add: e)
  qed
qed

lemma sweep_fold_abs:
  assumes "store_inv s" and "\<forall>e \<in> set es. \<exists>n. good_name n \<and> fst e = name_key n"
  shows "\<exists>es'. map (\<lambda>(n, t). (name_key n, t)) es' = es \<and> (\<forall>e \<in> set es'. good_name (fst e)) \<and>
           abs_store (foldl (sweep_entry now) s es) = foldl (\<lambda>a e. ab_drop now e a) (abs_store s) es' \<and>
           store_inv (foldl (sweep_entry now) s es)"
  using assms
proof (induction es arbitrary: s)
  case Nil
  then show ?case by simp
next
  case (Cons e es)
  then obtain n t where g: "good_name n" and e: "e = (name_key n, t)" by (cases e) auto
  note step = sweep_entry_abs [OF g Cons.prems(1), of now t]
  from Cons.IH [of "sweep_entry now s e"] step Cons.prems(2) obtain es' where
    "map (\<lambda>(n, t). (name_key n, t)) es' = es" "\<forall>e \<in> set es'. good_name (fst e)"
    "abs_store (foldl (sweep_entry now) (sweep_entry now s e) es) =
       foldl (\<lambda>a e. ab_drop now e a) (abs_store (sweep_entry now s e)) es'"
    "store_inv (foldl (sweep_entry now) (sweep_entry now s e) es)"
    by (auto simp: e)
  then show ?case using step g by (intro exI [of _ "(n, t) # es'"]) (simp add: e)
qed

lemma abs_sweep:
  assumes inv: "store_inv s"
  shows "abs_store (sweep now s) = ab_sweep now (abs_store s)" and "store_inv (sweep now s)"
proof -
  have wf: "mwf (st_ttl s)" using inv by (simp add: store_inv_def)
  have keys: "\<forall>e \<in> set (st_ttl s). \<exists>n. good_name n \<and> fst e = name_key n"
    using inv by (auto simp: store_inv_def mkeys_def)
  from sweep_fold_abs [OF inv keys, of now] obtain es where
    es: "map (\<lambda>(n, t). (name_key n, t)) es = st_ttl s" "\<forall>e \<in> set es. good_name (fst e)" and
    fold: "abs_store (foldl (sweep_entry now) s (st_ttl s)) =
             foldl (\<lambda>a e. ab_drop now e a) (abs_store s) es" and
    inv': "store_inv (foldl (sweep_entry now) s (st_ttl s))"
    by blast
  have mem: "(n, t) \<in> set es \<longleftrightarrow> good_name n \<and> mget (st_ttl s) (name_key n) = Some t" for n t
  proof
    assume m: "(n, t) \<in> set es"
    then have "(name_key n, t) \<in> set (st_ttl s)" by (auto simp flip: es(1) intro: rev_image_eqI)
    then show "good_name n \<and> mget (st_ttl s) (name_key n) = Some t"
      using m es(2) mem_mget [OF wf] by auto
  next
    assume r: "good_name n \<and> mget (st_ttl s) (name_key n) = Some t"
    then have "(name_key n, t) \<in> set (st_ttl s)" by (simp add: mget_Some_mem)
    then obtain n' where n': "(n', t) \<in> set es" "name_key n' = name_key n"
      by (auto simp flip: es(1))
    have "n' = n" using n' r es(2) name_key_inj [of n' n] by auto
    with n' show "(n, t) \<in> set es" by simp
  qed
  have "{n. \<exists>t. (n, t) \<in> set es \<and> t < now} = {n. ab_expired now (abs_store s) n}"
    by (auto simp: mem ab_expired_def abs_store_def split: option.splits)
  then show "abs_store (sweep now s) = ab_sweep now (abs_store s)"
    by (simp add: sweep_def fold ab_drop_fold ab_sweep_def)
  show "store_inv (sweep now s)" using inv' by (simp add: sweep_def)
qed

section \<open>The interface\<close>

datatype store_cmd =
    SGet name | SPut name svalue | SPutTTL name svalue int | SDelete name | SExpire name int | SSweep

fun good_cmd :: "store_cmd \<Rightarrow> bool" where
  "good_cmd (SGet n) = good_name n"
| "good_cmd (SPut n v) = good_name n"
| "good_cmd (SPutTTL n v d) = good_name n"
| "good_cmd (SDelete n) = good_name n"
| "good_cmd (SExpire n d) = good_name n"
| "good_cmd SSweep = True"

fun ab_step :: "int \<Rightarrow> store_cmd \<Rightarrow> abstract_store \<Rightarrow> svalue option \<times> abstract_store" where
  "ab_step now (SGet n) a = (ab_live now a n, a)"
| "ab_step now (SPut n v) a = (None, ab_put n v a)"
| "ab_step now (SPutTTL n v d) a = (None, ab_expire n (now + d) (ab_put n v a))"
| "ab_step now (SDelete n) a = (None, ab_delete n a)"
| "ab_step now (SExpire n d) a = (None, if d \<le> 0 then a else ab_expire n (now + d) a)"
| "ab_step now SSweep a = (None, ab_sweep now a)"

fun mem_step :: "int \<Rightarrow> store_cmd \<Rightarrow> mem_store \<Rightarrow> svalue option \<times> mem_store" where
  "mem_step now (SGet n) s =
     (case Store_Get now s (fst n) (snd n) of Inl e \<Rightarrow> None | Inr v \<Rightarrow> v, s)"
| "mem_step now (SPut n v) s = (None, snd (Store_Put s (fst n) (snd n) v))"
| "mem_step now (SPutTTL n v d) s = (None, snd (PutItem now s (fst n) (snd n) v NoIndex (Some d)))"
| "mem_step now (SDelete n) s = (None, snd (Store_Delete s (fst n) (snd n)))"
| "mem_step now (SExpire n d) s = (None, snd (SetTTL now s (fst n) (snd n) d))"
| "mem_step now SSweep s = (None, sweep now s)"

text \<open>A history: commands with the clock at which each of them ran, and what they returned.\<close>

fun run_cmds ::
    "(int \<Rightarrow> store_cmd \<Rightarrow> 's \<Rightarrow> svalue option \<times> 's) \<Rightarrow> (int \<times> store_cmd) list \<Rightarrow> 's \<Rightarrow>
     svalue option list \<times> 's" where
  "run_cmds f [] s = ([], s)"
| "run_cmds f ((now, c) # cs) s =
     (let (r, s1) = f now c s; (rs, s2) = run_cmds f cs s1 in (r # rs, s2))"

locale named_store =
  fixes exec :: "int \<Rightarrow> store_cmd \<Rightarrow> 's \<Rightarrow> svalue option \<times> 's"
    and abs :: "'s \<Rightarrow> abstract_store"
    and inv :: "'s \<Rightarrow> bool"
  assumes exec_result: "inv s \<Longrightarrow> good_cmd c \<Longrightarrow> fst (exec now c s) = fst (ab_step now c (abs s))"
    and exec_abs: "inv s \<Longrightarrow> good_cmd c \<Longrightarrow> abs (snd (exec now c s)) = snd (ab_step now c (abs s))"
    and exec_inv: "inv s \<Longrightarrow> good_cmd c \<Longrightarrow> inv (snd (exec now c s))"
begin

lemma run_refines:
  "inv s \<Longrightarrow> list_all (good_cmd \<circ> snd) cs \<Longrightarrow>
     map_prod id abs (run_cmds exec cs s) = run_cmds ab_step cs (abs s)"
proof (induction cs arbitrary: s)
  case Nil
  then show ?case by simp
next
  case (Cons tc cs)
  obtain now c where tc: "tc = (now, c)" by (cases tc)
  have g: "good_cmd c" using Cons.prems tc by simp
  have "map_prod id abs (run_cmds exec cs (snd (exec now c s))) =
      run_cmds ab_step cs (snd (ab_step now c (abs s)))"
    unfolding exec_abs [OF Cons.prems(1) g, symmetric]
    by (rule Cons.IH [OF exec_inv [OF Cons.prems(1) g]]) (use Cons.prems(2) in simp)
  then show ?case
    using exec_result [OF Cons.prems(1) g, of now]
    by (cases "exec now c s"; cases "ab_step now c (abs s)";
        cases "run_cmds exec cs (snd (exec now c s))") (auto simp: tc split: prod.splits)
qed

end

lemma store_inv_ops:
  assumes "store_inv s" and "good_name n"
  shows "store_inv (set_value (nsKey (fst n)) (snd n) v s)"
    and "store_inv (set_ttl (nsKey (fst n)) (snd n) t s)"
    and "store_inv (snd (Store_Delete s (fst n) (snd n)))"
proof -
  have gs: "good_space (fst n)" using assms(2) by (simp add: good_name_def)
  show "store_inv (set_value (nsKey (fst n)) (snd n) v s)"
    using assms nsKey_inj [OF _ gs]
    by (auto simp: store_inv_def stored_set_value good_name_def split: if_splits)
  show "store_inv (set_ttl (nsKey (fst n)) (snd n) t s)"
    using assms by (auto simp: store_inv_def set_ttl_def stored_def mkeys_mput name_key_def
        simp del: split_paired_Ex)
  show "store_inv (snd (Store_Delete s (fst n) (snd n)))"
    using assms
    by (auto simp: store_inv_def Store_Delete_def stored_def mkeys_mdel split: option.splits if_splits)
qed

interpretation mem: named_store mem_step abs_store store_inv
proof
  fix s :: mem_store and c now
  assume inv: "store_inv s" and g: "good_cmd c"
  have open_: "\<not> st_closed s" using inv by (simp add: store_inv_def)
  show "fst (mem_step now c s) = fst (ab_step now c (abs_store s))"
    using g open_ by (cases c) (simp_all add: Store_Get_def live_value_abs)
  show "abs_store (snd (mem_step now c s)) = snd (ab_step now c (abs_store s))"
    using g open_ inv
    by (cases c) (simp_all add: Store_Put_def PutItem_def SetTTL_def index_item_def Let_def
        abs_set_value abs_set_ttl abs_delete abs_sweep)
  show "store_inv (snd (mem_step now c s))"
    using g open_ inv
    by (cases c) (simp_all add: Store_Put_def PutItem_def SetTTL_def index_item_def Let_def
        store_inv_ops abs_sweep)
qed

section \<open>Properties\<close>

lemma fresh_store: "store_inv NewInMemoryStore"
    "abs_store NewInMemoryStore = \<lparr>ab_value = Map.empty, ab_expiry = Map.empty, ab_spaces = {}\<rparr>"
  by (auto simp: NewInMemoryStore_def store_inv_def abs_store_def stored_def mhas_def)



text \<open>A batch without \<open>ListNamespacesOp\<close>, and whose filters do not panic, returns.\<close>

definition lists_namespaces :: "store_op \<Rightarrow> bool" where
  "lists_namespaces op = (case op of ListNamespacesOp _ _ _ _ \<Rightarrow> True | _ \<Rightarrow> False)"

lemma search_loop_returns: "\<forall>e \<in> set es. p e \<noteq> None \<Longrightarrow> search_loop p limit n es \<noteq> None"
  by (induction p limit n es rule: search_loop.induct) (auto split: option.splits bool.splits)

lemma keep_entry_unfiltered: "keep_entry rx low now s k query None e \<noteq> None"
  unfolding keep_entry_def by (auto split: prod.splits if_splits)

lemma search_unfiltered:
  "search_loop (keep_entry rx low now s k query None) limit n es \<noteq> None"
  by (rule search_loop_returns) (use keep_entry_unfiltered in blast)

definition unfiltered :: "store_op \<Rightarrow> bool" where
  "unfiltered op = (case op of SearchOp _ f _ _ _ \<Rightarrow> f = None | _ \<Rightarrow> True)"

lemma batch_op_returns:
  "unfiltered op \<Longrightarrow>
     (\<exists>r. fst (batch_op rx low now op s) = Returned r) \<longleftrightarrow> \<not> lists_namespaces op"
  by (cases op) (auto simp: batch_op_def lists_namespaces_def unfiltered_def Let_def
      search_unfiltered split: option.splits)

lemma batch_op_ends:
  "unfiltered op \<Longrightarrow> fst (batch_op rx low now op s) = Blocked \<longleftrightarrow> lists_namespaces op"
  using batch_op_returns [of op rx low now s]
  by (cases op) (auto simp: batch_op_def lists_namespaces_def Let_def split: option.splits)

lemma batch_loop_ends:
  "list_all unfiltered ops \<Longrightarrow>
     (if list_ex lists_namespaces ops then fst (batch_loop rx low now ops s) = Blocked
      else \<exists>rs. fst (batch_loop rx low now ops s) = Returned rs \<and> length rs = length ops)"
proof (induction ops arbitrary: s)
  case Nil
  then show ?case by simp
next
  case (Cons op ops)
  obtain r s1 where step: "batch_op rx low now op s = (r, s1)"
    by (cases "batch_op rx low now op s")
  have un: "unfiltered op" "list_all unfiltered ops" using Cons.prems by auto
  show ?case
  proof (cases "lists_namespaces op")
    case True
    then show ?thesis using batch_op_ends [OF un(1), of rx low now s] step by simp
  next
    case False
    then obtain x where "r = Returned x"
      using batch_op_returns [OF un(1), of rx low now s] step by auto
    then show ?thesis
      using Cons.IH [OF un(2), of s1] step False by (auto split: prod.splits)
  qed
qed



lemma split_on_count: "length (split_on c s) = Suc (length (filter ((=) c) s))"
  by (induction s) (auto split: list.splits)

lemma sweep_entry_colon:
  "length (filter ((=) (CHR '':'')) fk) \<noteq> 1 \<Longrightarrow> t < now \<Longrightarrow>
     st_data (sweep_entry now s (fk, t)) = st_data s \<and>
     st_ttl (sweep_entry now s (fk, t)) = mdel fk (st_ttl s)"
  using split_on_count [of "CHR '':''" fk]
  by (auto simp: sweep_entry_def Let_def split: list.splits)

lemma Put_alone:
  "st_ttl (snd (PutItem t0 NewInMemoryStore ns key v NoIndex (Some d))) = [(fullKey (nsKey ns) key, t0 + d)] \<and>
   st_data (snd (PutItem t0 NewInMemoryStore ns key v NoIndex (Some d))) = [(nsKey ns, [(key, v)])] \<and>
   \<not> st_closed (snd (PutItem t0 NewInMemoryStore ns key v NoIndex (Some d)))"
  by (simp add: PutItem_def NewInMemoryStore_def set_value_def set_ttl_def index_item_def mgetd_def Let_def)

text \<open>
  a value written with an expiry under a key that contains a colon is invisible from its expiry
  on, but the sweep that runs after it forgets only the expiry, so the value is back afterwards.
\<close>

lemma sweep_revives_colon_key:
  assumes "CHR '':'' \<in> set key" and "t0 + d < now"
  shows "Store_Get now (snd (PutItem t0 NewInMemoryStore ns key v NoIndex (Some d))) ns key = Inr None \<and>
    Store_Get now (sweep now (snd (PutItem t0 NewInMemoryStore ns key v NoIndex (Some d)))) ns key = Inr (Some v)"
proof -
  let ?s = "snd (PutItem t0 NewInMemoryStore ns key v NoIndex (Some d))"
  let ?fk = "fullKey (nsKey ns) key"
  have "filter ((=) (CHR '':'')) key \<noteq> []" using assms(1) by (auto simp: filter_empty_conv)
  then have "length (filter ((=) (CHR '':'')) ?fk) \<noteq> 1" by (simp add: fullKey_def)
  from sweep_entry_colon [OF this assms(2), of ?s] Put_alone [of t0 ns key v d]
  have "st_data (sweep now ?s) = [(nsKey ns, [(key, v)])]" "st_ttl (sweep now ?s) = []"
    by (simp_all add: sweep_def)
  moreover have "\<not> st_closed (sweep now ?s)"
    using Put_alone [of t0 ns key v d] assms(2)
    by (simp add: sweep_def sweep_entry_def Let_def split: list.splits)
  ultimately show ?thesis
    using Put_alone [of t0 ns key v d] assms(2)
    by (simp add: Store_Get_def live_value_def checkTTL_def)
qed

lemma sweep_revives_colon_key_witness:
  "Store_Get 9 (sweep 9 (snd (PutItem 0 NewInMemoryStore [''a''] ''user:1'' [] NoIndex (Some 5)))) [''a''] ''user:1''
     = Inr (Some [])"
  using sweep_revives_colon_key [of "''user:1''" 0 5 9] by simp

end
