(* ===== verification/Cache.thy ===== *)
theory Cache
  imports GoValues
begin

text \<open>
  The node cache of \<open>pregel/cache.go\<close> and \<open>pregel/cache_async.go\<close>: the in-memory cache with its
  eviction policies, the executor that consults a cache before it runs a function, and the
  asynchronous cache, whose operations wait in a queue until a worker takes them. The locale
  \<open>node_cache\<close> is what an executor relies on; the in-memory, the empty and the asynchronous
  cache are its instances. Times are nanoseconds and \<open>now\<close> is the clock during an operation.
\<close>

section \<open>The in-memory cache\<close>

datatype eviction_policy = EvictLRU | EvictLFU | EvictRandom

record 'v cache_entry =
  ce_value :: 'v
  ce_expiration :: "int option"
  ce_lastAccess :: int
  ce_hits :: "64 word"

record 'v memory_cache =
  mc_data :: "'v cache_entry gomap"
  mc_maxSize :: int
  mc_eviction :: eviction_policy

definition NewMemoryCache :: "int \<Rightarrow> eviction_policy \<Rightarrow> 'v memory_cache" where
  "NewMemoryCache maxSize eviction = \<lparr>mc_data = [], mc_maxSize = maxSize, mc_eviction = eviction\<rparr>"

text \<open>An entry past its expiration is not returned, and not removed either.\<close>

definition Cache_Get :: "int \<Rightarrow> 'v memory_cache \<Rightarrow> string \<Rightarrow> 'v option \<times> 'v memory_cache" where
  "Cache_Get now c key =
     (case mget (mc_data c) key of
        None \<Rightarrow> (None, c)
      | Some e \<Rightarrow>
          (if (case ce_expiration e of None \<Rightarrow> False | Some t \<Rightarrow> t < now) then (None, c)
           else (Some (ce_value e),
                 c\<lparr>mc_data := mput key (e\<lparr>ce_hits := ce_hits e + 1, ce_lastAccess := now\<rparr>) (mc_data c)\<rparr>)))"

text \<open>The two searches of \<open>evict\<close>: \<open>oldest\<close> is None while it is the zero time.\<close>

fun lru_loop :: "int option \<Rightarrow> string \<Rightarrow> 'v cache_entry gomap \<Rightarrow> string" where
  "lru_loop oldest key [] = key"
| "lru_loop oldest key ((k, e) # m) =
     (if (case oldest of None \<Rightarrow> True | Some t \<Rightarrow> ce_lastAccess e < t)
      then lru_loop (Some (ce_lastAccess e)) k m else lru_loop oldest key m)"

fun lfu_loop :: "64 word \<Rightarrow> string \<Rightarrow> 'v cache_entry gomap \<Rightarrow> string" where
  "lfu_loop minHits key [] = key"
| "lfu_loop minHits key ((k, e) # m) =
     (if minHits = - 1 \<or> sint (ce_hits e) < sint minHits
      then lfu_loop (ce_hits e) k m else lfu_loop minHits key m)"

definition keyToDelete :: "'v memory_cache \<Rightarrow> string" where
  "keyToDelete c =
     (case mc_eviction c of
        EvictLRU \<Rightarrow> lru_loop None [] (mc_data c)
      | EvictLFU \<Rightarrow> lfu_loop (- 1) [] (mc_data c)
      | EvictRandom \<Rightarrow> (case mc_data c of [] \<Rightarrow> [] | (k, _) # _ \<Rightarrow> k))"

definition evict :: "'v memory_cache \<Rightarrow> 'v memory_cache" where
  "evict c =
     (if mc_data c = [] then c
      else if keyToDelete c \<noteq> [] then c\<lparr>mc_data := mdel (keyToDelete c) (mc_data c)\<rparr> else c)"

definition Cache_Set :: "int \<Rightarrow> 'v memory_cache \<Rightarrow> string \<Rightarrow> 'v \<Rightarrow> int \<Rightarrow> 'v memory_cache" where
  "Cache_Set now c key v ttl =
     (let c1 = (if mc_maxSize c \<le> int (length (mc_data c)) then evict c else c)
      in c1\<lparr>mc_data := mput key
              \<lparr>ce_value = v, ce_expiration = (if 0 < ttl then Some (now + ttl) else None),
               ce_lastAccess = now, ce_hits = 0\<rparr> (mc_data c1)\<rparr>)"

definition Cache_Delete :: "'v memory_cache \<Rightarrow> string \<Rightarrow> 'v memory_cache" where
  "Cache_Delete c key = c\<lparr>mc_data := mdel key (mc_data c)\<rparr>"

definition Cache_Clear :: "'v memory_cache \<Rightarrow> 'v memory_cache" where
  "Cache_Clear c = c\<lparr>mc_data := []\<rparr>"

lemma lru_loop_min:
  "m \<noteq> [] \<or> oldest \<noteq> None \<Longrightarrow>
     (\<exists>e. (lru_loop oldest key m, e) \<in> set m \<and> (\<forall>t. oldest = Some t \<longrightarrow> ce_lastAccess e < t) \<and>
          (\<forall>e' \<in> snd ` set m. ce_lastAccess e \<le> ce_lastAccess e')) \<or>
     (\<exists>t. oldest = Some t \<and> lru_loop oldest key m = key \<and> (\<forall>e' \<in> snd ` set m. t \<le> ce_lastAccess e'))"
proof (induction oldest key m rule: lru_loop.induct)
  case (1 oldest key)
  then show ?case by auto
next
  case (2 oldest key k e m)
  show ?case
  proof (cases "case oldest of None \<Rightarrow> True | Some t \<Rightarrow> ce_lastAccess e < t")
    case True
    from 2(1) [OF True] True show ?thesis by (auto split: option.splits)
  next
    case False
    then obtain t where t: "oldest = Some t" "t \<le> ce_lastAccess e" by (auto split: option.splits)
    from 2(2) [OF False] t False show ?thesis by auto
  qed
qed

lemma lru_key:
  assumes "mc_eviction c = EvictLRU" and "mc_data c \<noteq> []"
  shows "\<exists>e. (keyToDelete c, e) \<in> set (mc_data c) \<and>
             (\<forall>e' \<in> snd ` set (mc_data c). ce_lastAccess e \<le> ce_lastAccess e')"
  using lru_loop_min [of "mc_data c" None "[]"] assms by (auto simp: keyToDelete_def)

lemma lfu_loop_key: "lfu_loop h key m = key \<or> lfu_loop h key m \<in> set (mkeys m)"
  by (induction h key m rule: lfu_loop.induct) auto

lemma lfu_loop_start: "m \<noteq> [] \<Longrightarrow> lfu_loop (- 1) key m \<in> set (mkeys m)"
proof (cases m)
  case (Cons p m')
  then show ?thesis using lfu_loop_key [of "ce_hits (snd p)" "fst p" m'] by (cases p) auto
qed simp

lemma keyToDelete_mem: "mc_data c \<noteq> [] \<Longrightarrow> keyToDelete c \<in> set (mkeys (mc_data c))"
proof (cases "mc_eviction c")
  case EvictLRU
  assume "mc_data c \<noteq> []"
  with lru_key [OF EvictLRU] show ?thesis by (force simp: mkeys_def)
next
  case EvictLFU
  assume "mc_data c \<noteq> []"
  then show ?thesis by (simp add: keyToDelete_def EvictLFU lfu_loop_start)
next
  case EvictRandom
  assume "mc_data c \<noteq> []"
  then show ?thesis by (cases "mc_data c") (auto simp: keyToDelete_def EvictRandom)
qed

lemma mc_maxSize_evict [simp]: "mc_maxSize (evict c) = mc_maxSize c"
  by (simp add: evict_def)

section \<open>The executor\<close>

record 'i cache_policy =
  cp_KeyFunc :: "('i \<Rightarrow> string) option"
  cp_TTL :: "int option"

text \<open>
  \<open>marshal\<close> is \<open>json.Marshal\<close>, \<open>digest\<close> the SHA-256 of a text in hexadecimal and \<open>tyname\<close> the name
  of the dynamic type of a value.
\<close>

definition GenerateCacheKey ::
    "('i \<Rightarrow> string option) \<Rightarrow> (string \<Rightarrow> string) \<Rightarrow> ('i \<Rightarrow> string) \<Rightarrow> string \<Rightarrow> 'i \<Rightarrow> string" where
  "GenerateCacheKey marshal digest tyname nodeName input =
     (case marshal input of
        None \<Rightarrow> nodeName @ '':'' @ tyname input
      | Some data \<Rightarrow> nodeName @ '':'' @ digest data)"

definition cache_key :: "('i \<Rightarrow> string) \<Rightarrow> 'i cache_policy option \<Rightarrow> 'i \<Rightarrow> string" where
  "cache_key generate policy input =
     (case policy of
        None \<Rightarrow> generate input
      | Some p \<Rightarrow> (case cp_KeyFunc p of None \<Rightarrow> generate input | Some f \<Rightarrow> f input))"

definition cache_ttl :: "'i cache_policy option \<Rightarrow> int" where
  "cache_ttl policy = (case policy of None \<Rightarrow> 0 | Some p \<Rightarrow> (case cp_TTL p of None \<Rightarrow> 0 | Some t \<Rightarrow> t))"

text \<open>
  The common part of the two executors: ask the cache, run the function, store its result. The
  function may change the world \<open>w\<close>; \<open>t\<close> and \<open>t'\<close> are the clock at the two cache operations.
\<close>

definition execute_with ::
    "(int \<Rightarrow> 'c \<Rightarrow> string \<Rightarrow> 'v option res \<times> 'c) \<Rightarrow> (int \<Rightarrow> 'c \<Rightarrow> string \<Rightarrow> 'v \<Rightarrow> int \<Rightarrow> 'c) \<Rightarrow>
     string \<Rightarrow> int \<Rightarrow> int \<Rightarrow> int \<Rightarrow> ('w \<Rightarrow> 'v res \<times> 'w) \<Rightarrow> 'c \<times> 'w \<Rightarrow> 'v res \<times> 'c \<times> 'w" where
  "execute_with cget cset key ttl t t' fn cw =
     (case cget t (fst cw) key of
        (Inl e, c) \<Rightarrow> (Inl e, c, snd cw)
      | (Inr (Some v), c) \<Rightarrow> (Inr v, c, snd cw)
      | (Inr None, c) \<Rightarrow>
          (case fn (snd cw) of
             (Inl e, w) \<Rightarrow> (Inl e, c, w)
           | (Inr v, w) \<Rightarrow> (Inr v, cset t' c key v ttl, w)))"

definition sync_get :: "(int \<Rightarrow> 'c \<Rightarrow> string \<Rightarrow> 'v option \<times> 'c) \<Rightarrow> int \<Rightarrow> 'c \<Rightarrow> string \<Rightarrow> 'v option res \<times> 'c" where
  "sync_get cget now c key = (case cget now c key of (v, c') \<Rightarrow> (Inr v, c'))"

definition CachedExecutor_Execute ::
    "(int \<Rightarrow> 'c \<Rightarrow> string \<Rightarrow> 'v option \<times> 'c) \<Rightarrow> (int \<Rightarrow> 'c \<Rightarrow> string \<Rightarrow> 'v \<Rightarrow> int \<Rightarrow> 'c) \<Rightarrow>
     ('i \<Rightarrow> string) \<Rightarrow> 'i cache_policy option \<Rightarrow> int \<Rightarrow> int \<Rightarrow> ('i \<Rightarrow> 'w \<Rightarrow> 'v res \<times> 'w) \<Rightarrow> 'i \<Rightarrow>
     'c \<times> 'w \<Rightarrow> 'v res \<times> 'c \<times> 'w" where
  "CachedExecutor_Execute cget cset generate policy t t' fn input =
     execute_with (sync_get cget) cset (cache_key generate policy input) (cache_ttl policy) t t' (fn input)"

definition Noop_Get :: "int \<Rightarrow> unit \<Rightarrow> string \<Rightarrow> 'v option \<times> unit" where
  "Noop_Get now c key = (None, c)"

definition Noop_Set :: "int \<Rightarrow> unit \<Rightarrow> string \<Rightarrow> 'v \<Rightarrow> int \<Rightarrow> unit" where
  "Noop_Set now c key v ttl = c"

section \<open>The asynchronous cache\<close>

text \<open>
  Operations wait in \<open>workerCh\<close>; several workers take them, so a waiting operation may overtake an
  earlier one. \<open>ac_turns\<close> lists the choices of the workers to come: at which time which waiting
  operation is processed. A turn without an operation is skipped.
\<close>

datatype 'v cache_op = AsyncGet nat string | AsyncSet string 'v int | AsyncDelete string

record 'v async_cache =
  ac_cache :: "'v memory_cache"
  ac_workerCh :: "'v cache_op list"
  ac_turns :: "(int \<times> nat) list"
  ac_next :: nat

definition processOp :: "int \<Rightarrow> 'v memory_cache \<Rightarrow> 'v cache_op \<Rightarrow> 'v option \<times> 'v memory_cache" where
  "processOp now c op =
     (case op of
        AsyncGet i key \<Rightarrow> Cache_Get now c key
      | AsyncSet key v ttl \<Rightarrow> (None, Cache_Set now c key v ttl)
      | AsyncDelete key \<Rightarrow> (None, Cache_Delete c key))"

definition send_op :: "'v cache_op \<Rightarrow> 'v async_cache \<Rightarrow> 'v async_cache" where
  "send_op op c = c\<lparr>ac_workerCh := ac_workerCh c @ [op]\<rparr>"

definition without :: "nat \<Rightarrow> 'a list \<Rightarrow> 'a list" where
  "without i xs = take i xs @ drop (Suc i) xs"

text \<open>Waiting for the answer to the request \<open>n\<close>; None when the turns run out first.\<close>

fun await_answer ::
    "nat \<Rightarrow> (int \<times> nat) list \<Rightarrow> 'v memory_cache \<Rightarrow> 'v cache_op list \<Rightarrow>
     'v option option \<times> (int \<times> nat) list \<times> 'v memory_cache \<times> 'v cache_op list" where
  "await_answer n [] c q = (None, [], c, q)"
| "await_answer n ((now, i) # turns) c q =
     (if i < length q then
        (case processOp now c (q ! i) of
           (r, c1) \<Rightarrow>
             (if (case q ! i of AsyncGet m _ \<Rightarrow> m = n | _ \<Rightarrow> False)
              then (Some r, turns, c1, without i q)
              else await_answer n turns c1 (without i q)))
      else await_answer n turns c q)"

text \<open>
  \<open>AGet\<close> and the wait for its channel, with the error of the context when that is done first; a
  request that is not answered stays in the queue.
\<close>

definition async_get :: "gerror \<Rightarrow> int \<Rightarrow> 'v async_cache \<Rightarrow> string \<Rightarrow> 'v option res \<times> 'v async_cache" where
  "async_get ctxErr now c key =
     (let c1 = send_op (AsyncGet (ac_next c) key) (c\<lparr>ac_next := Suc (ac_next c)\<rparr>)
      in case await_answer (ac_next c) (ac_turns c1) (ac_cache c1) (ac_workerCh c1) of
           (r, turns, mc, q) \<Rightarrow>
             (case r of None \<Rightarrow> Inl ctxErr | Some v \<Rightarrow> Inr v,
              c1\<lparr>ac_cache := mc, ac_workerCh := q, ac_turns := turns\<rparr>))"

definition async_set :: "int \<Rightarrow> 'v async_cache \<Rightarrow> string \<Rightarrow> 'v \<Rightarrow> int \<Rightarrow> 'v async_cache" where
  "async_set now c key v ttl = send_op (AsyncSet key v ttl) c"

definition ADelete :: "'v async_cache \<Rightarrow> string \<Rightarrow> 'v async_cache" where
  "ADelete c key = send_op (AsyncDelete key) c"

definition embedded_get :: "int \<Rightarrow> 'v async_cache \<Rightarrow> string \<Rightarrow> 'v option \<times> 'v async_cache" where
  "embedded_get now c key = (case Cache_Get now (ac_cache c) key of (r, mc) \<Rightarrow> (r, c\<lparr>ac_cache := mc\<rparr>))"

definition embedded_set :: "int \<Rightarrow> 'v async_cache \<Rightarrow> string \<Rightarrow> 'v \<Rightarrow> int \<Rightarrow> 'v async_cache" where
  "embedded_set now c key v ttl = c\<lparr>ac_cache := Cache_Set now (ac_cache c) key v ttl\<rparr>"

definition AsyncCachedExecutor_Execute ::
    "gerror \<Rightarrow> ('i \<Rightarrow> string) \<Rightarrow> ('i cache_policy \<times> bool) option \<Rightarrow> int \<Rightarrow> int \<Rightarrow>
     ('i \<Rightarrow> 'w \<Rightarrow> 'v res \<times> 'w) \<Rightarrow> 'i \<Rightarrow> 'v async_cache \<times> 'w \<Rightarrow> 'v res \<times> 'v async_cache \<times> 'w" where
  "AsyncCachedExecutor_Execute ctxErr generate policy t t' fn input =
     (let p = map_option fst policy; key = cache_key generate p input; ttl = cache_ttl p
      in if (case policy of None \<Rightarrow> False | Some (_, async) \<Rightarrow> async)
         then execute_with (async_get ctxErr) async_set key ttl t t' (fn input)
         else execute_with (sync_get embedded_get) embedded_set key ttl t t' (fn input))"

end
