(* ===== verification/CacheProps.thy ===== *)
theory CacheProps
  imports Cache
begin

text \<open>
  What a cache guarantees. The locale \<open>node_cache\<close> is the interface an executor uses: a cache holds
  under a key only values that were stored under it. It is interpreted on the in-memory, the empty
  and the asynchronous cache; the properties of the executors rest on these interpretations.
\<close>

section \<open>The interface\<close>

locale node_cache =
  fixes cget :: "int \<Rightarrow> 'c \<Rightarrow> string \<Rightarrow> 'v option res \<times> 'c"
    and cset :: "int \<Rightarrow> 'c \<Rightarrow> string \<Rightarrow> 'v \<Rightarrow> int \<Rightarrow> 'c"
    and holds :: "'c \<Rightarrow> string \<Rightarrow> 'v \<Rightarrow> bool"
    and ok :: "'c \<Rightarrow> bool"
  assumes get_ok: "ok c \<Longrightarrow> ok (snd (cget now c k))"
    and set_ok: "ok c \<Longrightarrow> ok (cset now c k v ttl)"
    and get_holds: "ok c \<Longrightarrow> fst (cget now c k) = Inr (Some v) \<Longrightarrow> holds c k v"
    and get_keeps: "holds (snd (cget now c k)) k' v \<Longrightarrow> holds c k' v"
    and set_holds: "holds (cset now c k v ttl) k' v' \<Longrightarrow> k' = k \<and> v' = v \<or> holds c k' v'"
begin

definition sound :: "(string \<Rightarrow> 'v res) \<Rightarrow> 'c \<Rightarrow> bool" where
  "sound f c = (ok c \<and> (\<forall>k v. holds c k v \<longrightarrow> f k = Inr v))"

text \<open>One call: the result is the function's, and so is everything the cache holds afterwards.\<close>

lemma execute_sound:
  assumes "sound f c" and "\<And>w. fst (fn w) = f key"
    and "execute_with cget cset key ttl t t' fn (c, w) = (r, c', w')"
  shows "sound f c' \<and> (r = f key \<or> (\<exists>e. r = Inl e \<and> fst (cget t c key) = Inl e))"
proof -
  obtain g c1 where g: "cget t c key = (g, c1)" by (cases "cget t c key")
  have c1: "sound f c1" using assms(1) get_keeps [of t c key] get_ok [of c t key] g by (auto simp: sound_def)
  show ?thesis
  proof (cases g)
    case (Inl e)
    then show ?thesis using assms(3) g c1 by (simp add: execute_with_def)
  next
    case (Inr hit)
    show ?thesis
    proof (cases hit)
      case (Some v)
      then show ?thesis
        using assms(1,3) g c1 Inr get_holds [of c t key v] by (simp add: execute_with_def sound_def)
    next
      case None
      then show ?thesis
        using assms(2) [of w] assms(3) g c1 Inr set_holds [of t' c1 key _ ttl] set_ok [of c1 t' key _ ttl]
        by (cases "fn w") (fastforce simp: execute_with_def sound_def split: sum.splits)
    qed
  qed
qed

lemma execute_step:
  assumes "sound f (fst cw)" and "\<forall>w. fst (fn w) = f key"
  shows "sound f (fst (snd (execute_with cget cset key ttl t t' fn cw))) \<and>
    (fst (execute_with cget cset key ttl t t' fn cw) = f key \<or>
     (\<exists>e. fst (execute_with cget cset key ttl t t' fn cw) = Inl e \<and> fst (cget t (fst cw) key) = Inl e))"
proof -
  obtain r c' w' where e: "execute_with cget cset key ttl t t' fn cw = (r, c', w')"
    by (cases "execute_with cget cset key ttl t t' fn cw")
  show ?thesis
    using execute_sound [OF assms(1), of fn key ttl t t' "snd cw" r c' w'] assms(2) e by simp
qed

end

section \<open>The instances\<close>

definition mem_holds :: "'v memory_cache \<Rightarrow> string \<Rightarrow> 'v \<Rightarrow> bool" where
  "mem_holds c k v = (\<exists>e. mget (mc_data c) k = Some e \<and> ce_value e = v)"

lemma mem_get_holds: "fst (Cache_Get now c k) = Some v \<Longrightarrow> mem_holds c k v"
  by (auto simp: Cache_Get_def mem_holds_def split: option.splits if_splits)

lemma mem_get_keeps: "mem_holds (snd (Cache_Get now c k)) k' v \<longleftrightarrow> mem_holds c k' v"
  by (auto simp: Cache_Get_def mem_holds_def split: option.splits if_splits)

lemma evict_holds: "mem_holds (evict c) k v \<Longrightarrow> mem_holds c k v"
  by (auto simp: evict_def mem_holds_def split: if_splits)

lemma mem_set_holds:
  "mem_holds (Cache_Set now c k v ttl) k' v' \<Longrightarrow> k' = k \<and> v' = v \<or> mem_holds c k' v'"
  using evict_holds [of c k' v'] by (auto simp: Cache_Set_def mem_holds_def Let_def split: if_splits)

lemma mem_delete_holds: "mem_holds (Cache_Delete c k) k' v \<Longrightarrow> mem_holds c k' v"
  by (auto simp: Cache_Delete_def mem_holds_def split: if_splits)

interpretation mem_cache: node_cache "sync_get Cache_Get" Cache_Set mem_holds "\<lambda>_. True"
  by unfold_locales
    (auto simp: sync_get_def split_beta mem_get_keeps intro: mem_get_holds dest: mem_set_holds)

interpretation noop_cache: node_cache "sync_get Noop_Get" Noop_Set "\<lambda>_ _ _. False" "\<lambda>_. True"
  by unfold_locales (auto simp: sync_get_def Noop_Get_def)

text \<open>The asynchronous cache holds what its memory cache holds or what waits to be stored.\<close>

definition queue_holds :: "'v memory_cache \<Rightarrow> 'v cache_op list \<Rightarrow> string \<Rightarrow> 'v \<Rightarrow> bool" where
  "queue_holds c q k v = (mem_holds c k v \<or> (\<exists>ttl. AsyncSet k v ttl \<in> set q))"

definition async_holds :: "'v async_cache \<Rightarrow> string \<Rightarrow> 'v \<Rightarrow> bool" where
  "async_holds c = queue_holds (ac_cache c) (ac_workerCh c)"

lemma set_without: "set (without i q) \<subseteq> set q"
  unfolding without_def using set_take_subset [of i q] set_drop_subset [of "Suc i" q] by auto

lemma processOp_holds:
  assumes "op \<in> set q" and "mem_holds (snd (processOp now c op)) k v"
  shows "queue_holds c q k v"
proof (cases op)
  case (AsyncSet k' v' ttl)
  then show ?thesis using assms mem_set_holds [of now c k' v' ttl k v]
    by (auto simp: processOp_def queue_holds_def)
qed (use assms mem_delete_holds [of c] in \<open>auto simp: processOp_def queue_holds_def mem_get_keeps\<close>)

lemma await_holds:
  "await_answer n turns c q = (r, turns', c', q') \<Longrightarrow> queue_holds c' q' k v \<Longrightarrow> queue_holds c q k v"
proof (induction n turns c q rule: await_answer.induct)
  case (1 n c q)
  then show ?case by simp
next
  case (2 n now i turns c q)
  show ?case
  proof (cases "i < length q")
    case False
    with 2 show ?thesis by simp
  next
    case True
    obtain r1 c1 where p: "processOp now c (q ! i) = (r1, c1)" by (cases "processOp now c (q ! i)")
    have *: "queue_holds c1 (without i q) k v \<Longrightarrow> queue_holds c q k v"
      using processOp_holds [of "q ! i" q now c k v] p True set_without [of i q]
      by (auto simp: queue_holds_def)
    show ?thesis
      using 2(1) [OF True p [symmetric]] "2.prems" * True p by (auto split: if_splits)
  qed
qed

lemma await_answer_holds:
  "await_answer n turns c q = (Some (Some v), turns', c', q') \<Longrightarrow>
     \<forall>k'. AsyncGet n k' \<in> set q \<longrightarrow> k' = k \<Longrightarrow> queue_holds c q k v"
proof (induction n turns c q rule: await_answer.induct)
  case (1 n c q)
  then show ?case by simp
next
  case (2 n now i turns c q)
  show ?case
  proof (cases "i < length q")
    case False
    with 2 show ?thesis by simp
  next
    case True
    obtain r1 c1 where p: "processOp now c (q ! i) = (r1, c1)" by (cases "processOp now c (q ! i)")
    have *: "queue_holds c1 (without i q) k v \<Longrightarrow> queue_holds c q k v"
      using processOp_holds [of "q ! i" q now c k v] p True set_without [of i q]
      by (auto simp: queue_holds_def)
    show ?thesis
    proof (cases "case q ! i of AsyncGet m _ \<Rightarrow> m = n | _ \<Rightarrow> False")
      case hit: True
      then obtain k' where k': "q ! i = AsyncGet n k'" by (cases "q ! i") auto
      with True "2.prems"(2) have "k' = k" by (metis nth_mem)
      with hit k' p True "2.prems"(1) have "fst (Cache_Get now c k) = Some v"
        by (simp add: processOp_def)
      then show ?thesis using mem_get_holds [of now c k v] by (simp add: queue_holds_def)
    next
      case miss: False
      have "\<forall>k'. AsyncGet n k' \<in> set (without i q) \<longrightarrow> k' = k"
        using "2.prems"(2) set_without [of i q] by blast
      then show ?thesis using 2(1) [OF True p [symmetric] miss] "2.prems"(1) True p miss * by simp
    qed
  qed
qed

text \<open>Every waiting request has an identifier that was given out before.\<close>

definition async_ok :: "'v async_cache \<Rightarrow> bool" where
  "async_ok c = (\<forall>n k. AsyncGet n k \<in> set (ac_workerCh c) \<longrightarrow> n < ac_next c)"

lemma await_queue: "await_answer n turns c q = (r, turns', c', q') \<Longrightarrow> set q' \<subseteq> set q"
proof (induction n turns c q rule: await_answer.induct)
  case (2 n now i turns c q)
  obtain r1 c1 where p: "processOp now c (q ! i) = (r1, c1)" by (cases "processOp now c (q ! i)")
  show ?case
    using 2(1) [OF _ p [symmetric]] 2(2) "2.prems" p set_without [of i q] by (auto split: if_splits)
qed simp

interpretation async: node_cache "async_get ctxErr" async_set async_holds async_ok
proof
  fix c :: "'v async_cache" and now k v ttl k' v'
  let ?q = "ac_workerCh c @ [AsyncGet (ac_next c) k]"
  obtain r turns mc q where a: "await_answer (ac_next c) (ac_turns c) (ac_cache c) ?q = (r, turns, mc, q)"
    by (cases "await_answer (ac_next c) (ac_turns c) (ac_cache c) ?q")
  note defs = async_get_def async_set_def send_op_def async_holds_def async_ok_def Let_def
  show "async_ok (snd (async_get ctxErr now c k))" if "async_ok c"
    using that a await_queue [OF a] by (auto simp: defs less_Suc_eq)
  show "async_ok (async_set now c k v ttl)" if "async_ok c"
    using that by (auto simp: defs)
  show "async_holds c k v" if "async_ok c" and "fst (async_get ctxErr now c k) = Inr (Some v)"
  proof -
    have "await_answer (ac_next c) (ac_turns c) (ac_cache c) ?q = (Some (Some v), turns, mc, q)"
      using that(2) a by (auto simp: defs split: option.splits)
    then have "queue_holds (ac_cache c) ?q k v"
      by (rule await_answer_holds) (use that(1) in \<open>auto simp: async_ok_def\<close>)
    then show ?thesis by (auto simp: defs queue_holds_def)
  qed
  show "async_holds c k' v" if "async_holds (snd (async_get ctxErr now c k)) k' v"
    using that a await_holds [OF a, of k' v] by (auto simp: defs queue_holds_def)
  show "k' = k \<and> v' = v \<or> async_holds c k' v'" if "async_holds (async_set now c k v ttl) k' v'"
    using that by (auto simp: defs queue_holds_def)
qed

section \<open>The executors\<close>

fun run_calls :: "('x \<Rightarrow> 's \<Rightarrow> 'r \<times> 's) \<Rightarrow> 'x list \<Rightarrow> 's \<Rightarrow> 'r list \<times> 's" where
  "run_calls f [] s = ([], s)"
| "run_calls f (x # xs) s =
     (case f x s of (r, s1) \<Rightarrow> (case run_calls f xs s1 of (rs, s2) \<Rightarrow> (r # rs, s2)))"

lemma run_calls_all:
  assumes "\<And>x s. P s \<Longrightarrow> P (snd (f x s)) \<and> Q x (fst (f x s))" and "P s"
  shows "list_all2 Q xs (fst (run_calls f xs s))"
  using assms(2)
proof (induction xs arbitrary: s)
  case (Cons x xs)
  obtain r s1 where 1: "f x s = (r, s1)" by (cases "f x s")
  with assms(1) [OF Cons.prems, of x] Cons.IH [of s1] show ?case
    by (cases "run_calls f xs s1") simp
qed simp

text \<open>A function of the input that respects the keys is a function of the key.\<close>

lemma by_key:
  assumes "\<forall>i j. key i = key j \<longrightarrow> f i = f j"
  shows "\<exists>g. \<forall>i. g (key i) = f i"
  using assms by (intro exI [of _ "\<lambda>k. f (SOME i. key i = k)"]) (metis (mono_tags, lifting) someI_ex)

lemma sound_new: "mem_cache.sound g (NewMemoryCache n ev)"
  by (simp add: mem_cache.sound_def mem_holds_def NewMemoryCache_def)

text \<open>
  C24: calls through the caching executor over an in-memory cache of any size and eviction policy, at
  any times and with any time to live, return exactly what the function returns, if its result
  depends on the input only and inputs with the same key have the same result.
\<close>

theorem cached_calls_equal_function:
  assumes "\<forall>i w. fst (fn i w) = f i"
    and "\<forall>i j. cache_key generate policy i = cache_key generate policy j \<longrightarrow> f i = f j"
  shows "fst (run_calls (\<lambda>(t, t', i). CachedExecutor_Execute Cache_Get Cache_Set generate policy t t' fn i)
            calls (NewMemoryCache maxSize eviction, w)) = map (\<lambda>(t, t', i). f i) calls"
proof -
  obtain g where g: "\<forall>i. g (cache_key generate policy i) = f i" using by_key [OF assms(2)] by blast
  let ?exec = "\<lambda>(t, t', i). CachedExecutor_Execute Cache_Get Cache_Set generate policy t t' fn i"
  have step: "(mem_cache.sound g \<circ> fst) (snd (?exec x cw)) \<and> fst (?exec x cw) = (case x of (t, t', i) \<Rightarrow> f i)"
    if "(mem_cache.sound g \<circ> fst) cw" for x cw
  proof -
    obtain t t' i where x: "x = (t, t', i)" by (cases x)
    have eq: "\<forall>w. fst (fn i w) = g (cache_key generate policy i)" using assms(1) g by simp
    have "fst (sync_get Cache_Get t (fst cw) k) \<noteq> Inl e" for k e
      by (simp add: sync_get_def split_beta)
    with mem_cache.execute_step [where fn = "fn i" and cw = cw and f = g and
        key = "cache_key generate policy i", OF _ eq] that g show ?thesis
      by (simp add: x CachedExecutor_Execute_def) blast
  qed
  have "list_all2 (\<lambda>x r. r = (case x of (t, t', i) \<Rightarrow> f i)) calls
      (fst (run_calls ?exec calls (NewMemoryCache maxSize eviction, w)))"
    by (rule run_calls_all [where P = "mem_cache.sound g \<circ> fst" and f = ?exec and
        Q = "\<lambda>x r. r = (case x of (t, t', i) \<Rightarrow> f i)", OF step]) (simp_all add: sound_new)
  then show ?thesis by (simp add: list_all2_conv_all_nth list_eq_iff_nth_eq)
qed

theorem cached_calls_equal_function_witness:
  "fst (run_calls (\<lambda>(t, t', i). CachedExecutor_Execute Cache_Get Cache_Set
      (\<lambda>s. s) None t t' (\<lambda>s (n::nat). (Inr (length s), Suc n)) i)
     [(0, 1, ''ab''), (2, 3, ''cde''), (4, 5, ''ab'')] (NewMemoryCache 1 EvictLRU, 0))
   = [Inr 2, Inr 3, Inr 2]"
proof -
  let ?fn = "\<lambda>s (n::nat). (Inr (length s) :: nat res, Suc n)"
  let ?calls = "[(0, 1, ''ab''), (2, 3, ''cde''), (4, 5, ''ab'')] :: (int \<times> int \<times> string) list"
  have 1: "\<forall>i w. fst (?fn i w) = Inr (length i)" by simp
  have 2: "\<forall>i j. cache_key (\<lambda>s. s) None i = cache_key (\<lambda>s. s) None j \<longrightarrow>
      Inr (length i) = (Inr (length j) :: nat res)" by (simp add: cache_key_def)
  show ?thesis by (subst cached_calls_equal_function [OF 1 2]) simp
qed



section \<open>Size\<close>

text \<open>What happens to a cache from outside.\<close>

datatype 'v cache_call = CGet string | CSet string 'v int | CDelete string | CClear

fun apply_call :: "int \<Rightarrow> 'v cache_call \<Rightarrow> 'v memory_cache \<Rightarrow> 'v memory_cache" where
  "apply_call now (CGet k) c = snd (Cache_Get now c k)"
| "apply_call now (CSet k v ttl) c = Cache_Set now c k v ttl"
| "apply_call now (CDelete k) c = Cache_Delete c k"
| "apply_call now CClear c = Cache_Clear c"

definition cache_wf :: "'v memory_cache \<Rightarrow> bool" where
  "cache_wf c = (mwf (mc_data c) \<and> [] \<notin> set (mkeys (mc_data c)) \<and>
     int (length (mc_data c)) \<le> max 1 (mc_maxSize c))"

lemma evict_length:
  assumes "mwf (mc_data c)" and "[] \<notin> set (mkeys (mc_data c))"
  shows "length (mc_data (evict c)) = length (mc_data c) - 1"
    and "mwf (mc_data (evict c))" and "set (mkeys (mc_data (evict c))) \<subseteq> set (mkeys (mc_data c))"
  using assms keyToDelete_mem [of c] length_mdel_present [OF assms(1), of "keyToDelete c"]
  by (auto simp: evict_def mhas_iff mkeys_mdel)

lemma apply_call_wf:
  assumes wf: "cache_wf c" and key: "case x of CSet k _ _ \<Rightarrow> k \<noteq> [] | _ \<Rightarrow> True"
  shows "cache_wf (apply_call now x c) \<and> mc_maxSize (apply_call now x c) = mc_maxSize c"
proof (cases x)
  case (CGet k)
  then show ?thesis using wf
    by (auto simp: cache_wf_def Cache_Get_def mkeys_mput length_mput mhas_def dest: mget_Some_key
        split: option.splits)
next
  case (CSet k v ttl)
  let ?c = "if mc_maxSize c \<le> int (length (mc_data c)) then evict c else c"
  have "mwf (mc_data ?c)" "[] \<notin> set (mkeys (mc_data ?c))" "mc_maxSize ?c = mc_maxSize c"
    and len: "int (length (mc_data ?c)) + 1 \<le> max 1 (mc_maxSize c)"
    using wf evict_length [of c] by (auto simp: cache_wf_def)
  then show ?thesis using CSet key
    by (auto simp: cache_wf_def Cache_Set_def Let_def mkeys_mput length_mput)
next
  case (CDelete k)
  then show ?thesis using wf length_mdel_le [of k "mc_data c"]
    by (auto simp: cache_wf_def Cache_Delete_def mkeys_mdel)
next
  case CClear
  then show ?thesis by (simp add: cache_wf_def Cache_Clear_def)
qed

text \<open>
  whatever is done to a new in-memory cache, it never holds more entries than its maximal size
  (or one, if that is less), provided nothing is stored under the empty key.
\<close>

lemma cache_size_bounded:
  assumes "list_all (\<lambda>(now, x). case x of CSet k _ _ \<Rightarrow> k \<noteq> [] | _ \<Rightarrow> True) calls"
  shows "int (length (mc_data (foldl (\<lambda>c (now, x). apply_call now x c) (NewMemoryCache n ev) calls)))
    \<le> max 1 n"
proof -
  have "cache_wf (foldl (\<lambda>c (now, x). apply_call now x c) c calls) \<and>
      mc_maxSize (foldl (\<lambda>c (now, x). apply_call now x c) c calls) = mc_maxSize c" if "cache_wf c" for c
    using that assms
  proof (induction calls arbitrary: c)
    case (Cons tx calls)
    obtain now x where "tx = (now, x)" by (cases tx)
    with Cons.IH [of "apply_call now x c"] Cons.prems apply_call_wf [of c x now] show ?case by simp
  qed simp
  moreover have "cache_wf (NewMemoryCache n ev :: 'a memory_cache)" and "mc_maxSize (NewMemoryCache n ev :: 'a memory_cache) = n"
    by (auto simp: cache_wf_def NewMemoryCache_def)
  ultimately show ?thesis unfolding cache_wf_def by metis
qed

lemma cache_size_bounded_witness:
  "int (length (mc_data (foldl (\<lambda>c (now, x). apply_call now x c) (NewMemoryCache 1 EvictLFU)
     [(0, CSet ''a'' () 0), (1, CSet ''b'' () 0)]))) \<le> max 1 1"
  by (rule cache_size_bounded) simp

text \<open>
  an entry under the empty key switches eviction off once it is the least recently used one:
  storing a further key in a full LRU cache then makes it grow beyond its size.
\<close>

lemma empty_key_stops_eviction:
  assumes "mc_eviction c = EvictLRU" and "mwf (mc_data c)" and "mget (mc_data c) [] = Some e"
    and "\<forall>(k', e') \<in> set (mc_data c). k' \<noteq> [] \<longrightarrow> ce_lastAccess e < ce_lastAccess e'"
    and "k \<notin> set (mkeys (mc_data c))"
  shows "length (mc_data (Cache_Set now c k v ttl)) = Suc (length (mc_data c))"
proof -
  have ne: "mc_data c \<noteq> []" using assms(3) by auto
  obtain e0 where e0: "(keyToDelete c, e0) \<in> set (mc_data c)"
      "\<forall>e' \<in> snd ` set (mc_data c). ce_lastAccess e0 \<le> ce_lastAccess e'"
    using lru_key [OF assms(1) ne] by blast
  have "([], e) \<in> set (mc_data c)" using assms(3) by (rule mget_Some_mem)
  with e0 have "ce_lastAccess e0 \<le> ce_lastAccess e" by force
  with assms(4) e0(1) have "keyToDelete c = []" by force
  then have "evict c = c" by (simp add: evict_def)
  then show ?thesis using assms(5) by (simp add: Cache_Set_def length_mput mhas_iff Let_def)
qed

lemma empty_key_stops_eviction_witness:
  "length (mc_data (Cache_Set 7 \<lparr>mc_data = [([], \<lparr>ce_value = (), ce_expiration = None, ce_lastAccess = 1, ce_hits = 0\<rparr>)],
      mc_maxSize = 1, mc_eviction = EvictLRU\<rparr> ''a'' () 0)) = 2"
  using empty_key_stops_eviction [of "\<lparr>mc_data = [([], \<lparr>ce_value = (), ce_expiration = None, ce_lastAccess = 1,
      ce_hits = 0\<rparr>)], mc_maxSize = 1, mc_eviction = EvictLRU\<rparr>"
      "\<lparr>ce_value = (), ce_expiration = None, ce_lastAccess = 1, ce_hits = 0\<rparr>" "''a''" 7 "()" 0]
  by (simp add: mwf_def)

section \<open>Keys\<close>

text \<open>
  two inputs that cannot be marshalled and have the same type get the same generated key, so the
  second call returns the result of the first one without running the function.
\<close>

lemma unmarshalable_inputs_share_results:
  assumes "marshal a = None" and "marshal b = None" and "tyname a = tyname b"
    and "fst (fn a w) = Inr v"
    and "CachedExecutor_Execute Cache_Get Cache_Set (GenerateCacheKey marshal digest tyname node) None ta tb fn a
          (NewMemoryCache n ev, w) = (r, cw)"
  shows "fst (CachedExecutor_Execute Cache_Get Cache_Set (GenerateCacheKey marshal digest tyname node) None tc td fn b cw)
    = Inr v"
  using assms
  by (cases "fn a w") (auto simp: CachedExecutor_Execute_def execute_with_def sync_get_def cache_key_def
      GenerateCacheKey_def Cache_Get_def Cache_Set_def NewMemoryCache_def evict_def Let_def cache_ttl_def)

lemma unmarshalable_inputs_share_results_witness:
  "fst (CachedExecutor_Execute Cache_Get Cache_Set
      (GenerateCacheKey (\<lambda>_. None) id (\<lambda>_. ''func()'') ''node'') None 2 3 (\<lambda>i (w::nat). (Inr i, w)) (5::nat)
      (snd (CachedExecutor_Execute Cache_Get Cache_Set
        (GenerateCacheKey (\<lambda>_. None) id (\<lambda>_. ''func()'') ''node'') None 0 1 (\<lambda>i (w::nat). (Inr i, w)) 4
        (NewMemoryCache 9 EvictLRU, 0)))) = Inr 4"
  by (rule unmarshalable_inputs_share_results [where a = 4 and w = 0]) (simp_all, rule surjective_pairing)

end
