(* ===== verification/EmbeddingLru.thy ===== *)
theory EmbeddingLru
  imports GoValues
begin

text \<open>
  The embedding cache of \<open>utility/embedding_lru.go\<close>: a doubly linked list of entries, most recently
  used first, and a map from keys to list elements. An element is a number; its entry stands beside
  it in the list. The list and the map agree (\<open>lru_ok\<close>), and together they refine a list of keys
  and values without elements.
\<close>

record embedding_lru =
  lr_capacity :: int
  lr_cache :: "nat gomap"
  lr_list :: "(nat \<times> string \<times> f64 list) list"
  lr_next :: nat

definition NewEmbeddingLRU :: "int \<Rightarrow> embedding_lru" where
  "NewEmbeddingLRU capacity = \<lparr>lr_capacity = capacity, lr_cache = [], lr_list = [], lr_next = 0\<rparr>"

definition buildKey :: "string \<Rightarrow> string \<Rightarrow> string" where
  "buildKey question embeddingID = question @ ''::'' @ embeddingID"

definition elem_entry :: "nat \<Rightarrow> (nat \<times> 'e) list \<Rightarrow> 'e" where
  "elem_entry el xs = the (map_of xs el)"

definition list_remove :: "nat \<Rightarrow> (nat \<times> 'e) list \<Rightarrow> (nat \<times> 'e) list" where
  "list_remove el xs = filter (\<lambda>p. fst p \<noteq> el) xs"

definition MoveToFront :: "nat \<Rightarrow> (nat \<times> 'e) list \<Rightarrow> (nat \<times> 'e) list" where
  "MoveToFront el xs = (el, elem_entry el xs) # list_remove el xs"

definition Lru_Get :: "embedding_lru \<Rightarrow> string \<Rightarrow> string \<Rightarrow> f64 list option \<times> embedding_lru" where
  "Lru_Get c question embeddingID =
     (case mget (lr_cache c) (buildKey question embeddingID) of
        None \<Rightarrow> (None, c)
      | Some el \<Rightarrow>
          (Some (snd (elem_entry el (lr_list c))), c\<lparr>lr_list := MoveToFront el (lr_list c)\<rparr>))"

definition evictOldest :: "embedding_lru \<Rightarrow> embedding_lru" where
  "evictOldest c =
     (if lr_list c = [] then c
      else case last (lr_list c) of (el, key, v) \<Rightarrow>
        c\<lparr>lr_list := list_remove el (lr_list c), lr_cache := mdel key (lr_cache c)\<rparr>)"

definition Lru_Put :: "embedding_lru \<Rightarrow> string \<Rightarrow> string \<Rightarrow> f64 list \<Rightarrow> embedding_lru" where
  "Lru_Put c question embeddingID v =
     (let key = buildKey question embeddingID
      in case mget (lr_cache c) key of
        Some el \<Rightarrow>
          c\<lparr>lr_list := (case MoveToFront el (lr_list c) of
               [] \<Rightarrow> [] | (el', k', v') # rest \<Rightarrow> (el', k', v) # rest)\<rparr>
      | None \<Rightarrow>
          (let c1 = c\<lparr>lr_list := (lr_next c, key, v) # lr_list c,
                      lr_cache := mput key (lr_next c) (lr_cache c), lr_next := Suc (lr_next c)\<rparr>
           in if lr_capacity c1 < int (length (lr_list c1)) then evictOldest c1 else c1))"

definition Lru_Remove :: "embedding_lru \<Rightarrow> string \<Rightarrow> string \<Rightarrow> embedding_lru" where
  "Lru_Remove c question embeddingID =
     (case mget (lr_cache c) (buildKey question embeddingID) of
        None \<Rightarrow> c
      | Some el \<Rightarrow>
          c\<lparr>lr_list := list_remove el (lr_list c),
            lr_cache := mdel (buildKey question embeddingID) (lr_cache c)\<rparr>)"

definition Lru_Clear :: "embedding_lru \<Rightarrow> embedding_lru" where
  "Lru_Clear c = c\<lparr>lr_cache := [], lr_list := []\<rparr>"

definition Lru_Len :: "embedding_lru \<Rightarrow> nat" where
  "Lru_Len c = length (lr_list c)"

section \<open>The invariant\<close>

definition entries :: "embedding_lru \<Rightarrow> (string \<times> f64 list) list" where
  "entries c = map snd (lr_list c)"

definition lru_ok :: "embedding_lru \<Rightarrow> bool" where
  "lru_ok c =
     (distinct (map fst (lr_list c)) \<and> distinct (map fst (entries c)) \<and>
      (\<forall>el \<in> fst ` set (lr_list c). el < lr_next c) \<and>
      (\<forall>k el. mget (lr_cache c) k = Some el \<longleftrightarrow> (\<exists>v. (el, k, v) \<in> set (lr_list c))) \<and>
      (lr_list c \<noteq> [] \<longrightarrow> int (length (lr_list c)) \<le> lr_capacity c))"

lemma elem_entry_mem: "distinct (map fst xs) \<Longrightarrow> (el, e) \<in> set xs \<Longrightarrow> elem_entry el xs = e"
  by (simp add: elem_entry_def)

lemma list_remove_set: "set (list_remove el xs) = {p \<in> set xs. fst p \<noteq> el}"
  by (auto simp: list_remove_def)

lemma list_remove_entries:
  "distinct (map fst xs) \<Longrightarrow> distinct (map (fst \<circ> snd) xs) \<Longrightarrow> (el, k, v) \<in> set xs \<Longrightarrow>
     map snd (list_remove el xs) = filter (\<lambda>p. fst p \<noteq> k) (map snd xs)"
proof -
  assume d: "distinct (map fst xs)" "distinct (map (fst \<circ> snd) xs)" and m: "(el, k, v) \<in> set xs"
  have "fst p \<noteq> el \<longleftrightarrow> fst (snd p) \<noteq> k" if "p \<in> set xs" for p
    using d m that by (metis comp_apply eq_key_imp_eq_value fst_conv inj_onD distinct_map prod.collapse)
  then have "list_remove el xs = filter (\<lambda>p. fst (snd p) \<noteq> k) xs"
    unfolding list_remove_def by (intro filter_cong refl) auto
  then show ?thesis by (simp add: filter_map comp_def)
qed

lemma distinct_list_remove:
  "distinct (map f xs) \<Longrightarrow> distinct (map f (list_remove el xs))"
  by (simp add: list_remove_def distinct_map_filter)

lemma list_remove_absent: "el \<notin> fst ` set xs \<Longrightarrow> list_remove el xs = xs"
  by (induction xs) (auto simp: list_remove_def)

lemma length_list_remove:
  "distinct (map fst xs) \<Longrightarrow> el \<in> fst ` set xs \<Longrightarrow> Suc (length (list_remove el xs)) = length xs"
proof (induction xs)
  case (Cons x xs)
  then show ?case
    using list_remove_absent [of el xs] by (cases "fst x = el") (auto simp: list_remove_def)
qed simp

lemma list_remove_last:
  assumes "distinct (map fst xs)" and "xs \<noteq> []"
  shows "list_remove (fst (last xs)) xs = butlast xs"
proof (cases xs rule: rev_cases)
  case (snoc ys y)
  then have "fst y \<notin> fst ` set ys" using assms(1) by auto
  then have "filter (\<lambda>p. fst p \<noteq> fst y) ys = ys" using list_remove_absent by (auto simp: list_remove_def)
  then show ?thesis by (simp add: snoc list_remove_def)
qed (use assms in simp)

text \<open>The four operations on the list of keys and values.\<close>

definition front :: "string \<Rightarrow> f64 list \<Rightarrow> (string \<times> f64 list) list \<Rightarrow> (string \<times> f64 list) list" where
  "front k v es = (k, v) # filter (\<lambda>p. fst p \<noteq> k) es"

lemma lru_mget:
  "lru_ok c \<Longrightarrow> mget (lr_cache c) k = Some el \<Longrightarrow>
     \<exists>v. (el, k, v) \<in> set (lr_list c) \<and> elem_entry el (lr_list c) = (k, v) \<and> map_of (entries c) k = Some v"
  by (auto simp: lru_ok_def entries_def elem_entry_mem intro!: map_of_is_SomeI rev_image_eqI)

lemma lru_mget_None:
  assumes "lru_ok c"
  shows "mget (lr_cache c) k = None \<longleftrightarrow> map_of (entries c) k = None"
proof -
  have "mget (lr_cache c) k = Some el \<longleftrightarrow> (\<exists>v. (el, k, v) \<in> set (lr_list c))" for el
    using assms unfolding lru_ok_def by blast
  then have "(\<forall>el. mget (lr_cache c) k \<noteq> Some el) \<longleftrightarrow> k \<notin> fst ` set (entries c)"
    by (force simp: entries_def)
  then show ?thesis by (simp add: map_of_eq_None_iff)
qed

lemma lru_remove:
  assumes ok: "lru_ok c" and hit: "(el, k, v) \<in> set (lr_list c)"
  shows "map snd (list_remove el (lr_list c)) = filter (\<lambda>p. fst p \<noteq> k) (entries c)"
  using ok hit list_remove_entries [of "lr_list c" el k v] by (simp add: lru_ok_def entries_def comp_def)

lemma Get_step:
  assumes ok: "lru_ok c"
  shows "fst (Lru_Get c q e) = map_of (entries c) (buildKey q e) \<and>
    entries (snd (Lru_Get c q e)) =
      (case map_of (entries c) (buildKey q e) of None \<Rightarrow> entries c | Some v \<Rightarrow> front (buildKey q e) v (entries c)) \<and>
    lru_ok (snd (Lru_Get c q e)) \<and> lr_capacity (snd (Lru_Get c q e)) = lr_capacity c"
proof (cases "mget (lr_cache c) (buildKey q e)")
  case None
  then show ?thesis using ok lru_mget_None [OF ok, THEN iffD1, OF None] by (simp add: Lru_Get_def)
next
  case (Some el)
  from lru_mget [OF ok Some] obtain v where v: "(el, buildKey q e, v) \<in> set (lr_list c)"
    "elem_entry el (lr_list c) = (buildKey q e, v)" "map_of (entries c) (buildKey q e) = Some v" by blast
  let ?c = "c\<lparr>lr_list := (el, buildKey q e, v) # list_remove el (lr_list c)\<rparr>"
  have es: "entries ?c = front (buildKey q e) v (entries c)"
    using lru_remove [OF ok v(1)] by (simp add: entries_def front_def)
  have "lr_list c \<noteq> []" and "length (lr_list ?c) = length (lr_list c)"
    using ok v(1) length_list_remove [of "lr_list c" el] by (force simp: lru_ok_def)+
  then have "lru_ok ?c"
    unfolding lru_ok_def es
    using ok v(1)
    by (auto simp: lru_ok_def front_def list_remove_set distinct_list_remove distinct_map_filter
        image_iff intro: rev_bexI dest: eq_key_imp_eq_value)
  then show ?thesis using Some v es by (simp add: Lru_Get_def MoveToFront_def)
qed

lemma evict_step:
  assumes d: "distinct (map fst (lr_list c))" "distinct (map fst (entries c))"
    and fresh: "\<forall>el \<in> fst ` set (lr_list c). el < lr_next c"
    and agree: "\<forall>k el. mget (lr_cache c) k = Some el \<longleftrightarrow> (\<exists>v. (el, k, v) \<in> set (lr_list c))"
    and len: "int (length (lr_list c)) \<le> max 0 (lr_capacity c) + 1" and ne: "lr_list c \<noteq> []"
  shows "entries (evictOldest c) = butlast (entries c) \<and> lru_ok (evictOldest c)"
proof -
  obtain ys el k v where l: "lr_list c = ys @ [(el, k, v)]"
    using ne by (cases "lr_list c" rule: rev_cases) auto
  have ys: "list_remove el (lr_list c) = ys" using list_remove_last [OF d(1) ne] by (simp add: l)
  have "evictOldest c = c\<lparr>lr_list := ys, lr_cache := mdel k (lr_cache c)\<rparr>"
    using ne ys by (simp add: evictOldest_def l)
  moreover have "lru_ok (c\<lparr>lr_list := ys, lr_cache := mdel k (lr_cache c)\<rparr>)"
    unfolding lru_ok_def
  proof (intro conjI allI)
    fix k' el'
    have "(el', k', v') \<in> set ys \<longleftrightarrow> k' \<noteq> k \<and> (el', k', v') \<in> set (lr_list c)" for v'
      using d(2) by (force simp: l entries_def)
    then show "mget (lr_cache (c\<lparr>lr_list := ys, lr_cache := mdel k (lr_cache c)\<rparr>)) k' = Some el' \<longleftrightarrow>
        (\<exists>v. (el', k', v) \<in> set (lr_list (c\<lparr>lr_list := ys, lr_cache := mdel k (lr_cache c)\<rparr>)))"
      using agree by simp
  qed (use d fresh len in \<open>auto simp: l entries_def max_def neq_Nil_conv split: if_splits\<close>)
  ultimately show ?thesis by (simp add: entries_def l)
qed

lemma filter_key_absent: "map_of es k = None \<Longrightarrow> filter (\<lambda>p. fst p \<noteq> k) es = es"
  by (auto simp: map_of_eq_None_iff filter_id_conv image_iff)

lemma Put_step:
  assumes ok: "lru_ok c"
  shows "entries (Lru_Put c q e v) = take (nat (lr_capacity c)) (front (buildKey q e) v (entries c)) \<and>
    lru_ok (Lru_Put c q e v) \<and> lr_capacity (Lru_Put c q e v) = lr_capacity c"
proof (cases "mget (lr_cache c) (buildKey q e)")
  case (Some el)
  from lru_mget [OF ok Some] obtain v0 where v0: "(el, buildKey q e, v0) \<in> set (lr_list c)"
    "elem_entry el (lr_list c) = (buildKey q e, v0)" by blast
  let ?c = "c\<lparr>lr_list := (el, buildKey q e, v) # list_remove el (lr_list c)\<rparr>"
  have put: "Lru_Put c q e v = ?c" using Some v0 by (simp add: Lru_Put_def MoveToFront_def)
  have es: "entries ?c = front (buildKey q e) v (entries c)"
    using lru_remove [OF ok v0(1)] by (simp add: entries_def front_def)
  have len: "length (lr_list ?c) = length (lr_list c)"
    using ok v0(1) length_list_remove [of "lr_list c" el] by (force simp: lru_ok_def)
  have ne: "lr_list c \<noteq> []" using v0(1) by auto
  have "lru_ok ?c"
    unfolding lru_ok_def es len
    using ok v0(1) ne
    by (auto simp: lru_ok_def front_def list_remove_set distinct_list_remove distinct_map_filter
        image_iff intro: rev_bexI dest: eq_key_imp_eq_value)
  moreover have "length (entries ?c) \<le> nat (lr_capacity c)"
    using ok ne len by (auto simp: lru_ok_def entries_def le_nat_iff)
  ultimately show ?thesis using es put by simp
next
  case None
  let ?k = "buildKey q e"
  let ?c = "c\<lparr>lr_list := (lr_next c, ?k, v) # lr_list c,
              lr_cache := mput ?k (lr_next c) (lr_cache c), lr_next := Suc (lr_next c)\<rparr>"
  have absent: "map_of (entries c) ?k = None" using lru_mget_None [OF ok] None by blast
  have es: "entries ?c = front ?k v (entries c)"
    by (simp add: entries_def front_def filter_key_absent [OF absent, unfolded entries_def])
  have inv: "distinct (map fst (lr_list ?c))" "distinct (map fst (entries ?c))"
      "\<forall>el \<in> fst ` set (lr_list ?c). el < lr_next ?c"
      "\<forall>k el. mget (lr_cache ?c) k = Some el \<longleftrightarrow> (\<exists>v. (el, k, v) \<in> set (lr_list ?c))"
  proof -
    show "distinct (map fst (lr_list ?c))" using ok by (auto simp: lru_ok_def)
    show "distinct (map fst (entries ?c))"
      using ok absent by (simp add: lru_ok_def entries_def map_of_eq_None_iff image_comp comp_def)
    show "\<forall>el \<in> fst ` set (lr_list ?c). el < lr_next ?c" using ok by (auto simp: lru_ok_def)
    show "\<forall>k el. mget (lr_cache ?c) k = Some el \<longleftrightarrow> (\<exists>v. (el, k, v) \<in> set (lr_list ?c))"
    proof (intro allI)
      fix k el
      have "(el, ?k, v) \<notin> set (lr_list c)" for v
        using absent by (force simp: entries_def map_of_eq_None_iff)
      moreover have "mget (lr_cache c) k = Some el \<longleftrightarrow> (\<exists>v. (el, k, v) \<in> set (lr_list c))"
        using ok unfolding lru_ok_def by blast
      ultimately show "mget (lr_cache ?c) k = Some el \<longleftrightarrow> (\<exists>v. (el, k, v) \<in> set (lr_list ?c))"
        by (cases "k = ?k") auto
    qed
  qed
  have lens: "length (entries ?c) = Suc (length (lr_list c))" by (simp add: entries_def)
  have cap: "lr_list c \<noteq> [] \<Longrightarrow> int (length (lr_list c)) \<le> lr_capacity c" using ok by (simp add: lru_ok_def)
  show ?thesis
  proof (cases "lr_capacity c < int (Suc (length (lr_list c)))")
    case False
    then have put: "Lru_Put c q e v = ?c" using None by (simp add: Lru_Put_def Let_def)
    have "lru_ok ?c" using inv False unfolding lru_ok_def by auto
    moreover have "length (entries ?c) \<le> nat (lr_capacity c)" using False lens by simp
    ultimately show ?thesis using es put by simp
  next
    case True
    then have put: "Lru_Put c q e v = evictOldest ?c" using None by (simp add: Lru_Put_def Let_def)
    have "int (length (lr_list ?c)) \<le> max 0 (lr_capacity ?c) + 1" using cap by (cases "lr_list c") auto
    from evict_step [OF inv this] have ev: "entries (evictOldest ?c) = butlast (entries ?c)" "lru_ok (evictOldest ?c)"
      by auto
    have "nat (lr_capacity c) = length (lr_list c)" using True cap by (cases "lr_list c") auto
    then have "butlast (entries ?c) = take (nat (lr_capacity c)) (entries ?c)"
      by (simp only: butlast_conv_take lens) simp
    moreover have "lr_capacity (evictOldest ?c) = lr_capacity c" by (simp add: evictOldest_def split: prod.splits)
    ultimately show ?thesis using ev es put by simp
  qed
qed

lemma Remove_step:
  assumes ok: "lru_ok c"
  shows "entries (Lru_Remove c q e) = filter (\<lambda>p. fst p \<noteq> buildKey q e) (entries c) \<and>
    lru_ok (Lru_Remove c q e) \<and> lr_capacity (Lru_Remove c q e) = lr_capacity c"
proof (cases "mget (lr_cache c) (buildKey q e)")
  case None
  then show ?thesis
    using ok filter_key_absent [OF lru_mget_None [OF ok, THEN iffD1, OF None]] by (simp add: Lru_Remove_def)
next
  case (Some el)
  let ?k = "buildKey q e"
  let ?c = "c\<lparr>lr_list := list_remove el (lr_list c), lr_cache := mdel ?k (lr_cache c)\<rparr>"
  from lru_mget [OF ok Some] obtain v where v: "(el, ?k, v) \<in> set (lr_list c)" by blast
  have es: "entries ?c = filter (\<lambda>p. fst p \<noteq> ?k) (entries c)"
    using lru_remove [OF ok v] by (simp add: entries_def)
  have len: "Suc (length (list_remove el (lr_list c))) = length (lr_list c)"
    using ok v length_list_remove [of "lr_list c" el] by (force simp: lru_ok_def)
  have "lru_ok ?c"
    unfolding lru_ok_def es
  proof (intro conjI allI)
    fix k' el'
    have "(el', k', v') \<in> set (list_remove el (lr_list c)) \<longleftrightarrow> k' \<noteq> ?k \<and> (el', k', v') \<in> set (lr_list c)" for v'
      using ok v unfolding lru_ok_def list_remove_set
      by (auto dest: eq_key_imp_eq_value) (metis Some option.inject ok lru_ok_def)
    then show "mget (lr_cache ?c) k' = Some el' \<longleftrightarrow> (\<exists>v. (el', k', v) \<in> set (lr_list ?c))"
      using ok by (auto simp: lru_ok_def)
  qed (use ok len v in \<open>auto simp: lru_ok_def distinct_list_remove list_remove_set distinct_map_filter\<close>)
  then show ?thesis using es Some by (simp add: Lru_Remove_def)
qed

section \<open>Refinement\<close>

datatype lru_call = LGet string string | LPut string string "f64 list" | LRemove string string | LClear

fun lru_step :: "lru_call \<Rightarrow> embedding_lru \<Rightarrow> f64 list option \<times> embedding_lru" where
  "lru_step (LGet q e) c = Lru_Get c q e"
| "lru_step (LPut q e v) c = (None, Lru_Put c q e v)"
| "lru_step (LRemove q e) c = (None, Lru_Remove c q e)"
| "lru_step LClear c = (None, Lru_Clear c)"

text \<open>The specification: keys and values, most recently used first, cut at the capacity.\<close>

fun recent_step :: "nat \<Rightarrow> lru_call \<Rightarrow> (string \<times> f64 list) list \<Rightarrow> f64 list option \<times> (string \<times> f64 list) list" where
  "recent_step n (LGet q e) es =
     (case map_of es (buildKey q e) of None \<Rightarrow> (None, es) | Some v \<Rightarrow> (Some v, front (buildKey q e) v es))"
| "recent_step n (LPut q e v) es = (None, take n (front (buildKey q e) v es))"
| "recent_step n (LRemove q e) es = (None, filter (\<lambda>p. fst p \<noteq> buildKey q e) es)"
| "recent_step n LClear es = (None, [])"

fun run_lru :: "(lru_call \<Rightarrow> 's \<Rightarrow> f64 list option \<times> 's) \<Rightarrow> lru_call list \<Rightarrow> 's \<Rightarrow> f64 list option list \<times> 's" where
  "run_lru f [] s = ([], s)"
| "run_lru f (x # xs) s = (case f x s of (r, s1) \<Rightarrow> map_prod ((#) r) id (run_lru f xs s1))"

lemma Clear_step:
  "lru_ok (Lru_Clear c) \<and> entries (Lru_Clear c) = [] \<and> lr_capacity (Lru_Clear c) = lr_capacity c"
  by (simp add: Lru_Clear_def entries_def lru_ok_def)

lemma lru_step_refines:
  "lru_ok c \<Longrightarrow> lr_capacity c = n \<Longrightarrow>
     map_prod id entries (lru_step x c) = recent_step (nat n) x (entries c) \<and>
     lru_ok (snd (lru_step x c)) \<and> lr_capacity (snd (lru_step x c)) = n"
  using Get_step [of c] Put_step [of c] Remove_step [of c] Clear_step [of c]
  by (cases x) (auto simp: prod_eq_iff split: option.splits)

text \<open>
  C30: the linked list and the map of an embedding cache agree after any history, and the cache answers
  like a list of keys and values in the order of their last use that is cut at the capacity after
  each insertion: an insertion into a full cache drops exactly the least recently used entry.
\<close>

theorem embedding_lru_refines_recency_list:
  "map_prod id entries (run_lru lru_step calls (NewEmbeddingLRU n)) =
     run_lru (recent_step (nat n)) calls [] \<and>
   lru_ok (snd (run_lru lru_step calls (NewEmbeddingLRU n)))"
proof -
  have "map_prod id entries (run_lru lru_step calls c) = run_lru (recent_step (nat n)) calls (entries c) \<and>
      lru_ok (snd (run_lru lru_step calls c))" if "lru_ok c" "lr_capacity c = n" for c
    using that
  proof (induction calls arbitrary: c)
    case (Cons x calls)
    obtain r c1 where s: "lru_step x c = (r, c1)" by (cases "lru_step x c")
    with lru_step_refines [OF Cons.prems, of x] have
      1: "recent_step (nat n) x (entries c) = (r, entries c1)" "lru_ok c1" "lr_capacity c1 = n" by auto
    from Cons.IH [OF 1(2,3)] show ?case
      by (cases "run_lru lru_step calls c1") (simp add: s 1(1), metis map_prod_simp id_apply)
  qed simp
  from this [of "NewEmbeddingLRU n"] show ?thesis
    by (simp add: NewEmbeddingLRU_def lru_ok_def entries_def)
qed

end
