(* ===== verification/CliTokens.thy ===== *)
theory CliTokens
  imports GoValues
begin

text \<open>
  The token types of \<open>cli/types.go\<close>, numbered as the constant declaration numbers them.
\<close>

abbreviation (input) TokenLogin :: nat where "TokenLogin \<equiv> 0"
abbreviation (input) TokenLogout :: nat where "TokenLogout \<equiv> 1"
abbreviation (input) TokenRegister :: nat where "TokenRegister \<equiv> 2"
abbreviation (input) TokenList :: nat where "TokenList \<equiv> 3"
abbreviation (input) TokenServices :: nat where "TokenServices \<equiv> 4"
abbreviation (input) TokenShow :: nat where "TokenShow \<equiv> 5"
abbreviation (input) TokenCreate :: nat where "TokenCreate \<equiv> 6"
abbreviation (input) TokenService :: nat where "TokenService \<equiv> 7"
abbreviation (input) TokenShutdown :: nat where "TokenShutdown \<equiv> 8"
abbreviation (input) TokenRestart :: nat where "TokenRestart \<equiv> 9"
abbreviation (input) TokenUsers :: nat where "TokenUsers \<equiv> 10"
abbreviation (input) TokenDrop :: nat where "TokenDrop \<equiv> 11"
abbreviation (input) TokenUser :: nat where "TokenUser \<equiv> 12"
abbreviation (input) TokenAlter :: nat where "TokenAlter \<equiv> 13"
abbreviation (input) TokenActive :: nat where "TokenActive \<equiv> 14"
abbreviation (input) TokenInactive :: nat where "TokenInactive \<equiv> 15"
abbreviation (input) TokenAdmin :: nat where "TokenAdmin \<equiv> 16"
abbreviation (input) TokenServer :: nat where "TokenServer \<equiv> 17"
abbreviation (input) TokenAPI :: nat where "TokenAPI \<equiv> 18"
abbreviation (input) TokenAdd :: nat where "TokenAdd \<equiv> 19"
abbreviation (input) TokenHost :: nat where "TokenHost \<equiv> 20"
abbreviation (input) TokenDelete :: nat where "TokenDelete \<equiv> 21"
abbreviation (input) TokenPassword :: nat where "TokenPassword \<equiv> 22"
abbreviation (input) TokenDataset :: nat where "TokenDataset \<equiv> 23"
abbreviation (input) TokenDatasets :: nat where "TokenDatasets \<equiv> 24"
abbreviation (input) TokenChunkStore :: nat where "TokenChunkStore \<equiv> 25"
abbreviation (input) TokenOf :: nat where "TokenOf \<equiv> 26"
abbreviation (input) TokenAgents :: nat where "TokenAgents \<equiv> 27"
abbreviation (input) TokenSearches :: nat where "TokenSearches \<equiv> 28"
abbreviation (input) TokenRole :: nat where "TokenRole \<equiv> 29"
abbreviation (input) TokenRoles :: nat where "TokenRoles \<equiv> 30"
abbreviation (input) TokenDescription :: nat where "TokenDescription \<equiv> 31"
abbreviation (input) TokenGrant :: nat where "TokenGrant \<equiv> 32"
abbreviation (input) TokenRevoke :: nat where "TokenRevoke \<equiv> 33"
abbreviation (input) TokenAll :: nat where "TokenAll \<equiv> 34"
abbreviation (input) TokenPermission :: nat where "TokenPermission \<equiv> 35"
abbreviation (input) TokenTo :: nat where "TokenTo \<equiv> 36"
abbreviation (input) TokenFrom :: nat where "TokenFrom \<equiv> 37"
abbreviation (input) TokenFor :: nat where "TokenFor \<equiv> 38"
abbreviation (input) TokenResources :: nat where "TokenResources \<equiv> 39"
abbreviation (input) TokenOn :: nat where "TokenOn \<equiv> 40"
abbreviation (input) TokenSet :: nat where "TokenSet \<equiv> 41"
abbreviation (input) TokenReset :: nat where "TokenReset \<equiv> 42"
abbreviation (input) TokenVersion :: nat where "TokenVersion \<equiv> 43"
abbreviation (input) TokenVar :: nat where "TokenVar \<equiv> 44"
abbreviation (input) TokenVars :: nat where "TokenVars \<equiv> 45"
abbreviation (input) TokenConfigs :: nat where "TokenConfigs \<equiv> 46"
abbreviation (input) TokenConfig :: nat where "TokenConfig \<equiv> 47"
abbreviation (input) TokenEnvs :: nat where "TokenEnvs \<equiv> 48"
abbreviation (input) TokenKey :: nat where "TokenKey \<equiv> 49"
abbreviation (input) TokenKeys :: nat where "TokenKeys \<equiv> 50"
abbreviation (input) TokenGenerate :: nat where "TokenGenerate \<equiv> 51"
abbreviation (input) TokenAvailable :: nat where "TokenAvailable \<equiv> 52"
abbreviation (input) TokenSupported :: nat where "TokenSupported \<equiv> 53"
abbreviation (input) TokenModel :: nat where "TokenModel \<equiv> 54"
abbreviation (input) TokenModels :: nat where "TokenModels \<equiv> 55"
abbreviation (input) TokenProvider :: nat where "TokenProvider \<equiv> 56"
abbreviation (input) TokenProviders :: nat where "TokenProviders \<equiv> 57"
abbreviation (input) TokenDefault :: nat where "TokenDefault \<equiv> 58"
abbreviation (input) TokenChats :: nat where "TokenChats \<equiv> 59"
abbreviation (input) TokenChat :: nat where "TokenChat \<equiv> 60"
abbreviation (input) TokenMessage :: nat where "TokenMessage \<equiv> 61"
abbreviation (input) TokenImage :: nat where "TokenImage \<equiv> 62"
abbreviation (input) TokenVideo :: nat where "TokenVideo \<equiv> 63"
abbreviation (input) TokenAudio :: nat where "TokenAudio \<equiv> 64"
abbreviation (input) TokenStream :: nat where "TokenStream \<equiv> 65"
abbreviation (input) TokenFiles :: nat where "TokenFiles \<equiv> 66"
abbreviation (input) TokenAs :: nat where "TokenAs \<equiv> 67"
abbreviation (input) TokenParse :: nat where "TokenParse \<equiv> 68"
abbreviation (input) TokenImport :: nat where "TokenImport \<equiv> 69"
abbreviation (input) TokenInto :: nat where "TokenInto \<equiv> 70"
abbreviation (input) TokenIn :: nat where "TokenIn \<equiv> 71"
abbreviation (input) TokenWith :: nat where "TokenWith \<equiv> 72"
abbreviation (input) TokenParser :: nat where "TokenParser \<equiv> 73"
abbreviation (input) TokenPipeline :: nat where "TokenPipeline \<equiv> 74"
abbreviation (input) TokenSearch :: nat where "TokenSearch \<equiv> 75"
abbreviation (input) TokenAgent :: nat where "TokenAgent \<equiv> 76"
abbreviation (input) TokenMemories :: nat where "TokenMemories \<equiv> 77"
abbreviation (input) TokenMemory :: nat where "TokenMemory \<equiv> 78"
abbreviation (input) TokenRetrieve :: nat where "TokenRetrieve \<equiv> 79"
abbreviation (input) TokenCurrent :: nat where "TokenCurrent \<equiv> 80"
abbreviation (input) TokenFingerprint :: nat where "TokenFingerprint \<equiv> 81"
abbreviation (input) TokenLicense :: nat where "TokenLicense \<equiv> 82"
abbreviation (input) TokenVision :: nat where "TokenVision \<equiv> 83"
abbreviation (input) TokenEmbedding :: nat where "TokenEmbedding \<equiv> 84"
abbreviation (input) TokenRerank :: nat where "TokenRerank \<equiv> 85"
abbreviation (input) TokenASR :: nat where "TokenASR \<equiv> 86"
abbreviation (input) TokenTTS :: nat where "TokenTTS \<equiv> 87"
abbreviation (input) TokenOCR :: nat where "TokenOCR \<equiv> 88"
abbreviation (input) TokenDocParse :: nat where "TokenDocParse \<equiv> 89"
abbreviation (input) TokenEmbed :: nat where "TokenEmbed \<equiv> 90"
abbreviation (input) TokenText :: nat where "TokenText \<equiv> 91"
abbreviation (input) TokenQuery :: nat where "TokenQuery \<equiv> 92"
abbreviation (input) TokenFormat :: nat where "TokenFormat \<equiv> 93"
abbreviation (input) TokenParam :: nat where "TokenParam \<equiv> 94"
abbreviation (input) TokenPlay :: nat where "TokenPlay \<equiv> 95"
abbreviation (input) TokenSave :: nat where "TokenSave \<equiv> 96"
abbreviation (input) TokenTop :: nat where "TokenTop \<equiv> 97"
abbreviation (input) TokenDimension :: nat where "TokenDimension \<equiv> 98"
abbreviation (input) TokenAsync :: nat where "TokenAsync \<equiv> 99"
abbreviation (input) TokenSync :: nat where "TokenSync \<equiv> 100"
abbreviation (input) TokenBenchmark :: nat where "TokenBenchmark \<equiv> 101"
abbreviation (input) TokenPing :: nat where "TokenPing \<equiv> 102"
abbreviation (input) TokenToken :: nat where "TokenToken \<equiv> 103"
abbreviation (input) TokenTokens :: nat where "TokenTokens \<equiv> 104"
abbreviation (input) TokenUnset :: nat where "TokenUnset \<equiv> 105"
abbreviation (input) TokenIndex :: nat where "TokenIndex \<equiv> 106"
abbreviation (input) TokenVector :: nat where "TokenVector \<equiv> 107"
abbreviation (input) TokenSize :: nat where "TokenSize \<equiv> 108"
abbreviation (input) TokenStore :: nat where "TokenStore \<equiv> 109"
abbreviation (input) TokenName :: nat where "TokenName \<equiv> 110"
abbreviation (input) TokenBalance :: nat where "TokenBalance \<equiv> 111"
abbreviation (input) TokenInstance :: nat where "TokenInstance \<equiv> 112"
abbreviation (input) TokenInstances :: nat where "TokenInstances \<equiv> 113"
abbreviation (input) TokenDisable :: nat where "TokenDisable \<equiv> 114"
abbreviation (input) TokenEnable :: nat where "TokenEnable \<equiv> 115"
abbreviation (input) TokenUse :: nat where "TokenUse \<equiv> 116"
abbreviation (input) TokenCheck :: nat where "TokenCheck \<equiv> 117"
abbreviation (input) TokenThink :: nat where "TokenThink \<equiv> 118"
abbreviation (input) TokenEffort :: nat where "TokenEffort \<equiv> 119"
abbreviation (input) TokenVerbosity :: nat where "TokenVerbosity \<equiv> 120"
abbreviation (input) TokenNone :: nat where "TokenNone \<equiv> 121"
abbreviation (input) TokenMinimal :: nat where "TokenMinimal \<equiv> 122"
abbreviation (input) TokenLow :: nat where "TokenLow \<equiv> 123"
abbreviation (input) TokenMedium :: nat where "TokenMedium \<equiv> 124"
abbreviation (input) TokenHigh :: nat where "TokenHigh \<equiv> 125"
abbreviation (input) TokenMax :: nat where "TokenMax \<equiv> 126"
abbreviation (input) TokenLS :: nat where "TokenLS \<equiv> 127"
abbreviation (input) TokenCat :: nat where "TokenCat \<equiv> 128"
abbreviation (input) TokenInsert :: nat where "TokenInsert \<equiv> 129"
abbreviation (input) TokenFile :: nat where "TokenFile \<equiv> 130"
abbreviation (input) TokenMetadata :: nat where "TokenMetadata \<equiv> 131"
abbreviation (input) TokenTable :: nat where "TokenTable \<equiv> 132"
abbreviation (input) TokenGet :: nat where "TokenGet \<equiv> 133"
abbreviation (input) TokenUpdate :: nat where "TokenUpdate \<equiv> 134"
abbreviation (input) TokenRemove :: nat where "TokenRemove \<equiv> 135"
abbreviation (input) TokenExplain :: nat where "TokenExplain \<equiv> 136"
abbreviation (input) TokenChunk :: nat where "TokenChunk \<equiv> 137"
abbreviation (input) TokenChunks :: nat where "TokenChunks \<equiv> 138"
abbreviation (input) TokenDocument :: nat where "TokenDocument \<equiv> 139"
abbreviation (input) TokenDocuments :: nat where "TokenDocuments \<equiv> 140"
abbreviation (input) TokenTag :: nat where "TokenTag \<equiv> 141"
abbreviation (input) TokenRegion :: nat where "TokenRegion \<equiv> 142"
abbreviation (input) TokenURL :: nat where "TokenURL \<equiv> 143"
abbreviation (input) TokenTask :: nat where "TokenTask \<equiv> 144"
abbreviation (input) TokenTasks :: nat where "TokenTasks \<equiv> 145"
abbreviation (input) TokenIngestor :: nat where "TokenIngestor \<equiv> 146"
abbreviation (input) TokenIngestors :: nat where "TokenIngestors \<equiv> 147"
abbreviation (input) TokenStart :: nat where "TokenStart \<equiv> 148"
abbreviation (input) TokenStop :: nat where "TokenStop \<equiv> 149"
abbreviation (input) TokenIngestion :: nat where "TokenIngestion \<equiv> 150"
abbreviation (input) TokenMQ :: nat where "TokenMQ \<equiv> 151"
abbreviation (input) TokenPublish :: nat where "TokenPublish \<equiv> 152"
abbreviation (input) TokenPull :: nat where "TokenPull \<equiv> 153"
abbreviation (input) TokenPending :: nat where "TokenPending \<equiv> 154"
abbreviation (input) TokenNoACK :: nat where "TokenNoACK \<equiv> 155"
abbreviation (input) TokenAnalyze :: nat where "TokenAnalyze \<equiv> 156"
abbreviation (input) TokenSummary :: nat where "TokenSummary \<equiv> 157"
abbreviation (input) TokenStorage :: nat where "TokenStorage \<equiv> 158"
abbreviation (input) TokenQuota :: nat where "TokenQuota \<equiv> 159"
abbreviation (input) TokenTree :: nat where "TokenTree \<equiv> 160"
abbreviation (input) TokenOrphan :: nat where "TokenOrphan \<equiv> 161"
abbreviation (input) TokenDays :: nat where "TokenDays \<equiv> 162"
abbreviation (input) TokenWindow :: nat where "TokenWindow \<equiv> 163"
abbreviation (input) TokenActivity :: nat where "TokenActivity \<equiv> 164"
abbreviation (input) TokenData :: nat where "TokenData \<equiv> 165"
abbreviation (input) TokenPurge :: nat where "TokenPurge \<equiv> 166"
abbreviation (input) TokenPlan :: nat where "TokenPlan \<equiv> 167"
abbreviation (input) TokenPreview :: nat where "TokenPreview \<equiv> 168"
abbreviation (input) TokenOpenaiChat :: nat where "TokenOpenaiChat \<equiv> 169"
abbreviation (input) TokenLog :: nat where "TokenLog \<equiv> 170"
abbreviation (input) TokenLevel :: nat where "TokenLevel \<equiv> 171"
abbreviation (input) TokenDebug :: nat where "TokenDebug \<equiv> 172"
abbreviation (input) TokenInfo :: nat where "TokenInfo \<equiv> 173"
abbreviation (input) TokenWarn :: nat where "TokenWarn \<equiv> 174"
abbreviation (input) TokenError :: nat where "TokenError \<equiv> 175"
abbreviation (input) TokenFatal :: nat where "TokenFatal \<equiv> 176"
abbreviation (input) TokenPanic :: nat where "TokenPanic \<equiv> 177"
abbreviation (input) TokenIdentifier :: nat where "TokenIdentifier \<equiv> 178"
abbreviation (input) TokenQuotedString :: nat where "TokenQuotedString \<equiv> 179"
abbreviation (input) TokenInteger :: nat where "TokenInteger \<equiv> 180"
abbreviation (input) TokenFloat :: nat where "TokenFloat \<equiv> 181"
abbreviation (input) TokenNumber :: nat where "TokenNumber \<equiv> 180"
abbreviation (input) TokenSemicolon :: nat where "TokenSemicolon \<equiv> 184"
abbreviation (input) TokenComma :: nat where "TokenComma \<equiv> 185"
abbreviation (input) TokenSlash :: nat where "TokenSlash \<equiv> 186"
abbreviation (input) TokenEOF :: nat where "TokenEOF \<equiv> 187"
abbreviation (input) TokenDash :: nat where "TokenDash \<equiv> 188"
abbreviation (input) TokenIllegal :: nat where "TokenIllegal \<equiv> 189"
abbreviation (input) TokenLBracket :: nat where "TokenLBracket \<equiv> 190"
abbreviation (input) TokenRBracket :: nat where "TokenRBracket \<equiv> 191"

end
