(* ===== verification/CliLexer.thy ===== *)
theory CliLexer
  imports CliTokens
begin

text \<open>
  The lexer of the command line, \<open>cli/lexer.go\<close>: positions in the input and the current byte,
  as the code keeps them. The loops over the input are one function, \<open>read_while\<close>; their tests are
  all false on the zero byte that stands for the end. Upper case is changed for ASCII letters only:
  no other text of an identifier has an ASCII upper case. The reference \<open>scan_token\<close> reads a token off a
  list of characters; the lexer is proved to do the same at its position.
\<close>

section \<open>Bytes\<close>

abbreviation (input) NUL_byte :: char where "NUL_byte \<equiv> CHR 0x00"

definition isDigit :: "char \<Rightarrow> bool" where
  "isDigit c = (let n = of_char c :: nat in 48 \<le> n \<and> n \<le> 57)"

text \<open>\<open>unicode.IsLetter\<close> on the 256 runes a byte can be.\<close>

definition isLetter :: "char \<Rightarrow> bool" where
  "isLetter c =
     (let n = of_char c :: nat
      in 65 \<le> n \<and> n \<le> 90 \<or> 97 \<le> n \<and> n \<le> 122 \<or> n = 170 \<or> n = 181 \<or> n = 186 \<or>
         192 \<le> n \<and> n \<noteq> 215 \<and> n \<noteq> 247)"

definition is_space :: "char \<Rightarrow> bool" where
  "is_space c = (c = CHR '' '' \<or> c = CHR 0x09 \<or> c = CHR 0x0A \<or> c = CHR 0x0D)"

definition ident_char :: "char \<Rightarrow> bool" where
  "ident_char c =
     (isLetter c \<or> isDigit c \<or> c = CHR ''_'' \<or> c = CHR ''-'' \<or> c = CHR ''.'')"

definition upper_char :: "char \<Rightarrow> char" where
  "upper_char c = (let n = of_char c :: nat in if 97 \<le> n \<and> n \<le> 122 then char_of (n - 32) else c)"

definition ToUpper :: "string \<Rightarrow> string" where
  "ToUpper s = map upper_char s"

text \<open>\<open>string(ch)\<close> of a byte: the UTF-8 encoding of the rune with its number.\<close>

definition rune_string :: "char \<Rightarrow> string" where
  "rune_string c =
     (let n = of_char c :: nat
      in if n < 128 then [c] else [char_of (192 + n div 64), char_of (128 + n mod 64)])"

section \<open>State\<close>

record token =
  tk_Type :: nat
  tk_Value :: string

abbreviation (input) Token :: "nat \<Rightarrow> string \<Rightarrow> token" where
  "Token t v \<equiv> \<lparr>tk_Type = t, tk_Value = v\<rparr>"

record lexer =
  lx_input :: string
  lx_pos :: nat
  lx_readPos :: nat
  lx_ch :: char

definition char_at :: "string \<Rightarrow> nat \<Rightarrow> char" where
  "char_at s i = (if length s \<le> i then NUL_byte else s ! i)"

definition readChar :: "lexer \<Rightarrow> lexer" where
  "readChar l =
     l\<lparr>lx_ch := char_at (lx_input l) (lx_readPos l), lx_pos := lx_readPos l,
       lx_readPos := Suc (lx_readPos l)\<rparr>"

definition NewLexer :: "string \<Rightarrow> lexer" where
  "NewLexer input = readChar \<lparr>lx_input = input, lx_pos = 0, lx_readPos = 0, lx_ch = NUL_byte\<rparr>"

definition peekChar :: "lexer \<Rightarrow> char" where
  "peekChar l = char_at (lx_input l) (lx_readPos l)"

function read_while :: "(char \<Rightarrow> bool) \<Rightarrow> lexer \<Rightarrow> lexer" where
  "read_while p l =
     (if lx_ch l \<noteq> NUL_byte \<and> p (lx_ch l) then read_while p (readChar l) else l)"
  by pat_completeness auto
termination
  by (relation "measure (\<lambda>(p, l). 2 * (length (lx_input l) - lx_readPos l) + (if lx_ch l = NUL_byte then 0 else 1))")
    (auto simp: readChar_def char_at_def split: if_splits)

declare read_while.simps [simp del]

definition str_slice :: "string \<Rightarrow> nat \<Rightarrow> nat \<Rightarrow> string" where
  "str_slice s a b = take (b - a) (drop a s)"

text \<open>None: slicing beyond the end of the input panics.\<close>

definition peekToken :: "lexer \<Rightarrow> string option" where
  "peekToken l =
     (if length (lx_input l) < lx_readPos l then None
      else Some (takeWhile ident_char (dropWhile is_space (drop (lx_readPos l) (lx_input l)))))"

section \<open>Tokens\<close>

definition skipWhitespace :: "lexer \<Rightarrow> lexer" where
  "skipWhitespace l = read_while is_space l"

definition newToken :: "nat \<Rightarrow> char \<Rightarrow> token" where
  "newToken t c = Token t (rune_string c)"

definition readMetaCommand :: "lexer \<Rightarrow> string \<times> lexer" where
  "readMetaCommand l =
     (let l1 = read_while (\<lambda>c. isLetter c \<or> c = CHR ''?'') (readChar l)
      in (str_slice (lx_input l) (lx_pos l) (lx_pos l1), l1))"

definition readIdentifier :: "lexer \<Rightarrow> string \<times> lexer" where
  "readIdentifier l =
     (let l1 = read_while ident_char l in (str_slice (lx_input l) (lx_pos l) (lx_pos l1), l1))"

definition readNumber :: "lexer \<Rightarrow> (string \<times> nat) \<times> lexer" where
  "readNumber l =
     (let l1 = read_while isDigit l;
          (l2, t) = (if lx_ch l1 = CHR ''.'' \<and> isDigit (peekChar l1)
                     then (read_while isDigit (readChar l1), TokenFloat) else (l1, TokenInteger))
      in ((str_slice (lx_input l) (lx_pos l) (lx_pos l2), t), l2))"

definition readQuotedString :: "char \<Rightarrow> lexer \<Rightarrow> string \<times> lexer" where
  "readQuotedString quote l =
     (let l1 = readChar l;
          l2 = read_while (\<lambda>c. c \<noteq> quote) l1;
          str = str_slice (lx_input l) (lx_pos l1) (lx_pos l2)
      in (str, if lx_ch l2 = quote then readChar l2 else l2))"

definition keyword_table :: "(string \<times> nat) list" where
  "keyword_table = [
    (''LOGIN'', TokenLogin), (''LOGOUT'', TokenLogout), (''REGISTER'', TokenRegister),
    (''LIST'', TokenList), (''SERVICES'', TokenServices), (''SHOW'', TokenShow),
    (''CREATE'', TokenCreate), (''SERVICE'', TokenService), (''SHUTDOWN'', TokenShutdown),
    (''RESTART'', TokenRestart), (''USERS'', TokenUsers), (''DROP'', TokenDrop),
    (''USER'', TokenUser), (''ALTER'', TokenAlter), (''ACTIVE'', TokenActive),
    (''INACTIVE'', TokenInactive), (''ADMIN'', TokenAdmin), (''SERVER'', TokenServer),
    (''API'', TokenAPI), (''ADD'', TokenAdd), (''HOST'', TokenHost), (''DELETE'', TokenDelete),
    (''PASSWORD'', TokenPassword), (''DATASET'', TokenDataset), (''DATASETS'', TokenDatasets),
    (''OF'', TokenOf), (''AGENTS'', TokenAgents), (''SEARCHES'', TokenSearches),
    (''ROLE'', TokenRole), (''ROLES'', TokenRoles), (''DESCRIPTION'', TokenDescription),
    (''GRANT'', TokenGrant), (''REVOKE'', TokenRevoke), (''ALL'', TokenAll),
    (''PERMISSION'', TokenPermission), (''TO'', TokenTo), (''FROM'', TokenFrom),
    (''FOR'', TokenFor), (''RESOURCES'', TokenResources), (''ON'', TokenOn), (''SET'', TokenSet),
    (''UNSET'', TokenUnset), (''RESET'', TokenReset), (''VERSION'', TokenVersion),
    (''VAR'', TokenVar), (''VARS'', TokenVars), (''CONFIGS'', TokenConfigs),
    (''CONFIG'', TokenConfig), (''ENVS'', TokenEnvs), (''KEY'', TokenKey), (''KEYS'', TokenKeys),
    (''GENERATE'', TokenGenerate), (''MODEL'', TokenModel), (''MODELS'', TokenModels),
    (''PROVIDER'', TokenProvider), (''PROVIDERS'', TokenProviders), (''DEFAULT'', TokenDefault),
    (''CHATS'', TokenChats), (''CHAT'', TokenChat), (''OPENAI_CHAT'', TokenOpenaiChat),
    (''MESSAGE'', TokenMessage), (''IMAGE'', TokenImage), (''VIDEO'', TokenVideo),
    (''AUDIO'', TokenAudio), (''THINK'', TokenThink), (''EFFORT'', TokenEffort),
    (''VERBOSITY'', TokenVerbosity), (''NONE'', TokenNone), (''MINIMAL'', TokenMinimal),
    (''LOW'', TokenLow), (''MEDIUM'', TokenMedium), (''HIGH'', TokenHigh), (''MAX'', TokenMax),
    (''STORE'', TokenStore), (''STREAM'', TokenStream), (''LS'', TokenLS), (''CAT'', TokenCat),
    (''FILES'', TokenFiles), (''AS'', TokenAs), (''PARSE'', TokenParse), (''IMPORT'', TokenImport),
    (''INTO'', TokenInto), (''WITH'', TokenWith), (''PARSER'', TokenParser),
    (''PIPELINE'', TokenPipeline), (''GET'', TokenGet), (''SEARCH'', TokenSearch),
    (''AGENT'', TokenAgent), (''MEMORY'', TokenMemory), (''MEMORIES'', TokenMemories),
    (''RETRIEVE'', TokenRetrieve), (''CURRENT'', TokenCurrent),
    (''FINGERPRINT'', TokenFingerprint), (''LICENSE'', TokenLicense), (''VISION'', TokenVision),
    (''EMBEDDING'', TokenEmbedding), (''RERANK'', TokenRerank), (''ASR'', TokenASR),
    (''TTS'', TokenTTS), (''EMBED'', TokenEmbed), (''TEXT'', TokenText), (''QUERY'', TokenQuery),
    (''TOP'', TokenTop), (''DIMENSION'', TokenDimension), (''OCR'', TokenOCR),
    (''DOC_PARSE'', TokenDocParse), (''ASYNC'', TokenAsync), (''SYNC'', TokenSync),
    (''BENCHMARK'', TokenBenchmark), (''PING'', TokenPing), (''TOKEN'', TokenToken),
    (''TOKENS'', TokenTokens), (''INDEX'', TokenIndex), (''VECTOR'', TokenVector),
    (''SIZE'', TokenSize), (''METADATA'', TokenMetadata), (''TABLE'', TokenTable),
    (''AVAILABLE'', TokenAvailable), (''SUPPORTED'', TokenSupported), (''NAME'', TokenName),
    (''BALANCE'', TokenBalance), (''INSTANCE'', TokenInstance), (''INSTANCES'', TokenInstances),
    (''DISABLE'', TokenDisable), (''ENABLE'', TokenEnable), (''INSERT'', TokenInsert),
    (''FILE'', TokenFile), (''USE'', TokenUse), (''CHECK'', TokenCheck), (''UPDATE'', TokenUpdate),
    (''REMOVE'', TokenRemove), (''EXPLAIN'', TokenExplain), (''CHUNKS'', TokenChunks),
    (''DOCUMENT'', TokenDocument), (''DOCUMENTS'', TokenDocuments), (''TAGS'', TokenTag),
    (''REGION'', TokenRegion), (''URL'', TokenURL), (''TASK'', TokenTask), (''TASKS'', TokenTasks),
    (''START'', TokenStart), (''STOP'', TokenStop), (''INGESTOR'', TokenIngestor),
    (''INGESTORS'', TokenIngestors), (''INGESTION'', TokenIngestion), (''MQ'', TokenMQ),
    (''PUBLISH'', TokenPublish), (''PULL'', TokenPull), (''PENDING'', TokenPending),
    (''NOACK'', TokenNoACK), (''ANALYZE'', TokenAnalyze), (''SUMMARY'', TokenSummary),
    (''STORAGE'', TokenStorage), (''QUOTA'', TokenQuota), (''TREE'', TokenTree),
    (''ORPHAN'', TokenOrphan), (''DAYS'', TokenDays), (''WINDOW'', TokenWindow),
    (''ACTIVITY'', TokenActivity), (''PURGE'', TokenPurge), (''PREVIEW'', TokenPreview),
    (''PLAN'', TokenPlan), (''DATA'', TokenData), (''LOG'', TokenLog), (''LEVEL'', TokenLevel),
    (''DEBUG'', TokenDebug), (''INFO'', TokenInfo), (''IN'', TokenIn), (''WARN'', TokenWarn),
    (''ERROR'', TokenError), (''FATAL'', TokenFatal), (''PANIC'', TokenPanic),
    (''PARAM'', TokenParam), (''PLAY'', TokenPlay), (''FORMAT'', TokenFormat),
    (''SAVE'', TokenSave)]"

definition lookupIdent :: "string \<Rightarrow> lexer \<Rightarrow> (token \<times> lexer) option" where
  "lookupIdent ident l =
     (if ToUpper ident = ''CHUNK'' then
        (case peekToken l of
           None \<Rightarrow> None
         | Some next \<Rightarrow>
             (if ToUpper next = ''STORE''
              then Some (Token TokenChunkStore ''CHUNK STORE'', read_while ident_char (read_while is_space l))
              else Some (Token TokenChunk ident, l)))
      else case map_of keyword_table (ToUpper ident) of
        Some t \<Rightarrow> Some (Token t ident, l)
      | None \<Rightarrow> Some (Token TokenIdentifier ident, l))"

definition single_tokens :: "(char \<times> nat) list" where
  "single_tokens =
     [(CHR '';'', TokenSemicolon), (CHR '','', TokenComma), (CHR ''/'', TokenSlash),
      (CHR ''-'', TokenDash), (CHR ''['', TokenLBracket), (CHR '']'', TokenRBracket)]"

text \<open>None is a panic, which only the look-ahead after the word \<open>CHUNK\<close> can cause.\<close>

definition NextToken :: "lexer \<Rightarrow> (token \<times> lexer) option" where
  "NextToken l0 =
     (let l = skipWhitespace l0; c = lx_ch l
      in case map_of single_tokens c of
        Some t \<Rightarrow> Some (newToken t c, readChar l)
      | None \<Rightarrow>
          (if c = CHR 0x27 \<or> c = CHR 0x22 then
             (case readQuotedString c l of (v, l1) \<Rightarrow> Some (Token TokenQuotedString v, l1))
           else if c = CHR 0x5C then
             (case readMetaCommand l of (v, l1) \<Rightarrow> Some (Token TokenIdentifier v, l1))
           else if c = NUL_byte then Some (Token TokenEOF [], l)
           else if isLetter c \<or> c = CHR ''_'' then
             (case readIdentifier l of (ident, l1) \<Rightarrow> lookupIdent ident l1)
           else if isDigit c then (case readNumber l of ((v, t), l1) \<Rightarrow> Some (Token t v, l1))
           else Some (newToken TokenIllegal c, readChar l)))"

section \<open>The lexer reads off the rest of its input\<close>

text \<open>The rest of the input from the current byte on; a zero byte ends it for good.\<close>

definition lexer_ok :: "lexer \<Rightarrow> bool" where
  "lexer_ok l = (lx_pos l \<le> length (lx_input l) \<and> lx_readPos l = Suc (lx_pos l) \<and>
     lx_ch l = char_at (lx_input l) (lx_pos l))"

definition lexer_rest :: "lexer \<Rightarrow> string" where
  "lexer_rest l = drop (lx_pos l) (lx_input l)"

definition first_char :: "string \<Rightarrow> char" where
  "first_char s = (case s of [] \<Rightarrow> NUL_byte | c # _ \<Rightarrow> c)"

text \<open>The lexer at a suffix of its input.\<close>

definition lexer_at :: "lexer \<Rightarrow> string \<Rightarrow> bool" where
  "lexer_at l s = (lexer_ok l \<and> lexer_rest l = s)"

lemma at_ch: "lexer_at l s \<Longrightarrow> lx_ch l = first_char s"
  unfolding lexer_at_def lexer_ok_def lexer_rest_def char_at_def first_char_def
  by (cases s) (auto, metis hd_drop_conv_nth list.sel(1) not_le)

lemma at_readChar: "lexer_at l (c # s) \<Longrightarrow> lexer_at (readChar l) s"
proof -
  assume a: "lexer_at l (c # s)"
  then have "lx_pos l < length (lx_input l)" "drop (Suc (lx_pos l)) (lx_input l) = s"
    by (auto simp: lexer_at_def lexer_rest_def drop_Suc tl_drop) (metis drop_eq_Nil leI list.distinct(1), metis list.sel(3) tl_drop)
  then show ?thesis using a by (auto simp: lexer_at_def lexer_ok_def lexer_rest_def readChar_def)
qed

lemma at_peekChar: "lexer_at l (c # s) \<Longrightarrow> peekChar l = first_char s"
  using at_readChar [of l c s] at_ch [of "readChar l" s] by (simp add: readChar_def peekChar_def)

lemma lx_input_readChar [simp]: "lx_input (readChar l) = lx_input l"
  by (simp add: readChar_def)

lemma lx_input_read_while [simp]: "lx_input (read_while p l) = lx_input l"
  by (induction p l rule: read_while.induct) (simp add: read_while.simps)

definition until_end :: "(char \<Rightarrow> bool) \<Rightarrow> char \<Rightarrow> bool" where
  "until_end p c = (c \<noteq> NUL_byte \<and> p c)"

lemma at_read_while: "lexer_at l s \<Longrightarrow> lexer_at (read_while p l) (dropWhile (until_end p) s)"
proof (induction s arbitrary: l)
  case Nil
  then show ?case using at_ch [OF Nil] by (simp add: read_while.simps first_char_def)
next
  case (Cons c s)
  then show ?case
    using Cons.IH [OF at_readChar [OF Cons.prems]] at_ch [OF Cons.prems]
    by (auto simp: read_while.simps [of p l] first_char_def until_end_def)
qed

lemma slice_at:
  assumes "lexer_at l (w @ s)" and "lexer_at l' s" and "lx_input l' = lx_input l"
  shows "str_slice (lx_input l) (lx_pos l) (lx_pos l') = w"
proof -
  have 1: "drop (lx_pos l) (lx_input l) = w @ s" "lx_pos l \<le> length (lx_input l)"
    using assms(1) by (auto simp: lexer_at_def lexer_rest_def lexer_ok_def)
  have 2: "drop (lx_pos l') (lx_input l) = s" "lx_pos l' \<le> length (lx_input l)"
    using assms(2,3) by (auto simp: lexer_at_def lexer_rest_def lexer_ok_def)
  have "length (lx_input l) - lx_pos l = length w + length s"
      "length (lx_input l) - lx_pos l' = length s"
    using 1 2 by (metis length_append length_drop)+
  then have "lx_pos l' - lx_pos l = length w" using 1 2 by simp
  then show ?thesis using 1 by (simp add: str_slice_def)
qed

lemma slice_read_while:
  "lexer_at l s \<Longrightarrow> str_slice (lx_input l) (lx_pos l) (lx_pos (read_while p l)) = takeWhile (until_end p) s"
  by (rule slice_at [of _ _ "dropWhile (until_end p) s"]) (simp_all add: at_read_while)

lemma until_end_simps [simp]:
  "until_end is_space = is_space" "until_end ident_char = ident_char" "until_end isDigit = isDigit"
  by (auto simp: until_end_def is_space_def ident_char_def isLetter_def isDigit_def fun_eq_iff)

subsection \<open>The reference\<close>

definition scan_quoted :: "char \<Rightarrow> string \<Rightarrow> token \<times> string" where
  "scan_quoted q s =
     (Token TokenQuotedString (takeWhile (until_end (\<lambda>c. c \<noteq> q)) s),
      case dropWhile (until_end (\<lambda>c. c \<noteq> q)) s of
        [] \<Rightarrow> [] | c # s' \<Rightarrow> (if c = q then s' else c # s'))"

definition scan_ident :: "string \<Rightarrow> (token \<times> string) option" where
  "scan_ident s =
     (let w = takeWhile ident_char s; s' = dropWhile ident_char s
      in if ToUpper w = ''CHUNK'' then
           (if s' = [] then None
            else if ToUpper (takeWhile ident_char (dropWhile is_space (tl s'))) = ''STORE''
            then Some (Token TokenChunkStore ''CHUNK STORE'', dropWhile ident_char (dropWhile is_space s'))
            else Some (Token TokenChunk w, s'))
         else case map_of keyword_table (ToUpper w) of
           Some t \<Rightarrow> Some (Token t w, s')
         | None \<Rightarrow> Some (Token TokenIdentifier w, s'))"

definition scan_number :: "string \<Rightarrow> token \<times> string" where
  "scan_number s =
     (let w = takeWhile isDigit s; s' = dropWhile isDigit s
      in case s' of
           c # d # s2 \<Rightarrow>
             (if c = CHR ''.'' \<and> isDigit d
              then (Token TokenFloat (w @ c # takeWhile isDigit (d # s2)), dropWhile isDigit (d # s2))
              else (Token TokenInteger w, s'))
         | _ \<Rightarrow> (Token TokenInteger w, s'))"

definition scan_token :: "string \<Rightarrow> (token \<times> string) option" where
  "scan_token s0 =
     (case dropWhile is_space s0 of
        [] \<Rightarrow> Some (Token TokenEOF [], [])
      | c # s \<Rightarrow>
          (case map_of single_tokens c of
             Some t \<Rightarrow> Some (newToken t c, s)
           | None \<Rightarrow>
               (if c = CHR 0x27 \<or> c = CHR 0x22 then Some (scan_quoted c s)
                else if c = CHR 0x5C then
                  (let p = until_end (\<lambda>c. isLetter c \<or> c = CHR ''?'')
                   in Some (Token TokenIdentifier (c # takeWhile p s), dropWhile p s))
                else if c = NUL_byte then Some (Token TokenEOF [], c # s)
                else if isLetter c \<or> c = CHR ''_'' then scan_ident (c # s)
                else if isDigit c then Some (scan_number (c # s))
                else Some (newToken TokenIllegal c, s))))"

definition scans :: "lexer \<Rightarrow> (token \<times> lexer) option \<Rightarrow> (token \<times> string) option \<Rightarrow> bool" where
  "scans l r r' =
     rel_option (\<lambda>(t, l') (t', s'). t = t' \<and> lexer_at l' s' \<and> lx_input l' = lx_input l) r r'"

lemma scans_Some [simp]:
  "scans l (Some (t, l')) (Some (t', s')) \<longleftrightarrow> t = t' \<and> lexer_at l' s' \<and> lx_input l' = lx_input l"
  "scans l None None"
  by (simp_all add: scans_def)

lemma quoted_scans:
  assumes "lexer_at l (c # s)" and "readQuotedString c l = (v, l')" and "c \<noteq> NUL_byte"
  shows "scans l (Some (Token TokenQuotedString v, l')) (Some (scan_quoted c s))"
proof -
  let ?p = "\<lambda>d. d \<noteq> c"
  have 1: "lexer_at (readChar l) s" by (rule at_readChar [OF assms(1)])
  note 2 = at_read_while [OF 1, of ?p]
  define t where "t = dropWhile (until_end ?p) s"
  have at: "lexer_at (read_while ?p (readChar l)) t" using 2 by (simp add: t_def)
  show ?thesis
    using assms(2,3) slice_read_while [OF 1, of ?p] at at_ch [OF at]
      at_readChar [of "read_while ?p (readChar l)"]
    unfolding scan_quoted_def t_def [symmetric] readQuotedString_def Let_def
    by (cases t) (auto simp: first_char_def split: if_splits)
qed

lemma peekToken_at:
  assumes "lexer_at l s"
  shows "peekToken l = (if s = [] then None else Some (takeWhile ident_char (dropWhile is_space (tl s))))"
proof -
  have "drop (lx_pos l) (lx_input l) = s" "lx_pos l \<le> length (lx_input l)" "lx_readPos l = Suc (lx_pos l)"
    using assms by (auto simp: lexer_at_def lexer_rest_def lexer_ok_def)
  then show ?thesis
    by (auto simp: peekToken_def drop_Suc tl_drop)
qed

lemma ident_scans:
  assumes "lexer_at l s"
  shows "scans l (case readIdentifier l of (ident, l1) \<Rightarrow> lookupIdent ident l1) (scan_ident s)"
proof -
  let ?l = "read_while ident_char l" and ?s = "dropWhile ident_char s"
  have at: "lexer_at ?l ?s" using at_read_while [OF assms, of ident_char] by simp
  have w: "str_slice (lx_input l) (lx_pos l) (lx_pos ?l) = takeWhile ident_char s"
    using slice_read_while [OF assms, of ident_char] by simp
  have "lexer_at (read_while ident_char (read_while is_space ?l)) (dropWhile ident_char (dropWhile is_space ?s))"
    using at_read_while [OF at_read_while [OF at, of is_space], of ident_char] by simp
  then show ?thesis
    using at peekToken_at [OF at]
    by (auto simp: readIdentifier_def lookupIdent_def scan_ident_def w Let_def split: option.splits)
qed

lemma number_scans:
  assumes "lexer_at l s" and "readNumber l = ((v, t), l')"
  shows "scans l (Some (Token t v, l')) (Some (scan_number s))"
proof -
  let ?l = "read_while isDigit l" and ?w = "takeWhile isDigit s" and ?s = "dropWhile isDigit s"
  have at: "lexer_at ?l ?s" using at_read_while [OF assms(1), of isDigit] by simp
  have w: "str_slice (lx_input l) (lx_pos l) (lx_pos ?l) = ?w"
    using slice_read_while [OF assms(1), of isDigit] by simp
  show ?thesis
  proof (cases "lx_ch ?l = CHR ''.'' \<and> isDigit (peekChar ?l)")
    case True
    then obtain s1 where s1: "?s = CHR ''.'' # s1" using at_ch [OF at] by (cases ?s) (auto simp: first_char_def)
    with at have p: "peekChar ?l = first_char s1" using at_peekChar [of ?l] by simp
    with True obtain d s2 where d: "s1 = d # s2" "isDigit d"
      by (cases s1) (auto simp: first_char_def isDigit_def)
    have at1: "lexer_at (readChar ?l) (d # s2)" using at_readChar [of ?l "CHR ''.''" s1] at s1 d by simp
    let ?l2 = "read_while isDigit (readChar ?l)"
    have at2: "lexer_at ?l2 (dropWhile isDigit (d # s2))" using at_read_while [OF at1, of isDigit] by simp
    have "s = ?w @ CHR ''.'' # takeWhile isDigit (d # s2) @ dropWhile isDigit (d # s2)"
      using s1 d by (metis takeWhile_dropWhile_id)
    then have "str_slice (lx_input l) (lx_pos l) (lx_pos ?l2) = ?w @ CHR ''.'' # takeWhile isDigit (d # s2)"
      using slice_at [of l "?w @ CHR ''.'' # takeWhile isDigit (d # s2)" _ ?l2, OF _ at2] assms(1) by simp
    then show ?thesis
      using assms(2) True at2 s1 d by (auto simp: readNumber_def scan_number_def Let_def)
  next
    case False
    then have "scan_number s = (Token TokenInteger ?w, ?s)"
    proof -
      define s' where "s' = ?s"
      show ?thesis
        using False at_ch [OF at] at_peekChar [of ?l] at
        unfolding scan_number_def Let_def s'_def [symmetric]
        by (auto simp: first_char_def split: list.splits)
    qed
    then show ?thesis using assms(2) False at w by (auto simp: readNumber_def Let_def)
  qed
qed

lemma meta_scans:
  assumes "lexer_at l (c # s)" and "readMetaCommand l = (v, l')" and "p = until_end (\<lambda>c. isLetter c \<or> c = CHR ''?'')"
  shows "v = c # takeWhile p s \<and> lexer_at l' (dropWhile p s) \<and> lx_input l' = lx_input l"
proof -
  note at = at_read_while [OF at_readChar [OF assms(1)], of "\<lambda>c. isLetter c \<or> c = CHR ''?''"]
  have "lexer_at l ((c # takeWhile p s) @ dropWhile p s)" using assms(1) by simp
  from slice_at [OF this, of "read_while (\<lambda>c. isLetter c \<or> c = CHR ''?'') (readChar l)"] at assms(2,3)
  show ?thesis by (auto simp: readMetaCommand_def Let_def)
qed

lemma NextToken_scans_at:
  assumes "lexer_at l0 s0"
  shows "scans l0 (NextToken l0) (scan_token s0)"
proof -
  define l where "l = skipWhitespace l0"
  define s where "s = dropWhile is_space s0"
  have at: "lexer_at l s" using at_read_while [OF assms, of is_space] by (simp add: l_def s_def skipWhitespace_def)
  have inp: "lx_input l = lx_input l0" by (simp add: l_def skipWhitespace_def)
  have ch: "lx_ch l = first_char s" by (rule at_ch [OF at])
  have "scans l (NextToken l0) (scan_token s0)"
  proof (cases s)
    case Nil
    then show ?thesis
      using at ch unfolding NextToken_def scan_token_def l_def [symmetric] s_def [symmetric] Let_def
      by (simp add: single_tokens_def first_char_def)
  next
    case (Cons c s1)
    note rd = at_readChar [OF at [unfolded Cons]]
    obtain q lq where q: "readQuotedString c l = (q, lq)" by (cases "readQuotedString c l")
    obtain m lm where m: "readMetaCommand l = (m, lm)" by (cases "readMetaCommand l")
    obtain n t ln where n: "readNumber l = ((n, t), ln)" by (cases "readNumber l") auto
    note unfold = NextToken_def scan_token_def l_def [symmetric] s_def [symmetric] Cons Let_def
    have c: "lx_ch l = c" using ch Cons by (simp add: first_char_def)
    show ?thesis
    proof (cases "map_of single_tokens c")
      case (Some t)
      then show ?thesis using rd by (simp add: unfold c)
    next
      case single: None
      consider "c = CHR 0x27 \<or> c = CHR 0x22" | "c = CHR 0x5C" | "c = NUL_byte"
        | "\<not> (c = CHR 0x27 \<or> c = CHR 0x22)" "c \<noteq> CHR 0x5C" "c \<noteq> NUL_byte" by blast
      then show ?thesis
      proof cases
        case 1
        then have "scans l (Some (Token TokenQuotedString q, lq)) (Some (scan_quoted c s1))"
          using quoted_scans [OF at [unfolded Cons] q] by auto
        then show ?thesis using 1 single q by (simp add: unfold c)
      next
        case 2
        then show ?thesis using meta_scans [OF at [unfolded Cons] m] single m by (simp add: unfold c)
      next
        case 3
        then show ?thesis using single at Cons by (simp add: unfold c)
      next
        case 4
        then show ?thesis
          using single rd n ident_scans [OF at] number_scans [OF at n] by (simp add: unfold c)
      qed
    qed
  qed
  then show ?thesis by (simp add: scans_def inp)
qed

end
