(* ===== verification/GoStrings.thy ===== *)
theory GoStrings
  imports Floats
begin

text \<open>
  What the program uses of the packages \<open>strings\<close> and \<open>unicode/utf8\<close>. A Go string is a string of
  bytes; a rune is represented by its UTF-8 encoding, and a byte that starts no encoding is read as
  the replacement rune.
\<close>

section \<open>Runes\<close>

text \<open>\<open>[]rune(s)\<close>; \<open>string(rs)\<close> is \<open>concat rs\<close> and \<open>len([]rune(s))\<close> the length of the list.\<close>

function runes :: "string \<Rightarrow> string list" where
  "runes [] = []"
| "runes (c # s) =
     (let n = rune_len (c # s)
      in if n = 0 then replacement_rune # runes s
         else take n (c # s) # runes (drop n (c # s)))"
  by pat_completeness auto
termination
  by (relation "measure length") auto

lemma concat_runes: "concat (runes s) = utf8_fix s"
  by (induction s rule: runes.induct) (simp_all add: Let_def utf8_fix.simps)

lemma length_runes: "length (runes s) \<le> length s"
proof (induction s rule: runes.induct)
  case 1
  then show ?case by simp
next
  case (2 c s)
  show ?case
  proof (cases "rune_len (c # s) = 0")
    case True
    with 2(1) show ?thesis by simp
  next
    case False
    then have "length (runes (drop (rune_len (c # s)) (c # s))) \<le> length (drop (rune_len (c # s)) (c # s))"
      using 2(2) by simp
    with False show ?thesis by (cases "rune_len (c # s)") (auto simp: Let_def)
  qed
qed

lemma runes_eq_Nil [simp]: "runes s = [] \<longleftrightarrow> s = []"
  by (cases s) (simp_all add: Let_def)

section \<open>Case, white space and quoting\<close>

text \<open>Case changes of \<open>strings.ToLower\<close> and \<open>strings.EqualFold\<close> on ASCII letters.\<close>

definition lower_char :: "char \<Rightarrow> char" where
  "lower_char c = (let n = of_char c :: nat in if 65 \<le> n \<and> n \<le> 90 then char_of (n + 32) else c)"

definition ToLower :: "string \<Rightarrow> string" where
  "ToLower s = map lower_char s"

definition EqualFold :: "string \<Rightarrow> string \<Rightarrow> bool" where
  "EqualFold a b = (ToLower a = ToLower b)"

text \<open>The encodings of the runes for which \<open>unicode.IsSpace\<close> holds.\<close>

definition white_runes :: "string list" where
  "white_runes =
     map (\<lambda>n. [char_of (n :: nat)]) [9, 10, 11, 12, 13, 32] @
     [[CHR 0xC2, CHR 0x85], [CHR 0xC2, CHR 0xA0], [CHR 0xE1, CHR 0x9A, CHR 0x80]] @
     map (\<lambda>n. [CHR 0xE2, CHR 0x80, char_of (n :: nat)])
       [128, 129, 130, 131, 132, 133, 134, 135, 136, 137, 138, 168, 169, 175] @
     [[CHR 0xE2, CHR 0x81, CHR 0x9F], [CHR 0xE3, CHR 0x80, CHR 0x80]]"

fun starts_with :: "string \<Rightarrow> string \<Rightarrow> bool" where
  "starts_with [] s = True"
| "starts_with (c # w) [] = False"
| "starts_with (c # w) (d # s) = (c = d \<and> starts_with w s)"

text \<open>The length of the first of the words that the text starts with, or zero.\<close>

definition word_len :: "string list \<Rightarrow> string \<Rightarrow> nat" where
  "word_len ws s = (case filter (\<lambda>w. starts_with w s) ws of [] \<Rightarrow> 0 | w # _ \<Rightarrow> length w)"

function trim_start :: "string list \<Rightarrow> string \<Rightarrow> string" where
  "trim_start ws s =
     (if word_len ws s = 0 \<or> s = [] then s else trim_start ws (drop (word_len ws s) s))"
  by pat_completeness auto
termination by (relation "measure (length \<circ> snd)") auto

declare trim_start.simps [simp del]

definition TrimSpace :: "string \<Rightarrow> string" where
  "TrimSpace s = rev (trim_start (map rev white_runes) (rev (trim_start white_runes s)))"

lemma TrimSpace_Nil [simp]: "TrimSpace [] = []"
  by (simp add: TrimSpace_def trim_start.simps)

text \<open>\<open>strings.Trim(s, "'\"")\<close>.\<close>

definition trim_quotes :: "string \<Rightarrow> string" where
  "trim_quotes s =
     (let q = (\<lambda>c. c = CHR 0x27 \<or> c = CHR 0x22) in rev (dropWhile q (rev (dropWhile q s))))"

text \<open>\<open>strings.Fields\<close>: \<open>cur\<close> is the field being collected, backwards.\<close>

function fields_loop :: "string \<Rightarrow> string \<Rightarrow> string list" where
  "fields_loop cur s =
     (if s = [] then (if cur = [] then [] else [rev cur])
      else if 0 < word_len white_runes s
      then (if cur = [] then [] else [rev cur]) @ fields_loop [] (drop (word_len white_runes s) s)
      else fields_loop (hd s # cur) (tl s))"
  by pat_completeness auto
termination by (relation "measure (length \<circ> snd)") auto

declare fields_loop.simps [simp del]

definition Fields :: "string \<Rightarrow> string list" where
  "Fields s = fields_loop [] s"

text \<open>\<open>%q\<close>: quoting of ASCII text; other bytes are left as they are.\<close>

definition quote_char :: "char \<Rightarrow> string" where
  "quote_char c =
     (let n = of_char c :: nat; hex = (\<lambda>i. ''0123456789abcdef'' ! i)
      in if c = CHR 0x22 \<or> c = CHR 0x5C then [CHR 0x5C, c]
         else if n = 7 then [CHR 0x5C, CHR ''a''] else if n = 8 then [CHR 0x5C, CHR ''b'']
         else if n = 9 then [CHR 0x5C, CHR ''t''] else if n = 10 then [CHR 0x5C, CHR ''n'']
         else if n = 11 then [CHR 0x5C, CHR ''v''] else if n = 12 then [CHR 0x5C, CHR ''f'']
         else if n = 13 then [CHR 0x5C, CHR ''r'']
         else if n < 32 \<or> n = 127 then [CHR 0x5C, CHR ''x'', hex (n div 16), hex (n mod 16)]
         else [c])"

definition quote :: "string \<Rightarrow> string" where
  "quote s = CHR 0x22 # concat (map quote_char s) @ [CHR 0x22]"

text \<open>
  \<open>strings.ToLower\<close> as far as ASCII words can see it: besides the ASCII capitals, the two runes
  U+0130 and U+212A are lowered to an ASCII letter.
\<close>

definition lower_rune :: "string \<Rightarrow> string" where
  "lower_rune r =
     (if r = [CHR 0xC4, CHR 0xB0] then ''i''
      else if r = [CHR 0xE2, CHR 0x84, CHR 0xAA] then ''k''
      else map lower_char r)"

definition lower_text :: "string \<Rightarrow> string" where
  "lower_text s = concat (map lower_rune (runes s))"

text \<open>\<open>strings.Join\<close> with any separator.\<close>

fun join_by :: "string \<Rightarrow> string list \<Rightarrow> string" where
  "join_by sep [] = []"
| "join_by sep [w] = w"
| "join_by sep (w # v # ws) = w @ sep @ join_by sep (v # ws)"

lemma join_by_snoc: "ws \<noteq> [] \<Longrightarrow> join_by sep (ws @ [w]) = join_by sep ws @ sep @ w"
  by (induction sep ws rule: join_by.induct) auto

end
