(* ===== verification/CliParse.thy ===== *)
theory CliParse
  imports CliLexer ChannelAgg GoStrings
begin

text \<open>
  The parser of the command line, \<open>cli/parser.go\<close>: its state is a lexer with two tokens of
  look-ahead. A parsing function maps a parser to an outcome and the parser it leaves behind: a
  value, an error message, a panic of the lexer, or \<open>PStuck\<close>, which stands for a loop that does not
  end. The combinators follow the statements of the code: \<open>pseq\<close> and \<open>pbind\<close> are a call with its
  error check, \<open>pwrap\<close> rewrites the error of a call, \<open>pget\<close> reads the current token, \<open>pif\<close> branches
  on it and \<open>ploop\<close> is a \<open>for\<close> statement over the variables it changes, whose body continues
  (\<open>Inl\<close>) or breaks (\<open>Inr\<close>). A loop gets as much fuel as there is input left; the theory
  \<open>CliProps\<close> proves that this is always enough.
\<close>

section \<open>Commands\<close>

datatype param =
    PStr string | PInt int | PFloat f64 | PBool bool | PStrs "string list" | PInts "int list"
  | PFlags "(string \<times> bool) list" | PModels "(string \<times> param) list list"
  | PNested string "(string \<times> param) list"

record command =
  cmd_Type :: string
  cmd_Params :: "param gomap"

definition NewCommand :: "string \<Rightarrow> command" where
  "NewCommand cmdType = \<lparr>cmd_Type = cmdType, cmd_Params = []\<rparr>"

definition set_param :: "string \<Rightarrow> param \<Rightarrow> command \<Rightarrow> command" where
  "set_param k v cmd = cmd\<lparr>cmd_Params := mput k v (cmd_Params cmd)\<rparr>"

definition PCommand :: "command \<Rightarrow> param" where
  "PCommand c = PNested (cmd_Type c) (cmd_Params c)"

section \<open>The parser and its steps\<close>

record parser =
  ps_lexer :: lexer
  ps_cur :: token
  ps_peek :: token
  ps_original :: string

datatype 'a outcome = PDone 'a | PFail string | PPanic | PStuck

type_synonym 'a parse = "parser \<Rightarrow> 'a outcome \<times> parser"

definition cur_type :: "parser \<Rightarrow> nat" where
  "cur_type p = tk_Type (ps_cur p)"

definition cur_value :: "parser \<Rightarrow> string" where
  "cur_value p = tk_Value (ps_cur p)"

definition peek_type :: "parser \<Rightarrow> nat" where
  "peek_type p = tk_Type (ps_peek p)"

definition peek_value :: "parser \<Rightarrow> string" where
  "peek_value p = tk_Value (ps_peek p)"

definition nextToken :: "unit parse" where
  "nextToken p =
     (case NextToken (ps_lexer p) of
        None \<Rightarrow> (PPanic, p\<lparr>ps_cur := ps_peek p\<rparr>)
      | Some (t, l) \<Rightarrow> (PDone (), p\<lparr>ps_cur := ps_peek p, ps_peek := t, ps_lexer := l\<rparr>))"

definition pret :: "'a \<Rightarrow> 'a parse" where
  "pret x p = (PDone x, p)"

definition perr :: "(parser \<Rightarrow> string) \<Rightarrow> 'a parse" where
  "perr msg p = (PFail (msg p), p)"

definition pbind :: "'a parse \<Rightarrow> ('a \<Rightarrow> 'b parse) \<Rightarrow> 'b parse" where
  "pbind m f p =
     (case m p of
        (PDone a, q) \<Rightarrow> f a q | (PFail e, q) \<Rightarrow> (PFail e, q)
      | (PPanic, q) \<Rightarrow> (PPanic, q) | (PStuck, q) \<Rightarrow> (PStuck, q))"

definition pseq :: "'a parse \<Rightarrow> 'b parse \<Rightarrow> 'b parse" where
  "pseq m n = pbind m (\<lambda>_. n)"

definition pget :: "(parser \<Rightarrow> 'a) \<Rightarrow> ('a \<Rightarrow> 'b parse) \<Rightarrow> 'b parse" where
  "pget g f p = f (g p) p"

definition pif :: "(parser \<Rightarrow> bool) \<Rightarrow> 'a parse \<Rightarrow> 'a parse \<Rightarrow> 'a parse" where
  "pif c a b p = (if c p then a p else b p)"

definition pwrap :: "(string \<Rightarrow> parser \<Rightarrow> string) \<Rightarrow> 'a parse \<Rightarrow> 'a parse" where
  "pwrap w m p = (case m p of (PFail e, q) \<Rightarrow> (PFail (w e q), q) | r \<Rightarrow> r)"

text \<open>The characters left and the tokens already read but not yet used.\<close>

definition budget :: "parser \<Rightarrow> nat" where
  "budget p =
     length (lx_input (ps_lexer p)) - lx_pos (ps_lexer p) +
     (if peek_type p = TokenEOF then 0 else 1) + (if cur_type p = TokenEOF then 0 else 1)"

primrec ploop_n :: "nat \<Rightarrow> ('a \<Rightarrow> ('a + 'b) parse) \<Rightarrow> 'a \<Rightarrow> 'b parse" where
  "ploop_n 0 body a = (\<lambda>p. (PStuck, p))"
| "ploop_n (Suc n) body a = pbind (body a) (\<lambda>r. case r of Inl a' \<Rightarrow> ploop_n n body a' | Inr b \<Rightarrow> pret b)"

definition ploop :: "('a \<Rightarrow> ('a + 'b) parse) \<Rightarrow> 'a \<Rightarrow> 'b parse" where
  "ploop body a p = ploop_n (Suc (budget p)) body a p"

definition NewParser :: "string \<Rightarrow> unit outcome \<times> parser" where
  "NewParser input =
     pseq nextToken nextToken
       \<lparr>ps_lexer = NewLexer input, ps_cur = Token 0 [], ps_peek = Token 0 [], ps_original = input\<rparr>"

section \<open>Numbers\<close>

text \<open>Decimal numbers: \<open>strconv.Atoi\<close> and \<open>strconv.ParseFloat\<close> of digits.\<close>

definition digit_value :: "char \<Rightarrow> nat" where
  "digit_value c = of_char c - 48"

definition digits_value :: "string \<Rightarrow> nat" where
  "digits_value s = foldl (\<lambda>n c. 10 * n + digit_value c) 0 s"

definition atoi :: "string \<Rightarrow> int option" where
  "atoi s =
     (let (sg, ds) = (case s of
              [] \<Rightarrow> (1, [])
            | c # t \<Rightarrow> (if c = CHR ''-'' then (- 1, t) else if c = CHR ''+'' then (1, t) else (1, s)));
          n = sg * int (digits_value ds)
      in if ds = [] \<or> \<not> list_all isDigit ds \<or> n < - (2 ^ 63) \<or> 2 ^ 63 \<le> n then None else Some n)"

definition f64_ratio :: "nat \<Rightarrow> nat \<Rightarrow> f64" where
  "f64_ratio m d =
     (let k = 55 + bitlen d;
          n = 2 * (m * 2 ^ k div d) + (if m * 2 ^ k mod d = 0 then 0 else 1)
      in f64_round (int n) (- int k - 1))"

definition decimal_value :: "string \<Rightarrow> f64" where
  "decimal_value s =
     (let w = takeWhile isDigit s; f = tl (dropWhile isDigit s)
      in f64_ratio (digits_value (w @ f)) (10 ^ length f))"

section \<open>Helpers of the parser\<close>

definition tokenTypeToString :: "nat \<Rightarrow> string" where
  "tokenTypeToString t =
     (if t = TokenEOF then ''end of input''
      else if t = TokenIdentifier then ''identifier''
      else if t = TokenInteger then ''integer''
      else if t = TokenFloat then ''float''
      else if t = TokenQuotedString then ''quoted string''
      else if t = TokenLBracket then [CHR 0x27, CHR ''['', CHR 0x27]
      else if t = TokenRBracket then [CHR 0x27, CHR '']'', CHR 0x27]
      else if t = TokenComma then [CHR 0x27, CHR '','', CHR 0x27]
      else if t = TokenSemicolon then [CHR 0x27, CHR '';'', CHR 0x27]
      else ''token('' @ show_int (int t) @ '')'')"

definition tokenTypeDescription :: "nat \<Rightarrow> token \<Rightarrow> string" where
  "tokenTypeDescription t tok =
     (if tk_Type tok = t \<and> tk_Value tok \<noteq> []
      then tokenTypeToString t @ '' '' @ quote (tk_Value tok) else tokenTypeToString t)"

definition isKeyword :: "nat \<Rightarrow> bool" where
  "isKeyword t = (TokenLogin \<le> t \<and> t \<le> TokenPanic)"

definition expectPeek :: "nat \<Rightarrow> unit parse" where
  "expectPeek t =
     pif (\<lambda>p. peek_type p \<noteq> t)
       (perr (\<lambda>p. ''expected '' @ tokenTypeToString t @ '', got '' @ peek_value p))
       nextToken"

definition expectSemicolon :: "unit parse" where
  "expectSemicolon =
     pif (\<lambda>p. cur_type p = TokenSemicolon) (pret ())
       (pif (\<lambda>p. peek_type p = TokenSemicolon) nextToken (perr (\<lambda>p. ''expected semicolon'')))"

text \<open>The statement \<open>if p.curToken.Type == TokenSemicolon \{ p.nextToken() \}\<close>.\<close>

definition opt_semicolon :: "unit parse" where
  "opt_semicolon = pif (\<lambda>p. cur_type p = TokenSemicolon) nextToken (pret ())"

definition parseQuotedString :: "string parse" where
  "parseQuotedString =
     pif (\<lambda>p. cur_type p \<noteq> TokenQuotedString)
       (perr (\<lambda>p. ''expected quoted string, got '' @ cur_value p)) (pget cur_value pret)"

definition parseIdentifier :: "string parse" where
  "parseIdentifier =
     pif (\<lambda>p. cur_type p \<noteq> TokenIdentifier)
       (perr (\<lambda>p. ''expected identifier, got '' @ cur_value p)) (pget cur_value pret)"

definition parseVariableValue :: "string parse" where
  "parseVariableValue =
     pif (\<lambda>p. cur_type p \<in> {TokenIdentifier, TokenQuotedString, TokenInteger, TokenFloat})
       (pget cur_value pret) (perr (\<lambda>p. ''expected variable value, got '' @ cur_value p))"

text \<open>\<open>strconv.Atoi(p.curToken.Value)\<close> with the text of its range error.\<close>

definition atoi_cur :: "int parse" where
  "atoi_cur =
     pget (\<lambda>p. atoi (cur_value p)) (\<lambda>r. case r of
       Some n \<Rightarrow> pret n
     | None \<Rightarrow> perr (\<lambda>p. ''strconv.Atoi: parsing '' @ quote (cur_value p) @ '': value out of range''))"

definition parseNumber :: "int parse" where
  "parseNumber =
     pif (\<lambda>p. cur_type p \<noteq> TokenInteger)
       (perr (\<lambda>p. ''expected number, got '' @ cur_value p)) atoi_cur"

definition parseFloat :: "f64 parse" where
  "parseFloat =
     pif (\<lambda>p. cur_type p \<noteq> TokenInteger \<and> cur_type p \<noteq> TokenFloat)
       (perr (\<lambda>p. ''expected number, got '' @ cur_value p))
       (pget (\<lambda>p. decimal_value (cur_value p)) (\<lambda>x. case x of
          Inf b \<Rightarrow> perr (\<lambda>p. ''strconv.ParseFloat: parsing '' @ quote (cur_value p) @ '': value out of range'')
        | _ \<Rightarrow> pret x))"

definition parseQuotedStringList :: "(string list) parse" where
  "parseQuotedStringList =
     pif (\<lambda>p. cur_type p \<noteq> TokenLBracket) (perr (\<lambda>p. ''expected '' @ [CHR 0x27] @ ''['' @ [CHR 0x27] @ '', got '' @ cur_value p)) (
     pseq nextToken (
     pif (\<lambda>p. cur_type p = TokenRBracket) (pseq nextToken (pret [])) (
     ploop (\<lambda>xs.
       pbind (pwrap (\<lambda>err p. ''expected quoted string in list: '' @ err) parseQuotedString) (\<lambda>s.
       let xs = xs @ [s] in
       pseq nextToken (
       pif (\<lambda>p. cur_type p = TokenComma) (pseq nextToken (pret (Inl xs))) (
       pif (\<lambda>p. cur_type p = TokenRBracket) (pseq nextToken (pret (Inr xs))) (
       perr (\<lambda>p. ''expected '' @ [CHR 0x27] @ '','' @ [CHR 0x27] @ '' or '' @ [CHR 0x27] @ '']'' @ [CHR 0x27] @
         '' in list, got '' @ cur_value p)))))) [])))"

definition parseMetaCommand :: "command parse" where
  "parseMetaCommand =
     (let cmd = NewCommand ''meta'' in
      pget (\<lambda>p. case cur_value p of c # s \<Rightarrow> (if c = CHR 0x5C then s else c # s) | [] \<Rightarrow> []) (\<lambda>cmdName.
      let cmd = set_param ''command'' (PStr (ToLower cmdName)) cmd in
      pseq nextToken (
      pbind (ploop (\<lambda>args.
          pif (\<lambda>p. cur_type p \<noteq> TokenEOF)
            (pget cur_value (\<lambda>v. pseq nextToken (pret (Inl (args @ [v])))))
            (pret (Inr args))) []) (\<lambda>args.
      pret (set_param ''args'' (PStrs args) cmd)))))"

definition parseFileSystemCommands :: "command parse" where
  "parseFileSystemCommands =
     pseq nextToken (
     pget ps_original (\<lambda>v.
     pret (set_param ''command'' (PStr v) (NewCommand ''file_system_command''))))"

definition IsCompositeModelName :: "string \<Rightarrow> bool" where
  "IsCompositeModelName s = (let parts = split_on (CHR ''@'') s in length parts = 3 \<and> [] \<notin> set parts)"

definition IsUUID :: "string \<Rightarrow> bool" where
  "IsUUID s =
     (length s = 32 \<and> list_all (\<lambda>c. isDigit c \<or> (let n = of_char c :: nat in 97 \<le> n \<and> n \<le> 122)) s)"

definition parseHostPort :: "string \<Rightarrow> string + string \<times> int" where
  "parseHostPort hostPort =
     (if hostPort = [] then Inr ([], - 1)
      else case split_on (CHR '':'') hostPort of
        [host, port] \<Rightarrow>
          (case atoi port of
             None \<Rightarrow> Inl (''invalid port number: '' @ port) | Some n \<Rightarrow> Inr (host, n))
      | _ \<Rightarrow> Inl (''invalid host format, expected host:port, got: '' @ hostPort))"

definition plift :: "string + 'a \<Rightarrow> 'a parse" where
  "plift r = (case r of Inl e \<Rightarrow> perr (\<lambda>_. e) | Inr x \<Rightarrow> pret x)"

end
