(* ===== verification/CliDev.thy ===== *)
theory CliDev
  imports CliParse
begin

text \<open>
  The development commands of \<open>cli/dev_parser.go\<close> and what they use. Each definition
  follows the statements of the function of the same name.
\<close>

definition parseInsertChunksFromFile :: "command parse" where
  "parseInsertChunksFromFile =
     (pseq nextToken (
     pif (\<lambda>p. cur_type p \<noteq> TokenFrom) (
       perr (\<lambda>p. ''expected FROM, got '' @ cur_value p)) (
     pseq nextToken (
     pif (\<lambda>p. cur_type p \<noteq> TokenFile) (
       perr (\<lambda>p. ''expected FILE, got '' @ cur_value p)) (
     pseq nextToken (
     pbind parseQuotedString (\<lambda>filePath.
     let cmd = NewCommand ''dev_insert_chunks_from_file'' in
     let cmd = set_param ''file_path'' (PStr filePath) cmd in
     pseq nextToken (
     pseq opt_semicolon (
     pret cmd)))))))))"

definition parseInsertMetadataFromFile :: "command parse" where
  "parseInsertMetadataFromFile =
     (pseq nextToken (
     pif (\<lambda>p. cur_type p \<noteq> TokenFrom) (
       perr (\<lambda>p. ''expected FROM, got '' @ cur_value p)) (
     pseq nextToken (
     pif (\<lambda>p. cur_type p \<noteq> TokenFile) (
       perr (\<lambda>p. ''expected FILE, got '' @ cur_value p)) (
     pseq nextToken (
     pbind parseQuotedString (\<lambda>filePath.
     let cmd = NewCommand ''dev_insert_metadata_from_file'' in
     let cmd = set_param ''file_path'' (PStr filePath) cmd in
     pseq nextToken (
     pseq opt_semicolon (
     pret cmd)))))))))"

definition parseDevInsertCommand :: "command parse" where
  "parseDevInsertCommand =
     (pseq nextToken (
     pif (\<lambda>p. cur_type p = TokenChunks) (
       parseInsertChunksFromFile) (
     pif (\<lambda>p. cur_type p = TokenMetadata) (
       parseInsertMetadataFromFile) (
     perr (\<lambda>p. ''expected CHUNKS or METADATA after INSERT, got '' @ cur_value p)))))"

definition parseGetChunk :: "command parse" where
  "parseGetChunk =
     (pseq nextToken (
     pbind (pwrap (\<lambda>err p. ''expected chunk_id: '' @ err) parseQuotedString) (\<lambda>chunkID.
     let cmd = NewCommand ''dev_get_chunk'' in
     let cmd = set_param ''chunk_id'' (PStr chunkID) cmd in
     pseq nextToken (
     pif (\<lambda>p. cur_type p \<noteq> TokenOf) (
       perr (\<lambda>p. ''expected OF after chunk_id'')) (
     pseq nextToken (
     pif (\<lambda>p. cur_type p \<noteq> TokenDocument) (
       perr (\<lambda>p. ''expected DOCUMENT after OF'')) (
     pseq nextToken (
     pbind (pwrap (\<lambda>err p. ''expected doc_id: '' @ err) parseQuotedString) (\<lambda>docID.
     let cmd = set_param ''doc_id'' (PStr docID) cmd in
     pseq nextToken (
     pif (\<lambda>p. cur_type p \<noteq> TokenIn) (
       perr (\<lambda>p. ''expected IN after doc_id'')) (
     pseq nextToken (
     pif (\<lambda>p. cur_type p \<noteq> TokenDataset) (
       perr (\<lambda>p. ''expected DATASET after IN'')) (
     pseq nextToken (
     pbind (pwrap (\<lambda>err p. ''expected dataset_id: '' @ err) parseQuotedString) (\<lambda>datasetID.
     let cmd = set_param ''dataset_id'' (PStr datasetID) cmd in
     pseq nextToken (
     pseq opt_semicolon (
     pret cmd)))))))))))))))))"

definition parseGetMetadata :: "command parse" where
  "parseGetMetadata =
     (pseq nextToken (
     pif (\<lambda>p. cur_type p \<noteq> TokenOf) (
       perr (\<lambda>p. ''expected OF after METADATA'')) (
     pseq nextToken (
     pif (\<lambda>p. cur_type p \<noteq> TokenDataset) (
       perr (\<lambda>p. ''expected DATASET after OF'')) (
     pseq nextToken (
     let datasetNames = ([] :: string list) in
     pbind (ploop (\<lambda>datasetNames.
         pbind (pwrap (\<lambda>err p. ''expected dataset name: '' @ err) parseQuotedString) (\<lambda>name.
         let datasetNames = datasetNames @ [name] in
         pseq nextToken (
         pif (\<lambda>p. cur_type p = TokenComma) (
           perr (\<lambda>p. ''syntax error: dataset names must be space-separated, not comma-separated (got '' @ quote ([CHR 0x27]) @ '' after '' @ quote name @ '')'')) (
         pif (\<lambda>p. cur_type p = TokenSemicolon) (
           pret (Inr datasetNames)) (
         pif (\<lambda>p. cur_type p \<noteq> TokenQuotedString) (
           pret (Inr datasetNames)) (
         pret (Inl datasetNames))))))) datasetNames) (\<lambda>datasetNames.
     let cmd = NewCommand ''dev_get_metadata'' in
     let cmd = set_param ''dataset_names'' (PStrs datasetNames) cmd in
     pseq opt_semicolon (
     pret cmd))))))))"

definition parseDevGetCommand :: "command parse" where
  "parseDevGetCommand =
     (pseq nextToken (
     pif (\<lambda>p. cur_type p = TokenChunk) (
       parseGetChunk) (
     pif (\<lambda>p. cur_type p = TokenMetadata) (
       parseGetMetadata) (
     perr (\<lambda>p. ''unknown GET target: '' @ cur_value p)))))"

definition parseUpdateChunk :: "command parse" where
  "parseUpdateChunk =
     (pseq nextToken (
     pbind (pwrap (\<lambda>err p. ''expected chunk_id: '' @ err) parseQuotedString) (\<lambda>chunkID.
     let cmd = NewCommand ''dev_update_chunk'' in
     let cmd = set_param ''chunk_id'' (PStr chunkID) cmd in
     pseq nextToken (
     pif (\<lambda>p. cur_type p \<noteq> TokenOf) (
       perr (\<lambda>p. ''expected OF after chunk_id'')) (
     pseq nextToken (
     pif (\<lambda>p. cur_type p \<noteq> TokenDocument) (
       perr (\<lambda>p. ''expected DOCUMENT after OF'')) (
     pseq nextToken (
     pbind (pwrap (\<lambda>err p. ''expected doc_id: '' @ err) parseQuotedString) (\<lambda>docID.
     let cmd = set_param ''doc_id'' (PStr docID) cmd in
     pseq nextToken (
     pif (\<lambda>p. cur_type p \<noteq> TokenIn) (
       perr (\<lambda>p. ''expected IN after doc_id'')) (
     pseq nextToken (
     pif (\<lambda>p. cur_type p \<noteq> TokenDataset) (
       perr (\<lambda>p. ''expected DATASET after IN'')) (
     pseq nextToken (
     pbind (pwrap (\<lambda>err p. ''expected dataset_name: '' @ err) parseQuotedString) (\<lambda>datasetName.
     let cmd = set_param ''dataset_name'' (PStr datasetName) cmd in
     pseq nextToken (
     pif (\<lambda>p. cur_type p \<noteq> TokenSet) (
       perr (\<lambda>p. ''expected SET after dataset_name'')) (
     pseq nextToken (
     pbind (pwrap (\<lambda>err p. ''expected JSON body: '' @ err) parseQuotedString) (\<lambda>jsonBody.
     let cmd = set_param ''json_body'' (PStr jsonBody) cmd in
     pseq nextToken (
     pseq opt_semicolon (
     pret cmd)))))))))))))))))))))"

definition parseDevUpdateCommand :: "command parse" where
  "parseDevUpdateCommand =
     (pseq nextToken (
     pif (\<lambda>p. cur_type p = TokenChunk) (
       parseUpdateChunk) (
     perr (\<lambda>p. ''unknown UPDATE target: '' @ cur_value p))))"

definition parseDevSetMeta :: "command parse" where
  "parseDevSetMeta =
     (pseq nextToken (
     pif (\<lambda>p. cur_type p \<noteq> TokenOf) (
       perr (\<lambda>p. ''expected OF after SET METADATA'')) (
     pseq nextToken (
     pif (\<lambda>p. cur_type p \<noteq> TokenDocument) (
       perr (\<lambda>p. ''expected DOCUMENT after SET METADATA OF'')) (
     pseq nextToken (
     pbind (pwrap (\<lambda>err p. ''expected doc_id: '' @ err) parseQuotedString) (\<lambda>docID.
     let cmd = NewCommand ''dev_set_meta'' in
     let cmd = set_param ''doc_id'' (PStr docID) cmd in
     pseq nextToken (
     pif (\<lambda>p. cur_type p \<noteq> TokenTo) (
       perr (\<lambda>p. ''expected TO after doc_id'')) (
     pseq nextToken (
     pbind (pwrap (\<lambda>err p. ''expected meta JSON: '' @ err) parseQuotedString) (\<lambda>meta.
     let cmd = set_param ''meta'' (PStr meta) cmd in
     pseq nextToken (
     pseq opt_semicolon (
     pret cmd)))))))))))))"

definition parseDevDeleteMeta :: "command parse" where
  "parseDevDeleteMeta =
     (pseq nextToken (
     pif (\<lambda>p. cur_type p \<noteq> TokenOf) (
       perr (\<lambda>p. ''expected OF after DELETE METADATA'')) (
     pseq nextToken (
     pif (\<lambda>p. cur_type p \<noteq> TokenDocument) (
       perr (\<lambda>p. ''expected DOCUMENT after DELETE METADATA OF'')) (
     pseq nextToken (
     pbind (pwrap (\<lambda>err p. ''expected doc_id: '' @ err) parseQuotedString) (\<lambda>docID.
     let cmd = NewCommand ''dev_delete_meta'' in
     let cmd = set_param ''doc_id'' (PStr docID) cmd in
     pseq nextToken (
     pif (\<lambda>p. cur_type p \<noteq> TokenKeys) (
       pif (\<lambda>p. cur_type p = TokenSemicolon) (
         pseq nextToken (
         pret cmd)) (
       pif (\<lambda>p. cur_type p = TokenEOF) (
         pret cmd) (
       perr (\<lambda>p. ''expected KEYS or end of command after doc_id'')))) (
     pseq nextToken (
     pbind (pwrap (\<lambda>err p. ''expected keys JSON array: '' @ err) parseQuotedString) (\<lambda>keys.
     let cmd = set_param ''keys'' (PStr keys) cmd in
     pseq nextToken (
     pif (\<lambda>p. cur_type p = TokenSemicolon) (
       pseq nextToken (
       pret cmd)) (
     pif (\<lambda>p. cur_type p \<noteq> TokenEOF) (
       perr (\<lambda>p. ''expected end of command after KEYS'')) (
     pret cmd))))))))))))))"

definition parseDevRemoveTags :: "command parse" where
  "parseDevRemoveTags =
     (pseq nextToken (
     pbind (pwrap (\<lambda>err p. ''expected tag: '' @ err) parseQuotedString) (\<lambda>tag.
     let tags = [tag] in
     pbind (ploop (\<lambda>tags.
         pseq nextToken (
         pif (\<lambda>p. cur_type p = TokenComma) (
           pseq nextToken (
           pbind (pwrap (\<lambda>err p. ''expected tag after comma: '' @ err) parseQuotedString) (\<lambda>tag.
           let tags = tags @ [tag] in
           pret (Inl tags)))) (
         pret (Inr tags)))) tags) (\<lambda>tags.
     let cmd = NewCommand ''dev_rm_tags'' in
     let cmd = set_param ''tags'' (PStrs tags) cmd in
     pif (\<lambda>p. cur_type p \<noteq> TokenFrom) (
       perr (\<lambda>p. ''expected FROM after tags'')) (
     pseq nextToken (
     pif (\<lambda>p. cur_type p \<noteq> TokenDataset) (
       perr (\<lambda>p. ''expected DATASET after FROM'')) (
     pseq nextToken (
     pbind (pwrap (\<lambda>err p. ''expected dataset_name: '' @ err) parseQuotedString) (\<lambda>datasetName.
     let cmd = set_param ''dataset_name'' (PStr datasetName) cmd in
     pseq opt_semicolon (
     pret cmd))))))))))"

definition parseDevRemoveChunk :: "command parse" where
  "parseDevRemoveChunk =
     (let cmd = NewCommand ''dev_remove_chunks'' in
     pbind (pif (\<lambda>p. cur_type p = TokenAll) (
         pseq nextToken (
         pif (\<lambda>p. cur_type p \<noteq> TokenChunks) (
           perr (\<lambda>p. ''expected CHUNKS after ALL'')) (
         pseq nextToken (
         let cmd = set_param ''delete_all'' (PBool True) cmd in
         pret cmd)))) (
       pseq nextToken (
       pbind (pwrap (\<lambda>err p. ''expected chunk_id: '' @ err) parseQuotedString) (\<lambda>chunkID.
       let chunkIDs = [chunkID] in
       pbind (ploop (\<lambda>chunkIDs.
           pseq nextToken (
           pif (\<lambda>p. (cur_type p = TokenFrom) \<or> (cur_type p \<noteq> TokenQuotedString)) (
             pret (Inr chunkIDs)) (
           pbind (pwrap (\<lambda>err p. ''expected chunk_id: '' @ err) parseQuotedString) (\<lambda>chunkID.
           let chunkIDs = chunkIDs @ [chunkID] in
           pret (Inl chunkIDs))))) chunkIDs) (\<lambda>chunkIDs.
       let cmd = set_param ''chunk_ids'' (PStrs chunkIDs) cmd in
       pret cmd))))) (\<lambda>cmd.
     pif (\<lambda>p. cur_type p \<noteq> TokenFrom) (
       perr (\<lambda>p. ''expected FROM after chunk(s)'')) (
     pseq nextToken (
     pif (\<lambda>p. cur_type p \<noteq> TokenDocument) (
       perr (\<lambda>p. ''expected DOCUMENT after FROM'')) (
     pseq nextToken (
     pbind (pwrap (\<lambda>err p. ''expected doc_id: '' @ err) parseQuotedString) (\<lambda>docID.
     let cmd = set_param ''doc_id'' (PStr docID) cmd in
     pseq nextToken (
     pif (\<lambda>p. cur_type p \<noteq> TokenIn) (
       perr (\<lambda>p. ''expected IN after doc_id'')) (
     pseq nextToken (
     pif (\<lambda>p. cur_type p \<noteq> TokenDataset) (
       perr (\<lambda>p. ''expected DATASET after IN'')) (
     pseq nextToken (
     pbind (pwrap (\<lambda>err p. ''expected dataset_name: '' @ err) parseQuotedString) (\<lambda>datasetName.
     let cmd = set_param ''dataset_name'' (PStr datasetName) cmd in
     pseq nextToken (
     pseq opt_semicolon (
     pret cmd)))))))))))))))"

definition parseDevDropChunkStore :: "command parse" where
  "parseDevDropChunkStore =
     (pseq nextToken (
     pif (\<lambda>p. cur_type p \<noteq> TokenFor) (
       perr (\<lambda>p. ''expected FOR after CHUNK STORE, got '' @ cur_value p)) (
     pseq nextToken (
     pif (\<lambda>p. cur_type p \<noteq> TokenDataset) (
       perr (\<lambda>p. ''expected Dataset after FOR, got '' @ cur_value p)) (
     pseq nextToken (
     pbind (pwrap (\<lambda>err p. ''expected dataset name, got '' @ cur_value p) parseQuotedString) (\<lambda>datasetName.
     pseq nextToken (
     pseq opt_semicolon (
     let cmd = NewCommand ''dev_drop_chunk_store'' in
     let cmd = set_param ''dataset_name'' (PStr datasetName) cmd in
     pret cmd)))))))))"

definition parseDevDropMetadataStore :: "command parse" where
  "parseDevDropMetadataStore =
     (pseq nextToken (
     pif (\<lambda>p. cur_type p \<noteq> TokenStore) (
       perr (\<lambda>p. ''expected STORE after METADATA, got '' @ cur_value p)) (
     pseq nextToken (
     pseq opt_semicolon (
     let cmd = NewCommand ''dev_drop_metadata_store'' in
     pret cmd)))))"

definition parseDevCreateChunkStore :: "command parse" where
  "parseDevCreateChunkStore =
     (pseq nextToken (
     pif (\<lambda>p. cur_type p \<noteq> TokenFor) (
       perr (\<lambda>p. ''expected FOR after CHUNK STORE, got '' @ cur_value p)) (
     pseq nextToken (
     pif (\<lambda>p. cur_type p \<noteq> TokenDataset) (
       perr (\<lambda>p. ''expected Dataset after FOR, got '' @ cur_value p)) (
     pseq nextToken (
     pbind (pwrap (\<lambda>err p. ''expected dataset name, got '' @ cur_value p) parseQuotedString) (\<lambda>datasetName.
     pseq nextToken (
     pif (\<lambda>p. cur_type p \<noteq> TokenVector) (
       perr (\<lambda>p. ''expected VECTOR after dataset name, got '' @ cur_value p)) (
     pseq nextToken (
     pif (\<lambda>p. cur_type p \<noteq> TokenSize) (
       perr (\<lambda>p. ''expected SIZE after VECTOR, got '' @ cur_value p)) (
     pseq nextToken (
     pif (\<lambda>p. cur_type p \<noteq> TokenInteger) (
       perr (\<lambda>p. ''expected vector size number, got '' @ cur_value p)) (
     pbind (pwrap (\<lambda>err p. ''invalid vector size: '' @ cur_value p) atoi_cur) (\<lambda>vectorSize.
     pseq nextToken (
     pseq opt_semicolon (
     let cmd = NewCommand ''dev_create_chunk_store'' in
     let cmd = set_param ''dataset_name'' (PStr datasetName) cmd in
     let cmd = set_param ''vector_size'' (PInt vectorSize) cmd in
     pret cmd))))))))))))))))"

definition parseDevCreateMetadataStore :: "command parse" where
  "parseDevCreateMetadataStore =
     (pseq nextToken (
     pif (\<lambda>p. cur_type p \<noteq> TokenStore) (
       perr (\<lambda>p. ''expected STORE after METADATA, got '' @ cur_value p)) (
     pseq nextToken (
     pseq opt_semicolon (
     pret (NewCommand ''dev_create_metadata_store''))))))"

definition parseCreateRole :: "command parse" where
  "parseCreateRole =
     (pseq nextToken (
     pbind parseIdentifier (\<lambda>roleName.
     let cmd = NewCommand ''create_role'' in
     let cmd = set_param ''role_name'' (PStr roleName) cmd in
     pseq nextToken (
     pbind (pif (\<lambda>p. cur_type p = TokenDescription) (
         pseq nextToken (
         pbind parseQuotedString (\<lambda>description.
         let cmd = set_param ''description'' (PStr description) cmd in
         pseq nextToken (
         pret cmd)))) (
       pret cmd)) (\<lambda>cmd.
     pseq opt_semicolon (
     pret cmd))))))"

definition parseDevChunk :: "bool \<Rightarrow> command parse" where
  "parseDevChunk explain =
     (pseq nextToken (
     pbind (pwrap (\<lambda>err p. ''expected filename: '' @ err) parseQuotedString) (\<lambda>filename.
     pseq nextToken (
     pif (\<lambda>p. cur_type p \<noteq> TokenWith) (
       perr (\<lambda>p. ''expected WITH after filename'')) (
     pseq nextToken (
     pbind (pwrap (\<lambda>err p. ''expected chunk options file: '' @ err) parseQuotedString) (\<lambda>dsl.
     pseq opt_semicolon (
     pseq nextToken (
     let cmd = NewCommand ''dev_chunk'' in
     let cmd = set_param ''dsl'' (PStr dsl) cmd in
     let cmd = set_param ''filename'' (PStr filename) cmd in
     let cmd = set_param ''explain'' (PBool explain) cmd in
     pret cmd)))))))))"

definition parseDevExplain :: "command parse" where
  "parseDevExplain =
     (pseq nextToken (
     pif (\<lambda>p. cur_type p = TokenChunk) (
       parseDevChunk True) (
     perr (\<lambda>p. ''expected CHUNK after EXPLAIN''))))"

end
