(* ===== verification/CliUser1.thy ===== *)
theory CliUser1
  imports CliDev
begin

text \<open>
  User commands, \<open>cli/user_parser.go\<close>: login, list, show, create and drop. Each definition
  follows the statements of the function of the same name.
\<close>

definition markSet :: "command \<Rightarrow> string \<Rightarrow> command" where
  "markSet cmd name =
     (case mget (cmd_Params cmd) ''_set'' of
        Some (PFlags s) \<Rightarrow> set_param ''_set'' (PFlags (mput name True s)) cmd
      | _ \<Rightarrow> cmd)"

definition parseAPILoginUser :: "command parse" where
  "parseAPILoginUser =
     (let cmd = NewCommand ''api_login_user'' in
     pseq nextToken (
     pif (\<lambda>p. cur_type p \<noteq> TokenUser) (
       perr (\<lambda>p. ''expected USER after LOGIN'')) (
     pseq nextToken (
     pbind parseQuotedString (\<lambda>email.
     let cmd = set_param ''email'' (PStr email) cmd in
     pseq nextToken (
     pbind (pif (\<lambda>p. cur_type p = TokenPassword) (
         pseq nextToken (
         let password = ([] :: string) in
         pbind parseQuotedString (\<lambda>password.
         let cmd = set_param ''password'' (PStr password) cmd in
         pseq nextToken (
         pret cmd)))) (
       pret cmd)) (\<lambda>cmd.
     pseq opt_semicolon (
     pret cmd))))))))"

definition parseAPILogout :: "command parse" where
  "parseAPILogout =
     (let cmd = NewCommand ''api_logout'' in
     pseq nextToken (
     pseq opt_semicolon (
     pret cmd)))"

definition parseAPIPingServer :: "command parse" where
  "parseAPIPingServer =
     (let cmd = NewCommand ''api_ping_server'' in
     pseq nextToken (
     pseq opt_semicolon (
     pret cmd)))"

definition parseAPIRegister :: "command parse" where
  "parseAPIRegister =
     (let cmd = NewCommand ''api_register_user'' in
     pseq (expectPeek TokenUser) (
     pseq nextToken (
     pbind parseQuotedString (\<lambda>userName.
     let cmd = set_param ''user_name'' (PStr userName) cmd in
     pseq nextToken (
     pif (\<lambda>p. cur_type p \<noteq> TokenAs) (
       perr (\<lambda>p. ''expected AS'')) (
     pseq nextToken (
     pbind parseQuotedString (\<lambda>nickname.
     let cmd = set_param ''nickname'' (PStr nickname) cmd in
     pseq nextToken (
     pif (\<lambda>p. cur_type p \<noteq> TokenPassword) (
       perr (\<lambda>p. ''expected PASSWORD'')) (
     pseq nextToken (
     pbind parseQuotedString (\<lambda>password.
     let cmd = set_param ''password'' (PStr password) cmd in
     pseq nextToken (
     pseq opt_semicolon (
     pret cmd))))))))))))))"

definition parseAPIListConfigs :: "command parse" where
  "parseAPIListConfigs =
     (pseq nextToken (
     pseq opt_semicolon (
     pret (NewCommand ''api_list_configs''))))"

definition parseAPIListDatasets :: "command parse" where
  "parseAPIListDatasets =
     (let cmd = NewCommand ''api_list_datasets'' in
     pseq nextToken (
     pseq opt_semicolon (
     pret cmd)))"

definition parseAPIListDatasetDocuments :: "string \<Rightarrow> command parse" where
  "parseAPIListDatasetDocuments datasetID =
     (pseq nextToken (
     pseq opt_semicolon (
     let cmd = NewCommand ''api_list_dataset_documents'' in
     let cmd = set_param ''dataset_id'' (PStr datasetID) cmd in
     pret cmd)))"

definition parseAPIListDatasetFiles :: "string \<Rightarrow> command parse" where
  "parseAPIListDatasetFiles datasetName =
     (pseq nextToken (
     pseq opt_semicolon (
     let cmd = NewCommand ''api_list_dataset_files'' in
     let cmd = set_param ''dataset_name'' (PStr datasetName) cmd in
     pret cmd)))"

definition parseAPIListDatasetIngestionTasks :: "string \<Rightarrow> command parse" where
  "parseAPIListDatasetIngestionTasks datasetName =
     (pseq nextToken (
     pif (\<lambda>p. cur_type p \<noteq> TokenTasks) (
       perr (\<lambda>p. ''expected TASKS'')) (
     pseq opt_semicolon (
     let cmd = NewCommand ''api_list_ingestion_tasks'' in
     let cmd = set_param ''dataset_name'' (PStr datasetName) cmd in
     pret cmd))))"

definition parseAPIListDatasetCommands :: "command parse" where
  "parseAPIListDatasetCommands =
     (pseq nextToken (
     pbind parseQuotedString (\<lambda>datasetID.
     pseq nextToken (
     pif (\<lambda>p. cur_type p = TokenDocuments) (
       parseAPIListDatasetDocuments datasetID) (
     pif (\<lambda>p. cur_type p = TokenFiles) (
       parseAPIListDatasetFiles datasetID) (
     pif (\<lambda>p. cur_type p = TokenIngestion) (
       parseAPIListDatasetIngestionTasks datasetID) (
     perr (\<lambda>p. ''unknown LIST target: '' @ cur_value p))))))))"

definition parseAPIListAgents :: "command parse" where
  "parseAPIListAgents =
     (pseq nextToken (
     pseq opt_semicolon (
     pret (NewCommand ''api_list_agents''))))"

definition parseAPIListChats :: "command parse" where
  "parseAPIListChats =
     (pseq nextToken (
     pseq opt_semicolon (
     pret (NewCommand ''api_list_chats''))))"

definition parseAPIListSearches :: "command parse" where
  "parseAPIListSearches =
     (pseq nextToken (
     pseq opt_semicolon (
     pret (NewCommand ''api_list_searches''))))"

definition parseAPIListMemories :: "command parse" where
  "parseAPIListMemories =
     (pseq nextToken (
     pseq opt_semicolon (
     pret (NewCommand ''api_list_memories''))))"

definition parseAPIListAPIKeys :: "command parse" where
  "parseAPIListAPIKeys =
     (pseq nextToken (
     let cmd = NewCommand ''api_list_api_keys'' in
     pseq opt_semicolon (
     pret cmd)))"

definition parseAPIListProviders :: "command parse" where
  "parseAPIListProviders =
     (pseq nextToken (
     pseq opt_semicolon (
     pret (NewCommand ''api_list_providers''))))"

definition parseListProviderInstances :: "string \<Rightarrow> command parse" where
  "parseListProviderInstances providerName =
     (pseq nextToken (
     pseq opt_semicolon (
     let cmd = NewCommand ''api_list_provider_instances'' in
     let cmd = set_param ''provider_name'' (PStr providerName) cmd in
     pret cmd)))"

definition parseListProviderInstanceModels :: "string \<Rightarrow> string \<Rightarrow> command parse" where
  "parseListProviderInstanceModels providerName instanceName =
     (pseq nextToken (
     let cmd = NewCommand ''api_list_provider_instance_models'' in
     pbind (pif (\<lambda>p. cur_type p = TokenSync) (
         let cmd = NewCommand ''api_list_provider_instance_models_sync'' in
         pret cmd) (
       pret cmd)) (\<lambda>cmd.
     pseq opt_semicolon (
     let cmd = set_param ''provider_name'' (PStr providerName) cmd in
     let cmd = set_param ''instance_name'' (PStr instanceName) cmd in
     pret cmd))))"

definition parseListProviderInstanceTasks :: "string \<Rightarrow> string \<Rightarrow> command parse" where
  "parseListProviderInstanceTasks providerName instanceName =
     (pseq nextToken (
     pseq opt_semicolon (
     let cmd = NewCommand ''api_list_provider_instance_tasks'' in
     let cmd = set_param ''provider_name'' (PStr providerName) cmd in
     let cmd = set_param ''instance_name'' (PStr instanceName) cmd in
     pret cmd)))"

definition parseListProviderInstanceCommands :: "string \<Rightarrow> command parse" where
  "parseListProviderInstanceCommands providerName =
     (pseq nextToken (
     pbind parseQuotedString (\<lambda>instanceName.
     pseq nextToken (
     pif (\<lambda>p. cur_type p = TokenModels) (
       parseListProviderInstanceModels providerName instanceName) (
     pif (\<lambda>p. cur_type p = TokenTasks) (
       parseListProviderInstanceTasks providerName instanceName) (
     perr (\<lambda>p. ''unknown LIST target: '' @ cur_value p)))))))"

definition parseListProviderModels :: "string \<Rightarrow> command parse" where
  "parseListProviderModels providerName =
     (pseq nextToken (
     let cmd = NewCommand ''api_list_provider_models'' in
     pseq opt_semicolon (
     let cmd = set_param ''provider_name'' (PStr providerName) cmd in
     pret cmd)))"

definition parseAPIListProviderCommands :: "command parse" where
  "parseAPIListProviderCommands =
     (pseq nextToken (
     pbind parseQuotedString (\<lambda>providerName.
     pseq nextToken (
     pif (\<lambda>p. cur_type p = TokenInstances) (
       parseListProviderInstances providerName) (
     pif (\<lambda>p. cur_type p = TokenInstance) (
       parseListProviderInstanceCommands providerName) (
     pif (\<lambda>p. cur_type p = TokenModels) (
       parseListProviderModels providerName) (
     perr (\<lambda>p. ''unknown LIST target: '' @ cur_value p))))))))"

definition parseAPIListAllModels :: "command parse" where
  "parseAPIListAllModels =
     (pseq nextToken (
     let cmd = NewCommand ''api_list_all_models'' in
     pseq opt_semicolon (
     pret cmd)))"

definition parseAPIListIngestionTasks :: "command parse" where
  "parseAPIListIngestionTasks =
     (pseq nextToken (
     pif (\<lambda>p. cur_type p \<noteq> TokenTasks) (
       perr (\<lambda>p. ''expected TASKS'')) (
     pseq nextToken (
     let cmd = NewCommand ''api_list_ingestion_tasks'' in
     pbind (pif (\<lambda>p. cur_type p = TokenFrom) (
         pseq nextToken (
         pbind parseQuotedString (\<lambda>datasetID.
         let cmd = set_param ''dataset_id'' (PStr datasetID) cmd in
         pret cmd))) (
       pret cmd)) (\<lambda>cmd.
     pseq opt_semicolon (
     pret cmd))))))"

definition parseAPIListDefaultModels :: "command parse" where
  "parseAPIListDefaultModels =
     (pseq nextToken (
     pif (\<lambda>p. cur_type p \<noteq> TokenModels) (
       perr (\<lambda>p. ''expected MODELS'')) (
     pseq nextToken (
     pseq opt_semicolon (
     pret (NewCommand ''api_list_default_models''))))))"

definition parseAPIListAvailableProviders :: "command parse" where
  "parseAPIListAvailableProviders =
     (pseq nextToken (
     pif (\<lambda>p. cur_type p \<noteq> TokenProviders) (
       perr (\<lambda>p. ''expected PROVIDERS'')) (
     pret (NewCommand ''api_list_available_providers''))))"

definition parseAPIListAPIServers :: "command parse" where
  "parseAPIListAPIServers =
     (pseq nextToken (
     pif (\<lambda>p. cur_type p = TokenServer) (
       pseq nextToken (
       let cmd = NewCommand ''api_list_api_servers'' in
       pseq opt_semicolon (
       pret cmd))) (
     perr (\<lambda>p. ''expected SERVER after API''))))"

definition parseAPIListEnvironments :: "command parse" where
  "parseAPIListEnvironments =
     (pseq nextToken (
     let cmd = NewCommand ''api_list_environments'' in
     pseq opt_semicolon (
     pret cmd)))"

definition parseAPIListVariables :: "command parse" where
  "parseAPIListVariables =
     (pseq nextToken (
     let cmd = NewCommand ''api_list_variables'' in
     pseq opt_semicolon (
     pret cmd)))"

definition parseAPIListCommands :: "command parse" where
  "parseAPIListCommands =
     (pseq nextToken (
     pif (\<lambda>p. cur_type p = TokenConfigs) (
       parseAPIListConfigs) (
     pif (\<lambda>p. cur_type p = TokenDatasets) (
       parseAPIListDatasets) (
     pif (\<lambda>p. cur_type p = TokenDataset) (
       parseAPIListDatasetCommands) (
     pif (\<lambda>p. cur_type p = TokenAgents) (
       parseAPIListAgents) (
     pif (\<lambda>p. cur_type p = TokenChats) (
       parseAPIListChats) (
     pif (\<lambda>p. cur_type p = TokenSearches) (
       parseAPIListSearches) (
     pif (\<lambda>p. cur_type p = TokenMemories) (
       parseAPIListMemories) (
     pif (\<lambda>p. cur_type p = TokenKeys) (
       parseAPIListAPIKeys) (
     pif (\<lambda>p. cur_type p = TokenProviders) (
       parseAPIListProviders) (
     pif (\<lambda>p. cur_type p = TokenProvider) (
       parseAPIListProviderCommands) (
     pif (\<lambda>p. cur_type p = TokenModels) (
       parseAPIListAllModels) (
     pif (\<lambda>p. cur_type p = TokenIngestion) (
       parseAPIListIngestionTasks) (
     pif (\<lambda>p. cur_type p = TokenDefault) (
       parseAPIListDefaultModels) (
     pif (\<lambda>p. cur_type p = TokenAvailable) (
       parseAPIListAvailableProviders) (
     pif (\<lambda>p. cur_type p = TokenAPI) (
       parseAPIListAPIServers) (
     pif (\<lambda>p. cur_type p = TokenEnvs) (
       parseAPIListEnvironments) (
     pif (\<lambda>p. cur_type p = TokenVars) (
       parseAPIListVariables) (
     perr (\<lambda>p. ''unknown LIST target: '' @ cur_value p))))))))))))))))))))"

definition parseAPIShowVersion :: "command parse" where
  "parseAPIShowVersion =
     (pseq nextToken (
     pseq opt_semicolon (
     pret (NewCommand ''api_show_version''))))"

definition parseAPIShowKey :: "command parse" where
  "parseAPIShowKey =
     (pseq nextToken (
     pseq opt_semicolon (
     pret (NewCommand ''api_show_api_key''))))"

definition parseAPIShowCurrent :: "command parse" where
  "parseAPIShowCurrent =
     (pseq nextToken (
     pseq opt_semicolon (
     pret (NewCommand ''api_show_current''))))"

definition parseAPIShowVariable :: "command parse" where
  "parseAPIShowVariable =
     (pseq nextToken (
     pbind parseQuotedString (\<lambda>varName.
     pseq nextToken (
     let cmd = NewCommand ''api_show_variable'' in
     let cmd = set_param ''var_name'' (PStr varName) cmd in
     pseq opt_semicolon (
     pret cmd)))))"

definition parseAPIShowProviderInstanceBalance :: "string \<Rightarrow> string \<Rightarrow> command parse" where
  "parseAPIShowProviderInstanceBalance providerName instanceName =
     (pseq nextToken (
     let cmd = NewCommand ''api_show_provider_instance_balance'' in
     let cmd = set_param ''instance_name'' (PStr instanceName) cmd in
     let cmd = set_param ''provider_name'' (PStr providerName) cmd in
     pseq opt_semicolon (
     pret cmd)))"

definition parseAPIShowProviderInstanceTask :: "string \<Rightarrow> string \<Rightarrow> command parse" where
  "parseAPIShowProviderInstanceTask providerName instanceName =
     (pseq nextToken (
     pbind (pwrap (\<lambda>err p. ''expected task id: '' @ err) parseQuotedString) (\<lambda>taskID.
     pseq nextToken (
     let cmd = NewCommand ''api_show_provider_instance_task'' in
     let cmd = set_param ''instance_name'' (PStr instanceName) cmd in
     let cmd = set_param ''provider_name'' (PStr providerName) cmd in
     let cmd = set_param ''task_id'' (PStr taskID) cmd in
     pseq opt_semicolon (
     pret cmd)))))"

definition parseAPIShowProviderInstance :: "string \<Rightarrow> command parse" where
  "parseAPIShowProviderInstance providerName =
     (pseq nextToken (
     pbind (pwrap (\<lambda>err p. ''expected instance name: '' @ err) parseQuotedString) (\<lambda>instanceName.
     pseq nextToken (
     pif (\<lambda>p. cur_type p = TokenBalance) (
       parseAPIShowProviderInstanceBalance providerName instanceName) (
     pif (\<lambda>p. cur_type p = TokenTask) (
       parseAPIShowProviderInstanceTask providerName instanceName) (
     pif (\<lambda>p. cur_type p \<in> {TokenSemicolon, TokenEOF}) (
       pseq nextToken (
       let cmd = NewCommand ''api_show_provider_instance'' in
       let cmd = set_param ''instance_name'' (PStr instanceName) cmd in
       let cmd = set_param ''provider_name'' (PStr providerName) cmd in
       pret cmd)) (
     perr (\<lambda>p. ''unknown SHOW target: '' @ cur_value p))))))))"

definition parseAPIShowProviderModel :: "string \<Rightarrow> command parse" where
  "parseAPIShowProviderModel providerName =
     (pseq nextToken (
     pbind (pwrap (\<lambda>err p. ''expected model name: '' @ err) parseQuotedString) (\<lambda>modelName.
     pseq nextToken (
     let cmd = NewCommand ''api_show_provider_model'' in
     let cmd = set_param ''model_name'' (PStr modelName) cmd in
     let cmd = set_param ''provider_name'' (PStr providerName) cmd in
     pseq opt_semicolon (
     pret cmd)))))"

definition parseAPIShowProviderCommands :: "command parse" where
  "parseAPIShowProviderCommands =
     (pseq nextToken (
     pbind (pwrap (\<lambda>err p. ''expected provider name: '' @ err) parseQuotedString) (\<lambda>providerName.
     pseq nextToken (
     pif (\<lambda>p. cur_type p = TokenInstance) (
       parseAPIShowProviderInstance providerName) (
     pif (\<lambda>p. cur_type p = TokenModel) (
       parseAPIShowProviderModel providerName) (
     pif (\<lambda>p. cur_type p \<in> {TokenSemicolon, TokenEOF}) (
       pseq nextToken (
       let cmd = NewCommand ''api_show_provider'' in
       let cmd = set_param ''provider_name'' (PStr providerName) cmd in
       pret cmd)) (
     perr (\<lambda>p. ''unknown SHOW target: '' @ cur_value p))))))))"

definition parseAPIShowModel :: "command parse" where
  "parseAPIShowModel =
     (pseq nextToken (
     pbind (pwrap (\<lambda>err p. ''expected model name: '' @ err) parseQuotedString) (\<lambda>modelName.
     pseq nextToken (
     pseq opt_semicolon (
     let cmd = NewCommand ''api_show_model'' in
     let cmd = set_param ''model_name'' (PStr modelName) cmd in
     pret cmd)))))"

definition parseAPIShowAdmin :: "command parse" where
  "parseAPIShowAdmin =
     (pseq nextToken (
     pif (\<lambda>p. cur_type p = TokenServer) (
       pseq nextToken (
       let cmd = NewCommand ''api_show_admin_server'' in
       pseq opt_semicolon (
       pret cmd))) (
     perr (\<lambda>p. ''expected SERVER after ADMIN''))))"

definition parseAPIShowAPI :: "command parse" where
  "parseAPIShowAPI =
     (pseq nextToken (
     pif (\<lambda>p. cur_type p = TokenServer) (
       pseq nextToken (
       let cmd = NewCommand ''api_show_api_server'' in
       pbind (pwrap (\<lambda>err p. ''expected API server name: '' @ err) parseQuotedString) (\<lambda>serverName.
       let cmd = set_param ''api_server_name'' (PStr serverName) cmd in
       pseq nextToken (
       pseq opt_semicolon (
       pret cmd))))) (
     perr (\<lambda>p. ''expected SERVER after API''))))"

definition parseShowLogLevel :: "command parse" where
  "parseShowLogLevel =
     (pseq nextToken (
     let cmd = NewCommand ''api_show_log_level'' in
     pseq opt_semicolon (
     pret cmd)))"

definition parseAPIShowLogCommands :: "command parse" where
  "parseAPIShowLogCommands =
     (pseq nextToken (
     pif (\<lambda>p. cur_type p = TokenLevel) (
       parseShowLogLevel) (
     perr (\<lambda>p. ''expected LEVEL after LOG''))))"

definition parseAPIShowCommands :: "command parse" where
  "parseAPIShowCommands =
     (pseq nextToken (
     pif (\<lambda>p. cur_type p = TokenVersion) (
       parseAPIShowVersion) (
     pif (\<lambda>p. cur_type p = TokenKey) (
       parseAPIShowKey) (
     pif (\<lambda>p. cur_type p = TokenCurrent) (
       parseAPIShowCurrent) (
     pif (\<lambda>p. cur_type p = TokenVar) (
       parseAPIShowVariable) (
     pif (\<lambda>p. cur_type p = TokenProvider) (
       parseAPIShowProviderCommands) (
     pif (\<lambda>p. cur_type p = TokenModel) (
       parseAPIShowModel) (
     pif (\<lambda>p. cur_type p = TokenAdmin) (
       parseAPIShowAdmin) (
     pif (\<lambda>p. cur_type p = TokenAPI) (
       parseAPIShowAPI) (
     pif (\<lambda>p. cur_type p = TokenLog) (
       parseAPIShowLogCommands) (
     perr (\<lambda>p. ''unknown SHOW target: '' @ cur_value p))))))))))))"

definition parseAPICreateDataset :: "command parse" where
  "parseAPICreateDataset =
     (pseq nextToken (
     pbind parseQuotedString (\<lambda>datasetName.
     pseq opt_semicolon (
     let cmd = NewCommand ''api_create_dataset'' in
     let cmd = set_param ''dataset_name'' (PStr datasetName) cmd in
     pret cmd))))"

definition parseAPICreateChat :: "command parse" where
  "parseAPICreateChat =
     (pseq nextToken (
     pbind parseQuotedString (\<lambda>chatName.
     pseq nextToken (
     pseq opt_semicolon (
     let cmd = NewCommand ''api_create_chat'' in
     let cmd = set_param ''chat_name'' (PStr chatName) cmd in
     pret cmd)))))"

definition parseAPICreateSearch :: "command parse" where
  "parseAPICreateSearch =
     (pseq nextToken (
     pbind parseQuotedString (\<lambda>searchName.
     pseq nextToken (
     pseq opt_semicolon (
     let cmd = NewCommand ''api_create_search'' in
     let cmd = set_param ''search_name'' (PStr searchName) cmd in
     pret cmd)))))"

definition parseAPICreateAgent :: "command parse" where
  "parseAPICreateAgent =
     (pseq nextToken (
     pbind parseQuotedString (\<lambda>agentName.
     pseq nextToken (
     pseq opt_semicolon (
     let cmd = NewCommand ''api_create_agent'' in
     let cmd = set_param ''agent_name'' (PStr agentName) cmd in
     pret cmd)))))"

definition parseAPICreateMemory :: "command parse" where
  "parseAPICreateMemory =
     (pseq nextToken (
     pbind parseQuotedString (\<lambda>memoryName.
     pseq nextToken (
     pseq opt_semicolon (
     let cmd = NewCommand ''api_create_memory'' in
     let cmd = set_param ''memory_name'' (PStr memoryName) cmd in
     pret cmd)))))"

definition parseAPICreateKey :: "command parse" where
  "parseAPICreateKey =
     (pseq nextToken (
     pseq opt_semicolon (
     pret (NewCommand ''api_create_api_key''))))"

definition parseAPICreateProviderInstance :: "command parse" where
  "parseAPICreateProviderInstance =
     (pseq nextToken (
     pbind (pwrap (\<lambda>err p. ''expected provider name: '' @ err) parseQuotedString) (\<lambda>providerName.
     pseq nextToken (
     pif (\<lambda>p. cur_type p \<noteq> TokenInstance) (
       perr (\<lambda>p. ''expected INSTANCE after provider name'')) (
     pseq nextToken (
     pbind (pwrap (\<lambda>err p. ''expected instance name: '' @ err) parseQuotedString) (\<lambda>instanceName.
     pseq nextToken (
     pif (\<lambda>p. cur_type p \<noteq> TokenKey) (
       perr (\<lambda>p. ''expected KEY after instance name'')) (
     pseq nextToken (
     pbind (pwrap (\<lambda>err p. ''expected API key: '' @ err) parseQuotedString) (\<lambda>apiKey.
     pseq nextToken (
     let baseURL = ([] :: string) in
     let region = ([] :: string) in
     pbind (ploop (\<lambda>(region, baseURL).
         pif (\<lambda>p. cur_type p = TokenRegion) (
           pseq nextToken (
           pbind (pwrap (\<lambda>err p. ''expected region: '' @ err) parseQuotedString) (\<lambda>region.
           pseq nextToken (
           pret (Inl (region, baseURL)))))) (
         pif (\<lambda>p. cur_type p = TokenURL) (
           pseq nextToken (
           pbind (pwrap (\<lambda>err p. ''expected base URL: '' @ err) parseQuotedString) (\<lambda>baseURL.
           pseq nextToken (
           pret (Inl (region, baseURL)))))) (
         pret (Inr (region, baseURL))))) (region, baseURL)) (\<lambda>(region, baseURL).
     let cmd = NewCommand ''api_create_provider_instance'' in
     let cmd = set_param ''provider_name'' (PStr providerName) cmd in
     let cmd = set_param ''instance_name'' (PStr instanceName) cmd in
     let cmd = set_param ''api_key'' (PStr apiKey) cmd in
     pbind (pif (\<lambda>_. baseURL \<noteq> []) (
         let cmd = set_param ''base_url'' (PStr baseURL) cmd in
         pret cmd) (
       pret cmd)) (\<lambda>cmd.
     pbind (pif (\<lambda>_. region \<noteq> []) (
         let cmd = set_param ''region'' (PStr region) cmd in
         pret cmd) (
       pret cmd)) (\<lambda>cmd.
     pseq nextToken (
     pseq opt_semicolon (
     pret cmd)))))))))))))))))"

definition parseAPICreateCommands :: "command parse" where
  "parseAPICreateCommands =
     (pseq nextToken (
     pif (\<lambda>p. cur_type p = TokenDataset) (
       parseAPICreateDataset) (
     pif (\<lambda>p. cur_type p = TokenChat) (
       parseAPICreateChat) (
     pif (\<lambda>p. cur_type p = TokenSearch) (
       parseAPICreateSearch) (
     pif (\<lambda>p. cur_type p = TokenAgent) (
       parseAPICreateAgent) (
     pif (\<lambda>p. cur_type p = TokenMemory) (
       parseAPICreateMemory) (
     pif (\<lambda>p. cur_type p = TokenKey) (
       parseAPICreateKey) (
     pif (\<lambda>p. cur_type p = TokenChunkStore) (
       parseDevCreateChunkStore) (
     pif (\<lambda>p. cur_type p = TokenMetadata) (
       parseDevCreateMetadataStore) (
     pif (\<lambda>p. cur_type p = TokenProvider) (
       parseAPICreateProviderInstance) (
     perr (\<lambda>p. ''unknown CREATE target: '' @ cur_value p))))))))))))"

definition parseAPIDropDataset :: "command parse" where
  "parseAPIDropDataset =
     (pseq nextToken (
     pbind parseQuotedString (\<lambda>datasetName.
     pseq nextToken (
     let cmd = NewCommand ''api_drop_dataset'' in
     let cmd = set_param ''dataset_name'' (PStr datasetName) cmd in
     pseq opt_semicolon (
     pret cmd)))))"

definition parseAPIDropChat :: "command parse" where
  "parseAPIDropChat =
     (pseq nextToken (
     pbind parseQuotedString (\<lambda>chatName.
     let cmd = NewCommand ''api_drop_chat'' in
     let cmd = set_param ''chat_name'' (PStr chatName) cmd in
     pseq nextToken (
     pseq opt_semicolon (
     pret cmd)))))"

definition parseAPIDropSearch :: "command parse" where
  "parseAPIDropSearch =
     (pseq nextToken (
     pbind parseQuotedString (\<lambda>searchName.
     pseq nextToken (
     let cmd = NewCommand ''api_drop_search'' in
     let cmd = set_param ''search_name'' (PStr searchName) cmd in
     pseq opt_semicolon (
     pret cmd)))))"

definition parseAPIDropMemory :: "command parse" where
  "parseAPIDropMemory =
     (pseq nextToken (
     pbind parseQuotedString (\<lambda>memoryName.
     let cmd = NewCommand ''api_drop_memory'' in
     let cmd = set_param ''memory_name'' (PStr memoryName) cmd in
     pseq nextToken (
     pseq opt_semicolon (
     pret cmd)))))"

definition parseAPIDropAgent :: "command parse" where
  "parseAPIDropAgent =
     (pseq nextToken (
     pbind parseQuotedString (\<lambda>agentName.
     let cmd = NewCommand ''api_drop_agent'' in
     let cmd = set_param ''agent_name'' (PStr agentName) cmd in
     pseq nextToken (
     pseq opt_semicolon (
     pret cmd)))))"

definition parseAPIDropAPIKey :: "command parse" where
  "parseAPIDropAPIKey =
     (pseq nextToken (
     pbind parseQuotedString (\<lambda>apiKey.
     pseq nextToken (
     let cmd = NewCommand ''api_delete_api_key'' in
     let cmd = set_param ''api_key'' (PStr apiKey) cmd in
     pseq opt_semicolon (
     pret cmd)))))"

definition parseAPIDropCommands :: "command parse" where
  "parseAPIDropCommands =
     (pseq nextToken (
     pif (\<lambda>p. cur_type p = TokenDataset) (
       parseAPIDropDataset) (
     pif (\<lambda>p. cur_type p = TokenChat) (
       parseAPIDropChat) (
     pif (\<lambda>p. cur_type p = TokenSearch) (
       parseAPIDropSearch) (
     pif (\<lambda>p. cur_type p = TokenMemory) (
       parseAPIDropMemory) (
     pif (\<lambda>p. cur_type p = TokenAgent) (
       parseAPIDropAgent) (
     pif (\<lambda>p. cur_type p = TokenKey) (
       parseAPIDropAPIKey) (
     pif (\<lambda>p. cur_type p = TokenChunkStore) (
       parseDevDropChunkStore) (
     pif (\<lambda>p. cur_type p = TokenMetadata) (
       parseDevDropMetadataStore) (
     perr (\<lambda>p. ''unknown DROP target: '' @ cur_value p)))))))))))"

end
