(* ===== verification/CliUser2.thy ===== *)
theory CliUser2
  imports CliUser1
begin

text \<open>
  User commands, \<open>cli/user_parser.go\<close>: models and providers, settings, retrieval and parsing. Each definition
  follows the statements of the function of the same name.
\<close>

definition parseAddProviderInstance :: "string \<Rightarrow> command parse" where
  "parseAddProviderInstance providerName =
     (pseq nextToken (
     pbind (pwrap (\<lambda>err p. ''expected instance name: '' @ err) parseQuotedString) (\<lambda>instanceName.
     pseq nextToken (
     pif (\<lambda>p. cur_type p \<noteq> TokenKey) (
       perr (\<lambda>p. ''expected KEY after instance name'')) (
     pseq nextToken (
     pbind (pwrap (\<lambda>err p. ''expected API key: '' @ err) parseQuotedString) (\<lambda>apiKey.
     pseq nextToken (
     let baseURL = ([] :: string) in
     let region = ([] :: string) in
     pbind (ploop (\<lambda>(region, baseURL).
         pif (\<lambda>p. cur_type p = TokenRegion) (
           pseq nextToken (
           pbind (pwrap (\<lambda>err p. ''expected region: '' @ err) parseQuotedString) (\<lambda>region.
           pseq nextToken (
           pret (Inl (region, baseURL)))))) (
         pif (\<lambda>p. cur_type p = TokenURL) (
           pseq nextToken (
           pbind (pwrap (\<lambda>err p. ''expected base URL: '' @ err) parseQuotedString) (\<lambda>baseURL.
           pseq nextToken (
           pret (Inl (region, baseURL)))))) (
         pret (Inr (region, baseURL))))) (region, baseURL)) (\<lambda>(region, baseURL).
     let cmd = NewCommand ''api_add_provider_instance'' in
     let cmd = set_param ''provider_name'' (PStr providerName) cmd in
     let cmd = set_param ''instance_name'' (PStr instanceName) cmd in
     let cmd = set_param ''api_key'' (PStr apiKey) cmd in
     pbind (pif (\<lambda>_. baseURL \<noteq> []) (
         let cmd = set_param ''base_url'' (PStr baseURL) cmd in
         pret cmd) (
       pret cmd)) (\<lambda>cmd.
     pbind (pif (\<lambda>_. region \<noteq> []) (
         let cmd = set_param ''region'' (PStr region) cmd in
         pret cmd) (
       pret cmd)) (\<lambda>cmd.
     pseq nextToken (
     pseq opt_semicolon (
     pret cmd)))))))))))))"

definition parseAPIAddProvider :: "command parse" where
  "parseAPIAddProvider =
     (pseq nextToken (
     pbind (pwrap (\<lambda>err p. ''expected provider name: '' @ err) parseQuotedString) (\<lambda>providerName.
     pseq nextToken (
     pif (\<lambda>p. cur_type p = TokenInstance) (
       parseAddProviderInstance providerName) (
     pif (\<lambda>p. cur_type p \<in> {TokenEOF, TokenSemicolon}) (
       pseq nextToken (
       let cmd = NewCommand ''api_add_provider'' in
       let cmd = set_param ''provider_name'' (PStr providerName) cmd in
       pseq nextToken (
       pret cmd))) (
     perr (\<lambda>p. ''unknown ADD PROVIDER target: '' @ cur_value p)))))))"

text \<open>The loop that rejects a repeated name; \<open>met\<close> holds the names met so far.\<close>

fun repeated_name :: "string list \<Rightarrow> string list \<Rightarrow> string option" where
  "repeated_name met [] = None"
| "repeated_name met (n # ns) = (if n \<in> set met then Some n else repeated_name (n # met) ns)"

definition parseModelNames :: "string \<Rightarrow> (string list) parse" where
  "parseModelNames raw =
     (let modelNames = Fields raw in
     if modelNames = [] then perr (\<lambda>p. ''model name is required'')
     else case repeated_name [] modelNames of
       Some n \<Rightarrow> perr (\<lambda>p. ''duplicate model name: '' @ n)
     | None \<Rightarrow> pret modelNames)"

text \<open>
  \<open>ADD MODEL\<close>: the options of the model being configured, and the step that closes its
  configuration at a comma, a semicolon or the end.
\<close>

record model_config =
  mo_types :: "string list"
  mo_think :: "bool option"
  mo_tokens :: int
  mo_dimension :: "int option"
  mo_dimensions :: "int list"

definition no_config :: model_config where
  "no_config = \<lparr>mo_types = [], mo_think = None, mo_tokens = 0, mo_dimension = None, mo_dimensions = []\<rparr>"

fun dedup_types :: "string list \<Rightarrow> string list \<Rightarrow> string list" where
  "dedup_types met [] = []"
| "dedup_types met (t # ts) =
     (let t = TrimSpace t
      in if t = [] \<or> t \<in> set met then dedup_types met ts else t # dedup_types (t # met) ts)"

definition model_params :: "string \<Rightarrow> model_config \<Rightarrow> string list \<Rightarrow> (string \<times> param) list" where
  "model_params name c types =
     [(''model_name'', PStr name), (''model_types'', PStrs types), (''max_tokens'', PInt (mo_tokens c))] @
     (case mo_think c of None \<Rightarrow> [] | Some b \<Rightarrow> [(''thinking'', PBool b)]) @
     (case mo_dimension c of None \<Rightarrow> []
      | Some d \<Rightarrow> [(''max_dimension'', PInt d), (''dimensions'', PInts (mo_dimensions c))])"

definition add_type :: "string \<Rightarrow> model_config \<Rightarrow> model_config" where
  "add_type t c = c\<lparr>mo_types := mo_types c @ [t]\<rparr>"

text \<open>The integers after \<open>EMBEDDING\<close>: the maximal dimension and the dimensions.\<close>

definition parse_dimensions :: "model_config \<Rightarrow> model_config parse" where
  "parse_dimensions c =
     pif (\<lambda>p. cur_type p = TokenInteger) (
       pbind parseNumber (\<lambda>val.
       pseq nextToken (
       pbind (ploop (\<lambda>dimensions.
           pif (\<lambda>p. cur_type p = TokenInteger) (
             pbind parseNumber (\<lambda>dim.
             pseq nextToken (
             pret (Inl (dimensions @ [dim]))))) (
           pret (Inr dimensions))) []) (\<lambda>dimensions.
       pret (c\<lparr>mo_dimension := Some val, mo_dimensions := dimensions\<rparr>))))) (
     pret c)"

text \<open>One option of the model \<open>name\<close>, when the current token is neither a comma nor an end.\<close>

definition model_option :: "string \<Rightarrow> model_config \<Rightarrow> model_config parse" where
  "model_option name c =
     (pif (\<lambda>p. cur_type p = TokenThink) (
       if mo_think c \<noteq> None then perr (\<lambda>p. ''think model is already set for model '' @ name)
       else pseq nextToken (pret (c\<lparr>mo_think := Some True\<rparr>))) (
     pif (\<lambda>p. cur_type p = TokenVision) (pseq nextToken (pret (add_type ''vision'' c))) (
     pif (\<lambda>p. cur_type p = TokenChat) (pseq nextToken (pret (add_type ''chat'' c))) (
     pif (\<lambda>p. cur_type p = TokenEmbedding) (
       pseq nextToken (parse_dimensions (add_type ''embedding'' c))) (
     pif (\<lambda>p. cur_type p = TokenRerank) (pseq nextToken (pret (add_type ''rerank'' c))) (
     pif (\<lambda>p. cur_type p = TokenOCR) (pseq nextToken (pret (add_type ''ocr'' c))) (
     pif (\<lambda>p. cur_type p = TokenDocParse) (pseq nextToken (pret (add_type ''doc_parse'' c))) (
     pif (\<lambda>p. cur_type p = TokenTTS) (pseq nextToken (pret (add_type ''tts'' c))) (
     pif (\<lambda>p. cur_type p = TokenASR) (pseq nextToken (pret (add_type ''asr'' c))) (
     pif (\<lambda>p. cur_type p \<in> {TokenToken, TokenTokens}) (
       pseq nextToken (
       if mo_tokens c \<noteq> 0
       then perr (\<lambda>p. ''max tokens is already given '' @ show_int (mo_tokens c) @ '' for model '' @ name)
       else pif (\<lambda>p. cur_type p \<noteq> TokenInteger) (perr (\<lambda>p. ''expected integer'')) (
         pbind parseNumber (\<lambda>n. pseq nextToken (pret (c\<lparr>mo_tokens := n\<rparr>)))))) (
     perr (\<lambda>p. ''unexpected token type: '' @ cur_value p))))))))))))"

definition models_loop ::
    "string list \<Rightarrow> nat \<times> model_config \<times> (string \<times> param) list list \<Rightarrow>
     (nat \<times> model_config \<times> (string \<times> param) list list + (string \<times> param) list list) parse" where
  "models_loop wanted = (\<lambda>(i, c, models).
     if length wanted \<le> i
     then perr (\<lambda>p. ''too many model configs: got more configs than model names'')
     else let name = wanted ! i in
       pif (\<lambda>p. cur_type p \<in> {TokenComma, TokenSemicolon, TokenEOF}) (
         if dedup_types [] (mo_types c) = []
         then perr (\<lambda>p. ''model type is required for model '' @ name)
         else let models = models @ [model_params name c (dedup_types [] (mo_types c))] in
           pif (\<lambda>p. cur_type p = TokenComma) (
             pseq nextToken (pret (Inl (Suc i, no_config, models)))) (
           pseq opt_semicolon (pret (Inr models)))) (
       pbind (model_option name c) (\<lambda>c. pret (Inl (i, c, models)))))"

definition parseAPIAddModel :: "command parse" where
  "parseAPIAddModel =
     (pseq nextToken (
     pif (\<lambda>p. cur_type p \<noteq> TokenQuotedString) (perr (\<lambda>p. ''expected model name'')) (
     pbind parseQuotedString (\<lambda>rawModelNames.
     pbind (parseModelNames rawModelNames) (\<lambda>modelNames.
     pseq nextToken (
     pif (\<lambda>p. cur_type p \<noteq> TokenTo) (perr (\<lambda>p. ''expected TO'')) (
     pseq nextToken (
     pif (\<lambda>p. cur_type p \<noteq> TokenProvider) (perr (\<lambda>p. ''expected PROVIDER'')) (
     pseq nextToken (
     pif (\<lambda>p. cur_type p \<noteq> TokenQuotedString) (perr (\<lambda>p. ''expected provider name'')) (
     pbind parseQuotedString (\<lambda>providerName.
     pseq nextToken (
     pif (\<lambda>p. cur_type p \<noteq> TokenInstance) (perr (\<lambda>p. ''expected INSTANCE'')) (
     pseq nextToken (
     pif (\<lambda>p. cur_type p \<noteq> TokenQuotedString) (perr (\<lambda>p. ''expected provider name'')) (
     pbind parseQuotedString (\<lambda>instanceName.
     pseq nextToken (
     pbind (ploop (models_loop modelNames) (0, no_config, [])) (\<lambda>models.
     if length models \<noteq> length modelNames
     then perr (\<lambda>p. ''model config count '' @ show_int (int (length models)) @
       '' does not match model name count '' @ show_int (int (length modelNames)))
     else
     let cmd = NewCommand ''api_add_custom_model'' in
     let cmd = set_param ''provider_name'' (PStr providerName) cmd in
     let cmd = set_param ''instance_name'' (PStr instanceName) cmd in
     let cmd = set_param ''models'' (PModels models) cmd in
     pret cmd)))))))))))))))))))"

definition parseAddAPIServer :: "command parse" where
  "parseAddAPIServer =
     (pseq nextToken (
     pbind parseQuotedString (\<lambda>serverName.
     pseq nextToken (
     pif (\<lambda>p. cur_type p \<noteq> TokenHost) (
       perr (\<lambda>p. ''expected HOST'')) (
     pseq nextToken (
     pbind parseQuotedString (\<lambda>host.
     pseq nextToken (
     pbind (plift (parseHostPort host)) (\<lambda>(ip, port).
     let cmd = NewCommand ''api_add_api_server'' in
     let cmd = set_param ''server_name'' (PStr serverName) cmd in
     let cmd = set_param ''server_ip'' (PStr ip) cmd in
     let cmd = set_param ''server_port'' (PInt port) cmd in
     pret cmd)))))))))"

definition parseAddAdminServer :: "command parse" where
  "parseAddAdminServer =
     (pseq nextToken (
     pif (\<lambda>p. cur_type p \<noteq> TokenHost) (
       perr (\<lambda>p. ''expected HOST'')) (
     pseq nextToken (
     pbind parseQuotedString (\<lambda>host.
     pseq nextToken (
     pbind (plift (parseHostPort host)) (\<lambda>(ip, port).
     let cmd = NewCommand ''api_add_admin_server'' in
     let cmd = set_param ''server_ip'' (PStr ip) cmd in
     let cmd = set_param ''server_port'' (PInt port) cmd in
     pret cmd)))))))"

definition parseAPIAddCommands :: "command parse" where
  "parseAPIAddCommands =
     (pseq nextToken (
     pif (\<lambda>p. cur_type p = TokenProvider) (
       parseAPIAddProvider) (
     pif (\<lambda>p. cur_type p = TokenModel) (
       parseAPIAddModel) (
     pif (\<lambda>p. cur_type p = TokenAPI) (
       parseAddAPIServer) (
     pif (\<lambda>p. cur_type p = TokenAdmin) (
       parseAddAdminServer) (
     perr (\<lambda>p. ''unknown ADD target: '' @ cur_value p)))))))"

definition parseAPIDeleteProviderInstanceModels :: "string \<Rightarrow> string \<Rightarrow> command parse" where
  "parseAPIDeleteProviderInstanceModels providerName instanceName =
     (pseq nextToken (
     pbind (pwrap (\<lambda>err p. ''expected model name: '' @ err) parseQuotedString) (\<lambda>rawModels.
     pseq nextToken (
     let modelNames = split_on (CHR '' '') rawModels in
     let cmd = NewCommand ''api_delete_provider_instance_model'' in
     let cmd = set_param ''instance_name'' (PStr instanceName) cmd in
     let cmd = set_param ''provider_name'' (PStr providerName) cmd in
     let cmd = set_param ''model_names'' (PStrs modelNames) cmd in
     pseq nextToken (
     pseq opt_semicolon (
     pret cmd))))))"

definition parseAPIDeleteProviderInstance :: "string \<Rightarrow> command parse" where
  "parseAPIDeleteProviderInstance providerName =
     (pseq nextToken (
     pbind (pwrap (\<lambda>err p. ''expected instance name: '' @ err) parseQuotedString) (\<lambda>instanceName.
     pseq nextToken (
     let cmd = NewCommand ''api_delete_provider_instance'' in
     let cmd = set_param ''provider_name'' (PStr providerName) cmd in
     let cmd = set_param ''instance_name'' (PStr instanceName) cmd in
     pif (\<lambda>p. cur_type p = TokenModels) (
       parseAPIDeleteProviderInstanceModels providerName instanceName) (
     pif (\<lambda>p. cur_type p \<in> {TokenEOF, TokenSemicolon}) (
       pseq nextToken (
       pseq opt_semicolon (
       pret cmd))) (
     perr (\<lambda>p. ''unknown DELETE target: '' @ cur_value p)))))))"

definition parseAPIDeleteProvider :: "command parse" where
  "parseAPIDeleteProvider =
     (pseq nextToken (
     pbind (pwrap (\<lambda>err p. ''expected provider name: '' @ err) parseQuotedString) (\<lambda>providerName.
     pseq nextToken (
     pif (\<lambda>p. cur_type p = TokenInstance) (
       parseAPIDeleteProviderInstance providerName) (
     pif (\<lambda>p. cur_type p \<in> {TokenEOF, TokenSemicolon}) (
       pseq nextToken (
       let cmd = NewCommand ''api_delete_provider'' in
       let cmd = set_param ''provider_name'' (PStr providerName) cmd in
       pseq opt_semicolon (
       pret cmd))) (
     perr (\<lambda>p. ''unknown DELETE target: '' @ cur_value p)))))))"

definition parseAPIDeleteAdminServer :: "command parse" where
  "parseAPIDeleteAdminServer =
     (pseq nextToken (
     let cmd = NewCommand ''api_delete_admin_server'' in
     pseq opt_semicolon (
     pret cmd)))"

definition parseAPIDeleteAPIServer :: "command parse" where
  "parseAPIDeleteAPIServer =
     (pseq nextToken (
     pbind parseQuotedString (\<lambda>serverName.
     pseq nextToken (
     let cmd = NewCommand ''api_delete_api_server'' in
     let cmd = set_param ''server_name'' (PStr serverName) cmd in
     pseq opt_semicolon (
     pret cmd)))))"

definition parseAPIDeleteCommands :: "command parse" where
  "parseAPIDeleteCommands =
     (pseq nextToken (
     pif (\<lambda>p. cur_type p = TokenProvider) (
       parseAPIDeleteProvider) (
     pif (\<lambda>p. cur_type p = TokenMetadata) (
       parseDevDeleteMeta) (
     pif (\<lambda>p. cur_type p = TokenAdmin) (
       parseAPIDeleteAdminServer) (
     pif (\<lambda>p. cur_type p = TokenAPI) (
       parseAPIDeleteAPIServer) (
     perr (\<lambda>p. ''unknown DELETE target: '' @ cur_value p)))))))"

definition parseAPIAlterInstance :: "command parse" where
  "parseAPIAlterInstance =
     (pseq nextToken (
     pbind (pwrap (\<lambda>err p. ''expected provider name: '' @ err) parseQuotedString) (\<lambda>providerName.
     pseq nextToken (
     pif (\<lambda>p. cur_type p \<noteq> TokenInstance) (
       perr (\<lambda>p. ''expected INSTANCE after provider name'')) (
     pseq nextToken (
     pbind (pwrap (\<lambda>err p. ''expected instance name: '' @ err) parseQuotedString) (\<lambda>instanceName.
     pseq nextToken (
     let newInstanceName = ([] :: string) in
     let newAPIKey = ([] :: string) in
     pbind (ploop (\<lambda>(newInstanceName, newAPIKey).
         pif (\<lambda>p. cur_type p = TokenName) (
           pseq nextToken (
           pbind (pwrap (\<lambda>err p. ''expected model name: '' @ err) parseQuotedString) (\<lambda>newInstanceName.
           pseq nextToken (
           pret (Inl (newInstanceName, newAPIKey)))))) (
         pif (\<lambda>p. cur_type p = TokenKey) (
           pseq nextToken (
           pbind (pwrap (\<lambda>err p. ''expected API key: '' @ err) parseQuotedString) (\<lambda>newAPIKey.
           pseq nextToken (
           pret (Inl (newInstanceName, newAPIKey)))))) (
         pret (Inr (newInstanceName, newAPIKey))))) (newInstanceName, newAPIKey)) (\<lambda>(newInstanceName, newAPIKey).
     pif (\<lambda>_. (newInstanceName = []) \<and> (newAPIKey = [])) (
       perr (\<lambda>p. ''expected NAME or KEY after INSTANCE'')) (
     let cmd = NewCommand ''api_alter_provider_instance'' in
     let cmd = set_param ''provider_name'' (PStr providerName) cmd in
     let cmd = set_param ''instance_name'' (PStr instanceName) cmd in
     let cmd = set_param ''new_instance_name'' (PStr newInstanceName) cmd in
     let cmd = set_param ''new_api_key'' (PStr newAPIKey) cmd in
     pseq nextToken (
     pseq opt_semicolon (
     pret cmd))))))))))))"

definition parseAPIAlterCommands :: "command parse" where
  "parseAPIAlterCommands =
     (pseq nextToken (
     pif (\<lambda>p. cur_type p = TokenProvider) (
       parseAPIAlterInstance) (
     perr (\<lambda>p. ''unknown ALTER target: '' @ cur_value p))))"

definition parseIdentifierList :: "(string list) parse" where
  "parseIdentifierList =
     (let xs = ([] :: string list) in
     pbind parseIdentifier (\<lambda>ident.
     let xs = xs @ [ident] in
     pseq nextToken (
     pbind (ploop (\<lambda>(ident, xs).
         pif (\<lambda>p. cur_type p = TokenComma) (
         pseq nextToken (
         pbind parseIdentifier (\<lambda>ident.
         let xs = xs @ [ident] in
         pseq nextToken (
         pret (Inl (ident, xs)))))) (
         pret (Inr (ident, xs)))) (ident, xs)) (\<lambda>(ident, xs).
     pret xs))))"

definition parseAPISetVariable :: "command parse" where
  "parseAPISetVariable =
     (pseq nextToken (
     pbind parseQuotedString (\<lambda>varName.
     pseq nextToken (
     pbind parseVariableValue (\<lambda>varValue.
     pseq nextToken (
     let cmd = NewCommand ''api_set_variable'' in
     let cmd = set_param ''var_name'' (PStr varName) cmd in
     let cmd = set_param ''var_value'' (PStr varValue) cmd in
     pseq opt_semicolon (
     pret cmd)))))))"

definition parseAPISetDefault :: "command parse" where
  "parseAPISetDefault =
     (pseq nextToken (
     let modelType = ([] :: string) in
     let modelNameOrID = ([] :: string) in
     pbind (pif (\<lambda>p. cur_type p = TokenChat) (
         let modelType = ''chat'' in
         pret modelType) (
       pif (\<lambda>p. cur_type p = TokenVision) (
         let modelType = ''vision'' in
         pret modelType) (
       pif (\<lambda>p. cur_type p = TokenEmbedding) (
         let modelType = ''embedding'' in
         pret modelType) (
       pif (\<lambda>p. cur_type p = TokenRerank) (
         let modelType = ''rerank'' in
         pret modelType) (
       pif (\<lambda>p. cur_type p = TokenASR) (
         let modelType = ''asr'' in
         pret modelType) (
       pif (\<lambda>p. cur_type p = TokenTTS) (
         let modelType = ''tts'' in
         pret modelType) (
       pif (\<lambda>p. cur_type p = TokenOCR) (
         let modelType = ''ocr'' in
         pret modelType) (
       perr (\<lambda>p. ''unknown model type: '' @ cur_value p))))))))) (\<lambda>modelType.
     pseq nextToken (
     pif (\<lambda>p. cur_type p \<noteq> TokenModel) (
       perr (\<lambda>p. ''expected MODEL'')) (
     pseq nextToken (
     pif (\<lambda>p. cur_type p \<noteq> TokenQuotedString) (
       perr (\<lambda>p. ''expected quoted string with format model@instance@provider'')) (
     pbind parseQuotedString (\<lambda>modelNameOrID.
     pseq nextToken (
     let cmd = NewCommand ''api_set_default_model'' in
     let cmd = set_param ''model_type'' (PStr modelType) cmd in
     pbind (pif (\<lambda>_. IsCompositeModelName modelNameOrID) (
         let cmd = set_param ''composite_model_name'' (PStr modelNameOrID) cmd in
         pret cmd) (
       pif (\<lambda>_. IsUUID modelNameOrID) (
         let cmd = set_param ''model_id'' (PStr modelNameOrID) cmd in
         pret cmd) (
       perr (\<lambda>p. ''invalid format of model name or ID: '' @ modelNameOrID)))) (\<lambda>cmd.
     pseq nextToken (
     pseq opt_semicolon (
     pret cmd))))))))))))"

definition parseAPISetAPIKey :: "command parse" where
  "parseAPISetAPIKey =
     (pseq nextToken (
     pbind parseQuotedString (\<lambda>apiKey.
     pseq nextToken (
     let cmd = NewCommand ''api_set_api_key'' in
     let cmd = set_param ''api_key'' (PStr apiKey) cmd in
     pseq opt_semicolon (
     pret cmd)))))"

definition parseAPISetLogLevel :: "command parse" where
  "parseAPISetLogLevel =
     (pseq nextToken (
     let cmd = NewCommand ''api_set_log_level'' in
     pbind (pif (\<lambda>p. cur_type p = TokenDebug) (
         let cmd = set_param ''level'' (PStr ''debug'') cmd in
         pret cmd) (
       pif (\<lambda>p. cur_type p = TokenInfo) (
         let cmd = set_param ''level'' (PStr ''info'') cmd in
         pret cmd) (
       pif (\<lambda>p. cur_type p = TokenWarn) (
         let cmd = set_param ''level'' (PStr ''warn'') cmd in
         pret cmd) (
       pif (\<lambda>p. cur_type p = TokenError) (
         let cmd = set_param ''level'' (PStr ''error'') cmd in
         pret cmd) (
       pif (\<lambda>p. cur_type p = TokenFatal) (
         let cmd = set_param ''level'' (PStr ''fatal'') cmd in
         pret cmd) (
       pif (\<lambda>p. cur_type p = TokenPanic) (
         let cmd = set_param ''level'' (PStr ''panic'') cmd in
         pret cmd) (
       perr (\<lambda>p. ''unknown log level: '' @ cur_value p)))))))) (\<lambda>cmd.
     pseq nextToken (
     pseq opt_semicolon (
     pret cmd)))))"

definition parseAPISetLog :: "command parse" where
  "parseAPISetLog =
     (pseq nextToken (
     pif (\<lambda>p. cur_type p = TokenLevel) (
       parseAPISetLogLevel) (
     perr (\<lambda>p. ''unknown log target: '' @ cur_value p))))"

definition parseAPISetCommands :: "command parse" where
  "parseAPISetCommands =
     (pseq nextToken (
     pif (\<lambda>p. cur_type p = TokenVar) (
       parseAPISetVariable) (
     pif (\<lambda>p. cur_type p = TokenDefault) (
       parseAPISetDefault) (
     pif (\<lambda>p. cur_type p = TokenKey) (
       parseAPISetAPIKey) (
     pif (\<lambda>p. cur_type p = TokenLog) (
       parseAPISetLog) (
     pif (\<lambda>p. cur_type p = TokenMetadata) (
       parseDevSetMeta) (
     perr (\<lambda>p. ''unknown SET target: '' @ cur_value p))))))))"

definition parseAPIResetDefaultModel :: "command parse" where
  "parseAPIResetDefaultModel =
     (pseq nextToken (
     let modelType = ([] :: string) in
     pbind (pif (\<lambda>p. cur_type p = TokenChat) (
         let modelType = ''chat'' in
         pret modelType) (
       pif (\<lambda>p. cur_type p = TokenVision) (
         let modelType = ''vision'' in
         pret modelType) (
       pif (\<lambda>p. cur_type p = TokenEmbedding) (
         let modelType = ''embedding'' in
         pret modelType) (
       pif (\<lambda>p. cur_type p = TokenRerank) (
         let modelType = ''rerank'' in
         pret modelType) (
       pif (\<lambda>p. cur_type p = TokenASR) (
         let modelType = ''asr'' in
         pret modelType) (
       pif (\<lambda>p. cur_type p = TokenTTS) (
         let modelType = ''tts'' in
         pret modelType) (
       pif (\<lambda>p. cur_type p = TokenOCR) (
         let modelType = ''ocr'' in
         pret modelType) (
       perr (\<lambda>p. ''unknown model type: '' @ cur_value p))))))))) (\<lambda>modelType.
     let cmd = NewCommand ''reset_default_model'' in
     let cmd = set_param ''model_type'' (PStr modelType) cmd in
     pseq nextToken (
     pif (\<lambda>p. cur_type p \<noteq> TokenModel) (
       perr (\<lambda>p. ''expected MODEL'')) (
     pseq nextToken (
     pseq opt_semicolon (
     pret cmd)))))))"

definition parseAPIResetKey :: "command parse" where
  "parseAPIResetKey =
     (pseq nextToken (
     pseq opt_semicolon (
     pret (NewCommand ''api_unset_api_key''))))"

definition parseAPIResetCommands :: "command parse" where
  "parseAPIResetCommands =
     (pseq nextToken (
     pif (\<lambda>p. cur_type p = TokenDefault) (
       parseAPIResetDefaultModel) (
     pif (\<lambda>p. cur_type p = TokenKey) (
       parseAPIResetKey) (
     perr (\<lambda>p. ''unknown RESET target: '' @ cur_value p)))))"

definition parseAPIImport :: "command parse" where
  "parseAPIImport =
     (pseq nextToken (
     pbind parseQuotedString (\<lambda>documentPaths.
     pseq nextToken (
     pif (\<lambda>p. cur_type p \<noteq> TokenInto) (
       perr (\<lambda>p. ''expected INTO'')) (
     pseq nextToken (
     pif (\<lambda>p. cur_type p \<noteq> TokenDataset) (
       perr (\<lambda>p. ''expected DATASET'')) (
     pseq nextToken (
     pbind parseQuotedString (\<lambda>datasetName.
     let cmd = NewCommand ''import_docs_into_dataset'' in
     let cmd = set_param ''document_paths'' (PStr documentPaths) cmd in
     let cmd = set_param ''dataset_name'' (PStr datasetName) cmd in
     pseq nextToken (
     pseq opt_semicolon (
     pret cmd)))))))))))"

text \<open>
  The options after \<open>WITH\<close> in a retrieval: the value of an option (None for a list, which is read
  later) and the test of the value by the name of the option.
\<close>

definition with_value :: "string \<Rightarrow> (param option) parse" where
  "with_value paramName =
     (pif (\<lambda>p. cur_type p = TokenInteger) (
       pbind parseNumber (\<lambda>n. pseq nextToken (pret (Some (PInt n))))) (
     pif (\<lambda>p. cur_type p = TokenFloat) (
       pbind parseFloat (\<lambda>x. pseq nextToken (pret (Some (PFloat x))))) (
     pif (\<lambda>p. cur_type p = TokenQuotedString) (
       pbind parseQuotedString (\<lambda>s. pseq nextToken (pret (Some (PStr s))))) (
     pif (\<lambda>p. cur_type p = TokenIdentifier) (
       pget cur_value (\<lambda>s. pseq nextToken (pret (Some (PStr s))))) (
     pif (\<lambda>p. cur_type p = TokenLBracket) (pret None) (
     perr (\<lambda>p. ''WITH option '' @ quote paramName @ '' is missing a value'')))))))"

definition with_error :: "string \<Rightarrow> string \<Rightarrow> nat \<Rightarrow> command parse" where
  "with_error paramName what valueToken =
     perr (\<lambda>p. ''WITH option '' @ quote paramName @ '' must be '' @ what @ '', got '' @
       tokenTypeDescription valueToken (ps_cur p))"

definition with_option :: "string \<Rightarrow> nat \<Rightarrow> param option \<Rightarrow> command \<Rightarrow> command parse" where
  "with_option paramName valueToken paramValue cmd =
     (if paramName \<in> {''top_k'', ''page_size'', ''page''} then
       (if valueToken \<noteq> TokenInteger then with_error paramName ''an integer'' valueToken
        else pret (set_param paramName (the paramValue) cmd))
      else if paramName \<in> {''similarity_threshold'', ''vector_similarity_weight''} then
       (case paramValue of
          Some (PInt n) \<Rightarrow> pret (set_param paramName (PFloat (f64_of_int n)) cmd)
        | Some (PFloat x) \<Rightarrow> pret (set_param paramName (PFloat x) cmd)
        | _ \<Rightarrow> with_error paramName ''a number'' valueToken)
      else if paramName \<in> {''keyword'', ''use_kg''} then
       (case paramValue of
          Some (PStr s) \<Rightarrow>
            (if ToLower s = ''true'' then pret (set_param paramName (PBool True) cmd)
             else if ToLower s = ''false'' then pret (set_param paramName (PBool False) cmd)
             else perr (\<lambda>p. ''WITH option '' @ quote paramName @ '' must be true or false, got '' @ quote s))
        | _ \<Rightarrow> with_error paramName ''true or false'' valueToken)
      else if paramName \<in> {''rerank_id'', ''tenant_rerank_id'', ''search_id'', ''meta_data_filter''} then
       (if valueToken \<noteq> TokenQuotedString then with_error paramName ''a quoted string'' valueToken
        else pret (set_param paramName (the paramValue) cmd))
      else if paramName \<in> {''cross_languages'', ''doc_ids''} then
        pif (\<lambda>p. cur_type p \<noteq> TokenLBracket) (
          perr (\<lambda>p. ''WITH option '' @ quote paramName @ '' must be a list, e.g. '' @ quote paramName @
            '' ['' @ [CHR 0x27] @ ''a'' @ [CHR 0x27] @ '', '' @ [CHR 0x27] @ ''b'' @ [CHR 0x27] @ '']'')) (
        pbind parseQuotedStringList (\<lambda>xs. pret (set_param paramName (PStrs xs) cmd)))
      else perr (\<lambda>p. ''unknown WITH option '' @ quote paramName))"

definition with_options :: "command \<Rightarrow> (command + command) parse" where
  "with_options cmd =
     (pif (\<lambda>p. cur_type p \<noteq> TokenEOF \<and> cur_type p \<noteq> TokenSemicolon) (
       pif (\<lambda>p. cur_type p = TokenComma) (
         perr (\<lambda>p. ''syntax error: WITH options must be space-separated, not comma-separated'')) (
       pif (\<lambda>p. cur_type p \<noteq> TokenIdentifier) (pret (Inr cmd)) (
       pget (\<lambda>p. ToLower (cur_value p)) (\<lambda>paramName.
       pseq nextToken (
       pget cur_type (\<lambda>valueToken.
       pbind (with_value paramName) (\<lambda>paramValue.
       pbind (with_option paramName valueToken paramValue cmd) (\<lambda>cmd.
       pret (Inl cmd))))))))) (
     pret (Inr cmd)))"

text \<open>The path of a search: \<open>fmt.Sprintf("%s%s", ...)\<close> appends to the path read so far.\<close>

definition add_path :: "string \<Rightarrow> command \<Rightarrow> command" where
  "add_path s cmd =
     (case mget (cmd_Params cmd) ''path'' of
        Some (PStr t) \<Rightarrow> set_param ''path'' (PStr (t @ s)) cmd
      | _ \<Rightarrow> set_param ''path'' (PStr s) cmd)"

definition search_options :: "command \<Rightarrow> (command + command) parse" where
  "search_options cmd =
     (pif (\<lambda>p. cur_type p \<noteq> TokenEOF) (
       pif (\<lambda>p. cur_type p = TokenDash) (
         pseq nextToken (
         pif (\<lambda>p. cur_type p \<noteq> TokenIdentifier) (perr (\<lambda>p. ''expect identifier'')) (
         pif (\<lambda>p. ToLower (cur_value p) = ''n'') (
           pseq nextToken (
           pif (\<lambda>p. cur_type p \<noteq> TokenInteger) (perr (\<lambda>p. ''expect number'')) (
           pbind parseNumber (\<lambda>n.
           let cmd = set_param ''number'' (PInt n) cmd in
           pseq nextToken (pret (Inl cmd)))))) (
         perr (\<lambda>p. ''unknow parameter: '' @ cur_value p))))) (
       pif (\<lambda>p. cur_type p = TokenIdentifier) (
         pget (\<lambda>p. add_path (cur_value p) cmd) (\<lambda>cmd.
         pseq nextToken (pret (Inl cmd)))) (
       pif (\<lambda>p. cur_type p = TokenSlash) (
         let cmd = add_path ''/'' cmd in
         pseq nextToken (
         pbind (pif (\<lambda>p. cur_type p = TokenIdentifier) (
             pget (\<lambda>p. add_path (cur_value p) cmd) (\<lambda>cmd.
             pseq nextToken (pret cmd))) (
           pret cmd)) (\<lambda>cmd.
         pret (Inl cmd)))) (
       pif (\<lambda>p. cur_type p = TokenIllegal \<and> cur_value p = ''.'') (
         let cmd = add_path ''.'' cmd in
         pseq nextToken (pret (Inl cmd))) (
       perr (\<lambda>p. ''unexpected token '' @ quote (cur_value p) @ '' in search path'')))))) (
     pret (Inr cmd)))"

definition search_on_datasets :: "string \<Rightarrow> command parse" where
  "search_on_datasets question =
     (pseq nextToken (
     pif (\<lambda>p. cur_type p \<noteq> TokenDatasets) (perr (\<lambda>p. ''expected DATASETS'')) (
     pseq nextToken (
     pbind parseQuotedString (\<lambda>datasets.
     let cmd = NewCommand ''search_on_datasets'' in
     let cmd = set_param ''question'' (PStr question) cmd in
     let cmd = set_param ''datasets'' (PStr datasets) cmd in
     pseq nextToken (
     pbind (pif (\<lambda>p. cur_type p = TokenWith \<or> cur_type p = TokenIdentifier \<and> ToLower (cur_value p) = ''with'') (
         pseq nextToken (ploop with_options cmd)) (
       pret cmd)) (\<lambda>cmd.
     pseq opt_semicolon (
     pret cmd))))))))"

definition parseAPIRetrieve :: "command parse" where
  "parseAPIRetrieve =
     (pseq nextToken (
     pif (\<lambda>p. cur_type p = TokenDash) (
       pbind (ploop (\<lambda>dashCount.
           pif (\<lambda>p. cur_type p = TokenDash) (pseq nextToken (pret (Inl (dashCount + 1)))) (
           pret (Inr dashCount))) (0 :: int)) (\<lambda>dashCount.
       pif (\<lambda>p. 0 < dashCount \<and> cur_type p = TokenIdentifier \<and> ToLower (cur_value p) \<in> {''h'', ''help''}) (
         pret (NewCommand ''search_help'')) (
       perr (\<lambda>p. ''expected quoted string or identifier'')))) (
     pbind (pif (\<lambda>p. cur_type p = TokenQuotedString) parseQuotedString (
       pif (\<lambda>p. cur_type p = TokenIdentifier) parseIdentifier (
       perr (\<lambda>p. ''expected quoted string or identifier'')))) (\<lambda>question.
     pseq nextToken (
     pif (\<lambda>p. cur_type p = TokenOn) (search_on_datasets question) (
     let cmd = NewCommand ''ce_search'' in
     let cmd = set_param ''query'' (PStr question) cmd in
     pif (\<lambda>p. cur_type p = TokenEOF) (pret (set_param ''path'' (PStr ''.'') cmd)) (
     ploop search_options cmd)))))))"

definition parseAPIParseDataset :: "command parse" where
  "parseAPIParseDataset =
     (pseq nextToken (
     pbind parseQuotedString (\<lambda>datasetName.
     pseq nextToken (
     let method = ([] :: string) in
     pbind (pif (\<lambda>p. cur_type p = TokenSync) (
         let method = ''sync'' in
         pret method) (
       pif (\<lambda>p. cur_type p = TokenAsync) (
         let method = ''async'' in
         pret method) (
       perr (\<lambda>p. ''expected SYNC or ASYNC'')))) (\<lambda>method.
     pseq nextToken (
     let cmd = NewCommand ''parse_dataset'' in
     let cmd = set_param ''dataset_name'' (PStr datasetName) cmd in
     let cmd = set_param ''method'' (PStr method) cmd in
     pseq opt_semicolon (
     pret cmd)))))))"

definition parseAPIModelParse :: "command parse" where
  "parseAPIModelParse =
     (pseq nextToken (
     pbind parseQuotedString (\<lambda>modelNameOrID.
     pseq nextToken (
     let cmd = NewCommand ''api_model_parse_file'' in
     pbind (pif (\<lambda>p. cur_type p = TokenFile) (
         pseq nextToken (
         let file = ([] :: string) in
         pbind parseQuotedString (\<lambda>file.
         let cmd = set_param ''file'' (PStr file) cmd in
         pseq nextToken (
         pret cmd)))) (
       pif (\<lambda>p. cur_type p = TokenURL) (
         pseq nextToken (
         let url = ([] :: string) in
         pbind parseQuotedString (\<lambda>url.
         let cmd = set_param ''url'' (PStr url) cmd in
         pseq nextToken (
         pret cmd)))) (
       perr (\<lambda>p. ''expected FILE or URL'')))) (\<lambda>cmd.
     pbind (pif (\<lambda>_. IsCompositeModelName modelNameOrID) (
         let cmd = set_param ''composite_model_name'' (PStr modelNameOrID) cmd in
         pret cmd) (
       pif (\<lambda>_. IsUUID modelNameOrID) (
         let cmd = set_param ''model_id'' (PStr modelNameOrID) cmd in
         pret cmd) (
       perr (\<lambda>p. ''invalid format of model name or ID: '' @ modelNameOrID)))) (\<lambda>cmd.
     pseq opt_semicolon (
     pret cmd)))))))"

definition parseAPIParseDocs :: "command parse" where
  "parseAPIParseDocs =
     (pseq nextToken (
     pbind parseQuotedString (\<lambda>documentsStr.
     pseq nextToken (
     pif (\<lambda>p. cur_type p \<noteq> TokenFrom) (
       perr (\<lambda>p. ''expected FROM'')) (
     pseq nextToken (
     pbind parseQuotedString (\<lambda>datasetID.
     pseq nextToken (
     let cmd = NewCommand ''api_parse_documents'' in
     let documents = split_on (CHR '' '') documentsStr in
     let cmd = set_param ''documents'' (PStrs documents) cmd in
     let cmd = set_param ''dataset_id'' (PStr datasetID) cmd in
     pseq opt_semicolon (
     pret cmd)))))))))"

definition parseAPIParseLocalFile :: "command parse" where
  "parseAPIParseLocalFile =
     (pseq nextToken (
     pbind parseQuotedString (\<lambda>filename.
     pseq nextToken (
     let cmd = NewCommand ''user_parse_local_file_command'' in
     let cmd = set_param ''filename'' (PStr filename) cmd in
     pbind (ploop (\<lambda>cmd.
         pif (\<lambda>p. cur_type p = TokenVision) (
           pseq nextToken (
           let visionModel = ([] :: string) in
           pbind parseQuotedString (\<lambda>visionModel.
           let cmd = set_param ''vision_model'' (PStr visionModel) cmd in
           pseq nextToken (
           pret (Inl cmd))))) (
         pif (\<lambda>p. cur_type p = TokenASR) (
           pseq nextToken (
           let asrModel = ([] :: string) in
           pbind parseQuotedString (\<lambda>asrModel.
           let cmd = set_param ''asr_model'' (PStr asrModel) cmd in
           pseq nextToken (
           pret (Inl cmd))))) (
         pif (\<lambda>p. cur_type p = TokenOCR) (
           pseq nextToken (
           let ocrModel = ([] :: string) in
           pbind parseQuotedString (\<lambda>ocrModel.
           let cmd = set_param ''ocr_model'' (PStr ocrModel) cmd in
           pseq nextToken (
           pret (Inl cmd))))) (
         pif (\<lambda>p. cur_type p = TokenChat) (
           pseq nextToken (
           let chatModel = ([] :: string) in
           pbind parseQuotedString (\<lambda>chatModel.
           let cmd = set_param ''chat_model'' (PStr chatModel) cmd in
           pseq nextToken (
           pret (Inl cmd))))) (
         pif (\<lambda>p. cur_type p = TokenEmbed) (
           pseq nextToken (
           let embedModel = ([] :: string) in
           pbind parseQuotedString (\<lambda>embedModel.
           let cmd = set_param ''embedding_model'' (PStr embedModel) cmd in
           pseq nextToken (
           pret (Inl cmd))))) (
         pif (\<lambda>p. cur_type p = TokenDocParse) (
           pseq nextToken (
           let docParseModel = ([] :: string) in
           pbind parseQuotedString (\<lambda>docParseModel.
           let cmd = set_param ''doc_parse_model'' (PStr docParseModel) cmd in
           pseq nextToken (
           pret (Inl cmd))))) (
         pif (\<lambda>p. cur_type p = TokenSemicolon) (
           pseq nextToken (
           pret (Inr cmd))) (
         pret (Inr cmd))))))))) cmd) (\<lambda>cmd.
     pret cmd)))))"

definition parseParseCommands :: "command parse" where
  "parseParseCommands =
     (pseq nextToken (
     pif (\<lambda>p. cur_type p = TokenDataset) (
       parseAPIParseDataset) (
     pif (\<lambda>p. cur_type p = TokenWith) (
       parseAPIModelParse) (
     pif (\<lambda>p. cur_type p = TokenDocument) (
       parseAPIParseDocs) (
     pif (\<lambda>p. cur_type p = TokenFile) (
       parseAPIParseLocalFile) (
     perr (\<lambda>p. ''expected DATASET, WITH, or DOCUMENT'')))))))"

end
