(* ===== verification/CliUser3.thy ===== *)
theory CliUser3
  imports CliUser2
begin

text \<open>
  User commands, \<open>cli/user_parser.go\<close>: chat, models, ingestion and completions. Each definition
  follows the statements of the function of the same name.
\<close>

definition parseUserStatement :: "command parse" where
  "parseUserStatement =
     (pif (\<lambda>p. cur_type p = TokenPing) (
       parseAPIPingServer) (
     pif (\<lambda>p. cur_type p = TokenShow) (
       parseAPIShowCommands) (
     pif (\<lambda>p. cur_type p = TokenList) (
       parseAPIListCommands) (
     pif (\<lambda>p. cur_type p = TokenImport) (
       parseAPIImport) (
     pif (\<lambda>p. cur_type p = TokenInsert) (
       parseDevInsertCommand) (
     pif (\<lambda>p. cur_type p = TokenRetrieve) (
       parseAPIRetrieve) (
     perr (\<lambda>p. ''invalid user statement: '' @ cur_value p))))))))"

definition parseBenchmarkCommand :: "command parse" where
  "parseBenchmarkCommand =
     (let cmd = NewCommand ''benchmark'' in
     pseq nextToken (
     pbind parseNumber (\<lambda>concurrency.
     let cmd = set_param ''concurrency'' (PInt concurrency) cmd in
     pseq nextToken (
     pbind parseNumber (\<lambda>iterations.
     let cmd = set_param ''iterations'' (PInt iterations) cmd in
     pseq nextToken (
     pbind parseUserStatement (\<lambda>nestedCmd.
     let cmd = set_param ''command'' (PCommand nestedCmd) cmd in
     pret cmd)))))))"

definition parseAPIEnable :: "command parse" where
  "parseAPIEnable =
     (pseq nextToken (
     pif (\<lambda>p. cur_type p \<noteq> TokenModel) (
       perr (\<lambda>p. ''expected MODEL'')) (
     pseq nextToken (
     pbind parseQuotedString (\<lambda>modelName.
     pseq nextToken (
     pif (\<lambda>p. cur_type p \<noteq> TokenFrom) (
       perr (\<lambda>p. ''expected FROM'')) (
     pseq nextToken (
     pbind parseQuotedString (\<lambda>modelProvider.
     pseq nextToken (
     pbind parseQuotedString (\<lambda>modelInstance.
     pseq nextToken (
     pseq opt_semicolon (
     let cmd = NewCommand ''enable_model'' in
     let cmd = set_param ''model_name'' (PStr modelName) cmd in
     let cmd = set_param ''instance_name'' (PStr modelInstance) cmd in
     let cmd = set_param ''provider_name'' (PStr modelProvider) cmd in
     pret cmd)))))))))))))"

definition parseAPIDisable :: "command parse" where
  "parseAPIDisable =
     (pseq nextToken (
     pif (\<lambda>p. cur_type p \<noteq> TokenModel) (
       perr (\<lambda>p. ''expected MODEL'')) (
     pseq nextToken (
     pbind parseQuotedString (\<lambda>modelName.
     pseq nextToken (
     pif (\<lambda>p. cur_type p \<noteq> TokenFrom) (
       perr (\<lambda>p. ''expected FROM'')) (
     pseq nextToken (
     pbind parseQuotedString (\<lambda>modelProvider.
     pseq nextToken (
     pbind parseQuotedString (\<lambda>modelInstance.
     pseq nextToken (
     pseq opt_semicolon (
     let cmd = NewCommand ''disable_model'' in
     let cmd = set_param ''model_name'' (PStr modelName) cmd in
     let cmd = set_param ''instance_name'' (PStr modelInstance) cmd in
     let cmd = set_param ''provider_name'' (PStr modelProvider) cmd in
     pret cmd)))))))))))))"

definition parseBool :: "bool parse" where
  "parseBool =
     (pif (\<lambda>p. (ToLower (cur_value p)) = ''true'') (
       pseq nextToken (
       pret True)) (
     pif (\<lambda>p. (ToLower (cur_value p)) = ''false'') (
       pseq nextToken (
       pret False)) (
     perr (\<lambda>p. ''expected true or false, got '' @ quote (cur_value p)))))"

definition completions_option :: "string \<Rightarrow> command \<Rightarrow> command parse" where
  "completions_option name cmd =
     (pbind (pif (\<lambda>_. name \<in> {''chat_id'', ''session'', ''llm'', ''system''}) (
         pbind (pwrap (\<lambda>err p. ''CHAT COMPLETIONS '' @ name @ '': expected quoted string, got '' @ cur_value p) parseQuotedString) (\<lambda>v.
         let cmd = set_param name (PStr v) cmd in
         pseq nextToken (
         let cmd = markSet cmd name in
         pret cmd))) (
       pif (\<lambda>_. name \<in> {''temperature'', ''top_p'', ''frequency_penalty'', ''presence_penalty''}) (
         pbind (pwrap (\<lambda>err p. ''CHAT COMPLETIONS '' @ name @ '': expected number, got '' @ cur_value p) parseFloat) (\<lambda>v.
         let cmd = set_param name (PFloat v) cmd in
         pseq nextToken (
         let cmd = markSet cmd name in
         pret cmd))) (
       pif (\<lambda>_. name = ''max_tokens'') (
         pbind (pwrap (\<lambda>err p. ''CHAT COMPLETIONS max_tokens: expected integer, got '' @ cur_value p) parseNumber) (\<lambda>v.
         let cmd = set_param ''max_tokens'' (PInt v) cmd in
         pseq nextToken (
         let cmd = markSet cmd ''max_tokens'' in
         pret cmd))) (
       pif (\<lambda>_. name \<in> {''stream'', ''pass_all_history'', ''legacy''}) (
         pbind (pwrap (\<lambda>err p. ''CHAT COMPLETIONS '' @ name @ '': expected true|false, got '' @ cur_value p) parseBool) (\<lambda>v.
         let cmd = set_param name (PBool v) cmd in
         let cmd = markSet cmd name in
         pret cmd)) (
       pif (\<lambda>_. name = ''history'') (
         pbind (pwrap (\<lambda>err p. ''CHAT COMPLETIONS history: expected quoted string, got '' @ cur_value p) parseQuotedString) (\<lambda>raw.
         let cmd = set_param ''history_raw'' (PStr raw) cmd in
         pseq nextToken (
         pret cmd))) (
       pif (\<lambda>_. name = ''history_delimiter'') (
         pbind (pwrap (\<lambda>err p. ''CHAT COMPLETIONS history_delimiter: expected quoted string, got '' @ cur_value p) parseQuotedString) (\<lambda>v.
         let cmd = set_param ''history_delimiter'' (PStr v) cmd in
         pseq nextToken (
         pret cmd))) (
       perr (\<lambda>p. ''CHAT COMPLETIONS: unknown option '' @ quote name @ '' (valid: chat_id, session, llm, system, history, history_delimiter, temperature, max_tokens, stream, top_p, frequency_penalty, presence_penalty, pass_all_history, legacy)'')))))))) (\<lambda>cmd.
     pret cmd))"

definition parseChatCompletionsBody :: "command parse" where
  "parseChatCompletionsBody =
     (pif (\<lambda>p. cur_type p = TokenDash) (
       let dashCount = (0 :: int) in
       pbind (ploop (\<lambda>dashCount.
           pif (\<lambda>p. cur_type p = TokenDash) (
           let dashCount = dashCount + 1 in
           pseq nextToken (
           pret (Inl dashCount))) (
           pret (Inr dashCount))) dashCount) (\<lambda>dashCount.
       pif (\<lambda>p. (0 < dashCount) \<and> (cur_type p = TokenIdentifier)) (
         pif (\<lambda>p. (ToLower (cur_value p)) \<in> {''h'', ''help''}) (
           pret (NewCommand ''chat completions help'')) (
         perr (\<lambda>p. ''CHAT COMPLETIONS: only -h/--help takes no args; otherwise expected question''))) (
       perr (\<lambda>p. ''CHAT COMPLETIONS: only -h/--help takes no args; otherwise expected question'')))) (
     let cmd = NewCommand ''chat completions'' in
     let cmd = set_param ''chat_id'' (PStr []) cmd in
     let cmd = set_param ''temperature'' (PFloat (Fin 0 0)) cmd in
     let cmd = set_param ''max_tokens'' (PInt 0) cmd in
     let cmd = set_param ''stream'' (PBool False) cmd in
     let cmd = set_param ''_set'' (PFlags []) cmd in
     pbind (pwrap (\<lambda>err p. ''CHAT COMPLETIONS: expected question: '' @ err) parseQuotedString) (\<lambda>question.
     let cmd = set_param ''question'' (PStr question) cmd in
     pseq nextToken (
     pbind (ploop (\<lambda>cmd.
         pif (\<lambda>p. cur_type p = TokenSemicolon) (
           pseq nextToken (
           pret (Inr cmd))) (
         pif (\<lambda>p. cur_type p = TokenEOF) (
           pret (Inr cmd)) (
         pif (\<lambda>p. cur_type p \<in> {TokenIdentifier, TokenQuotedString}) (
           pget (\<lambda>p. cur_value p) (\<lambda>name.
           pbind (pif (\<lambda>p. cur_type p = TokenQuotedString) (
               let name = trim_quotes name in
               pret name) (
             pret name)) (\<lambda>name.
           pseq nextToken (
           pbind (completions_option name cmd) (\<lambda>cmd.
           pret (Inl cmd)))))) (
         pif (\<lambda>p. \<not> (isKeyword (cur_type p))) (
           perr (\<lambda>p. ''CHAT COMPLETIONS: unexpected token '' @ quote (cur_value p) @ '' in option list (valid options: chat_id, session, llm, system, history, history_delimiter, temperature, max_tokens, stream, top_p, frequency_penalty, presence_penalty, pass_all_history, legacy)'')) (
         pget (\<lambda>p. cur_value p) (\<lambda>name.
         pseq nextToken (
         pbind (completions_option name cmd) (\<lambda>cmd.
         pret (Inl cmd))))))))) cmd) (\<lambda>cmd.
     pret cmd)))))"

definition parseAPIChat :: "command parse" where
  "parseAPIChat =
     (pseq nextToken (
     pif (\<lambda>p. (cur_type p = TokenIdentifier) \<and> ((EqualFold (cur_value p) ''completion'') \<or> (EqualFold (cur_value p) ''completions''))) (
       pseq nextToken (
       parseChatCompletionsBody)) (
     let modelNameOrID = ([] :: string) in
     let messages = ([] :: string list) in
     let images = ([] :: string list) in
     let videos = ([] :: string list) in
     let audios = ([] :: string list) in
     let files = ([] :: string list) in
     let effort = ''default'' in
     let verbosity = ''low'' in
     pbind (ploop (\<lambda>(modelNameOrID, messages, images, videos, audios, files, effort, verbosity).
         pif (\<lambda>p. cur_type p = TokenWith) (
           pseq nextToken (
           pif (\<lambda>_. modelNameOrID \<noteq> []) (
             perr (\<lambda>p. ''model name or ID is already set'')) (
           pbind parseQuotedString (\<lambda>modelNameOrID.
           pseq nextToken (
           pret (Inl (modelNameOrID, messages, images, videos, audios, files, effort, verbosity))))))) (
         pif (\<lambda>p. cur_type p = TokenMessage) (
           pseq nextToken (
           pif (\<lambda>_. int (length messages) \<noteq> 0) (
             perr (\<lambda>p. ''message is already set'')) (
           pbind (ploop (\<lambda>messages.
               pif (\<lambda>p. cur_type p \<noteq> TokenQuotedString) (
                 pret (Inr messages)) (
               let message = ([] :: string) in
               pbind parseQuotedString (\<lambda>message.
               let message = TrimSpace message in
               let messages = messages @ [message] in
               pseq nextToken (
               pret (Inl messages))))) messages) (\<lambda>messages.
           pret (Inl (modelNameOrID, messages, images, videos, audios, files, effort, verbosity)))))) (
         pif (\<lambda>p. cur_type p = TokenImage) (
           pseq nextToken (
           pif (\<lambda>_. int (length images) \<noteq> 0) (
             perr (\<lambda>p. ''image is already set'')) (
           pbind (ploop (\<lambda>images.
               pif (\<lambda>p. cur_type p \<noteq> TokenQuotedString) (
                 pret (Inr images)) (
               let image = ([] :: string) in
               pbind parseQuotedString (\<lambda>image.
               let images = images @ [image] in
               pseq nextToken (
               pret (Inl images))))) images) (\<lambda>images.
           pret (Inl (modelNameOrID, messages, images, videos, audios, files, effort, verbosity)))))) (
         pif (\<lambda>p. cur_type p = TokenVideo) (
           pseq nextToken (
           pif (\<lambda>_. int (length videos) \<noteq> 0) (
             perr (\<lambda>p. ''video is already set'')) (
           pbind (ploop (\<lambda>videos.
               pif (\<lambda>p. cur_type p \<noteq> TokenQuotedString) (
                 pret (Inr videos)) (
               let video = ([] :: string) in
               pbind parseQuotedString (\<lambda>video.
               let videos = videos @ [video] in
               pseq nextToken (
               pret (Inl videos))))) videos) (\<lambda>videos.
           pret (Inl (modelNameOrID, messages, images, videos, audios, files, effort, verbosity)))))) (
         pif (\<lambda>p. cur_type p = TokenAudio) (
           pseq nextToken (
           pif (\<lambda>_. int (length audios) \<noteq> 0) (
             perr (\<lambda>p. ''video is already set'')) (
           pbind (ploop (\<lambda>audios.
               pif (\<lambda>p. cur_type p \<noteq> TokenQuotedString) (
                 pret (Inr audios)) (
               let audio = ([] :: string) in
               pbind parseQuotedString (\<lambda>audio.
               let audios = audios @ [audio] in
               pseq nextToken (
               pret (Inl audios))))) audios) (\<lambda>audios.
           pret (Inl (modelNameOrID, messages, images, videos, audios, files, effort, verbosity)))))) (
         pif (\<lambda>p. cur_type p = TokenFile) (
           pseq nextToken (
           pif (\<lambda>_. int (length files) \<noteq> 0) (
             perr (\<lambda>p. ''video is already set'')) (
           pbind (ploop (\<lambda>files.
               pif (\<lambda>p. cur_type p \<noteq> TokenQuotedString) (
                 pret (Inr files)) (
               let file = ([] :: string) in
               pbind parseQuotedString (\<lambda>file.
               let files = files @ [file] in
               pseq nextToken (
               pret (Inl files))))) files) (\<lambda>files.
           pret (Inl (modelNameOrID, messages, images, videos, audios, files, effort, verbosity)))))) (
         pif (\<lambda>p. cur_type p = TokenEffort) (
           pseq nextToken (
           pbind (pif (\<lambda>p. cur_type p = TokenNone) (
               let effort = ''none'' in
               pret effort) (
             pif (\<lambda>p. cur_type p = TokenMinimal) (
               let effort = ''minimal'' in
               pret effort) (
             pif (\<lambda>p. cur_type p = TokenLow) (
               let effort = ''low'' in
               pret effort) (
             pif (\<lambda>p. cur_type p = TokenMedium) (
               let effort = ''medium'' in
               pret effort) (
             pif (\<lambda>p. cur_type p = TokenHigh) (
               let effort = ''high'' in
               pret effort) (
             pif (\<lambda>p. cur_type p = TokenMax) (
               let effort = ''max'' in
               pret effort) (
             perr (\<lambda>p. ''invalid effort level'')))))))) (\<lambda>effort.
           pseq nextToken (
           pret (Inr (modelNameOrID, messages, images, videos, audios, files, effort, verbosity)))))) (
         pif (\<lambda>p. cur_type p = TokenVerbosity) (
           pseq nextToken (
           pbind (pif (\<lambda>p. cur_type p = TokenLow) (
               let verbosity = ''low'' in
               pret verbosity) (
             pif (\<lambda>p. cur_type p = TokenMedium) (
               let verbosity = ''median'' in
               pret verbosity) (
             pif (\<lambda>p. cur_type p = TokenHigh) (
               let verbosity = ''high'' in
               pret verbosity) (
             perr (\<lambda>p. ''invalid verbosity level''))))) (\<lambda>verbosity.
           pseq nextToken (
           pret (Inr (modelNameOrID, messages, images, videos, audios, files, effort, verbosity)))))) (
         pif (\<lambda>p. cur_type p = TokenSemicolon) (
           pseq nextToken (
           pret (Inr (modelNameOrID, messages, images, videos, audios, files, effort, verbosity)))) (
         pret (Inr (modelNameOrID, messages, images, videos, audios, files, effort, verbosity)))))))))))) (modelNameOrID, messages, images, videos, audios, files, effort, verbosity)) (\<lambda>(modelNameOrID, messages, images, videos, audios, files, effort, verbosity).
     let cmd = NewCommand ''api_chat_to_model'' in
     pbind (pif (\<lambda>_. modelNameOrID \<noteq> []) (
         pbind (pif (\<lambda>_. IsCompositeModelName modelNameOrID) (
             let cmd = set_param ''composite_model_name'' (PStr modelNameOrID) cmd in
             pret cmd) (
           pif (\<lambda>_. IsUUID modelNameOrID) (
             let cmd = set_param ''model_id'' (PStr modelNameOrID) cmd in
             pret cmd) (
           perr (\<lambda>p. ''invalid format of model name or ID: '' @ modelNameOrID)))) (\<lambda>cmd.
         pret cmd)) (
       pret cmd)) (\<lambda>cmd.
     let cmd = set_param ''messages'' (PStrs messages) cmd in
     let cmd = set_param ''images'' (PStrs images) cmd in
     let cmd = set_param ''videos'' (PStrs videos) cmd in
     let cmd = set_param ''audios'' (PStrs audios) cmd in
     let cmd = set_param ''files'' (PStrs files) cmd in
     let cmd = set_param ''thinking'' (PBool False) cmd in
     let cmd = set_param ''stream'' (PBool False) cmd in
     let cmd = set_param ''effort'' (PStr effort) cmd in
     let cmd = set_param ''verbosity'' (PStr verbosity) cmd in
     pret cmd)))))"

definition parseAPIThink :: "command parse" where
  "parseAPIThink =
     (pseq nextToken (
     pif (\<lambda>p. cur_type p \<noteq> TokenChat) (
       perr (\<lambda>p. ''expected CHAT after THINK'')) (
     pbind parseAPIChat (\<lambda>command.
     let command = set_param ''thinking'' (PBool True) command in
     pret command))))"

definition parseAPIASR :: "command parse" where
  "parseAPIASR =
     (pseq nextToken (
     pif (\<lambda>p. cur_type p \<noteq> TokenWith) (
       perr (\<lambda>p. ''expected WITH after ASR'')) (
     pseq nextToken (
     pbind parseQuotedString (\<lambda>modelNameOrID.
     pseq nextToken (
     pif (\<lambda>p. cur_type p \<noteq> TokenAudio) (
       perr (\<lambda>p. ''expected AUDIO to ASR'')) (
     pseq nextToken (
     pbind parseQuotedString (\<lambda>audioFile.
     pseq nextToken (
     let cmd = NewCommand ''asr_user_command'' in
     pbind (pif (\<lambda>_. IsCompositeModelName modelNameOrID) (
         let cmd = set_param ''composite_model_name'' (PStr modelNameOrID) cmd in
         pret cmd) (
       pif (\<lambda>_. IsUUID modelNameOrID) (
         let cmd = set_param ''model_id'' (PStr modelNameOrID) cmd in
         pret cmd) (
       perr (\<lambda>p. ''invalid format of model name or ID: '' @ modelNameOrID)))) (\<lambda>cmd.
     let cmd = set_param ''audio_file'' (PStr audioFile) cmd in
     pbind (ploop (\<lambda>cmd.
         pif (\<lambda>p. (cur_type p \<noteq> TokenEOF) \<and> (cur_type p \<noteq> TokenSemicolon)) (
         pif (\<lambda>p. cur_type p = TokenParam) (
           pseq nextToken (
           pif (\<lambda>p. cur_type p \<noteq> TokenQuotedString) (
             perr (\<lambda>p. ''expect quoted string after '' @ [CHR 0x27] @ ''param'' @ [CHR 0x27])) (
           pget (\<lambda>p. set_param ''param_str'' (PStr (trim_quotes (cur_value p))) cmd) (\<lambda>cmd.
           pseq nextToken (
           pret (Inl cmd)))))) (
         perr (\<lambda>p. ''unexpected token in asr command: '' @ cur_value p))) (
         pret (Inr cmd))) cmd) (\<lambda>cmd.
     pseq opt_semicolon (
     pret cmd)))))))))))))"

definition parseAPITTS :: "command parse" where
  "parseAPITTS =
     (pseq nextToken (
     let cmd = NewCommand ''tts_user_command'' in
     pif (\<lambda>p. cur_type p \<noteq> TokenWith) (
       perr (\<lambda>p. ''expect '' @ [CHR 0x27] @ ''with'' @ [CHR 0x27] @ '' after tts'')) (
     pseq nextToken (
     pif (\<lambda>p. (cur_type p \<noteq> TokenQuotedString) \<and> (cur_type p \<noteq> TokenIdentifier)) (
       perr (\<lambda>p. ''expect model name after '' @ [CHR 0x27] @ ''with'' @ [CHR 0x27])) (
     pget (\<lambda>p. (trim_quotes (cur_value p))) (\<lambda>modelNameOrID.
     pseq nextToken (
     pbind (pif (\<lambda>_. IsCompositeModelName modelNameOrID) (
         let cmd = set_param ''composite_model_name'' (PStr modelNameOrID) cmd in
         pret cmd) (
       pif (\<lambda>_. IsUUID modelNameOrID) (
         let cmd = set_param ''model_id'' (PStr modelNameOrID) cmd in
         pret cmd) (
       perr (\<lambda>p. ''invalid format of model name or ID: '' @ modelNameOrID)))) (\<lambda>cmd.
     pif (\<lambda>p. cur_type p \<noteq> TokenText) (
       perr (\<lambda>p. ''expect '' @ [CHR 0x27] @ ''text'' @ [CHR 0x27] @ '' parameter'')) (
     pseq nextToken (
     pif (\<lambda>p. cur_type p \<noteq> TokenQuotedString) (
       perr (\<lambda>p. ''expect quoted string after '' @ [CHR 0x27] @ ''text'' @ [CHR 0x27])) (
     pget (\<lambda>p. set_param ''text'' (PStr (trim_quotes (cur_value p))) cmd) (\<lambda>cmd.
     pseq nextToken (
     pbind (ploop (\<lambda>cmd.
         pif (\<lambda>p. (cur_type p \<noteq> TokenEOF) \<and> (cur_type p \<noteq> TokenSemicolon)) (
         pif (\<lambda>p. cur_type p = TokenPlay) (
           pseq nextToken (
           let cmd = set_param ''play'' (PBool True) cmd in
           pret (Inl cmd))) (
         pif (\<lambda>p. cur_type p = TokenParam) (
           pseq nextToken (
           pif (\<lambda>p. cur_type p \<noteq> TokenQuotedString) (
             perr (\<lambda>p. ''expect quoted string after '' @ [CHR 0x27] @ ''param'' @ [CHR 0x27])) (
           pget (\<lambda>p. set_param ''param_str'' (PStr (trim_quotes (cur_value p))) cmd) (\<lambda>cmd.
           pseq nextToken (
           pseq nextToken (
           pret (Inl cmd))))))) (
         pif (\<lambda>p. cur_type p = TokenSave) (
           pseq nextToken (
           pif (\<lambda>p. (cur_type p \<noteq> TokenQuotedString) \<and> (cur_type p \<noteq> TokenIdentifier)) (
             perr (\<lambda>p. ''expect directory path after '' @ [CHR 0x27] @ ''save'' @ [CHR 0x27])) (
           let cmd = set_param ''save'' (PBool True) cmd in
           pget (\<lambda>p. set_param ''save_path'' (PStr (trim_quotes (cur_value p))) cmd) (\<lambda>cmd.
           pseq nextToken (
           pret (Inl cmd)))))) (
         pif (\<lambda>p. cur_type p = TokenFormat) (
           pseq nextToken (
           pif (\<lambda>p. (cur_type p \<noteq> TokenQuotedString) \<and> (cur_type p \<noteq> TokenIdentifier)) (
             perr (\<lambda>p. ''expect format string (e.g. '' @ [CHR 0x27] @ ''wav'' @ [CHR 0x27] @ '') after '' @ [CHR 0x27] @ ''format'' @ [CHR 0x27])) (
           pget (\<lambda>p. set_param ''format'' (PStr (trim_quotes (cur_value p))) cmd) (\<lambda>cmd.
           pseq nextToken (
           pret (Inl cmd)))))) (
         perr (\<lambda>p. ''unexpected token: '' @ cur_value p)))))) (
         pret (Inr cmd))) cmd) (\<lambda>cmd.
     pseq opt_semicolon (
     pret cmd)))))))))))))))"

definition parseAPIStream :: "command parse" where
  "parseAPIStream =
     (pseq nextToken (
     pbind (pif (\<lambda>p. cur_type p = TokenChat) (
         pbind parseAPIChat (\<lambda>command.
         pret command)) (
       pif (\<lambda>p. cur_type p = TokenThink) (
         pbind parseAPIThink (\<lambda>command.
         pret command)) (
       pif (\<lambda>p. cur_type p = TokenASR) (
         pbind parseAPIASR (\<lambda>command.
         pret command)) (
       pif (\<lambda>p. cur_type p = TokenTTS) (
         pbind parseAPITTS (\<lambda>command.
         pret command)) (
       perr (\<lambda>p. ''expected CHAT, THINK, ASR, or TTS after STREAM'')))))) (\<lambda>command.
     let command = set_param ''stream'' (PBool True) command in
     pret command)))"

definition parseAPIEmbed :: "command parse" where
  "parseAPIEmbed =
     (pseq nextToken (
     pif (\<lambda>p. cur_type p \<noteq> TokenText) (
       perr (\<lambda>p. ''expected WITH after EMBED'')) (
     pseq nextToken (
     let texts = ([] :: string list) in
     pbind (ploop (\<lambda>texts.
         pif (\<lambda>p. cur_type p \<noteq> TokenQuotedString) (
           pret (Inr texts)) (
         pbind parseQuotedString (\<lambda>text.
         let text = TrimSpace text in
         let texts = texts @ [text] in
         pseq nextToken (
         pret (Inl texts))))) texts) (\<lambda>texts.
     pif (\<lambda>p. cur_type p \<noteq> TokenWith) (
       perr (\<lambda>p. ''expected WITH after EMBED'')) (
     pseq nextToken (
     pbind parseQuotedString (\<lambda>modelNameOrID.
     pseq nextToken (
     let dimension = (0 :: int) in
     pbind (pif (\<lambda>p. cur_type p = TokenDimension) (
         pseq nextToken (
         pif (\<lambda>p. cur_type p \<noteq> TokenInteger) (
           perr (\<lambda>p. ''expected integer after DIMENSION'')) (
         pbind parseNumber (\<lambda>dimension.
         pseq nextToken (
         pret dimension))))) (
       pret dimension)) (\<lambda>dimension.
     pseq opt_semicolon (
     pif (\<lambda>p. cur_type p \<noteq> TokenEOF) (
       perr (\<lambda>p. ''unexpected token after embed command: '' @ cur_value p)) (
     let cmd = NewCommand ''api_embed_user_text'' in
     pbind (pif (\<lambda>_. IsCompositeModelName modelNameOrID) (
         let cmd = set_param ''composite_model_name'' (PStr modelNameOrID) cmd in
         pret cmd) (
       pif (\<lambda>_. IsUUID modelNameOrID) (
         let cmd = set_param ''model_id'' (PStr modelNameOrID) cmd in
         pret cmd) (
       perr (\<lambda>p. ''invalid format of model name or ID: '' @ modelNameOrID)))) (\<lambda>cmd.
     let cmd = set_param ''texts'' (PStrs texts) cmd in
     pbind (pif (\<lambda>_. 0 < dimension) (
         let cmd = set_param ''dimension'' (PInt dimension) cmd in
         pret cmd) (
       pret cmd)) (\<lambda>cmd.
     pret cmd))))))))))))))"

definition parseAPIRerank :: "command parse" where
  "parseAPIRerank =
     (pseq nextToken (
     pif (\<lambda>p. cur_type p \<noteq> TokenQuery) (
       perr (\<lambda>p. ''expected WITH after EMBED'')) (
     pseq nextToken (
     pbind parseQuotedString (\<lambda>query.
     let query = TrimSpace query in
     pseq nextToken (
     pif (\<lambda>p. cur_type p \<noteq> TokenDocument) (
       perr (\<lambda>p. ''expected DOCUMENT after query'')) (
     pseq nextToken (
     let documents = ([] :: string list) in
     pbind (ploop (\<lambda>documents.
         pif (\<lambda>p. cur_type p \<noteq> TokenQuotedString) (
           pret (Inr documents)) (
         let document = ([] :: string) in
         pbind parseQuotedString (\<lambda>document.
         let document = TrimSpace document in
         let documents = documents @ [document] in
         pseq nextToken (
         pret (Inl documents))))) documents) (\<lambda>documents.
     pif (\<lambda>p. cur_type p \<noteq> TokenWith) (
       perr (\<lambda>p. ''expected WITH after EMBED'')) (
     pseq nextToken (
     pbind parseQuotedString (\<lambda>modelNameOrID.
     pseq nextToken (
     pif (\<lambda>p. cur_type p \<noteq> TokenTop) (
       perr (\<lambda>p. ''expected TOP after model'')) (
     pseq nextToken (
     pbind parseNumber (\<lambda>topN.
     pseq nextToken (
     let cmd = NewCommand ''api_rarank_user_document'' in
     pbind (pif (\<lambda>_. IsCompositeModelName modelNameOrID) (
         let cmd = set_param ''composite_model_name'' (PStr modelNameOrID) cmd in
         pret cmd) (
       pif (\<lambda>_. IsUUID modelNameOrID) (
         let cmd = set_param ''model_id'' (PStr modelNameOrID) cmd in
         pret cmd) (
       perr (\<lambda>p. ''invalid format of model name or ID: '' @ modelNameOrID)))) (\<lambda>cmd.
     let cmd = set_param ''query'' (PStr query) cmd in
     let cmd = set_param ''documents'' (PStrs documents) cmd in
     let cmd = set_param ''top_n'' (PInt topN) cmd in
     pret cmd))))))))))))))))))"

definition parseAPIOCR :: "command parse" where
  "parseAPIOCR =
     (pseq nextToken (
     pif (\<lambda>p. cur_type p \<noteq> TokenWith) (
       perr (\<lambda>p. ''expected WITH after OCR'')) (
     pseq nextToken (
     pbind parseQuotedString (\<lambda>modelNameOrID.
     pseq nextToken (
     let cmd = NewCommand ''ocr_user_command'' in
     pbind (pif (\<lambda>p. cur_type p = TokenFile) (
         pseq nextToken (
         let file = ([] :: string) in
         pbind parseQuotedString (\<lambda>file.
         let cmd = set_param ''file'' (PStr file) cmd in
         pseq nextToken (
         pret cmd)))) (
       pif (\<lambda>p. cur_type p = TokenURL) (
         pseq nextToken (
         let url = ([] :: string) in
         pbind parseQuotedString (\<lambda>url.
         let cmd = set_param ''url'' (PStr url) cmd in
         pseq nextToken (
         pret cmd)))) (
       perr (\<lambda>p. ''expected FILE or URL'')))) (\<lambda>cmd.
     pbind (pif (\<lambda>_. IsCompositeModelName modelNameOrID) (
         let cmd = set_param ''composite_model_name'' (PStr modelNameOrID) cmd in
         pret cmd) (
       pif (\<lambda>_. IsUUID modelNameOrID) (
         let cmd = set_param ''model_id'' (PStr modelNameOrID) cmd in
         pret cmd) (
       perr (\<lambda>p. ''invalid format of model name or ID: '' @ modelNameOrID)))) (\<lambda>cmd.
     pseq opt_semicolon (
     pret cmd)))))))))"

definition parseCheckInstanceCommand :: "command parse" where
  "parseCheckInstanceCommand =
     (pif (\<lambda>p. cur_type p \<noteq> TokenInstance) (
       perr (\<lambda>p. ''expected INSTANCE after CHECK'')) (
     pseq nextToken (
     pif (\<lambda>p. cur_type p \<noteq> TokenQuotedString) (
       perr (\<lambda>p. ''expected instance name after INSTANCE'')) (
     pget (\<lambda>p. cur_value p) (\<lambda>instanceName.
     pseq nextToken (
     pif (\<lambda>p. cur_type p \<noteq> TokenFrom) (
       perr (\<lambda>p. ''expected FROM after instance name'')) (
     pseq nextToken (
     pif (\<lambda>p. cur_type p \<noteq> TokenQuotedString) (
       perr (\<lambda>p. ''expected provider name after FROM'')) (
     pget (\<lambda>p. cur_value p) (\<lambda>providerName.
     pseq nextToken (
     pseq opt_semicolon (
     let cmd = NewCommand ''check_provider_connection'' in
     let cmd = set_param ''provider_name'' (PStr providerName) cmd in
     let cmd = set_param ''instance_name'' (PStr instanceName) cmd in
     pret cmd))))))))))))"

definition parseCheckProviderByKeyCommand :: "command parse" where
  "parseCheckProviderByKeyCommand =
     (pif (\<lambda>p. cur_type p \<noteq> TokenProvider) (
       perr (\<lambda>p. ''expected PROVIDER after CHECK'')) (
     pseq nextToken (
     pif (\<lambda>p. cur_type p \<noteq> TokenQuotedString) (
       perr (\<lambda>p. ''expected provider name after PROVIDER'')) (
     pget (\<lambda>p. cur_value p) (\<lambda>providerName.
     pseq nextToken (
     pif (\<lambda>p. cur_type p \<noteq> TokenRegion) (
       perr (\<lambda>p. ''expected REGION after provider name'')) (
     pseq nextToken (
     pif (\<lambda>p. cur_type p \<noteq> TokenQuotedString) (
       perr (\<lambda>p. ''expected region name after REGION'')) (
     pget (\<lambda>p. cur_value p) (\<lambda>regionName.
     pseq nextToken (
     pif (\<lambda>p. cur_type p \<noteq> TokenKey) (
       perr (\<lambda>p. ''expected KEY after region name'')) (
     pseq nextToken (
     pif (\<lambda>p. cur_type p \<noteq> TokenQuotedString) (
       perr (\<lambda>p. ''expected API key after KEY'')) (
     pget (\<lambda>p. cur_value p) (\<lambda>apiKey.
     pseq nextToken (
     let baseURL = ([] :: string) in
     pbind (pif (\<lambda>p. cur_type p = TokenURL) (
         pseq nextToken (
         pif (\<lambda>p. cur_type p \<noteq> TokenQuotedString) (
           perr (\<lambda>p. ''expected base URL after URL'')) (
         pget (\<lambda>p. cur_value p) (\<lambda>baseURL.
         pseq nextToken (
         pret baseURL))))) (
       pret baseURL)) (\<lambda>baseURL.
     pseq opt_semicolon (
     pif (\<lambda>p. cur_type p \<noteq> TokenEOF) (
       perr (\<lambda>p. ''unexpected token: '' @ cur_value p)) (
     let cmd = NewCommand ''check_provider_with_key'' in
     let cmd = set_param ''provider_name'' (PStr providerName) cmd in
     let cmd = set_param ''region'' (PStr regionName) cmd in
     let cmd = set_param ''api_key'' (PStr apiKey) cmd in
     pbind (pif (\<lambda>_. baseURL \<noteq> []) (
         let cmd = set_param ''base_url'' (PStr baseURL) cmd in
         pret cmd) (
       pret cmd)) (\<lambda>cmd.
     pret cmd))))))))))))))))))))"

definition parseAPICheck :: "command parse" where
  "parseAPICheck =
     (pseq nextToken (
     pif (\<lambda>p. cur_type p = TokenInstance) (
       parseCheckInstanceCommand) (
     pif (\<lambda>p. cur_type p = TokenProvider) (
       parseCheckProviderByKeyCommand) (
     perr (\<lambda>p. ''expected INSTANCE or PROVIDER after CHECK'')))))"

definition parseUserStartIngestion :: "command parse" where
  "parseUserStartIngestion =
     (pseq nextToken (
     pif (\<lambda>p. cur_type p \<noteq> TokenIngestion) (
       perr (\<lambda>p. ''expect INGESTION'')) (
     pseq nextToken (
     pbind parseQuotedString (\<lambda>documentID.
     pseq nextToken (
     pif (\<lambda>p. cur_type p \<noteq> TokenFrom) (
       perr (\<lambda>p. ''expect FROM'')) (
     pseq nextToken (
     pbind parseQuotedString (\<lambda>datasetID.
     let cmd = NewCommand ''api_start_ingestion'' in
     let cmd = set_param ''document_id'' (PStr documentID) cmd in
     let cmd = set_param ''dataset_id'' (PStr datasetID) cmd in
     pseq nextToken (
     pseq opt_semicolon (
     pret cmd)))))))))))"

definition parseUserStopIngestion :: "command parse" where
  "parseUserStopIngestion =
     (pseq nextToken (
     pif (\<lambda>p. cur_type p \<noteq> TokenIngestion) (
       perr (\<lambda>p. ''expect INGESTION'')) (
     pseq nextToken (
     pif (\<lambda>p. cur_type p \<noteq> TokenTasks) (
       perr (\<lambda>p. ''expect TASKS'')) (
     pseq nextToken (
     pbind parseQuotedString (\<lambda>taskStr.
     let tasks = split_on (CHR '' '') taskStr in
     let cmd = NewCommand ''api_stop_ingestion'' in
     let cmd = set_param ''tasks'' (PStrs tasks) cmd in
     pseq nextToken (
     pseq opt_semicolon (
     pret cmd)))))))))"

definition parseAPISaveConfig :: "command parse" where
  "parseAPISaveConfig =
     (pseq nextToken (
     pif (\<lambda>p. cur_type p \<noteq> TokenAs) (
       perr (\<lambda>p. ''expected AS after CONFIG'')) (
     pseq nextToken (
     pbind parseQuotedString (\<lambda>path.
     let cmd = NewCommand ''api_save_config_command'' in
     let cmd = set_param ''path'' (PStr path) cmd in
     pseq opt_semicolon (
     pret cmd))))))"

definition parseAPISave :: "command parse" where
  "parseAPISave =
     (pseq nextToken (
     pif (\<lambda>p. cur_type p = TokenConfig) (
       parseAPISaveConfig) (
     perr (\<lambda>p. ''unknown ADD target: '' @ cur_value p))))"

definition parseAPIUseModel :: "command parse" where
  "parseAPIUseModel =
     (pseq nextToken (
     pbind (pwrap (\<lambda>err p. ''expected model identifier in format '' @ [CHR 0x27] @ ''model@instance@provider'' @ [CHR 0x27] @ '': '' @ err) parseQuotedString) (\<lambda>modelNameOrID.
     pseq nextToken (
     pseq opt_semicolon (
     let cmd = NewCommand ''api_use_model'' in
     pbind (pif (\<lambda>_. IsCompositeModelName modelNameOrID) (
         let cmd = set_param ''composite_model_name'' (PStr modelNameOrID) cmd in
         pret cmd) (
       pif (\<lambda>_. IsUUID modelNameOrID) (
         let cmd = set_param ''model_id'' (PStr modelNameOrID) cmd in
         pret cmd) (
       perr (\<lambda>p. ''invalid format of model name or ID: '' @ modelNameOrID)))) (\<lambda>cmd.
     pret cmd))))))"

definition parseAPIUseAPIServer :: "command parse" where
  "parseAPIUseAPIServer =
     (pseq nextToken (
     pbind parseQuotedString (\<lambda>serverName.
     pseq nextToken (
     let cmd = NewCommand ''api_use_api_server'' in
     let cmd = set_param ''server_name'' (PStr serverName) cmd in
     pseq opt_semicolon (
     pret cmd)))))"

definition parseAPIUseAdminServer :: "command parse" where
  "parseAPIUseAdminServer =
     (pseq nextToken (
     let cmd = NewCommand ''api_use_admin_server'' in
     pseq opt_semicolon (
     pret cmd)))"

definition parseAPIUseCommands :: "command parse" where
  "parseAPIUseCommands =
     (pseq nextToken (
     pif (\<lambda>p. cur_type p = TokenModel) (
       parseAPIUseModel) (
     pif (\<lambda>p. cur_type p = TokenAPI) (
       parseAPIUseAPIServer) (
     pif (\<lambda>p. cur_type p = TokenAdmin) (
       parseAPIUseAdminServer) (
     perr (\<lambda>p. ''expected MODEL or SKILL after USE''))))))"

definition parseAPIRemoveTask :: "command parse" where
  "parseAPIRemoveTask =
     (pseq nextToken (
     pif (\<lambda>p. cur_type p \<noteq> TokenTasks) (
       perr (\<lambda>p. ''expected TASKS'')) (
     pseq nextToken (
     pbind parseQuotedString (\<lambda>taskStr.
     let cmd = NewCommand ''api_remove_task'' in
     let tasks = split_on (CHR '' '') taskStr in
     let cmd = set_param ''tasks'' (PStrs tasks) cmd in
     pseq opt_semicolon (
     pret cmd))))))"

definition parseAPIRemove :: "command parse" where
  "parseAPIRemove =
     (pseq nextToken (
     pif (\<lambda>p. cur_type p = TokenIngestion) (
       parseAPIRemoveTask) (
     pif (\<lambda>p. cur_type p = TokenTag) (
       parseDevRemoveTags) (
     pif (\<lambda>p. cur_type p \<in> {TokenChunks, TokenAll}) (
       parseDevRemoveChunk) (
     perr (\<lambda>p. ''unknown REMOVE target: '' @ cur_value p))))))"

text \<open>\<open>js\<close> is \<open>json.Unmarshal\<close> into an interface: the text of its error, if there is one.\<close>

definition parseJSONLiteral :: "(string \<Rightarrow> string option) \<Rightarrow> string parse" where
  "parseJSONLiteral js =
     (pif (\<lambda>p. cur_type p \<noteq> TokenQuotedString) (
       perr (\<lambda>p. ''expected JSON literal in single/double quotes, got '' @ cur_value p)) (
     pget cur_value (\<lambda>raw.
     case js raw of
       Some e \<Rightarrow> perr (\<lambda>p. ''invalid JSON literal '' @ quote raw @ '': '' @ e)
     | None \<Rightarrow> pret raw)))"

definition openai_option :: "(string \<Rightarrow> string option) \<Rightarrow> string \<Rightarrow> command \<Rightarrow> command parse" where
  "openai_option js name cmd =
     (pbind (pif (\<lambda>_. name \<in> {''model'', ''system''}) (
         pbind (pwrap (\<lambda>err p. ''OPENAI_CHAT '' @ name @ '': expected quoted string, got '' @ cur_value p) parseQuotedString) (\<lambda>v.
         let cmd = set_param name (PStr v) cmd in
         pseq nextToken (
         pret cmd))) (
       pif (\<lambda>_. name \<in> {''temperature'', ''top_p'', ''frequency_penalty'', ''presence_penalty''}) (
         pbind (pwrap (\<lambda>err p. ''OPENAI_CHAT '' @ name @ '': expected number, got '' @ cur_value p) parseFloat) (\<lambda>v.
         let cmd = set_param name (PFloat v) cmd in
         pseq nextToken (
         pret cmd))) (
       pif (\<lambda>_. name = ''max_tokens'') (
         pbind (pwrap (\<lambda>err p. ''OPENAI_CHAT max_tokens: expected integer, got '' @ cur_value p) parseNumber) (\<lambda>v.
         let cmd = set_param ''max_tokens'' (PInt v) cmd in
         pseq nextToken (
         pret cmd))) (
       pif (\<lambda>_. name = ''stream'') (
         pbind (pwrap (\<lambda>err p. ''OPENAI_CHAT '' @ name @ '': expected true|false, got '' @ cur_value p) parseBool) (\<lambda>v.
         let cmd = set_param name (PBool v) cmd in
         pret cmd)) (
       pif (\<lambda>_. name = ''extra_body'') (
         pbind (pwrap (\<lambda>err p. ''OPENAI_CHAT '' @ name @ '': '' @ err) (parseJSONLiteral js)) (\<lambda>raw.
         let cmd = set_param name (PStr raw) cmd in
         pseq nextToken (
         pret cmd))) (
       pif (\<lambda>_. name = ''history'') (
         pbind (pwrap (\<lambda>err p. ''OPENAI_CHAT history: expected quoted string, got '' @ cur_value p) parseQuotedString) (\<lambda>raw.
         let cmd = set_param ''history_raw'' (PStr raw) cmd in
         pseq nextToken (
         pret cmd))) (
       pif (\<lambda>_. name = ''history_delimiter'') (
         pbind (pwrap (\<lambda>err p. ''OPENAI_CHAT history_delimiter: expected quoted string, got '' @ cur_value p) parseQuotedString) (\<lambda>v.
         let cmd = set_param ''history_delimiter'' (PStr v) cmd in
         pseq nextToken (
         pret cmd))) (
       perr (\<lambda>p. ''OPENAI_CHAT: unknown option '' @ quote name @ '' (valid: model, system, history, history_delimiter, temperature, max_tokens, stream, top_p, frequency_penalty, presence_penalty, extra_body)''))))))))) (\<lambda>cmd.
     pret cmd))"

definition parseOpenaiChat :: "(string \<Rightarrow> string option) \<Rightarrow> command parse" where
  "parseOpenaiChat js =
     (pseq nextToken (
     pif (\<lambda>p. cur_type p = TokenDash) (
       let dashCount = (0 :: int) in
       pbind (ploop (\<lambda>dashCount.
           pif (\<lambda>p. cur_type p = TokenDash) (
           let dashCount = dashCount + 1 in
           pseq nextToken (
           pret (Inl dashCount))) (
           pret (Inr dashCount))) dashCount) (\<lambda>dashCount.
       pif (\<lambda>p. (0 < dashCount) \<and> (cur_type p = TokenIdentifier)) (
         pif (\<lambda>p. (ToLower (cur_value p)) \<in> {''h'', ''help''}) (
           pret (NewCommand ''openai_chat_help'')) (
         perr (\<lambda>p. ''OPENAI_CHAT: only -h/--help takes no args; otherwise expected chat_id and message''))) (
       perr (\<lambda>p. ''OPENAI_CHAT: only -h/--help takes no args; otherwise expected chat_id and message'')))) (
     let cmd = NewCommand ''api_openai_chat'' in
     let cmd = set_param ''model'' (PStr ''model'') cmd in
     let cmd = set_param ''temperature'' (PFloat (Fin 0 0)) cmd in
     let cmd = set_param ''max_tokens'' (PInt 0) cmd in
     let cmd = set_param ''stream'' (PBool False) cmd in
     pbind (pwrap (\<lambda>err p. ''OPENAI_CHAT: expected chat_id as first argument: '' @ err) parseQuotedString) (\<lambda>chatID.
     let cmd = set_param ''chat_id'' (PStr chatID) cmd in
     pseq nextToken (
     pbind (pwrap (\<lambda>err p. ''OPENAI_CHAT: expected message as second argument: '' @ err) parseQuotedString) (\<lambda>message.
     let cmd = set_param ''message'' (PStr message) cmd in
     pseq nextToken (
     pbind (ploop (\<lambda>cmd.
         pif (\<lambda>p. cur_type p = TokenSemicolon) (
           pseq nextToken (
           pret (Inr cmd))) (
         pif (\<lambda>p. cur_type p = TokenEOF) (
           pret (Inr cmd)) (
         pif (\<lambda>p. cur_type p \<in> {TokenIdentifier, TokenQuotedString}) (
           pget (\<lambda>p. cur_value p) (\<lambda>name.
           pbind (pif (\<lambda>p. cur_type p = TokenQuotedString) (
               let name = trim_quotes name in
               pret name) (
             pret name)) (\<lambda>name.
           pseq nextToken (
           pbind (openai_option js name cmd) (\<lambda>cmd.
           pret (Inl cmd)))))) (
         pif (\<lambda>p. \<not> (isKeyword (cur_type p))) (
           perr (\<lambda>p. ''OPENAI_CHAT: unexpected token '' @ quote (cur_value p) @ '' in option list (valid options: model, system, history, history_delimiter, temperature, max_tokens, stream, top_p, frequency_penalty, presence_penalty, extra_body)'')) (
         pget (\<lambda>p. cur_value p) (\<lambda>name.
         pseq nextToken (
         pbind (openai_option js name cmd) (\<lambda>cmd.
         pret (Inl cmd))))))))) cmd) (\<lambda>cmd.
     pret cmd))))))))"

end
