(* ===== verification/CliAdmin1.thy ===== *)
theory CliAdmin1
  imports CliUser3
begin

text \<open>
  Administration commands, \<open>cli/admin_parser.go\<close>, first part. Each definition
  follows the statements of the function of the same name.
\<close>

definition parseAdminLoginUser :: "command parse" where
  "parseAdminLoginUser =
     (let cmd = NewCommand ''admin_login_user'' in
     pseq nextToken (
     pif (\<lambda>p. cur_type p \<noteq> TokenAdmin) (
       perr (\<lambda>p. ''expected ADMIN after LOGIN'')) (
     pseq nextToken (
     pbind parseQuotedString (\<lambda>email.
     let cmd = set_param ''email'' (PStr email) cmd in
     pseq nextToken (
     pbind (pif (\<lambda>p. cur_type p = TokenPassword) (
         pseq nextToken (
         let password = ([] :: string) in
         pbind parseQuotedString (\<lambda>password.
         let cmd = set_param ''password'' (PStr password) cmd in
         pseq nextToken (
         pret cmd)))) (
       pret cmd)) (\<lambda>cmd.
     pseq opt_semicolon (
     pret cmd))))))))"

definition parseAdminLogout :: "command parse" where
  "parseAdminLogout =
     (let cmd = NewCommand ''admin_logout'' in
     pseq nextToken (
     pseq opt_semicolon (
     pret cmd)))"

definition parseAdminPingServer :: "command parse" where
  "parseAdminPingServer =
     (let cmd = NewCommand ''admin_ping_server'' in
     pseq nextToken (
     pseq opt_semicolon (
     pret cmd)))"

definition parseAdminListServices :: "command parse" where
  "parseAdminListServices =
     (pseq nextToken (
     pseq opt_semicolon (
     pret (NewCommand ''admin_list_services''))))"

definition parseAdminListRoles :: "command parse" where
  "parseAdminListRoles =
     (pseq nextToken (
     pseq opt_semicolon (
     pret (NewCommand ''admin_list_roles_command''))))"

definition parseAdminListResources :: "command parse" where
  "parseAdminListResources =
     (pseq nextToken (
     pseq opt_semicolon (
     pret (NewCommand ''admin_list_resources_command''))))"

definition parseAdminListVariables :: "command parse" where
  "parseAdminListVariables =
     (pseq nextToken (
     pseq opt_semicolon (
     pret (NewCommand ''admin_list_variables''))))"

definition parseAdminListConfigs :: "command parse" where
  "parseAdminListConfigs =
     (pseq nextToken (
     pseq opt_semicolon (
     pret (NewCommand ''admin_list_configs''))))"

definition parseAdminListEnvironments :: "command parse" where
  "parseAdminListEnvironments =
     (pseq nextToken (
     pseq opt_semicolon (
     pret (NewCommand ''admin_list_environments''))))"

definition parseAdminListAvailableProviders :: "command parse" where
  "parseAdminListAvailableProviders =
     (pseq nextToken (
     pif (\<lambda>p. cur_type p \<noteq> TokenProviders) (
       perr (\<lambda>p. ''expected PROVIDERS'')) (
     pret (NewCommand ''admin_list_available_providers''))))"

definition parseAdminListProviderInstances :: "string \<Rightarrow> command parse" where
  "parseAdminListProviderInstances providerName =
     (pseq nextToken (
     let cmd = NewCommand ''admin_list_provider_instances'' in
     let cmd = set_param ''provider_name'' (PStr providerName) cmd in
     pseq opt_semicolon (
     pret cmd)))"

definition parseAdminListProviderInstance :: "string \<Rightarrow> command parse" where
  "parseAdminListProviderInstance providerName =
     (pseq nextToken (
     pbind parseQuotedString (\<lambda>instanceName.
     pseq nextToken (
     pif (\<lambda>p. cur_type p \<noteq> TokenModels) (
       perr (\<lambda>p. ''expected MODELS'')) (
     pseq nextToken (
     let cmd = NewCommand ''admin_list_provider_instance_models'' in
     let cmd = set_param ''provider_name'' (PStr providerName) cmd in
     let cmd = set_param ''instance_name'' (PStr instanceName) cmd in
     pseq opt_semicolon (
     pret cmd)))))))"

definition parseAdminListProviderModels :: "string \<Rightarrow> command parse" where
  "parseAdminListProviderModels providerName =
     (pseq nextToken (
     let cmd = NewCommand ''admin_list_provider_models'' in
     let cmd = set_param ''provider_name'' (PStr providerName) cmd in
     pseq opt_semicolon (
     pret cmd)))"

definition parseAdminListProviderCommands :: "command parse" where
  "parseAdminListProviderCommands =
     (pseq nextToken (
     pbind parseQuotedString (\<lambda>providerName.
     pseq nextToken (
     pif (\<lambda>p. cur_type p = TokenInstances) (
       parseAdminListProviderInstances providerName) (
     pif (\<lambda>p. cur_type p = TokenInstance) (
       parseAdminListProviderInstance providerName) (
     pif (\<lambda>p. cur_type p = TokenModels) (
       parseAdminListProviderModels providerName) (
     perr (\<lambda>p. ''unknown LIST target: '' @ cur_value p))))))))"

definition parseAdminListProviders :: "command parse" where
  "parseAdminListProviders =
     (pseq nextToken (
     pseq opt_semicolon (
     pret (NewCommand ''admin_list_providers''))))"

definition parseAdminListModels :: "command parse" where
  "parseAdminListModels =
     (pseq nextToken (
     let cmd = NewCommand ''admin_list_all_models'' in
     pseq opt_semicolon (
     pret cmd)))"

definition parseAdminListIngestors :: "command parse" where
  "parseAdminListIngestors =
     (pseq nextToken (
     let cmd = NewCommand ''admin_list_ingestors'' in
     pret cmd))"

definition parseAdminListIngestionTasks :: "command parse" where
  "parseAdminListIngestionTasks =
     (pseq nextToken (
     pif (\<lambda>p. cur_type p \<noteq> TokenTasks) (
       perr (\<lambda>p. ''expected TASKS'')) (
     pseq nextToken (
     let cmd = NewCommand ''list_admin_ingestion_tasks'' in
     pseq opt_semicolon (
     pret cmd)))))"

definition parseAdminListAPIServers :: "command parse" where
  "parseAdminListAPIServers =
     (pseq nextToken (
     pif (\<lambda>p. cur_type p = TokenServer) (
       pseq nextToken (
       let cmd = NewCommand ''admin_list_api_servers'' in
       pseq opt_semicolon (
       pret cmd))) (
     perr (\<lambda>p. ''expected SERVER after API''))))"

definition parseAdminListFiles :: "command parse" where
  "parseAdminListFiles =
     (pseq nextToken (
     pif (\<lambda>p. cur_type p \<noteq> TokenOf) (
       perr (\<lambda>p. ''expected OF'')) (
     pseq nextToken (
     pif (\<lambda>p. cur_type p \<noteq> TokenDataset) (
       perr (\<lambda>p. ''expected DATASET'')) (
     pseq nextToken (
     pbind parseQuotedString (\<lambda>datasetName.
     let cmd = NewCommand ''list_user_dataset_files'' in
     let cmd = set_param ''dataset_name'' (PStr datasetName) cmd in
     pseq nextToken (
     pseq opt_semicolon (
     pret cmd)))))))))"

definition parseAdminShowService :: "command parse" where
  "parseAdminShowService =
     (pseq nextToken (
     pbind parseNumber (\<lambda>serviceIndex.
     let cmd = NewCommand ''admin_show_service'' in
     let cmd = set_param ''service_index'' (PInt serviceIndex) cmd in
     pseq nextToken (
     pseq opt_semicolon (
     pret cmd)))))"

definition parseAdminShowActivityCommand :: "string \<Rightarrow> command parse" where
  "parseAdminShowActivityCommand userName =
     (pseq nextToken (
     let days = (0 :: int) in
     pbind (pif (\<lambda>p. cur_type p = TokenDays) (
         pseq nextToken (
         pbind parseNumber (\<lambda>days.
         pif (\<lambda>_. days < 1) (
           perr (\<lambda>p. ''invalid number of DAYS'')) (
         pseq nextToken (
         pret days))))) (
       let days = (7 :: int) in
       pret days)) (\<lambda>days.
     pseq opt_semicolon (
     let cmd = NewCommand ''admin_show_user_activity_command'' in
     let cmd = set_param ''user_name'' (PStr userName) cmd in
     let cmd = set_param ''days'' (PInt days) cmd in
     pret cmd))))"

definition parseAdminShowUserSummaryCommand :: "string \<Rightarrow> command parse" where
  "parseAdminShowUserSummaryCommand userName =
     (pseq nextToken (
     let cmd = NewCommand ''admin_show_user_summary_command'' in
     let cmd = set_param ''user_name'' (PStr userName) cmd in
     pseq opt_semicolon (
     pret cmd)))"

definition parseAdminShowUserDataSetCommand :: "string \<Rightarrow> command parse" where
  "parseAdminShowUserDataSetCommand userName =
     (pseq nextToken (
     let tree = False in
     let datasetName = ([] :: string) in
     pbind parseQuotedString (\<lambda>datasetName.
     pseq nextToken (
     pbind (pif (\<lambda>p. cur_type p = TokenTree) (
         let tree = True in
         pseq nextToken (
         pret tree)) (
       pret tree)) (\<lambda>tree.
     let cmd = NewCommand ''admin_show_user_dataset_command'' in
     let cmd = set_param ''user_name'' (PStr userName) cmd in
     pbind (pif (\<lambda>_. datasetName \<noteq> []) (
         let cmd = set_param ''dataset_name'' (PStr datasetName) cmd in
         pret cmd) (
       pret cmd)) (\<lambda>cmd.
     pbind (pif (\<lambda>_. tree) (
         let cmd = set_param ''tree'' (PBool True) cmd in
         pret cmd) (
       pret cmd)) (\<lambda>cmd.
     pseq opt_semicolon (
     pret cmd))))))))"

definition parseAdminShowUserStorageCommand :: "string \<Rightarrow> command parse" where
  "parseAdminShowUserStorageCommand userName =
     (pseq nextToken (
     let cmd = NewCommand ''admin_show_user_storage_command'' in
     let cmd = set_param ''user_name'' (PStr userName) cmd in
     pseq opt_semicolon (
     pret cmd)))"

definition parseAdminShowUserQuotaCommand :: "string \<Rightarrow> command parse" where
  "parseAdminShowUserQuotaCommand userName =
     (pseq nextToken (
     let cmd = NewCommand ''admin_show_user_quota_command'' in
     let cmd = set_param ''user_name'' (PStr userName) cmd in
     pseq opt_semicolon (
     pret cmd)))"

definition parseAdminShowUserIndexCommand :: "string \<Rightarrow> command parse" where
  "parseAdminShowUserIndexCommand userName =
     (pseq nextToken (
     let cmd = NewCommand ''admin_show_user_index_command'' in
     let cmd = set_param ''user_name'' (PStr userName) cmd in
     pseq opt_semicolon (
     pret cmd)))"

definition parseAdminShowUserPermissionCommand :: "string \<Rightarrow> command parse" where
  "parseAdminShowUserPermissionCommand userName =
     (pseq nextToken (
     let cmd = NewCommand ''admin_show_user_permission_command'' in
     let cmd = set_param ''user_name'' (PStr userName) cmd in
     pseq opt_semicolon (
     pret cmd)))"

definition parseAdminShowUser :: "string \<Rightarrow> command parse" where
  "parseAdminShowUser userName =
     (pseq opt_semicolon (
     let cmd = NewCommand ''admin_show_user'' in
     let cmd = set_param ''user_name'' (PStr userName) cmd in
     pret cmd))"

definition parseAdminShowUserCommands :: "command parse" where
  "parseAdminShowUserCommands =
     (pseq nextToken (
     pbind parseQuotedString (\<lambda>userName.
     pseq nextToken (
     pif (\<lambda>p. cur_type p = TokenActivity) (
       parseAdminShowActivityCommand userName) (
     pif (\<lambda>p. cur_type p = TokenSummary) (
       parseAdminShowUserSummaryCommand userName) (
     pif (\<lambda>p. cur_type p = TokenDataset) (
       parseAdminShowUserDataSetCommand userName) (
     pif (\<lambda>p. cur_type p = TokenStorage) (
       parseAdminShowUserStorageCommand userName) (
     pif (\<lambda>p. cur_type p = TokenQuota) (
       parseAdminShowUserQuotaCommand userName) (
     pif (\<lambda>p. cur_type p = TokenIndex) (
       parseAdminShowUserIndexCommand userName) (
     pif (\<lambda>p. cur_type p = TokenPermission) (
       parseAdminShowUserPermissionCommand userName) (
     parseAdminShowUser userName)))))))))))"

definition parseAdminShowRole :: "command parse" where
  "parseAdminShowRole =
     (pseq nextToken (
     pbind parseQuotedString (\<lambda>roleName.
     pseq nextToken (
     pbind (pif (\<lambda>p. cur_type p = TokenPermission) (
         pseq nextToken (
         let cmd = NewCommand ''admin_show_role_permission'' in
         let cmd = set_param ''role_name'' (PStr roleName) cmd in
         pret cmd)) (
       pif (\<lambda>p. cur_type p = TokenDefault) (
         pseq nextToken (
         pif (\<lambda>p. cur_type p \<noteq> TokenModels) (
           perr (\<lambda>p. ''expect MODELS after DEFAULT'')) (
         pseq nextToken (
         let cmd = NewCommand ''admin_show_role_default_models'' in
         let cmd = set_param ''role_name'' (PStr roleName) cmd in
         pret cmd)))) (
       pif (\<lambda>p. cur_type p = TokenSemicolon) (
         pseq nextToken (
         let cmd = NewCommand ''admin_show_role'' in
         let cmd = set_param ''role_name'' (PStr roleName) cmd in
         pret cmd)) (
       perr (\<lambda>p. ''invalid command '' @ (tokenTypeToString (cur_type p))))))) (\<lambda>cmd.
     pret cmd)))))"

definition parseAdminShowVersion :: "command parse" where
  "parseAdminShowVersion =
     (pseq nextToken (
     pseq opt_semicolon (
     pret (NewCommand ''admin_show_version_command''))))"

definition parseAdminShowVariable :: "command parse" where
  "parseAdminShowVariable =
     (pseq nextToken (
     pbind parseQuotedString (\<lambda>varName.
     let cmd = NewCommand ''admin_show_variable'' in
     let cmd = set_param ''var_name'' (PStr varName) cmd in
     pseq nextToken (
     pseq opt_semicolon (
     pret cmd)))))"

definition parseAdminShowCurrent :: "command parse" where
  "parseAdminShowCurrent =
     (pseq nextToken (
     pseq opt_semicolon (
     pret (NewCommand ''admin_show_current''))))"

definition parseAdminShowFingerprint :: "command parse" where
  "parseAdminShowFingerprint =
     (pseq nextToken (
     pseq opt_semicolon (
     pret (NewCommand ''admin_show_fingerprint''))))"

definition parseAdminShowLicense :: "command parse" where
  "parseAdminShowLicense =
     (pseq nextToken (
     pseq opt_semicolon (
     pret (NewCommand ''admin_show_license''))))"

definition parseAdminShowProviderInstanceBalance :: "string \<Rightarrow> string \<Rightarrow> command parse" where
  "parseAdminShowProviderInstanceBalance providerName instanceName =
     (pseq nextToken (
     let cmd = NewCommand ''admin_show_provider_instance_balance'' in
     let cmd = set_param ''instance_name'' (PStr instanceName) cmd in
     let cmd = set_param ''provider_name'' (PStr providerName) cmd in
     pseq opt_semicolon (
     pret cmd)))"

definition parseAdminShowProviderInstance :: "string \<Rightarrow> command parse" where
  "parseAdminShowProviderInstance providerName =
     (pseq nextToken (
     pbind (pwrap (\<lambda>err p. ''expected instance name: '' @ err) parseQuotedString) (\<lambda>instanceName.
     pseq nextToken (
     pif (\<lambda>p. cur_type p = TokenBalance) (
       parseAdminShowProviderInstanceBalance providerName instanceName) (
     let cmd = NewCommand ''admin_show_provider_instance'' in
     let cmd = set_param ''instance_name'' (PStr instanceName) cmd in
     let cmd = set_param ''provider_name'' (PStr providerName) cmd in
     pseq opt_semicolon (
     pret cmd))))))"

definition parseAdminShowProviderModel :: "string \<Rightarrow> command parse" where
  "parseAdminShowProviderModel providerName =
     (pseq nextToken (
     pbind (pwrap (\<lambda>err p. ''expected model name: '' @ err) parseQuotedString) (\<lambda>modelName.
     pseq nextToken (
     let cmd = NewCommand ''admin_show_provider_model'' in
     let cmd = set_param ''model_name'' (PStr modelName) cmd in
     let cmd = set_param ''provider_name'' (PStr providerName) cmd in
     pseq opt_semicolon (
     pret cmd)))))"

definition parseAdminShowProvider :: "command parse" where
  "parseAdminShowProvider =
     (pseq nextToken (
     pbind (pwrap (\<lambda>err p. ''expected provider name: '' @ err) parseQuotedString) (\<lambda>providerName.
     pseq nextToken (
     pif (\<lambda>p. cur_type p = TokenInstance) (
       parseAdminShowProviderInstance providerName) (
     pif (\<lambda>p. cur_type p = TokenModel) (
       parseAdminShowProviderModel providerName) (
     pseq nextToken (
     let cmd = NewCommand ''admin_show_provider'' in
     let cmd = set_param ''provider_name'' (PStr providerName) cmd in
     pret cmd)))))))"

definition parseAdminShowModel :: "command parse" where
  "parseAdminShowModel =
     (pseq nextToken (
     pbind (pwrap (\<lambda>err p. ''expected model name: '' @ err) parseQuotedString) (\<lambda>modelName.
     pseq nextToken (
     pseq opt_semicolon (
     let cmd = NewCommand ''admin_show_model'' in
     let cmd = set_param ''model_name'' (PStr modelName) cmd in
     pret cmd)))))"

definition parseAdminShowAdminServer :: "command parse" where
  "parseAdminShowAdminServer =
     (pseq nextToken (
     pif (\<lambda>p. cur_type p = TokenServer) (
       pseq nextToken (
       let cmd = NewCommand ''admin_show_admin_server'' in
       pseq opt_semicolon (
       pret cmd))) (
     perr (\<lambda>p. ''expected SERVER after ADMIN''))))"

definition parseAdminShowAPI :: "command parse" where
  "parseAdminShowAPI =
     (pseq nextToken (
     pif (\<lambda>p. cur_type p = TokenServer) (
       pseq nextToken (
       let cmd = NewCommand ''admin_show_api_server'' in
       pbind (pwrap (\<lambda>err p. ''expected API server name: '' @ err) parseQuotedString) (\<lambda>serverName.
       let cmd = set_param ''api_server_name'' (PStr serverName) cmd in
       pseq nextToken (
       pseq opt_semicolon (
       pret cmd))))) (
     perr (\<lambda>p. ''expected SERVER after API''))))"

definition parseCommonShowPoolModel :: "command parse" where
  "parseCommonShowPoolModel =
     (pseq nextToken (
     pif (\<lambda>p. cur_type p = TokenProvider) (
       pseq nextToken (
       pbind parseQuotedString (\<lambda>providerName.
       let cmd = NewCommand ''show_pool_provider'' in
       let cmd = set_param ''provider_name'' (PStr providerName) cmd in
       pseq nextToken (
       pseq opt_semicolon (
       pret cmd))))) (
     pif (\<lambda>p. cur_type p = TokenModel) (
       pseq nextToken (
       pbind parseQuotedString (\<lambda>modelName.
       pseq nextToken (
       pif (\<lambda>p. cur_type p \<noteq> TokenFrom) (
         perr (\<lambda>p. ''expected FROM'')) (
       pseq nextToken (
       pbind parseQuotedString (\<lambda>providerName.
       pseq nextToken (
       let cmd = NewCommand ''show_pool_model'' in
       let cmd = set_param ''provider_name'' (PStr providerName) cmd in
       let cmd = set_param ''model_name'' (PStr modelName) cmd in
       pseq opt_semicolon (
       pret cmd))))))))) (
     perr (\<lambda>p. ''expected PROVIDERS or MODELS'')))))"

definition parseAdminCheckLicense :: "command parse" where
  "parseAdminCheckLicense =
     (pseq nextToken (
     let cmd = NewCommand ''admin_check_license'' in
     pseq opt_semicolon (
     pret cmd)))"

definition parseAdminCheckProviderInstance :: "string \<Rightarrow> command parse" where
  "parseAdminCheckProviderInstance providerName =
     (pif (\<lambda>p. cur_type p \<noteq> TokenInstance) (
       perr (\<lambda>p. ''expected PROVIDER after CHECK'')) (
     pseq nextToken (
     pbind parseQuotedString (\<lambda>instanceName.
     let cmd = NewCommand ''admin_check_provider_instance'' in
     let cmd = set_param ''provider_name'' (PStr providerName) cmd in
     let cmd = set_param ''instance_name'' (PStr instanceName) cmd in
     pret cmd))))"

definition parseAdminCheckProvider :: "command parse" where
  "parseAdminCheckProvider =
     (pif (\<lambda>p. cur_type p \<noteq> TokenProvider) (
       perr (\<lambda>p. ''expected PROVIDER after CHECK'')) (
     pseq nextToken (
     pif (\<lambda>p. cur_type p \<noteq> TokenQuotedString) (
       perr (\<lambda>p. ''expected provider name after PROVIDER'')) (
     pget (\<lambda>p. cur_value p) (\<lambda>providerName.
     pseq nextToken (
     pif (\<lambda>p. cur_type p = TokenInstance) (
       parseAdminCheckProviderInstance providerName) (
     pif (\<lambda>p. cur_type p \<noteq> TokenRegion) (
       perr (\<lambda>p. ''expected REGION after provider name'')) (
     pseq nextToken (
     pif (\<lambda>p. cur_type p \<noteq> TokenQuotedString) (
       perr (\<lambda>p. ''expected region name after REGION'')) (
     pget (\<lambda>p. cur_value p) (\<lambda>regionName.
     pseq nextToken (
     pif (\<lambda>p. cur_type p \<noteq> TokenKey) (
       perr (\<lambda>p. ''expected KEY after region name'')) (
     pseq nextToken (
     pif (\<lambda>p. cur_type p \<noteq> TokenQuotedString) (
       perr (\<lambda>p. ''expected API key after KEY'')) (
     pget (\<lambda>p. cur_value p) (\<lambda>apiKey.
     pseq nextToken (
     let baseURL = ([] :: string) in
     pbind (pif (\<lambda>p. cur_type p = TokenURL) (
         pseq nextToken (
         pif (\<lambda>p. cur_type p \<noteq> TokenQuotedString) (
           perr (\<lambda>p. ''expected base URL after URL'')) (
         pget (\<lambda>p. cur_value p) (\<lambda>baseURL.
         pseq nextToken (
         pret baseURL))))) (
       pret baseURL)) (\<lambda>baseURL.
     pseq opt_semicolon (
     pif (\<lambda>p. cur_type p \<noteq> TokenEOF) (
       perr (\<lambda>p. ''unexpected token: '' @ cur_value p)) (
     let cmd = NewCommand ''admin_check_provider_with_key'' in
     let cmd = set_param ''provider_name'' (PStr providerName) cmd in
     let cmd = set_param ''region'' (PStr regionName) cmd in
     let cmd = set_param ''api_key'' (PStr apiKey) cmd in
     pbind (pif (\<lambda>_. baseURL \<noteq> []) (
         let cmd = set_param ''base_url'' (PStr baseURL) cmd in
         pret cmd) (
       pret cmd)) (\<lambda>cmd.
     pret cmd)))))))))))))))))))))"

definition parseAdminCheck :: "command parse" where
  "parseAdminCheck =
     (pseq nextToken (
     pif (\<lambda>p. cur_type p = TokenLicense) (
       parseAdminCheckLicense) (
     pif (\<lambda>p. cur_type p = TokenProvider) (
       parseAdminCheckProvider) (
     perr (\<lambda>p. ''unknown CHECK target: '' @ cur_value p)))))"

end
