(* ===== verification/CliAdmin2.thy ===== *)
theory CliAdmin2
  imports CliAdmin1
begin

text \<open>
  Administration commands, \<open>cli/admin_parser.go\<close>, second part. Each definition
  follows the statements of the function of the same name.
\<close>

definition parseAdminRemoveIngestionTasks :: "command parse" where
  "parseAdminRemoveIngestionTasks =
     (pseq nextToken (
     pif (\<lambda>p. cur_type p \<noteq> TokenTasks) (
       perr (\<lambda>p. ''expected TASKS'')) (
     pseq nextToken (
     pbind parseQuotedString (\<lambda>taskString.
     let tasks = split_on (CHR '' '') taskString in
     pseq nextToken (
     let cmd = NewCommand ''admin_remove_ingestion_tasks'' in
     let cmd = set_param ''tasks'' (PStrs tasks) cmd in
     pseq opt_semicolon (
     pret cmd)))))))"

definition parseAdminCreateUserAPIKeyCommand :: "string \<Rightarrow> command parse" where
  "parseAdminCreateUserAPIKeyCommand userName =
     (pseq nextToken (
     pseq opt_semicolon (
     let cmd = NewCommand ''admin_create_user_api_key'' in
     let cmd = set_param ''user_name'' (PStr userName) cmd in
     pret cmd)))"

definition parseAdminCreateUser :: "command parse" where
  "parseAdminCreateUser =
     (pseq nextToken (
     pbind parseQuotedString (\<lambda>userName.
     pseq nextToken (
     pif (\<lambda>p. cur_type p = TokenQuotedString) (
       let password = ([] :: string) in
       pbind parseQuotedString (\<lambda>password.
       pseq nextToken (
       let cmd = NewCommand ''admin_create_user'' in
       let cmd = set_param ''user_name'' (PStr userName) cmd in
       let cmd = set_param ''password'' (PStr password) cmd in
       let cmd = set_param ''role'' (PStr ''user'') cmd in
       pseq opt_semicolon (
       pret cmd)))) (
     pif (\<lambda>p. cur_type p = TokenKey) (
       parseAdminCreateUserAPIKeyCommand userName) (
     perr (\<lambda>p. ''expected password or KEY after USER, got '' @ cur_value p)))))))"

definition parseAdminCreateRole :: "command parse" where
  "parseAdminCreateRole =
     (pseq nextToken (
     pbind parseQuotedString (\<lambda>roleName.
     let cmd = NewCommand ''admin_create_role'' in
     let cmd = set_param ''role_name'' (PStr roleName) cmd in
     pseq nextToken (
     pbind (pif (\<lambda>p. cur_type p = TokenDescription) (
         pseq nextToken (
         let description = ([] :: string) in
         pbind parseQuotedString (\<lambda>description.
         let cmd = set_param ''description'' (PStr description) cmd in
         pseq nextToken (
         pret cmd)))) (
       pret cmd)) (\<lambda>cmd.
     pseq opt_semicolon (
     pret cmd))))))"

definition parseAdminCreateCommand :: "command parse" where
  "parseAdminCreateCommand =
     (pseq nextToken (
     pif (\<lambda>p. cur_type p = TokenUser) (
       parseAdminCreateUser) (
     pif (\<lambda>p. cur_type p = TokenRole) (
       parseAdminCreateRole) (
     perr (\<lambda>p. ''unknown CREATE target: '' @ cur_value p)))))"

definition parseAdminDropUserAPIKey :: "string \<Rightarrow> command parse" where
  "parseAdminDropUserAPIKey userName =
     (pseq nextToken (
     pbind parseQuotedString (\<lambda>apiKey.
     pseq opt_semicolon (
     let cmd = NewCommand ''admin_drop_user_api_key'' in
     let cmd = set_param ''user_name'' (PStr userName) cmd in
     let cmd = set_param ''api_key'' (PStr apiKey) cmd in
     pret cmd))))"

definition parseAdminDropUser :: "command parse" where
  "parseAdminDropUser =
     (pseq nextToken (
     pif (\<lambda>p. cur_type p \<noteq> TokenQuotedString) (
       perr (\<lambda>p. ''expected USER name, got '' @ cur_value p)) (
     pbind parseQuotedString (\<lambda>userName.
     pseq nextToken (
     pif (\<lambda>p. cur_type p = TokenKey) (
       parseAdminDropUserAPIKey userName) (
     pseq nextToken (
     let cmd = NewCommand ''admin_drop_user'' in
     let cmd = set_param ''user_name'' (PStr userName) cmd in
     pret cmd)))))))"

definition parseAdminDropRole :: "command parse" where
  "parseAdminDropRole =
     (pseq nextToken (
     pbind parseQuotedString (\<lambda>roleName.
     let cmd = NewCommand ''admin_drop_role'' in
     let cmd = set_param ''role_name'' (PStr roleName) cmd in
     pseq nextToken (
     pseq opt_semicolon (
     pret cmd)))))"

definition parseAdminDropCommands :: "command parse" where
  "parseAdminDropCommands =
     (pseq nextToken (
     pif (\<lambda>p. cur_type p = TokenUser) (
       parseAdminDropUser) (
     pif (\<lambda>p. cur_type p = TokenRole) (
       parseAdminDropRole) (
     perr (\<lambda>p. ''unknown DROP target: '' @ cur_value p)))))"

definition parseAdminActivateUser :: "command parse" where
  "parseAdminActivateUser =
     (pseq nextToken (
     pbind parseQuotedString (\<lambda>userName.
     pseq nextToken (
     pget (\<lambda>p. cur_value p) (\<lambda>status.
     pif (\<lambda>_. (status \<noteq> ''on'') \<and> (status \<noteq> ''off'')) (
       perr (\<lambda>p. ''expected '' @ [CHR 0x27] @ ''on'' @ [CHR 0x27] @ '' or '' @ [CHR 0x27] @ ''off'' @ [CHR 0x27] @ '', got '' @ cur_value p)) (
     pseq nextToken (
     let cmd = NewCommand ''admin_activate_user'' in
     let cmd = set_param ''user_name'' (PStr userName) cmd in
     let cmd = set_param ''activate_status'' (PStr status) cmd in
     pseq opt_semicolon (
     pret cmd))))))))"

definition parseAdminAlterUser :: "command parse" where
  "parseAdminAlterUser =
     (pseq nextToken (
     pif (\<lambda>p. cur_type p = TokenActive) (
       parseAdminActivateUser) (
     pif (\<lambda>p. cur_type p = TokenPassword) (
       pseq nextToken (
       pbind parseQuotedString (\<lambda>userName.
       pseq nextToken (
       pbind parseQuotedString (\<lambda>password.
       let cmd = NewCommand ''admin_alter_user'' in
       let cmd = set_param ''user_name'' (PStr userName) cmd in
       let cmd = set_param ''password'' (PStr password) cmd in
       pseq nextToken (
       pseq opt_semicolon (
       pret cmd))))))) (
     pbind parseQuotedString (\<lambda>userName.
     pseq nextToken (
     pif (\<lambda>p. cur_type p \<noteq> TokenSet) (
       perr (\<lambda>p. ''expected SET'')) (
     pseq nextToken (
     pif (\<lambda>p. cur_type p \<noteq> TokenRole) (
       perr (\<lambda>p. ''expected ROLE'')) (
     pseq nextToken (
     pbind parseIdentifier (\<lambda>roleName.
     let cmd = NewCommand ''alter_user_role'' in
     let cmd = set_param ''user_name'' (PStr userName) cmd in
     let cmd = set_param ''role_name'' (PStr roleName) cmd in
     pseq nextToken (
     pseq opt_semicolon (
     pret cmd)))))))))))))"

definition parseAdminAlterRole :: "command parse" where
  "parseAdminAlterRole =
     (pseq nextToken (
     pbind parseQuotedString (\<lambda>roleName.
     pseq nextToken (
     pif (\<lambda>p. cur_type p \<noteq> TokenSet) (
       perr (\<lambda>p. ''expected SET'')) (
     pseq nextToken (
     pif (\<lambda>p. cur_type p \<noteq> TokenDescription) (
       perr (\<lambda>p. ''expected DESCRIPTION'')) (
     pseq nextToken (
     pbind parseQuotedString (\<lambda>description.
     pseq nextToken (
     let cmd = NewCommand ''admin_alter_role'' in
     let cmd = set_param ''role_name'' (PStr roleName) cmd in
     let cmd = set_param ''description'' (PStr description) cmd in
     pseq opt_semicolon (
     pret cmd)))))))))))"

definition parseAdminAlterProvider :: "command parse" where
  "parseAdminAlterProvider =
     (pseq nextToken (
     pbind parseQuotedString (\<lambda>providerName.
     pseq nextToken (
     pif (\<lambda>p. cur_type p \<noteq> TokenInstance) (
       perr (\<lambda>p. ''expected INSTANCE'')) (
     pseq nextToken (
     pbind parseQuotedString (\<lambda>instanceName.
     pseq nextToken (
     let newInstanceName = ([] :: string) in
     let newAPIKey = ([] :: string) in
     pbind (ploop (\<lambda>(newInstanceName, newAPIKey).
         pif (\<lambda>p. cur_type p = TokenName) (
           pseq nextToken (
           pbind (pwrap (\<lambda>err p. ''expected model name: '' @ err) parseQuotedString) (\<lambda>newInstanceName.
           pseq nextToken (
           pret (Inl (newInstanceName, newAPIKey)))))) (
         pif (\<lambda>p. cur_type p = TokenKey) (
           pseq nextToken (
           pbind (pwrap (\<lambda>err p. ''expected API key: '' @ err) parseQuotedString) (\<lambda>newAPIKey.
           pseq nextToken (
           pret (Inl (newInstanceName, newAPIKey)))))) (
         pret (Inr (newInstanceName, newAPIKey))))) (newInstanceName, newAPIKey)) (\<lambda>(newInstanceName, newAPIKey).
     pif (\<lambda>_. (newInstanceName = []) \<and> (newAPIKey = [])) (
       perr (\<lambda>p. ''expected NAME or KEY after INSTANCE'')) (
     let cmd = NewCommand ''admin_alter_provider_instance'' in
     let cmd = set_param ''provider_name'' (PStr providerName) cmd in
     let cmd = set_param ''instance_name'' (PStr instanceName) cmd in
     let cmd = set_param ''new_instance_name'' (PStr newInstanceName) cmd in
     let cmd = set_param ''new_api_key'' (PStr newAPIKey) cmd in
     pseq nextToken (
     pseq opt_semicolon (
     pret cmd))))))))))))"

definition parseAdminAlterCommands :: "command parse" where
  "parseAdminAlterCommands =
     (pseq nextToken (
     pif (\<lambda>p. cur_type p = TokenUser) (
       parseAdminAlterUser) (
     pif (\<lambda>p. cur_type p = TokenRole) (
       parseAdminAlterRole) (
     pif (\<lambda>p. cur_type p = TokenProvider) (
       parseAdminAlterProvider) (
     perr (\<lambda>p. ''unknown ALTER target: '' @ cur_value p))))))"

definition parseAdminGrantAdmin :: "command parse" where
  "parseAdminGrantAdmin =
     (pseq nextToken (
     pbind parseQuotedString (\<lambda>userName.
     let cmd = NewCommand ''admin_grant_user_admin'' in
     let cmd = set_param ''user_name'' (PStr userName) cmd in
     pseq nextToken (
     pseq opt_semicolon (
     pret cmd)))))"

definition parseAdminGrantPermission :: "command parse" where
  "parseAdminGrantPermission =
     (pbind parseQuotedString (\<lambda>actionListStr.
     let actions = split_on (CHR '','') actionListStr in
     pseq nextToken (
     let actions = map TrimSpace actions in
     pif (\<lambda>p. cur_type p \<noteq> TokenOn) (
       perr (\<lambda>p. ''expected ON'')) (
     pseq nextToken (
     pbind parseQuotedString (\<lambda>resource.
     pseq nextToken (
     pif (\<lambda>p. cur_type p \<noteq> TokenTo) (
       perr (\<lambda>p. ''expected TO'')) (
     pseq nextToken (
     pif (\<lambda>p. cur_type p \<noteq> TokenRole) (
       perr (\<lambda>p. ''expected ROLE'')) (
     pseq nextToken (
     pbind parseQuotedString (\<lambda>roleName.
     let cmd = NewCommand ''admin_grant_role_permission'' in
     let cmd = set_param ''actions'' (PStrs actions) cmd in
     let cmd = set_param ''resource'' (PStr resource) cmd in
     let cmd = set_param ''role_name'' (PStr roleName) cmd in
     pseq nextToken (
     pseq opt_semicolon (
     pret cmd))))))))))))))"

definition parseAdminGrantCommands :: "command parse" where
  "parseAdminGrantCommands =
     (pseq nextToken (
     pif (\<lambda>p. cur_type p = TokenAdmin) (
       parseAdminGrantAdmin) (
     parseAdminGrantPermission)))"

definition parseAdminRevokeAdmin :: "command parse" where
  "parseAdminRevokeAdmin =
     (pseq nextToken (
     pbind parseQuotedString (\<lambda>userName.
     let cmd = NewCommand ''admin_revoke_user_admin'' in
     let cmd = set_param ''user_name'' (PStr userName) cmd in
     pseq nextToken (
     pseq opt_semicolon (
     pret cmd)))))"

definition parseAdminRevokePermission :: "command parse" where
  "parseAdminRevokePermission =
     (pbind parseQuotedString (\<lambda>actionListStr.
     let actions = split_on (CHR '','') actionListStr in
     pseq nextToken (
     let actions = map TrimSpace actions in
     pif (\<lambda>p. cur_type p \<noteq> TokenOn) (
       perr (\<lambda>p. ''expected ON'')) (
     pseq nextToken (
     pbind parseQuotedString (\<lambda>resource.
     pseq nextToken (
     pif (\<lambda>p. cur_type p \<noteq> TokenFrom) (
       perr (\<lambda>p. ''expected FROM'')) (
     pseq nextToken (
     pif (\<lambda>p. cur_type p \<noteq> TokenRole) (
       perr (\<lambda>p. ''expected ROLE'')) (
     pseq nextToken (
     pbind parseQuotedString (\<lambda>roleName.
     let cmd = NewCommand ''admin_revoke_role_permission'' in
     let cmd = set_param ''actions'' (PStrs actions) cmd in
     let cmd = set_param ''resource'' (PStr resource) cmd in
     let cmd = set_param ''role_name'' (PStr roleName) cmd in
     pseq nextToken (
     pseq opt_semicolon (
     pret cmd))))))))))))))"

definition parseAdminRevokeCommands :: "command parse" where
  "parseAdminRevokeCommands =
     (pseq nextToken (
     pif (\<lambda>p. cur_type p = TokenAdmin) (
       parseAdminRevokeAdmin) (
     parseAdminRevokePermission)))"

definition parseAdminIdentifierList :: "(string list) parse" where
  "parseAdminIdentifierList =
     (let xs = ([] :: string list) in
     pbind parseIdentifier (\<lambda>ident.
     let xs = xs @ [ident] in
     pseq nextToken (
     pbind (ploop (\<lambda>xs.
         pif (\<lambda>p. cur_type p = TokenComma) (
         pseq nextToken (
         pbind parseIdentifier (\<lambda>ident.
         let xs = xs @ [ident] in
         pseq nextToken (
         pret (Inl xs))))) (
         pret (Inr xs))) xs) (\<lambda>xs.
     pret xs))))"

definition parseAdminSetLicense :: "command parse" where
  "parseAdminSetLicense =
     (pseq nextToken (
     pif (\<lambda>p. cur_type p = TokenConfig) (
       pseq nextToken (
       let cmd = NewCommand ''admin_set_license_config'' in
       pbind parseNumber (\<lambda>number1.
       pseq nextToken (
       pbind parseNumber (\<lambda>number2.
       pseq nextToken (
       let cmd = set_param ''number1'' (PInt number1) cmd in
       let cmd = set_param ''number2'' (PInt number2) cmd in
       pret cmd)))))) (
     pbind parseQuotedString (\<lambda>license.
     pseq nextToken (
     let cmd = NewCommand ''admin_set_license'' in
     let cmd = set_param ''license'' (PStr license) cmd in
     pseq opt_semicolon (
     pret cmd))))))"

definition parseAdminSetVariable :: "command parse" where
  "parseAdminSetVariable =
     (pseq nextToken (
     pbind parseQuotedString (\<lambda>varName.
     pseq nextToken (
     pbind parseVariableValue (\<lambda>varValue.
     let cmd = NewCommand ''admin_set_variable'' in
     let cmd = set_param ''var_name'' (PStr varName) cmd in
     let cmd = set_param ''var_value'' (PStr varValue) cmd in
     pseq nextToken (
     pseq opt_semicolon (
     pret cmd)))))))"

definition parseAdminSetRoleDefaultModel :: "command parse" where
  "parseAdminSetRoleDefaultModel =
     (pseq nextToken (
     pbind parseQuotedString (\<lambda>roleName.
     pseq nextToken (
     pif (\<lambda>p. cur_type p \<noteq> TokenDefault) (
       perr (\<lambda>p. ''expected DEFAULT'')) (
     pseq nextToken (
     let modelType = ([] :: string) in
     pbind (pif (\<lambda>p. cur_type p = TokenChat) (
         let modelType = ''chat'' in
         pret modelType) (
       pif (\<lambda>p. cur_type p = TokenVision) (
         let modelType = ''vision'' in
         pret modelType) (
       pif (\<lambda>p. cur_type p = TokenEmbedding) (
         let modelType = ''embedding'' in
         pret modelType) (
       pif (\<lambda>p. cur_type p = TokenRerank) (
         let modelType = ''rerank'' in
         pret modelType) (
       pif (\<lambda>p. cur_type p = TokenASR) (
         let modelType = ''asr'' in
         pret modelType) (
       pif (\<lambda>p. cur_type p = TokenTTS) (
         let modelType = ''tts'' in
         pret modelType) (
       pif (\<lambda>p. cur_type p = TokenOCR) (
         let modelType = ''ocr'' in
         pret modelType) (
       perr (\<lambda>p. ''unknown model type: '' @ cur_value p))))))))) (\<lambda>modelType.
     pseq nextToken (
     pbind parseQuotedString (\<lambda>modelNameOrID.
     let cmd = NewCommand ''admin_set_role_default_model'' in
     let cmd = set_param ''role_name'' (PStr roleName) cmd in
     let cmd = set_param ''model_type'' (PStr modelType) cmd in
     pbind (pif (\<lambda>_. IsCompositeModelName modelNameOrID) (
         let cmd = set_param ''composite_model_name'' (PStr modelNameOrID) cmd in
         pret cmd) (
       pif (\<lambda>_. IsUUID modelNameOrID) (
         let cmd = set_param ''model_id'' (PStr modelNameOrID) cmd in
         pret cmd) (
       perr (\<lambda>p. ''invalid format of model name or ID: '' @ modelNameOrID)))) (\<lambda>cmd.
     pseq nextToken (
     pseq opt_semicolon (
     pret cmd))))))))))))"

definition parseAdminSetLogLevel :: "command parse" where
  "parseAdminSetLogLevel =
     (pseq nextToken (
     let cmd = NewCommand ''admin_set_log_level'' in
     pbind (pif (\<lambda>p. cur_type p = TokenDebug) (
         let cmd = set_param ''level'' (PStr ''debug'') cmd in
         pret cmd) (
       pif (\<lambda>p. cur_type p = TokenInfo) (
         let cmd = set_param ''level'' (PStr ''info'') cmd in
         pret cmd) (
       pif (\<lambda>p. cur_type p = TokenWarn) (
         let cmd = set_param ''level'' (PStr ''warn'') cmd in
         pret cmd) (
       pif (\<lambda>p. cur_type p = TokenError) (
         let cmd = set_param ''level'' (PStr ''error'') cmd in
         pret cmd) (
       pif (\<lambda>p. cur_type p = TokenFatal) (
         let cmd = set_param ''level'' (PStr ''fatal'') cmd in
         pret cmd) (
       pif (\<lambda>p. cur_type p = TokenPanic) (
         let cmd = set_param ''level'' (PStr ''panic'') cmd in
         pret cmd) (
       perr (\<lambda>p. ''unknown log level: '' @ cur_value p)))))))) (\<lambda>cmd.
     pseq nextToken (
     pseq opt_semicolon (
     pret cmd)))))"

definition parseAdminSetLog :: "command parse" where
  "parseAdminSetLog =
     (pseq nextToken (
     pif (\<lambda>p. cur_type p = TokenLevel) (
       parseAdminSetLogLevel) (
     perr (\<lambda>p. ''unknown log target: '' @ cur_value p))))"

definition parseAdminSetCommand :: "command parse" where
  "parseAdminSetCommand =
     (pseq nextToken (
     pif (\<lambda>p. cur_type p = TokenLicense) (
       parseAdminSetLicense) (
     pif (\<lambda>p. cur_type p = TokenVar) (
       parseAdminSetVariable) (
     pif (\<lambda>p. cur_type p = TokenRole) (
       parseAdminSetRoleDefaultModel) (
     pif (\<lambda>p. cur_type p = TokenLog) (
       parseAdminSetLog) (
     perr (\<lambda>p. ''unknown SET target: '' @ cur_value p)))))))"

definition parseAdminResetCommand :: "command parse" where
  "parseAdminResetCommand =
     (pseq nextToken (
     pif (\<lambda>p. cur_type p \<noteq> TokenRole) (
       perr (\<lambda>p. ''expected ROLE'')) (
     pseq nextToken (
     pbind parseQuotedString (\<lambda>roleName.
     pseq nextToken (
     pif (\<lambda>p. cur_type p \<noteq> TokenDefault) (
       perr (\<lambda>p. ''expected DEFAULT'')) (
     pseq nextToken (
     let modelType = ([] :: string) in
     pbind (pif (\<lambda>p. cur_type p = TokenChat) (
         let modelType = ''chat'' in
         pret modelType) (
       pif (\<lambda>p. cur_type p = TokenVision) (
         let modelType = ''vision'' in
         pret modelType) (
       pif (\<lambda>p. cur_type p = TokenEmbedding) (
         let modelType = ''embedding'' in
         pret modelType) (
       pif (\<lambda>p. cur_type p = TokenRerank) (
         let modelType = ''rerank'' in
         pret modelType) (
       pif (\<lambda>p. cur_type p = TokenASR) (
         let modelType = ''asr'' in
         pret modelType) (
       pif (\<lambda>p. cur_type p = TokenTTS) (
         let modelType = ''tts'' in
         pret modelType) (
       pif (\<lambda>p. cur_type p = TokenOCR) (
         let modelType = ''ocr'' in
         pret modelType) (
       perr (\<lambda>p. ''unknown model type: '' @ cur_value p))))))))) (\<lambda>modelType.
     pseq nextToken (
     let cmd = NewCommand ''admin_reset_role_default_model'' in
     let cmd = set_param ''role_name'' (PStr roleName) cmd in
     let cmd = set_param ''model_type'' (PStr modelType) cmd in
     pseq opt_semicolon (
     pret cmd)))))))))))"

definition parseAdminBenchmarkCommand :: "command parse" where
  "parseAdminBenchmarkCommand =
     (let cmd = NewCommand ''benchmark'' in
     pseq nextToken (
     pbind parseNumber (\<lambda>concurrency.
     let cmd = set_param ''concurrency'' (PInt concurrency) cmd in
     pseq nextToken (
     pbind parseNumber (\<lambda>iterations.
     let cmd = set_param ''iterations'' (PInt iterations) cmd in
     pseq nextToken (
     pbind parseUserStatement (\<lambda>nestedCmd.
     let cmd = set_param ''command'' (PCommand nestedCmd) cmd in
     pret cmd)))))))"

definition parseAdminStartService :: "command parse" where
  "parseAdminStartService =
     (pseq nextToken (
     pif (\<lambda>p. cur_type p \<noteq> TokenService) (
       perr (\<lambda>p. ''expected SERVICE'')) (
     pseq nextToken (
     pbind parseNumber (\<lambda>serviceIndex.
     let cmd = NewCommand ''admin_start_service'' in
     let cmd = set_param ''service_index'' (PInt serviceIndex) cmd in
     pseq nextToken (
     pseq opt_semicolon (
     pret cmd)))))))"

definition parseAdminShutdownService :: "command parse" where
  "parseAdminShutdownService =
     (pseq nextToken (
     pbind parseNumber (\<lambda>serviceIndex.
     let cmd = NewCommand ''admin_shutdown_service'' in
     let cmd = set_param ''service_index'' (PInt serviceIndex) cmd in
     pseq nextToken (
     pseq opt_semicolon (
     pret cmd)))))"

definition parseAdminShutdownIngestor :: "command parse" where
  "parseAdminShutdownIngestor =
     (pseq nextToken (
     pbind parseQuotedString (\<lambda>ingestorName.
     let cmd = NewCommand ''admin_shutdown_ingestor_command'' in
     let cmd = set_param ''ingestor_name'' (PStr ingestorName) cmd in
     pseq nextToken (
     pseq opt_semicolon (
     pret cmd)))))"

definition parseAdminShutdownCommands :: "command parse" where
  "parseAdminShutdownCommands =
     (pseq nextToken (
     pif (\<lambda>p. cur_type p = TokenService) (
       parseAdminShutdownService) (
     pif (\<lambda>p. cur_type p = TokenIngestor) (
       parseAdminShutdownIngestor) (
     perr (\<lambda>p. ''expected SERVICE or INGESTOR'')))))"

definition parseAdminRestart :: "command parse" where
  "parseAdminRestart =
     (pseq nextToken (
     pif (\<lambda>p. cur_type p \<noteq> TokenService) (
       perr (\<lambda>p. ''expected SERVICE'')) (
     pseq nextToken (
     pbind parseNumber (\<lambda>serviceIndex.
     let cmd = NewCommand ''admin_restart_service'' in
     let cmd = set_param ''service_index'' (PInt serviceIndex) cmd in
     pseq nextToken (
     pseq opt_semicolon (
     pret cmd)))))))"

definition parseAdminAddModel :: "string \<Rightarrow> string \<Rightarrow> command parse" where
  "parseAdminAddModel providerName instanceName =
     (pseq nextToken (
     pbind (pwrap (\<lambda>err p. ''expected model name: '' @ err) parseQuotedString) (\<lambda>modelName.
     pseq nextToken (
     let cmd = NewCommand ''admin_add_models'' in
     let cmd = set_param ''provider_name'' (PStr providerName) cmd in
     let cmd = set_param ''instance_name'' (PStr instanceName) cmd in
     let cmd = set_param ''model_names'' (PStrs ([modelName])) cmd in
     pseq opt_semicolon (
     pret cmd)))))"

definition parseAdminAddModelInstance :: "string \<Rightarrow> command parse" where
  "parseAdminAddModelInstance providerName =
     (pseq nextToken (
     pbind (pwrap (\<lambda>err p. ''expected model instance name: '' @ err) parseQuotedString) (\<lambda>instanceName.
     pseq nextToken (
     pif (\<lambda>p. cur_type p = TokenModel) (
       parseAdminAddModel providerName instanceName) (
     let cmd = NewCommand ''admin_add_model_instance'' in
     let cmd = set_param ''provider_name'' (PStr providerName) cmd in
     let cmd = set_param ''instance_name'' (PStr instanceName) cmd in
     pseq opt_semicolon (
     pret cmd))))))"

definition parseAdminAddModelProvider :: "command parse" where
  "parseAdminAddModelProvider =
     (pseq nextToken (
     pbind (pwrap (\<lambda>err p. ''expected provider name: '' @ err) parseQuotedString) (\<lambda>providerName.
     pseq nextToken (
     pif (\<lambda>p. cur_type p = TokenInstance) (
       parseAdminAddModelInstance providerName) (
     let cmd = NewCommand ''admin_add_provider'' in
     let cmd = set_param ''provider_name'' (PStr providerName) cmd in
     pseq opt_semicolon (
     pret cmd))))))"

definition parseAdminAddCommand :: "command parse" where
  "parseAdminAddCommand =
     (pseq nextToken (
     pif (\<lambda>p. cur_type p = TokenAPI) (
       parseAddAPIServer) (
     pif (\<lambda>p. cur_type p = TokenAdmin) (
       parseAddAdminServer) (
     pif (\<lambda>p. cur_type p = TokenProvider) (
       parseAdminAddModelProvider) (
     perr (\<lambda>p. ''unknown ADD target: '' @ cur_value p))))))"

end
