(* ===== verification/CliAdmin3.thy ===== *)
theory CliAdmin3
  imports CliAdmin2
begin

text \<open>
  Administration commands, \<open>cli/admin_parser.go\<close>, third part. Each definition
  follows the statements of the function of the same name.
\<close>

definition parseAdminListUsersCommand :: "command parse" where
  "parseAdminListUsersCommand =
     (pseq nextToken (
     let orderBy = ([] :: string) in
     let userStatus = ([] :: string) in
     let top = (None :: int option) in
     let plan = (None :: string option) in
     let quota = (None :: int option) in
     let days = (None :: int option) in
     let condition = False in
     pbind (ploop (\<lambda>(condition, top, days, plan, quota, orderBy, userStatus).
         pif (\<lambda>p. cur_type p = TokenTop) (
           let condition = True in
           pseq nextToken (
           pbind parseNumber (\<lambda>topInt.
           pif (\<lambda>_. topInt < 0) (
             perr (\<lambda>p. ''invalid number of TOP'')) (
           pseq nextToken (
           let top = Some topInt in
           pret (Inl (condition, top, days, plan, quota, orderBy, userStatus))))))) (
         pif (\<lambda>p. cur_type p = TokenDays) (
           let condition = True in
           pseq nextToken (
           pbind parseNumber (\<lambda>daysInt.
           pif (\<lambda>_. daysInt < 0) (
             perr (\<lambda>p. ''invalid number of DAYS'')) (
           pseq nextToken (
           let days = Some daysInt in
           pret (Inl (condition, top, days, plan, quota, orderBy, userStatus))))))) (
         pif (\<lambda>p. cur_type p = TokenPlan) (
           let condition = True in
           pseq nextToken (
           pbind parseQuotedString (\<lambda>planStr.
           pif (\<lambda>_. planStr = []) (
             perr (\<lambda>p. ''invalid plan'')) (
           let plan = Some planStr in
           pseq nextToken (
           pret (Inl (condition, top, days, plan, quota, orderBy, userStatus))))))) (
         pif (\<lambda>p. cur_type p = TokenQuota) (
           let condition = True in
           pseq nextToken (
           pbind parseNumber (\<lambda>quotaInt.
           pif (\<lambda>_. quotaInt < 0) (
             perr (\<lambda>p. ''invalid number of QUOTA'')) (
           let quota = Some quotaInt in
           pseq nextToken (
           pret (Inl (condition, top, days, plan, quota, orderBy, userStatus))))))) (
         pif (\<lambda>p. cur_type p \<in> {TokenDocuments, TokenIndex, TokenStorage}) (
           let condition = True in
           pif (\<lambda>_. orderBy \<noteq> []) (
             perr (\<lambda>p. ''order by already set'')) (
           pget (\<lambda>p. cur_value p) (\<lambda>orderBy.
           pseq nextToken (
           pret (Inl (condition, top, days, plan, quota, orderBy, userStatus)))))) (
         pif (\<lambda>p. cur_type p \<in> {TokenActive, TokenInactive}) (
           let condition = True in
           pget (\<lambda>p. cur_value p) (\<lambda>userStatus.
           pseq nextToken (
           pret (Inl (condition, top, days, plan, quota, orderBy, userStatus))))) (
         pif (\<lambda>p. cur_type p = TokenSemicolon) (
           pseq nextToken (
           pret (Inr (condition, top, days, plan, quota, orderBy, userStatus)))) (
         pret (Inr (condition, top, days, plan, quota, orderBy, userStatus)))))))))) (condition, top, days, plan, quota, orderBy, userStatus)) (\<lambda>(condition, top, days, plan, quota, orderBy, userStatus).
     pseq opt_semicolon (
     pif (\<lambda>_. \<not> condition) (
       pret (NewCommand ''admin_list_users_command'')) (
     let cmd = NewCommand ''admin_list_users_condition_command'' in
     pbind (pif (\<lambda>_. orderBy \<noteq> []) (
         let cmd = set_param ''order_by'' (PStr orderBy) cmd in
         pret cmd) (
       pret cmd)) (\<lambda>cmd.
     pbind (pif (\<lambda>_. userStatus \<noteq> []) (
         let cmd = set_param ''user_status'' (PStr userStatus) cmd in
         pret cmd) (
       pret cmd)) (\<lambda>cmd.
     pbind (pif (\<lambda>_. top \<noteq> None) (
         let cmd = set_param ''top'' (PInt (the top)) cmd in
         pret cmd) (
       pret cmd)) (\<lambda>cmd.
     pbind (pif (\<lambda>_. plan \<noteq> None) (
         let cmd = set_param ''plan'' (PStr (the plan)) cmd in
         pret cmd) (
       pret cmd)) (\<lambda>cmd.
     pbind (pif (\<lambda>_. quota \<noteq> None) (
         let cmd = set_param ''quota'' (PInt (the quota)) cmd in
         pret cmd) (
       pret cmd)) (\<lambda>cmd.
     pbind (pif (\<lambda>_. days \<noteq> None) (
         let cmd = set_param ''days'' (PInt (the days)) cmd in
         pret cmd) (
       pret cmd)) (\<lambda>cmd.
     pret cmd)))))))))))"

definition parseAdminListUserIngestionTasks :: "string \<Rightarrow> command parse" where
  "parseAdminListUserIngestionTasks userName =
     (pseq nextToken (
     pif (\<lambda>p. cur_type p \<noteq> TokenTasks) (
       perr (\<lambda>p. ''expected TASKS after INGESTION'')) (
     pseq nextToken (
     let cmd = NewCommand ''admin_list_user_ingestion_tasks'' in
     let cmd = set_param ''user_name'' (PStr userName) cmd in
     pbind (pif (\<lambda>p. cur_type p = TokenQuotedString) (
         let status = ([] :: string) in
         pbind parseQuotedString (\<lambda>status.
         let cmd = set_param ''status'' (PStr status) cmd in
         pseq nextToken (
         pret cmd))) (
       pret cmd)) (\<lambda>cmd.
     pret cmd)))))"

definition parseAdminListUserProviderInstanceModels :: "string \<Rightarrow> command parse" where
  "parseAdminListUserProviderInstanceModels userName =
     (pseq nextToken (
     pbind parseQuotedString (\<lambda>providerName.
     pseq nextToken (
     pif (\<lambda>p. cur_type p = TokenInstances) (
       pseq nextToken (
       let cmd = NewCommand ''admin_list_user_provider_instances'' in
       let cmd = set_param ''user_name'' (PStr userName) cmd in
       let cmd = set_param ''provider_name'' (PStr providerName) cmd in
       pseq opt_semicolon (
       pret cmd))) (
     pif (\<lambda>p. cur_type p \<noteq> TokenInstance) (
       perr (\<lambda>p. ''expected INSTANCE after PROVIDER'')) (
     pseq nextToken (
     pbind parseQuotedString (\<lambda>instanceName.
     pseq nextToken (
     pif (\<lambda>p. cur_type p \<noteq> TokenModels) (
       perr (\<lambda>p. ''expected MODELS after INSTANCE'')) (
     pseq nextToken (
     let cmd = NewCommand ''admin_list_user_provider_instance_models'' in
     let cmd = set_param ''user_name'' (PStr userName) cmd in
     let cmd = set_param ''provider_name'' (PStr providerName) cmd in
     let cmd = set_param ''instance_name'' (PStr instanceName) cmd in
     pseq opt_semicolon (
     pret cmd))))))))))))"

definition parseAdminListUserDefaultModels :: "string \<Rightarrow> command parse" where
  "parseAdminListUserDefaultModels userName =
     (pseq nextToken (
     pif (\<lambda>p. cur_type p \<noteq> TokenModels) (
       perr (\<lambda>p. ''expected MODELS after INSTANCE'')) (
     pseq nextToken (
     let cmd = NewCommand ''admin_list_user_default_models'' in
     let cmd = set_param ''user_name'' (PStr userName) cmd in
     pseq opt_semicolon (
     pret cmd)))))"

definition parseAdminListUserCommand :: "command parse" where
  "parseAdminListUserCommand =
     (pseq nextToken (
     pbind parseQuotedString (\<lambda>userName.
     pseq nextToken (
     pif (\<lambda>p. cur_type p = TokenIngestion) (
       parseAdminListUserIngestionTasks userName) (
     pif (\<lambda>p. cur_type p = TokenDatasets) (
       pseq nextToken (
       let cmd = NewCommand ''admin_list_user_datasets'' in
       pseq opt_semicolon (
       let cmd = set_param ''user_name'' (PStr userName) cmd in
       pret cmd))) (
     pif (\<lambda>p. cur_type p = TokenAgents) (
       pseq nextToken (
       let cmd = NewCommand ''admin_list_user_agents'' in
       pseq opt_semicolon (
       let cmd = set_param ''user_name'' (PStr userName) cmd in
       pret cmd))) (
     pif (\<lambda>p. cur_type p = TokenChats) (
       pseq nextToken (
       let cmd = NewCommand ''admin_list_user_chats'' in
       pseq opt_semicolon (
       let cmd = set_param ''user_name'' (PStr userName) cmd in
       pret cmd))) (
     pif (\<lambda>p. cur_type p = TokenSearches) (
       pseq nextToken (
       let cmd = NewCommand ''admin_list_user_searches'' in
       pseq opt_semicolon (
       let cmd = set_param ''user_name'' (PStr userName) cmd in
       pret cmd))) (
     pif (\<lambda>p. cur_type p = TokenModels) (
       pseq nextToken (
       let cmd = NewCommand ''admin_list_user_models'' in
       pseq opt_semicolon (
       let cmd = set_param ''user_name'' (PStr userName) cmd in
       pret cmd))) (
     pif (\<lambda>p. cur_type p = TokenFiles) (
       pseq nextToken (
       let cmd = NewCommand ''admin_list_user_files'' in
       pseq opt_semicolon (
       let cmd = set_param ''user_name'' (PStr userName) cmd in
       pret cmd))) (
     pif (\<lambda>p. cur_type p = TokenKeys) (
       pseq nextToken (
       let cmd = NewCommand ''admin_list_user_keys'' in
       pseq opt_semicolon (
       let cmd = set_param ''user_name'' (PStr userName) cmd in
       pret cmd))) (
     pif (\<lambda>p. cur_type p = TokenProvider) (
       parseAdminListUserProviderInstanceModels userName) (
     pif (\<lambda>p. cur_type p = TokenProviders) (
       pseq nextToken (
       let cmd = NewCommand ''admin_list_user_providers'' in
       pseq opt_semicolon (
       let cmd = set_param ''user_name'' (PStr userName) cmd in
       pret cmd))) (
     pif (\<lambda>p. cur_type p = TokenDefault) (
       parseAdminListUserDefaultModels userName) (
     perr (\<lambda>p. ''expected INGESTION or DATASETS or AGENTS or CHATS or SEARCHES or MODELS or FILES or KEYS after USER''))))))))))))))))"

definition parseAdminListCommands :: "command parse" where
  "parseAdminListCommands =
     (pseq nextToken (
     pif (\<lambda>p. cur_type p = TokenServices) (
       parseAdminListServices) (
     pif (\<lambda>p. cur_type p = TokenUsers) (
       parseAdminListUsersCommand) (
     pif (\<lambda>p. cur_type p = TokenRoles) (
       parseAdminListRoles) (
     pif (\<lambda>p. cur_type p = TokenResources) (
       parseAdminListResources) (
     pif (\<lambda>p. cur_type p = TokenVars) (
       parseAdminListVariables) (
     pif (\<lambda>p. cur_type p = TokenConfigs) (
       parseAdminListConfigs) (
     pif (\<lambda>p. cur_type p = TokenEnvs) (
       parseAdminListEnvironments) (
     pif (\<lambda>p. cur_type p = TokenAvailable) (
       parseAdminListAvailableProviders) (
     pif (\<lambda>p. cur_type p = TokenProvider) (
       parseAdminListProviderCommands) (
     pif (\<lambda>p. cur_type p = TokenProviders) (
       parseAdminListProviders) (
     pif (\<lambda>p. cur_type p = TokenModels) (
       parseAdminListModels) (
     pif (\<lambda>p. cur_type p = TokenUser) (
       parseAdminListUserCommand) (
     pif (\<lambda>p. cur_type p = TokenIngestors) (
       parseAdminListIngestors) (
     pif (\<lambda>p. cur_type p = TokenIngestion) (
       parseAdminListIngestionTasks) (
     pif (\<lambda>p. cur_type p = TokenAPI) (
       parseAdminListAPIServers) (
     perr (\<lambda>p. ''unknown LIST target: '' @ cur_value p))))))))))))))))))"

definition parseAdminShowUsersActivity :: "command parse" where
  "parseAdminShowUsersActivity =
     (pseq nextToken (
     let days = (0 :: int) in
     let windowSize = (0 :: int) in
     pbind (ploop (\<lambda>(days, windowSize).
         pif (\<lambda>p. cur_type p = TokenDays) (
           pseq nextToken (
           pbind parseNumber (\<lambda>days.
           pif (\<lambda>_. days < 1) (
             perr (\<lambda>p. ''invalid number of DAYS'')) (
           pseq nextToken (
           pret (Inl (days, windowSize))))))) (
         pif (\<lambda>p. cur_type p = TokenWindow) (
           pseq nextToken (
           pbind parseNumber (\<lambda>windowSize.
           pif (\<lambda>_. windowSize < 0) (
             perr (\<lambda>p. ''invalid number of WINDOWS'')) (
           pseq nextToken (
           pret (Inl (days, windowSize))))))) (
         pif (\<lambda>p. cur_type p = TokenSemicolon) (
           pseq nextToken (
           pret (Inr (days, windowSize)))) (
         pret (Inr (days, windowSize)))))) (days, windowSize)) (\<lambda>(days, windowSize).
     pseq opt_semicolon (
     let cmd = NewCommand ''admin_show_users_activity_command'' in
     let cmd = set_param ''days'' (PInt days) cmd in
     let cmd = set_param ''window'' (PInt windowSize) cmd in
     pret cmd))))"

definition parseAdminShowUsersPlan :: "command parse" where
  "parseAdminShowUsersPlan =
     (pseq nextToken (
     pif (\<lambda>p. cur_type p \<noteq> TokenSummary) (
       perr (\<lambda>p. ''expected SUMMARY'')) (
     pseq nextToken (
     let cmd = NewCommand ''admin_show_users_plan_command'' in
     pseq opt_semicolon (
     pret cmd)))))"

definition parseAdminShowUsersCommands :: "command parse" where
  "parseAdminShowUsersCommands =
     (pseq nextToken (
     pif (\<lambda>p. cur_type p = TokenSummary) (
       pseq nextToken (
       let cmd = NewCommand ''admin_show_users_summary_command'' in
       pret cmd)) (
     pif (\<lambda>p. cur_type p = TokenActivity) (
       parseAdminShowUsersActivity) (
     pif (\<lambda>p. cur_type p = TokenPlan) (
       parseAdminShowUsersPlan) (
     perr (\<lambda>p. ''invalid command''))))))"

definition parseAdminShowData :: "command parse" where
  "parseAdminShowData =
     (pseq nextToken (
     pbind (pif (\<lambda>p. cur_type p = TokenSummary) (
         pseq nextToken (
         let cmd = NewCommand ''admin_show_data_summary'' in
         pret cmd)) (
       pif (\<lambda>p. cur_type p = TokenOrphan) (
         pseq nextToken (
         let cmd = NewCommand ''admin_show_data_orphan'' in
         pret cmd)) (
       pif (\<lambda>p. cur_type p = TokenStorage) (
         pseq nextToken (
         let cmd = NewCommand ''admin_show_data_storage'' in
         pret cmd)) (
       pif (\<lambda>p. cur_type p = TokenIndex) (
         pseq nextToken (
         let cmd = NewCommand ''admin_show_data_index'' in
         pret cmd)) (
       perr (\<lambda>p. ''expected SUMMARY, ORPHAN, STORAGE, INDEX after DATA'')))))) (\<lambda>cmd.
     pseq opt_semicolon (
     pret cmd))))"

definition parseAdminShowQuota :: "command parse" where
  "parseAdminShowQuota =
     (pseq nextToken (
     pif (\<lambda>p. cur_type p = TokenSummary) (
       pseq nextToken (
       let cmd = NewCommand ''admin_show_quota_summary'' in
       pseq opt_semicolon (
       pret cmd))) (
     perr (\<lambda>p. ''expected SUMMARY after QUOTA''))))"

definition parseAdminShowTasks :: "command parse" where
  "parseAdminShowTasks =
     (pseq nextToken (
     pif (\<lambda>p. cur_type p = TokenSummary) (
       pseq nextToken (
       let cmd = NewCommand ''admin_show_tasks_summary'' in
       pseq opt_semicolon (
       pret cmd))) (
     perr (\<lambda>p. ''expected SUMMARY after TASKS''))))"

definition parseAdminShowLogLevel :: "command parse" where
  "parseAdminShowLogLevel =
     (pseq nextToken (
     let cmd = NewCommand ''admin_show_log_level'' in
     pseq opt_semicolon (
     pret cmd)))"

definition parseAdminShowLogCommands :: "command parse" where
  "parseAdminShowLogCommands =
     (pseq nextToken (
     pif (\<lambda>p. cur_type p = TokenLevel) (
       parseAdminShowLogLevel) (
     perr (\<lambda>p. ''expected LEVEL after LOG''))))"

definition parseAdminShowCommands :: "command parse" where
  "parseAdminShowCommands =
     (pseq nextToken (
     pif (\<lambda>p. cur_type p = TokenService) (
       parseAdminShowService) (
     pif (\<lambda>p. cur_type p = TokenUser) (
       parseAdminShowUserCommands) (
     pif (\<lambda>p. cur_type p = TokenRole) (
       parseAdminShowRole) (
     pif (\<lambda>p. cur_type p = TokenVersion) (
       parseAdminShowVersion) (
     pif (\<lambda>p. cur_type p = TokenVar) (
       parseAdminShowVariable) (
     pif (\<lambda>p. cur_type p = TokenCurrent) (
       parseAdminShowCurrent) (
     pif (\<lambda>p. cur_type p = TokenFingerprint) (
       parseAdminShowFingerprint) (
     pif (\<lambda>p. cur_type p = TokenLicense) (
       parseAdminShowLicense) (
     pif (\<lambda>p. cur_type p = TokenProvider) (
       parseAdminShowProvider) (
     pif (\<lambda>p. cur_type p = TokenModel) (
       parseAdminShowModel) (
     pif (\<lambda>p. cur_type p = TokenAdmin) (
       parseAdminShowAdminServer) (
     pif (\<lambda>p. cur_type p = TokenAPI) (
       parseAdminShowAPI) (
     pif (\<lambda>p. cur_type p = TokenUsers) (
       parseAdminShowUsersCommands) (
     pif (\<lambda>p. cur_type p = TokenData) (
       parseAdminShowData) (
     pif (\<lambda>p. cur_type p = TokenQuota) (
       parseAdminShowQuota) (
     pif (\<lambda>p. cur_type p = TokenTasks) (
       parseAdminShowTasks) (
     pif (\<lambda>p. cur_type p = TokenLog) (
       parseAdminShowLogCommands) (
     perr (\<lambda>p. ''unknown SHOW target: '' @ cur_value p))))))))))))))))))))"

definition parseAdminStopUserCommand :: "command parse" where
  "parseAdminStopUserCommand =
     (pseq nextToken (
     pbind parseQuotedString (\<lambda>userName.
     pseq nextToken (
     pif (\<lambda>p. cur_type p = TokenIngestion) (
       pseq nextToken (
       pif (\<lambda>p. cur_type p \<noteq> TokenTasks) (
         perr (\<lambda>p. ''expected TASKS after INGESTION'')) (
       pseq nextToken (
       let cmd = NewCommand ''admin_stop_user_ingestion_tasks_command'' in
       pbind (pif (\<lambda>p. cur_type p = TokenQuotedString) (
           let status = ([] :: string) in
           pbind parseQuotedString (\<lambda>status.
           let cmd = set_param ''status'' (PStr status) cmd in
           pseq nextToken (
           pret cmd))) (
         pret cmd)) (\<lambda>cmd.
       let cmd = set_param ''user_name'' (PStr userName) cmd in
       pret cmd))))) (
     perr (\<lambda>p. ''expected INGESTION after USER''))))))"

definition parseAdminStopIngestionTasks :: "command parse" where
  "parseAdminStopIngestionTasks =
     (pseq nextToken (
     pif (\<lambda>p. cur_type p = TokenIngestion) (
       pseq nextToken (
       pif (\<lambda>p. cur_type p \<noteq> TokenTasks) (
         perr (\<lambda>p. ''expected TASKS'')) (
       pseq nextToken (
       pbind parseQuotedString (\<lambda>taskString.
       let tasks = split_on (CHR '' '') taskString in
       pseq nextToken (
       let cmd = NewCommand ''admin_stop_ingestion_tasks'' in
       let cmd = set_param ''tasks'' (PStrs tasks) cmd in
       pseq opt_semicolon (
       pret cmd))))))) (
     pif (\<lambda>p. cur_type p = TokenUser) (
       parseAdminStopUserCommand) (
     perr (\<lambda>p. ''expected USER or INGESTION'')))))"

definition parseAdminDeleteModel :: "string \<Rightarrow> string \<Rightarrow> command parse" where
  "parseAdminDeleteModel providerName instanceName =
     (pseq nextToken (
     pbind (pwrap (\<lambda>err p. ''expected model name: '' @ err) parseQuotedString) (\<lambda>modelName.
     pseq nextToken (
     let cmd = NewCommand ''admin_delete_model'' in
     let cmd = set_param ''provider_name'' (PStr providerName) cmd in
     let cmd = set_param ''instance_name'' (PStr instanceName) cmd in
     let cmd = set_param ''model_names'' (PStrs ([modelName])) cmd in
     pseq opt_semicolon (
     pret cmd)))))"

definition parseAdminDeleteModelInstance :: "string \<Rightarrow> command parse" where
  "parseAdminDeleteModelInstance providerName =
     (pseq nextToken (
     pbind (pwrap (\<lambda>err p. ''expected model instance name: '' @ err) parseQuotedString) (\<lambda>instanceName.
     pseq nextToken (
     pif (\<lambda>p. cur_type p = TokenModel) (
       parseAdminDeleteModel providerName instanceName) (
     let cmd = NewCommand ''admin_delete_model_instance'' in
     let cmd = set_param ''provider_name'' (PStr providerName) cmd in
     let cmd = set_param ''instance_names'' (PStrs ([instanceName])) cmd in
     pseq opt_semicolon (
     pret cmd))))))"

definition parseAdminDeleteProvider :: "command parse" where
  "parseAdminDeleteProvider =
     (pseq nextToken (
     pbind (pwrap (\<lambda>err p. ''expected provider name: '' @ err) parseQuotedString) (\<lambda>providerName.
     pseq nextToken (
     pif (\<lambda>p. cur_type p = TokenInstance) (
       parseAdminDeleteModelInstance providerName) (
     let cmd = NewCommand ''admin_delete_model_providers'' in
     let cmd = set_param ''provider_names'' (PStrs ([providerName])) cmd in
     pseq opt_semicolon (
     pret cmd))))))"

definition parseAdminDeleteCommands :: "command parse" where
  "parseAdminDeleteCommands =
     (pseq nextToken (
     pif (\<lambda>p. cur_type p = TokenAPI) (
       parseAPIDeleteAPIServer) (
     pif (\<lambda>p. cur_type p = TokenAdmin) (
       parseAPIDeleteAdminServer) (
     pif (\<lambda>p. cur_type p = TokenProvider) (
       parseAdminDeleteProvider) (
     perr (\<lambda>p. ''unknown ADD target: '' @ cur_value p))))))"

definition parseAdminEnableModel :: "command parse" where
  "parseAdminEnableModel =
     (pseq nextToken (
     pbind (pwrap (\<lambda>err p. ''expected provider name: '' @ err) parseQuotedString) (\<lambda>providerName.
     pseq nextToken (
     pif (\<lambda>p. cur_type p \<noteq> TokenInstance) (
       perr (\<lambda>p. ''expected INSTANCE'')) (
     pseq nextToken (
     pbind (pwrap (\<lambda>err p. ''expected model instance name: '' @ err) parseQuotedString) (\<lambda>instanceName.
     pseq nextToken (
     pif (\<lambda>p. cur_type p \<noteq> TokenModel) (
       perr (\<lambda>p. ''expected MODEL'')) (
     pseq nextToken (
     pbind (pwrap (\<lambda>err p. ''expected model name: '' @ err) parseQuotedString) (\<lambda>modelName.
     pseq nextToken (
     let cmd = NewCommand ''admin_enable_model'' in
     let cmd = set_param ''provider_name'' (PStr providerName) cmd in
     let cmd = set_param ''instance_name'' (PStr instanceName) cmd in
     let cmd = set_param ''model_name'' (PStr modelName) cmd in
     pseq opt_semicolon (
     pret cmd)))))))))))))"

definition parseAdminEnableCommand :: "command parse" where
  "parseAdminEnableCommand =
     (pseq nextToken (
     pif (\<lambda>p. cur_type p = TokenProvider) (
       parseAdminEnableModel) (
     perr (\<lambda>p. ''unknown ENABLE target: '' @ cur_value p))))"

definition parseAdminDisableModel :: "command parse" where
  "parseAdminDisableModel =
     (pseq nextToken (
     pbind (pwrap (\<lambda>err p. ''expected provider name: '' @ err) parseQuotedString) (\<lambda>providerName.
     pseq nextToken (
     pif (\<lambda>p. cur_type p \<noteq> TokenInstance) (
       perr (\<lambda>p. ''expected INSTANCE'')) (
     pseq nextToken (
     pbind (pwrap (\<lambda>err p. ''expected model instance name: '' @ err) parseQuotedString) (\<lambda>instanceName.
     pseq nextToken (
     pif (\<lambda>p. cur_type p \<noteq> TokenModel) (
       perr (\<lambda>p. ''expected MODEL'')) (
     pseq nextToken (
     pbind (pwrap (\<lambda>err p. ''expected model name: '' @ err) parseQuotedString) (\<lambda>modelName.
     pseq nextToken (
     let cmd = NewCommand ''admin_disable_model'' in
     let cmd = set_param ''provider_name'' (PStr providerName) cmd in
     let cmd = set_param ''instance_name'' (PStr instanceName) cmd in
     let cmd = set_param ''model_name'' (PStr modelName) cmd in
     pseq opt_semicolon (
     pret cmd)))))))))))))"

definition parseAdminDisableCommand :: "command parse" where
  "parseAdminDisableCommand =
     (pseq nextToken (
     pif (\<lambda>p. cur_type p = TokenProvider) (
       parseAdminDisableModel) (
     perr (\<lambda>p. ''unknown DISABLE target: '' @ cur_value p))))"

definition parseAdminSaveConfig :: "command parse" where
  "parseAdminSaveConfig =
     (pseq nextToken (
     pif (\<lambda>p. cur_type p \<noteq> TokenAs) (
       perr (\<lambda>p. ''expected AS after CONFIG'')) (
     pseq nextToken (
     pbind parseQuotedString (\<lambda>path.
     let cmd = NewCommand ''admin_save_config_command'' in
     let cmd = set_param ''path'' (PStr path) cmd in
     pseq opt_semicolon (
     pret cmd))))))"

definition parseAdminSaveCommand :: "command parse" where
  "parseAdminSaveCommand =
     (pseq nextToken (
     pif (\<lambda>p. cur_type p = TokenConfig) (
       parseAdminSaveConfig) (
     perr (\<lambda>p. ''unknown ADD target: '' @ cur_value p))))"

definition parseAdminUseAPIServer :: "command parse" where
  "parseAdminUseAPIServer =
     (pseq nextToken (
     pbind parseQuotedString (\<lambda>serverName.
     pseq nextToken (
     let cmd = NewCommand ''admin_use_api_server'' in
     let cmd = set_param ''server_name'' (PStr serverName) cmd in
     pseq opt_semicolon (
     pret cmd)))))"

definition parseAdminUseAdminServer :: "command parse" where
  "parseAdminUseAdminServer =
     (pseq nextToken (
     let cmd = NewCommand ''admin_use_admin_server'' in
     pseq opt_semicolon (
     pret cmd)))"

definition parseAdminUseCommand :: "command parse" where
  "parseAdminUseCommand =
     (pseq nextToken (
     pif (\<lambda>p. cur_type p = TokenAPI) (
       parseAdminUseAPIServer) (
     pif (\<lambda>p. cur_type p = TokenAdmin) (
       parseAdminUseAdminServer) (
     perr (\<lambda>p. ''expected API or ADMIN after USE'')))))"

definition parseStartIngestion :: "command parse" where
  "parseStartIngestion =
     (pseq nextToken (
     pif (\<lambda>p. cur_type p \<noteq> TokenIngestion) (
       perr (\<lambda>p. ''expect INGESTION'')) (
     pseq nextToken (
     pbind parseQuotedString (\<lambda>uri.
     let cmd = NewCommand ''admin_start_ingestion_command'' in
     let cmd = set_param ''uri'' (PStr uri) cmd in
     pseq nextToken (
     pseq opt_semicolon (
     pret cmd)))))))"

definition parseStopIngestion :: "command parse" where
  "parseStopIngestion =
     (pseq nextToken (
     pif (\<lambda>p. cur_type p \<noteq> TokenIngestion) (
       perr (\<lambda>p. ''expect INGESTION'')) (
     pseq nextToken (
     pbind parseQuotedString (\<lambda>taskID.
     let cmd = NewCommand ''admin_stop_ingestion_command'' in
     let cmd = set_param ''task_id'' (PStr taskID) cmd in
     pseq nextToken (
     pseq opt_semicolon (
     pret cmd)))))))"

definition parseAdminIngestCommand :: "command parse" where
  "parseAdminIngestCommand =
     (pseq nextToken (
     pbind parseQuotedString (\<lambda>uri.
     let cmd = NewCommand ''admin_ingest_command'' in
     let cmd = set_param ''uri'' (PStr uri) cmd in
     pseq nextToken (
     pseq opt_semicolon (
     pret cmd)))))"

text \<open>An error of a call that the code handles itself: None.\<close>

definition ptry :: "'a parse \<Rightarrow> ('a option) parse" where
  "ptry m p = (case m p of (PDone x, q) \<Rightarrow> (PDone (Some x), q) | (PFail e, q) \<Rightarrow> (PDone None, q)
     | (PPanic, q) \<Rightarrow> (PPanic, q) | (PStuck, q) \<Rightarrow> (PStuck, q))"

definition parseMessageQueueCommand :: "command parse" where
  "parseMessageQueueCommand =
     (pseq nextToken (
     pbind (pif (\<lambda>p. cur_type p = TokenShow) (
         pseq nextToken (
         pret (NewCommand ''user_show_message_queue_command''))) (
       pif (\<lambda>p. cur_type p = TokenList) (
         pseq nextToken (
         let cmd = NewCommand ''user_list_message_queue_command'' in
         pif (\<lambda>p. cur_type p = TokenPending) (
           let cmd = set_param ''pending'' (PBool True) cmd in
           pseq nextToken (
           pret cmd)) (
         pret (set_param ''pending'' (PBool False) cmd)))) (
       pif (\<lambda>p. cur_type p = TokenPublish) (
         pseq nextToken (
         pbind (pwrap (\<lambda>err p. ''expected message after PUBLISH'') parseQuotedString) (\<lambda>message.
         pseq nextToken (
         let cmd = NewCommand ''user_publish_message_command'' in
         pret (set_param ''message'' (PStr message) cmd))))) (
       pif (\<lambda>p. cur_type p = TokenPull) (
         pseq nextToken (
         pbind (pbind (ptry parseNumber) (\<lambda>r. case r of
             None \<Rightarrow> pret 1 | Some n \<Rightarrow> pseq nextToken (pret n))) (\<lambda>messageCount.
         pif (\<lambda>_. messageCount \<le> 0 \<or> 100 < messageCount) (
           perr (\<lambda>p. ''message count cannot be less than 0 or greater than 100'')) (
         let cmd = NewCommand ''user_pull_message_command'' in
         let cmd = set_param ''message_count'' (PInt messageCount) cmd in
         pif (\<lambda>p. cur_type p = TokenNoACK) (
           let cmd = set_param ''ack_policy'' (PStr ''NOACK'') cmd in
           pseq nextToken (
           pret cmd)) (
         pret (set_param ''ack_policy'' (PStr ''ACK'') cmd)))))) (
       perr (\<lambda>p. ''expected WITH'')))))) (\<lambda>cmd.
     pseq opt_semicolon (
     pret cmd))))"

definition parseAdminRemoveUserCommand :: "command parse" where
  "parseAdminRemoveUserCommand =
     (pseq nextToken (
     pbind parseQuotedString (\<lambda>userName.
     pseq nextToken (
     pif (\<lambda>p. cur_type p = TokenIngestion) (
       pseq nextToken (
       pif (\<lambda>p. cur_type p \<noteq> TokenTasks) (
         perr (\<lambda>p. ''expected TASKS after INGESTION'')) (
       pseq nextToken (
       let cmd = NewCommand ''admin_remove_user_ingestion_tasks_command'' in
       pbind (pif (\<lambda>p. cur_type p = TokenQuotedString) (
           let status = ([] :: string) in
           pbind parseQuotedString (\<lambda>status.
           let cmd = set_param ''status'' (PStr status) cmd in
           pseq nextToken (
           pret cmd))) (
         pret cmd)) (\<lambda>cmd.
       let cmd = set_param ''user_name'' (PStr userName) cmd in
       pret cmd))))) (
     perr (\<lambda>p. ''expected INGESTION after USER''))))))"

definition parseAdminRemoveCommands :: "command parse" where
  "parseAdminRemoveCommands =
     (pseq nextToken (
     pif (\<lambda>p. cur_type p = TokenIngestion) (
       parseAdminRemoveIngestionTasks) (
     pif (\<lambda>p. cur_type p = TokenUser) (
       parseAdminRemoveUserCommand) (
     perr (\<lambda>p. ''expected SERVICE'')))))"

definition parseAdminPurgeOrphanCommand :: "bool \<Rightarrow> command parse" where
  "parseAdminPurgeOrphanCommand preview =
     (pseq nextToken (
     let cmd = NewCommand ''admin_purge_orphan_command'' in
     let cmd = set_param ''preview'' (PBool preview) cmd in
     pret cmd))"

definition parseAdminPurgeUserCommand :: "bool \<Rightarrow> command parse" where
  "parseAdminPurgeUserCommand preview =
     (pseq nextToken (
     pbind parseQuotedString (\<lambda>userName.
     let cmd = NewCommand ''admin_purge_user_command'' in
     let cmd = set_param ''preview'' (PBool preview) cmd in
     let cmd = set_param ''user_name'' (PStr userName) cmd in
     pret cmd)))"

definition parseAdminPurgeUsersCommand :: "bool \<Rightarrow> command parse" where
  "parseAdminPurgeUsersCommand preview =
     (pseq nextToken (
     let userStatus = (None :: string option) in
     let days = (None :: int option) in
     let planName = (None :: string option) in
     pbind (ploop (\<lambda>(planName, days, userStatus).
         pif (\<lambda>p. cur_type p = TokenPlan) (
           pseq nextToken (
           pif (\<lambda>_. planName \<noteq> None) (
             perr (\<lambda>p. ''duplicate PLAN after USERS'')) (
           pbind parseQuotedString (\<lambda>plan.
           let planName = Some plan in
           pseq nextToken (
           pret (Inl (planName, days, userStatus))))))) (
         pif (\<lambda>p. cur_type p = TokenDays) (
           pseq nextToken (
           pif (\<lambda>_. days \<noteq> None) (
             perr (\<lambda>p. ''duplicate DAYS after USERS'')) (
           pbind parseNumber (\<lambda>dayCount.
           let days = Some dayCount in
           pseq nextToken (
           pret (Inl (planName, days, userStatus))))))) (
         pif (\<lambda>p. cur_type p = TokenInactive) (
           pseq nextToken (
           pif (\<lambda>_. userStatus \<noteq> None) (
             perr (\<lambda>p. ''duplicate INACTIVE or ACTIVE after USERS'')) (
           let inactiveStatus = ''inactive'' in
           let userStatus = Some inactiveStatus in
           pret (Inl (planName, days, userStatus))))) (
         pif (\<lambda>p. cur_type p = TokenActive) (
           pseq nextToken (
           pif (\<lambda>_. userStatus \<noteq> None) (
             perr (\<lambda>p. ''duplicate INACTIVE or ACTIVE after USERS'')) (
           let activeStatus = ''active'' in
           let userStatus = Some activeStatus in
           pret (Inl (planName, days, userStatus))))) (
         pif (\<lambda>p. cur_type p = TokenSemicolon) (
           pseq nextToken (
           pret (Inr (planName, days, userStatus)))) (
         pret (Inr (planName, days, userStatus)))))))) (planName, days, userStatus)) (\<lambda>(planName, days, userStatus).
     let cmd = NewCommand ''admin_purge_users_command'' in
     let cmd = set_param ''preview'' (PBool preview) cmd in
     pbind (pif (\<lambda>_. planName \<noteq> None) (
         let cmd = set_param ''plan_name'' (PStr (the planName)) cmd in
         pret cmd) (
       pret cmd)) (\<lambda>cmd.
     pbind (pif (\<lambda>_. userStatus \<noteq> None) (
         let cmd = set_param ''user_status'' (PStr (the userStatus)) cmd in
         pret cmd) (
       pret cmd)) (\<lambda>cmd.
     pbind (pif (\<lambda>_. days \<noteq> None) (
         let cmd = set_param ''days'' (PInt (the days)) cmd in
         pret cmd) (
       pret cmd)) (\<lambda>cmd.
     pret cmd))))))"

definition parseAdminPurgeCommand :: "command parse" where
  "parseAdminPurgeCommand =
     (pseq nextToken (
     let preview = False in
     pbind (pif (\<lambda>p. cur_type p = TokenPreview) (
         pseq nextToken (
         let preview = True in
         pret preview)) (
       pret preview)) (\<lambda>preview.
     pif (\<lambda>p. cur_type p = TokenOrphan) (
       parseAdminPurgeOrphanCommand preview) (
     pif (\<lambda>p. cur_type p = TokenUser) (
       parseAdminPurgeUserCommand preview) (
     pif (\<lambda>p. cur_type p = TokenUsers) (
       parseAdminPurgeUsersCommand preview) (
     perr (\<lambda>p. ''expected PREVIEW, USER, USERS after PURGE'')))))))"

end
