(* ===== verification/CliCommands.thy ===== *)
theory CliCommands
  imports CliAdmin3
begin

text \<open>
  The dispatch of a command by mode, \<open>cli/parser.go\<close>. Each definition
  follows the statements of the function of the same name.
\<close>

definition parseAdminCommand :: "command parse" where
  "parseAdminCommand =
     (pif (\<lambda>p. cur_type p = TokenLogin) (
       parseAdminLoginUser) (
     pif (\<lambda>p. cur_type p = TokenLogout) (
       parseAdminLogout) (
     pif (\<lambda>p. cur_type p = TokenPing) (
       parseAdminPingServer) (
     pif (\<lambda>p. cur_type p = TokenList) (
       parseAdminListCommands) (
     pif (\<lambda>p. cur_type p = TokenShow) (
       parseAdminShowCommands) (
     pif (\<lambda>p. cur_type p = TokenCheck) (
       parseAdminCheck) (
     pif (\<lambda>p. cur_type p = TokenCreate) (
       parseAdminCreateCommand) (
     pif (\<lambda>p. cur_type p = TokenDrop) (
       parseAdminDropCommands) (
     pif (\<lambda>p. cur_type p = TokenAlter) (
       parseAdminAlterCommands) (
     pif (\<lambda>p. cur_type p = TokenGrant) (
       parseAdminGrantCommands) (
     pif (\<lambda>p. cur_type p = TokenRevoke) (
       parseAdminRevokeCommands) (
     pif (\<lambda>p. cur_type p = TokenSet) (
       parseAdminSetCommand) (
     pif (\<lambda>p. cur_type p = TokenReset) (
       parseAdminResetCommand) (
     pif (\<lambda>p. cur_type p = TokenBenchmark) (
       parseAdminBenchmarkCommand) (
     pif (\<lambda>p. cur_type p = TokenStart) (
       parseAdminStartService) (
     pif (\<lambda>p. cur_type p = TokenShutdown) (
       parseAdminShutdownCommands) (
     pif (\<lambda>p. cur_type p = TokenRestart) (
       parseAdminRestart) (
     pif (\<lambda>p. cur_type p = TokenMQ) (
       parseMessageQueueCommand) (
     pif (\<lambda>p. cur_type p = TokenRemove) (
       parseAdminRemoveCommands) (
     pif (\<lambda>p. cur_type p = TokenStop) (
       parseAdminStopIngestionTasks) (
     pif (\<lambda>p. cur_type p = TokenAdd) (
       parseAdminAddCommand) (
     pif (\<lambda>p. cur_type p = TokenDelete) (
       parseAdminDeleteCommands) (
     pif (\<lambda>p. cur_type p = TokenEnable) (
       parseAdminEnableCommand) (
     pif (\<lambda>p. cur_type p = TokenDisable) (
       parseAdminDisableCommand) (
     pif (\<lambda>p. cur_type p = TokenSave) (
       parseAdminSaveCommand) (
     pif (\<lambda>p. cur_type p = TokenUse) (
       parseAdminUseCommand) (
     pif (\<lambda>p. cur_type p = TokenPurge) (
       parseAdminPurgeCommand) (
     perr (\<lambda>p. ''unknown command: '' @ cur_value p)))))))))))))))))))))))))))))"

definition parseUserCommand :: "(string \<Rightarrow> string option) \<Rightarrow> command parse" where
  "parseUserCommand js =
     (pif (\<lambda>p. cur_type p = TokenLogin) (
       parseAPILoginUser) (
     pif (\<lambda>p. cur_type p = TokenLogout) (
       parseAPILogout) (
     pif (\<lambda>p. cur_type p = TokenPing) (
       parseAPIPingServer) (
     pif (\<lambda>p. cur_type p = TokenRegister) (
       parseAPIRegister) (
     pif (\<lambda>p. cur_type p = TokenList) (
       parseAPIListCommands) (
     pif (\<lambda>p. cur_type p = TokenShow) (
       parseAPIShowCommands) (
     pif (\<lambda>p. cur_type p = TokenCreate) (
       parseAPICreateCommands) (
     pif (\<lambda>p. cur_type p = TokenDrop) (
       parseAPIDropCommands) (
     pif (\<lambda>p. cur_type p = TokenAdd) (
       parseAPIAddCommands) (
     pif (\<lambda>p. cur_type p = TokenDelete) (
       parseAPIDeleteCommands) (
     pif (\<lambda>p. cur_type p = TokenAlter) (
       parseAPIAlterCommands) (
     pif (\<lambda>p. cur_type p = TokenSet) (
       parseAPISetCommands) (
     pif (\<lambda>p. cur_type p = TokenReset) (
       parseAPIResetCommands) (
     pif (\<lambda>p. cur_type p = TokenImport) (
       parseAPIImport) (
     pif (\<lambda>p. cur_type p = TokenInsert) (
       parseDevInsertCommand) (
     pif (\<lambda>p. cur_type p = TokenRetrieve) (
       parseAPIRetrieve) (
     pif (\<lambda>p. cur_type p = TokenParse) (
       parseParseCommands) (
     pif (\<lambda>p. cur_type p = TokenBenchmark) (
       parseBenchmarkCommand) (
     pif (\<lambda>p. cur_type p = TokenEnable) (
       parseAPIEnable) (
     pif (\<lambda>p. cur_type p = TokenDisable) (
       parseAPIDisable) (
     pif (\<lambda>p. cur_type p = TokenChat) (
       parseAPIChat) (
     pif (\<lambda>p. cur_type p = TokenStream) (
       parseAPIStream) (
     pif (\<lambda>p. cur_type p = TokenThink) (
       parseAPIThink) (
     pif (\<lambda>p. cur_type p = TokenEmbed) (
       parseAPIEmbed) (
     pif (\<lambda>p. cur_type p = TokenRerank) (
       parseAPIRerank) (
     pif (\<lambda>p. cur_type p = TokenASR) (
       parseAPIASR) (
     pif (\<lambda>p. cur_type p = TokenTTS) (
       parseAPITTS) (
     pif (\<lambda>p. cur_type p = TokenOCR) (
       parseAPIOCR) (
     pif (\<lambda>p. cur_type p = TokenCheck) (
       parseAPICheck) (
     pif (\<lambda>p. cur_type p = TokenStart) (
       parseUserStartIngestion) (
     pif (\<lambda>p. cur_type p = TokenStop) (
       parseUserStopIngestion) (
     pif (\<lambda>p. cur_type p = TokenSave) (
       parseAPISave) (
     pif (\<lambda>p. cur_type p = TokenUse) (
       parseAPIUseCommands) (
     pif (\<lambda>p. cur_type p = TokenUpdate) (
       parseDevUpdateCommand) (
     pif (\<lambda>p. cur_type p = TokenRemove) (
       parseAPIRemove) (
     pif (\<lambda>p. cur_type p = TokenGet) (
       parseDevGetCommand) (
     pif (\<lambda>p. cur_type p = TokenExplain) (
       parseDevExplain) (
     pif (\<lambda>p. cur_type p = TokenChunk) (
       parseDevChunk False) (
     pif (\<lambda>p. cur_type p = TokenOpenaiChat) (
       parseOpenaiChat js) (
     pif (\<lambda>p. cur_type p \<in> {TokenLS, TokenCat, TokenSearch}) (
       parseFileSystemCommands) (
     perr (\<lambda>p. ''unknown command: '' @ cur_value p))))))))))))))))))))))))))))))))))))))))))"

datatype cli_mode = AdminMode | APIMode | OtherMode string

text \<open>\<open>OtherMode\<close> is any other value of the string type \<open>CommandLineMode\<close>.\<close>

definition parseCommand :: "(string \<Rightarrow> string option) \<Rightarrow> cli_mode \<Rightarrow> command parse" where
  "parseCommand js mode =
     (pif (\<lambda>p. cur_type p \<noteq> TokenIdentifier \<and> \<not> isKeyword (cur_type p)) (
       perr (\<lambda>p. ''expected command, got '' @ cur_value p)) (
     case mode of
       AdminMode \<Rightarrow> parseAdminCommand
     | APIMode \<Rightarrow> parseUserCommand js
     | OtherMode m \<Rightarrow> perr (\<lambda>p. ''unknown mode: '' @ m)))"

text \<open>None: there is no command, only the end of the input.\<close>

definition Parse :: "(string \<Rightarrow> string option) \<Rightarrow> cli_mode \<Rightarrow> (command option) parse" where
  "Parse js mode =
     (pif (\<lambda>p. cur_type p = TokenEOF) (pret None) (
     pbind (pif (\<lambda>p. cur_type p = TokenIdentifier \<and> (case cur_value p of [] \<Rightarrow> False | c # _ \<Rightarrow> c = CHR 0x5C))
         parseMetaCommand (parseCommand js mode)) (\<lambda>cmd.
     pret (Some cmd))))"

text \<open>Parsing a line: a new parser, then \<open>Parse\<close>.\<close>

definition parse_line :: "(string \<Rightarrow> string option) \<Rightarrow> cli_mode \<Rightarrow> string \<Rightarrow> (command option) outcome" where
  "parse_line js mode input =
     (case NewParser input of
        (PDone _, p) \<Rightarrow> fst (Parse js mode p)
      | (PFail e, p) \<Rightarrow> PFail e | (PPanic, p) \<Rightarrow> PPanic | (PStuck, p) \<Rightarrow> PStuck)"

end
