(* ===== verification/CliRules.thy ===== *)
theory CliRules
  imports CliParse "HOL-Library.Sublist"
begin

text \<open>
  Rules that follow the combinators of the parser. \<open>steady m\<close>: from a parser at some position of its
  input \<open>m\<close> never gets stuck, never adds to the budget of input left, and panics only in front of the
  word \<open>CHUNK\<close> at the very end of the text. \<open>gains Q I m\<close>: an \<open>m\<close>
  whose result satisfies \<open>Q\<close> has used up input since a start to which \<open>I\<close> relates the position.
  \<open>looks m\<close>: \<open>m\<close> leaves the parser where it is and fails at the end of the input.
\<close>

named_theorems steady_rules \<open>parsers that do not get stuck\<close>
named_theorems gains_rules \<open>loop bodies that use up input\<close>
named_theorems looks_rules \<open>calls that only look at the current token\<close>

section \<open>Progress of the lexer\<close>

definition end_token :: "token \<Rightarrow> bool" where
  "end_token t = (tk_Type t = TokenEOF)"

lemma dropWhile_length: "length (dropWhile p s) \<le> length s"
  by (induction s) auto

lemma keyword_types: "(k, t) \<in> set keyword_table \<Longrightarrow> t \<noteq> TokenEOF"
  by (simp add: keyword_table_def) auto

lemma single_types: "map_of single_tokens c = Some t \<Longrightarrow> t \<noteq> TokenEOF"
  by (auto simp: single_tokens_def split: if_splits)

lemma scan_ident_progress:
  assumes "s \<noteq> []" and "ident_char (hd s)" and "scan_ident s = Some (t, s')"
  shows "length s' < length s \<and> \<not> end_token t"
proof -
  have lt: "length (dropWhile ident_char s) < length s"
    using assms(1,2) by (cases s) (auto simp: le_imp_less_Suc dropWhile_length)
  have le: "length (dropWhile ident_char (dropWhile is_space (dropWhile ident_char s))) \<le>
      length (dropWhile ident_char s)"
    by (meson dropWhile_length le_trans)
  show ?thesis
    using assms(3) lt le keyword_types [OF map_of_SomeD]
    by (auto simp: scan_ident_def end_token_def Let_def split: if_splits option.splits)
qed

lemma scan_number_progress:
  assumes "s \<noteq> []" and "isDigit (hd s)" and "scan_number s = (t, s')"
  shows "length s' < length s \<and> \<not> end_token t"
proof -
  define s1 where "s1 = dropWhile isDigit s"
  have lt: "length s1 < length s"
    using assms(1,2) unfolding s1_def by (cases s) (auto simp: le_imp_less_Suc dropWhile_length)
  show ?thesis
    using assms(3) lt dropWhile_length [of isDigit] unfolding scan_number_def Let_def s1_def [symmetric]
    by (auto simp: end_token_def le_less_trans less_SucI split: list.splits if_splits)
      (meson dropWhile_length le_less_trans less_Suc_eq not_less_eq)+
qed

lemma scan_quoted_progress: "scan_quoted q s = (t, s') \<Longrightarrow> length s' \<le> length s \<and> \<not> end_token t"
proof -
  define s1 where "s1 = dropWhile (until_end (\<lambda>c. c \<noteq> q)) s"
  have "length s1 \<le> length s" unfolding s1_def by (rule dropWhile_length)
  then show "scan_quoted q s = (t, s') \<Longrightarrow> ?thesis"
    unfolding scan_quoted_def s1_def [symmetric] by (auto simp: end_token_def split: list.splits if_splits)
qed

text \<open>A token other than the end uses up characters; the end is found again where it was found.\<close>

lemma scan_token_progress:
  assumes "scan_token s = Some (t, s')"
  shows "length s' \<le> length s \<and> (\<not> end_token t \<longrightarrow> length s' < length s) \<and>
    (end_token t \<longrightarrow> scan_token s' = Some (t, s'))"
proof (cases "dropWhile is_space s")
  case Nil
  have "scan_token s = Some (Token TokenEOF [], [])" unfolding scan_token_def Nil by simp
  moreover have "scan_token [] = Some (Token TokenEOF [], [])" by (simp add: scan_token_def)
  ultimately show ?thesis using assms by (auto simp: end_token_def)
next
  case (Cons c s1)
  have le: "Suc (length s1) \<le> length s" using dropWhile_length [of is_space s] Cons by simp
  have ns: "\<not> is_space c" using Cons by (metis dropWhile_eq_Cons_conv)
  show ?thesis
  proof (cases "map_of single_tokens c")
    case (Some t0)
    then have "scan_token s = Some (newToken t0 c, s1)" by (simp add: scan_token_def Cons)
    then show ?thesis using assms le single_types [OF Some] by (auto simp: newToken_def end_token_def)
  next
    case None
    consider "c = CHR 0x27 \<or> c = CHR 0x22" | "c = CHR 0x5C" | "c = NUL_byte"
      | "\<not> (c = CHR 0x27 \<or> c = CHR 0x22)" "c \<noteq> CHR 0x5C" "c \<noteq> NUL_byte" "isLetter c \<or> c = CHR ''_''"
      | "\<not> (c = CHR 0x27 \<or> c = CHR 0x22)" "c \<noteq> CHR 0x5C" "c \<noteq> NUL_byte" "\<not> (isLetter c \<or> c = CHR ''_'')"
      by blast
    then show ?thesis
    proof cases
      case 1
      then have "scan_token s = Some (scan_quoted c s1)" using None by (auto simp: scan_token_def Cons)
      then show ?thesis using assms le scan_quoted_progress [of c s1 t s'] by auto
    next
      case 2
      let ?p = "until_end (\<lambda>c. isLetter c \<or> c = CHR ''?'')"
      have "scan_token s = Some (Token TokenIdentifier (c # takeWhile ?p s1), dropWhile ?p s1)"
        using 2 None by (simp add: scan_token_def Cons Let_def)
      then show ?thesis using assms le dropWhile_length [of ?p s1] by (auto simp: end_token_def)
    next
      case 3
      have "scan_token s = Some (Token TokenEOF [], c # s1)" using 3 None by (simp add: scan_token_def Cons)
      moreover have "scan_token (c # s1) = Some (Token TokenEOF [], c # s1)"
        using 3 None ns by (simp add: scan_token_def)
      ultimately show ?thesis using assms le by (auto simp: end_token_def)
    next
      case 4
      then have "scan_token s = scan_ident (c # s1)" using None by (auto simp: scan_token_def Cons)
      then show ?thesis using assms le scan_ident_progress [of "c # s1" t s'] 4(4)
        by (auto simp: ident_char_def)
    next
      case 5
      show ?thesis
      proof (cases "isDigit c")
        case True
        then have "scan_token s = Some (scan_number (c # s1))" using 5 None by (simp add: scan_token_def Cons)
        then show ?thesis using assms le scan_number_progress [of "c # s1" t s'] True by auto
      next
        case False
        then have "scan_token s = Some (newToken TokenIllegal c, s1)"
          using 5 None by (simp add: scan_token_def Cons)
        then show ?thesis using assms le by (auto simp: newToken_def end_token_def)
      qed
    qed
  qed
qed

text \<open>What is left is a suffix of the text, and only the word \<open>CHUNK\<close> at the end makes the scan panic.\<close>

definition ends_in_chunk :: "string \<Rightarrow> bool" where
  "ends_in_chunk s = (\<exists>r w. s = r @ w \<and> ToUpper w = ''CHUNK'')"

lemma ends_in_chunk_suffix: "ends_in_chunk s \<Longrightarrow> suffix s t \<Longrightarrow> ends_in_chunk t"
  unfolding ends_in_chunk_def suffix_def by (metis append.assoc)

lemma suffix_dropWhile2: "suffix s' (dropWhile p s) \<Longrightarrow> suffix s' s"
  using suffix_dropWhile suffix_order.trans by blast

lemma suffix_dropWhile_Cons: "dropWhile p s = c # s' \<Longrightarrow> suffix s' s \<and> suffix (c # s') s"
  by (metis suffix_dropWhile suffix_ConsD)

lemma scan_quoted_suffix: "suffix (snd (scan_quoted q s)) s"
  unfolding scan_quoted_def
  by (auto split: list.splits simp: Let_def suffix_dropWhile dest: suffix_dropWhile_Cons)

lemma scan_number_suffix: "suffix (snd (scan_number s)) s"
proof (cases "dropWhile isDigit s")
  case (Cons c s1)
  note sf = suffix_dropWhile_Cons [OF Cons]
  show ?thesis
  proof (cases s1)
    case (Cons d s2)
    then show ?thesis
      using sf \<open>dropWhile isDigit s = c # s1\<close>
      by (auto simp: scan_number_def Let_def intro: suffix_order.trans [OF suffix_dropWhile]
        suffix_order.trans [OF suffix_dropWhile2] simp del: dropWhile.simps)
  qed (use sf Cons in \<open>simp add: scan_number_def\<close>)
next
  case Nil
  show ?thesis unfolding scan_number_def Nil Let_def by simp
qed

lemma scan_ident_suffix:
  assumes "scan_ident s = Some (t, s')"
  shows "suffix s' s"
proof -
  define r where "r = dropWhile ident_char s"
  have "s' = r \<or> s' = dropWhile ident_char (dropWhile is_space r)"
    using assms unfolding scan_ident_def r_def [symmetric] Let_def by (auto split: if_split_asm option.split_asm)
  moreover have "suffix r s" unfolding r_def by (rule suffix_dropWhile)
  ultimately show ?thesis by (metis suffix_dropWhile suffix_order.trans)
qed

lemma scan_token_suffix:
  assumes "scan_token s = Some (t, s')"
  shows "suffix s' s"
proof (cases "dropWhile is_space s")
  case (Cons c s1)
  have "suffix s' (c # s1)"
    using assms Cons scan_quoted_suffix [of c s1] scan_number_suffix [of "c # s1"] scan_ident_suffix [of "c # s1"]
    by (auto simp: scan_token_def Let_def intro: suffix_ConsI suffix_dropWhile split: option.splits if_splits)
  then show ?thesis using Cons by (metis suffix_dropWhile2)
next
  case Nil
  have "scan_token s = Some (Token TokenEOF [], [])" unfolding scan_token_def Nil by simp
  then show ?thesis using assms by simp
qed

lemma scan_token_panic:
  assumes "scan_token s = None"
  shows "ends_in_chunk s"
proof -
  obtain c s1 where s1: "dropWhile is_space s = c # s1" "scan_ident (c # s1) = None"
    using assms by (auto simp: scan_token_def Let_def split: list.splits option.splits if_splits)
  let ?w = "takeWhile ident_char (c # s1)"
  have "dropWhile ident_char (c # s1) = [] \<and> ToUpper ?w = ''CHUNK''"
    using s1(2) unfolding scan_ident_def Let_def by (auto split: option.splits if_splits)
  then have "c # s1 = ?w \<and> ToUpper ?w = ''CHUNK''" by (metis takeWhile_dropWhile_id append_Nil2)
  then show ?thesis using s1(1) unfolding ends_in_chunk_def by (metis takeWhile_dropWhile_id)
qed

section \<open>Parsers at a position\<close>

text \<open>
  The lexer stands at the rest of its input, and once the end has been read the look-ahead and
  everything the lexer returns later are the end, too.
\<close>

definition parser_ok :: "parser \<Rightarrow> bool" where
  "parser_ok p =
     (\<exists>s. lexer_at (ps_lexer p) s \<and>
        (end_token (ps_peek p) \<longrightarrow> (\<exists>t. end_token t \<and> scan_token s = Some (t, s))) \<and>
        (end_token (ps_cur p) \<longrightarrow> end_token (ps_peek p)))"

lemma scan_end_stays:
  "scan_token s = Some (t, s') \<Longrightarrow> end_token t \<Longrightarrow> \<exists>t. end_token t \<and> scan_token s' = Some (t, s')"
  using scan_token_progress by blast

lemma budget_at:
  "lexer_at (ps_lexer p) s \<Longrightarrow>
     budget p = length s + (if end_token (ps_peek p) then 0 else 1) + (if end_token (ps_cur p) then 0 else 1)"
  by (auto simp: budget_def lexer_at_def lexer_rest_def cur_type_def peek_type_def end_token_def)

definition text_left :: "parser \<Rightarrow> string" where
  "text_left p = lexer_rest (ps_lexer p)"

definition follows :: "parser \<Rightarrow> parser \<Rightarrow> bool" where
  "follows p q = (parser_ok q \<and> budget q \<le> budget p \<and> suffix (text_left q) (text_left p))"

definition fits :: "parser \<Rightarrow> 'a outcome \<times> parser \<Rightarrow> bool" where
  "fits p r =
     (follows p (snd r) \<and> fst r \<noteq> PStuck \<and> (fst r = PPanic \<longrightarrow> ends_in_chunk (text_left p)))"

definition steady :: "'a parse \<Rightarrow> bool" where
  "steady m = (\<forall>p. parser_ok p \<longrightarrow> fits p (m p))"

lemma follows_refl: "parser_ok p \<Longrightarrow> follows p p"
  by (simp add: follows_def)

lemma fits_trans: "follows p q \<Longrightarrow> fits q r \<Longrightarrow> fits p r"
  unfolding fits_def follows_def
  using suffix_order.trans ends_in_chunk_suffix le_trans by blast

lemma steadyD: "steady m \<Longrightarrow> parser_ok p \<Longrightarrow> m p = (x, q) \<Longrightarrow> fits p (x, q)"
  unfolding steady_def by metis

lemma fits_Done: "fits p (PDone x, q) = follows p q"
  by (simp add: fits_def)

text \<open>
  A body of a loop gains on a position: if it goes on with the loop, it leaves less budget. The
  relation \<open>I\<close> between the start of the body and the position is carried along by the rules; \<open>Q\<close>
  tells the results that matter, for a loop body those that continue.
\<close>

definition gains :: "('a \<Rightarrow> bool) \<Rightarrow> (parser \<Rightarrow> parser \<Rightarrow> bool) \<Rightarrow> 'a parse \<Rightarrow> bool" where
  "gains Q I m =
     (\<forall>p0 p a. parser_ok p \<longrightarrow> I p0 p \<longrightarrow> fst (m p) = PDone a \<longrightarrow> Q a \<longrightarrow> budget (snd (m p)) < budget p0)"

definition moves :: "parser \<Rightarrow> parser \<Rightarrow> bool" where
  "moves p q = (budget q \<le> budget p \<and> (cur_type p \<noteq> TokenEOF \<longrightarrow> budget q < budget p) \<and>
     (cur_type q \<noteq> TokenEOF \<longrightarrow> cur_type p \<noteq> TokenEOF))"

lemma nextToken_step:
  assumes "parser_ok p"
  shows "fits p (nextToken p) \<and>
    (cur_type p \<noteq> TokenEOF \<longrightarrow> fst (nextToken p) = PDone () \<longrightarrow> budget (snd (nextToken p)) < budget p) \<and>
    (cur_type (snd (nextToken p)) \<noteq> TokenEOF \<longrightarrow> cur_type p \<noteq> TokenEOF)"
proof -
  obtain s where s: "lexer_at (ps_lexer p) s"
    "end_token (ps_peek p) \<longrightarrow> (\<exists>t. end_token t \<and> scan_token s = Some (t, s))"
    "end_token (ps_cur p) \<longrightarrow> end_token (ps_peek p)"
    using assms unfolding parser_ok_def by blast
  have sc: "scans (ps_lexer p) (NextToken (ps_lexer p)) (scan_token s)" by (rule NextToken_scans_at [OF s(1)])
  show ?thesis
  proof (cases "NextToken (ps_lexer p)")
    case None
    then have "scan_token s = None" using sc by (auto simp: scans_def)
    with s(2) have ne: "\<not> end_token (ps_peek p)" by auto
    then have "parser_ok (p\<lparr>ps_cur := ps_peek p\<rparr>)" using s(1) unfolding parser_ok_def by auto
    moreover have "ends_in_chunk (text_left p)"
      using scan_token_panic \<open>scan_token s = None\<close> s(1) by (simp add: text_left_def lexer_at_def)
    ultimately show ?thesis using s ne budget_at [OF s(1)] budget_at [of "p\<lparr>ps_cur := ps_peek p\<rparr>" s] None
      by (auto simp: nextToken_def cur_type_def end_token_def fits_def follows_def text_left_def)
  next
    case (Some tl)
    obtain t l where tl: "tl = (t, l)" by (cases tl)
    with Some sc obtain s' where s': "scan_token s = Some (t, s')" "lexer_at l s'"
      by (auto simp: scans_def option_rel_Some1)
    let ?q = "p\<lparr>ps_cur := ps_peek p, ps_peek := t, ps_lexer := l\<rparr>"
    have q: "nextToken p = (PDone (), ?q)" using Some tl by (simp add: nextToken_def)
    note pr = scan_token_progress [OF s'(1)]
    have stay: "end_token (ps_peek p) \<Longrightarrow> end_token t \<and> s' = s" using s(2) s'(1) by auto
    have "parser_ok ?q"
      unfolding parser_ok_def
      using s'(2) pr stay by (intro exI [of _ s']) auto
    moreover have "budget ?q \<le> budget p \<and> (cur_type p \<noteq> TokenEOF \<longrightarrow> budget ?q < budget p)"
      using budget_at [OF s(1)] budget_at [of ?q s'] s'(2) pr s(3) stay
      by (auto simp: cur_type_def end_token_def split: if_splits)
    moreover have "cur_type ?q \<noteq> TokenEOF \<longrightarrow> cur_type p \<noteq> TokenEOF"
      using s(3) by (auto simp: cur_type_def end_token_def)
    moreover have "suffix (text_left ?q) (text_left p)"
      using s(1) s' scan_token_suffix by (simp add: text_left_def lexer_at_def)
    ultimately show ?thesis by (simp add: q fits_def follows_def)
  qed
qed

section \<open>Rules for \<open>steady\<close>\<close>

lemma steady_nextToken [steady_rules]: "steady nextToken"
  using nextToken_step by (auto simp: steady_def)

lemma steady_pret [steady_rules]: "steady (pret x)"
  by (simp add: steady_def pret_def fits_def follows_refl)

lemma steady_perr [steady_rules]: "steady (perr msg)"
  by (simp add: steady_def perr_def fits_def follows_refl)

lemma steady_pbind [steady_rules]:
  assumes "steady m" and "\<And>x. steady (f x)"
  shows "steady (pbind m f)"
  unfolding steady_def
proof (intro allI impI)
  fix p
  assume ok: "parser_ok p"
  obtain x q where m: "m p = (x, q)" by (cases "m p")
  note fit = steadyD [OF assms(1) ok m]
  show "fits p (pbind m f p)"
  proof (cases x)
    case (PDone y)
    then have "follows p q" using fit by (simp add: fits_Done)
    moreover have "fits q (f y q)" using assms(2) [of y] calculation by (simp add: steady_def follows_def)
    ultimately show ?thesis using PDone by (simp add: pbind_def m fits_trans)
  qed (use fit m in \<open>auto simp: pbind_def fits_def\<close>)
qed

lemma steady_pseq [steady_rules]: "steady m \<Longrightarrow> steady n \<Longrightarrow> steady (pseq m n)"
  unfolding pseq_def by (rule steady_pbind)

lemma steady_pget [steady_rules]: "(\<And>x. steady (f x)) \<Longrightarrow> steady (pget g f)"
  by (simp add: steady_def pget_def)

lemma steady_pif [steady_rules]: "steady a \<Longrightarrow> steady b \<Longrightarrow> steady (pif c a b)"
  by (simp add: steady_def pif_def)

lemma steady_pwrap [steady_rules]:
  assumes "steady m"
  shows "steady (pwrap w m)"
  unfolding steady_def
proof (intro allI impI)
  fix p
  assume ok: "parser_ok p"
  obtain x q where m: "m p = (x, q)" by (cases "m p")
  show "fits p (pwrap w m p)"
    using steadyD [OF assms ok m] by (cases x) (simp_all add: pwrap_def m fits_def)
qed

lemma steady_let [steady_rules]: "(\<And>x. steady (f x)) \<Longrightarrow> steady (Let a f)"
  by (simp add: Let_def)

lemma steady_if [steady_rules]: "steady a \<Longrightarrow> steady b \<Longrightarrow> steady (if c then a else b)"
  by simp

lemma steady_prod [steady_rules]: "(\<And>x y. steady (f x y)) \<Longrightarrow> steady (case_prod f z)"
  by (cases z) simp

lemma steady_option [steady_rules]: "steady a \<Longrightarrow> (\<And>x. steady (f x)) \<Longrightarrow> steady (case_option a f z)"
  by (cases z) auto

lemma steady_sum [steady_rules]: "(\<And>x. steady (f x)) \<Longrightarrow> (\<And>x. steady (g x)) \<Longrightarrow> steady (case_sum f g z)"
  by (cases z) auto

lemma steady_param [steady_rules]:
  "(\<And>x. steady (f1 x)) \<Longrightarrow> (\<And>x. steady (f2 x)) \<Longrightarrow> (\<And>x. steady (f3 x)) \<Longrightarrow> (\<And>x. steady (f4 x)) \<Longrightarrow>
   (\<And>x. steady (f5 x)) \<Longrightarrow> (\<And>x. steady (f6 x)) \<Longrightarrow> (\<And>x. steady (f7 x)) \<Longrightarrow> (\<And>x. steady (f8 x)) \<Longrightarrow>
   (\<And>x y. steady (f9 x y)) \<Longrightarrow> steady (case_param f1 f2 f3 f4 f5 f6 f7 f8 f9 z)"
  by (cases z) auto

lemma steady_ploop_n:
  assumes "\<And>a. steady (body a)" and "\<And>a. gains isl (=) (body a)"
  shows "parser_ok p \<Longrightarrow> budget p < n \<Longrightarrow> fits p (ploop_n n body a p)"
proof (induction n arbitrary: a p)
  case 0
  then show ?case by simp
next
  case (Suc n)
  obtain r q where b: "body a p = (r, q)" by (cases "body a p")
  note fit = steadyD [OF assms(1) Suc.prems(1) b]
  show ?case
  proof (cases r)
    case (PDone x)
    then have q: "follows p q" using fit by (simp add: fits_Done)
    show ?thesis
    proof (cases x)
      case (Inl a')
      have "budget q < budget p"
        using assms(2) [of a] Suc.prems(1) b PDone Inl by (auto simp: gains_def)
      with Suc.prems(2) q have "fits q (ploop_n n body a' q)" by (intro Suc.IH) (auto simp: follows_def)
      then show ?thesis using b PDone Inl q by (simp add: pbind_def fits_trans)
    next
      case (Inr y)
      then show ?thesis using b PDone q by (simp add: pbind_def pret_def fits_def)
    qed
  qed (use fit b in \<open>auto simp: pbind_def fits_def\<close>)
qed

lemma steady_ploop [steady_rules]:
  "(\<And>a. steady (body a)) \<Longrightarrow> (\<And>a. gains isl (=) (body a)) \<Longrightarrow> steady (ploop body a)"
  using steady_ploop_n [of body] unfolding steady_def [of "ploop body a"] ploop_def by blast

section \<open>Rules for \<open>gains\<close>\<close>

lemma gains_pret: "(\<And>p0 p. Q x \<Longrightarrow> I p0 p \<Longrightarrow> budget p < budget p0) \<Longrightarrow> gains Q I (pret x)"
  by (simp add: gains_def pret_def)

lemma gains_break: "gains isl I (pret (Inr x))"
  by (simp add: gains_def pret_def)

lemma gains_perr [gains_rules]: "gains Q I (perr msg)"
  by (simp add: gains_def perr_def)

lemma gains_pif [gains_rules]:
  "gains Q (\<lambda>p0 p. I p0 p \<and> c p) a \<Longrightarrow> gains Q (\<lambda>p0 p. I p0 p \<and> \<not> c p) b \<Longrightarrow> gains Q I (pif c a b)"
  by (simp add: gains_def pif_def)

lemma gains_pif_bind [gains_rules]:
  "gains Q (\<lambda>p0 p. I p0 p \<and> c p) (pbind a f) \<Longrightarrow> gains Q (\<lambda>p0 p. I p0 p \<and> \<not> c p) (pbind b f) \<Longrightarrow>
     gains Q I (pbind (pif c a b) f)"
  by (simp add: gains_def pif_def pbind_def)

lemma gains_let_bind [gains_rules]: "gains Q I (pbind (g a) f) \<Longrightarrow> gains Q I (pbind (Let a g) f)"
  by (simp add: Let_def)

lemma gains_pret_bind [gains_rules]: "gains Q I (f x) \<Longrightarrow> gains Q I (pbind (pret x) f)"
  by (simp add: gains_def pret_def pbind_def)

lemma gains_perr_bind [gains_rules]: "gains Q I (pbind (perr msg) f)"
  by (simp add: gains_def perr_def pbind_def)

lemma gains_let [gains_rules]: "(\<And>x. gains Q I (f x)) \<Longrightarrow> gains Q I (Let a f)"
  by (simp add: Let_def)

lemma gains_if [gains_rules]: "gains Q I a \<Longrightarrow> gains Q I b \<Longrightarrow> gains Q I (if c then a else b)"
  by simp

lemma gains_prod [gains_rules]: "(\<And>x y. gains Q I (f x y)) \<Longrightarrow> gains Q I (case_prod f z)"
  by (cases z) simp

lemma gains_option [gains_rules]: "gains Q I a \<Longrightarrow> (\<And>x. gains Q I (f x)) \<Longrightarrow> gains Q I (case_option a f z)"
  by (cases z) auto

lemma gains_pget [gains_rules]: "(\<And>x. gains Q I (f x)) \<Longrightarrow> gains Q I (pget g f)"
  by (simp add: gains_def pget_def)

lemma gains_nextToken:
  assumes "gains Q (\<lambda>p0 q. \<exists>p. I p0 p \<and> moves p q) m"
  shows "gains Q I (pseq nextToken m)"
  unfolding gains_def
proof (intro allI impI)
  fix p0 p a
  assume ok: "parser_ok p" and I: "I p0 p" and r: "fst (pseq nextToken m p) = PDone a" and Qa: "Q a"
  note st = nextToken_step [OF ok]
  obtain x q where n: "nextToken p = (x, q)" by (cases "nextToken p")
  with r have x: "x = PDone ()" by (cases x) (auto simp: pseq_def pbind_def)
  have "moves p q" "parser_ok q" using st n x by (auto simp: moves_def fits_def follows_def)
  moreover have "fst (m q) = PDone a" using r n x by (simp add: pseq_def pbind_def)
  ultimately have "budget (snd (m q)) < budget p0" using assms I Qa unfolding gains_def by blast
  then show "budget (snd (pseq nextToken m p)) < budget p0" using n x by (simp add: pseq_def pbind_def)
qed

text \<open>Any other call keeps what is known of the budget.\<close>

lemma gains_pbind:
  assumes "steady m" and "\<And>x. gains Q (\<lambda>p0 q. \<exists>p. I p0 p \<and> budget q \<le> budget p) (f x)"
  shows "gains Q I (pbind m f)"
  unfolding gains_def
proof (intro allI impI)
  fix p0 p a
  assume ok: "parser_ok p" and I: "I p0 p" and r: "fst (pbind m f p) = PDone a" and Qa: "Q a"
  obtain x q where n: "m p = (x, q)" by (cases "m p")
  with r obtain y where y: "x = PDone y" by (cases x) (auto simp: pbind_def)
  have "parser_ok q" "budget q \<le> budget p"
    using steadyD [OF assms(1) ok n] by (auto simp: fits_def follows_def)
  moreover have "fst (f y q) = PDone a" using r n y by (simp add: pbind_def)
  ultimately have "budget (snd (f y q)) < budget p0" using assms(2) [of y] I Qa unfolding gains_def by blast
  then show "budget (snd (pbind m f p)) < budget p0" using n y by (simp add: pbind_def)
qed

lemma gains_pseq:
  "steady m \<Longrightarrow> gains Q (\<lambda>p0 q. \<exists>p. I p0 p \<and> budget q \<le> budget p) n \<Longrightarrow> gains Q I (pseq m n)"
  unfolding pseq_def by (rule gains_pbind)

text \<open>A call that gains whatever it returns.\<close>

lemma gains_first:
  assumes "gains (\<lambda>_. True) I m" and "steady m" and "\<And>x. gains Q (\<lambda>p0 q. budget q < budget p0) (f x)"
  shows "gains Q I (pbind m f)"
  unfolding gains_def
proof (intro allI impI)
  fix p0 p a
  assume ok: "parser_ok p" and I: "I p0 p" and r: "fst (pbind m f p) = PDone a" and Qa: "Q a"
  obtain x q where n: "m p = (x, q)" by (cases "m p")
  with r obtain y where y: "x = PDone y" by (cases x) (auto simp: pbind_def)
  have "parser_ok q" using steadyD [OF assms(2) ok n] by (auto simp: fits_def follows_def)
  moreover have "budget q < budget p0" using assms(1) ok I n y unfolding gains_def by (metis fst_conv snd_conv)
  moreover have "fst (f y q) = PDone a" using r n y by (simp add: pbind_def)
  ultimately have "budget (snd (f y q)) < budget p0" using assms(3) [of y] Qa unfolding gains_def by blast
  then show "budget (snd (pbind m f p)) < budget p0" using n y by (simp add: pbind_def)
qed

text \<open>A call that only looks at the current token, and fails at the end.\<close>

definition looks :: "'a parse \<Rightarrow> bool" where
  "looks m = (\<forall>p. snd (m p) = p \<and> fst (m p) \<notin> {PStuck, PPanic} \<and> (\<forall>x. fst (m p) = PDone x \<longrightarrow> cur_type p \<noteq> TokenEOF))"

lemma gains_looks:
  assumes "looks m" and "\<And>x. gains Q (\<lambda>p0 p. I p0 p \<and> cur_type p \<noteq> TokenEOF) (f x)"
  shows "gains Q I (pbind m f)"
  unfolding gains_def
proof (intro allI impI)
  fix p0 p a
  assume ok: "parser_ok p" and I: "I p0 p" and r: "fst (pbind m f p) = PDone a" and Qa: "Q a"
  obtain x where n: "m p = (x, p)" using assms(1) by (metis looks_def prod.collapse)
  with r obtain y where y: "x = PDone y" by (cases x) (auto simp: pbind_def)
  then have "cur_type p \<noteq> TokenEOF" using assms(1) n by (metis looks_def fst_conv)
  moreover have "fst (f y p) = PDone a" using r n y by (simp add: pbind_def)
  ultimately have "budget (snd (f y p)) < budget p0" using assms(2) [of y] I ok Qa unfolding gains_def by blast
  then show "budget (snd (pbind m f p)) < budget p0" using n y by (simp add: pbind_def)
qed

lemma steady_looks: "looks m \<Longrightarrow> steady m"
  by (simp add: looks_def steady_def fits_def follows_refl)

lemma looks_pwrap [looks_rules]:
  assumes "looks m"
  shows "looks (pwrap w m)"
  unfolding looks_def
proof
  fix p
  obtain x where "m p = (x, p)" using assms by (metis looks_def prod.collapse)
  then show "snd (pwrap w m p) = p \<and> fst (pwrap w m p) \<notin> {PStuck, PPanic} \<and>
      (\<forall>x. fst (pwrap w m p) = PDone x \<longrightarrow> cur_type p \<noteq> TokenEOF)"
    using assms by (cases x) (auto simp: looks_def pwrap_def dest: spec [of _ p])
qed

lemma looks_parseQuotedString [looks_rules]: "looks parseQuotedString"
  by (simp add: looks_def parseQuotedString_def pif_def perr_def pget_def pret_def)

lemma looks_parseIdentifier [looks_rules]: "looks parseIdentifier"
  by (simp add: looks_def parseIdentifier_def pif_def perr_def pget_def pret_def)

lemma looks_parseVariableValue [looks_rules]: "looks parseVariableValue"
  by (auto simp: looks_def parseVariableValue_def pif_def perr_def pget_def pret_def)

lemma looks_parseNumber [looks_rules]: "looks parseNumber"
  by (auto simp: looks_def parseNumber_def atoi_cur_def pif_def perr_def pget_def pret_def
    split: option.splits if_splits)

lemma looks_parseFloat [looks_rules]: "looks parseFloat"
  by (auto simp: looks_def parseFloat_def pif_def perr_def pget_def pret_def
    split: f64.splits if_splits)

lemma gains_weaken: "gains Q I m \<Longrightarrow> (\<And>p0 p. J p0 p \<Longrightarrow> I p0 p) \<Longrightarrow> gains Q J m"
  unfolding gains_def by blast

lemma gains_tail: "steady m \<Longrightarrow> (\<And>p0 p. I p0 p \<Longrightarrow> budget p < budget p0) \<Longrightarrow> gains Q I m"
  unfolding gains_def steady_def fits_def follows_def by (meson le_less_trans)

lemmas steady_lookers [steady_rules] = looks_rules [THEN steady_looks]

lemmas gains_lookers = looks_rules [THEN gains_looks] looks_rules [THEN looks_pwrap, THEN gains_looks]

text \<open>The steps of a proof for a loop body, in the order in which they are tried.\<close>

lemmas gains_steps =
  gains_break gains_perr gains_rules gains_nextToken gains_lookers gains_pseq gains_pbind gains_pret
  gains_tail

end
