(* ===== verification/CliSteady.thy ===== *)
theory CliSteady
  imports CliCommands CliRules
begin

text \<open>
  Every parsing function of the command line is \<open>steady\<close>: its loops end, and it panics only in
  front of the word \<open>CHUNK\<close> at the end of the text. The functions are taken in the order in which
  they call each other.
\<close>

section \<open>Parser core\<close>

lemma steady_parseQuotedStringList [steady_rules]: "steady parseQuotedStringList"
  unfolding parseQuotedStringList_def
  by (intro steady_rules | rule gains_rules gains_steps | (auto simp: moves_def)[1])+

lemma steady_parseMetaCommand [steady_rules]: "steady parseMetaCommand"
  unfolding parseMetaCommand_def
  by (intro steady_rules | rule gains_rules gains_steps | (auto simp: moves_def)[1])+

lemma steady_group1 [steady_rules]:
  "steady (expectPeek t)"
  "steady expectSemicolon"
  "steady opt_semicolon"
  "steady atoi_cur"
  "steady parseFileSystemCommands"
  "steady (plift r)"
  unfolding expectPeek_def expectSemicolon_def opt_semicolon_def atoi_cur_def
    parseFileSystemCommands_def plift_def
  by (intro steady_rules)+

section \<open>Development commands\<close>

lemma steady_parseGetMetadata [steady_rules]: "steady parseGetMetadata"
  unfolding parseGetMetadata_def
  by (intro steady_rules | rule gains_rules gains_steps | (auto simp: moves_def)[1])+

lemma steady_parseDevRemoveTags [steady_rules]: "steady parseDevRemoveTags"
  unfolding parseDevRemoveTags_def
  by (intro steady_rules | rule gains_rules gains_steps | (auto simp: moves_def)[1])+

lemma steady_parseDevRemoveChunk [steady_rules]: "steady parseDevRemoveChunk"
  unfolding parseDevRemoveChunk_def
  by (intro steady_rules | rule gains_rules gains_steps | (auto simp: moves_def)[1])+

lemma steady_group2 [steady_rules]:
  "steady parseInsertChunksFromFile"
  "steady parseInsertMetadataFromFile"
  "steady parseGetChunk"
  "steady parseUpdateChunk"
  "steady parseDevSetMeta"
  "steady parseDevDeleteMeta"
  "steady parseDevDropChunkStore"
  "steady parseDevDropMetadataStore"
  "steady parseDevCreateChunkStore"
  "steady parseDevCreateMetadataStore"
  "steady parseCreateRole"
  "steady (parseDevChunk explain)"
  unfolding parseInsertChunksFromFile_def parseInsertMetadataFromFile_def parseGetChunk_def
    parseUpdateChunk_def parseDevSetMeta_def parseDevDeleteMeta_def parseDevDropChunkStore_def
    parseDevDropMetadataStore_def parseDevCreateChunkStore_def parseDevCreateMetadataStore_def
    parseCreateRole_def parseDevChunk_def
  by (intro steady_rules)+

lemma steady_group3 [steady_rules]:
  "steady parseDevInsertCommand"
  "steady parseDevGetCommand"
  "steady parseDevUpdateCommand"
  "steady parseDevExplain"
  unfolding parseDevInsertCommand_def parseDevGetCommand_def parseDevUpdateCommand_def
    parseDevExplain_def
  by (intro steady_rules)+

section \<open>User commands\<close>

lemma steady_parseAPICreateProviderInstance [steady_rules]: "steady parseAPICreateProviderInstance"
  unfolding parseAPICreateProviderInstance_def
  by (intro steady_rules | rule gains_rules gains_steps | (auto simp: moves_def)[1])+

lemma steady_group4 [steady_rules]:
  "steady parseAPILoginUser"
  "steady parseAPILogout"
  "steady parseAPIPingServer"
  "steady parseAPIRegister"
  "steady parseAPIListConfigs"
  "steady parseAPIListDatasets"
  "steady (parseAPIListDatasetDocuments datasetID)"
  "steady (parseAPIListDatasetFiles datasetName)"
  "steady (parseAPIListDatasetIngestionTasks datasetName)"
  "steady parseAPIListAgents"
  "steady parseAPIListChats"
  "steady parseAPIListSearches"
  "steady parseAPIListMemories"
  "steady parseAPIListAPIKeys"
  "steady parseAPIListProviders"
  "steady (parseListProviderInstances providerName)"
  "steady (parseListProviderInstanceModels providerName instanceName)"
  "steady (parseListProviderInstanceTasks providerName instanceName)"
  "steady (parseListProviderModels providerName)"
  "steady parseAPIListAllModels"
  "steady parseAPIListIngestionTasks"
  "steady parseAPIListDefaultModels"
  "steady parseAPIListAvailableProviders"
  "steady parseAPIListAPIServers"
  "steady parseAPIListEnvironments"
  unfolding parseAPILoginUser_def parseAPILogout_def parseAPIPingServer_def parseAPIRegister_def
    parseAPIListConfigs_def parseAPIListDatasets_def parseAPIListDatasetDocuments_def
    parseAPIListDatasetFiles_def parseAPIListDatasetIngestionTasks_def parseAPIListAgents_def
    parseAPIListChats_def parseAPIListSearches_def parseAPIListMemories_def parseAPIListAPIKeys_def
    parseAPIListProviders_def parseListProviderInstances_def parseListProviderInstanceModels_def
    parseListProviderInstanceTasks_def parseListProviderModels_def parseAPIListAllModels_def
    parseAPIListIngestionTasks_def parseAPIListDefaultModels_def parseAPIListAvailableProviders_def
    parseAPIListAPIServers_def parseAPIListEnvironments_def
  by (intro steady_rules)+

lemma steady_group5 [steady_rules]:
  "steady parseAPIListDatasetCommands"
  "steady (parseListProviderInstanceCommands providerName)"
  "steady parseAPIListVariables"
  "steady parseAPIShowVersion"
  "steady parseAPIShowKey"
  "steady parseAPIShowCurrent"
  "steady parseAPIShowVariable"
  "steady (parseAPIShowProviderInstanceBalance providerName instanceName)"
  "steady (parseAPIShowProviderInstanceTask providerName instanceName)"
  "steady (parseAPIShowProviderModel providerName)"
  "steady parseAPIShowModel"
  "steady parseAPIShowAdmin"
  "steady parseAPIShowAPI"
  "steady parseShowLogLevel"
  "steady parseAPICreateDataset"
  "steady parseAPICreateChat"
  "steady parseAPICreateSearch"
  "steady parseAPICreateAgent"
  "steady parseAPICreateMemory"
  "steady parseAPICreateKey"
  "steady parseAPIDropDataset"
  "steady parseAPIDropChat"
  "steady parseAPIDropSearch"
  "steady parseAPIDropMemory"
  "steady parseAPIDropAgent"
  unfolding parseAPIListDatasetCommands_def parseListProviderInstanceCommands_def
    parseAPIListVariables_def parseAPIShowVersion_def parseAPIShowKey_def parseAPIShowCurrent_def
    parseAPIShowVariable_def parseAPIShowProviderInstanceBalance_def
    parseAPIShowProviderInstanceTask_def parseAPIShowProviderModel_def parseAPIShowModel_def
    parseAPIShowAdmin_def parseAPIShowAPI_def parseShowLogLevel_def parseAPICreateDataset_def
    parseAPICreateChat_def parseAPICreateSearch_def parseAPICreateAgent_def parseAPICreateMemory_def
    parseAPICreateKey_def parseAPIDropDataset_def parseAPIDropChat_def parseAPIDropSearch_def
    parseAPIDropMemory_def parseAPIDropAgent_def
  by (intro steady_rules)+

lemma steady_group6 [steady_rules]:
  "steady parseAPIListProviderCommands"
  "steady (parseAPIShowProviderInstance providerName)"
  "steady parseAPIShowLogCommands"
  "steady parseAPICreateCommands"
  "steady parseAPIDropAPIKey"
  unfolding parseAPIListProviderCommands_def parseAPIShowProviderInstance_def
    parseAPIShowLogCommands_def parseAPICreateCommands_def parseAPIDropAPIKey_def
  by (intro steady_rules)+

lemma steady_group7 [steady_rules]:
  "steady parseAPIListCommands"
  "steady parseAPIShowProviderCommands"
  "steady parseAPIDropCommands"
  unfolding parseAPIListCommands_def parseAPIShowProviderCommands_def parseAPIDropCommands_def
  by (intro steady_rules)+

lemma steady_group8 [steady_rules]:
  "steady parseAPIShowCommands"
  unfolding parseAPIShowCommands_def
  by (intro steady_rules)+

lemma steady_parseAddProviderInstance [steady_rules]: "steady (parseAddProviderInstance providerName)"
  unfolding parseAddProviderInstance_def
  by (intro steady_rules | rule gains_rules gains_steps | (auto simp: moves_def)[1])+

lemma steady_parse_dimensions [steady_rules]: "steady (parse_dimensions c)"
  unfolding parse_dimensions_def
  by (intro steady_rules | rule gains_rules gains_steps | (auto simp: moves_def)[1])+

lemma steady_parseAPIAlterInstance [steady_rules]: "steady parseAPIAlterInstance"
  unfolding parseAPIAlterInstance_def
  by (intro steady_rules | rule gains_rules gains_steps | (auto simp: moves_def)[1])+

lemma steady_parseIdentifierList [steady_rules]: "steady parseIdentifierList"
  unfolding parseIdentifierList_def
  by (intro steady_rules | rule gains_rules gains_steps | (auto simp: moves_def)[1])+

lemma steady_search_options [steady_rules]: "steady (search_options cmd)"
  unfolding search_options_def by (intro steady_rules)

lemma gains_search_options [gains_rules]: "gains isl (=) (search_options cmd)"
  unfolding search_options_def by (intro steady_rules | rule gains_rules gains_steps | (auto simp: moves_def)[1])+

lemma steady_parseAPIParseLocalFile [steady_rules]: "steady parseAPIParseLocalFile"
  unfolding parseAPIParseLocalFile_def
  by (intro steady_rules | rule gains_rules gains_steps | (auto simp: moves_def)[1])+

lemma steady_group9 [steady_rules]:
  "steady (parseModelNames raw)"
  "steady parseAddAPIServer"
  "steady parseAddAdminServer"
  "steady (parseAPIDeleteProviderInstanceModels providerName instanceName)"
  "steady parseAPIDeleteAdminServer"
  "steady parseAPIDeleteAPIServer"
  "steady parseAPISetVariable"
  "steady parseAPISetDefault"
  "steady parseAPISetAPIKey"
  "steady parseAPISetLogLevel"
  "steady parseAPIResetDefaultModel"
  "steady parseAPIResetKey"
  "steady parseAPIImport"
  "steady (with_value paramName)"
  "steady (with_error paramName what valueToken)"
  "steady parseAPIParseDataset"
  "steady parseAPIModelParse"
  "steady parseAPIParseDocs"
  unfolding parseModelNames_def parseAddAPIServer_def parseAddAdminServer_def
    parseAPIDeleteProviderInstanceModels_def parseAPIDeleteAdminServer_def
    parseAPIDeleteAPIServer_def parseAPISetVariable_def parseAPISetDefault_def parseAPISetAPIKey_def
    parseAPISetLogLevel_def parseAPIResetDefaultModel_def parseAPIResetKey_def parseAPIImport_def
    with_value_def with_error_def parseAPIParseDataset_def parseAPIModelParse_def
    parseAPIParseDocs_def
  by (intro steady_rules)+

lemma steady_group10 [steady_rules]:
  "steady parseAPIAddProvider"
  "steady (model_option name c)"
  "steady (parseAPIDeleteProviderInstance providerName)"
  "steady parseAPIAlterCommands"
  "steady parseAPISetLog"
  "steady parseAPIResetCommands"
  "steady (with_option paramName valueToken paramValue cmd)"
  "steady parseParseCommands"
  unfolding parseAPIAddProvider_def model_option_def parseAPIDeleteProviderInstance_def
    parseAPIAlterCommands_def parseAPISetLog_def parseAPIResetCommands_def with_option_def
    parseParseCommands_def
  by (intro steady_rules)+

lemma gains_model_option: "gains (\<lambda>_. True) (=) (model_option name c)"
  unfolding model_option_def by (intro steady_rules | rule gains_rules gains_steps | (auto simp: moves_def)[1])+

lemma steady_models_loop [steady_rules]: "steady (models_loop wanted a)"
  unfolding models_loop_def by (intro steady_rules | rule gains_rules gains_steps | (auto simp: moves_def)[1])+

lemma gains_models_loop [gains_rules]: "gains isl (=) (models_loop wanted a)"
  unfolding models_loop_def
  by (cases a; simp only: prod.case)
    ((intro steady_rules | rule gains_rules gains_first [OF gains_weaken [OF gains_model_option]] gains_steps | (auto simp: moves_def)[1])+)

lemma steady_with_options [steady_rules]: "steady (with_options cmd)"
  unfolding with_options_def by (intro steady_rules)

lemma gains_with_options [gains_rules]: "gains isl (=) (with_options cmd)"
  unfolding with_options_def by (intro steady_rules | rule gains_rules gains_steps | (auto simp: moves_def)[1])+

lemma steady_group11 [steady_rules]:
  "steady parseAPIDeleteProvider"
  "steady parseAPISetCommands"
  unfolding parseAPIDeleteProvider_def parseAPISetCommands_def
  by (intro steady_rules)+

lemma steady_parseAPIAddModel [steady_rules]: "steady parseAPIAddModel"
  unfolding parseAPIAddModel_def
  by (intro steady_rules | rule gains_rules gains_steps | (auto simp: moves_def)[1])+

lemma steady_search_on_datasets [steady_rules]: "steady (search_on_datasets question)"
  unfolding search_on_datasets_def
  by (intro steady_rules | rule gains_rules gains_steps | (auto simp: moves_def)[1])+

lemma steady_group12 [steady_rules]:
  "steady parseAPIDeleteCommands"
  unfolding parseAPIDeleteCommands_def
  by (intro steady_rules)+

lemma steady_parseAPIRetrieve [steady_rules]: "steady parseAPIRetrieve"
  unfolding parseAPIRetrieve_def
  by (intro steady_rules | rule gains_rules gains_steps | (auto simp: moves_def)[1])+

lemma steady_group13 [steady_rules]:
  "steady parseAPIAddCommands"
  unfolding parseAPIAddCommands_def
  by (intro steady_rules)+

lemma steady_parseAPIASR [steady_rules]: "steady parseAPIASR"
  unfolding parseAPIASR_def
  by (intro steady_rules | rule gains_rules gains_steps | (auto simp: moves_def)[1])+

lemma steady_parseAPITTS [steady_rules]: "steady parseAPITTS"
  unfolding parseAPITTS_def
  by (intro steady_rules | rule gains_rules gains_steps | (auto simp: moves_def)[1])+

lemma steady_parseAPIEmbed [steady_rules]: "steady parseAPIEmbed"
  unfolding parseAPIEmbed_def
  by (intro steady_rules | rule gains_rules gains_steps | (auto simp: moves_def)[1])+

lemma steady_parseAPIRerank [steady_rules]: "steady parseAPIRerank"
  unfolding parseAPIRerank_def
  by (intro steady_rules | rule gains_rules gains_steps | (auto simp: moves_def)[1])+

lemma steady_group14 [steady_rules]:
  "steady parseUserStatement"
  "steady parseAPIEnable"
  "steady parseAPIDisable"
  "steady parseBool"
  "steady parseAPIOCR"
  "steady parseCheckInstanceCommand"
  "steady parseCheckProviderByKeyCommand"
  "steady parseUserStartIngestion"
  "steady parseUserStopIngestion"
  "steady parseAPISaveConfig"
  "steady parseAPIUseModel"
  "steady parseAPIUseAPIServer"
  "steady parseAPIUseAdminServer"
  "steady parseAPIRemoveTask"
  "steady (parseJSONLiteral js)"
  unfolding parseUserStatement_def parseAPIEnable_def parseAPIDisable_def parseBool_def
    parseAPIOCR_def parseCheckInstanceCommand_def parseCheckProviderByKeyCommand_def
    parseUserStartIngestion_def parseUserStopIngestion_def parseAPISaveConfig_def
    parseAPIUseModel_def parseAPIUseAPIServer_def parseAPIUseAdminServer_def parseAPIRemoveTask_def
    parseJSONLiteral_def
  by (intro steady_rules)+

lemma steady_group15 [steady_rules]:
  "steady parseBenchmarkCommand"
  "steady (completions_option name cmd)"
  "steady parseAPICheck"
  "steady parseAPISave"
  "steady parseAPIUseCommands"
  "steady parseAPIRemove"
  "steady (openai_option js name cmd)"
  unfolding parseBenchmarkCommand_def completions_option_def parseAPICheck_def parseAPISave_def
    parseAPIUseCommands_def parseAPIRemove_def openai_option_def
  by (intro steady_rules)+

lemma steady_parseChatCompletionsBody [steady_rules]: "steady parseChatCompletionsBody"
  unfolding parseChatCompletionsBody_def
  by (intro steady_rules | rule gains_rules gains_steps | (auto simp: moves_def)[1])+

lemma steady_parseOpenaiChat [steady_rules]: "steady (parseOpenaiChat js)"
  unfolding parseOpenaiChat_def
  by (intro steady_rules | rule gains_rules gains_steps | (auto simp: moves_def)[1])+

lemma steady_parseAPIChat [steady_rules]: "steady parseAPIChat"
  unfolding parseAPIChat_def
  by (intro steady_rules | rule gains_rules gains_steps | (auto simp: moves_def)[1])+

lemma steady_group16 [steady_rules]:
  "steady parseAPIThink"
  unfolding parseAPIThink_def
  by (intro steady_rules)+

lemma steady_group17 [steady_rules]:
  "steady parseAPIStream"
  unfolding parseAPIStream_def
  by (intro steady_rules)+

section \<open>Administration commands\<close>

lemma steady_group18 [steady_rules]:
  "steady parseAdminLoginUser"
  "steady parseAdminLogout"
  "steady parseAdminPingServer"
  "steady parseAdminListServices"
  "steady parseAdminListRoles"
  "steady parseAdminListResources"
  "steady parseAdminListVariables"
  "steady parseAdminListConfigs"
  "steady parseAdminListEnvironments"
  "steady parseAdminListAvailableProviders"
  "steady (parseAdminListProviderInstances providerName)"
  "steady (parseAdminListProviderInstance providerName)"
  "steady (parseAdminListProviderModels providerName)"
  "steady parseAdminListProviders"
  "steady parseAdminListModels"
  "steady parseAdminListIngestors"
  "steady parseAdminListIngestionTasks"
  "steady parseAdminListAPIServers"
  "steady parseAdminListFiles"
  "steady parseAdminShowService"
  "steady (parseAdminShowActivityCommand userName)"
  "steady (parseAdminShowUserSummaryCommand userName)"
  "steady (parseAdminShowUserDataSetCommand userName)"
  "steady (parseAdminShowUserStorageCommand userName)"
  "steady (parseAdminShowUserQuotaCommand userName)"
  unfolding parseAdminLoginUser_def parseAdminLogout_def parseAdminPingServer_def
    parseAdminListServices_def parseAdminListRoles_def parseAdminListResources_def
    parseAdminListVariables_def parseAdminListConfigs_def parseAdminListEnvironments_def
    parseAdminListAvailableProviders_def parseAdminListProviderInstances_def
    parseAdminListProviderInstance_def parseAdminListProviderModels_def parseAdminListProviders_def
    parseAdminListModels_def parseAdminListIngestors_def parseAdminListIngestionTasks_def
    parseAdminListAPIServers_def parseAdminListFiles_def parseAdminShowService_def
    parseAdminShowActivityCommand_def parseAdminShowUserSummaryCommand_def
    parseAdminShowUserDataSetCommand_def parseAdminShowUserStorageCommand_def
    parseAdminShowUserQuotaCommand_def
  by (intro steady_rules)+

lemma steady_group19 [steady_rules]:
  "steady parseAdminListProviderCommands"
  "steady (parseAdminShowUserIndexCommand userName)"
  "steady (parseAdminShowUserPermissionCommand userName)"
  "steady (parseAdminShowUser userName)"
  "steady parseAdminShowRole"
  "steady parseAdminShowVersion"
  "steady parseAdminShowVariable"
  "steady parseAdminShowCurrent"
  "steady parseAdminShowFingerprint"
  "steady parseAdminShowLicense"
  "steady (parseAdminShowProviderInstanceBalance providerName instanceName)"
  "steady (parseAdminShowProviderModel providerName)"
  "steady parseAdminShowModel"
  "steady parseAdminShowAdminServer"
  "steady parseAdminShowAPI"
  "steady parseCommonShowPoolModel"
  "steady parseAdminCheckLicense"
  "steady (parseAdminCheckProviderInstance providerName)"
  unfolding parseAdminListProviderCommands_def parseAdminShowUserIndexCommand_def
    parseAdminShowUserPermissionCommand_def parseAdminShowUser_def parseAdminShowRole_def
    parseAdminShowVersion_def parseAdminShowVariable_def parseAdminShowCurrent_def
    parseAdminShowFingerprint_def parseAdminShowLicense_def
    parseAdminShowProviderInstanceBalance_def parseAdminShowProviderModel_def
    parseAdminShowModel_def parseAdminShowAdminServer_def parseAdminShowAPI_def
    parseCommonShowPoolModel_def parseAdminCheckLicense_def parseAdminCheckProviderInstance_def
  by (intro steady_rules)+

lemma steady_group20 [steady_rules]:
  "steady parseAdminShowUserCommands"
  "steady (parseAdminShowProviderInstance providerName)"
  "steady parseAdminCheckProvider"
  unfolding parseAdminShowUserCommands_def parseAdminShowProviderInstance_def
    parseAdminCheckProvider_def
  by (intro steady_rules)+

lemma steady_group21 [steady_rules]:
  "steady parseAdminShowProvider"
  "steady parseAdminCheck"
  unfolding parseAdminShowProvider_def parseAdminCheck_def
  by (intro steady_rules)+

lemma steady_parseAdminAlterProvider [steady_rules]: "steady parseAdminAlterProvider"
  unfolding parseAdminAlterProvider_def
  by (intro steady_rules | rule gains_rules gains_steps | (auto simp: moves_def)[1])+

lemma steady_parseAdminIdentifierList [steady_rules]: "steady parseAdminIdentifierList"
  unfolding parseAdminIdentifierList_def
  by (intro steady_rules | rule gains_rules gains_steps | (auto simp: moves_def)[1])+

lemma steady_group22 [steady_rules]:
  "steady parseAdminRemoveIngestionTasks"
  "steady (parseAdminCreateUserAPIKeyCommand userName)"
  "steady parseAdminCreateRole"
  "steady (parseAdminDropUserAPIKey userName)"
  "steady parseAdminDropRole"
  "steady parseAdminActivateUser"
  "steady parseAdminAlterRole"
  "steady parseAdminGrantAdmin"
  "steady parseAdminGrantPermission"
  "steady parseAdminRevokeAdmin"
  "steady parseAdminRevokePermission"
  "steady parseAdminSetLicense"
  "steady parseAdminSetVariable"
  "steady parseAdminSetRoleDefaultModel"
  "steady parseAdminSetLogLevel"
  "steady parseAdminResetCommand"
  "steady parseAdminBenchmarkCommand"
  "steady parseAdminStartService"
  "steady parseAdminShutdownService"
  "steady parseAdminShutdownIngestor"
  "steady parseAdminRestart"
  "steady (parseAdminAddModel providerName instanceName)"
  unfolding parseAdminRemoveIngestionTasks_def parseAdminCreateUserAPIKeyCommand_def
    parseAdminCreateRole_def parseAdminDropUserAPIKey_def parseAdminDropRole_def
    parseAdminActivateUser_def parseAdminAlterRole_def parseAdminGrantAdmin_def
    parseAdminGrantPermission_def parseAdminRevokeAdmin_def parseAdminRevokePermission_def
    parseAdminSetLicense_def parseAdminSetVariable_def parseAdminSetRoleDefaultModel_def
    parseAdminSetLogLevel_def parseAdminResetCommand_def parseAdminBenchmarkCommand_def
    parseAdminStartService_def parseAdminShutdownService_def parseAdminShutdownIngestor_def
    parseAdminRestart_def parseAdminAddModel_def
  by (intro steady_rules)+

lemma steady_group23 [steady_rules]:
  "steady parseAdminCreateUser"
  "steady parseAdminDropUser"
  "steady parseAdminAlterUser"
  "steady parseAdminGrantCommands"
  "steady parseAdminRevokeCommands"
  "steady parseAdminSetLog"
  "steady parseAdminShutdownCommands"
  "steady (parseAdminAddModelInstance providerName)"
  unfolding parseAdminCreateUser_def parseAdminDropUser_def parseAdminAlterUser_def
    parseAdminGrantCommands_def parseAdminRevokeCommands_def parseAdminSetLog_def
    parseAdminShutdownCommands_def parseAdminAddModelInstance_def
  by (intro steady_rules)+

lemma steady_group24 [steady_rules]:
  "steady parseAdminCreateCommand"
  "steady parseAdminDropCommands"
  "steady parseAdminAlterCommands"
  "steady parseAdminSetCommand"
  "steady parseAdminAddModelProvider"
  unfolding parseAdminCreateCommand_def parseAdminDropCommands_def parseAdminAlterCommands_def
    parseAdminSetCommand_def parseAdminAddModelProvider_def
  by (intro steady_rules)+

lemma steady_group25 [steady_rules]:
  "steady parseAdminAddCommand"
  unfolding parseAdminAddCommand_def
  by (intro steady_rules)+

lemma steady_parseAdminListUsersCommand [steady_rules]: "steady parseAdminListUsersCommand"
  unfolding parseAdminListUsersCommand_def
  by (intro steady_rules | rule gains_rules gains_steps | (auto simp: moves_def)[1])+

lemma steady_parseAdminShowUsersActivity [steady_rules]: "steady parseAdminShowUsersActivity"
  unfolding parseAdminShowUsersActivity_def
  by (intro steady_rules | rule gains_rules gains_steps | (auto simp: moves_def)[1])+

lemma steady_ptry [steady_rules]: "steady m \<Longrightarrow> steady (ptry m)"
  unfolding steady_def ptry_def by (fastforce simp: fits_def split: prod.splits outcome.splits)

lemma steady_parseAdminPurgeUsersCommand [steady_rules]: "steady (parseAdminPurgeUsersCommand preview)"
  unfolding parseAdminPurgeUsersCommand_def
  by (intro steady_rules | rule gains_rules gains_steps | (auto simp: moves_def)[1])+

lemma steady_group26 [steady_rules]:
  "steady (parseAdminListUserIngestionTasks userName)"
  "steady (parseAdminListUserProviderInstanceModels userName)"
  "steady (parseAdminListUserDefaultModels userName)"
  "steady parseAdminShowUsersPlan"
  "steady parseAdminShowData"
  "steady parseAdminShowQuota"
  "steady parseAdminShowTasks"
  "steady parseAdminShowLogLevel"
  "steady parseAdminStopUserCommand"
  "steady (parseAdminDeleteModel providerName instanceName)"
  "steady parseAdminEnableModel"
  "steady parseAdminDisableModel"
  "steady parseAdminSaveConfig"
  "steady parseAdminUseAPIServer"
  "steady parseAdminUseAdminServer"
  "steady parseStartIngestion"
  "steady parseStopIngestion"
  "steady parseAdminIngestCommand"
  "steady parseAdminRemoveUserCommand"
  "steady (parseAdminPurgeOrphanCommand preview)"
  "steady (parseAdminPurgeUserCommand preview)"
  unfolding parseAdminListUserIngestionTasks_def parseAdminListUserProviderInstanceModels_def
    parseAdminListUserDefaultModels_def parseAdminShowUsersPlan_def parseAdminShowData_def
    parseAdminShowQuota_def parseAdminShowTasks_def parseAdminShowLogLevel_def
    parseAdminStopUserCommand_def parseAdminDeleteModel_def parseAdminEnableModel_def
    parseAdminDisableModel_def parseAdminSaveConfig_def parseAdminUseAPIServer_def
    parseAdminUseAdminServer_def parseStartIngestion_def parseStopIngestion_def
    parseAdminIngestCommand_def parseAdminRemoveUserCommand_def parseAdminPurgeOrphanCommand_def
    parseAdminPurgeUserCommand_def
  by (intro steady_rules)+

lemma steady_group27 [steady_rules]:
  "steady parseAdminListUserCommand"
  "steady parseAdminShowUsersCommands"
  "steady parseAdminShowLogCommands"
  "steady parseAdminStopIngestionTasks"
  "steady (parseAdminDeleteModelInstance providerName)"
  "steady parseAdminEnableCommand"
  "steady parseAdminDisableCommand"
  "steady parseAdminSaveCommand"
  "steady parseAdminUseCommand"
  "steady parseMessageQueueCommand"
  "steady parseAdminRemoveCommands"
  "steady parseAdminPurgeCommand"
  unfolding parseAdminListUserCommand_def parseAdminShowUsersCommands_def
    parseAdminShowLogCommands_def parseAdminStopIngestionTasks_def parseAdminDeleteModelInstance_def
    parseAdminEnableCommand_def parseAdminDisableCommand_def parseAdminSaveCommand_def
    parseAdminUseCommand_def parseMessageQueueCommand_def parseAdminRemoveCommands_def
    parseAdminPurgeCommand_def
  by (intro steady_rules)+

lemma steady_group28 [steady_rules]:
  "steady parseAdminListCommands"
  "steady parseAdminShowCommands"
  "steady parseAdminDeleteProvider"
  unfolding parseAdminListCommands_def parseAdminShowCommands_def parseAdminDeleteProvider_def
  by (intro steady_rules)+

lemma steady_group29 [steady_rules]:
  "steady parseAdminDeleteCommands"
  unfolding parseAdminDeleteCommands_def
  by (intro steady_rules)+

section \<open>Whole lines\<close>

lemma steady_group30 [steady_rules]:
  "steady parseAdminCommand"
  "steady (parseUserCommand js)"
  unfolding parseAdminCommand_def parseUserCommand_def
  by (intro steady_rules)+

lemma steady_parseCommand [steady_rules]: "steady (parseCommand js mode)"
  unfolding parseCommand_def by (cases mode) (auto intro!: steady_rules)

lemma steady_group31 [steady_rules]:
  "steady (Parse js mode)"
  unfolding Parse_def
  by (intro steady_rules)+

end
