(* ===== verification/CliProps.thy ===== *)
theory CliProps
  imports CliSteady
begin

text \<open>
  Properties of the command line's lexer and parser: the lexer with its positions is the scanner of
  the text, every line is parsed in finitely many steps, and the only panic is the one of the
  look-ahead after the word \<open>CHUNK\<close>.
\<close>

section \<open>The tokens of a text\<close>

text \<open>The first \<open>n\<close> tokens, by the lexer and by the scanner; None is a panic on the way.\<close>

fun lex_tokens :: "nat \<Rightarrow> lexer \<Rightarrow> (token list) option" where
  "lex_tokens 0 l = Some []"
| "lex_tokens (Suc n) l =
     (case NextToken l of None \<Rightarrow> None | Some (t, l') \<Rightarrow> map_option ((#) t) (lex_tokens n l'))"

fun scan_tokens :: "nat \<Rightarrow> string \<Rightarrow> (token list) option" where
  "scan_tokens 0 s = Some []"
| "scan_tokens (Suc n) s =
     (case scan_token s of None \<Rightarrow> None | Some (t, s') \<Rightarrow> map_option ((#) t) (scan_tokens n s'))"

lemma NewLexer_at: "lexer_at (NewLexer s) s"
  by (auto simp: NewLexer_def lexer_at_def lexer_ok_def lexer_rest_def readChar_def char_at_def)

lemma lex_tokens_at: "lexer_at l s \<Longrightarrow> lex_tokens n l = scan_tokens n s"
proof (induction n arbitrary: l s)
  case (Suc n)
  have "scans l (NextToken l) (scan_token s)" by (rule NextToken_scans_at [OF Suc.prems])
  then show ?case
    using Suc.IH by (cases "NextToken l"; cases "scan_token s") (auto simp: scans_def)
qed simp

text \<open>
  C34: The lexer, which moves a position, a reading position and a current byte over the input,
  delivers exactly the tokens that the scanner reads off the list of characters, in the same order
  and with the same panic, for every text and any number of tokens.
\<close>

theorem lexer_equals_scanner: "lex_tokens n (NewLexer s) = scan_tokens n s"
  by (rule lex_tokens_at [OF NewLexer_at])

section \<open>Parsing ends\<close>

lemma NewParser_fits:
  obtains x p where "NewParser s = (x, p)" "x \<noteq> PStuck" "x = PPanic \<Longrightarrow> ends_in_chunk s"
    "parser_ok p" "suffix (text_left p) s"
proof -
  let ?p0 = "\<lparr>ps_lexer = NewLexer s, ps_cur = Token 0 [], ps_peek = Token 0 [], ps_original = s\<rparr>"
  have "parser_ok ?p0" using NewLexer_at by (auto simp: parser_ok_def end_token_def)
  moreover have "steady (pseq nextToken nextToken)" by (intro steady_rules)
  moreover have "text_left ?p0 = s" using NewLexer_at [of s] by (simp add: text_left_def lexer_at_def)
  moreover obtain x p where xp: "NewParser s = (x, p)" by (cases "NewParser s")
  ultimately have "fits ?p0 (x, p)" "text_left ?p0 = s" by (auto simp: steady_def NewParser_def)
  then show thesis using that [OF xp] by (auto simp: fits_def follows_def)
qed

lemma parse_line_fits:
  "parse_line js mode s \<noteq> PStuck \<and> (parse_line js mode s = PPanic \<longrightarrow> ends_in_chunk s)"
proof -
  obtain x p where x: "NewParser s = (x, p)" "x \<noteq> PStuck" "x = PPanic \<Longrightarrow> ends_in_chunk s"
    "parser_ok p" "suffix (text_left p) s" using NewParser_fits [of s] by blast
  have "steady (Parse js mode)" by (intro steady_rules)
  then have "fits p (Parse js mode p)" using x(4) by (simp add: steady_def)
  then have "fst (Parse js mode p) \<noteq> PStuck"
    "fst (Parse js mode p) = PPanic \<Longrightarrow> ends_in_chunk s"
    using ends_in_chunk_suffix x(5) by (auto simp: fits_def)
  then show ?thesis using x(1-3) by (cases x) (auto simp: parse_line_def)
qed

text \<open>
  C9: Parsing ends for every line, in every mode and with every JSON decoder: every loop of
  the parsing functions is left after at most as many rounds as there is input, although most of
  them test neither for the end of the input nor for a repeated token.
\<close>

theorem parse_line_terminates: "parse_line js mode s \<noteq> PStuck"
  using parse_line_fits by blast

text \<open>
  C37: The command line panics on no line but one that ends in the word \<open>CHUNK\<close>, in any case of its
  letters: looking ahead for \<open>STORE\<close> then slices beyond the end of the input.
\<close>

theorem panic_only_at_chunk: "parse_line js mode s = PPanic \<Longrightarrow> ends_in_chunk s"
  using parse_line_fits by blast

lemma NewParser_panics: "fst (NewParser ''GET chunk'') = PPanic"
  by code_simp

theorem panic_only_at_chunk_witness:
  "parse_line (\<lambda>_. None) APIMode ''GET chunk'' = PPanic \<and> ends_in_chunk ''GET chunk''"
proof -
  have "parse_line (\<lambda>_. None) APIMode ''GET chunk'' = PPanic"
    using NewParser_panics by (cases "NewParser ''GET chunk''") (simp add: parse_line_def)
  then show ?thesis using panic_only_at_chunk by blast
qed

end
