(* ===== verification/CliDispatch.thy ===== *)
theory CliDispatch
  imports CliCommands
begin

text \<open>
  What the command line does with a parsed command, \<open>cli/cli_http.go\<close> and \<open>execute\<close> of
  \<open>cli/cli.go\<close>: the switch of each mode over the type of the command is a table that names the method
  that is called, with its further arguments, or the error that is returned. The methods themselves
  call the server and are not modelled.
\<close>

datatype handling = Handler string "string list" | Refused string

definition user_handlers :: "(string \<times> handling) list" where
  "user_handlers = [
    (''api_register_user'', Handler ''RegisterUser'' []),
    (''api_login_user'', Handler ''LoginUserByCommand'' []),
    (''api_logout'', Handler ''Logout'' []),
    (''api_ping_server'', Handler ''PingByCommand'' []),
    (''api_list_configs'', Handler ''ListConfigs'' []),
    (''api_set_log_level'', Handler ''APISetLogLevelCommand'' []),
    (''benchmark'', Handler ''RunBenchmark'' []),
    (''api_list_datasets'', Handler ''APIListDatasetsCommand'' []),
    (''api_list_dataset_documents'', Handler ''APIListDatasetDocumentsCommand'' []),
    (''api_list_dataset_files'', Handler ''APIListDatasetFilesCommand'' []),
    (''api_list_agents'', Handler ''APIListAgentsCommand'' []),
    (''api_list_chats'', Handler ''APIListChatsCommand'' []),
    (''api_list_searches'', Handler ''APIListSearchesCommand'' []),
    (''api_list_memories'', Handler ''APIListMemoriesCommand'' []),
    (''search_on_datasets'', Handler ''SearchOnDatasets'' []),
    (''search_help'', Handler ''printSearchHelp'' []),
    (''api_create_api_key'', Handler ''APICreateAPIKeyCommand'' []),
    (''api_create_dataset'', Handler ''APICreateDatasetCommand'' []),
    (''api_create_agent'', Handler ''APICreateAgentCommand'' []),
    (''api_create_chat'', Handler ''APICreateChatCommand'' []),
    (''api_create_search'', Handler ''APICreateSearchCommand'' []),
    (''api_create_memory'', Handler ''APICreateMemoryCommand'' []),
    (''api_list_api_keys'', Handler ''APIListAPIKeysCommand'' []),
    (''api_delete_api_key'', Handler ''APIDeleteAPIKeyCommand'' []),
    (''api_set_api_key'', Handler ''APISetAPIKeyCommand'' []),
    (''api_set_variable'', Handler ''APISetVariableCommand'' []),
    (''api_show_variable'', Handler ''APIShowVariableCommand'' []),
    (''api_unset_api_key'', Handler ''APIUnsetAPIKeyCommand'' []),
    (''api_show_version'', Handler ''APIShowVersionCommand'' []),
    (''api_show_api_key'', Handler ''APIShowAPIKeyCommand'' []),
    (''api_show_current'', Handler ''CommonShowCurrentCommand'' []),
    (''api_list_available_providers'', Handler ''CommonAvailableProvidersCommand'' []),
    (''api_show_provider'', Handler ''CommonShowProviderCommand'' []),
    (''api_show_provider_instance'', Handler ''CommonShowProviderInstanceCommand'' []),
    (''api_show_provider_instance_balance'', Handler ''CommonShowProviderInstanceBalanceCommand'' []),
    (''api_show_provider_instance_task'', Handler ''APIShowProviderInstanceTaskCommand'' []),
    (''api_show_provider_model'', Handler ''CommonShowProviderModelCommand'' []),
    (''api_list_provider_models'', Handler ''CommonListModelsCommand'' []),
    (''api_list_provider_instance_models'', Handler ''CommonListInstanceModelsCommand'' []),
    (''api_list_provider_instance_models_sync'', Handler ''CommonListInstanceModelsSyncCommand'' []),
    (''api_list_provider_instance_tasks'', Handler ''APIListModelInstanceTasksCommand'' []),
    (''api_show_model'', Handler ''CommonShowModelCommand'' []),
    (''api_list_all_models'', Handler ''CommonListAllModels'' []),
    (''api_add_provider'', Handler ''APIAddProviderCommand'' []),
    (''api_list_providers'', Handler ''APIListProvidersCommand'' []),
    (''api_delete_provider'', Handler ''APIDeleteProviderCommand'' []),
    (''api_delete_provider_instance'', Handler ''APIDeleteProviderInstanceCommand'' []),
    (''api_drop_dataset'', Handler ''APIDropDatasetCommand'' []),
    (''api_drop_chat'', Handler ''APIDropChatCommand'' []),
    (''api_drop_search'', Handler ''APIDropSearchCommand'' []),
    (''api_drop_memory'', Handler ''APIDropMemoryCommand'' []),
    (''api_drop_agent'', Handler ''APIDropAgentCommand'' []),
    (''api_add_provider_instance'', Handler ''APIAddProviderInstanceCommand'' []),
    (''api_list_provider_instances'', Handler ''CommonListProviderInstancesCommand'' []),
    (''api_alter_provider_instance'', Handler ''CommonAlterProviderInstanceCommand'' []),
    (''api_delete_provider_instance_model'', Handler ''APIDeleteProviderInstanceModelCommand'' []),
    (''enable_model'', Handler ''CommonEnableOrDisableModelCommand'' [''enable'']),
    (''disable_model'', Handler ''CommonEnableOrDisableModelCommand'' [''disable'']),
    (''api_add_custom_model'', Handler ''APIAddCustomModelCommand'' []),
    (''api_chat_to_model'', Handler ''APIChatToModelCommand'' []),
    (''api_openai_chat'', Handler ''APIOpenaiChatCommand'' []),
    (''openai_chat_help'', Handler ''printOpenaiChatHelp'' []),
    (''api_embed_user_text'', Handler ''EmbedUserTextCommand'' []),
    (''api_rarank_user_document'', Handler ''APIRerankUserDocumentCommand'' []),
    (''chat completions'', Handler ''ChatCompletions'' []),
    (''chat completions help'', Handler ''printChatCompletionsHelp'' []),
    (''tts_user_command'', Handler ''APITTSUserCommand'' []),
    (''asr_user_command'', Handler ''APIASRUserCommand'' []),
    (''ocr_user_command'', Handler ''APIOCRUserCommand'' []),
    (''api_model_parse_file'', Handler ''APIModelParseFileCommand'' []),
    (''check_provider_connection'', Handler ''CommonCheckProviderConnectionCommand'' []),
    (''check_provider_with_key'', Handler ''CommonCheckProviderWithKeyCommand'' []),
    (''api_use_model'', Handler ''APIUseModelCommand'' []),
    (''api_use_api_server'', Handler ''CommonUseAPIServerCommand'' []),
    (''api_use_admin_server'', Handler ''CommonUseAdminServerCommand'' []),
    (''api_set_default_model'', Handler ''APISetDefaultModelCommand'' []),
    (''api_reset_default_model'', Handler ''APIResetDefaultModelCommand'' []),
    (''api_list_default_models'', Handler ''APIListDefaultModelsCommand'' []),
    (''api_parse_documents'', Handler ''APIParseDocumentsCommand'' []),
    (''api_start_ingestion'', Handler ''APIStartIngestionCommand'' []),
    (''api_stop_ingestion'', Handler ''APIStopIngestionCommand'' []),
    (''api_list_ingestion_tasks'', Handler ''APIListIngestionTasks'' []),
    (''api_remove_task'', Handler ''APIRemoveTaskCommand'' []),
    (''user_parse_local_file_command'', Handler ''APIParseLocalFileCommand'' []),
    (''api_show_admin_server'', Handler ''CommonShowAdminServerCommand'' []),
    (''api_show_api_server'', Handler ''CommonShowAPIServerCommand'' []),
    (''api_show_log_level'', Handler ''APIShowLogLevelCommand'' []),
    (''api_list_api_servers'', Handler ''CommonListAPIServersCommand'' []),
    (''api_list_environments'', Handler ''APIListEnvironmentsCommand'' []),
    (''api_list_variables'', Handler ''APIListVariablesCommand'' []),
    (''api_add_api_server'', Handler ''AddAPIServerCommand'' []),
    (''api_delete_api_server'', Handler ''DeleteAPIServerCommand'' []),
    (''api_add_admin_server'', Handler ''AddAdminServerCommand'' []),
    (''api_delete_admin_server'', Handler ''DeleteAdminServerCommand'' []),
    (''api_save_config_command'', Handler ''CommonSaveServerConfigCommand'' []),
    (''file_system_command'', Handler ''ExecuteFilesystemCommand'' []),
    (''dev_chunk'', Handler ''DevChunkCommand'' []),
    (''dev_create_chunk_store'', Handler ''DevCreateChunkStoreCommand'' []),
    (''dev_drop_chunk_store'', Handler ''DevDropChunkStoreCommand'' []),
    (''dev_create_metadata_store'', Handler ''DevCreateMetadataStoreCommand'' []),
    (''dev_drop_metadata_store'', Handler ''DevDropMetadataStoreCommand'' []),
    (''dev_insert_chunks_from_file'', Handler ''DevInsertChunksFromFileCommand'' []),
    (''dev_insert_metadata_from_file'', Handler ''DevInsertMetadataFromFileCommand'' []),
    (''dev_update_chunk'', Handler ''DevUpdateChunkCommand'' []),
    (''dev_get_chunk'', Handler ''DevGetChunkCommand'' []),
    (''dev_set_meta'', Handler ''DevSetMetaCommand'' []),
    (''dev_delete_meta'', Handler ''DevDeleteMetaCommand'' []),
    (''dev_rm_tags'', Handler ''DevRmTagsCommand'' []),
    (''dev_remove_chunks'', Handler ''DevRemoveChunksCommand'' []),
    (''dev_get_metadata'', Handler ''DevGetMetadataCommand'' [])]"

definition admin_handlers :: "(string \<times> handling) list" where
  "admin_handlers = [
    (''admin_login_user'', Handler ''LoginUserByCommand'' []),
    (''admin_logout'', Handler ''Logout'' []),
    (''admin_ping_server'', Handler ''PingByCommand'' []),
    (''benchmark'', Handler ''RunBenchmark'' []),
    (''admin_list_services'', Handler ''AdminListServicesCommand'' []),
    (''admin_start_service'', Handler ''AdminStartServiceCommand'' []),
    (''admin_restart_service'', Handler ''AdminRestartServiceCommand'' []),
    (''admin_shutdown_service'', Handler ''AdminShutdownServiceCommand'' []),
    (''admin_grant_user_admin'', Handler ''AdminGrantUserAdminCommand'' []),
    (''admin_revoke_user_admin'', Handler ''AdminRevokeUserAdminCommand'' []),
    (''admin_grant_role_permission'', Handler ''AdminGrantRolePermissionCommand'' []),
    (''admin_revoke_role_permission'', Handler ''AdminRevokeRolePermissionCommand'' []),
    (''admin_show_role_permission'', Handler ''AdminShowRolePermissionCommand'' []),
    (''admin_create_user'', Handler ''AdminCreateUserCommand'' []),
    (''admin_create_user_api_key'', Handler ''AdminCreateUserAPIKeyCommand'' []),
    (''admin_create_role'', Handler ''AdminCreateRoleCommand'' []),
    (''admin_activate_user'', Handler ''AdminActivateUser'' []),
    (''admin_alter_user'', Handler ''AdminAlterUserPassword'' []),
    (''admin_alter_role'', Handler ''AdminAlterRole'' []),
    (''admin_alter_provider_instance'', Handler ''CommonAlterProviderInstanceCommand'' []),
    (''admin_drop_user'', Handler ''AdminDropUserCommand'' []),
    (''admin_drop_user_api_key'', Handler ''AdminDropUserAPIKeyCommand'' []),
    (''admin_drop_role'', Handler ''AdminDropRoleCommand'' []),
    (''admin_show_service'', Handler ''AdminShowService'' []),
    (''admin_show_version_command'', Handler ''AdminShowVersionCommand'' []),
    (''admin_show_current'', Handler ''CommonShowCurrentCommand'' []),
    (''admin_list_variables'', Handler ''AdminListVariablesCommand'' []),
    (''admin_list_configs'', Handler ''AdminListConfigsCommand'' []),
    (''admin_list_environments'', Handler ''AdminListEnvironmentsCommand'' []),
    (''admin_show_variable'', Handler ''AdminShowVariable'' []),
    (''admin_set_license'', Handler ''AdminSetLicenseCommand'' []),
    (''admin_set_license_config'', Handler ''AdminSetLicenseConfigCommand'' []),
    (''admin_set_variable'', Handler ''AdminSetVariableCommand'' []),
    (''admin_set_role_default_model'', Handler ''AdminSetRoleDefaultModelsCommand'' []),
    (''admin_set_log_level'', Handler ''AdminSetLogLevelCommand'' []),
    (''admin_reset_role_default_model'', Handler ''AdminResetRoleDefaultModelsCommand'' []),
    (''list_user_datasets'', Handler ''ListUserDatasets'' []),
    (''admin_list_resources_command'', Handler ''AdminListResourcesCommand'' []),
    (''admin_list_roles_command'', Handler ''AdminListRolesCommand'' []),
    (''admin_list_available_providers'', Handler ''CommonAvailableProvidersCommand'' []),
    (''admin_show_provider'', Handler ''CommonShowProviderCommand'' []),
    (''admin_show_provider_instance'', Handler ''CommonShowProviderInstanceCommand'' []),
    (''admin_show_provider_instance_balance'', Handler ''CommonShowProviderInstanceBalanceCommand'' []),
    (''admin_show_provider_model'', Handler ''CommonShowProviderModelCommand'' []),
    (''admin_list_provider_models'', Handler ''CommonListModelsCommand'' []),
    (''admin_list_provider_instance_models'', Handler ''CommonListInstanceModelsCommand'' []),
    (''admin_list_provider_instances'', Handler ''CommonListProviderInstancesCommand'' []),
    (''admin_show_model'', Handler ''CommonShowModelCommand'' []),
    (''admin_list_providers'', Handler ''AdminListProvidersCommand'' []),
    (''admin_list_all_models'', Handler ''CommonListAllModels'' []),
    (''list_admin_tasks'', Handler ''ListAdminTasks'' []),
    (''admin_list_ingestors'', Handler ''ListAdminIngestors'' []),
    (''admin_stop_ingestion_tasks'', Handler ''AdminStopIngestionCommand'' []),
    (''admin_remove_ingestion_tasks'', Handler ''AdminRemoveIngestionCommand'' []),
    (''admin_shutdown_ingestor_command'', Handler ''AdminShutdownIngestor'' []),
    (''list_admin_ingestion_tasks'', Handler ''ListAdminIngestionTasks'' []),
    (''user_list_message_queue_command'', Handler ''UserListMessageQueueCommand'' []),
    (''user_publish_message_command'', Handler ''UserPublishMessageCommand'' []),
    (''user_pull_message_command'', Handler ''UserPullMessageCommand'' []),
    (''user_show_message_queue_command'', Handler ''UserShowMessageQueueCommand'' []),
    (''admin_check_license'', Handler ''AdminCheckLicenseCommand'' []),
    (''admin_check_provider_with_key'', Handler ''CommonCheckProviderWithKeyCommand'' []),
    (''admin_check_provider_instance'', Handler ''CommonCheckProviderConnectionCommand'' []),
    (''admin_show_fingerprint'', Handler ''AdminShowFingerprintCommand'' []),
    (''admin_show_license'', Handler ''AdminShowLicenseCommand'' []),
    (''admin_show_user'', Handler ''AdminShowUserCommand'' []),
    (''admin_show_role'', Handler ''AdminShowRoleCommand'' []),
    (''admin_show_role_default_models'', Handler ''AdminShowRoleDefaultModelsCommand'' []),
    (''admin_show_user_activity_command'', Handler ''AdminShowUserActivityCommand'' []),
    (''admin_show_user_summary_command'', Handler ''AdminShowUserSummaryCommand'' []),
    (''admin_show_user_dataset_command'', Handler ''AdminShowUserDatasetCommand'' []),
    (''admin_show_user_storage_command'', Handler ''AdminShowUserStorageCommand'' []),
    (''admin_show_user_quota_command'', Handler ''AdminShowUserQuotaCommand'' []),
    (''admin_show_user_index_command'', Handler ''AdminShowUserIndexCommand'' []),
    (''admin_show_user_permission_command'', Handler ''AdminShowUserPermissionCommand'' []),
    (''admin_show_users_summary_command'', Handler ''AdminShowUsersSummaryCommand'' []),
    (''admin_show_users_activity_command'', Handler ''AdminShowUsersActivityCommand'' []),
    (''admin_show_users_plan_command'', Handler ''AdminShowUsersPlanCommand'' []),
    (''admin_list_users_command'', Handler ''AdminListUsersCommand'' []),
    (''admin_list_users_condition_command'', Handler ''AdminListUsersConditionCommand'' []),
    (''admin_show_quota_summary'', Handler ''AdminShowQuotaSummaryCommand'' []),
    (''admin_show_tasks_summary'', Handler ''AdminShowTasksSummaryCommand'' []),
    (''admin_show_data_summary'', Handler ''AdminShowDataSummaryCommand'' []),
    (''admin_show_data_orphan'', Handler ''AdminShowDataOrphanCommand'' []),
    (''admin_show_data_storage'', Handler ''AdminShowDataStorageCommand'' []),
    (''admin_show_data_index'', Handler ''AdminShowDataIndexCommand'' []),
    (''admin_purge_orphan_command'', Handler ''AdminPurgeOrphanCommand'' []),
    (''admin_purge_user_command'', Handler ''AdminPurgeUserCommand'' []),
    (''admin_purge_users_command'', Handler ''AdminPurgeUsersCommand'' []),
    (''admin_list_user_ingestion_tasks'', Handler ''AdminListUserIngestionTasksCommand'' []),
    (''admin_list_user_datasets'', Handler ''AdminListUserDatasetsCommand'' []),
    (''admin_list_user_agents'', Handler ''AdminListUserAgentsCommand'' []),
    (''admin_list_user_chats'', Handler ''AdminListUserChatsCommand'' []),
    (''admin_list_user_searches'', Handler ''AdminListUserSearchesCommand'' []),
    (''admin_list_user_models'', Handler ''AdminListUserModelsCommand'' []),
    (''admin_list_user_files'', Handler ''AdminListUserFilesCommand'' []),
    (''admin_list_user_keys'', Handler ''AdminListUserKeysCommand'' []),
    (''admin_list_user_providers'', Handler ''AdminListUserProvidersCommand'' []),
    (''admin_list_user_provider_instances'', Handler ''AdminListUserProviderInstancesCommand'' []),
    (''admin_list_user_provider_instance_models'', Handler ''AdminListUserProviderInstanceModelsCommand'' []),
    (''admin_list_user_default_models'', Handler ''AdminListUserDefaultModelsCommand'' []),
    (''admin_stop_user_ingestion_tasks_command'', Handler ''AdminStopUserIngestionTasksCommand'' []),
    (''admin_remove_user_ingestion_tasks_command'', Handler ''AdminRemoveUserIngestionTasksCommand'' []),
    (''admin_add_provider'', Handler ''AdminAddProviderCommand'' []),
    (''admin_add_model_instance'', Handler ''AdminAddModelInstanceCommand'' []),
    (''admin_add_models'', Handler ''AdminAddModelsCommand'' []),
    (''admin_delete_model_providers'', Handler ''AdminDeleteProvidersCommand'' []),
    (''admin_delete_model_instance'', Handler ''AdminDeleteInstancesCommand'' []),
    (''admin_delete_model'', Handler ''AdminDeleteModelsCommand'' []),
    (''admin_enable_model'', Handler ''CommonEnableOrDisableModelCommand'' [''enable'']),
    (''admin_disable_model'', Handler ''CommonEnableOrDisableModelCommand'' [''disable'']),
    (''admin_show_admin_server'', Handler ''CommonShowAdminServerCommand'' []),
    (''admin_show_api_server'', Handler ''CommonShowAPIServerCommand'' []),
    (''admin_show_log_level'', Handler ''AdminShowLogLevelCommand'' []),
    (''admin_list_api_servers'', Handler ''CommonListAPIServersCommand'' []),
    (''api_add_api_server'', Handler ''AddAPIServerCommand'' []),
    (''api_delete_api_server'', Handler ''DeleteAPIServerCommand'' []),
    (''api_add_admin_server'', Refused (''cannot add admin server in admin mode'')),
    (''api_delete_admin_server'', Refused (''cannot delete admin server in admin mode'')),
    (''admin_save_config_command'', Handler ''CommonSaveServerConfigCommand'' []),
    (''admin_use_api_server'', Handler ''CommonUseAPIServerCommand'' []),
    (''admin_use_admin_server'', Handler ''CommonUseAdminServerCommand'' [])]"

definition dispatch :: "(string \<times> handling) list \<Rightarrow> command \<Rightarrow> handling" where
  "dispatch table cmd =
     (case map_of table (cmd_Type cmd) of
        Some h \<Rightarrow> h
      | None \<Rightarrow>
          Refused (''command '' @ [CHR 0x27] @ cmd_Type cmd @ [CHR 0x27] @ '' would be executed with API''))"

definition ExecuteUserCommand :: "command \<Rightarrow> handling" where
  "ExecuteUserCommand cmd = dispatch user_handlers cmd"

definition ExecuteAdminCommand :: "command \<Rightarrow> handling" where
  "ExecuteAdminCommand cmd = dispatch admin_handlers cmd"

definition ExecuteCommand :: "cli_mode \<Rightarrow> command \<Rightarrow> handling" where
  "ExecuteCommand mode cmd =
     (case mode of
        APIMode \<Rightarrow> ExecuteUserCommand cmd
      | AdminMode \<Rightarrow> ExecuteAdminCommand cmd
      | OtherMode m \<Rightarrow> Refused (''invalid server type: '' @ m))"

definition handleMetaCommand :: "command \<Rightarrow> handling" where
  "handleMetaCommand cmd =
     (case mget (cmd_Params cmd) ''command'' of
        Some (PStr c) \<Rightarrow>
          (if c \<in> {''q'', ''quit'', ''exit''} then Handler ''quit'' []
           else if c \<in> {''?'', ''h'', ''help''} then Handler ''printHelp'' []
           else if c = ''pwd'' then Handler ''pwd'' []
           else Refused (''unknown meta command: '' @ [CHR 0x5C] @ c))
      | _ \<Rightarrow> Refused ''interface conversion'')"

text \<open>One line of input: None is a line without a command.\<close>

datatype line_end = Dispatched "handling option" | Crashed | Hangs

definition execute :: "(string \<Rightarrow> string option) \<Rightarrow> cli_mode \<Rightarrow> string \<Rightarrow> line_end" where
  "execute js mode input =
     (case parse_line js mode input of
        PDone None \<Rightarrow> Dispatched None
      | PDone (Some cmd) \<Rightarrow>
          Dispatched (Some (if cmd_Type cmd = ''meta'' then handleMetaCommand cmd else ExecuteCommand mode cmd))
      | PFail e \<Rightarrow> Dispatched (Some (Refused e))
      | PPanic \<Rightarrow> Crashed
      | PStuck \<Rightarrow> Hangs)"

end
