(* ===== verification/CliTypes.thy ===== *)
theory CliTypes
  imports CliDispatch CliRules
begin

text \<open>
  The types of the commands that a parser can return. \<open>gives Q m\<close>: whatever \<open>m\<close> returns satisfies
  \<open>Q\<close>. A command only changes its parameters on the way, so the type it was made with is the type
  it is returned with; the rules carry this through the combinators.
\<close>

named_theorems gives_rules \<open>what a parser returns\<close>

definition gives :: "('a \<Rightarrow> bool) \<Rightarrow> 'a parse \<Rightarrow> bool" where
  "gives Q m = (\<forall>p a. fst (m p) = PDone a \<longrightarrow> Q a)"

definition typed :: "string list \<Rightarrow> command \<Rightarrow> bool" where
  "typed ts c = (cmd_Type c \<in> set ts)"

lemma typed_set_param [simp]: "typed ts (set_param k v c) = typed ts c"
  by (simp add: typed_def set_param_def)

lemma typed_markSet [simp]: "typed ts (markSet c n) = typed ts c"
  by (simp add: typed_def markSet_def set_param_def split: option.split param.split)

lemma typed_add_path [simp]: "typed ts (add_path s c) = typed ts c"
  by (simp add: typed_def add_path_def set_param_def split: option.split param.split)

lemma typed_new: "us = ts \<Longrightarrow> list_all (\<lambda>t. typed ts (NewCommand t)) us"
  by (simp add: list_all_iff typed_def NewCommand_def)

lemma gives_pret [gives_rules]: "Q x \<Longrightarrow> gives Q (pret x)"
  by (simp add: gives_def pret_def)

lemma gives_perr [gives_rules]: "gives Q (perr msg)"
  by (simp add: gives_def perr_def)

lemma gives_pbind:
  assumes "gives P m" and "\<And>x. P x \<Longrightarrow> gives Q (f x)"
  shows "gives Q (pbind m f)"
  unfolding gives_def
proof (intro allI impI)
  fix p a
  assume r: "fst (pbind m f p) = PDone a"
  obtain x q where m: "m p = (x, q)" by (cases "m p")
  with r obtain y where y: "x = PDone y" by (cases x) (auto simp: pbind_def)
  then have "P y" using assms(1) m unfolding gives_def by (metis fst_conv)
  then show "Q a" using assms(2) [of y] r m y by (simp add: gives_def pbind_def)
qed

text \<open>A command on the way to a command, one on the way to the decision of a loop, and anything else.\<close>

lemma gives_command:
  fixes m :: "command parse" and f :: "command \<Rightarrow> command parse"
  shows "gives Q m \<Longrightarrow> (\<And>c. Q c \<Longrightarrow> gives Q (f c)) \<Longrightarrow> gives Q (pbind m f)"
  by (rule gives_pbind)

lemma gives_command_sum:
  fixes m :: "command parse"
  shows "gives Q m \<Longrightarrow> (\<And>c. Q c \<Longrightarrow> gives (case_sum Q Q) (f c)) \<Longrightarrow> gives (case_sum Q Q) (pbind m f)"
  by (rule gives_pbind)

lemma gives_any: "(\<And>x. gives Q (f x)) \<Longrightarrow> gives Q (pbind m f)"
  by (rule gives_pbind [of "\<lambda>_. True"]) (simp_all add: gives_def)

lemma gives_pseq [gives_rules]: "gives Q n \<Longrightarrow> gives Q (pseq m n)"
  unfolding pseq_def by (rule gives_any)

lemma gives_pget [gives_rules]: "(\<And>p. gives Q (f (g p))) \<Longrightarrow> gives Q (pget g f)"
  by (simp add: gives_def pget_def)

lemma gives_pif [gives_rules]: "gives Q a \<Longrightarrow> gives Q b \<Longrightarrow> gives Q (pif c a b)"
  by (simp add: gives_def pif_def)

lemma gives_pwrap [gives_rules]:
  assumes "gives Q m"
  shows "gives Q (pwrap w m)"
  unfolding gives_def
proof (intro allI impI)
  fix p a
  assume r: "fst (pwrap w m p) = PDone a"
  obtain x q where m: "m p = (x, q)" by (cases "m p")
  with r have "x = PDone a" by (cases x) (auto simp: pwrap_def)
  then show "Q a" using assms m unfolding gives_def by (metis fst_conv)
qed

lemma gives_let [gives_rules]: "gives Q (f a) \<Longrightarrow> gives Q (Let a f)"
  by (simp add: Let_def)

lemma gives_if [gives_rules]: "gives Q a \<Longrightarrow> gives Q b \<Longrightarrow> gives Q (if c then a else b)"
  by simp

lemma gives_prod [gives_rules]: "(\<And>x y. gives Q (f x y)) \<Longrightarrow> gives Q (case_prod f z)"
  by (cases z) simp

lemma gives_option [gives_rules]: "gives Q a \<Longrightarrow> (\<And>x. gives Q (f x)) \<Longrightarrow> gives Q (case_option a f z)"
  by (cases z) auto

lemma gives_sum [gives_rules]: "(\<And>x. gives Q (f x)) \<Longrightarrow> (\<And>x. gives Q (g x)) \<Longrightarrow> gives Q (case_sum f g z)"
  by (cases z) auto

lemma gives_param [gives_rules]:
  "(\<And>x. gives Q (f1 x)) \<Longrightarrow> (\<And>x. gives Q (f2 x)) \<Longrightarrow> (\<And>x. gives Q (f3 x)) \<Longrightarrow> (\<And>x. gives Q (f4 x)) \<Longrightarrow>
   (\<And>x. gives Q (f5 x)) \<Longrightarrow> (\<And>x. gives Q (f6 x)) \<Longrightarrow> (\<And>x. gives Q (f7 x)) \<Longrightarrow> (\<And>x. gives Q (f8 x)) \<Longrightarrow>
   (\<And>x y. gives Q (f9 x y)) \<Longrightarrow> gives Q (case_param f1 f2 f3 f4 f5 f6 f7 f8 f9 z)"
  by (cases z) auto

lemma gives_ploop_n:
  assumes "\<And>a. P a \<Longrightarrow> gives (case_sum P Q) (body a)"
  shows "P a \<Longrightarrow> gives Q (ploop_n n body a)"
proof (induction n arbitrary: a)
  case 0
  then show ?case by (simp add: gives_def)
next
  case (Suc n)
  have "gives Q (pbind (body a) (case_sum (ploop_n n body) pret))"
  proof (rule gives_pbind [OF assms [OF Suc.prems]])
    fix r
    assume "case_sum P Q r"
    then show "gives Q (case_sum (ploop_n n body) pret r)"
      using Suc.IH by (cases r) (simp_all add: gives_pret)
  qed
  then show ?case by simp
qed

lemma gives_ploop [gives_rules]:
  "Q a \<Longrightarrow> (\<And>a. Q a \<Longrightarrow> gives (case_sum Q Q) (body a)) \<Longrightarrow> gives Q (ploop body a)"
  using gives_ploop_n [of Q Q body] unfolding gives_def [of Q "ploop body a"] ploop_def gives_def
  by (metis gives_def)

text \<open>The steps of a proof, in the order in which they are tried.\<close>

lemmas gives_steps = gives_command gives_command_sum gives_any

section \<open>User commands\<close>

definition user_types :: "string list" where
  "user_types = [
    ''api_add_admin_server'', ''api_add_api_server'', ''api_add_custom_model'',
    ''api_add_provider'', ''api_add_provider_instance'', ''api_alter_provider_instance'',
    ''api_chat_to_model'', ''api_create_agent'', ''api_create_api_key'', ''api_create_chat'',
    ''api_create_dataset'', ''api_create_memory'', ''api_create_provider_instance'',
    ''api_create_search'', ''api_delete_admin_server'', ''api_delete_api_key'',
    ''api_delete_api_server'', ''api_delete_provider'', ''api_delete_provider_instance'',
    ''api_delete_provider_instance_model'', ''api_drop_agent'', ''api_drop_chat'',
    ''api_drop_dataset'', ''api_drop_memory'', ''api_drop_search'', ''api_embed_user_text'',
    ''api_list_agents'', ''api_list_all_models'', ''api_list_api_keys'',
    ''api_list_api_servers'', ''api_list_available_providers'', ''api_list_chats'',
    ''api_list_configs'', ''api_list_dataset_documents'', ''api_list_dataset_files'',
    ''api_list_datasets'', ''api_list_default_models'', ''api_list_environments'',
    ''api_list_ingestion_tasks'', ''api_list_memories'', ''api_list_provider_instance_models'',
    ''api_list_provider_instance_models_sync'', ''api_list_provider_instance_tasks'',
    ''api_list_provider_instances'', ''api_list_provider_models'', ''api_list_providers'',
    ''api_list_searches'', ''api_list_variables'', ''api_login_user'', ''api_logout'',
    ''api_model_parse_file'', ''api_openai_chat'', ''api_parse_documents'', ''api_ping_server'',
    ''api_rarank_user_document'', ''api_register_user'', ''api_remove_task'',
    ''api_save_config_command'', ''api_set_api_key'', ''api_set_default_model'',
    ''api_set_log_level'', ''api_set_variable'', ''api_show_admin_server'',
    ''api_show_api_key'', ''api_show_api_server'', ''api_show_current'', ''api_show_log_level'',
    ''api_show_model'', ''api_show_provider'', ''api_show_provider_instance'',
    ''api_show_provider_instance_balance'', ''api_show_provider_instance_task'',
    ''api_show_provider_model'', ''api_show_variable'', ''api_show_version'',
    ''api_start_ingestion'', ''api_stop_ingestion'', ''api_unset_api_key'',
    ''api_use_admin_server'', ''api_use_api_server'', ''api_use_model'', ''asr_user_command'',
    ''benchmark'', ''ce_search'', ''chat completions'', ''chat completions help'',
    ''check_provider_connection'', ''check_provider_with_key'', ''dev_chunk'',
    ''dev_create_chunk_store'', ''dev_create_metadata_store'', ''dev_delete_meta'',
    ''dev_drop_chunk_store'', ''dev_drop_metadata_store'', ''dev_get_chunk'',
    ''dev_get_metadata'', ''dev_insert_chunks_from_file'', ''dev_insert_metadata_from_file'',
    ''dev_remove_chunks'', ''dev_rm_tags'', ''dev_set_meta'', ''dev_update_chunk'',
    ''disable_model'', ''enable_model'', ''file_system_command'', ''import_docs_into_dataset'',
    ''ocr_user_command'', ''openai_chat_help'', ''parse_dataset'', ''reset_default_model'',
    ''search_help'', ''search_on_datasets'', ''tts_user_command'',
    ''user_parse_local_file_command'']"

lemmas user_new = typed_new [OF user_types_def [symmetric], unfolded list.pred_inject]

lemma user_search_options [gives_rules]:
  "typed user_types cmd \<Longrightarrow> gives (case_sum (typed user_types) (typed user_types)) (search_options cmd)"
  unfolding search_options_def by (intro gives_rules | rule gives_steps | simp)+

lemma user_parseBenchmarkCommand [gives_rules]: "gives (typed user_types) parseBenchmarkCommand"
  unfolding parseBenchmarkCommand_def by (intro gives_rules gives_any) (simp_all add: user_new)

lemma user_completions_option [gives_rules]:
  "typed user_types cmd \<Longrightarrow> gives (typed user_types) (completions_option name cmd)"
  unfolding completions_option_def by (intro gives_rules | rule gives_steps | simp)+

lemma user_openai_option [gives_rules]:
  "typed user_types cmd \<Longrightarrow> gives (typed user_types) (openai_option js name cmd)"
  unfolding openai_option_def by (intro gives_rules | rule gives_steps | simp)+

lemma user_group1 [gives_rules]:
  "gives (typed user_types) parseFileSystemCommands"
  "gives (typed user_types) parseInsertChunksFromFile"
  "gives (typed user_types) parseInsertMetadataFromFile"
  "gives (typed user_types) parseGetChunk"
  "gives (typed user_types) parseGetMetadata"
  "gives (typed user_types) parseUpdateChunk"
  "gives (typed user_types) parseDevSetMeta"
  "gives (typed user_types) parseDevDeleteMeta"
  "gives (typed user_types) parseDevRemoveTags"
  "gives (typed user_types) parseDevRemoveChunk"
  "gives (typed user_types) parseDevDropChunkStore"
  "gives (typed user_types) parseDevDropMetadataStore"
  "gives (typed user_types) parseDevCreateChunkStore"
  "gives (typed user_types) parseDevCreateMetadataStore"
  "gives (typed user_types) (parseDevChunk explain)"
  "gives (typed user_types) parseAPILoginUser"
  "gives (typed user_types) parseAPILogout"
  "gives (typed user_types) parseAPIPingServer"
  "gives (typed user_types) parseAPIRegister"
  "gives (typed user_types) parseAPIListConfigs"
  unfolding parseFileSystemCommands_def parseInsertChunksFromFile_def parseInsertMetadataFromFile_def
    parseGetChunk_def parseGetMetadata_def parseUpdateChunk_def parseDevSetMeta_def
    parseDevDeleteMeta_def parseDevRemoveTags_def parseDevRemoveChunk_def
    parseDevDropChunkStore_def parseDevDropMetadataStore_def parseDevCreateChunkStore_def
    parseDevCreateMetadataStore_def parseDevChunk_def parseAPILoginUser_def parseAPILogout_def
    parseAPIPingServer_def parseAPIRegister_def parseAPIListConfigs_def
  by (intro gives_rules | rule gives_steps | simp add: user_new)+

lemma user_group2 [gives_rules]:
  "gives (typed user_types) parseDevInsertCommand"
  "gives (typed user_types) parseDevGetCommand"
  "gives (typed user_types) parseDevUpdateCommand"
  "gives (typed user_types) parseDevExplain"
  "gives (typed user_types) parseAPIListDatasets"
  "gives (typed user_types) (parseAPIListDatasetDocuments datasetID)"
  "gives (typed user_types) (parseAPIListDatasetFiles datasetName)"
  "gives (typed user_types) (parseAPIListDatasetIngestionTasks datasetName)"
  "gives (typed user_types) parseAPIListAgents"
  "gives (typed user_types) parseAPIListChats"
  "gives (typed user_types) parseAPIListSearches"
  "gives (typed user_types) parseAPIListMemories"
  "gives (typed user_types) parseAPIListAPIKeys"
  "gives (typed user_types) parseAPIListProviders"
  "gives (typed user_types) (parseListProviderInstances providerName)"
  "gives (typed user_types) (parseListProviderInstanceModels providerName instanceName)"
  "gives (typed user_types) (parseListProviderInstanceTasks providerName instanceName)"
  "gives (typed user_types) (parseListProviderModels providerName)"
  "gives (typed user_types) parseAPIListAllModels"
  "gives (typed user_types) parseAPIListIngestionTasks"
  unfolding parseDevInsertCommand_def parseDevGetCommand_def parseDevUpdateCommand_def
    parseDevExplain_def parseAPIListDatasets_def parseAPIListDatasetDocuments_def
    parseAPIListDatasetFiles_def parseAPIListDatasetIngestionTasks_def parseAPIListAgents_def
    parseAPIListChats_def parseAPIListSearches_def parseAPIListMemories_def
    parseAPIListAPIKeys_def parseAPIListProviders_def parseListProviderInstances_def
    parseListProviderInstanceModels_def parseListProviderInstanceTasks_def
    parseListProviderModels_def parseAPIListAllModels_def parseAPIListIngestionTasks_def
  by (intro gives_rules | rule gives_steps | simp add: user_new)+

lemma user_group3 [gives_rules]:
  "gives (typed user_types) parseAPIListDatasetCommands"
  "gives (typed user_types) (parseListProviderInstanceCommands providerName)"
  "gives (typed user_types) parseAPIListDefaultModels"
  "gives (typed user_types) parseAPIListAvailableProviders"
  "gives (typed user_types) parseAPIListAPIServers"
  "gives (typed user_types) parseAPIListEnvironments"
  "gives (typed user_types) parseAPIListVariables"
  "gives (typed user_types) parseAPIShowVersion"
  "gives (typed user_types) parseAPIShowKey"
  "gives (typed user_types) parseAPIShowCurrent"
  "gives (typed user_types) parseAPIShowVariable"
  "gives (typed user_types) (parseAPIShowProviderInstanceBalance providerName instanceName)"
  "gives (typed user_types) (parseAPIShowProviderInstanceTask providerName instanceName)"
  "gives (typed user_types) (parseAPIShowProviderModel providerName)"
  "gives (typed user_types) parseAPIShowModel"
  "gives (typed user_types) parseAPIShowAdmin"
  "gives (typed user_types) parseAPIShowAPI"
  "gives (typed user_types) parseShowLogLevel"
  "gives (typed user_types) parseAPICreateDataset"
  "gives (typed user_types) parseAPICreateChat"
  unfolding parseAPIListDatasetCommands_def parseListProviderInstanceCommands_def
    parseAPIListDefaultModels_def parseAPIListAvailableProviders_def parseAPIListAPIServers_def
    parseAPIListEnvironments_def parseAPIListVariables_def parseAPIShowVersion_def
    parseAPIShowKey_def parseAPIShowCurrent_def parseAPIShowVariable_def
    parseAPIShowProviderInstanceBalance_def parseAPIShowProviderInstanceTask_def
    parseAPIShowProviderModel_def parseAPIShowModel_def parseAPIShowAdmin_def
    parseAPIShowAPI_def parseShowLogLevel_def parseAPICreateDataset_def parseAPICreateChat_def
  by (intro gives_rules | rule gives_steps | simp add: user_new)+

lemma user_group4 [gives_rules]:
  "gives (typed user_types) parseAPIListProviderCommands"
  "gives (typed user_types) (parseAPIShowProviderInstance providerName)"
  "gives (typed user_types) parseAPIShowLogCommands"
  "gives (typed user_types) parseAPICreateSearch"
  "gives (typed user_types) parseAPICreateAgent"
  "gives (typed user_types) parseAPICreateMemory"
  "gives (typed user_types) parseAPICreateKey"
  "gives (typed user_types) parseAPICreateProviderInstance"
  "gives (typed user_types) parseAPIDropDataset"
  "gives (typed user_types) parseAPIDropChat"
  "gives (typed user_types) parseAPIDropSearch"
  "gives (typed user_types) parseAPIDropMemory"
  "gives (typed user_types) parseAPIDropAgent"
  "gives (typed user_types) parseAPIDropAPIKey"
  "gives (typed user_types) (parseAddProviderInstance providerName)"
  "gives (typed user_types) parseAPIAddModel"
  "gives (typed user_types) parseAddAPIServer"
  "gives (typed user_types) parseAddAdminServer"
  "gives (typed user_types) (parseAPIDeleteProviderInstanceModels providerName instanceName)"
  "gives (typed user_types) parseAPIDeleteAdminServer"
  unfolding parseAPIListProviderCommands_def parseAPIShowProviderInstance_def
    parseAPIShowLogCommands_def parseAPICreateSearch_def parseAPICreateAgent_def
    parseAPICreateMemory_def parseAPICreateKey_def parseAPICreateProviderInstance_def
    parseAPIDropDataset_def parseAPIDropChat_def parseAPIDropSearch_def parseAPIDropMemory_def
    parseAPIDropAgent_def parseAPIDropAPIKey_def parseAddProviderInstance_def
    parseAPIAddModel_def parseAddAPIServer_def parseAddAdminServer_def
    parseAPIDeleteProviderInstanceModels_def parseAPIDeleteAdminServer_def
  by (intro gives_rules | rule gives_steps | simp add: user_new)+

lemma user_group5 [gives_rules]:
  "gives (typed user_types) parseAPIListCommands"
  "gives (typed user_types) parseAPIShowProviderCommands"
  "gives (typed user_types) parseAPICreateCommands"
  "gives (typed user_types) parseAPIDropCommands"
  "gives (typed user_types) parseAPIAddProvider"
  "gives (typed user_types) (parseAPIDeleteProviderInstance providerName)"
  "gives (typed user_types) parseAPIDeleteAPIServer"
  "gives (typed user_types) parseAPIAlterInstance"
  "gives (typed user_types) parseAPISetVariable"
  "gives (typed user_types) parseAPISetDefault"
  "gives (typed user_types) parseAPISetAPIKey"
  "gives (typed user_types) parseAPISetLogLevel"
  "gives (typed user_types) parseAPIResetDefaultModel"
  "gives (typed user_types) parseAPIResetKey"
  "gives (typed user_types) parseAPIImport"
  "gives (typed user_types) (with_error paramName what valueToken)"
  "gives (typed user_types) parseAPIParseDataset"
  "gives (typed user_types) parseAPIModelParse"
  "gives (typed user_types) parseAPIParseDocs"
  "gives (typed user_types) parseAPIParseLocalFile"
  unfolding parseAPIListCommands_def parseAPIShowProviderCommands_def parseAPICreateCommands_def
    parseAPIDropCommands_def parseAPIAddProvider_def parseAPIDeleteProviderInstance_def
    parseAPIDeleteAPIServer_def parseAPIAlterInstance_def parseAPISetVariable_def
    parseAPISetDefault_def parseAPISetAPIKey_def parseAPISetLogLevel_def
    parseAPIResetDefaultModel_def parseAPIResetKey_def parseAPIImport_def with_error_def
    parseAPIParseDataset_def parseAPIModelParse_def parseAPIParseDocs_def
    parseAPIParseLocalFile_def
  by (intro gives_rules | rule gives_steps | simp add: user_new)+

lemma user_with_option [gives_rules]:
  "typed user_types cmd \<Longrightarrow> gives (typed user_types) (with_option paramName valueToken paramValue cmd)"
  unfolding with_option_def by (intro gives_rules | rule gives_steps | simp)+

lemma user_group6 [gives_rules]:
  "gives (typed user_types) parseAPIShowCommands"
  "gives (typed user_types) parseAPIAddCommands"
  "gives (typed user_types) parseAPIDeleteProvider"
  "gives (typed user_types) parseAPIAlterCommands"
  "gives (typed user_types) parseAPISetLog"
  "gives (typed user_types) parseAPIResetCommands"
  "gives (typed user_types) parseParseCommands"
  "gives (typed user_types) parseAPIEnable"
  "gives (typed user_types) parseAPIDisable"
  "gives (typed user_types) parseChatCompletionsBody"
  "gives (typed user_types) parseAPIASR"
  "gives (typed user_types) parseAPITTS"
  "gives (typed user_types) parseAPIEmbed"
  "gives (typed user_types) parseAPIRerank"
  "gives (typed user_types) parseAPIOCR"
  "gives (typed user_types) parseCheckInstanceCommand"
  "gives (typed user_types) parseCheckProviderByKeyCommand"
  "gives (typed user_types) parseUserStartIngestion"
  "gives (typed user_types) parseUserStopIngestion"
  "gives (typed user_types) parseAPISaveConfig"
  unfolding parseAPIShowCommands_def parseAPIAddCommands_def parseAPIDeleteProvider_def
    parseAPIAlterCommands_def parseAPISetLog_def parseAPIResetCommands_def
    parseParseCommands_def parseAPIEnable_def parseAPIDisable_def parseChatCompletionsBody_def
    parseAPIASR_def parseAPITTS_def parseAPIEmbed_def parseAPIRerank_def parseAPIOCR_def
    parseCheckInstanceCommand_def parseCheckProviderByKeyCommand_def parseUserStartIngestion_def
    parseUserStopIngestion_def parseAPISaveConfig_def
  by (intro gives_rules | rule gives_steps | simp add: user_new)+

lemma user_with_options [gives_rules]:
  "typed user_types cmd \<Longrightarrow> gives (case_sum (typed user_types) (typed user_types)) (with_options cmd)"
  unfolding with_options_def by (intro gives_rules | rule gives_steps | simp)+

lemma user_group7 [gives_rules]:
  "gives (typed user_types) parseAPIDeleteCommands"
  "gives (typed user_types) parseAPISetCommands"
  "gives (typed user_types) parseAPIChat"
  "gives (typed user_types) parseAPICheck"
  "gives (typed user_types) parseAPISave"
  "gives (typed user_types) parseAPIUseModel"
  "gives (typed user_types) parseAPIUseAPIServer"
  "gives (typed user_types) parseAPIUseAdminServer"
  "gives (typed user_types) parseAPIRemoveTask"
  "gives (typed user_types) (parseOpenaiChat js)"
  unfolding parseAPIDeleteCommands_def parseAPISetCommands_def parseAPIChat_def parseAPICheck_def
    parseAPISave_def parseAPIUseModel_def parseAPIUseAPIServer_def parseAPIUseAdminServer_def
    parseAPIRemoveTask_def parseOpenaiChat_def
  by (intro gives_rules | rule gives_steps | simp add: user_new)+

lemma user_group8 [gives_rules]:
  "gives (typed user_types) (search_on_datasets question)"
  "gives (typed user_types) parseAPIThink"
  "gives (typed user_types) parseAPIUseCommands"
  "gives (typed user_types) parseAPIRemove"
  unfolding search_on_datasets_def parseAPIThink_def parseAPIUseCommands_def parseAPIRemove_def
  by (intro gives_rules | rule gives_steps | simp add: user_new)+

lemma user_group9 [gives_rules]:
  "gives (typed user_types) parseAPIRetrieve"
  "gives (typed user_types) parseAPIStream"
  unfolding parseAPIRetrieve_def parseAPIStream_def
  by (intro gives_rules | rule gives_steps | simp add: user_new)+

lemma user_group10 [gives_rules]:
  "gives (typed user_types) (parseUserCommand js)"
  unfolding parseUserCommand_def
  by (intro gives_rules | rule gives_steps | simp add: user_new)+

section \<open>Administration commands\<close>

definition admin_types :: "string list" where
  "admin_types = [
    ''admin_activate_user'', ''admin_add_model_instance'', ''admin_add_models'',
    ''admin_add_provider'', ''admin_alter_provider_instance'', ''admin_alter_role'',
    ''admin_alter_user'', ''admin_check_license'', ''admin_check_provider_instance'',
    ''admin_check_provider_with_key'', ''admin_create_role'', ''admin_create_user'',
    ''admin_create_user_api_key'', ''admin_delete_model'', ''admin_delete_model_instance'',
    ''admin_delete_model_providers'', ''admin_disable_model'', ''admin_drop_role'',
    ''admin_drop_user'', ''admin_drop_user_api_key'', ''admin_enable_model'',
    ''admin_grant_role_permission'', ''admin_grant_user_admin'', ''admin_list_all_models'',
    ''admin_list_api_servers'', ''admin_list_available_providers'', ''admin_list_configs'',
    ''admin_list_environments'', ''admin_list_ingestors'',
    ''admin_list_provider_instance_models'', ''admin_list_provider_instances'',
    ''admin_list_provider_models'', ''admin_list_providers'', ''admin_list_resources_command'',
    ''admin_list_roles_command'', ''admin_list_services'', ''admin_list_user_agents'',
    ''admin_list_user_chats'', ''admin_list_user_datasets'', ''admin_list_user_default_models'',
    ''admin_list_user_files'', ''admin_list_user_ingestion_tasks'', ''admin_list_user_keys'',
    ''admin_list_user_models'', ''admin_list_user_provider_instance_models'',
    ''admin_list_user_provider_instances'', ''admin_list_user_providers'',
    ''admin_list_user_searches'', ''admin_list_users_command'',
    ''admin_list_users_condition_command'', ''admin_list_variables'', ''admin_login_user'',
    ''admin_logout'', ''admin_ping_server'', ''admin_purge_orphan_command'',
    ''admin_purge_user_command'', ''admin_purge_users_command'',
    ''admin_remove_ingestion_tasks'', ''admin_remove_user_ingestion_tasks_command'',
    ''admin_reset_role_default_model'', ''admin_restart_service'',
    ''admin_revoke_role_permission'', ''admin_revoke_user_admin'',
    ''admin_save_config_command'', ''admin_set_license'', ''admin_set_license_config'',
    ''admin_set_log_level'', ''admin_set_role_default_model'', ''admin_set_variable'',
    ''admin_show_admin_server'', ''admin_show_api_server'', ''admin_show_current'',
    ''admin_show_data_index'', ''admin_show_data_orphan'', ''admin_show_data_storage'',
    ''admin_show_data_summary'', ''admin_show_fingerprint'', ''admin_show_license'',
    ''admin_show_log_level'', ''admin_show_model'', ''admin_show_provider'',
    ''admin_show_provider_instance'', ''admin_show_provider_instance_balance'',
    ''admin_show_provider_model'', ''admin_show_quota_summary'', ''admin_show_role'',
    ''admin_show_role_default_models'', ''admin_show_role_permission'', ''admin_show_service'',
    ''admin_show_tasks_summary'', ''admin_show_user'', ''admin_show_user_activity_command'',
    ''admin_show_user_dataset_command'', ''admin_show_user_index_command'',
    ''admin_show_user_permission_command'', ''admin_show_user_quota_command'',
    ''admin_show_user_storage_command'', ''admin_show_user_summary_command'',
    ''admin_show_users_activity_command'', ''admin_show_users_plan_command'',
    ''admin_show_users_summary_command'', ''admin_show_variable'',
    ''admin_show_version_command'', ''admin_shutdown_ingestor_command'',
    ''admin_shutdown_service'', ''admin_start_service'', ''admin_stop_ingestion_tasks'',
    ''admin_stop_user_ingestion_tasks_command'', ''admin_use_admin_server'',
    ''admin_use_api_server'', ''alter_user_role'', ''api_add_admin_server'',
    ''api_add_api_server'', ''api_delete_admin_server'', ''api_delete_api_server'',
    ''benchmark'', ''list_admin_ingestion_tasks'', ''user_list_message_queue_command'',
    ''user_publish_message_command'', ''user_pull_message_command'',
    ''user_show_message_queue_command'']"

lemmas admin_new = typed_new [OF admin_types_def [symmetric], unfolded list.pred_inject]

lemma admin_parseAdminBenchmarkCommand [gives_rules]: "gives (typed admin_types) parseAdminBenchmarkCommand"
  unfolding parseAdminBenchmarkCommand_def by (intro gives_rules gives_any) (simp_all add: admin_new)

lemma admin_group1 [gives_rules]:
  "gives (typed admin_types) parseAddAPIServer"
  "gives (typed admin_types) parseAddAdminServer"
  "gives (typed admin_types) parseAPIDeleteAdminServer"
  "gives (typed admin_types) parseAPIDeleteAPIServer"
  "gives (typed admin_types) parseAdminLoginUser"
  "gives (typed admin_types) parseAdminLogout"
  "gives (typed admin_types) parseAdminPingServer"
  "gives (typed admin_types) parseAdminListServices"
  "gives (typed admin_types) parseAdminListRoles"
  "gives (typed admin_types) parseAdminListResources"
  "gives (typed admin_types) parseAdminListVariables"
  "gives (typed admin_types) parseAdminListConfigs"
  "gives (typed admin_types) parseAdminListEnvironments"
  "gives (typed admin_types) parseAdminListAvailableProviders"
  "gives (typed admin_types) (parseAdminListProviderInstances providerName)"
  "gives (typed admin_types) (parseAdminListProviderInstance providerName)"
  "gives (typed admin_types) (parseAdminListProviderModels providerName)"
  "gives (typed admin_types) parseAdminListProviders"
  "gives (typed admin_types) parseAdminListModels"
  "gives (typed admin_types) parseAdminListIngestors"
  unfolding parseAddAPIServer_def parseAddAdminServer_def parseAPIDeleteAdminServer_def
    parseAPIDeleteAPIServer_def parseAdminLoginUser_def parseAdminLogout_def
    parseAdminPingServer_def parseAdminListServices_def parseAdminListRoles_def
    parseAdminListResources_def parseAdminListVariables_def parseAdminListConfigs_def
    parseAdminListEnvironments_def parseAdminListAvailableProviders_def
    parseAdminListProviderInstances_def parseAdminListProviderInstance_def
    parseAdminListProviderModels_def parseAdminListProviders_def parseAdminListModels_def
    parseAdminListIngestors_def
  by (intro gives_rules | rule gives_steps | simp add: admin_new)+

lemma admin_group2 [gives_rules]:
  "gives (typed admin_types) parseAdminListProviderCommands"
  "gives (typed admin_types) parseAdminListIngestionTasks"
  "gives (typed admin_types) parseAdminListAPIServers"
  "gives (typed admin_types) parseAdminShowService"
  "gives (typed admin_types) (parseAdminShowActivityCommand userName)"
  "gives (typed admin_types) (parseAdminShowUserSummaryCommand userName)"
  "gives (typed admin_types) (parseAdminShowUserDataSetCommand userName)"
  "gives (typed admin_types) (parseAdminShowUserStorageCommand userName)"
  "gives (typed admin_types) (parseAdminShowUserQuotaCommand userName)"
  "gives (typed admin_types) (parseAdminShowUserIndexCommand userName)"
  "gives (typed admin_types) (parseAdminShowUserPermissionCommand userName)"
  "gives (typed admin_types) (parseAdminShowUser userName)"
  "gives (typed admin_types) parseAdminShowRole"
  "gives (typed admin_types) parseAdminShowVersion"
  "gives (typed admin_types) parseAdminShowVariable"
  "gives (typed admin_types) parseAdminShowCurrent"
  "gives (typed admin_types) parseAdminShowFingerprint"
  "gives (typed admin_types) parseAdminShowLicense"
  "gives (typed admin_types) (parseAdminShowProviderInstanceBalance providerName instanceName)"
  "gives (typed admin_types) (parseAdminShowProviderModel providerName)"
  unfolding parseAdminListProviderCommands_def parseAdminListIngestionTasks_def
    parseAdminListAPIServers_def parseAdminShowService_def parseAdminShowActivityCommand_def
    parseAdminShowUserSummaryCommand_def parseAdminShowUserDataSetCommand_def
    parseAdminShowUserStorageCommand_def parseAdminShowUserQuotaCommand_def
    parseAdminShowUserIndexCommand_def parseAdminShowUserPermissionCommand_def
    parseAdminShowUser_def parseAdminShowRole_def parseAdminShowVersion_def
    parseAdminShowVariable_def parseAdminShowCurrent_def parseAdminShowFingerprint_def
    parseAdminShowLicense_def parseAdminShowProviderInstanceBalance_def
    parseAdminShowProviderModel_def
  by (intro gives_rules | rule gives_steps | simp add: admin_new)+

lemma admin_group3 [gives_rules]:
  "gives (typed admin_types) parseAdminShowUserCommands"
  "gives (typed admin_types) (parseAdminShowProviderInstance providerName)"
  "gives (typed admin_types) parseAdminShowModel"
  "gives (typed admin_types) parseAdminShowAdminServer"
  "gives (typed admin_types) parseAdminShowAPI"
  "gives (typed admin_types) parseAdminCheckLicense"
  "gives (typed admin_types) (parseAdminCheckProviderInstance providerName)"
  "gives (typed admin_types) parseAdminRemoveIngestionTasks"
  "gives (typed admin_types) (parseAdminCreateUserAPIKeyCommand userName)"
  "gives (typed admin_types) parseAdminCreateRole"
  "gives (typed admin_types) (parseAdminDropUserAPIKey userName)"
  "gives (typed admin_types) parseAdminDropRole"
  "gives (typed admin_types) parseAdminActivateUser"
  "gives (typed admin_types) parseAdminAlterRole"
  "gives (typed admin_types) parseAdminAlterProvider"
  "gives (typed admin_types) parseAdminGrantAdmin"
  "gives (typed admin_types) parseAdminGrantPermission"
  "gives (typed admin_types) parseAdminRevokeAdmin"
  "gives (typed admin_types) parseAdminRevokePermission"
  "gives (typed admin_types) parseAdminSetLicense"
  unfolding parseAdminShowUserCommands_def parseAdminShowProviderInstance_def parseAdminShowModel_def
    parseAdminShowAdminServer_def parseAdminShowAPI_def parseAdminCheckLicense_def
    parseAdminCheckProviderInstance_def parseAdminRemoveIngestionTasks_def
    parseAdminCreateUserAPIKeyCommand_def parseAdminCreateRole_def parseAdminDropUserAPIKey_def
    parseAdminDropRole_def parseAdminActivateUser_def parseAdminAlterRole_def
    parseAdminAlterProvider_def parseAdminGrantAdmin_def parseAdminGrantPermission_def
    parseAdminRevokeAdmin_def parseAdminRevokePermission_def parseAdminSetLicense_def
  by (intro gives_rules | rule gives_steps | simp add: admin_new)+

lemma admin_group4 [gives_rules]:
  "gives (typed admin_types) parseAdminShowProvider"
  "gives (typed admin_types) parseAdminCheckProvider"
  "gives (typed admin_types) parseAdminCreateUser"
  "gives (typed admin_types) parseAdminDropUser"
  "gives (typed admin_types) parseAdminAlterUser"
  "gives (typed admin_types) parseAdminGrantCommands"
  "gives (typed admin_types) parseAdminRevokeCommands"
  "gives (typed admin_types) parseAdminSetVariable"
  "gives (typed admin_types) parseAdminSetRoleDefaultModel"
  "gives (typed admin_types) parseAdminSetLogLevel"
  "gives (typed admin_types) parseAdminResetCommand"
  "gives (typed admin_types) parseAdminStartService"
  "gives (typed admin_types) parseAdminShutdownService"
  "gives (typed admin_types) parseAdminShutdownIngestor"
  "gives (typed admin_types) parseAdminRestart"
  "gives (typed admin_types) (parseAdminAddModel providerName instanceName)"
  "gives (typed admin_types) parseAdminListUsersCommand"
  "gives (typed admin_types) (parseAdminListUserIngestionTasks userName)"
  "gives (typed admin_types) (parseAdminListUserProviderInstanceModels userName)"
  "gives (typed admin_types) (parseAdminListUserDefaultModels userName)"
  unfolding parseAdminShowProvider_def parseAdminCheckProvider_def parseAdminCreateUser_def
    parseAdminDropUser_def parseAdminAlterUser_def parseAdminGrantCommands_def
    parseAdminRevokeCommands_def parseAdminSetVariable_def parseAdminSetRoleDefaultModel_def
    parseAdminSetLogLevel_def parseAdminResetCommand_def parseAdminStartService_def
    parseAdminShutdownService_def parseAdminShutdownIngestor_def parseAdminRestart_def
    parseAdminAddModel_def parseAdminListUsersCommand_def parseAdminListUserIngestionTasks_def
    parseAdminListUserProviderInstanceModels_def parseAdminListUserDefaultModels_def
  by (intro gives_rules | rule gives_steps | simp add: admin_new)+

lemma admin_group5 [gives_rules]:
  "gives (typed admin_types) parseAdminCheck"
  "gives (typed admin_types) parseAdminCreateCommand"
  "gives (typed admin_types) parseAdminDropCommands"
  "gives (typed admin_types) parseAdminAlterCommands"
  "gives (typed admin_types) parseAdminSetLog"
  "gives (typed admin_types) parseAdminShutdownCommands"
  "gives (typed admin_types) (parseAdminAddModelInstance providerName)"
  "gives (typed admin_types) parseAdminListUserCommand"
  "gives (typed admin_types) parseAdminShowUsersActivity"
  "gives (typed admin_types) parseAdminShowUsersPlan"
  "gives (typed admin_types) parseAdminShowData"
  "gives (typed admin_types) parseAdminShowQuota"
  "gives (typed admin_types) parseAdminShowTasks"
  "gives (typed admin_types) parseAdminShowLogLevel"
  "gives (typed admin_types) parseAdminStopUserCommand"
  "gives (typed admin_types) (parseAdminDeleteModel providerName instanceName)"
  "gives (typed admin_types) parseAdminEnableModel"
  "gives (typed admin_types) parseAdminDisableModel"
  "gives (typed admin_types) parseAdminSaveConfig"
  "gives (typed admin_types) parseAdminUseAPIServer"
  unfolding parseAdminCheck_def parseAdminCreateCommand_def parseAdminDropCommands_def
    parseAdminAlterCommands_def parseAdminSetLog_def parseAdminShutdownCommands_def
    parseAdminAddModelInstance_def parseAdminListUserCommand_def parseAdminShowUsersActivity_def
    parseAdminShowUsersPlan_def parseAdminShowData_def parseAdminShowQuota_def
    parseAdminShowTasks_def parseAdminShowLogLevel_def parseAdminStopUserCommand_def
    parseAdminDeleteModel_def parseAdminEnableModel_def parseAdminDisableModel_def
    parseAdminSaveConfig_def parseAdminUseAPIServer_def
  by (intro gives_rules | rule gives_steps | simp add: admin_new)+

lemma admin_group6 [gives_rules]:
  "gives (typed admin_types) parseAdminSetCommand"
  "gives (typed admin_types) parseAdminAddModelProvider"
  "gives (typed admin_types) parseAdminListCommands"
  "gives (typed admin_types) parseAdminShowUsersCommands"
  "gives (typed admin_types) parseAdminShowLogCommands"
  "gives (typed admin_types) parseAdminStopIngestionTasks"
  "gives (typed admin_types) (parseAdminDeleteModelInstance providerName)"
  "gives (typed admin_types) parseAdminEnableCommand"
  "gives (typed admin_types) parseAdminDisableCommand"
  "gives (typed admin_types) parseAdminSaveCommand"
  "gives (typed admin_types) parseAdminUseAdminServer"
  "gives (typed admin_types) parseMessageQueueCommand"
  "gives (typed admin_types) parseAdminRemoveUserCommand"
  "gives (typed admin_types) (parseAdminPurgeOrphanCommand preview)"
  "gives (typed admin_types) (parseAdminPurgeUserCommand preview)"
  "gives (typed admin_types) (parseAdminPurgeUsersCommand preview)"
  unfolding parseAdminSetCommand_def parseAdminAddModelProvider_def parseAdminListCommands_def
    parseAdminShowUsersCommands_def parseAdminShowLogCommands_def
    parseAdminStopIngestionTasks_def parseAdminDeleteModelInstance_def
    parseAdminEnableCommand_def parseAdminDisableCommand_def parseAdminSaveCommand_def
    parseAdminUseAdminServer_def parseMessageQueueCommand_def parseAdminRemoveUserCommand_def
    parseAdminPurgeOrphanCommand_def parseAdminPurgeUserCommand_def
    parseAdminPurgeUsersCommand_def
  by (intro gives_rules | rule gives_steps | simp add: admin_new)+

lemma admin_group7 [gives_rules]:
  "gives (typed admin_types) parseAdminAddCommand"
  "gives (typed admin_types) parseAdminShowCommands"
  "gives (typed admin_types) parseAdminDeleteProvider"
  "gives (typed admin_types) parseAdminUseCommand"
  "gives (typed admin_types) parseAdminRemoveCommands"
  "gives (typed admin_types) parseAdminPurgeCommand"
  unfolding parseAdminAddCommand_def parseAdminShowCommands_def parseAdminDeleteProvider_def
    parseAdminUseCommand_def parseAdminRemoveCommands_def parseAdminPurgeCommand_def
  by (intro gives_rules | rule gives_steps | simp add: admin_new)+

lemma admin_group8 [gives_rules]:
  "gives (typed admin_types) parseAdminDeleteCommands"
  unfolding parseAdminDeleteCommands_def
  by (intro gives_rules | rule gives_steps | simp add: admin_new)+

lemma admin_group9 [gives_rules]:
  "gives (typed admin_types) parseAdminCommand"
  unfolding parseAdminCommand_def
  by (intro gives_rules | rule gives_steps | simp add: admin_new)+

end
