(* ===== verification/CliGaps.thy ===== *)
theory CliGaps
  imports CliTypes
begin

text \<open>
  The command types that the parser of a mode returns and the switch of that mode does not know.
  Parsing a concrete line is simplification with the equations collected here.
\<close>

lemma read_while_step:
  "lx_ch l \<noteq> NUL_byte \<Longrightarrow> p (lx_ch l) \<Longrightarrow> read_while p l = read_while p (readChar l)"
  by (simp add: read_while.simps [of p l])

lemma read_while_stop: "lx_ch l = NUL_byte \<or> \<not> p (lx_ch l) \<Longrightarrow> read_while p l = l"
  by (auto simp: read_while.simps [of p l])

text \<open>The functions of the lexer with their intermediate lexers as arguments.\<close>

definition quoted_between :: "char \<Rightarrow> lexer \<Rightarrow> lexer \<Rightarrow> string \<times> lexer" where
  "quoted_between q l1 l2 =
     (str_slice (lx_input l1) (lx_pos l1) (lx_pos l2), if lx_ch l2 = q then readChar l2 else l2)"

definition quoted_from :: "char \<Rightarrow> lexer \<Rightarrow> string \<times> lexer" where
  "quoted_from q l1 = quoted_between q l1 (read_while (\<lambda>c. c \<noteq> q) l1)"

lemma run_quoted: "readQuotedString q l = quoted_from q (readChar l)"
  by (simp add: readQuotedString_def quoted_from_def quoted_between_def Let_def readChar_def)

definition ident_between :: "lexer \<Rightarrow> lexer \<Rightarrow> string \<times> lexer" where
  "ident_between l l1 = (str_slice (lx_input l) (lx_pos l) (lx_pos l1), l1)"

lemma run_ident: "readIdentifier l = ident_between l (read_while ident_char l)"
  by (simp add: readIdentifier_def ident_between_def Let_def)

definition token_at :: "lexer \<Rightarrow> (token \<times> lexer) option" where
  "token_at l =
     (case map_of single_tokens (lx_ch l) of
        Some t \<Rightarrow> Some (newToken t (lx_ch l), readChar l)
      | None \<Rightarrow>
          (if lx_ch l = CHR 0x27 \<or> lx_ch l = CHR 0x22 then
             (case readQuotedString (lx_ch l) l of (v, l1) \<Rightarrow> Some (Token TokenQuotedString v, l1))
           else if lx_ch l = CHR 0x5C then
             (case readMetaCommand l of (v, l1) \<Rightarrow> Some (Token TokenIdentifier v, l1))
           else if lx_ch l = NUL_byte then Some (Token TokenEOF [], l)
           else if isLetter (lx_ch l) \<or> lx_ch l = CHR ''_'' then
             (case readIdentifier l of (ident, l1) \<Rightarrow> lookupIdent ident l1)
           else if isDigit (lx_ch l) then (case readNumber l of ((v, t), l1) \<Rightarrow> Some (Token t v, l1))
           else Some (newToken TokenIllegal (lx_ch l), readChar l)))"

lemma run_token: "NextToken l = token_at (skipWhitespace l)"
  by (simp add: NextToken_def token_at_def Let_def)

lemma run_keywords:
  "map_of keyword_table ''RESET'' = Some TokenReset"
  "map_of keyword_table ''DEFAULT'' = Some TokenDefault"
  "map_of keyword_table ''CHAT'' = Some TokenChat"
  "map_of keyword_table ''MODEL'' = Some TokenModel"
  "map_of keyword_table ''CREATE'' = Some TokenCreate"
  "map_of keyword_table ''PROVIDER'' = Some TokenProvider"
  "map_of keyword_table ''INSTANCE'' = Some TokenInstance"
  "map_of keyword_table ''KEY'' = Some TokenKey"
  "map_of keyword_table ''IMPORT'' = Some TokenImport"
  "map_of keyword_table ''INTO'' = Some TokenInto"
  "map_of keyword_table ''DATASET'' = Some TokenDataset"
  "map_of keyword_table ''RETRIEVE'' = Some TokenRetrieve"
  "map_of keyword_table ''PARSE'' = Some TokenParse"
  "map_of keyword_table ''SYNC'' = Some TokenSync"
  "map_of keyword_table ''ALTER'' = Some TokenAlter"
  "map_of keyword_table ''USER'' = Some TokenUser"
  "map_of keyword_table ''SET'' = Some TokenSet"
  "map_of keyword_table ''ROLE'' = Some TokenRole"
  "map_of keyword_table ''R'' = None"
  "map_of keyword_table ''X'' = None"
  by code_simp+

lemmas run_lexer =
  nextToken_def run_token token_at_def skipWhitespace_def read_while_step read_while_stop readChar_def char_at_def peekChar_def
  is_space_def isLetter_def isDigit_def single_tokens_def run_ident ident_between_def ident_char_def
  str_slice_def lookupIdent_def ToUpper_def upper_char_def run_keywords newToken_def
  rune_string_def NewLexer_def run_quoted quoted_from_def quoted_between_def readNumber_def Let_def

text \<open>Only the parser that a combinator is applied to is simplified, not the parsers it combines.\<close>

lemma run_cong:
  "p = q \<Longrightarrow> pif c a b p = pif c a b q"
  "p = q \<Longrightarrow> pseq m n p = pseq m n q"
  "p = q \<Longrightarrow> pbind m f p = pbind m f q"
  "p = q \<Longrightarrow> pget g h p = pget g h q"
  "p = q \<Longrightarrow> pwrap w m p = pwrap w m q"
  by simp_all

lemmas run_parser =
  parse_line_def NewParser_def Parse_def parseCommand_def pif_def pseq_def pbind_def pget_def
  pret_def perr_def pwrap_def cur_type_def cur_value_def peek_type_def peek_value_def
  opt_semicolon_def isKeyword_def ploop_def budget_def parseQuotedString_def parseIdentifier_def
  parseUserCommand_def parseAdminCommand_def

definition in_quotes :: "string \<Rightarrow> string" where
  "in_quotes s = CHR 0x22 # s @ [CHR 0x22]"

definition line_type :: "cli_mode \<Rightarrow> string \<Rightarrow> string option" where
  "line_type mode s =
     (case parse_line (\<lambda>_. None) mode s of PDone (Some cmd) \<Rightarrow> Some (cmd_Type cmd) | _ \<Rightarrow> None)"

lemma line_reset: "line_type APIMode ''RESET DEFAULT CHAT MODEL;'' = Some ''reset_default_model''"
  by (simp add: line_type_def run_lexer run_parser parseAPIResetCommands_def parseAPIResetDefaultModel_def set_param_def NewCommand_def cong: run_cong)

lemma line_create:
  "line_type APIMode (''CREATE PROVIDER '' @ in_quotes ''p'' @ '' INSTANCE '' @ in_quotes ''i'' @ '' KEY '' @ in_quotes ''k'') =
     Some ''api_create_provider_instance''"
  by (simp add: line_type_def in_quotes_def run_lexer run_parser parseAPICreateCommands_def parseAPICreateProviderInstance_def set_param_def NewCommand_def cong: run_cong)

lemma line_import:
  "line_type APIMode (''IMPORT '' @ in_quotes ''f'' @ '' INTO DATASET '' @ in_quotes ''d'') =
     Some ''import_docs_into_dataset''"
  by (simp add: line_type_def in_quotes_def run_lexer run_parser parseAPIImport_def set_param_def NewCommand_def cong: run_cong)

lemma line_retrieve: "line_type APIMode ''RETRIEVE X'' = Some ''ce_search''"
  by (simp add: line_type_def run_lexer run_parser parseAPIRetrieve_def set_param_def NewCommand_def cong: run_cong)

lemma line_parse:
  "line_type APIMode (''PARSE DATASET '' @ in_quotes ''d'' @ '' SYNC'') = Some ''parse_dataset''"
  by (simp add: line_type_def in_quotes_def run_lexer run_parser parseParseCommands_def parseAPIParseDataset_def set_param_def NewCommand_def cong: run_cong)

lemma line_alter:
  "line_type AdminMode (''ALTER USER '' @ in_quotes ''u'' @ '' SET ROLE R'') = Some ''alter_user_role''"
  by (simp add: line_type_def in_quotes_def run_lexer run_parser parseAdminAlterCommands_def parseAdminAlterUser_def set_param_def NewCommand_def cong: run_cong)

section \<open>Every command has its type from the list of its mode\<close>

lemma meta_typed: "gives (typed [''meta'']) parseMetaCommand"
  unfolding parseMetaCommand_def
  by (intro gives_rules | rule gives_steps | simp add: typed_def NewCommand_def set_param_def)+

lemma parse_line_typed:
  assumes "parse_line js mode s = PDone (Some cmd)" and "gives (typed ts) (parseCommand js mode)"
    and "cmd_Type cmd \<noteq> ''meta''"
  shows "cmd_Type cmd \<in> set ts"
proof -
  have "gives (case_option True (typed (''meta'' # ts))) (Parse js mode)"
    unfolding Parse_def
  proof (intro gives_rules gives_pbind [of "typed (''meta'' # ts)"])
    show "gives (typed (''meta'' # ts)) parseMetaCommand"
      using meta_typed by (auto simp: gives_def typed_def)
    show "gives (typed (''meta'' # ts)) (parseCommand js mode)"
      using assms(2) by (auto simp: gives_def typed_def)
  qed simp_all
  moreover obtain p where "fst (Parse js mode p) = PDone (Some cmd)"
    using assms(1) by (auto simp: parse_line_def split: prod.splits outcome.splits)
  ultimately have "case_option True (typed (''meta'' # ts)) (Some cmd)" unfolding gives_def by blast
  then show ?thesis using assms(3) by (simp add: typed_def)
qed

lemma user_typed: "gives (typed user_types) (parseCommand js APIMode)"
  unfolding parseCommand_def by (simp, intro gives_rules)

lemma admin_typed: "gives (typed admin_types) (parseCommand js AdminMode)"
  unfolding parseCommand_def by (simp, intro gives_rules)

lemma places_in:
  assumes "ts = map ((!) (gs @ map fst hs)) is" and "list_all (\<lambda>i. i < length (gs @ map fst hs)) is"
    and "t \<in> set ts" and "map_of hs t = None"
  shows "t \<in> set gs"
proof -
  obtain i where i: "i < length (gs @ map fst hs)" "t = (gs @ map fst hs) ! i"
    using assms(1-3) by (auto simp: list_all_iff)
  then have "t \<in> set (gs @ map fst hs)" using nth_mem by blast
  moreover have "t \<notin> fst ` set hs" using assms(4) by (simp add: map_of_eq_None_iff)
  ultimately show ?thesis by simp
qed

definition user_gaps :: "string list" where
  "user_gaps = [''api_create_provider_instance'',
     ''ce_search'',
     ''import_docs_into_dataset'',
     ''parse_dataset'',
     ''reset_default_model'']"

lemma user_types_places:
  "user_types = map ((!) (user_gaps @ map fst user_handlers)) [
     97, 95, 63, 48, 57, 59, 64, 23, 21, 24, 22, 26, 0, 25, 98, 28, 96, 50, 51, 60, 56, 53, 52,
     55, 54, 67, 15, 47, 27, 92, 36, 16, 9, 13, 14, 12, 82, 93, 86, 18, 43, 44, 45, 58, 42, 49,
     17, 94, 6, 7, 74, 65, 83, 8, 68, 5, 87, 99, 29, 80, 10, 30, 89, 34, 90, 35, 91, 46, 37, 38,
     39, 40, 41, 31, 33, 84, 85, 32, 79, 78, 77, 72, 11, 1, 69, 70, 75, 76, 101, 102, 104, 111,
     103, 105, 109, 114, 106, 107, 113, 112, 110, 108, 62, 61, 100, 2, 73, 66, 3, 4, 20, 19, 71,
     88]"
  by code_simp

lemma user_gaps_unknown: "list_all (\<lambda>t. map_of user_handlers t = None) user_gaps"
  by code_simp

lemma user_types_known: "t \<in> set user_types \<Longrightarrow> map_of user_handlers t = None \<Longrightarrow> t \<in> set user_gaps"
  by (rule places_in [OF user_types_places]) (simp_all add: user_gaps_def user_handlers_def del: map_of_eq_None_iff)

definition admin_gaps :: "string list" where
  "admin_gaps = [''alter_user_role'']"

lemma admin_types_places:
  "admin_types = map ((!) (admin_gaps @ map fst admin_handlers)) [
     17, 105, 106, 104, 20, 19, 18, 61, 63, 62, 16, 14, 15, 109, 108, 107, 111, 23, 21, 22, 110,
     11, 9, 50, 115, 40, 28, 29, 52, 46, 47, 45, 49, 38, 39, 5, 92, 93, 91, 101, 96, 90, 97, 95,
     100, 99, 98, 94, 79, 80, 27, 1, 2, 3, 87, 88, 89, 54, 103, 36, 7, 12, 10, 120, 31, 32, 35,
     34, 33, 112, 113, 26, 86, 84, 85, 83, 64, 65, 114, 48, 41, 42, 43, 44, 81, 67, 68, 13, 24,
     82, 66, 69, 71, 74, 75, 73, 72, 70, 77, 78, 76, 30, 25, 55, 8, 6, 53, 102, 122, 121, 0,
     118, 116, 119, 117, 4, 56, 57, 58, 59, 60]"
  by code_simp

lemma admin_gaps_unknown: "list_all (\<lambda>t. map_of admin_handlers t = None) admin_gaps"
  by code_simp

lemma admin_types_known: "t \<in> set admin_types \<Longrightarrow> map_of admin_handlers t = None \<Longrightarrow> t \<in> set admin_gaps"
  by (rule places_in [OF admin_types_places]) (simp_all add: admin_gaps_def admin_handlers_def del: map_of_eq_None_iff)

lemma line_typeD: "line_type mode s = Some t \<Longrightarrow> \<exists>cmd. parse_line (\<lambda>_. None) mode s = PDone (Some cmd) \<and> cmd_Type cmd = t"
  by (auto simp: line_type_def split: outcome.splits option.splits)

text \<open>
  C25: The types of the commands that the parser of a mode returns and the switch of that mode does
  not know, other than the meta commands: five types in user mode and one in administration mode,
  and none else. A line of such a command is parsed and then always refused.
\<close>

theorem commands_without_handler:
  "{t. \<exists>js s cmd. parse_line js APIMode s = PDone (Some cmd) \<and> cmd_Type cmd = t \<and> t \<noteq> ''meta'' \<and>
         map_of user_handlers t = None} =
     {''api_create_provider_instance'', ''ce_search'', ''import_docs_into_dataset'', ''parse_dataset'',
      ''reset_default_model''} \<and>
   {t. \<exists>js s cmd. parse_line js AdminMode s = PDone (Some cmd) \<and> cmd_Type cmd = t \<and> t \<noteq> ''meta'' \<and>
         map_of admin_handlers t = None} = {''alter_user_role''}"
  (is "?U = ?u \<and> ?A = ?a")
proof
  have "?U \<subseteq> ?u"
    using parse_line_typed [OF _ user_typed] user_types_known unfolding user_gaps_def
    by fastforce
  moreover have "?u \<subseteq> ?U"
    using line_typeD [OF line_create] line_typeD [OF line_retrieve] line_typeD [OF line_import]
      line_typeD [OF line_parse] line_typeD [OF line_reset] user_gaps_unknown [unfolded user_gaps_def]
    by auto
  ultimately show "?U = ?u" by (rule subset_antisym)
  have "?A \<subseteq> ?a"
    using parse_line_typed [OF _ admin_typed] admin_types_known unfolding admin_gaps_def
    by fastforce
  moreover have "?a \<subseteq> ?A"
    using line_typeD [OF line_alter] admin_gaps_unknown [unfolded admin_gaps_def] by auto
  ultimately show "?A = ?a" by (rule subset_antisym)
qed

end
