(* ===== verification/ChunkEngine.thy ===== *)
theory ChunkEngine
  imports GoStrings
begin

text \<open>
  The text chunking library, \<open>internal/parser/chunk\<close>: a pipeline of three operators over a
  \<open>ChunkContext\<close> (preprocess, split, postprocess), each built from a map of options. The tables
  \<open>unicode.Han\<close> and \<open>unicode.IsLetter\<close> of the standard library are the arguments \<open>han\<close> and
  \<open>letter\<close>, over runes. Maps may be \<open>nil\<close> (\<open>None\<close>). An option map is a map of the dynamic values
  of \<open>GoValues\<close>.
\<close>

section \<open>Data\<close>

record chunk_data =
  cd_content :: string
  cd_size :: int
  cd_index :: int
  cd_meta :: "gval gomap option"

record chunk_context =
  cc_origin :: string
  cc_text :: string
  cc_split :: "chunk_data list"
  cc_result :: "chunk_data list"

record chunk_options =
  NormalizeNewlines :: bool
  StripWhitespace :: bool
  RemoveEmptyLines :: bool
  SplitStrategy :: string
  MergeTargetSize :: int
  FilterMinLength :: int

definition validate_options :: "chunk_options \<Rightarrow> string option" where
  "validate_options o' =
     (if MergeTargetSize o' < 0
      then Some (''chunk: MergeTargetSize must be >= 0 (got '' @ show_int (MergeTargetSize o') @ '')'')
      else if FilterMinLength o' < 0
      then Some (''chunk: FilterMinLength must be >= 0 (got '' @ show_int (FilterMinLength o') @ '')'')
      else None)"

section \<open>Helpers\<close>

text \<open>The constant \<open>0.3\<close> as a \<open>float64\<close>.\<close>

definition three_tenths :: f64 where
  "three_tenths = Fin 5404319552844595 (- 54)"

definition DetectLanguage :: "(string \<Rightarrow> bool) \<Rightarrow> (string \<Rightarrow> bool) \<Rightarrow> string \<Rightarrow> string" where
  "DetectLanguage han letter text =
     (let cjk = length (filter han (runes text)); total = length (filter letter (runes text))
      in if 0 < total \<and> f64_less three_tenths (f64_div (f64_of_int (int cjk)) (f64_of_int (int total)))
         then ''zh'' else ''en'')"

definition RuneCount :: "string \<Rightarrow> int" where
  "RuneCount text = int (length (runes text))"

section \<open>Preprocessing\<close>

record preprocess_op =
  normalizeNewlines :: bool
  stripWhitespace :: bool
  removeEmptyLines :: bool
  softLineBreakMerging :: bool

definition bool_option :: "gval gomap \<Rightarrow> string \<Rightarrow> string + bool" where
  "bool_option config k =
     (case mget config k of
        None \<Rightarrow> Inr False
      | Some (VBool b) \<Rightarrow> Inr b
      | Some _ \<Rightarrow> Inl (''preprocess: '' @ k @ '' must be bool''))"

definition NewPreprocessOperator :: "gval gomap \<Rightarrow> string + preprocess_op" where
  "NewPreprocessOperator config =
     (case bool_option config ''normalize_newlines'' of Inl e \<Rightarrow> Inl e | Inr n \<Rightarrow>
      case bool_option config ''strip_whitespace'' of Inl e \<Rightarrow> Inl e | Inr s \<Rightarrow>
      case bool_option config ''remove_empty_lines'' of Inl e \<Rightarrow> Inl e | Inr r \<Rightarrow>
      case bool_option config ''soft_line_break_merging'' of Inl e \<Rightarrow> Inl e | Inr m \<Rightarrow>
        Inr \<lparr>normalizeNewlines = n, stripWhitespace = s, removeEmptyLines = r,
             softLineBreakMerging = m\<rparr>)"

abbreviation nl :: char where "nl \<equiv> CHR 0x0A"
abbreviation cr :: char where "cr \<equiv> CHR 0x0D"

fun replace_crlf :: "string \<Rightarrow> string" where
  "replace_crlf [] = []"
| "replace_crlf [c] = [c]"
| "replace_crlf (c # d # s) =
     (if c = cr \<and> d = nl then nl # replace_crlf s else c # replace_crlf (d # s))"

definition replace_cr :: "string \<Rightarrow> string" where
  "replace_cr s = map (\<lambda>c. if c = cr then nl else c) s"

text \<open>Every run of two or more newlines becomes one.\<close>

fun squeeze_nl :: "string \<Rightarrow> string" where
  "squeeze_nl [] = []"
| "squeeze_nl [c] = [c]"
| "squeeze_nl (c # d # s) =
     (if c = nl \<and> d = nl then squeeze_nl (d # s) else c # squeeze_nl (d # s))"

text \<open>The pattern \<open>[.!?][\s]*$\<close>.\<close>

definition sentenceEnd :: "string \<Rightarrow> bool" where
  "sentenceEnd line =
     (case dropWhile (\<lambda>c. c \<in> {CHR 0x09, nl, CHR 0x0C, cr, CHR '' ''}) (rev line) of
        [] \<Rightarrow> False | c # _ \<Rightarrow> c \<in> {CHR ''.'', CHR ''!'', CHR ''?''})"

fun merge_lines :: "string \<Rightarrow> string list \<Rightarrow> string list" where
  "merge_lines current [] = []"
| "merge_lines current (line # lines) =
     (let current = (if current \<noteq> [] then current @ '' '' else current) @ line
      in if lines = [] \<or> sentenceEnd line then current # merge_lines [] lines
         else merge_lines current lines)"

definition preprocess_text :: "preprocess_op \<Rightarrow> string \<Rightarrow> string" where
  "preprocess_text op text =
     (let text = (if normalizeNewlines op then squeeze_nl (replace_cr (replace_crlf text)) else text);
          text = (if stripWhitespace op then join_with nl (map TrimSpace (split_on nl text)) else text);
          text = (if removeEmptyLines op
                  then join_with nl (filter (\<lambda>l. TrimSpace l \<noteq> []) (split_on nl text)) else text)
      in if softLineBreakMerging op then join_with nl (merge_lines [] (split_on nl text)) else text)"

definition Preprocess_Execute :: "preprocess_op \<Rightarrow> chunk_context \<Rightarrow> chunk_context" where
  "Preprocess_Execute op ctx = ctx\<lparr>cc_text := preprocess_text op (cc_origin ctx)\<rparr>"

section \<open>Splitting\<close>

record split_op =
  so_strategy :: string
  so_boundaries :: "string list"
  so_keepSeparators :: bool
  so_chunkSize :: int
  so_overlap :: int

definition defaultLengthChunkSize :: int where
  "defaultLengthChunkSize = 256"

definition to_int :: "gval \<Rightarrow> int" where
  "to_int v =
     (case v of VFloat f \<Rightarrow> sint (f64_to_int f) | VInt i \<Rightarrow> sint i | VNum KInt64 i \<Rightarrow> i | _ \<Rightarrow> 0)"

fun strings_of :: "gval list \<Rightarrow> string list" where
  "strings_of [] = []"
| "strings_of (v # vs) = (case v of VStr s \<Rightarrow> s # strings_of vs | _ \<Rightarrow> strings_of vs)"

definition split_params :: "gval gomap \<Rightarrow> split_op \<Rightarrow> split_op" where
  "split_params params op =
     (let op = (case mget params ''boundaries'' of
                  Some (VList bs) \<Rightarrow> op\<lparr>so_boundaries := so_boundaries op @ strings_of bs\<rparr> | _ \<Rightarrow> op);
          op = (case mget params ''keep_separators'' of
                  Some (VBool b) \<Rightarrow> op\<lparr>so_keepSeparators := b\<rparr> | _ \<Rightarrow> op);
          op = (case mget params ''chunk_size'' of
                  Some cs \<Rightarrow> op\<lparr>so_chunkSize := to_int cs\<rparr> | None \<Rightarrow> op)
      in case mget params ''overlap'' of Some ov \<Rightarrow> op\<lparr>so_overlap := to_int ov\<rparr> | None \<Rightarrow> op)"

definition NewSplitOperator :: "gval gomap \<Rightarrow> split_op" where
  "NewSplitOperator config =
     (let op = \<lparr>so_strategy = [], so_boundaries = [], so_keepSeparators = False, so_chunkSize = 0,
                so_overlap = 0\<rparr>;
          op = (case mget config ''strategy'' of
                  Some (VStr s) \<Rightarrow> op\<lparr>so_strategy := s\<rparr> | _ \<Rightarrow> op)
      in case mget config ''params'' of Some (VMap params) \<Rightarrow> split_params params op | _ \<Rightarrow> op)"

definition sentenceBoundaries :: "string list" where
  "sentenceBoundaries =
     [[CHR 0xE3, CHR 0x80, CHR 0x82], [CHR 0xEF, CHR 0xBC, CHR 0x81], [CHR 0xEF, CHR 0xBC, CHR 0x9F],
      ''.'', ''!'', ''?'', '';'', [nl]]"

definition language_meta :: "(string \<Rightarrow> bool) \<Rightarrow> (string \<Rightarrow> bool) \<Rightarrow> string \<Rightarrow> gval gomap option" where
  "language_meta han letter content = Some [(''language'', VStr (DetectLanguage han letter content))]"

text \<open>\<open>utf8.DecodeRuneInString\<close> of a text that is not empty: the rune and its width.\<close>

definition decode_rune :: "string \<Rightarrow> string \<times> nat" where
  "decode_rune s = (let n = rune_len s in if n = 0 then (replacement_rune, 1) else (take n s, n))"

definition flush_sentence ::
    "(string \<Rightarrow> bool) \<Rightarrow> (string \<Rightarrow> bool) \<Rightarrow> string \<Rightarrow> chunk_data list \<Rightarrow> chunk_data list" where
  "flush_sentence han letter buf chunks =
     (if buf \<noteq> [] then
        let content = TrimSpace buf
        in if content \<noteq> []
           then chunks @ [\<lparr>cd_content = content, cd_size = 0, cd_index = int (length chunks),
                           cd_meta = language_meta han letter content\<rparr>]
           else chunks
      else chunks)"

definition matchedBound :: "string \<Rightarrow> string" where
  "matchedBound text =
     (case filter (\<lambda>b. b \<noteq> [] \<and> starts_with b text) sentenceBoundaries of [] \<Rightarrow> [] | b # _ \<Rightarrow> b)"

lemma decode_rune_pos: "decode_rune s = (r, n) \<Longrightarrow> 0 < n"
  by (auto simp: decode_rune_def Let_def split: if_splits)

lemma matchedBound_cases:
  obtains "matchedBound text = []" "\<And>b. b \<in> set sentenceBoundaries \<Longrightarrow> b \<noteq> [] \<Longrightarrow> \<not> starts_with b text"
  | "matchedBound text \<in> set sentenceBoundaries" "matchedBound text \<noteq> []"
    "starts_with (matchedBound text) text"
proof (cases "filter (\<lambda>b. b \<noteq> [] \<and> starts_with b text) sentenceBoundaries")
  case Nil
  with that(1) show ?thesis by (auto simp: matchedBound_def filter_empty_conv)
next
  case (Cons b bs)
  then have "b \<in> set (filter (\<lambda>b. b \<noteq> [] \<and> starts_with b text) sentenceBoundaries)" by simp
  then have "b \<in> set sentenceBoundaries" "b \<noteq> []" "starts_with b text" by simp_all
  moreover have "matchedBound text = b" using Cons by (simp add: matchedBound_def)
  ultimately show ?thesis using that(2) by metis
qed

function sentence_loop ::
    "(string \<Rightarrow> bool) \<Rightarrow> (string \<Rightarrow> bool) \<Rightarrow> string \<Rightarrow> string \<Rightarrow> chunk_data list \<Rightarrow> chunk_data list" where
  "sentence_loop han letter text buf chunks =
     (if text = [] then flush_sentence han letter buf chunks
      else if matchedBound text \<noteq> []
      then sentence_loop han letter (drop (length (matchedBound text)) text) []
             (flush_sentence han letter buf chunks)
      else sentence_loop han letter (drop (snd (decode_rune text)) text) (buf @ fst (decode_rune text)) chunks)"
  by pat_completeness auto
termination
  by (relation "measure (\<lambda>(han, letter, text, buf, chunks). length text)")
    (auto simp: decode_rune_def Let_def)

declare sentence_loop.simps [simp del]

definition splitSentences :: "(string \<Rightarrow> bool) \<Rightarrow> (string \<Rightarrow> bool) \<Rightarrow> string \<Rightarrow> chunk_data list" where
  "splitSentences han letter text = sentence_loop han letter text [] []"

function splitByChar_loop ::
    "(string \<Rightarrow> bool) \<Rightarrow> (string \<Rightarrow> bool) \<Rightarrow> string \<Rightarrow> chunk_data list \<Rightarrow> chunk_data list" where
  "splitByChar_loop han letter text chunks =
     (if text = [] then chunks
      else splitByChar_loop han letter (drop (snd (decode_rune text)) text)
             (chunks @ [\<lparr>cd_content = fst (decode_rune text), cd_size = 0,
                         cd_index = int (length chunks), cd_meta = language_meta han letter text\<rparr>]))"
  by pat_completeness auto
termination
  by (relation "measure (\<lambda>(han, letter, text, chunks). length text)") (auto simp: decode_rune_def Let_def)

declare splitByChar_loop.simps [simp del]

definition splitByChar :: "(string \<Rightarrow> bool) \<Rightarrow> (string \<Rightarrow> bool) \<Rightarrow> string \<Rightarrow> chunk_data list" where
  "splitByChar han letter text = splitByChar_loop han letter text []"

text \<open>The loop of \<open>splitByLength\<close>; the step is \<open>Suc n\<close>, because the overlap is below the size.\<close>

function length_loop ::
    "(string \<Rightarrow> bool) \<Rightarrow> (string \<Rightarrow> bool) \<Rightarrow> nat \<Rightarrow> nat \<Rightarrow> string list \<Rightarrow> nat \<Rightarrow> chunk_data list \<Rightarrow>
     chunk_data list" where
  "length_loop han letter chunkSize n rs start chunks =
     (if start < length rs then
        let stop = min (start + chunkSize) (length rs);
            content = concat (take (stop - start) (drop start rs));
            chunks = chunks @ [\<lparr>cd_content = content, cd_size = int (stop - start),
                                cd_index = int (length chunks), cd_meta = language_meta han letter content\<rparr>]
        in if stop = length rs then chunks
           else length_loop han letter chunkSize n rs (start + Suc n) chunks
      else chunks)"
  by pat_completeness auto
termination
  by (relation "measure (\<lambda>(han, letter, chunkSize, n, rs, start, chunks). length rs - start)") auto

declare length_loop.simps [simp del]

definition splitByLength ::
    "(string \<Rightarrow> bool) \<Rightarrow> (string \<Rightarrow> bool) \<Rightarrow> split_op \<Rightarrow> string \<Rightarrow> chunk_data list" where
  "splitByLength han letter op text =
     (let chunkSize = (if so_chunkSize op \<le> 0 then defaultLengthChunkSize else so_chunkSize op);
          overlap = (if so_overlap op < 0 then 0 else so_overlap op);
          overlap = (if chunkSize \<le> overlap then chunkSize - 1 else overlap);
          step = chunkSize - overlap
      in length_loop han letter (nat chunkSize) (nat step - 1) (runes text) 0 [])"

fun paragraph_loop ::
    "(string \<Rightarrow> bool) \<Rightarrow> (string \<Rightarrow> bool) \<Rightarrow> int \<Rightarrow> string list \<Rightarrow> chunk_data list" where
  "paragraph_loop han letter i [] = []"
| "paragraph_loop han letter i (p # ps) =
     (let trimmed = TrimSpace p
      in if trimmed = [] then paragraph_loop han letter (i + 1) ps
         else \<lparr>cd_content = trimmed, cd_size = 0, cd_index = i, cd_meta = language_meta han letter trimmed\<rparr> #
              paragraph_loop han letter (i + 1) ps)"

definition splitByParagraph :: "(string \<Rightarrow> bool) \<Rightarrow> (string \<Rightarrow> bool) \<Rightarrow> string \<Rightarrow> chunk_data list" where
  "splitByParagraph han letter text = paragraph_loop han letter 0 (split_on nl text)"

text \<open>\<open>Execute\<close> also stores the default strategy in the operator.\<close>

definition Split_Execute ::
    "(string \<Rightarrow> bool) \<Rightarrow> (string \<Rightarrow> bool) \<Rightarrow> split_op \<Rightarrow> chunk_context \<Rightarrow> chunk_context \<times> split_op" where
  "Split_Execute han letter op ctx =
     (let text = cc_text ctx;
          op = (if so_strategy op = [] then op\<lparr>so_strategy := ''sentence''\<rparr> else op);
          chunks = (if so_strategy op = ''sentence'' then splitSentences han letter text
                    else if so_strategy op = ''char'' then splitByChar han letter text
                    else if so_strategy op = ''paragraph'' then splitByParagraph han letter text
                    else if so_strategy op = ''length'' then splitByLength han letter op text
                    else splitSentences han letter text)
      in (ctx\<lparr>cc_split := chunks\<rparr>, op))"

section \<open>Postprocessing\<close>

record filter_config =
  fc_MinLength :: int
  fc_DropEmpty :: bool
  fc_DropDuplicates :: bool

record postprocess_op =
  po_merge :: "int option"
  po_filter :: "filter_config option"

definition merge_option :: "gval gomap \<Rightarrow> int" where
  "merge_option m =
     (case mget m ''target_size'' of Some (VFloat ts) \<Rightarrow> sint (f64_to_int ts) | _ \<Rightarrow> 500)"

definition filter_option :: "gval gomap \<Rightarrow> filter_config" where
  "filter_option f =
     \<lparr>fc_MinLength = (case mget f ''min_length'' of Some (VFloat v) \<Rightarrow> sint (f64_to_int v) | _ \<Rightarrow> 0),
      fc_DropEmpty = (case mget f ''drop_empty'' of Some (VBool b) \<Rightarrow> b | _ \<Rightarrow> False),
      fc_DropDuplicates = (case mget f ''drop_duplicates'' of Some (VBool b) \<Rightarrow> b | _ \<Rightarrow> False)\<rparr>"

definition NewPostprocessOperator :: "gval gomap \<Rightarrow> postprocess_op" where
  "NewPostprocessOperator config =
     \<lparr>po_merge = (case mget config ''merge'' of Some (VMap m) \<Rightarrow> Some (merge_option m) | _ \<Rightarrow> None),
      po_filter = (case mget config ''filter'' of Some (VMap f) \<Rightarrow> Some (filter_option f) | _ \<Rightarrow> None)\<rparr>"

text \<open>
  The loop of \<open>mergeChunks\<close>: the chunks merged so far, the buffer, its metadata map and the chunk
  whose map it is (\<open>bufMeta = c.Metadata\<close> shares the map, and writing a merged chunk's metadata
  into \<open>bufMeta\<close> writes them into that chunk), the index of the first chunk in the buffer, and the
  split chunks with the maps as they are by now.
\<close>

record merge_state =
  ms_merged :: "chunk_data list"
  ms_buf :: string
  ms_meta :: "gval gomap option"
  ms_owner :: "nat option"
  ms_first :: int
  ms_chunks :: "chunk_data list"

definition flush_merged :: "merge_state \<Rightarrow> merge_state" where
  "flush_merged s =
     s\<lparr>ms_merged := ms_merged s @ [\<lparr>cd_content = ms_buf s, cd_size = 0, cd_index = ms_first s,
                                     cd_meta = ms_meta s\<rparr>],
       ms_buf := [], ms_meta := None, ms_owner := None\<rparr>"

definition start_buffer :: "nat \<Rightarrow> chunk_data \<Rightarrow> merge_state \<Rightarrow> merge_state" where
  "start_buffer i c s =
     s\<lparr>ms_buf := cd_content c, ms_meta := cd_meta c, ms_owner := Some i, ms_first := cd_index c\<rparr>"

definition add_metadata :: "chunk_data \<Rightarrow> merge_state \<Rightarrow> merge_state" where
  "add_metadata c s =
     (case cd_meta c of
        None \<Rightarrow> s
      | Some m \<Rightarrow>
          (case ms_meta s of
             None \<Rightarrow> s\<lparr>ms_meta := Some (mmerge [] m), ms_owner := None\<rparr>
           | Some b \<Rightarrow>
               s\<lparr>ms_meta := Some (mmerge b m),
                 ms_chunks := (case ms_owner s of
                     None \<Rightarrow> ms_chunks s
                   | Some j \<Rightarrow> (ms_chunks s)[j := (ms_chunks s ! j)\<lparr>cd_meta := Some (mmerge b m)\<rparr>])\<rparr>))"

definition merge_step :: "int \<Rightarrow> nat \<Rightarrow> chunk_data \<Rightarrow> merge_state \<Rightarrow> merge_state" where
  "merge_step target i c s =
     (if target \<le> RuneCount (cd_content c) then
        let s = (if ms_buf s \<noteq> [] then flush_merged s else s)
        in s\<lparr>ms_merged := ms_merged s @ [c], ms_first := int i + 1\<rparr>
      else if ms_buf s = [] then start_buffer i c s
      else if target < int (length (ms_buf s)) + RuneCount (cd_content c) + 1
      then start_buffer i c (flush_merged s)
      else add_metadata c (s\<lparr>ms_buf := ms_buf s @ '' '' @ cd_content c\<rparr>))"

fun merge_loop :: "int \<Rightarrow> nat \<Rightarrow> chunk_data list \<Rightarrow> merge_state \<Rightarrow> merge_state" where
  "merge_loop target i [] s = s"
| "merge_loop target i (c # cs) s = merge_loop target (Suc i) cs (merge_step target i c s)"

definition mergeChunks :: "int \<Rightarrow> chunk_data list \<Rightarrow> chunk_data list \<times> chunk_data list" where
  "mergeChunks targetSize chunks =
     (let target = (if targetSize \<le> 0 then 500 else targetSize);
          s = merge_loop target 0 chunks
                \<lparr>ms_merged = [], ms_buf = [], ms_meta = None, ms_owner = None, ms_first = 0,
                 ms_chunks = chunks\<rparr>;
          s = (if ms_buf s \<noteq> [] then flush_merged s else s)
      in (ms_merged s, ms_chunks s))"

fun filter_loop :: "filter_config \<Rightarrow> string list \<Rightarrow> chunk_data list \<Rightarrow> chunk_data list" where
  "filter_loop f known [] = []"
| "filter_loop f known (c # cs) =
     (if fc_DropEmpty f \<and> TrimSpace (cd_content c) = [] then filter_loop f known cs
      else if 0 < fc_MinLength f \<and> RuneCount (cd_content c) < fc_MinLength f then filter_loop f known cs
      else if fc_DropDuplicates f \<and> cd_content c \<in> set known then filter_loop f known cs
      else c # filter_loop f (if fc_DropDuplicates f then cd_content c # known else known) cs)"

definition filterChunks :: "filter_config \<Rightarrow> chunk_data list \<Rightarrow> chunk_data list" where
  "filterChunks f chunks = filter_loop f [] chunks"

fun reindex :: "int \<Rightarrow> chunk_data list \<Rightarrow> chunk_data list" where
  "reindex i [] = []"
| "reindex i (c # cs) = c\<lparr>cd_index := i, cd_size := int (length (cd_content c))\<rparr> # reindex (i + 1) cs"

text \<open>With neither step configured the re-indexing works on the split chunks themselves.\<close>

definition Postprocess_Execute :: "postprocess_op \<Rightarrow> chunk_context \<Rightarrow> chunk_context" where
  "Postprocess_Execute op ctx =
     (if cc_split ctx = [] then ctx
      else
        let (chunks, split) = (case po_merge op of
                None \<Rightarrow> (cc_split ctx, cc_split ctx)
              | Some target \<Rightarrow> mergeChunks target (cc_split ctx));
            chunks = (case po_filter op of None \<Rightarrow> chunks | Some f \<Rightarrow> filterChunks f chunks);
            chunks = reindex 0 chunks
        in ctx\<lparr>cc_split := (if po_merge op = None \<and> po_filter op = None then chunks else split),
               cc_result := chunks\<rparr>)"

section \<open>Running the pipeline\<close>

definition preprocess_stage :: "chunk_options \<Rightarrow> string + preprocess_op option" where
  "preprocess_stage opts =
     (if NormalizeNewlines opts \<or> StripWhitespace opts \<or> RemoveEmptyLines opts
      then (case NewPreprocessOperator
                   [(''normalize_newlines'', VBool (NormalizeNewlines opts)),
                    (''strip_whitespace'', VBool (StripWhitespace opts)),
                    (''remove_empty_lines'', VBool (RemoveEmptyLines opts))] of
              Inl e \<Rightarrow> Inl (''chunk: build preprocess: '' @ e)
            | Inr op \<Rightarrow> Inr (Some op))
      else Inr None)"

definition post_config :: "chunk_options \<Rightarrow> gval gomap" where
  "post_config opts =
     (if 0 < MergeTargetSize opts
      then [(''merge'', VMap [(''target_size'', VFloat (f64_of_int (MergeTargetSize opts))),
                              (''strategy'', VStr ''greedy'')])]
      else []) @
     (if 0 < FilterMinLength opts
      then [(''filter'', VMap [(''min_length'', VFloat (f64_of_int (FilterMinLength opts)))])]
      else [])"

definition Run :: "(string \<Rightarrow> bool) \<Rightarrow> (string \<Rightarrow> bool) \<Rightarrow> string \<Rightarrow> chunk_options \<Rightarrow> string + chunk_context" where
  "Run han letter text opts =
     (case validate_options opts of
        Some e \<Rightarrow> Inl e
      | None \<Rightarrow>
          (case preprocess_stage opts of
             Inl e \<Rightarrow> Inl e
           | Inr pre \<Rightarrow>
               let ctx = \<lparr>cc_origin = text, cc_text = text, cc_split = [], cc_result = []\<rparr>;
                   split = NewSplitOperator [(''strategy'', VStr (SplitStrategy opts))];
                   ctx = (case pre of None \<Rightarrow> ctx | Some op \<Rightarrow> Preprocess_Execute op ctx);
                   ctx = fst (Split_Execute han letter split ctx);
                   ctx = (if post_config opts = [] then ctx
                          else Postprocess_Execute (NewPostprocessOperator (post_config opts)) ctx)
               in Inr (if cc_result ctx = [] \<and> cc_split ctx \<noteq> []
                       then ctx\<lparr>cc_result := cc_split ctx\<rparr> else ctx)))"

end
