(* ===== verification/ChunkEngineProps.thy ===== *)
theory ChunkEngineProps
  imports ChunkEngine
begin

text \<open>
  Properties of the chunking library: sentence splitting equals a split of the rune list at the
  boundary runes, length splitting loses nothing, merging keeps every piece in order and within
  the target size, the whole pipeline of the token chunker does both.
\<close>

section \<open>Runes and boundaries\<close>

lemma runes_decode:
  "s \<noteq> [] \<Longrightarrow> runes s = fst (decode_rune s) # runes (drop (snd (decode_rune s)) s)"
  by (cases s) (simp_all add: decode_rune_def Let_def)

lemma boundary_decode:
  assumes "b \<in> set sentenceBoundaries" and "starts_with b s"
  shows "decode_rune s = (b, length b)"
proof -
  have eq: "s = b @ drop (length b) s"
    using assms(2) by (induction b s rule: starts_with.induct) auto
  have "\<forall>t. rune_len (b @ t) = length b"
    using assms(1)
    by (auto simp: sentenceBoundaries_def byte_in_def rune_len_ascii)
  then have "rune_len s = length b" using eq by metis
  moreover have "take (length b) s = b" using eq by (metis append_eq_conv_conj)
  moreover have "b \<noteq> []" using assms(1) by (auto simp: sentenceBoundaries_def)
  ultimately show ?thesis by (simp add: decode_rune_def)
qed

lemma starts_with_take: "starts_with (take n s) s"
  by (induction s arbitrary: n) (auto simp: take_Cons split: nat.splits)

lemma decode_boundary:
  assumes "fst (decode_rune s) \<in> set sentenceBoundaries"
  shows "starts_with (fst (decode_rune s)) s" "fst (decode_rune s) \<noteq> []"
proof -
  have "replacement_rune \<notin> set sentenceBoundaries"
    by code_simp
  with assms show "starts_with (fst (decode_rune s)) s"
    by (auto simp: decode_rune_def Let_def starts_with_take split: if_splits)
  show "fst (decode_rune s) \<noteq> []" using assms by (auto simp: sentenceBoundaries_def)
qed

section \<open>Sentences\<close>

text \<open>Splitting a list at the elements that satisfy a predicate.\<close>

fun split_where :: "('a \<Rightarrow> bool) \<Rightarrow> 'a list \<Rightarrow> 'a list list" where
  "split_where P [] = [[]]"
| "split_where P (x # xs) =
     (if P x then [] # split_where P xs
      else case split_where P xs of [] \<Rightarrow> [[x]] | w # ws \<Rightarrow> (x # w) # ws)"

definition sentences :: "string \<Rightarrow> string list" where
  "sentences text =
     filter (\<lambda>s. s \<noteq> [])
       (map (\<lambda>rs. TrimSpace (concat rs)) (split_where (\<lambda>r. r \<in> set sentenceBoundaries) (runes text)))"

definition sentence_chunk :: "(string \<Rightarrow> bool) \<Rightarrow> (string \<Rightarrow> bool) \<Rightarrow> nat \<Rightarrow> string \<Rightarrow> chunk_data" where
  "sentence_chunk han letter i content =
     \<lparr>cd_content = content, cd_size = 0, cd_index = int i, cd_meta = language_meta han letter content\<rparr>"

definition add_sentences ::
    "(string \<Rightarrow> bool) \<Rightarrow> (string \<Rightarrow> bool) \<Rightarrow> chunk_data list \<Rightarrow> string list \<Rightarrow> chunk_data list" where
  "add_sentences han letter chunks cs =
     chunks @ map (\<lambda>(i, c). sentence_chunk han letter i c) (enumerate (length chunks) cs)"

lemma split_where_ne [simp]: "split_where P xs \<noteq> []"
  by (induction xs) (auto split: list.splits)

lemma add_sentences_Nil [simp]: "add_sentences han letter chunks [] = chunks"
  by (simp add: add_sentences_def)

lemma add_sentences_Cons [simp]:
  "add_sentences han letter chunks (c # cs) =
   add_sentences han letter (chunks @ [sentence_chunk han letter (length chunks) c]) cs"
  by (simp add: add_sentences_def)

lemma flush_sentence_add:
  "flush_sentence han letter buf chunks =
   add_sentences han letter chunks (filter (\<lambda>s. s \<noteq> []) [TrimSpace buf])"
  by (auto simp: flush_sentence_def Let_def sentence_chunk_def)

lemma sentence_loop_pieces:
  assumes "split_where (\<lambda>r. r \<in> set sentenceBoundaries) (runes text) = p # ps"
  shows "sentence_loop han letter text buf chunks =
         add_sentences han letter chunks
           (filter (\<lambda>s. s \<noteq> []) (TrimSpace (buf @ concat p) # map (\<lambda>rs. TrimSpace (concat rs)) ps))"
  using assms
proof (induction han letter "text" buf chunks arbitrary: p ps rule: sentence_loop.induct)
  case (1 han letter s buf chunks)
  show ?case
  proof (cases "s = []")
    case True
    with 1(3) show ?thesis by (simp add: sentence_loop.simps flush_sentence_add)
  next
    case ne: False
    note rs = runes_decode [OF ne]
    show ?thesis
    proof (cases s rule: matchedBound_cases)
      case 2
      from boundary_decode [OF this(1,3)]
      have dec: "decode_rune s = (matchedBound s, length (matchedBound s))" .
      obtain q qs where q: "split_where (\<lambda>r. r \<in> set sentenceBoundaries)
          (runes (drop (length (matchedBound s)) s)) = q # qs"
        by (metis list.exhaust split_where_ne)
      then have "p = []" "ps = q # qs" using 1(3) 2 by (simp_all add: rs dec)
      then show ?thesis
        using 1(1) [OF ne _ q] 2 ne
        by (subst sentence_loop.simps) (simp add: flush_sentence_add)
    next
      case no: 1
      let ?rest = "drop (snd (decode_rune s)) s"
      have nb: "fst (decode_rune s) \<notin> set sentenceBoundaries"
        using decode_boundary no(2) by blast
      obtain q qs where q: "split_where (\<lambda>r. r \<in> set sentenceBoundaries) (runes ?rest) = q # qs"
        by (metis list.exhaust split_where_ne)
      then have "p = fst (decode_rune s) # q" "ps = qs" using 1(3) nb by (simp_all add: rs)
      then show ?thesis
        using 1(2) [OF ne _ q] no ne
        by (subst sentence_loop.simps) simp
    qed
  qed
qed

lemma splitSentences_spec:
  "splitSentences han letter text =
   map (\<lambda>(i, c). sentence_chunk han letter i c) (enumerate 0 (sentences text))"
proof -
  obtain p ps where p: "split_where (\<lambda>r. r \<in> set sentenceBoundaries) (runes text) = p # ps"
    by (metis list.exhaust split_where_ne)
  from sentence_loop_pieces [OF p, of han letter "[]" "[]"] show ?thesis
    by (simp add: splitSentences_def sentences_def p add_sentences_def)
qed

text \<open>
  Sentence splitting: the scanner that walks over the bytes and cuts at the first matching
  boundary yields exactly the trimmed, non-empty pieces of the rune sequence between the boundary
  runes, in order, numbered from 0 and tagged with their own language.
\<close>

lemma split_sentences_equals_spec:
  "splitSentences han letter text =
   map (\<lambda>(i, c). sentence_chunk han letter i c) (enumerate 0 (sentences text))"
  by (rule splitSentences_spec)

section \<open>Merging\<close>

lemma cont_bytes_space: "cont_bytes n (s @ CHR '' '' # t) = cont_bytes n s"
  by (induction n s rule: cont_bytes.induct) (auto simp: byte_in_def neq_Nil_conv elim: cont_bytes.elims)

lemma rune_len_space: "s \<noteq> [] \<Longrightarrow> rune_len (s @ CHR '' '' # t) = rune_len s"
  by (induction s rule: rune_len.induct) (simp_all add: cont_bytes_space, auto simp: byte_in_def)

lemma runes_space: "runes (s @ CHR '' '' # t) = runes s @ ['' ''] @ runes t"
proof (induction s rule: runes.induct)
  case 1
  then show ?case by (simp add: rune_len_ascii byte_in_def)
next
  case (2 c s)
  have eq: "rune_len (c # s @ CHR '' '' # t) = rune_len (c # s)"
    using rune_len_space [of "c # s" t] by simp
  show ?case
  proof (cases "rune_len (c # s)")
    case 0
    with 2(1) eq show ?thesis by simp
  next
    case (Suc n)
    with rune_len_le [of "c # s"] have "n \<le> length s" by simp
    with 2(2) eq Suc show ?thesis by (simp add: Let_def)
  qed
qed

lemma RuneCount_join:
  "RuneCount (s @ '' '' @ t) = RuneCount s + RuneCount t + 1"
  by (simp add: RuneCount_def runes_space)

lemma RuneCount_length: "RuneCount s \<le> int (length s)"
  by (simp add: RuneCount_def length_runes)

text \<open>What a merged chunk holds: the contents of a group of consecutive chunks.\<close>

definition group_content :: "chunk_data list \<Rightarrow> string" where
  "group_content g = join_by '' '' (map cd_content g)"

definition group_fits :: "int \<Rightarrow> chunk_data list \<Rightarrow> bool" where
  "group_fits target g = (length g = 1 \<or> g \<noteq> [] \<and> RuneCount (group_content g) \<le> target)"

text \<open>The groups of consecutive chunks that the merge loop has closed, and the one in the buffer.\<close>

definition merging :: "int \<Rightarrow> chunk_data list list \<Rightarrow> chunk_data list \<Rightarrow> merge_state \<Rightarrow> bool" where
  "merging target gs g s =
     (map cd_content (ms_merged s) = map group_content gs \<and> list_all (group_fits target) gs \<and>
      ms_buf s = group_content g \<and> (g = [] \<or> group_fits target g))"

lemma group_content_simps [simp]:
  "group_content [] = []" "group_content [c] = cd_content c"
  "g \<noteq> [] \<Longrightarrow> group_content (g @ [c]) = group_content g @ '' '' @ cd_content c"
  by (simp_all add: group_content_def join_by_snoc)

lemma group_content_ne:
  "list_all (\<lambda>c. cd_content c \<noteq> []) g \<Longrightarrow> (group_content g = []) = (g = [])"
  by (cases g; cases "tl g") (auto simp: group_content_def)

lemma merging_step:
  assumes "merging target gs g s" and "list_all (\<lambda>c. cd_content c \<noteq> []) (g @ [c])"
  obtains gs' g' where "merging target gs' g' (merge_step target i c s)"
    "concat gs' @ g' = concat gs @ g @ [c]" "list_all (\<lambda>c. cd_content c \<noteq> []) g'"
proof -
  let ?s = "merge_step target i c s"
  have ne: "(ms_buf s = []) = (g = [])"
    using assms group_content_ne [of g] by (simp add: merging_def)
  consider (big) "target \<le> RuneCount (cd_content c)" | (empty) "RuneCount (cd_content c) < target" "g = []"
    | (full) "RuneCount (cd_content c) < target" "g \<noteq> []"
        "target < int (length (ms_buf s)) + RuneCount (cd_content c) + 1"
    | (add) "RuneCount (cd_content c) < target" "g \<noteq> []"
        "int (length (ms_buf s)) + RuneCount (cd_content c) + 1 \<le> target"
    by linarith
  then show ?thesis
  proof cases
    case big
    have "merging target ((if g = [] then gs else gs @ [g]) @ [[c]]) [] ?s"
      using assms(1) big ne
      by (auto simp: merging_def merge_step_def flush_merged_def group_fits_def Let_def)
    then show ?thesis by (rule that) auto
  next
    case empty
    then have "merging target gs [c] ?s"
      using assms(1) ne by (simp add: merging_def merge_step_def start_buffer_def group_fits_def)
    then show ?thesis by (rule that) (use assms(2) empty in auto)
  next
    case full
    then have "merging target (gs @ [g]) [c] ?s"
      using assms(1) ne
      by (auto simp: merging_def merge_step_def start_buffer_def flush_merged_def group_fits_def)
    then show ?thesis by (rule that) (use assms(2) in auto)
  next
    case add
    have "RuneCount (group_content (g @ [c])) \<le> target"
      using add assms(1) RuneCount_join [of "ms_buf s" "cd_content c"] RuneCount_length [of "ms_buf s"]
      by (simp add: merging_def)
    then have "merging target gs (g @ [c]) ?s"
      using assms(1) add ne
      by (auto simp: merging_def merge_step_def add_metadata_def group_fits_def split: option.splits)
    then show ?thesis by (rule that) (use assms(2) in auto)
  qed
qed

lemma merging_loop:
  assumes "merging target gs g s" and "list_all (\<lambda>c. cd_content c \<noteq> []) (g @ cs)"
  obtains gs' g' where "merging target gs' g' (merge_loop target i cs s)"
    "concat gs' @ g' = concat gs @ g @ cs"
  using assms
proof (induction cs arbitrary: i gs g s thesis)
  case Nil
  then show ?case by simp
next
  case (Cons c cs)
  from Cons.prems(3) have "list_all (\<lambda>c. cd_content c \<noteq> []) (g @ [c])" by simp
  from merging_step [OF Cons.prems(2) this, of i] obtain gs1 g1 where
    m: "merging target gs1 g1 (merge_step target i c s)" "concat gs1 @ g1 = concat gs @ g @ [c]"
      "list_all (\<lambda>c. cd_content c \<noteq> []) g1" .
  have "list_all (\<lambda>c. cd_content c \<noteq> []) (g1 @ cs)" using m(3) Cons.prems(3) by simp
  from Cons.IH [OF _ m(1) this, of "Suc i"] obtain gs2 g2 where
    "merging target gs2 g2 (merge_loop target (Suc i) cs (merge_step target i c s))"
    "concat gs2 @ g2 = concat gs1 @ g1 @ cs" by metis
  with m(2) show ?case using Cons.prems(1) [of gs2 g2] by simp
qed

lemma mergeChunks_groups:
  assumes "list_all (\<lambda>c. cd_content c \<noteq> []) chunks" and "0 < target"
  obtains gs where "concat gs = chunks" "list_all (group_fits target) gs"
    "map cd_content (fst (mergeChunks target chunks)) = map group_content gs"
proof -
  let ?s0 = "\<lparr>ms_merged = [], ms_buf = [], ms_meta = None, ms_owner = None, ms_first = 0,
              ms_chunks = chunks\<rparr>"
  have "merging target [] [] ?s0" by (simp add: merging_def)
  from merging_loop [OF this, of chunks 0] assms(1) obtain gs g where
    m: "merging target gs g (merge_loop target 0 chunks ?s0)" "concat gs @ g = chunks" by auto
  let ?s = "merge_loop target 0 chunks ?s0"
  have "list_all (\<lambda>c. cd_content c \<noteq> []) g" using assms(1) m(2) by auto
  then have ne: "(ms_buf ?s = []) = (g = [])"
    using m(1) group_content_ne [of g] by (simp add: merging_def)
  let ?gs = "if g = [] then gs else gs @ [g]"
  have "concat ?gs = chunks" using m(2) by auto
  moreover have "list_all (group_fits target) ?gs" using m(1) by (auto simp: merging_def)
  moreover have "map cd_content (fst (mergeChunks target chunks)) = map group_content ?gs"
    using m(1) ne assms(2)
    by (auto simp: mergeChunks_def Let_def flush_merged_def merging_def)
  ultimately show ?thesis by (rule that)
qed

section \<open>The pipeline\<close>

lemma splitSentences_contents: "map cd_content (splitSentences han letter text) = sentences text"
proof -
  have "map cd_content (splitSentences han letter text) = map snd (enumerate 0 (sentences text))"
    by (simp add: splitSentences_spec comp_def split_beta sentence_chunk_def)
  then show ?thesis by simp
qed

lemma sentences_ne: "list_all (\<lambda>c. cd_content c \<noteq> []) (splitSentences han letter text)"
proof -
  have "list_all (\<lambda>s. s \<noteq> []) (map cd_content (splitSentences han letter text))"
    by (auto simp: splitSentences_contents sentences_def list_all_iff)
  then show ?thesis by (simp add: list.pred_map comp_def)
qed

lemma reindex_contents [simp]: "map cd_content (reindex i cs) = map cd_content cs"
  by (induction i cs rule: reindex.induct) simp_all

lemma reindex_Nil [simp]: "reindex i cs = [] \<longleftrightarrow> cs = []"
  by (cases cs) simp_all

lemma reindex_index: "map cd_index (reindex i cs) = map (\<lambda>k. i + int k) [0..<length cs]"
proof (induction i cs rule: reindex.induct)
  case (2 i c cs)
  have "map (\<lambda>k. i + int k) [0..<Suc (length cs)] = i # map (\<lambda>k. i + 1 + int k) [0..<length cs]"
    by (simp add: upt_conv_Cons map_Suc_upt [symmetric] comp_def ac_simps del: upt_Suc)
  with 2 show ?case by simp
qed simp

definition prepared_text :: "chunk_options \<Rightarrow> string \<Rightarrow> string" where
  "prepared_text opts text =
     preprocess_text
       \<lparr>normalizeNewlines = NormalizeNewlines opts, stripWhitespace = StripWhitespace opts,
        removeEmptyLines = RemoveEmptyLines opts, softLineBreakMerging = False\<rparr> text"

lemma preprocess_stage_text:
  defines "ctx0 \<equiv> \<lambda>s. \<lparr>cc_origin = s, cc_text = s, cc_split = [], cc_result = []\<rparr>"
  shows "\<exists>pre. preprocess_stage opts = Inr pre \<and>
     (case pre of None \<Rightarrow> ctx0 s | Some op \<Rightarrow> Preprocess_Execute op (ctx0 s)) =
     (ctx0 s)\<lparr>cc_text := prepared_text opts s\<rparr>"
  by (auto simp: preprocess_stage_def NewPreprocessOperator_def bool_option_def Preprocess_Execute_def
      prepared_text_def preprocess_text_def ctx0_def)

lemma join_groups:
  assumes "map cd_content chunks = cs" and "concat gs = chunks"
  shows "concat (map (map cd_content) gs) = cs"
  using assms by (simp add: map_concat [symmetric])

lemma Run_sentences:
  assumes "0 < MergeTargetSize opts" and "MergeTargetSize opts < 2 ^ 53"
    and "FilterMinLength opts = 0" and "SplitStrategy opts = ''sentence''"
  shows "\<exists>ctx. Run han letter text opts = Inr ctx \<and> cc_text ctx = prepared_text opts text \<and>
     cc_result ctx = reindex 0 (fst (mergeChunks (MergeTargetSize opts)
                                  (splitSentences han letter (prepared_text opts text))))"
proof -
  let ?s0 = "\<lparr>cc_origin = text, cc_text = text, cc_split = [], cc_result = []\<rparr>"
  let ?chunks = "splitSentences han letter (prepared_text opts text)"
  obtain pre where pre: "preprocess_stage opts = Inr pre"
    "(case pre of None \<Rightarrow> ?s0 | Some op \<Rightarrow> Preprocess_Execute op ?s0) =
     ?s0\<lparr>cc_text := prepared_text opts text\<rparr>"
    using preprocess_stage_text [of opts "text"] by auto
  have op: "NewPostprocessOperator (post_config opts) =
      \<lparr>po_merge = Some (MergeTargetSize opts), po_filter = None\<rparr>"
    using assms by (simp add: NewPostprocessOperator_def post_config_def merge_option_def read_small small_def)
  have split: "fst (Split_Execute han letter (NewSplitOperator [(''strategy'', VStr ''sentence'')]) ctx) =
      ctx\<lparr>cc_split := splitSentences han letter (cc_text ctx)\<rparr>" for ctx
    by (simp add: Split_Execute_def NewSplitOperator_def Let_def)
  have configured: "post_config opts \<noteq> []" using assms(1) by (simp add: post_config_def)
  obtain m sp where m: "mergeChunks (MergeTargetSize opts) ?chunks = (m, sp)" by fastforce
  have "m = [] \<Longrightarrow> ?chunks = []"
  proof -
    assume "m = []"
    moreover obtain gs where gs: "concat gs = ?chunks" "map cd_content m = map group_content gs"
      using mergeChunks_groups [OF sentences_ne assms(1), of han letter "prepared_text opts text"] m
      by (metis fst_conv)
    ultimately show "?chunks = []" by auto
  qed
  moreover have "?chunks = [] \<Longrightarrow> m = []"
  proof -
    assume "?chunks = []"
    with m show "m = []" by (simp add: mergeChunks_def Let_def)
  qed
  moreover have "?chunks = [] \<Longrightarrow> sp = []"
  proof -
    assume "?chunks = []"
    with m show "sp = []" by (simp add: mergeChunks_def Let_def)
  qed
  ultimately have "(m = []) = (?chunks = [])" "?chunks = [] \<Longrightarrow> sp = []" by blast+
  then show ?thesis
    using assms m
    by (cases "?chunks = []")
      (simp_all add: Run_def validate_options_def pre Let_def split op configured Postprocess_Execute_def)
qed

text \<open>
  C13: The pipeline the token chunker runs (clean up, split into sentences, merge to a target size):
  the result is the list of sentences of the cleaned text, cut into consecutive groups joined with
  a blank; no sentence is lost, repeated or moved, the chunks are numbered from 0, and a chunk of
  several sentences never has more runes than the target.
\<close>

theorem run_merges_sentences:
  assumes "0 < MergeTargetSize opts" and "MergeTargetSize opts < 2 ^ 53"
    and "FilterMinLength opts = 0" and "SplitStrategy opts = ''sentence''"
  shows "\<exists>ctx gs. Run han letter text opts = Inr ctx \<and> concat gs = sentences (prepared_text opts text) \<and>
     map cd_content (cc_result ctx) = map (join_by '' '') gs \<and>
     map cd_index (cc_result ctx) = map int [0..<length gs] \<and>
     list_all (\<lambda>g. length g = 1 \<or> RuneCount (join_by '' '' g) \<le> MergeTargetSize opts) gs"
proof -
  let ?chunks = "splitSentences han letter (prepared_text opts text)"
  obtain ctx where ctx: "Run han letter text opts = Inr ctx"
    "cc_result ctx = reindex 0 (fst (mergeChunks (MergeTargetSize opts) ?chunks))"
    using Run_sentences [OF assms] by blast
  obtain gs where gs: "concat gs = ?chunks" "list_all (group_fits (MergeTargetSize opts)) gs"
    "map cd_content (fst (mergeChunks (MergeTargetSize opts) ?chunks)) = map group_content gs"
    using mergeChunks_groups [OF sentences_ne assms(1)] by metis
  let ?ws = "map (map cd_content) gs"
  let ?m = "fst (mergeChunks (MergeTargetSize opts) ?chunks)"
  have "length ?m = length gs" using arg_cong [OF gs(3), of length] by simp
  then have "map cd_index (cc_result ctx) = map int [0..<length ?ws]"
    by (simp add: ctx(2) reindex_index)
  moreover have "concat ?ws = sentences (prepared_text opts text)"
    by (rule join_groups [OF splitSentences_contents gs(1)])
  moreover have "map cd_content (cc_result ctx) = map (join_by '' '') ?ws"
    using gs(3) ctx(2) by (simp add: group_content_def)
  moreover have "list_all (\<lambda>g. length g = 1 \<or> RuneCount (join_by '' '' g) \<le> MergeTargetSize opts) ?ws"
    using gs(2) by (auto simp: list_all_iff group_fits_def group_content_def)
  ultimately show ?thesis using ctx(1) by blast
qed

definition example_options :: chunk_options where
  "example_options =
     \<lparr>NormalizeNewlines = True, StripWhitespace = False, RemoveEmptyLines = False,
      SplitStrategy = ''sentence'', MergeTargetSize = 4, FilterMinLength = 0\<rparr>"

lemma example_sentences: "sentences (prepared_text example_options ''A.B.C'') = [''A'', ''B'', ''C'']"
  by code_simp

theorem run_merges_sentences_witness:
  "\<exists>ctx gs. Run (\<lambda>r. False) (\<lambda>r. True) ''A.B.C'' example_options = Inr ctx \<and>
     concat gs = [''A'', ''B'', ''C''] \<and> map cd_content (cc_result ctx) = map (join_by '' '') gs \<and>
     map cd_index (cc_result ctx) = map int [0..<length gs] \<and>
     list_all (\<lambda>g. length g = 1 \<or> RuneCount (join_by '' '' g) \<le> 4) gs"
  using run_merges_sentences [of example_options "\<lambda>r. False" "\<lambda>r. True" "''A.B.C''"]
  by (simp add: example_sentences) (simp add: example_options_def)

section \<open>Splitting by length\<close>

text \<open>
  The windows of a rune list, each starting one step after the one before: without the runes it
  shares with its predecessor, each window continues the text.
\<close>

definition unwindow :: "nat \<Rightarrow> 'a list list \<Rightarrow> 'a list" where
  "unwindow shared ws = (case ws of [] \<Rightarrow> [] | w # ws \<Rightarrow> w @ concat (map (drop shared) ws))"

lemma length_loop_windows:
  assumes "start < length rs" and "n < width"
  obtains ws where
    "map cd_content (length_loop han letter width n rs start chunks) =
     map cd_content chunks @ map concat ws"
    "list_all (\<lambda>w. length w \<le> width) ws" "ws \<noteq> []" "unwindow (width - Suc n) ws = drop start rs"
    "hd ws = take width (drop start rs)"
  using assms
proof (induction "length rs - start" arbitrary: start chunks thesis rule: less_induct)
  case less
  let ?w = "take width (drop start rs)"
  let ?stop = "min (start + width) (length rs)"
  have w: "take (?stop - start) (drop start rs) = ?w"
    by (simp add: min_def)
  let ?c = "\<lparr>cd_content = concat ?w, cd_size = int (?stop - start), cd_index = int (length chunks),
             cd_meta = language_meta han letter (concat ?w)\<rparr>"
  show ?case
  proof (cases "?stop = length rs")
    case True
    then have "length_loop han letter width n rs start chunks = chunks @ [?c]"
      using less.prems(2) w by (subst length_loop.simps) (simp add: Let_def)
    moreover have "?w = drop start rs" using True by (simp add: min_def split: if_splits)
    ultimately show ?thesis
      by (intro less.prems(1) [of "[?w]"]) (simp_all add: unwindow_def)
  next
    case False
    then have lt: "start + width < length rs" by simp
    then have step: "length_loop han letter width n rs start chunks =
        length_loop han letter width n rs (start + Suc n) (chunks @ [?c])"
      using less.prems(2) w False by (subst length_loop.simps) (simp add: Let_def)
    have "length rs - (start + Suc n) < length rs - start" "start + Suc n < length rs"
      using lt less.prems(3) by simp_all
    from less.hyps [OF this(1) _ this(2) less.prems(3), of "chunks @ [?c]"] obtain ws where
      ws: "map cd_content (length_loop han letter width n rs (start + Suc n) (chunks @ [?c])) =
           map cd_content (chunks @ [?c]) @ map concat ws"
      "list_all (\<lambda>w. length w \<le> width) ws" "ws \<noteq> []"
      "unwindow (width - Suc n) ws = drop (start + Suc n) rs"
      "hd ws = take width (drop (start + Suc n) rs)" by metis
    have "concat (map (drop (width - Suc n)) ws) = drop (width - Suc n) (unwindow (width - Suc n) ws)"
      using ws(3,5) lt less.prems(3)
      by (cases ws) (auto simp: unwindow_def)
    then have "concat (map (drop (width - Suc n)) ws) = drop width (drop start rs)"
      using ws(4) less.prems(3) by (simp add: ac_simps)
    then have "unwindow (width - Suc n) (?w # ws) = drop start rs"
      by (simp add: unwindow_def del: drop_drop)
    then show ?thesis
      using ws step by (intro less.prems(1) [of "?w # ws"]) simp_all
  qed
qed

lemma length_chunks_cover:
  assumes "0 < so_chunkSize op" and "0 \<le> so_overlap op" and "so_overlap op < so_chunkSize op"
  obtains ws where
    "map cd_content (splitByLength han letter op text) = map concat ws"
    "list_all (\<lambda>w. int (length w) \<le> so_chunkSize op) ws"
    "unwindow (nat (so_overlap op)) ws = runes text"
proof (cases "text = []")
  case True
  then have "splitByLength han letter op text = []"
    by (simp add: splitByLength_def Let_def length_loop.simps)
  then show ?thesis by (intro that [of "[]"]) (simp_all add: True unwindow_def)
next
  case False
  let ?n = "nat (so_chunkSize op - so_overlap op) - 1"
  have split: "splitByLength han letter op text =
      length_loop han letter (nat (so_chunkSize op)) ?n (runes text) 0 []"
    using assms by (simp add: splitByLength_def Let_def)
  have n: "?n < nat (so_chunkSize op)" "nat (so_chunkSize op) - Suc ?n = nat (so_overlap op)"
    using assms by auto
  have "0 < length (runes text)" using False by simp
  from length_loop_windows [OF this n(1), of han letter "[]"] obtain ws where
    "map cd_content (splitByLength han letter op text) = map concat ws"
    "list_all (\<lambda>w. length w \<le> nat (so_chunkSize op)) ws"
    "unwindow (nat (so_overlap op)) ws = runes text"
    unfolding split n(2) by auto
  then show ?thesis using assms(1) by (intro that [of ws]) (auto simp: list_all_iff le_nat_iff)
qed

section \<open>Two surprises\<close>

text \<open>
  The buffer is measured in bytes and the next chunk in runes: two chunks of two Han characters make
  five runes, below a target of eight, and are not merged, while the same number of ASCII letters is.
\<close>

definition han_pair :: string where
  "han_pair = [CHR 0xE4, CHR 0xB8, CHR 0xAD, CHR 0xE4, CHR 0xB8, CHR 0xAD]"

definition plain_chunk :: "string \<Rightarrow> chunk_data" where
  "plain_chunk s = \<lparr>cd_content = s, cd_size = 0, cd_index = 0, cd_meta = None\<rparr>"

lemma merge_counts_bytes:
  "RuneCount (han_pair @ '' '' @ han_pair) = 5 \<and>
   map cd_content (fst (mergeChunks 8 [plain_chunk han_pair, plain_chunk han_pair])) = [han_pair, han_pair] \<and>
   map cd_content (fst (mergeChunks 8 [plain_chunk ''ab'', plain_chunk ''ab''])) = [''ab ab'']"
  by code_simp

text \<open>
  The merged chunk uses the metadata map of its first piece: the split chunks, which the context
  still holds, change with it.
\<close>

lemma merge_writes_into_split_chunk:
  "map cd_meta (snd (mergeChunks 8
     [(plain_chunk ''a'')\<lparr>cd_meta := Some [(''language'', VStr ''en'')]\<rparr>,
      (plain_chunk ''b'')\<lparr>cd_meta := Some [(''language'', VStr ''zh'')]\<rparr>])) =
   [Some [(''language'', VStr ''zh'')], Some [(''language'', VStr ''zh'')]]"
  by code_simp

end
