(* ===== verification/Chunker.thy ===== *)
theory Chunker
  imports ChunkEngine
begin

text \<open>
  The token chunker of the ingestion pipeline: \<open>ingestion/component/chunker\<close> (\<open>common.go\<close>,
  \<open>token.go\<close>) with its wire types, \<open>ingestion/component/schema\<close> (\<open>chunker.go\<close>,
  \<open>chunk_types.go\<close>). A delimiter pattern is always an alternation of quoted literals, so it is
  represented by the list of its alternatives (\<open>nil\<close> by \<open>None\<close>), and matching compares bytes;
  delimiters are valid UTF-8, as every string read from JSON is. Maps at the JSON boundary are the
  typed records they are decoded into. The token counter of the third-party encoder is the argument
  \<open>tok\<close>; lengths and token counts are integers without bound.
\<close>

section \<open>Wire types\<close>

record chunk_doc =
  dc_Text :: string
  dc_ContentWithWeight :: string
  dc_DocType :: string
  dc_CKType :: string
  dc_TKNums :: "int option"
  dc_Mom :: string
  dc_ImgID :: string
  dc_Layout :: string
  dc_LayoutType :: string
  dc_LayoutNo :: string
  dc_Image :: string
  dc_ContextAbove :: string
  dc_ContextBelow :: string
  dc_Questions :: string
  dc_Keywords :: string
  dc_Summary :: string
  dc_ChunkOrderInt :: "int option"
  dc_TitleTks :: string
  dc_TitleSmTks :: string
  dc_ContentLtks :: string
  dc_ContentSmLtks :: string
  dc_PageNumber :: "int option"
  dc_PDFPositions :: string
  dc_Positions :: string
  dc_Extra :: "string gomap"

definition empty_doc :: chunk_doc where
  "empty_doc =
     \<lparr>dc_Text = [], dc_ContentWithWeight = [], dc_DocType = [], dc_CKType = [], dc_TKNums = None,
      dc_Mom = [], dc_ImgID = [], dc_Layout = [], dc_LayoutType = [], dc_LayoutNo = [], dc_Image = [],
      dc_ContextAbove = [], dc_ContextBelow = [], dc_Questions = [], dc_Keywords = [],
      dc_Summary = [], dc_ChunkOrderInt = None, dc_TitleTks = [], dc_TitleSmTks = [],
      dc_ContentLtks = [], dc_ContentSmLtks = [], dc_PageNumber = None, dc_PDFPositions = [],
      dc_Positions = [], dc_Extra = []\<rparr>"

text \<open>\<open>schema.ChunkDoc{Text: s}\<close>\<close>

definition text_doc :: "string \<Rightarrow> chunk_doc" where
  "text_doc s = empty_doc\<lparr>dc_Text := s\<rparr>"

record chunker_upstream =
  up_Name :: string
  up_Chunks :: "chunk_doc list option"
  up_OutputFormat :: string
  up_JSONResult :: "chunk_doc list option"
  up_MarkdownResult :: "string option"
  up_TextResult :: "string option"
  up_HTMLResult :: "string option"

datatype schema_error =
    RequiredField string
  | InvalidValue string string
  | InvalidFloat string f64

definition isKnown :: "string \<Rightarrow> bool" where
  "isKnown f = (f \<in> {[], ''json'', ''markdown'', ''text'', ''html'', ''chunks''})"

definition Upstream_Validate :: "chunker_upstream \<Rightarrow> schema_error option" where
  "Upstream_Validate c =
     (if up_Name c = [] then Some (RequiredField ''name'')
      else if \<not> isKnown (up_OutputFormat c)
      then Some (InvalidValue ''output_format'' (up_OutputFormat c))
      else if up_OutputFormat c = ''chunks'' then None
      else if up_OutputFormat c = ''json'' \<and> up_JSONResult c = None then Some (RequiredField ''json'')
      else if up_OutputFormat c = ''markdown'' \<and> up_MarkdownResult c = None
      then Some (RequiredField ''markdown'')
      else if up_OutputFormat c = ''text'' \<and> up_TextResult c = None then Some (RequiredField ''text'')
      else if up_OutputFormat c = ''html'' \<and> up_HTMLResult c = None then Some (RequiredField ''html'')
      else None)"

text \<open>What a chunker returns: a list of chunks and, on failure, the error under \<open>_ERROR\<close>.\<close>

datatype chunker_error =
    DecodeError string
  | InputError schema_error
  | Cancelled string string
  | MissingName string
  | UnsupportedMethod string

record 'c chunker_outputs =
  out_chunks :: "'c list"
  out_ERROR :: "chunker_error option"

definition emptyOutputs :: "'c chunker_outputs" where
  "emptyOutputs = \<lparr>out_chunks = [], out_ERROR = None\<rparr>"

definition chunkOutputs :: "'c list \<Rightarrow> 'c chunker_outputs" where
  "chunkOutputs chunks = \<lparr>out_chunks = chunks, out_ERROR = None\<rparr>"

definition errorOutputs :: "chunker_error \<Rightarrow> 'c chunker_outputs" where
  "errorOutputs e = \<lparr>out_chunks = [], out_ERROR = Some e\<rparr>"

section \<open>Parameters\<close>

text \<open>A configuration value: a dynamic value, a \<open>[]string\<close> or a \<open>[][]string\<close>.\<close>

datatype conf_value = CVal gval | CStrings "string list" | CStringLists "string list list"

definition conf_val :: "conf_value gomap \<Rightarrow> string \<Rightarrow> gval option" where
  "conf_val conf k = (case mget conf k of Some (CVal v) \<Rightarrow> Some v | _ \<Rightarrow> None)"

definition numericFromAny :: "gval option \<Rightarrow> f64 option" where
  "numericFromAny v =
     (case v of
        Some (VFloat x) \<Rightarrow> Some x
      | Some (VInt x) \<Rightarrow> Some (f64_of_int (sint x))
      | Some (VNum k x) \<Rightarrow>
          (if k \<in> {KFloat32, KInt32, KInt64, KUint, KUint32, KUint64} then Some (f64_of_int x) else None)
      | _ \<Rightarrow> None)"

definition stringListFromAny :: "gval list \<Rightarrow> string list" where
  "stringListFromAny vs = filter (\<lambda>s. s \<noteq> []) (strings_of vs)"

record token_param =
  tp_DelimiterMode :: string
  tp_ChunkTokenSize :: int
  tp_Delimiters :: "string list"
  tp_OverlappedPercent :: f64
  tp_ChildrenDelimiters :: "string list"
  tp_TableContextSize :: int
  tp_ImageContextSize :: int

definition defaultsToken :: token_param where
  "defaultsToken =
     \<lparr>tp_DelimiterMode = ''token_size'', tp_ChunkTokenSize = 512, tp_Delimiters = [[nl]],
      tp_OverlappedPercent = Fin 0 0, tp_ChildrenDelimiters = [], tp_TableContextSize = 0,
      tp_ImageContextSize = 0\<rparr>"

definition string_list_conf :: "conf_value gomap \<Rightarrow> string \<Rightarrow> string list option" where
  "string_list_conf conf k =
     (case mget conf k of
        Some (CVal (VList v)) \<Rightarrow> Some (stringListFromAny v)
      | Some (CStrings v) \<Rightarrow> Some v
      | _ \<Rightarrow> None)"

definition int_conf :: "conf_value gomap \<Rightarrow> string \<Rightarrow> int option" where
  "int_conf conf k = map_option (\<lambda>v. sint (f64_to_int v)) (numericFromAny (conf_val conf k))"

definition or_else :: "'a option \<Rightarrow> 'a \<Rightarrow> 'a" where
  "or_else v d = (case v of None \<Rightarrow> d | Some x \<Rightarrow> x)"

definition string_conf :: "conf_value gomap \<Rightarrow> string \<Rightarrow> string option" where
  "string_conf conf k = (case conf_val conf k of Some (VStr s) \<Rightarrow> Some s | _ \<Rightarrow> None)"

definition Token_Update :: "conf_value gomap \<Rightarrow> token_param \<Rightarrow> token_param" where
  "Token_Update conf p =
     \<lparr>tp_DelimiterMode = or_else (string_conf conf ''delimiter_mode'') (tp_DelimiterMode p),
      tp_ChunkTokenSize = or_else (int_conf conf ''chunk_token_size'') (tp_ChunkTokenSize p),
      tp_Delimiters = or_else (string_list_conf conf ''delimiters'') (tp_Delimiters p),
      tp_OverlappedPercent =
        or_else (numericFromAny (conf_val conf ''overlapped_percent'')) (tp_OverlappedPercent p),
      tp_ChildrenDelimiters =
        or_else (string_list_conf conf ''children_delimiters'') (tp_ChildrenDelimiters p),
      tp_TableContextSize = or_else (int_conf conf ''table_context_size'') (tp_TableContextSize p),
      tp_ImageContextSize = or_else (int_conf conf ''image_context_size'') (tp_ImageContextSize p)\<rparr>"

definition Token_Validate :: "token_param \<Rightarrow> schema_error option" where
  "Token_Validate p =
     (if tp_DelimiterMode p \<notin> {''token_size'', ''delimiter'', ''one''}
      then Some (InvalidValue ''delimiter_mode'' (tp_DelimiterMode p))
      else if tp_ChunkTokenSize p \<le> 0
      then Some (InvalidValue ''chunk_token_size'' (show_int (tp_ChunkTokenSize p)))
      else if f64_less (tp_OverlappedPercent p) (Fin 0 0) \<or> f64_less (Fin 1 0) (tp_OverlappedPercent p) \<or>
              f64_eq (tp_OverlappedPercent p) (Fin 1 0)
      then Some (InvalidFloat ''overlapped_percent'' (tp_OverlappedPercent p))
      else if tp_TableContextSize p < 0
      then Some (InvalidValue ''table_context_size'' (show_int (tp_TableContextSize p)))
      else if tp_ImageContextSize p < 0
      then Some (InvalidValue ''image_context_size'' (show_int (tp_ImageContextSize p)))
      else None)"

definition NewTokenChunker :: "conf_value gomap \<Rightarrow> schema_error + token_param" where
  "NewTokenChunker params =
     (let p = Token_Update params defaultsToken
      in case Token_Validate p of Some e \<Rightarrow> Inl e | None \<Rightarrow> Inr p)"

section \<open>Delimiter patterns\<close>

text \<open>
  Insertion sort as the code writes it: an element moves left while the one before it must come
  after it. The sorted part is kept backwards.
\<close>

fun insert_back :: "('a \<Rightarrow> 'a \<Rightarrow> bool) \<Rightarrow> 'a \<Rightarrow> 'a list \<Rightarrow> 'a list" where
  "insert_back after x [] = [x]"
| "insert_back after x (y # ys) = (if after y x then y # insert_back after x ys else x # y # ys)"

definition insertion_sort :: "('a \<Rightarrow> 'a \<Rightarrow> bool) \<Rightarrow> 'a list \<Rightarrow> 'a list" where
  "insertion_sort after xs = rev (foldl (\<lambda>acc x. insert_back after x acc) [] xs)"

text \<open>\<open>len(regexp.QuoteMeta(s))\<close>: a meta character is preceded by a backslash.\<close>

definition quoted_len :: "string \<Rightarrow> nat" where
  "quoted_len s =
     length s + length (filter (\<lambda>c. c \<in> set (CHR 0x5C # ''.+*?()|[]{}^$'')) s)"

type_synonym pattern = "string list"

definition backticked :: "string \<Rightarrow> bool" where
  "backticked d = (d \<noteq> [] \<and> hd d = CHR 0x60 \<and> last d = CHR 0x60 \<and> 2 \<le> length d)"

definition compileDelimPattern :: "string list \<Rightarrow> pattern option" where
  "compileDelimPattern delims =
     (let ds = filter (\<lambda>d. d \<noteq> []) delims;
          custom = map (\<lambda>d. butlast (tl d)) (filter backticked ds);
          plain = filter (\<lambda>d. \<not> backticked d) ds;
          all = plain @ custom
      in if all = [] then None else Some (sort_key (\<lambda>s. - int (quoted_len s)) all))"

text \<open>\<open>sortSlice\<close>, on the quoted entries.\<close>

definition sortSlice :: "string list \<Rightarrow> string list" where
  "sortSlice xs = insertion_sort (\<lambda>y x. quoted_len y < quoted_len x) xs"

definition compileChildrenPattern :: "string list \<Rightarrow> pattern option" where
  "compileChildrenPattern delims =
     (if delims = [] then None
      else
        let escaped = filter (\<lambda>d. d \<noteq> []) delims
        in if escaped = [] then None else Some (sortSlice escaped))"

text \<open>
  The pattern text of a compiled delimiter list is never the sentinel \<open>hasActiveDelimiter\<close> looks
  for, because its parentheses are quoted.
\<close>

definition hasActiveDelimiter :: "pattern option \<Rightarrow> bool" where
  "hasActiveDelimiter p = (p \<noteq> None)"

definition match_at :: "pattern \<Rightarrow> string \<Rightarrow> nat option" where
  "match_at p s = (case filter (\<lambda>w. starts_with w s) p of [] \<Rightarrow> None | w # _ \<Rightarrow> Some (length w))"

fun leftmost :: "pattern \<Rightarrow> string \<Rightarrow> (nat \<times> nat) option" where
  "leftmost p s =
     (case match_at p s of
        Some n \<Rightarrow> Some (0, n)
      | None \<Rightarrow> (case s of [] \<Rightarrow> None | c # s' \<Rightarrow> map_option (\<lambda>(i, n). (Suc i, n)) (leftmost p s')))"

declare leftmost.simps [simp del]

text \<open>
  \<open>FindAllStringSubmatchIndex\<close>: the successive matches, without an empty one right after the match
  before it.
\<close>

function all_matches :: "pattern \<Rightarrow> string \<Rightarrow> nat \<Rightarrow> nat option \<Rightarrow> (nat \<times> nat) list" where
  "all_matches p s pos prev =
     (if length s < pos then []
      else case leftmost p (drop pos s) of
        None \<Rightarrow> []
      | Some (i, n) \<Rightarrow>
          if n = 0 \<and> i = 0
          then (if prev = Some pos then [] else [(pos, pos)]) @
               all_matches p s (if pos < length s then pos + snd (decode_rune (drop pos s)) else Suc pos) (Some pos)
          else (pos + i, pos + i + n) # all_matches p s (pos + i + n) (Some (pos + i + n)))"
  by pat_completeness auto
termination
proof (relation "measure (\<lambda>(p, s, pos, prev). Suc (length s) - pos)", goal_cases)
  case (2 p s pos prev)
  then show ?case
    using decode_rune_pos [of "drop pos s" "fst (decode_rune (drop pos s))" "snd (decode_rune (drop pos s))"]
    by (auto simp: Suc_diff_le split: prod.splits)
qed auto

declare all_matches.simps [simp del]

definition FindAll :: "pattern \<Rightarrow> string \<Rightarrow> (nat \<times> nat) list" where
  "FindAll p s = all_matches p s 0 None"

text \<open>The pieces between the matches and the matches; \<open>s[i:j]\<close> is \<open>text_slice s i j\<close>.\<close>

definition text_slice :: "string \<Rightarrow> nat \<Rightarrow> nat \<Rightarrow> string" where
  "text_slice s i j = take (j - i) (drop i s)"

fun split_pieces :: "string \<Rightarrow> nat \<Rightarrow> (nat \<times> nat) list \<Rightarrow> string list" where
  "split_pieces s cursor [] = (if cursor < length s then [drop cursor s] else [])"
| "split_pieces s cursor ((start, stop) # idxs) =
     (if cursor < start then [text_slice s cursor start] else []) @
     text_slice s start stop # split_pieces s stop idxs"

definition splitKeepingDelim :: "string \<Rightarrow> pattern option \<Rightarrow> string list" where
  "splitKeepingDelim s p =
     (case p of
        None \<Rightarrow> [s]
      | Some p \<Rightarrow> (if FindAll p s = [] then [s] else split_pieces s 0 (FindAll p s)))"

end
