(* ===== verification/TokenChunker.thy ===== *)
theory TokenChunker
  imports Chunker "HOL-Library.Multiset"
begin

text \<open>
  The operations of the token chunker, \<open>token.go\<close>: a text payload is cut at the delimiters or
  merged to a target size; a structured payload is cut item by item by parallel workers, each of
  which fills the slots of its lane. \<open>js\<close> is the order in which the slots are written,
  any interleaving of the lanes. \<open>cloneChunkDoc\<close> copies what pointers refer to; here documents
  are values, and the clone is the document.
\<close>

section \<open>Items\<close>

definition itemText :: "chunk_doc \<Rightarrow> string option" where
  "itemText it =
     (if dc_Text it \<noteq> [] then Some (dc_Text it)
      else if dc_ContentWithWeight it \<noteq> [] then Some (dc_ContentWithWeight it) else None)"

definition itemTextOrFallback :: "chunk_doc \<Rightarrow> string" where
  "itemTextOrFallback it = or_else (itemText it) []"

definition itemDocType :: "chunk_doc \<Rightarrow> string" where
  "itemDocType it =
     (let t = lower_text (TrimSpace (dc_DocType it))
      in if t = ''table'' then ''table'' else if t = ''image'' then ''image'' else ''text'')"

definition intValue :: "int option \<Rightarrow> int" where
  "intValue v = or_else v 0"

definition buildChunkDoc ::
    "(string \<Rightarrow> int) \<Rightarrow> chunk_doc \<Rightarrow> string \<Rightarrow> string \<Rightarrow> string \<Rightarrow> string \<Rightarrow> chunk_doc" where
  "buildChunkDoc tok it ckType s ctxAbove ctxBelow =
     empty_doc\<lparr>dc_Text := s, dc_DocType := ckType, dc_CKType := ckType, dc_TKNums := Some (tok s),
       dc_Mom := dc_Mom it, dc_ImgID := dc_ImgID it, dc_Layout := dc_Layout it,
       dc_PDFPositions := dc_PDFPositions it, dc_Positions := dc_Positions it,
       dc_Image := dc_Image it, dc_PageNumber := dc_PageNumber it,
       dc_ContextAbove := ctxAbove, dc_ContextBelow := ctxBelow\<rparr>"

definition blank :: "string \<Rightarrow> bool" where
  "blank s = (TrimSpace s = [])"

definition chunkFromItem :: "(string \<Rightarrow> int) \<Rightarrow> pattern option \<Rightarrow> chunk_doc \<Rightarrow> chunk_doc list" where
  "chunkFromItem tok p it =
     (let ckType = itemDocType it; txt = itemTextOrFallback it
      in if ckType \<noteq> ''text'' then [buildChunkDoc tok it ckType txt [] []]
         else if \<not> hasActiveDelimiter p \<or> leftmost (the p) txt = None
         then [buildChunkDoc tok it ''text'' txt [] []]
         else
           let out = map (\<lambda>s. buildChunkDoc tok it ''text'' s [] [])
                       (filter (\<lambda>s. \<not> blank s) (splitKeepingDelim txt p))
           in if out = [] then [buildChunkDoc tok it ''text'' txt [] []] else out)"

section \<open>Lanes\<close>

fun lane_loop :: "nat \<Rightarrow> nat \<Rightarrow> nat \<Rightarrow> nat \<Rightarrow> nat \<Rightarrow> nat \<Rightarrow> (nat \<times> nat) list" where
  "lane_loop n sz rest i 0 cursor = []"
| "lane_loop n sz rest i (Suc k) cursor =
     (let stop = min n (cursor + sz + (if i < rest then 1 else 0))
      in (if cursor < stop then [(cursor, stop)] else []) @ lane_loop n sz rest (Suc i) k stop)"

text \<open>\<open>None\<close> is the panic of the division by zero.\<close>

definition partition_lanes :: "nat \<Rightarrow> nat \<Rightarrow> (nat \<times> nat) list option" where
  "partition_lanes n parts =
     (let parts = (if parts < 1 then 1 else parts); parts = (if n < parts then n else parts)
      in if parts = 0 then None
         else Some (lane_loop n (n div parts) (n mod parts) 0 parts 0))"

definition lane_indexes :: "nat \<times> nat \<Rightarrow> nat list" where
  "lane_indexes l = [fst l..<snd l]"

definition Token_Parallelism :: nat where
  "Token_Parallelism = 4"

definition token_lanes :: "'x list \<Rightarrow> (nat \<times> nat) list option" where
  "token_lanes items =
     (let workers = (if Token_Parallelism < 1 then 1 else Token_Parallelism);
          workers = (if length items < workers then length items else workers)
      in partition_lanes (length items) workers)"

text \<open>The writes of the workers of the given lanes, in one order or another.\<close>

definition interleaving :: "nat list \<Rightarrow> (nat \<times> nat) list \<Rightarrow> bool" where
  "interleaving js lanes = (mset js = mset (concat (map lane_indexes lanes)))"

definition fill_slots :: "('x \<Rightarrow> 'y list) \<Rightarrow> 'x list \<Rightarrow> nat list \<Rightarrow> 'y list list" where
  "fill_slots f items js = foldl (\<lambda>out i. out[i := f (items ! i)]) (replicate (length items) []) js"

section \<open>Context of tables and images\<close>

definition takeFromEnd :: "string \<Rightarrow> int \<Rightarrow> string" where
  "takeFromEnd s tokens =
     (if int (length s) \<le> tokens * 4 then s else drop (length s - nat (tokens * 4)) s)"

definition takeFromStart :: "string \<Rightarrow> int \<Rightarrow> string" where
  "takeFromStart s tokens = (if int (length s) \<le> tokens * 4 then s else take (nat (tokens * 4)) s)"

fun collect_loop :: "bool \<Rightarrow> chunk_doc list \<Rightarrow> int \<Rightarrow> string list \<Rightarrow> string list" where
  "collect_loop upward [] remain parts = parts"
| "collect_loop upward (c # cs) remain parts =
     (if remain \<le> 0 then parts
      else if dc_CKType c = ''text'' then
        let tk = intValue (dc_TKNums c); txt = dc_Text c
        in if remain \<le> tk
           then (if upward then takeFromEnd txt remain # parts else parts @ [takeFromStart txt remain])
           else collect_loop upward cs (remain - tk) (if upward then txt # parts else parts @ [txt])
      else collect_loop upward cs remain parts)"

definition collectContext :: "chunk_doc list \<Rightarrow> nat \<Rightarrow> int \<Rightarrow> bool \<Rightarrow> string" where
  "collectContext chunks i ctxTokens upward =
     concat (if upward then collect_loop True (rev (take i chunks)) ctxTokens []
             else collect_loop False (drop (Suc i) chunks) ctxTokens [])"

definition attach_step :: "int \<Rightarrow> int \<Rightarrow> nat \<Rightarrow> chunk_doc list \<Rightarrow> chunk_doc list" where
  "attach_step tableCtx imageCtx i chunks =
     (let ckType = dc_CKType (chunks ! i)
      in if ckType \<noteq> ''table'' \<and> ckType \<noteq> ''image'' then chunks
         else
           let ctx = (if ckType = ''table'' then tableCtx else imageCtx)
           in if ctx \<le> 0 then chunks
              else
                let chunks = chunks[i := (chunks ! i)\<lparr>dc_ContextAbove := collectContext chunks i ctx True\<rparr>]
                in chunks[i := (chunks ! i)\<lparr>dc_ContextBelow := collectContext chunks i ctx False\<rparr>])"

definition attachMediaContext :: "int \<Rightarrow> int \<Rightarrow> chunk_doc list list \<Rightarrow> chunk_doc list list" where
  "attachMediaContext tableCtx imageCtx perItem =
     (if tableCtx \<le> 0 \<and> imageCtx \<le> 0 then perItem
      else map (\<lambda>chunks. fold (attach_step tableCtx imageCtx) [0..<length chunks] chunks) perItem)"

section \<open>Merging by token count\<close>

fun f64_uminus :: "f64 \<Rightarrow> f64" where
  "f64_uminus NaN = NaN"
| "f64_uminus (Inf b) = Inf (\<not> b)"
| "f64_uminus (Fin m e) = Fin (- m) e"

text \<open>\<open>x * (100 - pct*100) / 100.0\<close>\<close>

definition scaled :: "int \<Rightarrow> f64 \<Rightarrow> f64" where
  "scaled x pct =
     f64_div
       (f64_mul (f64_of_int x) (f64_add (f64_of_int 100) (f64_uminus (f64_mul pct (f64_of_int 100)))))
       (f64_of_int 100)"

definition overlap_chunk :: "(string \<Rightarrow> int) \<Rightarrow> f64 \<Rightarrow> chunk_doc list \<Rightarrow> nat option \<Rightarrow> chunk_doc \<Rightarrow> chunk_doc" where
  "overlap_chunk tok pct merged prev ck =
     (case prev of
        None \<Rightarrow> ck
      | Some j \<Rightarrow>
          let prevText = dc_Text (merged ! j);
              cut = sint (f64_to_int (scaled (int (length prevText)) pct))
          in if f64_less (Fin 0 0) pct \<and> prevText \<noteq> [] \<and> cut < int (length prevText)
             then let s = drop (nat cut) prevText @ dc_Text ck
                  in ck\<lparr>dc_Text := s, dc_TKNums := Some (intValue (dc_TKNums ck) + tok s)\<rparr>
             else ck)"

fun merge_items ::
    "(string \<Rightarrow> int) \<Rightarrow> f64 \<Rightarrow> f64 \<Rightarrow> chunk_doc list \<Rightarrow> nat option \<Rightarrow> chunk_doc list \<Rightarrow> chunk_doc list" where
  "merge_items tok threshold pct merged prev [] = merged"
| "merge_items tok threshold pct merged prev (ck # cks) =
     (if dc_CKType ck \<noteq> ''text'' then merge_items tok threshold pct (merged @ [ck]) None cks
      else if prev = None \<or> f64_less threshold (f64_of_int (intValue (dc_TKNums ck)))
      then merge_items tok threshold pct (merged @ [overlap_chunk tok pct merged prev ck])
             (Some (length merged)) cks
      else
        let m = merged ! the prev
        in if dc_Text m \<noteq> []
           then merge_items tok threshold pct
                  (merged[the prev := m\<lparr>dc_Text := dc_Text m @ nl # dc_Text ck,
                     dc_TKNums := Some (intValue (dc_TKNums m) + intValue (dc_TKNums ck))\<rparr>]) prev cks
           else merge_items tok threshold pct merged prev cks)"

definition mergeByTokenSizeFromJSON ::
    "(string \<Rightarrow> int) \<Rightarrow> int \<Rightarrow> f64 \<Rightarrow> chunk_doc list list \<Rightarrow> chunk_doc list list" where
  "mergeByTokenSizeFromJSON tok chunkTokens pct perItem =
     map (\<lambda>chunks. if chunks = [] then [] else merge_items tok (scaled chunkTokens pct) pct [] None chunks)
       perItem"

section \<open>Children\<close>

definition splitByChildren :: "pattern option \<Rightarrow> chunk_doc list \<Rightarrow> chunk_doc list" where
  "splitByChildren p chunks =
     (if p = None then chunks
      else concat (map (\<lambda>ck.
        if dc_DocType ck \<noteq> ''text'' then [ck]
        else map (\<lambda>s. ck\<lparr>dc_Text := s, dc_Mom := dc_Text ck\<rparr>)
               (filter (\<lambda>s. \<not> blank s) (splitKeepingDelim (dc_Text ck) p))) chunks))"

definition child_docs :: "pattern option \<Rightarrow> string \<Rightarrow> chunk_doc list" where
  "child_docs p seg =
     (if blank seg then []
      else map (\<lambda>s. (text_doc s)\<lparr>dc_Mom := seg\<rparr>) (filter (\<lambda>s. \<not> blank s) (splitKeepingDelim seg p)))"

definition applyChildrenDelim :: "pattern option \<Rightarrow> string list \<Rightarrow> chunk_doc list" where
  "applyChildrenDelim p segs =
     (if p = None then map text_doc segs else concat (map (child_docs p) segs))"

definition applyChildrenDelimText :: "pattern option \<Rightarrow> chunk_doc list \<Rightarrow> chunk_doc list" where
  "applyChildrenDelimText p docs =
     (if p = None then docs else concat (map (\<lambda>d. child_docs p (dc_Text d)) docs))"

section \<open>Invoking the component\<close>

definition merge_options :: "int \<Rightarrow> chunk_options" where
  "merge_options target =
     \<lparr>NormalizeNewlines = False, StripWhitespace = True, RemoveEmptyLines = True,
      SplitStrategy = ''sentence'', MergeTargetSize = target, FilterMinLength = 0\<rparr>"

definition mergeByTokenSize ::
    "(string \<Rightarrow> bool) \<Rightarrow> (string \<Rightarrow> bool) \<Rightarrow> token_param \<Rightarrow> pattern option \<Rightarrow> string \<Rightarrow> chunk_doc chunker_outputs" where
  "mergeByTokenSize han letter p childrenPattern s =
     (case Run han letter s (merge_options (tp_ChunkTokenSize p)) of
        Inl e \<Rightarrow> chunkOutputs [text_doc s]
      | Inr result \<Rightarrow>
          let docs = map text_doc
                (filter (\<lambda>c. c \<noteq> []) (map (\<lambda>ck. TrimSpace (cd_content ck)) (cc_result result)))
          in chunkOutputs (applyChildrenDelimText childrenPattern docs))"

definition invokeTextPayload ::
    "(string \<Rightarrow> bool) \<Rightarrow> (string \<Rightarrow> bool) \<Rightarrow> token_param \<Rightarrow> pattern option \<Rightarrow> pattern option \<Rightarrow> string \<Rightarrow>
     chunk_doc chunker_outputs" where
  "invokeTextPayload han letter p delimPattern childrenPattern s =
     (if s = [] then emptyOutputs
      else if tp_DelimiterMode p = ''one'' then chunkOutputs [text_doc s]
      else if \<not> hasActiveDelimiter delimPattern then mergeByTokenSize han letter p childrenPattern s
      else
        let cleaned = filter (\<lambda>s. \<not> blank s) (splitKeepingDelim s delimPattern)
        in if cleaned = [] then emptyOutputs
           else chunkOutputs (applyChildrenDelim childrenPattern cleaned))"

text \<open>\<open>ctx_err\<close> is the error of the context once the workers are done; a worker that saw it left its slot empty.\<close>

definition invokeJSONPayload ::
    "(string \<Rightarrow> int) \<Rightarrow> string option \<Rightarrow> nat list \<Rightarrow> token_param \<Rightarrow> pattern option \<Rightarrow> pattern option \<Rightarrow>
     chunk_doc list \<Rightarrow> chunk_doc chunker_outputs" where
  "invokeJSONPayload tok ctx_err js p delimPattern childrenPattern items =
     (if items = [] then emptyOutputs
      else if tp_DelimiterMode p = ''one'' then
        let merged = join_with nl (filter (\<lambda>t. t \<noteq> []) (map itemTextOrFallback items))
        in if merged = [] then emptyOutputs else chunkOutputs [text_doc merged]
      else case ctx_err of
        Some e \<Rightarrow> errorOutputs (Cancelled ''TokenChunker'' e)
      | None \<Rightarrow>
          let perItem = fill_slots (chunkFromItem tok delimPattern) items js;
              attached = attachMediaContext (tp_TableContextSize p) (tp_ImageContextSize p) perItem;
              attached = (if hasActiveDelimiter delimPattern then attached
                else mergeByTokenSizeFromJSON tok (tp_ChunkTokenSize p) (tp_OverlappedPercent p) attached);
              flat = concat attached;
              flat = (if childrenPattern \<noteq> None then splitByChildren childrenPattern flat else flat);
              out = filter (\<lambda>m. \<not> blank (dc_Text m)) flat
          in if out = [] then emptyOutputs else chunkOutputs out)"

text \<open>
  \<open>decoded\<close> is what \<open>encoding/json\<close> makes of the inputs: an error or the typed payload.
\<close>

definition decodeChunkerFromUpstream :: "string + chunker_upstream \<Rightarrow> chunker_error + chunker_upstream" where
  "decodeChunkerFromUpstream decoded =
     (case decoded of
        Inl e \<Rightarrow> Inl (DecodeError e)
      | Inr out \<Rightarrow> (case Upstream_Validate out of Some e \<Rightarrow> Inl (InputError e) | None \<Rightarrow> Inr out))"

definition Token_invoke ::
    "(string \<Rightarrow> bool) \<Rightarrow> (string \<Rightarrow> bool) \<Rightarrow> (string \<Rightarrow> int) \<Rightarrow> string option \<Rightarrow> nat list \<Rightarrow> token_param \<Rightarrow>
     (string + chunker_upstream) option \<Rightarrow> chunk_doc chunker_outputs" where
  "Token_invoke han letter tok ctx_err js p inputs =
     (case inputs of
        None \<Rightarrow> emptyOutputs
      | Some decoded \<Rightarrow>
          (case decodeChunkerFromUpstream decoded of
             Inl e \<Rightarrow> errorOutputs e
           | Inr upstream \<Rightarrow>
               let delimPattern = compileDelimPattern (tp_Delimiters p);
                   childrenPattern = compileChildrenPattern (tp_ChildrenDelimiters p);
                   on_text = (\<lambda>s. case s of
                       None \<Rightarrow> emptyOutputs
                     | Some s \<Rightarrow> invokeTextPayload han letter p delimPattern childrenPattern s)
               in if up_OutputFormat upstream = ''markdown'' then on_text (up_MarkdownResult upstream)
                  else if up_OutputFormat upstream = ''text'' then on_text (up_TextResult upstream)
                  else if up_OutputFormat upstream = ''html'' then on_text (up_HTMLResult upstream)
                  else invokeJSONPayload tok ctx_err js p delimPattern childrenPattern
                         (or_else (up_JSONResult upstream) [])))"

end
