(* ===== verification/TokenChunkerProps.thy ===== *)
theory TokenChunkerProps
  imports TokenChunker
begin

text \<open>
  Properties of the token chunker: the hand-written sorts are stable sorts, cutting at delimiters
  loses nothing, the parallel workers compute the sequential result in every interleaving, and the
  structured payload is treated item by item.
\<close>

section \<open>Insertion sort\<close>

lemma mset_insert_back: "mset (insert_back after x ys) = add_mset x (mset ys)"
  by (induction ys) auto

lemma filter_insert_back:
  assumes "\<And>y. P y \<Longrightarrow> P x \<Longrightarrow> \<not> after y x"
  shows "filter P (insert_back after x ys) = (if P x then x # filter P ys else filter P ys)"
  using assms by (induction ys) auto

lemma sorted_insert_back:
  fixes key :: "'a \<Rightarrow> 'k :: linorder"
  assumes "sorted_wrt (\<lambda>a b. key b \<le> key a) ys"
  shows "sorted_wrt (\<lambda>a b. key b \<le> key a) (insert_back (\<lambda>y x. key x < key y) x ys)"
  using assms
proof (induction ys)
  case (Cons y ys)
  have "set (insert_back (\<lambda>y x. key x < key y) x ys) = insert x (set ys)"
    using mset_insert_back [of "\<lambda>y x. key x < key y" x ys]
    by (metis set_mset_add_mset_insert set_mset_mset)
  with Cons show ?case by (auto intro: order_trans)
qed simp

lemma insertion_sort_key:
  fixes key :: "'a \<Rightarrow> 'k :: linorder"
  shows "insertion_sort (\<lambda>y x. key x < key y) xs = sort_key key xs"
proof -
  let ?ins = "\<lambda>acc x. insert_back (\<lambda>y x. key x < key y) x acc"
  have inv: "mset (foldl ?ins acc xs) = mset acc + mset xs \<and>
    (sorted_wrt (\<lambda>a b. key b \<le> key a) acc \<longrightarrow> sorted_wrt (\<lambda>a b. key b \<le> key a) (foldl ?ins acc xs)) \<and>
    (\<forall>k. filter (\<lambda>x. key x = k) (foldl ?ins acc xs) =
         rev (filter (\<lambda>x. key x = k) xs) @ filter (\<lambda>x. key x = k) acc)" for acc
  proof (induction xs arbitrary: acc)
    case (Cons x xs)
    have "filter (\<lambda>x. key x = k) (?ins acc x) =
        (if key x = k then x # filter (\<lambda>x. key x = k) acc else filter (\<lambda>x. key x = k) acc)" for k
      by (rule filter_insert_back) simp
    with Cons [of "?ins acc x"] sorted_insert_back [of key acc x] show ?case
      by (simp add: mset_insert_back)
  qed simp
  let ?ys = "rev (foldl ?ins [] xs)"
  have "sort_key key xs = ?ys"
  proof (rule properties_for_sort_key)
    show "mset ?ys = mset xs" using inv [of "[]"] by simp
    show "filter (\<lambda>x. key k = key x) ?ys = filter (\<lambda>x. key k = key x) xs" for k
      using inv [of "[]"] by (simp add: rev_filter [symmetric] eq_commute [of "key k"])
    show "sorted (map key ?ys)"
      using inv [of "[]"] by (simp add: sorted_map sorted_wrt_rev)
  qed
  then show ?thesis by (simp add: insertion_sort_def)
qed

lemma sortSlice_sorts: "sortSlice xs = sort_key (\<lambda>s. - int (quoted_len s)) xs"
  using insertion_sort_key [of "\<lambda>s. - int (quoted_len s)" xs] by (simp add: sortSlice_def)

section \<open>Cutting at delimiters\<close>

lemma starts_with_iff: "starts_with w s = (\<exists>t. s = w @ t)"
  by (induction w s rule: starts_with.induct) auto

lemma match_at_Some:
  assumes "match_at p s = Some n"
  shows "n \<le> length s" "take n s \<in> set p"
proof -
  obtain w ws where w: "filter (\<lambda>w. starts_with w s) p = w # ws" "n = length w"
    using assms by (auto simp: match_at_def split: list.splits)
  then have "w \<in> set (filter (\<lambda>w. starts_with w s) p)" by simp
  with w(2) show "n \<le> length s" "take n s \<in> set p" by (auto simp: starts_with_iff)
qed

lemma match_at_None: "match_at p s = None \<longleftrightarrow> (\<forall>w \<in> set p. \<not> starts_with w s)"
proof -
  have "match_at p s = None \<longleftrightarrow> filter (\<lambda>w. starts_with w s) p = []"
    by (simp add: match_at_def split: list.splits)
  then show ?thesis by (simp add: filter_empty_conv)
qed

lemma leftmost_Some:
  assumes "leftmost p s = Some (i, n)"
  shows "i + n \<le> length s" "take n (drop i s) \<in> set p" "\<forall>j < i. match_at p (drop j s) = None"
proof -
  have "i + n \<le> length s \<and> take n (drop i s) \<in> set p \<and> (\<forall>j < i. match_at p (drop j s) = None)"
    using assms
  proof (induction p s arbitrary: i rule: leftmost.induct)
    case (1 p s)
    show ?case
    proof (cases "match_at p s")
      case (Some m)
      then show ?thesis
        using 1(2) match_at_Some [OF Some] by (simp add: leftmost.simps [of p s])
    next
      case None
      then obtain c s' i' where s: "s = c # s'" "leftmost p s' = Some (i', n)" "i = Suc i'"
        using 1(2) by (auto simp: leftmost.simps [of p s] split: list.splits)
      with 1(1) [OF None s(1) s(2)] None show ?thesis
        by (auto simp: less_Suc_eq_0_disj)
    qed
  qed
  then show "i + n \<le> length s" "take n (drop i s) \<in> set p" "\<forall>j < i. match_at p (drop j s) = None"
    by auto
qed

lemma all_le_Suc: "(\<forall>j \<le> Suc n. P j) \<longleftrightarrow> P 0 \<and> (\<forall>j \<le> n. P (Suc j))"
  by (metis Suc_le_mono le0 not0_implies_Suc)

lemma leftmost_None: "leftmost p s = None \<longleftrightarrow> (\<forall>j \<le> length s. match_at p (drop j s) = None)"
proof (induction s)
  case Nil
  then show ?case by (simp add: leftmost.simps split: option.splits)
next
  case (Cons c s)
  have "(\<forall>j \<le> length (c # s). match_at p (drop j (c # s)) = None) \<longleftrightarrow>
      match_at p (c # s) = None \<and> (\<forall>j \<le> length s. match_at p (drop j s) = None)"
    using all_le_Suc [of "length s" "\<lambda>j. match_at p (drop j (c # s)) = None"] by simp
  with Cons show ?case by (simp add: leftmost.simps [of p "c # s"] split: option.splits)
qed

text \<open>A list of matches as \<open>FindAll\<close> returns it, from a position on.\<close>

fun match_chain :: "pattern \<Rightarrow> string \<Rightarrow> nat \<Rightarrow> (nat \<times> nat) list \<Rightarrow> bool" where
  "match_chain p s pos [] = (pos \<le> length s)"
| "match_chain p s pos ((a, b) # ms) =
     (pos \<le> a \<and> a \<le> b \<and> text_slice s a b \<in> set p \<and> match_chain p s b ms)"

lemma match_chain_bound: "match_chain p s pos ms \<Longrightarrow> pos \<le> length s"
  by (induction p s pos ms rule: match_chain.induct) auto

lemma match_chain_weaken: "match_chain p s pos ms \<Longrightarrow> pos' \<le> pos \<Longrightarrow> match_chain p s pos' ms"
  by (cases ms) auto

lemma concat_pieces: "match_chain p s pos ms \<Longrightarrow> concat (split_pieces s pos ms) = drop pos s"
proof (induction p s pos ms rule: match_chain.induct)
  case (2 p s pos a b ms)
  then have b: "b \<le> length s" using match_chain_bound by auto
  have "text_slice s pos a @ text_slice s a b @ drop b s = drop pos s"
    using 2(2) b
    by (simp add: text_slice_def) (metis append_take_drop_id drop_drop le_add_diff_inverse2)
  with 2 show ?case by (auto simp: text_slice_def)
qed simp

lemma all_matches_chain: "pos \<le> length s \<Longrightarrow> match_chain p s pos (all_matches p s pos prev)"
proof (induction p s pos prev rule: all_matches.induct)
  case (1 p s pos prev)
  show ?case
  proof (cases "leftmost p (drop pos s)")
    case None
    with 1(3) show ?thesis by (simp add: all_matches.simps [of p s pos])
  next
    case (Some m)
    obtain i n where m: "m = (i, n)" by (cases m)
    note lm = leftmost_Some [OF Some [unfolded m]]
    show ?thesis
    proof (cases "n = 0 \<and> i = 0")
      case True
      let ?next = "if pos < length s then pos + snd (decode_rune (drop pos s)) else Suc pos"
      have chain: "match_chain p s pos (all_matches p s ?next (Some pos))"
      proof (cases "pos < length s")
        case True
        have "snd (decode_rune (drop pos s)) \<le> length (drop pos s)"
          using rune_len_le [of "drop pos s"] True by (auto simp: decode_rune_def Let_def)
        then have "?next \<le> length s" using True by simp
        with 1(1) [OF _ Some m [symmetric] \<open>n = 0 \<and> i = 0\<close>] 1(3)
        have "match_chain p s ?next (all_matches p s ?next (Some pos))" by simp
        then show ?thesis by (rule match_chain_weaken) simp
      next
        case False
        then show ?thesis using 1(3) by (simp add: all_matches.simps [of p s "Suc (length s)"])
      qed
      with True Some m lm 1(3) show ?thesis
        by (simp add: all_matches.simps [of p s pos] text_slice_def)
    next
      case False
      have le: "pos + i + n \<le> length s" using lm(1) 1(3) by simp
      with 1(2) [OF _ Some m [symmetric] False] 1(3)
      have "match_chain p s (pos + i + n) (all_matches p s (pos + i + n) (Some (pos + i + n)))" by simp
      with False Some m lm 1(3) show ?thesis
        by (auto simp: all_matches.simps [of p s pos] text_slice_def ac_simps)
    qed
  qed
qed

lemma splitKeepingDelim_concat: "concat (splitKeepingDelim s p) = s"
proof (cases p)
  case None
  then show ?thesis by (simp add: splitKeepingDelim_def)
next
  case (Some q)
  have "match_chain q s 0 (FindAll q s)" by (simp add: FindAll_def all_matches_chain)
  from concat_pieces [OF this] Some show ?thesis by (simp add: splitKeepingDelim_def)
qed

text \<open>Without an empty delimiter no delimiter starts in a gap between the matches.\<close>

fun gaps_free :: "pattern \<Rightarrow> string \<Rightarrow> nat \<Rightarrow> (nat \<times> nat) list \<Rightarrow> bool" where
  "gaps_free p s pos [] = (leftmost p (drop pos s) = None)"
| "gaps_free p s pos ((a, b) # ms) =
     (leftmost p (text_slice s pos a) = None \<and> gaps_free p s b ms)"

lemma leftmost_prefix:
  assumes "[] \<notin> set p" and "\<forall>j < i. match_at p (drop j s) = None"
  shows "leftmost p (take i s) = None"
proof -
  have "match_at p (drop j (take i s)) = None" if "j \<le> length (take i s)" for j
  proof (cases "j < i")
    case True
    with assms(2) have "\<forall>w \<in> set p. \<not> starts_with w (drop j s)" by (simp add: match_at_None)
    then have "\<forall>w \<in> set p. \<not> starts_with w (take (i - j) (drop j s))"
      by (metis append_assoc append_take_drop_id starts_with_iff)
    then show ?thesis by (simp add: match_at_None drop_take)
  next
    case False
    then have "drop j (take i s) = []" by simp
    moreover have "\<forall>w \<in> set p. \<not> starts_with w []" using assms(1) by (auto simp: starts_with_iff)
    ultimately show ?thesis by (simp add: match_at_None)
  qed
  then show ?thesis by (simp add: leftmost_None)
qed

lemma all_matches_gaps:
  assumes "[] \<notin> set p" and "pos \<le> length s"
  shows "gaps_free p s pos (all_matches p s pos prev)"
  using assms
proof (induction p s pos prev rule: all_matches.induct)
  case (1 p s pos prev)
  show ?case
  proof (cases "leftmost p (drop pos s)")
    case None
    with 1(4) show ?thesis by (simp add: all_matches.simps [of p s pos])
  next
    case (Some m)
    obtain i n where m: "m = (i, n)" by (cases m)
    note lm = leftmost_Some [OF Some [unfolded m]]
    have ne: "\<not> (n = 0 \<and> i = 0)"
    proof
      assume "n = 0 \<and> i = 0"
      with lm(2) have "[] \<in> set p" by simp
      with 1(3) show False by simp
    qed
    have le: "pos + i + n \<le> length s" using lm(1) 1(4) by simp
    have rest: "gaps_free p s (pos + i + n) (all_matches p s (pos + i + n) (Some (pos + i + n)))"
      using 1(2) [OF _ Some m [symmetric] ne 1(3) le] 1(4) by simp
    have "leftmost p (text_slice s pos (pos + i)) = None"
      using leftmost_prefix [OF 1(3) lm(3)] by (simp add: text_slice_def)
    with rest ne Some m 1(4) show ?thesis by (auto simp: all_matches.simps [of p s pos])
  qed
qed

lemma split_pieces_sound:
  assumes "match_chain p s pos ms" and "gaps_free p s pos ms"
  shows "list_all (\<lambda>w. w \<in> set p \<or> leftmost p w = None) (split_pieces s pos ms)"
  using assms by (induction p s pos ms rule: match_chain.induct) auto

lemma no_delim_leftmost: "FindAll p s = [] \<Longrightarrow> [] \<notin> set p \<Longrightarrow> leftmost p s = None"
  using all_matches_gaps [of p 0 s None] by (simp add: FindAll_def)

text \<open>
  C31: Cutting a text at the delimiters keeps everything: the pieces, delimiters included,
  concatenate to the text, and every piece is either one of the delimiters or contains none.
\<close>

theorem split_keeping_delim_pieces:
  assumes "[] \<notin> set p"
  shows "concat (splitKeepingDelim s (Some p)) = s \<and>
         list_all (\<lambda>w. w \<in> set p \<or> leftmost p w = None) (splitKeepingDelim s (Some p))"
proof -
  have "match_chain p s 0 (FindAll p s)" by (simp add: FindAll_def all_matches_chain)
  moreover have "gaps_free p s 0 (FindAll p s)" by (simp add: FindAll_def all_matches_gaps assms)
  ultimately have "list_all (\<lambda>w. w \<in> set p \<or> leftmost p w = None) (split_pieces s 0 (FindAll p s))"
    by (rule split_pieces_sound)
  then show ?thesis
    using splitKeepingDelim_concat [of s "Some p"] no_delim_leftmost [OF _ assms]
    by (auto simp: splitKeepingDelim_def)
qed

theorem split_keeping_delim_pieces_witness:
  "splitKeepingDelim ''a--b-'' (Some [''--'', ''-'']) = [''a'', ''--'', ''b'', ''-''] \<and>
   concat (splitKeepingDelim ''a--b-'' (Some [''--'', ''-''])) = ''a--b-'' \<and>
   list_all (\<lambda>w. w \<in> {''--'', ''-''} \<or> leftmost [''--'', ''-''] w = None)
     (splitKeepingDelim ''a--b-'' (Some [''--'', ''-'']))"
proof -
  have "splitKeepingDelim ''a--b-'' (Some [''--'', ''-'']) = [''a'', ''--'', ''b'', ''-'']" by code_simp
  with split_keeping_delim_pieces [of "[''--'', ''-'']" "''a--b-''"] show ?thesis by simp
qed

section \<open>Workers\<close>

lemma upt_join: "a \<le> b \<Longrightarrow> b \<le> c \<Longrightarrow> [a..<b] @ [b..<c] = [a..<c]"
  by (metis le_Suc_ex upt_add_eq_append)

lemma lane_indexes_pair [simp]: "lane_indexes (a, b) = [a..<b]"
  by (simp add: lane_indexes_def)

lemma lane_loop_covers:
  assumes "n = (i + k) * sz + rest" and "rest \<le> i + k" and "cursor = i * sz + min i rest"
  shows "concat (map lane_indexes (lane_loop n sz rest i k cursor)) = [cursor..<n]"
  using assms
proof (induction k arbitrary: i cursor)
  case 0
  then show ?case by (simp add: min_def)
next
  case (Suc k)
  let ?stop = "min n (cursor + sz + (if i < rest then 1 else 0))"
  have next_cursor: "cursor + sz + (if i < rest then 1 else 0) = Suc i * sz + min (Suc i) rest"
    using Suc.prems(3) by (simp add: min_def)
  moreover have "Suc i * sz + min (Suc i) rest \<le> n"
    using Suc.prems(1) by (simp add: algebra_simps min_def)
  ultimately have stop: "?stop = Suc i * sz + min (Suc i) rest" by simp
  have "concat (map lane_indexes (lane_loop n sz rest (Suc i) k ?stop)) = [?stop..<n]"
    by (rule Suc.IH) (use Suc.prems stop in simp_all)
  moreover have "cursor \<le> ?stop" using Suc.prems(3) stop by (simp add: min_def)
  moreover have "?stop \<le> n" by simp
  ultimately show ?case
    using upt_join [of cursor ?stop n] by (simp add: Let_def)
qed

lemma lane_loop_sizes:
  "list_all (\<lambda>(a, b). b - a = sz \<or> b - a = Suc sz)
     (lane_loop ((i + k) * sz + rest) sz rest i k (i * sz + min i rest))"
  if "rest \<le> i + k" for i
  using that
proof (induction k arbitrary: i)
  case (Suc k)
  let ?n = "(i + Suc k) * sz + rest"
  let ?stop = "min ?n (i * sz + min i rest + sz + (if i < rest then 1 else 0))"
  have "i * sz + min i rest + sz + (if i < rest then 1 else 0) = Suc i * sz + min (Suc i) rest"
    by (simp add: min_def)
  moreover have "Suc i * sz + min (Suc i) rest \<le> ?n" by (simp add: algebra_simps min_def)
  ultimately have stop: "?stop = Suc i * sz + min (Suc i) rest" by simp
  have "?n = (Suc i + k) * sz + rest" by simp
  with Suc.IH [of "Suc i"] Suc.prems stop show ?case
    by (auto simp: Let_def min_def)
qed simp

lemma partition_lanes_covers:
  assumes "0 < n"
  obtains lanes where "partition_lanes n parts = Some lanes"
    "concat (map lane_indexes lanes) = [0..<n]"
    "list_all (\<lambda>(a, b). b - a = n div min n (max 1 parts) \<or> b - a = Suc (n div min n (max 1 parts))) lanes"
proof -
  let ?k = "min n (max 1 parts)"
  have k: "0 < ?k" using assms by simp
  have n: "n = (0 + ?k) * (n div ?k) + n mod ?k" by simp
  have rest: "n mod ?k \<le> 0 + ?k" using mod_less_divisor [OF k, of n] by linarith
  let ?lanes = "lane_loop n (n div ?k) (n mod ?k) 0 ?k 0"
  have "(if n < (if parts < 1 then 1 else parts) then n else if parts < 1 then 1 else parts) = ?k"
    by (auto simp: min_def max_def)
  then have "partition_lanes n parts = Some ?lanes"
    unfolding partition_lanes_def Let_def using k by simp
  moreover have "concat (map lane_indexes ?lanes) = [0..<n]"
    by (rule lane_loop_covers [OF n rest]) simp
  moreover have "list_all (\<lambda>(a, b). b - a = n div ?k \<or> b - a = Suc (n div ?k)) ?lanes"
    using lane_loop_sizes [OF rest, of "n div ?k"] by simp
  ultimately show ?thesis by (rule that)
qed

lemma partition_of_nothing_panics: "partition_lanes 0 parts = None"
  by (simp add: partition_lanes_def)

lemma fill_slots_all:
  assumes "set js = {..<length items}"
  shows "fill_slots f items js = map f items"
proof -
  have "length (foldl (\<lambda>out i. out[i := f (items ! i)]) out js) = length out \<and>
      (\<forall>i < length out. foldl (\<lambda>out i. out[i := f (items ! i)]) out js ! i =
         (if i \<in> set js then f (items ! i) else out ! i))" for out
    by (induction js arbitrary: out) (auto simp: nth_list_update)
  from this [of "replicate (length items) []"] assms show ?thesis
    by (intro nth_equalityI) (auto simp: fill_slots_def)
qed

lemma token_lanes_fill:
  assumes "token_lanes items = Some lanes" and "interleaving js lanes" and "items \<noteq> []"
  shows "fill_slots f items js = map f items"
proof -
  have "0 < length items" using assms(3) by simp
  from partition_lanes_covers [OF this, of "if length items < 4 then length items else 4"] assms(1)
  have "concat (map lane_indexes lanes) = [0..<length items]"
    by (auto simp: token_lanes_def Token_Parallelism_def Let_def)
  with assms(2) have "set js = {..<length items}"
    by (metis interleaving_def atLeast_upt set_mset_mset)
  then show ?thesis by (rule fill_slots_all)
qed

section \<open>Structured payloads\<close>

lemma chunkFromItem_cases:
  obtains c where "chunkFromItem tok p it = [c]" "dc_ContextAbove c = []" "dc_ContextBelow c = []"
  | "list_all (\<lambda>c. dc_CKType c = ''text'') (chunkFromItem tok p it)" "chunkFromItem tok p it \<noteq> []" "p \<noteq> None"
proof (cases "chunkFromItem tok p it = [buildChunkDoc tok it (itemDocType it) (itemTextOrFallback it) [] []]")
  case True
  then show ?thesis by (rule that(1)) (simp_all add: buildChunkDoc_def)
next
  case False
  then have "itemDocType it = ''text''" "p \<noteq> None"
    by (auto simp: chunkFromItem_def Let_def hasActiveDelimiter_def split: if_splits)
  with False show ?thesis
    by (intro that(2)) (auto simp: chunkFromItem_def Let_def buildChunkDoc_def list_all_iff split: if_splits)
qed

lemma attach_texts:
  assumes "list_all (\<lambda>c. dc_CKType c = ''text'') chunks" and "set is \<subseteq> {..<length chunks}"
  shows "fold (attach_step tableCtx imageCtx) is chunks = chunks"
  using assms(2)
proof (induction "is")
  case (Cons i "is")
  then have "dc_CKType (chunks ! i) = ''text''" using assms(1) by (simp add: list_all_length)
  with Cons show ?case by (simp add: attach_step_def)
qed simp

lemma attach_single:
  assumes "dc_ContextAbove c = []" and "dc_ContextBelow c = []"
  shows "fold (attach_step tableCtx imageCtx) [0..<length [c]] [c] = [c]"
  using assms by (simp add: attach_step_def collectContext_def Let_def)

lemma attach_per_item:
  "attachMediaContext tableCtx imageCtx (map (chunkFromItem tok p) items) = map (chunkFromItem tok p) items"
proof -
  have "fold (attach_step tableCtx imageCtx) [0..<length (chunkFromItem tok p it)] (chunkFromItem tok p it) =
        chunkFromItem tok p it" for it
  proof (cases tok p it rule: chunkFromItem_cases)
    case (1 c)
    with attach_single [of c tableCtx imageCtx] show ?thesis by simp
  next
    case 2
    then show ?thesis by (intro attach_texts) auto
  qed
  then show ?thesis by (simp add: attachMediaContext_def)
qed

lemma merge_per_item:
  "mergeByTokenSizeFromJSON tok target pct (map (chunkFromItem tok None) items) =
   map (chunkFromItem tok None) items"
proof -
  have "(if cs = [] then [] else merge_items tok (scaled target pct) pct [] None cs) = cs"
    if "cs = chunkFromItem tok None it" for cs it
    using that by (cases tok "None :: pattern option" it rule: chunkFromItem_cases) (auto simp: overlap_chunk_def)
  then show ?thesis by (simp add: mergeByTokenSizeFromJSON_def)
qed

text \<open>
  C14: A structured payload is cut item by item, whatever the interleaving of the workers: the result
  is the concatenation of the items' own chunks, split further at the child delimiters, without
  the blank ones. The sizes of the configuration (chunk size, overlap, table and image context)
  have no effect on it.
\<close>

theorem json_payload_item_by_item:
  assumes "items \<noteq> []" and "tp_DelimiterMode p \<noteq> ''one''"
    and "token_lanes items = Some lanes" and "interleaving js lanes"
  shows "invokeJSONPayload tok None js p d c items =
     chunkOutputs (filter (\<lambda>m. \<not> blank (dc_Text m)) (splitByChildren c (concat (map (chunkFromItem tok d) items))))"
proof -
  have fill: "fill_slots (chunkFromItem tok d) items js = map (chunkFromItem tok d) items"
    by (rule token_lanes_fill [OF assms(3,4,1)])
  have merge: "(if hasActiveDelimiter d then map (chunkFromItem tok d) items
      else mergeByTokenSizeFromJSON tok (tp_ChunkTokenSize p) (tp_OverlappedPercent p)
             (map (chunkFromItem tok d) items)) = map (chunkFromItem tok d) items"
    using merge_per_item by (auto simp: hasActiveDelimiter_def)
  show ?thesis
    using assms(1,2)
    unfolding invokeJSONPayload_def fill attach_per_item Let_def option.case merge
    by (auto simp: splitByChildren_def emptyOutputs_def chunkOutputs_def)
qed

theorem json_payload_item_by_item_witness:
  "token_lanes [text_doc ''a'', text_doc ''b''] = Some [(0, 1), (1, 2)] \<and>
   interleaving [1, 0] [(0, 1), (1, 2)] \<and>
   invokeJSONPayload (\<lambda>s. 1) None [1, 0] defaultsToken None None [text_doc ''a'', text_doc ''b''] =
     chunkOutputs (filter (\<lambda>m. \<not> blank (dc_Text m)) (splitByChildren None
       (concat (map (chunkFromItem (\<lambda>s. 1) None) [text_doc ''a'', text_doc ''b'']))))"
proof -
  have lanes: "token_lanes [text_doc ''a'', text_doc ''b''] = Some [(0, 1), (1, 2)]"
    by (simp add: token_lanes_def Token_Parallelism_def partition_lanes_def Let_def numeral_2_eq_2)
  have js: "interleaving [1, 0] [(0, 1), (1, 2)]" by (simp add: interleaving_def upt_conv_Cons)
  have "tp_DelimiterMode defaultsToken \<noteq> ''one''" by (simp add: defaultsToken_def)
  from json_payload_item_by_item [OF _ this lanes js, of "\<lambda>s. 1" None None] lanes js
  show ?thesis by simp
qed

text \<open>A table next to a text: the context of the table stays empty, whatever size is asked for.\<close>

lemma table_gets_no_context:
  "map dc_ContextAbove (concat (attachMediaContext 10 10
     (map (chunkFromItem (\<lambda>s. 1) None)
        [text_doc ''intro'', (text_doc ''cells'')\<lparr>dc_DocType := ''table''\<rparr>]))) = [[], []]"
  by (simp only: attach_per_item) (simp add: chunkFromItem_def hasActiveDelimiter_def buildChunkDoc_def
      empty_doc_def Let_def)

section \<open>Text payloads\<close>

text \<open>
  A text without the delimiter is not merged to the target size, although the comments of
  \<open>invokeTextPayload\<close> and a test say so: it stays one chunk.
\<close>

lemma unmatched_delimiter_gives_one_chunk:
  assumes "\<not> blank s" and "tp_DelimiterMode p \<noteq> ''one''" and "FindAll d s = []"
  shows "invokeTextPayload han letter p (Some d) None s = chunkOutputs [text_doc s]"
  using assms
  by (cases "s = []")
    (auto simp: invokeTextPayload_def hasActiveDelimiter_def splitKeepingDelim_def applyChildrenDelim_def blank_def)

text \<open>The modes \<open>token_size\<close> and \<open>delimiter\<close> are one mode.\<close>

lemma token_size_mode_is_delimiter_mode:
  "Token_invoke han letter tok e js (p\<lparr>tp_DelimiterMode := ''token_size''\<rparr>) inputs =
   Token_invoke han letter tok e js (p\<lparr>tp_DelimiterMode := ''delimiter''\<rparr>) inputs"
proof -
  have "invokeTextPayload han letter (p\<lparr>tp_DelimiterMode := ''token_size''\<rparr>) d c =
      invokeTextPayload han letter (p\<lparr>tp_DelimiterMode := ''delimiter''\<rparr>) d c" for d c
    by (rule ext) (simp add: invokeTextPayload_def mergeByTokenSize_def)
  moreover have "invokeJSONPayload tok e js (p\<lparr>tp_DelimiterMode := ''token_size''\<rparr>) d c =
      invokeJSONPayload tok e js (p\<lparr>tp_DelimiterMode := ''delimiter''\<rparr>) d c" for d c
    by (rule ext, cases e) (simp_all add: invokeJSONPayload_def Let_def)
  ultimately show ?thesis by (auto simp: Token_invoke_def Let_def split: option.split sum.split)
qed

text \<open>A payload in the format \<open>chunks\<close> passes validation and is then ignored.\<close>

lemma chunks_payload_is_dropped:
  assumes "up_Name u \<noteq> []" and "up_OutputFormat u = ''chunks''" and "up_JSONResult u = None"
  shows "Token_invoke han letter tok e js p (Some (Inr u)) = emptyOutputs"
  using assms
  by (simp add: Token_invoke_def decodeChunkerFromUpstream_def Upstream_Validate_def isKnown_def
      invokeJSONPayload_def or_else_def)

end
