(* ===== verification/TitleChunker.thy ===== *)
theory TitleChunker
  imports Chunker
begin

text \<open>
  The title chunkers of the ingestion pipeline, \<open>title.go\<close>, \<open>group.go\<close> and \<open>hierarchy.go\<close>: line
  records, heading levels from regular expressions, grouping of records by section, and the heading
  tree with its paths. \<open>compile\<close> is \<open>regexp.Compile\<close>: the match function of a pattern, or \<open>None\<close>
  if it is not a valid expression. \<open>tok\<close> counts tokens. A chunk of the output is its text.
\<close>

section \<open>Inputs and records\<close>

text \<open>
  A value of the input map: a string, a typed list (possibly \<open>nil\<close>), a list of maps or of arbitrary
  values, of which every map is given by what \<open>ChunkDocFromMap\<close> decodes it to, or another value.
\<close>

datatype input_value =
    IStr string
  | IDocs "chunk_doc list option"
  | IMaps "(string + chunk_doc) list"
  | IAny "(string + chunk_doc) option list"
  | IOther

record line_record =
  lr_text :: string
  lr_docType :: string
  lr_imgID :: "string option"
  lr_layout :: string
  lr_pdfPos :: "gval gomap list"

definition isText :: "line_record \<Rightarrow> bool" where
  "isText r = (lr_docType r = ''text'')"

definition trim :: "string \<Rightarrow> string" where
  "trim s =
     rev (dropWhile (\<lambda>c. c \<in> {CHR '' '', CHR 0x09, cr, nl})
       (rev (dropWhile (\<lambda>c. c \<in> {CHR '' '', CHR 0x09, cr}) s)))"

definition lineRecordsFromText :: "string \<Rightarrow> line_record list" where
  "lineRecordsFromText s =
     (if s = [] then []
      else map (\<lambda>ln. \<lparr>lr_text = ln, lr_docType = ''text'', lr_imgID = None, lr_layout = [], lr_pdfPos = []\<rparr>)
             (filter (\<lambda>ln. trim ln \<noteq> []) (split_on nl s)))"

definition item_text :: "chunk_doc \<Rightarrow> string" where
  "item_text it = (if dc_Text it \<noteq> [] then dc_Text it else dc_ContentWithWeight it)"

definition recordsFromStructured :: "chunk_doc list \<Rightarrow> line_record list" where
  "recordsFromStructured items =
     map (\<lambda>it. \<lparr>lr_text = item_text it,
                 lr_docType = (if dc_DocType it = [] then ''text'' else dc_DocType it),
                 lr_imgID = (if dc_ImgID it \<noteq> [] then Some (dc_ImgID it) else None),
                 lr_layout = dc_Layout it, lr_pdfPos = []\<rparr>)
       (filter (\<lambda>it. item_text it \<noteq> []) items)"

fun decode_all :: "(string + chunk_doc) list \<Rightarrow> string + chunk_doc list" where
  "decode_all [] = Inr []"
| "decode_all (d # ds) =
     (case d of Inl e \<Rightarrow> Inl e
      | Inr doc \<Rightarrow> (case decode_all ds of Inl e \<Rightarrow> Inl e | Inr docs \<Rightarrow> Inr (doc # docs)))"

text \<open>The documents, and whether the value was a list of a known type.\<close>

definition ChunkDocsFromAny :: "input_value \<Rightarrow> string + (chunk_doc list option \<times> bool)" where
  "ChunkDocsFromAny v =
     (case v of
        IDocs docs \<Rightarrow> Inr (docs, True)
      | IMaps ms \<Rightarrow> (case decode_all ms of Inl e \<Rightarrow> Inl e | Inr docs \<Rightarrow> Inr (Some docs, True))
      | IAny ms \<Rightarrow> (case decode_all (somes ms) of Inl e \<Rightarrow> Inl e | Inr docs \<Rightarrow> Inr (Some docs, True))
      | _ \<Rightarrow> Inr (None, False))"

fun chunks_from_keys :: "input_value gomap \<Rightarrow> string list \<Rightarrow> chunk_doc list option" where
  "chunks_from_keys inputs [] = None"
| "chunks_from_keys inputs (key # keys) =
     (case mget inputs key of
        None \<Rightarrow> chunks_from_keys inputs keys
      | Some v \<Rightarrow>
          (case ChunkDocsFromAny v of
             Inr (chunks, True) \<Rightarrow> chunks
           | _ \<Rightarrow> chunks_from_keys inputs keys))"

definition chunksFromInputs :: "input_value gomap \<Rightarrow> chunk_doc list option" where
  "chunksFromInputs inputs = chunks_from_keys inputs [''chunks'', ''json'']"

fun stringFromInputs :: "input_value gomap \<Rightarrow> string list \<Rightarrow> string option" where
  "stringFromInputs inputs [] = None"
| "stringFromInputs inputs (k # ks) =
     (case mget inputs k of Some (IStr v) \<Rightarrow> Some v | _ \<Rightarrow> stringFromInputs inputs ks)"

definition extractLineRecords :: "input_value gomap \<Rightarrow> line_record list" where
  "extractLineRecords inputs =
     (case chunksFromInputs inputs of
        Some docs \<Rightarrow> recordsFromStructured docs
      | None \<Rightarrow> lineRecordsFromText (or_else (stringFromInputs inputs [''text'', ''content'']) []))"

section \<open>Parameters\<close>

record title_param =
  ti_Method :: string
  ti_Levels :: "string list list"
  ti_Hierarchy :: "int option"
  ti_IncludeHeadingContent :: bool
  ti_RootChunkAsHeading :: bool

definition defaultsTitle :: title_param where
  "defaultsTitle =
     \<lparr>ti_Method = [], ti_Levels = [], ti_Hierarchy = None, ti_IncludeHeadingContent = False,
      ti_RootChunkAsHeading = False\<rparr>"

fun level_rows :: "gval list \<Rightarrow> string list list" where
  "level_rows [] = []"
| "level_rows (lvl # lvls) =
     (case lvl of
        VList grp \<Rightarrow>
          (let row = stringListFromAny grp in if row \<noteq> [] then row # level_rows lvls else level_rows lvls)
      | _ \<Rightarrow> level_rows lvls)"

definition bool_conf :: "conf_value gomap \<Rightarrow> string \<Rightarrow> bool option" where
  "bool_conf conf k = (case conf_val conf k of Some (VBool b) \<Rightarrow> Some b | _ \<Rightarrow> None)"

definition levels_conf :: "conf_value gomap \<Rightarrow> string list list option" where
  "levels_conf conf =
     (case mget conf ''levels'' of
        Some (CVal (VList v)) \<Rightarrow> Some (level_rows v)
      | Some (CStringLists v) \<Rightarrow> Some v
      | _ \<Rightarrow> None)"

definition Title_Update :: "conf_value gomap \<Rightarrow> title_param \<Rightarrow> title_param" where
  "Title_Update conf p =
     \<lparr>ti_Method = or_else (string_conf conf ''method'') (ti_Method p),
      ti_Levels = or_else (levels_conf conf) (ti_Levels p),
      ti_Hierarchy =
        (case int_conf conf ''hierarchy'' of None \<Rightarrow> ti_Hierarchy p | Some n \<Rightarrow> Some n),
      ti_IncludeHeadingContent =
        or_else (bool_conf conf ''include_heading_content'') (ti_IncludeHeadingContent p),
      ti_RootChunkAsHeading =
        or_else (bool_conf conf ''root_chunk_as_heading'') (ti_RootChunkAsHeading p)\<rparr>"

definition Title_Validate :: "title_param \<Rightarrow> schema_error option" where
  "Title_Validate p =
     (if ti_Method p = [] then None
      else if ti_Method p \<notin> {''hierarchy'', ''group''} then Some (InvalidValue ''method'' (ti_Method p))
      else if ti_Levels p = [] then Some (RequiredField ''levels'')
      else if ti_Method p = ''hierarchy'' \<and> (ti_Hierarchy p = None \<or> the (ti_Hierarchy p) \<le> 0)
      then Some (RequiredField ''hierarchy'')
      else None)"

definition checked :: "title_param \<Rightarrow> schema_error + title_param" where
  "checked p = (case Title_Validate p of Some e \<Rightarrow> Inl e | None \<Rightarrow> Inr p)"

definition NewTitleChunker :: "conf_value gomap \<Rightarrow> schema_error + title_param" where
  "NewTitleChunker params = checked (Title_Update params (defaultsTitle\<lparr>ti_Method := ''group''\<rparr>))"

definition NewGroupTitleChunker :: "conf_value gomap \<Rightarrow> schema_error + title_param" where
  "NewGroupTitleChunker params =
     checked (Title_Update (mmerge [(''method'', CVal (VStr ''group''))] params) defaultsTitle)"

definition NewHierarchyTitleChunker :: "conf_value gomap \<Rightarrow> schema_error + title_param" where
  "NewHierarchyTitleChunker params =
     checked (Title_Update (mmerge [(''method'', CVal (VStr ''hierarchy''))] params) defaultsTitle)"

section \<open>Heading levels\<close>

definition bodyLevel :: int where
  "bodyLevel = 2 ^ 31 - 1"

definition compileLevelPattern :: "(string \<Rightarrow> (string \<Rightarrow> bool) option) \<Rightarrow> string \<Rightarrow> (string \<Rightarrow> bool) option" where
  "compileLevelPattern compile pat = (if pat = [] then None else compile pat)"

definition level_matches :: "(string \<Rightarrow> (string \<Rightarrow> bool) option) \<Rightarrow> string \<Rightarrow> string \<Rightarrow> bool" where
  "level_matches compile pat s = (case compileLevelPattern compile pat of None \<Rightarrow> False | Some re \<Rightarrow> re s)"

definition group_hits :: "(string \<Rightarrow> (string \<Rightarrow> bool) option) \<Rightarrow> string list \<Rightarrow> string list \<Rightarrow> int" where
  "group_hits compile lines grp =
     int (length (filter
       (\<lambda>line. trim line \<noteq> [] \<and> list_ex (\<lambda>pat. level_matches compile pat (trim line)) grp) lines))"

fun best_hit :: "int \<Rightarrow> int \<Rightarrow> nat \<Rightarrow> int list \<Rightarrow> int" where
  "best_hit best bestIdx i [] = bestIdx"
| "best_hit best bestIdx i (h # hs) =
     (if best < h then best_hit h (int i) (Suc i) hs else best_hit best bestIdx (Suc i) hs)"

definition selectLevelGroup ::
    "(string \<Rightarrow> (string \<Rightarrow> bool) option) \<Rightarrow> string list \<Rightarrow> string list list \<Rightarrow> string list" where
  "selectLevelGroup compile lines rawLevels =
     (if rawLevels = [] then []
      else
        let bestIdx = best_hit 0 (- 1) 0 (map (group_hits compile lines) rawLevels)
        in if bestIdx < 0 then [] else filter (\<lambda>p. p \<noteq> []) (rawLevels ! nat bestIdx))"

fun match_level :: "(string \<Rightarrow> (string \<Rightarrow> bool) option) \<Rightarrow> string \<Rightarrow> int \<Rightarrow> string list \<Rightarrow> int" where
  "match_level compile stripped lvl [] = 0"
| "match_level compile stripped lvl (pat # pats) =
     (if level_matches compile pat stripped then lvl + 1 else match_level compile stripped (lvl + 1) pats)"

definition matchRegexLevel :: "(string \<Rightarrow> (string \<Rightarrow> bool) option) \<Rightarrow> string \<Rightarrow> string list \<Rightarrow> int" where
  "matchRegexLevel compile s grp =
     (let stripped = trim s in if stripped = [] then 0 else match_level compile stripped 0 grp)"

definition resolveTitleLevels ::
    "(string \<Rightarrow> (string \<Rightarrow> bool) option) \<Rightarrow> title_param \<Rightarrow> string list \<Rightarrow> int list" where
  "resolveTitleLevels compile p lines =
     (let grp = selectLevelGroup compile lines (ti_Levels p)
      in if grp = [] then map (\<lambda>ln. bodyLevel) lines
         else map (\<lambda>ln. let l = matchRegexLevel compile ln grp in if l = 0 then bodyLevel else l) lines)"

text \<open>The counts of the levels; the map is iterated over its values, which are the counts.\<close>

fun count_levels :: "(int \<times> int) list \<Rightarrow> int list \<Rightarrow> (int \<times> int) list" where
  "count_levels m [] = m"
| "count_levels m (l # ls) = count_levels (AList.update l (or_else (map_of m l) 0 + 1) m) ls"

definition smallest_entry :: "(int \<times> int) list \<Rightarrow> int" where
  "smallest_entry m =
     fold (\<lambda>(k, lvl) most. if lvl < bodyLevel \<and> (most = 0 \<or> lvl < most) then lvl else most) m 0"

record level_context =
  lc_levels :: "int list"
  lc_mostLevel :: int

definition newLevelContext ::
    "(string \<Rightarrow> (string \<Rightarrow> bool) option) \<Rightarrow> title_param \<Rightarrow> string list \<Rightarrow> level_context" where
  "newLevelContext compile p lines =
     (let levels = resolveTitleLevels compile p lines
      in \<lparr>lc_levels = levels, lc_mostLevel = smallest_entry (count_levels [] levels)\<rparr>)"

fun heading_tiers :: "int list \<Rightarrow> int list \<Rightarrow> int list" where
  "heading_tiers tiers [] = tiers"
| "heading_tiers tiers (l # ls) =
     (if 0 < l \<and> l < bodyLevel \<and> l \<notin> set tiers then heading_tiers (tiers @ [l]) ls
      else heading_tiers tiers ls)"

definition resolveTargetLevel :: "int list \<Rightarrow> int \<Rightarrow> int" where
  "resolveTargetLevel levels hierarchy =
     (let tiers = heading_tiers [] levels
      in if tiers = [] then 0
         else
           let tiers = insertion_sort (\<lambda>y x. x < y) tiers;
               hierarchy = (if hierarchy < 1 then 1 else hierarchy);
               hierarchy = (if int (length tiers) < hierarchy then int (length tiers) else hierarchy)
           in tiers ! nat (hierarchy - 1))"

end
