(* ===== verification/TitleStrategies.thy ===== *)
theory TitleStrategies
  imports TitleChunker
begin

text \<open>
  The two strategies of the title chunkers and the components that call them: \<open>group.go\<close> merges
  consecutive records of a section, \<open>hierarchy.go\<close> builds a tree of headings and emits its paths.
  The tree is built through a stack of pointers to its nodes; these are always the nodes of the
  rightmost branch, so the stack is represented by their levels (top first), and the node on top is
  reached by taking the last child once per entry below it. A result \<open>None\<close> is the panic of a \<open>nil\<close>
  dereference.
\<close>

section \<open>Groups\<close>

definition minGroupTokens :: int where "minGroupTokens = 32"
definition maxGroupTokens :: int where "maxGroupTokens = 1024"

fun section_ids :: "int \<Rightarrow> nat \<Rightarrow> int \<Rightarrow> int list \<Rightarrow> int list" where
  "section_ids targetLevel i sid [] = []"
| "section_ids targetLevel i sid (lvl # lvls) =
     (let sid = (if 0 < i \<and> 0 < targetLevel \<and> lvl \<le> targetLevel then sid + 1 else sid)
      in sid # section_ids targetLevel (Suc i) sid lvls)"

definition buildSectionIDs :: "int list \<Rightarrow> int \<Rightarrow> int list" where
  "buildSectionIDs levels targetLevel = section_ids targetLevel 0 0 levels"

record group_state =
  gs_groups :: "line_record list list"
  gs_current :: "line_record list"
  gs_tkCnt :: int
  gs_lastSID :: int

definition close_group :: "group_state \<Rightarrow> line_record list list" where
  "close_group s = (if gs_current s \<noteq> [] then gs_groups s @ [gs_current s] else gs_groups s)"

definition group_step :: "(string \<Rightarrow> int) \<Rightarrow> line_record \<Rightarrow> int \<Rightarrow> group_state \<Rightarrow> group_state" where
  "group_step tok r secID s =
     (if \<not> isText r
      then \<lparr>gs_groups = close_group s @ [[r]], gs_current = [], gs_tkCnt = 0, gs_lastSID = - 2\<rparr>
      else if trim (lr_text r) = [] then s
      else
        let tokenCount = tok (trim (lr_text r));
            shouldMerge = (gs_current s \<noteq> [] \<and> isText (hd (gs_current s)) \<and>
              (gs_tkCnt s < minGroupTokens \<or>
               gs_tkCnt s < maxGroupTokens \<and> secID = gs_lastSID s));
            s = (if shouldMerge
                 then s\<lparr>gs_current := gs_current s @ [r], gs_tkCnt := gs_tkCnt s + tokenCount\<rparr>
                 else s\<lparr>gs_groups := close_group s, gs_current := [r], gs_tkCnt := tokenCount\<rparr>)
        in s\<lparr>gs_lastSID := secID\<rparr>)"

fun group_loop :: "(string \<Rightarrow> int) \<Rightarrow> line_record list \<Rightarrow> int list \<Rightarrow> group_state \<Rightarrow> group_state" where
  "group_loop tok [] sids s = s"
| "group_loop tok (r # rs) sids s = group_loop tok rs (tl sids) (group_step tok r (hd sids) s)"

definition groupRecords :: "(string \<Rightarrow> int) \<Rightarrow> line_record list \<Rightarrow> int list \<Rightarrow> line_record list list" where
  "groupRecords tok records secIDs =
     close_group (group_loop tok records secIDs
       \<lparr>gs_groups = [], gs_current = [], gs_tkCnt = 0, gs_lastSID = - 2\<rparr>)"

definition joinGroupText :: "line_record list \<Rightarrow> string" where
  "joinGroupText g = concat (map (\<lambda>r. lr_text r @ [nl]) g)"

definition prependJoin :: "string \<Rightarrow> line_record list \<Rightarrow> line_record list" where
  "prependJoin pre g =
     (if pre = [] then g
      else \<lparr>lr_text = pre, lr_docType = ''text'', lr_imgID = None, lr_layout = [], lr_pdfPos = []\<rparr> # g)"

definition applyRootAsHeading :: "line_record list list \<Rightarrow> line_record list list" where
  "applyRootAsHeading groups =
     (if length groups < 2 then groups else map (prependJoin (joinGroupText (hd groups))) (tl groups))"

definition hierarchyOr :: "title_param \<Rightarrow> int \<Rightarrow> int" where
  "hierarchyOr p mostLevel =
     (case ti_Hierarchy p of Some h \<Rightarrow> (if 0 < h then h else mostLevel) | None \<Rightarrow> mostLevel)"

definition invokeGroup ::
    "(string \<Rightarrow> (string \<Rightarrow> bool) option) \<Rightarrow> (string \<Rightarrow> int) \<Rightarrow> title_param \<Rightarrow> input_value gomap \<Rightarrow>
     string chunker_outputs" where
  "invokeGroup compile tok p inputs =
     (let records = extractLineRecords inputs
      in if records = [] then emptyOutputs
         else
           let ctx = newLevelContext compile p (map lr_text records);
               levels = lc_levels ctx;
               targetLevel = resolveTargetLevel levels (hierarchyOr p (lc_mostLevel ctx));
               secIDs = buildSectionIDs levels targetLevel;
               groups = groupRecords tok records secIDs;
               groups = (if ti_RootChunkAsHeading p \<and> 1 < length groups then applyRootAsHeading groups
                         else groups);
               chunks = map joinGroupText groups
           in if chunks = [] then emptyOutputs else chunkOutputs chunks)"

section \<open>The heading tree\<close>

datatype chunk_node =
  ChunkNode (cn_level: int) (cn_titles: "nat list") (cn_bodies: "nat list") (cn_children: "chunk_node list")

fun addBodyIndex :: "nat \<Rightarrow> chunk_node \<Rightarrow> chunk_node" where
  "addBodyIndex idx (ChunkNode l ts bs cs) = ChunkNode l ts (bs @ [idx]) cs"

fun addChild :: "chunk_node \<Rightarrow> chunk_node \<Rightarrow> chunk_node" where
  "addChild c (ChunkNode l ts bs cs) = ChunkNode l ts bs (cs @ [c])"

fun at_branch :: "nat \<Rightarrow> (chunk_node \<Rightarrow> chunk_node) \<Rightarrow> chunk_node \<Rightarrow> chunk_node" where
  "at_branch 0 f n = f n"
| "at_branch (Suc k) f (ChunkNode l ts bs cs) = ChunkNode l ts bs (butlast cs @ [at_branch k f (last cs)])"

fun pop_stack :: "int \<Rightarrow> int list \<Rightarrow> int list" where
  "pop_stack lvl (l # l' # st) = (if lvl \<le> l then pop_stack lvl (l' # st) else l # l' # st)"
| "pop_stack lvl st = st"

definition tree_step :: "int \<Rightarrow> int \<times> nat \<Rightarrow> chunk_node \<times> int list \<Rightarrow> chunk_node \<times> int list" where
  "tree_step depth il s =
     (case il of (lvl, idx) \<Rightarrow> case s of (root, stack) \<Rightarrow>
        if depth < lvl then (at_branch (length stack - 1) (addBodyIndex idx) root, stack)
        else
          let stack = pop_stack lvl stack;
              node = ChunkNode lvl [idx] [] []
          in (at_branch (length stack - 1) (addChild node) root, lvl # stack))"

definition buildTree :: "(int \<times> nat) list \<Rightarrow> int \<Rightarrow> chunk_node" where
  "buildTree indexedLines depth = fst (fold (tree_step depth) indexedLines (ChunkNode 0 [] [] [], [0]))"

definition is_heading :: "int \<Rightarrow> chunk_node \<Rightarrow> bool" where
  "is_heading depth n = (1 \<le> cn_level n \<and> cn_level n \<le> depth)"

definition path_titles :: "int \<Rightarrow> bool \<Rightarrow> nat list \<Rightarrow> chunk_node \<Rightarrow> nat list" where
  "path_titles depth includeHeading titles n =
     (if is_heading depth n
      then titles @ cn_titles n @ (if includeHeading then [] else cn_bodies n)
      else titles)"

definition own_paths :: "int \<Rightarrow> bool \<Rightarrow> nat list \<Rightarrow> chunk_node \<Rightarrow> nat list list" where
  "own_paths depth includeHeading titles n =
     (let pathTitles = path_titles depth includeHeading titles n
      in (if cn_level n = 0 \<and> cn_bodies n \<noteq> [] then [titles @ cn_bodies n] else []) @
         (if includeHeading then
            if cn_bodies n \<noteq> [] \<and> is_heading depth n then [pathTitles @ cn_bodies n]
            else if cn_children n = [] \<and> is_heading depth n then [pathTitles]
            else []
          else if cn_children n = [] \<and> is_heading depth n then [pathTitles] else []))"

fun getPaths :: "int \<Rightarrow> bool \<Rightarrow> nat list \<Rightarrow> chunk_node \<Rightarrow> nat list list" where
  "getPaths depth includeHeading titles (ChunkNode l ts bs cs) =
     own_paths depth includeHeading titles (ChunkNode l ts bs cs) @
     concat (map (getPaths depth includeHeading
       (path_titles depth includeHeading titles (ChunkNode l ts bs cs))) cs)"

section \<open>The hierarchy strategy\<close>

text \<open>The levels of the text records, at their places; the other records have level 0.\<close>

fun record_levels :: "line_record list \<Rightarrow> int list \<Rightarrow> int list" where
  "record_levels [] levels = []"
| "record_levels (r # rs) levels =
     (if isText r
      then (if hd levels = 0 then bodyLevel else hd levels) # record_levels rs (tl levels)
      else 0 # record_levels rs levels)"

text \<open>The maximal runs of consecutive text records, as lists of their indexes.\<close>

fun text_runs :: "line_record list \<Rightarrow> nat \<Rightarrow> nat list \<Rightarrow> nat list list" where
  "text_runs [] i curRun = (if curRun \<noteq> [] then [curRun] else [])"
| "text_runs (r # rs) i curRun =
     (if isText r then text_runs rs (Suc i) (curRun @ [i])
      else (if curRun \<noteq> [] then [curRun] else []) @ text_runs rs (Suc i) [])"

definition run_paths :: "title_param \<Rightarrow> int \<Rightarrow> int list \<Rightarrow> nat list \<Rightarrow> nat list list" where
  "run_paths p hierarchy recordLevels run =
     (let targetLevel = resolveTargetLevel recordLevels hierarchy
      in if targetLevel = 0 then [run]
         else
           let indexed = map (\<lambda>(j, recIdx). (recordLevels ! recIdx, j)) (enumerate 0 run);
               root = buildTree indexed targetLevel;
               paths = getPaths targetLevel (ti_IncludeHeadingContent p) [] root;
               expanded = map (\<lambda>path. map (\<lambda>idx. run ! idx) (filter (\<lambda>idx. idx < length run) path)) paths
           in filter (\<lambda>out. out \<noteq> []) expanded)"

text \<open>The paths of the next run are emitted before every record that is not text.\<close>

fun interleave_runs :: "line_record list \<Rightarrow> nat \<Rightarrow> nat list list list \<Rightarrow> nat list list" where
  "interleave_runs [] i runs = concat runs"
| "interleave_runs (r # rs) i runs =
     (if isText r then interleave_runs rs (Suc i) runs
      else (case runs of
          [] \<Rightarrow> [[i]] @ interleave_runs rs (Suc i) []
        | run # runs \<Rightarrow> run @ [[i]] @ interleave_runs rs (Suc i) runs))"

text \<open>\<open>*p.Hierarchy\<close> is read once for every run.\<close>

definition hierarchy_paths ::
    "(string \<Rightarrow> (string \<Rightarrow> bool) option) \<Rightarrow> title_param \<Rightarrow> line_record list \<Rightarrow> nat list list option" where
  "hierarchy_paths compile p records =
     (let ctx = newLevelContext compile p (map lr_text (filter isText records));
          recordLevels = record_levels records (lc_levels ctx);
          runs = text_runs records 0 []
      in if runs \<noteq> [] \<and> ti_Hierarchy p = None then None
         else Some (interleave_runs records 0 (map (run_paths p (the (ti_Hierarchy p)) recordLevels) runs)))"

definition path_text :: "line_record list \<Rightarrow> nat list \<Rightarrow> string" where
  "path_text records path = concat (map (\<lambda>idx. lr_text (records ! idx) @ [nl]) path)"

definition applyRootAsHeadingMaps :: "string list \<Rightarrow> string list" where
  "applyRootAsHeadingMaps chunks =
     (if length chunks < 2 then chunks else map (\<lambda>c. hd chunks @ [nl] @ c) (tl chunks))"

definition invokeHierarchy ::
    "(string \<Rightarrow> (string \<Rightarrow> bool) option) \<Rightarrow> title_param \<Rightarrow> input_value gomap \<Rightarrow> string chunker_outputs option" where
  "invokeHierarchy compile p inputs =
     (let records = extractLineRecords inputs
      in if records = [] then Some emptyOutputs
         else case hierarchy_paths compile p records of
           None \<Rightarrow> None
         | Some combined \<Rightarrow>
             let out = map (path_text records) combined;
                 out = (if ti_RootChunkAsHeading p \<and> 1 < length out then applyRootAsHeadingMaps out else out)
             in Some (if out = [] then emptyOutputs else chunkOutputs out))"

section \<open>The components\<close>

definition with_name ::
    "string \<Rightarrow> input_value gomap option \<Rightarrow> (input_value gomap \<Rightarrow> string chunker_outputs option) \<Rightarrow>
     string chunker_outputs option" where
  "with_name component inputs run =
     (case inputs of
        None \<Rightarrow> Some emptyOutputs
      | Some m \<Rightarrow> (case mget m ''name'' of Some (IStr _) \<Rightarrow> run m
                   | _ \<Rightarrow> Some (errorOutputs (MissingName component))))"

definition Title_Invoke ::
    "(string \<Rightarrow> (string \<Rightarrow> bool) option) \<Rightarrow> (string \<Rightarrow> int) \<Rightarrow> title_param \<Rightarrow> input_value gomap option \<Rightarrow>
     string chunker_outputs option" where
  "Title_Invoke compile tok p inputs =
     with_name ''TitleChunker'' inputs (\<lambda>m.
       if ti_Method p = ''hierarchy'' then invokeHierarchy compile p m
       else if ti_Method p = ''group'' then Some (invokeGroup compile tok p m)
       else Some (errorOutputs (UnsupportedMethod (ti_Method p))))"

definition GroupTitle_Invoke ::
    "(string \<Rightarrow> (string \<Rightarrow> bool) option) \<Rightarrow> (string \<Rightarrow> int) \<Rightarrow> title_param \<Rightarrow> input_value gomap option \<Rightarrow>
     string chunker_outputs option" where
  "GroupTitle_Invoke compile tok p inputs =
     with_name ''GroupTitleChunker'' inputs (\<lambda>m. Some (invokeGroup compile tok p m))"

definition HierarchyTitle_Invoke ::
    "(string \<Rightarrow> (string \<Rightarrow> bool) option) \<Rightarrow> title_param \<Rightarrow> input_value gomap option \<Rightarrow>
     string chunker_outputs option" where
  "HierarchyTitle_Invoke compile p inputs =
     with_name ''HierarchyTitleChunker'' inputs (invokeHierarchy compile p)"

end
