(* ===== verification/TitleChunkerProps.thy ===== *)
theory TitleChunkerProps
  imports TitleStrategies TokenChunkerProps "HOL-Library.Sublist"
begin

text \<open>
  Properties of the title chunkers: the target level, the grouping of the records, the paths of the
  heading tree and the records they cover, and where a component can panic.
\<close>

section \<open>The target level\<close>

lemma heading_tiers_set:
  "distinct tiers \<Longrightarrow> distinct (heading_tiers tiers ls) \<and>
   set (heading_tiers tiers ls) = set tiers \<union> {l \<in> set ls. 0 < l \<and> l < bodyLevel}"
  by (induction tiers ls rule: heading_tiers.induct) auto

definition heading_levels :: "int list \<Rightarrow> int list" where
  "heading_levels levels = sorted_list_of_set {l \<in> set levels. 0 < l \<and> l < bodyLevel}"

lemma tiers_set: "set (heading_tiers [] levels) = {l \<in> set levels. 0 < l \<and> l < bodyLevel}"
  and tiers_distinct: "distinct (heading_tiers [] levels)"
  using heading_tiers_set [of "[]" levels] by simp_all

lemma sort_tiers: "insertion_sort (\<lambda>y x. x < y) tiers = sort (tiers :: int list)"
  by (rule insertion_sort_key)

lemma sorted_tiers: "insertion_sort (\<lambda>y x. x < y) (heading_tiers [] levels) = heading_levels levels"
  by (simp only: sort_tiers heading_levels_def tiers_set [symmetric] sorted_list_of_set_sort_remdups
      distinct_remdups_id [OF tiers_distinct])

lemma length_tiers: "length (heading_tiers [] levels) = length (heading_levels levels)"
  by (simp only: sorted_tiers [symmetric] sort_tiers length_sort)

lemma heading_tiers_Nil: "heading_tiers [] levels = [] \<longleftrightarrow> heading_levels levels = []"
  by (simp only: length_0_conv [symmetric] length_tiers)

lemma set_heading_levels: "set (heading_levels levels) = {l \<in> set levels. 0 < l \<and> l < bodyLevel}"
  by (simp add: heading_levels_def)

text \<open>
  The target level is the n-th smallest of the distinct heading levels, n being the configured
  hierarchy kept between one and their number, and zero when no line is a heading.
\<close>

lemma target_level_meaning:
  "resolveTargetLevel levels hierarchy =
   (if heading_levels levels = [] then 0
    else heading_levels levels ! nat (min (max 1 hierarchy) (int (length (heading_levels levels))) - 1))"
  unfolding resolveTargetLevel_def Let_def heading_tiers_Nil sorted_tiers
  by (auto simp: min_def max_def)

section \<open>Groups\<close>

definition kept :: "line_record \<Rightarrow> bool" where
  "kept r = (isText r \<longrightarrow> trim (lr_text r) \<noteq> [])"

definition group_tokens :: "(string \<Rightarrow> int) \<Rightarrow> line_record list \<Rightarrow> int" where
  "group_tokens tok g = (\<Sum>r\<leftarrow>g. tok (trim (lr_text r)))"

text \<open>A group: one record that is not text, or texts of which all but the last stay below the maximum.\<close>

definition good_group :: "(string \<Rightarrow> int) \<Rightarrow> line_record list \<Rightarrow> bool" where
  "good_group tok g =
     (g \<noteq> [] \<and> (length g = 1 \<or> list_all isText g \<and> group_tokens tok (butlast g) < maxGroupTokens))"

definition grouping :: "(string \<Rightarrow> int) \<Rightarrow> line_record list \<Rightarrow> group_state \<Rightarrow> bool" where
  "grouping tok rds s =
     (concat (gs_groups s) @ gs_current s = filter kept rds \<and>
      list_all (good_group tok) (gs_groups s) \<and>
      (gs_current s \<noteq> [] \<longrightarrow> good_group tok (gs_current s) \<and> list_all isText (gs_current s)) \<and>
      gs_tkCnt s = group_tokens tok (gs_current s))"

lemma grouping_step:
  assumes "grouping tok rds s"
  shows "grouping tok (rds @ [r]) (group_step tok r sid s)"
proof -
  have close: "concat (close_group s) = filter kept rds" "list_all (good_group tok) (close_group s)"
    using assms by (auto simp: grouping_def close_group_def)
  show ?thesis
  proof (cases "isText r \<and> trim (lr_text r) \<noteq> []")
    case line: True
    show ?thesis
    proof (cases "gs_current s \<noteq> [] \<and> isText (hd (gs_current s)) \<and>
        (gs_tkCnt s < minGroupTokens \<or> gs_tkCnt s < maxGroupTokens \<and> sid = gs_lastSID s)")
      case True
      then have "gs_tkCnt s < maxGroupTokens" by (auto simp: minGroupTokens_def maxGroupTokens_def)
      with True line assms show ?thesis
        by (auto simp: grouping_def group_step_def good_group_def group_tokens_def kept_def Let_def)
    next
      case False
      then have "group_step tok r sid s =
          s\<lparr>gs_groups := close_group s, gs_current := [r], gs_tkCnt := tok (trim (lr_text r)),
            gs_lastSID := sid\<rparr>"
        using line by (simp only: group_step_def Let_def) simp
      with line close show ?thesis
        by (auto simp: grouping_def good_group_def group_tokens_def kept_def)
    qed
  next
    case False
    with assms close show ?thesis
      by (auto simp: grouping_def group_step_def good_group_def group_tokens_def kept_def)
  qed
qed

lemma grouping_loop:
  "grouping tok rds s \<Longrightarrow> grouping tok (rds @ rs) (group_loop tok rs sids s)"
proof (induction tok rs sids s arbitrary: rds rule: group_loop.induct)
  case (2 tok r rs sids s)
  from 2(1) [OF grouping_step [OF 2(2)]] show ?case by simp
qed simp

text \<open>
  C33: Grouping keeps the records: the groups, in order, hold exactly the records that are not blank
  text; a record that is not text is a group of its own, and a text group only grows while it is
  below the maximum of tokens.
\<close>

theorem group_records_partition:
  "concat (groupRecords tok records sids) = filter kept records \<and>
   list_all (good_group tok) (groupRecords tok records sids)"
proof -
  let ?s0 = "\<lparr>gs_groups = [], gs_current = [], gs_tkCnt = 0, gs_lastSID = - 2\<rparr>"
  have "grouping tok [] ?s0" by (simp add: grouping_def group_tokens_def)
  from grouping_loop [OF this, of records sids]
  show ?thesis by (auto simp: groupRecords_def grouping_def close_group_def)
qed

section \<open>The heading tree\<close>

text \<open>The lines of a tree in preorder, the levels along its rightmost branch, and the levels below its root.\<close>

fun node_indexes :: "chunk_node \<Rightarrow> nat list" where
  "node_indexes (ChunkNode l ts bs cs) = ts @ bs @ concat (map node_indexes cs)"

function right_branch :: "chunk_node \<Rightarrow> int list" where
  "right_branch (ChunkNode l ts bs cs) = l # (if cs = [] then [] else right_branch (last cs))"
  by pat_completeness auto
termination
proof (relation "measure size", goal_cases)
  case (2 l ts bs cs)
  then have "last cs \<in> set cs" by simp
  then have "size (last cs) \<le> size_list size cs" by (rule size_list_estimation') simp
  then show ?case by simp
qed simp

fun headings_below :: "int \<Rightarrow> chunk_node \<Rightarrow> bool" where
  "headings_below depth (ChunkNode l ts bs cs) =
     list_all (\<lambda>c. is_heading depth c \<and> headings_below depth c) cs"

lemma right_branch_ne [simp]: "right_branch n \<noteq> []"
  by (cases n) simp

lemma branch_hd: "hd (right_branch n) = cn_level n"
  by (cases n) simp

text \<open>Both updates happen at the end of the preorder.\<close>

lemma add_body_branch:
  assumes "length (right_branch n) = Suc k"
  shows "node_indexes (at_branch k (addBodyIndex i) n) = node_indexes n @ [i] \<and>
         right_branch (at_branch k (addBodyIndex i) n) = right_branch n \<and>
         cn_level (at_branch k (addBodyIndex i) n) = cn_level n \<and>
         cn_titles (at_branch k (addBodyIndex i) n) = cn_titles n \<and>
         (headings_below depth n \<longrightarrow> headings_below depth (at_branch k (addBodyIndex i) n))"
  using assms
proof (induction k arbitrary: n)
  case 0
  then show ?case by (cases n) (simp split: if_splits)
next
  case (Suc k)
  obtain l ts bs cs where n: "n = ChunkNode l ts bs cs" by (cases n)
  with Suc.prems have ne: "cs \<noteq> []" and len: "length (right_branch (last cs)) = Suc k"
    by (auto split: if_splits)
  obtain xs c where cs: "cs = xs @ [c]" using ne by (cases cs rule: rev_cases) auto
  from Suc.IH [of c] len cs show ?case by (auto simp: n is_heading_def)
qed

lemma add_child_branch:
  assumes "k < length (right_branch n)"
  shows "node_indexes (at_branch k (addChild (ChunkNode lvl [i] [] [])) n) = node_indexes n @ [i] \<and>
         right_branch (at_branch k (addChild (ChunkNode lvl [i] [] [])) n) = take (Suc k) (right_branch n) @ [lvl] \<and>
         cn_level (at_branch k (addChild (ChunkNode lvl [i] [] [])) n) = cn_level n \<and>
         cn_titles (at_branch k (addChild (ChunkNode lvl [i] [] [])) n) = cn_titles n \<and>
         (headings_below depth n \<and> 1 \<le> lvl \<and> lvl \<le> depth \<longrightarrow>
          headings_below depth (at_branch k (addChild (ChunkNode lvl [i] [] [])) n))"
  using assms
proof (induction k arbitrary: n)
  case 0
  then show ?case by (cases n) (simp add: is_heading_def)
next
  case (Suc k)
  obtain l ts bs cs where n: "n = ChunkNode l ts bs cs" by (cases n)
  with Suc.prems have ne: "cs \<noteq> []" and len: "k < length (right_branch (last cs))"
    by (auto split: if_splits)
  obtain xs c where cs: "cs = xs @ [c]" using ne by (cases cs rule: rev_cases) auto
  from Suc.IH [of c] len cs show ?case by (auto simp: n is_heading_def)
qed

lemma pop_stack_drop:
  assumes "st \<noteq> []"
  obtains m where "m < length st" "pop_stack lvl st = drop m st"
  using assms
proof (induction lvl st arbitrary: thesis rule: pop_stack.induct)
  case (1 lvl l l' st)
  show ?case
  proof (cases "lvl \<le> l")
    case True
    from 1(1) [OF True] obtain m where "m < length (l' # st)" "pop_stack lvl (l' # st) = drop m (l' # st)"
      by auto
    with True show ?thesis by (intro 1(2) [of "Suc m"]) simp_all
  next
    case False
    then show ?thesis by (intro 1(2) [of 0]) simp_all
  qed
qed (auto simp: gr0_conv_Suc)

definition tree_state :: "int \<Rightarrow> nat list \<Rightarrow> chunk_node \<times> int list \<Rightarrow> bool" where
  "tree_state depth is s =
     (node_indexes (fst s) = is \<and> right_branch (fst s) = rev (snd s) \<and> cn_level (fst s) = 0 \<and>
      cn_titles (fst s) = [] \<and> headings_below depth (fst s))"

lemma tree_state_step:
  assumes "tree_state depth is s" and "1 \<le> fst il"
  shows "tree_state depth (is @ [snd il]) (tree_step depth il s)"
proof -
  obtain lvl i where il: "il = (lvl, i)" by (cases il)
  obtain root st where s: "s = (root, st)" by (cases s)
  have b: "right_branch root = rev st" using assms(1) s by (simp add: tree_state_def)
  then have ne: "st \<noteq> []" using right_branch_ne [of root] by auto
  show ?thesis
  proof (cases "depth < lvl")
    case True
    have "length (right_branch root) = Suc (length st - 1)" using b ne by simp
    from add_body_branch [OF this, of i depth] True assms(1) show ?thesis
      by (simp add: tree_state_def tree_step_def il s)
  next
    case False
    obtain m where m: "m < length st" "pop_stack lvl st = drop m st" by (rule pop_stack_drop [OF ne])
    have k: "length (drop m st) - 1 < length (right_branch root)" using m b by simp
    have "take (Suc (length (drop m st) - 1)) (rev st) = rev (drop m st)"
      using m(1) by (simp add: rev_drop Suc_diff_Suc)
    with add_child_branch [OF k, of lvl i depth] False assms b m show ?thesis
      by (simp add: tree_state_def tree_step_def il s Let_def)
  qed
qed

lemma buildTree_state:
  assumes "list_all (\<lambda>il. 1 \<le> fst il) ils"
  shows "node_indexes (buildTree ils depth) = map snd ils"
    "cn_level (buildTree ils depth) = 0" "cn_titles (buildTree ils depth) = []"
    "headings_below depth (buildTree ils depth)"
proof -
  have "tree_state depth (is @ map snd ils) (fold (tree_step depth) ils s)" if "tree_state depth is s" for "is" s
    using that assms
  proof (induction ils arbitrary: "is" s)
    case (Cons il ils)
    from Cons.IH [OF tree_state_step [OF Cons.prems(1)]] Cons.prems(2) show ?case by simp
  qed simp
  from this [of "[]" "(ChunkNode 0 [] [] [], [0])"]
  have "tree_state depth (map snd ils) (fold (tree_step depth) ils (ChunkNode 0 [] [] [], [0]))"
    by (simp add: tree_state_def)
  then show "node_indexes (buildTree ils depth) = map snd ils"
    "cn_level (buildTree ils depth) = 0" "cn_titles (buildTree ils depth) = []"
    "headings_below depth (buildTree ils depth)"
    by (simp_all add: tree_state_def buildTree_def)
qed

section \<open>Paths\<close>

lemma path_titles_subseq:
  "subseq (path_titles depth incl titles (ChunkNode l ts bs cs)) (titles @ ts @ bs)"
  by (auto simp: path_titles_def)

lemma own_paths_subseq:
  assumes "path \<in> set (own_paths depth incl titles (ChunkNode l ts bs cs))"
  shows "subseq path (titles @ ts @ bs)"
proof -
  have "subseq (titles @ bs) (titles @ ts @ bs)"
    by (intro list_emb_append_mono list_emb_append2 subseq_order.refl)
  then show ?thesis
    using assms by (auto simp: own_paths_def path_titles_def Let_def split: if_splits)
qed

lemma subseq_concat_member: "x \<in> set xs \<Longrightarrow> subseq (f x) (concat (map f xs))"
  by (induction xs) (auto intro: list_emb_append2)

lemma getPaths_subseq:
  "path \<in> set (getPaths depth incl titles n) \<Longrightarrow> subseq path (titles @ node_indexes n)"
proof (induction depth incl titles n arbitrary: path rule: getPaths.induct)
  case (1 depth incl titles l ts bs cs)
  let ?n = "ChunkNode l ts bs cs"
  from 1(2) consider "path \<in> set (own_paths depth incl titles ?n)"
    | c where "c \<in> set cs" "path \<in> set (getPaths depth incl (path_titles depth incl titles ?n) c)"
    by auto
  then show ?case
  proof cases
    case 1
    from own_paths_subseq [OF this] show ?thesis
      using list_emb_append_mono [of _ path "titles @ ts @ bs" "[]"] by fastforce
  next
    case 2
    have "subseq path (path_titles depth incl titles ?n @ node_indexes c)"
      using 1(1) [OF 2] .
    also have "subseq \<dots> ((titles @ ts @ bs) @ concat (map node_indexes cs))"
      by (intro list_emb_append_mono path_titles_subseq subseq_concat_member 2(1))
    finally show ?thesis by simp
  qed
qed

lemma getPaths_cover:
  assumes "is_heading depth n" and "headings_below depth n"
  shows "set titles \<union> set (node_indexes n) \<subseteq> set (concat (getPaths depth incl titles n))"
  using assms
proof (induction depth incl titles n rule: getPaths.induct)
  case (1 depth incl titles l ts bs cs)
  let ?n = "ChunkNode l ts bs cs"
  let ?titles = "path_titles depth incl titles ?n"
  define S where "S = set (concat (getPaths depth incl titles ?n))"
  have lvl: "l \<noteq> 0" using 1(2) by (simp add: is_heading_def)
  have titles: "?titles = titles @ ts @ (if incl then [] else bs)"
    using 1(2) by (simp add: path_titles_def)
  have child: "set ?titles \<union> set (node_indexes c) \<subseteq> set (concat (getPaths depth incl ?titles c))"
    if "c \<in> set cs" for c
    using that 1(1) [OF that] 1(3) by (simp add: list_all_iff)
  have kids: "set (concat (map node_indexes cs)) \<subseteq> S"
    using child by (fastforce simp: S_def)
  have inherited: "set ?titles \<subseteq> S"
  proof (cases cs)
    case Nil
    then show ?thesis using 1(2) lvl by (auto simp: S_def own_paths_def Let_def)
  next
    case (Cons c cs')
    then show ?thesis using child [of c] by (auto simp: S_def)
  qed
  have bodies: "set bs \<subseteq> S"
  proof (cases "incl \<and> bs \<noteq> []")
    case True
    then show ?thesis using 1(2) lvl by (auto simp: S_def own_paths_def Let_def)
  next
    case False
    then show ?thesis using inherited titles by auto
  qed
  have "set titles \<union> set ts \<subseteq> S" using inherited titles by auto
  with kids bodies have "set titles \<union> set (node_indexes ?n) \<subseteq> S" by simp
  then show ?case by (simp only: S_def)
qed

lemma root_paths_cover:
  assumes "cn_level n = 0" and "cn_titles n = []" and "headings_below depth n"
  shows "set (node_indexes n) \<subseteq> set (concat (getPaths depth incl [] n))"
proof -
  obtain bs cs where n: "n = ChunkNode 0 [] bs cs" using assms(1,2) by (cases n) auto
  have titles: "path_titles depth incl [] n = []" by (simp add: path_titles_def n is_heading_def)
  have "set (node_indexes c) \<subseteq> set (concat (getPaths depth incl [] c))" if "c \<in> set cs" for c
    using getPaths_cover [of depth c "[]" incl] assms(3) that by (simp add: n list_all_iff)
  then have "set (concat (map node_indexes cs)) \<subseteq> set (concat (getPaths depth incl [] n))"
    using titles by (fastforce simp: n)
  moreover have "set bs \<subseteq> set (concat (getPaths depth incl [] n))"
    by (cases bs) (auto simp: n own_paths_def Let_def)
  ultimately show ?thesis by (simp add: n)
qed

section \<open>Records and runs\<close>

lemma resolveTitleLevels_pos:
  "list_all (\<lambda>l. 0 < l) (resolveTitleLevels compile p lines) \<and>
   length (resolveTitleLevels compile p lines) = length lines"
proof -
  have ml: "0 \<le> match_level compile t l pats" if "0 \<le> l" for t l pats
    using that by (induction compile t l pats rule: match_level.induct) auto
  have "0 \<le> matchRegexLevel compile ln g" for ln g
    by (simp add: matchRegexLevel_def Let_def ml)
  then show ?thesis
    by (auto simp: resolveTitleLevels_def Let_def list_all_iff bodyLevel_def order_less_le)
qed

lemma record_levels_pos:
  assumes "length levels = length (filter isText records)" and "list_all (\<lambda>l. 0 < l) levels"
  shows "length (record_levels records levels) = length records \<and>
    (\<forall>i < length records. isText (records ! i) \<longrightarrow> 1 \<le> record_levels records levels ! i)"
  using assms
proof (induction records levels rule: record_levels.induct)
  case (2 r rs levels)
  show ?case
  proof (cases "isText r")
    case True
    then obtain l ls where l: "levels = l # ls" using 2(3) by (cases levels) auto
    with 2 True show ?thesis by (auto simp: nth_Cons split: nat.splits)
  next
    case False
    with 2 show ?thesis by (auto simp: nth_Cons split: nat.splits)
  qed
qed simp

lemma text_runs_concat:
  "concat (text_runs rs i cur) = cur @ map (\<lambda>j. i + j) (filter (\<lambda>j. isText (rs ! j)) [0..<length rs]) \<and>
   [] \<notin> set (text_runs rs i cur)"
proof (induction rs i cur rule: text_runs.induct)
  case (2 r rs i cur)
  have "filter (\<lambda>j. isText ((r # rs) ! j)) [0..<length (r # rs)] =
      (if isText r then [0] else []) @ map Suc (filter (\<lambda>j. isText (rs ! j)) [0..<length rs])"
    by (simp add: upt_conv_Cons filter_map comp_def map_Suc_upt [symmetric] del: upt_Suc)
  with 2 show ?case by (auto simp: comp_def)
qed simp

lemma interleave_runs_set:
  "set (interleave_runs rs i runs) =
   set (concat runs) \<union> {[i + j] | j. j < length rs \<and> \<not> isText (rs ! j)}"
proof (induction rs i runs rule: interleave_runs.induct)
  case (2 r rs i runs)
  have "{[i + j] | j. j < length (r # rs) \<and> \<not> isText ((r # rs) ! j)} =
      (if isText r then {} else {[i]}) \<union> {[Suc i + j] | j. j < length rs \<and> \<not> isText (rs ! j)}"
    by (auto simp: less_Suc_eq_0_disj)
  with 2 show ?case by (auto split: list.splits)
qed simp

lemma set_concat_filter: "set (concat (filter (\<lambda>q. q \<noteq> []) (map (map f) ps))) = f ` set (concat ps)"
  by (induction ps) auto

lemma run_paths_cover:
  assumes "run \<noteq> []" and "\<forall>i \<in> set run. 1 \<le> recordLevels ! i"
  shows "set (concat (run_paths p h recordLevels run)) = set run"
    "path \<in> set (run_paths p h recordLevels run) \<Longrightarrow> subseq path run"
proof -
  let ?target = "resolveTargetLevel recordLevels h"
  let ?indexed = "map (\<lambda>(j, recIdx). (recordLevels ! recIdx, j)) (enumerate 0 run)"
  let ?root = "buildTree ?indexed ?target"
  let ?paths = "getPaths ?target (ti_IncludeHeadingContent p) [] ?root"
  have "list_all (\<lambda>il. 1 \<le> fst il) ?indexed"
    using assms(2) by (auto simp: list_all_iff in_set_enumerate_eq)
  note tree = buildTree_state [OF this, of ?target]
  have snds: "map snd ?indexed = [0..<length run]"
    by (simp add: comp_def split_beta)
  have sub: "subseq q [0..<length run]" if "q \<in> set ?paths" for q
    using getPaths_subseq [OF that] tree(1) snds by simp
  have cover: "set (concat ?paths) = {..<length run}"
  proof
    show "set (concat ?paths) \<subseteq> {..<length run}"
    proof
      fix i assume "i \<in> set (concat ?paths)"
      then obtain q where q: "q \<in> set ?paths" "i \<in> set q" by auto
      from list_emb_set [OF sub [OF q(1)] q(2)] show "i \<in> {..<length run}" by auto
    qed
    show "{..<length run} \<subseteq> set (concat ?paths)"
      using root_paths_cover [OF tree(2-4), of "ti_IncludeHeadingContent p"]
      unfolding tree(1) snds by (simp only: atLeast_upt)
  qed
  have all: "map ((!) run) (filter (\<lambda>idx. idx < length run) q) = map ((!) run) q" if "q \<in> set ?paths" for q
    using that cover by (auto intro!: arg_cong [of _ _ "map ((!) run)"] filter_True)
  have eq: "run_paths p h recordLevels run =
      (if ?target = 0 then [run] else filter (\<lambda>q. q \<noteq> []) (map (map ((!) run)) ?paths))"
    using all by (auto simp: run_paths_def Let_def intro!: arg_cong [of _ _ "filter (\<lambda>q. q \<noteq> [])"])
  have "set (concat (filter (\<lambda>q. q \<noteq> []) (map (map ((!) run)) ?paths))) = (!) run ` set (concat ?paths)"
    by (rule set_concat_filter)
  also have "\<dots> = set run" by (simp only: cover) (metis atLeast_upt list.set_map map_nth)
  finally show "set (concat (run_paths p h recordLevels run)) = set run" by (simp add: eq)
  show "subseq path run" if "path \<in> set (run_paths p h recordLevels run)"
  proof (cases "?target = 0")
    case True
    with that show ?thesis by (simp add: eq)
  next
    case False
    with that obtain q where q: "q \<in> set ?paths" "path = map ((!) run) q" by (auto simp: eq)
    from sub [OF q(1)] have "subseq (map ((!) run) q) (map ((!) run) [0..<length run])"
      by (rule subseq_map)
    with q(2) show ?thesis by (simp add: map_nth)
  qed
qed

lemma sorted_wrt_subseq: "subseq xs ys \<Longrightarrow> sorted_wrt P ys \<Longrightarrow> sorted_wrt P xs"
proof (induction rule: list_emb.induct)
  case (list_emb_Cons2 x y xs ys)
  have "set xs \<subseteq> set ys"
  proof
    fix z assume "z \<in> set xs"
    from list_emb_set [OF list_emb_Cons2.hyps(2) this] show "z \<in> set ys" by auto
  qed
  with list_emb_Cons2 show ?case by auto
qed simp_all

lemma runs_sorted:
  assumes "concat xss = filter P [0..<n]" and "xs \<in> set xss"
  shows "sorted_wrt (<) xs"
proof -
  have "sorted_wrt (<) (concat xss)" using assms(1) by (simp add: sorted_wrt_filter)
  with assms(2) show ?thesis by (induction xss) (auto simp: sorted_wrt_append)
qed

lemma text_runs_none: "text_runs records 0 [] = [] \<longleftrightarrow> \<not> list_ex isText records"
proof -
  have "text_runs records 0 [] = [] \<longleftrightarrow> concat (text_runs records 0 []) = []"
    using text_runs_concat [of records 0 "[]"] by (cases "text_runs records 0 []") auto
  also have "\<dots> \<longleftrightarrow> \<not> list_ex isText records"
    using text_runs_concat [of records 0 "[]"] by (auto simp: filter_empty_conv list_ex_length)
  finally show ?thesis .
qed

text \<open>The levels of the text records and their runs, as the hierarchy strategy computes them.\<close>

definition found_levels ::
    "(string \<Rightarrow> (string \<Rightarrow> bool) option) \<Rightarrow> title_param \<Rightarrow> line_record list \<Rightarrow> int list" where
  "found_levels compile p records =
     record_levels records (lc_levels (newLevelContext compile p (map lr_text (filter isText records))))"

lemma found_levels_pos:
  "i < length records \<Longrightarrow> isText (records ! i) \<Longrightarrow> 1 \<le> found_levels compile p records ! i"
  using resolveTitleLevels_pos [of compile p "map lr_text (filter isText records)"]
    record_levels_pos [of "lc_levels (newLevelContext compile p (map lr_text (filter isText records)))" records]
  by (simp add: found_levels_def newLevelContext_def Let_def)

lemma text_run:
  assumes "run \<in> set (text_runs records 0 [])"
  shows "run \<noteq> []" "\<forall>i \<in> set run. 1 \<le> found_levels compile p records ! i" "sorted_wrt (<) run"
proof -
  have runs: "concat (text_runs records 0 []) = filter (\<lambda>j. isText (records ! j)) [0..<length records]"
    "[] \<notin> set (text_runs records 0 [])"
    using text_runs_concat [of records 0 "[]"] by simp_all
  show "run \<noteq> []" using assms runs(2) by auto
  have "set run \<subseteq> set (concat (text_runs records 0 []))" using assms by auto
  then have "set run \<subseteq> {j. j < length records \<and> isText (records ! j)}" unfolding runs(1) by auto
  then show "\<forall>i \<in> set run. 1 \<le> found_levels compile p records ! i"
    using found_levels_pos by blast
  show "sorted_wrt (<) run" by (rule runs_sorted [OF runs(1) assms])
qed

lemma interleaved_paths:
  fixes h :: int and records p compile
  defines "paths \<equiv> interleave_runs records 0
     (map (run_paths p h (found_levels compile p records)) (text_runs records 0 []))"
  shows "set (concat paths) = {..<length records}" "list_all (sorted_wrt (<)) paths"
proof -
  let ?runs = "text_runs records 0 []"
  let ?results = "map (run_paths p h (found_levels compile p records)) ?runs"
  have "set (concat (concat ?results)) = set (concat ?runs)"
    using run_paths_cover(1) [OF text_run(1,2)] by auto
  also have "\<dots> = {j. j < length records \<and> isText (records ! j)}"
    using text_runs_concat [of records 0 "[]"] by auto
  finally show "set (concat paths) = {..<length records}"
    using interleave_runs_set [of records 0 ?results] by (auto simp: paths_def)
  have "sorted_wrt (<) path" if "path \<in> set paths" for path
  proof -
    from that interleave_runs_set [of records 0 ?results] consider
      i where "path = [i]"
      | r where "r \<in> set ?runs" "path \<in> set (run_paths p h (found_levels compile p records) r)"
      by (auto simp: paths_def)
    then show ?thesis
    proof cases
      case 2
      from run_paths_cover(2) [OF text_run(1,2) [OF 2(1)] 2(2)] text_run(3) [OF 2(1)] show ?thesis
        by (rule sorted_wrt_subseq)
    qed simp
  qed
  then show "list_all (sorted_wrt (<)) paths" by (simp add: list_all_iff)
qed

text \<open>
  C12: The heading tree loses no record and keeps the order inside a chunk: whatever the patterns and
  the parameters, every record is in some path and every path lists records in the order of
  the document. The strategy panics exactly when no hierarchy is set and some record is text.
\<close>

theorem hierarchy_paths_cover:
  "case hierarchy_paths compile p records of
     None \<Rightarrow> ti_Hierarchy p = None \<and> list_ex isText records
   | Some paths \<Rightarrow>
       \<not> (ti_Hierarchy p = None \<and> list_ex isText records) \<and>
       set (concat paths) = {..<length records} \<and> list_all (sorted_wrt (<)) paths"
  using interleaved_paths [of records p "the (ti_Hierarchy p)" compile] text_runs_none [of records]
  by (auto simp: hierarchy_paths_def found_levels_def Let_def)

definition plain_record :: "string \<Rightarrow> string \<Rightarrow> line_record" where
  "plain_record kind s =
     \<lparr>lr_text = s, lr_docType = kind, lr_imgID = None, lr_layout = [], lr_pdfPos = []\<rparr>"

text \<open>
  The order between the chunks is another matter: the text that follows a table is emitted before
  it when the document starts with the table.
\<close>

lemma text_moves_before_table:
  "hierarchy_paths (\<lambda>pat. None) (defaultsTitle\<lparr>ti_Hierarchy := Some 1\<rparr>)
     [plain_record ''table'' ''cells'', plain_record ''text'' ''after''] = Some [[1], [0]]"
  by (simp add: hierarchy_paths_def plain_record_def defaultsTitle_def newLevelContext_def resolveTitleLevels_def
      selectLevelGroup_def run_paths_def resolveTargetLevel_def bodyLevel_def isText_def Let_def)

text \<open>
  The level that occurs most is taken from the counts: with two lines of level 3 and three of level
  5 the loop returns 2, the number of lines, where the smallest level is 3.
\<close>

lemma most_level_is_a_count:
  "smallest_entry (count_levels [] [3, 3, 5, 5, 5]) = 2 \<and> heading_levels [3, 3, 5, 5, 5] = [3, 5]"
proof -
  have "{l \<in> set [3, 3, 5, 5, 5 :: int]. 0 < l \<and> l < bodyLevel} = {3, 5}"
    by (auto simp: bodyLevel_def)
  then show ?thesis
    by (simp add: smallest_entry_def or_else_def bodyLevel_def heading_levels_def)
qed

section \<open>Panics\<close>

lemma invokeHierarchy_set: "ti_Hierarchy p \<noteq> None \<Longrightarrow> invokeHierarchy compile p inputs \<noteq> None"
  by (auto simp: invokeHierarchy_def hierarchy_paths_def Let_def)

lemma validated_hierarchy:
  "Title_Validate p = None \<Longrightarrow> ti_Method p = ''hierarchy'' \<Longrightarrow> ti_Hierarchy p \<noteq> None"
  by (auto simp: Title_Validate_def split: if_splits)

text \<open>
  C32: A title chunker that its constructor accepts never panics: whatever the inputs, \<open>Invoke\<close>
  returns an output, because the hierarchy method is only accepted with a hierarchy.
\<close>

theorem title_chunker_never_panics:
  assumes "NewTitleChunker params = Inr p"
  shows "Title_Invoke compile tok p inputs \<noteq> None"
proof -
  have "Title_Validate p = None"
    using assms by (auto simp: NewTitleChunker_def checked_def split: option.splits)
  then show ?thesis
    using invokeHierarchy_set validated_hierarchy
    by (auto simp: Title_Invoke_def with_name_def split: option.splits input_value.splits)
qed

definition heading_conf :: "conf_value gomap" where
  "heading_conf =
     [(''method'', CVal (VStr ''hierarchy'')), (''levels'', CStringLists [[''^#'']]),
      (''hierarchy'', CVal (VInt 1))]"

theorem title_chunker_never_panics_witness:
  "\<exists>p. NewTitleChunker heading_conf = Inr p \<and>
     Title_Invoke (\<lambda>pat. None) (\<lambda>s. 0) p (Some [(''name'', IStr ''d''), (''text'', IStr ''# a'')]) \<noteq> None"
proof -
  have "\<exists>p. NewTitleChunker heading_conf = Inr p"
    by (simp add: NewTitleChunker_def heading_conf_def checked_def Title_Update_def Title_Validate_def
        levels_conf_def string_conf_def int_conf_def conf_val_def or_else_def numericFromAny_def
        f64_of_int_def f64_round_def bitlen.simps canon.simps f64_trunc_def)
  then show ?thesis using title_chunker_never_panics by blast
qed

text \<open>
  The stand-alone hierarchy component lets the parameters overwrite its method, is accepted without
  a hierarchy then, and panics on the first text.
\<close>

lemma hierarchy_component_can_panic:
  "\<exists>p. NewHierarchyTitleChunker [(''method'', CVal (VStr ''group'')), (''levels'', CStringLists [[''^#'']])] = Inr p \<and>
     HierarchyTitle_Invoke (\<lambda>pat. None) p (Some [(''name'', IStr ''d''), (''text'', IStr ''a'')]) = None"
  by (simp add: NewHierarchyTitleChunker_def checked_def Title_Update_def Title_Validate_def levels_conf_def
      string_conf_def int_conf_def conf_val_def or_else_def numericFromAny_def defaultsTitle_def
      HierarchyTitle_Invoke_def with_name_def invokeHierarchy_def extractLineRecords_def
      chunksFromInputs_def lineRecordsFromText_def trim_def hierarchy_paths_def isText_def Let_def)

end
