(* ===== verification/MetaFilter.thy ===== *)
theory MetaFilter
  imports GoStrings
begin

text \<open>
  Filtering documents by their metadata: \<open>common/metadata_utils.go\<close> and the parts of
  \<open>service/metadata_filter.go\<close> around it. A map of the metadata is an association list whose order
  stands for the order of iteration; so does the list of collected document identifiers, which the code
  keeps in a map. The text functions with tables of their own (\<open>strings.ToLower\<close>,
  \<open>strconv.ParseFloat\<close>, \<open>strconv.FormatFloat\<close>) are the fields of an argument. The language model, the
  search engine and the resolver of manual values are arguments.
\<close>

record text_lib =
  tl_lower :: "string \<Rightarrow> string"
  tl_parseFloat :: "string \<Rightarrow> f64 option"
  tl_formatFloat :: "f64 \<Rightarrow> string"

section \<open>Conditions\<close>

record meta_condition =
  mc_Operator :: string
  mc_Key :: string
  mc_Value :: gval

type_synonym meta_value_docs = "string list gomap"
type_synonym meta_data = "meta_value_docs gomap"

record meta_filter_input =
  mi_Conditions :: "meta_condition list"
  mi_Logic :: string

abbreviation op_ne :: string where "op_ne \<equiv> [CHR 0xE2, CHR 0x89, CHR 0xA0]"
abbreviation op_ge :: string where "op_ge \<equiv> [CHR 0xE2, CHR 0x89, CHR 0xA5]"
abbreviation op_le :: string where "op_le \<equiv> [CHR 0xE2, CHR 0x89, CHR 0xA4]"

definition operatorMapping :: "string gomap" where
  "operatorMapping =
     [(''is'', ''=''), (''not is'', op_ne), (''>='', op_ge), (''<='', op_le), (''!='', op_ne), (''=='', ''='')]"

definition convertOperator :: "string \<Rightarrow> string" where
  "convertOperator op = mgetd op operatorMapping op"

definition str_field :: "gval gomap \<Rightarrow> string \<Rightarrow> string" where
  "str_field m k = (case mget m k of Some (VStr s) \<Rightarrow> s | _ \<Rightarrow> [])"

definition parse_condition :: "gval \<Rightarrow> meta_condition option" where
  "parse_condition raw =
     (case raw of
        VMap cond \<Rightarrow>
          let name = (if str_field cond ''name'' = [] then str_field cond ''key'' else str_field cond ''name'');
              op = (if str_field cond ''comparison_operator'' = [] then str_field cond ''operator''
                    else str_field cond ''comparison_operator'')
          in if name = [] then None
             else Some \<lparr>mc_Operator = convertOperator op, mc_Key = name, mc_Value = mgetd VNil cond ''value''\<rparr>
      | _ \<Rightarrow> None)"

definition ParseAndConvert :: "gval gomap option \<Rightarrow> meta_filter_input option" where
  "ParseAndConvert metadataCondition =
     (case metadataCondition of
        None \<Rightarrow> None
      | Some m \<Rightarrow>
          let logic = (if str_field m ''logic'' = [] then ''and'' else str_field m ''logic'')
          in case mget m ''conditions'' of
               Some (VList rawConditions) \<Rightarrow>
                 (if rawConditions = [] then None
                  else
                    let conditions = somes (map parse_condition rawConditions)
                    in if conditions = [] then None
                       else Some \<lparr>mi_Conditions = conditions, mi_Logic = logic\<rparr>)
             | _ \<Rightarrow> None)"

section \<open>Comparing values\<close>

definition value_text :: "text_lib \<Rightarrow> gval \<Rightarrow> string" where
  "value_text L v =
     (case v of
        VStr s \<Rightarrow> s
      | VFloat f \<Rightarrow> tl_formatFloat L f
      | VBool b \<Rightarrow> (if b then ''true'' else ''false'')
      | _ \<Rightarrow> [])"

definition isDate :: "string \<Rightarrow> bool" where
  "isDate s =
     (length s = 10 \<and> s ! 4 = CHR ''-'' \<and> s ! 7 = CHR ''-'' \<and>
      list_all (\<lambda>i. i = 4 \<or> i = 7 \<or> byte_in 48 57 (s ! i)) [0..<10])"

fun bytes_less :: "string \<Rightarrow> string \<Rightarrow> bool" where
  "bytes_less [] b = (b \<noteq> [])"
| "bytes_less (c # a) [] = False"
| "bytes_less (c # a) (d # b) =
     ((of_char c :: nat) < of_char d \<or> c = d \<and> bytes_less a b)"

definition compareFloat :: "f64 \<Rightarrow> f64 \<Rightarrow> string \<Rightarrow> bool" where
  "compareFloat a b op =
     (if op = ''='' then f64_eq a b
      else if op = op_ne then \<not> f64_eq a b
      else if op = ''>'' then f64_less b a
      else if op = ''<'' then f64_less a b
      else if op = op_ge then f64_less b a \<or> f64_eq a b
      else if op = op_le then f64_less a b \<or> f64_eq a b
      else False)"

definition compareString :: "string \<Rightarrow> string \<Rightarrow> string \<Rightarrow> bool" where
  "compareString a b op =
     (if op = ''='' then a = b
      else if op = op_ne then a \<noteq> b
      else if op = ''>'' then bytes_less b a
      else if op = ''<'' then bytes_less a b
      else if op = op_ge then \<not> bytes_less a b
      else if op = op_le then \<not> bytes_less b a
      else False)"

definition compareValues :: "text_lib \<Rightarrow> string \<Rightarrow> string \<Rightarrow> string \<Rightarrow> bool" where
  "compareValues L a b op =
     (if isDate b then (if \<not> isDate a then op = op_ne else compareString a b op)
      else case (tl_parseFloat L a, tl_parseFloat L b) of
        (Some af, Some bf) \<Rightarrow> compareFloat af bf op
      | _ \<Rightarrow> compareString (tl_lower L a) (tl_lower L b) op)"

fun has_part :: "string \<Rightarrow> string \<Rightarrow> bool" where
  "has_part w [] = (w = [])"
| "has_part w (c # s) = (starts_with w (c # s) \<or> has_part w s)"

definition matchValue :: "text_lib \<Rightarrow> string \<Rightarrow> string \<Rightarrow> gval \<Rightarrow> bool" where
  "matchValue L input op v =
     (let low = tl_lower L input; val = value_text L v; lval = tl_lower L val
      in if op = ''empty'' then input = []
         else if op = ''not empty'' then input \<noteq> []
         else if op = ''contains'' then has_part lval low
         else if op = ''not contains'' then \<not> has_part lval low
         else if op = ''start with'' then starts_with lval low
         else if op = ''end with'' then starts_with (rev lval) (rev low)
         else compareValues L input val op)"

section \<open>Filtering\<close>

definition filterSet :: "text_lib \<Rightarrow> meta_value_docs \<Rightarrow> string \<Rightarrow> gval \<Rightarrow> string list" where
  "filterSet L v2docs op v =
     (case v of
        VList items \<Rightarrow>
          (if op = ''not in'' then
             let lookup = set (map (\<lambda>item. tl_lower L (value_text L item)) items)
             in concat (map snd (filter (\<lambda>(input, docids). tl_lower L input \<notin> lookup) v2docs))
           else
             let lookup = set (map (value_text L) items)
             in concat (map snd (filter (\<lambda>(input, docids). input \<in> lookup) v2docs)))
      | _ \<Rightarrow> [])"

definition filterOut :: "text_lib \<Rightarrow> meta_value_docs \<Rightarrow> string \<Rightarrow> gval \<Rightarrow> string list" where
  "filterOut L v2docs op v =
     (if op = ''in'' \<or> op = ''not in'' then filterSet L v2docs op v
      else concat (map snd (filter (\<lambda>(input, docids). matchValue L input op v) v2docs)))"

text \<open>A set of identifiers, as the list of its keys in the order of their insertion.\<close>

definition id_set :: "string list \<Rightarrow> string list" where
  "id_set ids = rev (remdups (rev ids))"

fun filter_loop_ids ::
    "text_lib \<Rightarrow> meta_data \<Rightarrow> string \<Rightarrow> meta_condition list \<Rightarrow> string list option \<Rightarrow> string list" where
  "filter_loop_ids L metas logic [] docIDs = (case docIDs of None \<Rightarrow> [] | Some ids \<Rightarrow> ids)"
| "filter_loop_ids L metas logic (f # fs) docIDs =
     (case mget metas (mc_Key f) of
        None \<Rightarrow> (if logic = ''and'' then [] else filter_loop_ids L metas logic fs docIDs)
      | Some v2docs \<Rightarrow>
          let matched = filterOut L v2docs (mc_Operator f) (mc_Value f)
          in case docIDs of
               None \<Rightarrow> filter_loop_ids L metas logic fs (Some (id_set matched))
             | Some ids \<Rightarrow>
                 if logic = ''and'' then
                   let s = id_set (filter (\<lambda>id. id \<in> set ids) matched)
                   in if s = [] then [] else filter_loop_ids L metas logic fs (Some s)
                 else filter_loop_ids L metas logic fs (Some (id_set (ids @ matched))))"

text \<open>\<open>nil\<close> and the empty slice are the empty list.\<close>

definition meta_filter :: "text_lib \<Rightarrow> meta_data \<Rightarrow> meta_filter_input option \<Rightarrow> string list" where
  "meta_filter L metas input =
     (case input of
        None \<Rightarrow> []
      | Some inp \<Rightarrow>
          (if mi_Conditions inp = [] then []
           else filter_loop_ids L metas (if mi_Logic inp = [] then ''and'' else mi_Logic inp)
                  (mi_Conditions inp) None))"

section \<open>The service\<close>

record filter_condition =
  fl_Key :: string
  fl_Value :: gval
  fl_Op :: string

definition NoMatchDocIDSentinel :: string where
  "NoMatchDocIDSentinel = ''-999''"

definition convertToMetaCondition :: "filter_condition \<Rightarrow> meta_condition" where
  "convertToMetaCondition f =
     \<lparr>mc_Operator = convertOperator (fl_Op f), mc_Key = fl_Key f,
      mc_Value =
        (if fl_Op f = ''in'' \<or> fl_Op f = ''not in'' then
           let strVal = (case fl_Value f of VStr s \<Rightarrow> s | _ \<Rightarrow> [])
           in VList (map VStr (filter (\<lambda>t. t \<noteq> []) (map TrimSpace (split_on (CHR '','') strVal))))
         else fl_Value f)\<rparr>"

definition ApplyMetaFilter :: "text_lib \<Rightarrow> meta_data \<Rightarrow> filter_condition list \<Rightarrow> string \<Rightarrow> string list" where
  "ApplyMetaFilter L metaData filters logic =
     (if filters = [] then []
      else meta_filter L metaData
             (Some \<lparr>mi_Conditions = map convertToMetaCondition filters, mi_Logic = logic\<rparr>))"

definition MetadataConditionToDocIDs :: "text_lib \<Rightarrow> meta_data \<Rightarrow> gval gomap option \<Rightarrow> string" where
  "MetadataConditionToDocIDs L metaData metadataCondition =
     (case ParseAndConvert metadataCondition of
        None \<Rightarrow> []
      | Some input \<Rightarrow>
          let filtered = meta_filter L metaData (Some input)
          in if filtered = [] then ''-999'' else join_with (CHR '','') filtered)"

fun dedup_loop :: "string list \<Rightarrow> string list \<Rightarrow> string list" where
  "dedup_loop known [] = []"
| "dedup_loop known (x # xs) =
     (if x \<in> set known then dedup_loop known xs else x # dedup_loop (x # known) xs)"

definition Deduplicate :: "string list \<Rightarrow> string list" where
  "Deduplicate ids = dedup_loop [] ids"

fun constrain_loop :: "string list \<Rightarrow> string list \<Rightarrow> string list \<Rightarrow> string list" where
  "constrain_loop filtered known [] = []"
| "constrain_loop filtered known (d # ds) =
     (if d \<notin> set filtered then constrain_loop filtered known ds
      else if d \<in> set known then constrain_loop filtered known ds
      else d # constrain_loop filtered (d # known) ds)"

definition constrainDocIDs :: "string list \<Rightarrow> string list \<Rightarrow> string list" where
  "constrainDocIDs baseDocIDs filteredDocIDs =
     (let filtered = Deduplicate filteredDocIDs
      in if baseDocIDs = [] then filtered
         else if filtered = [] then []
         else constrain_loop filtered [] baseDocIDs)"

section \<open>Applying the configured filter\<close>

text \<open>
  \<open>GenMetaFilter\<close> asks the language model: \<open>llm\<close> maps the metadata and the constraints to generated
  conditions with their logic, or \<open>None\<close> on an error. \<open>pushdown\<close> is the search engine's
  \<open>FilterDocIdsByMetaPushdown\<close>, \<open>None\<close> where there is no engine; its result is \<open>None\<close> if the filter
  cannot be pushed down.
\<close>

record generated_filter =
  gf_Conditions :: "filter_condition list"
  gf_Logic :: string

type_synonym pushdown = "string list \<Rightarrow> filter_condition list \<Rightarrow> string \<Rightarrow> string list option"

definition runMetadataFilter ::
    "text_lib \<Rightarrow> pushdown option \<Rightarrow> string list \<Rightarrow> meta_data \<Rightarrow> filter_condition list \<Rightarrow> string \<Rightarrow> string list" where
  "runMetadataFilter L eng kbIDs metaData conditions logic =
     (case (if conditions \<noteq> [] \<and> kbIDs \<noteq> []
            then (case eng of None \<Rightarrow> None | Some push \<Rightarrow> push kbIDs conditions logic) else None) of
        Some ids \<Rightarrow> ids
      | None \<Rightarrow> ApplyMetaFilter L metaData conditions logic)"

definition generated_ids ::
    "text_lib \<Rightarrow> pushdown option \<Rightarrow> string list \<Rightarrow> meta_data \<Rightarrow> string list \<Rightarrow> generated_filter option \<Rightarrow>
     string list \<times> bool" where
  "generated_ids L eng kbIDs metaData baseDocIDs generated =
     (case generated of
        None \<Rightarrow> (baseDocIDs, False)
      | Some filters \<Rightarrow>
          let docIDs = constrainDocIDs baseDocIDs
                (runMetadataFilter L eng kbIDs metaData (gf_Conditions filters) (gf_Logic filters))
          in if docIDs = [] then ([], True) else (docIDs, False))"

fun selected_keys :: "gval list \<Rightarrow> string list" where
  "selected_keys [] = []"
| "selected_keys (item # items) =
     (case item of
        VStr v \<Rightarrow> v # selected_keys items
      | VMap v \<Rightarrow> (case mget v ''key'' of Some (VStr key) \<Rightarrow> key # selected_keys items | _ \<Rightarrow> selected_keys items)
      | _ \<Rightarrow> selected_keys items)"

fun key_constraints :: "string gomap \<Rightarrow> gval list \<Rightarrow> string gomap" where
  "key_constraints m [] = m"
| "key_constraints m (item # items) =
     (case item of
        VMap v \<Rightarrow>
          (case (mget v ''key'', mget v ''op'') of
             (Some (VStr key), Some (VStr op)) \<Rightarrow> key_constraints (mput key op m) items
           | _ \<Rightarrow> key_constraints m items)
      | _ \<Rightarrow> key_constraints m items)"

fun select_meta :: "meta_data \<Rightarrow> meta_data \<Rightarrow> string list \<Rightarrow> meta_data" where
  "select_meta metaData m [] = m"
| "select_meta metaData m (key # keys) =
     (case mget metaData key of
        None \<Rightarrow> select_meta metaData m keys
      | Some val \<Rightarrow> select_meta metaData (mput key val m) keys)"

fun manual_conditions :: "gval list \<Rightarrow> filter_condition list" where
  "manual_conditions [] = []"
| "manual_conditions (item # items) =
     (case item of
        VMap cond \<Rightarrow>
          \<lparr>fl_Key = str_field cond ''key'', fl_Value = mgetd VNil cond ''value'',
           fl_Op = str_field cond ''op''\<rparr> # manual_conditions items
      | _ \<Rightarrow> manual_conditions items)"

fun resolve_items :: "(gval gomap \<Rightarrow> gval gomap) \<Rightarrow> gval list \<Rightarrow> gval list" where
  "resolve_items resolver [] = []"
| "resolve_items resolver (item # items) =
     (case item of VMap cond \<Rightarrow> VMap (resolver cond) # resolve_items resolver items
      | _ \<Rightarrow> resolve_items resolver items)"

definition list_field :: "gval gomap \<Rightarrow> string \<Rightarrow> gval list" where
  "list_field m k = (case mget m k of Some (VList xs) \<Rightarrow> xs | _ \<Rightarrow> [])"

definition ApplyMetaDataFilter ::
    "text_lib \<Rightarrow> pushdown option \<Rightarrow> (meta_data \<Rightarrow> string gomap option \<Rightarrow> generated_filter option) \<Rightarrow>
     (gval gomap \<Rightarrow> gval gomap) option \<Rightarrow> gval gomap option \<Rightarrow> meta_data \<Rightarrow> string list \<Rightarrow> string list \<Rightarrow>
     string list \<times> bool" where
  "ApplyMetaDataFilter L eng llm resolver metaDataFilter metaData baseDocIDs kbIDs =
     (case metaDataFilter of
        None \<Rightarrow> (baseDocIDs, False)
      | Some conf \<Rightarrow>
          let filter_method = str_field conf ''method''
          in if filter_method = ''auto'' then
               generated_ids L eng kbIDs metaData baseDocIDs (llm metaData None)
             else if filter_method = ''semi_auto'' then
               let items = list_field conf ''semi_auto'';
                   filteredMeta = select_meta metaData [] (selected_keys items)
               in if filteredMeta \<noteq> []
                  then generated_ids L eng kbIDs metaData baseDocIDs
                         (llm filteredMeta (Some (key_constraints [] items)))
                  else (baseDocIDs, False)
             else if filter_method = ''manual'' then
               let manualFilters = list_field conf ''manual'';
                   logic = (case mget conf ''logic'' of Some (VStr l) \<Rightarrow> l | _ \<Rightarrow> ''and'')
               in if manualFilters = [] then (baseDocIDs, False)
                  else
                    let manualFilters = (case resolver of None \<Rightarrow> manualFilters
                          | Some r \<Rightarrow> resolve_items r manualFilters);
                        docIDs = constrainDocIDs baseDocIDs
                          (runMetadataFilter L eng kbIDs metaData (manual_conditions manualFilters) logic)
                    in if manualFilters \<noteq> [] \<and> docIDs = [] then ([NoMatchDocIDSentinel], False)
                       else (docIDs, False)
             else (baseDocIDs, False))"

text \<open>
  The step of \<open>chat_pipeline.go\<close> that calls it: the dialogue's filter, the identifiers of its knowledge
  bases, the last question and the metadata, \<open>None\<close> if it could not be loaded.
\<close>

definition chat_doc_ids ::
    "text_lib \<Rightarrow> pushdown option \<Rightarrow> (meta_data \<Rightarrow> string gomap option \<Rightarrow> generated_filter option) \<Rightarrow>
     gval gomap option \<Rightarrow> string list \<Rightarrow> string \<Rightarrow> meta_data option \<Rightarrow> string list \<Rightarrow> string list" where
  "chat_doc_ids L eng llm metaDataFilter kbs metaQ loaded docIDs =
     (if metaDataFilter \<noteq> None \<and> metaDataFilter \<noteq> Some [] \<and> kbs \<noteq> [] \<and> metaQ \<noteq> [] then
        case loaded of
          None \<Rightarrow> docIDs
        | Some flattedMeta \<Rightarrow>
            let (filtered, ok) =
                  ApplyMetaDataFilter L eng llm None metaDataFilter flattedMeta docIDs (filter (\<lambda>k. k \<noteq> []) kbs)
            in if ok then filtered else docIDs
      else docIDs)"

section \<open>Meaning of a filter\<close>

text \<open>The documents that one condition selects, and the sets a list of conditions means.\<close>

definition selects :: "text_lib \<Rightarrow> meta_condition \<Rightarrow> string \<Rightarrow> bool" where
  "selects L f input =
     (if mc_Operator f = ''in'' \<or> mc_Operator f = ''not in'' then
        case mc_Value f of
          VList items \<Rightarrow>
            (if mc_Operator f = ''in'' then input \<in> value_text L ` set items
             else tl_lower L input \<notin> (\<lambda>item. tl_lower L (value_text L item)) ` set items)
        | _ \<Rightarrow> False
      else matchValue L input (mc_Operator f) (mc_Value f))"

definition docs_of :: "text_lib \<Rightarrow> meta_value_docs \<Rightarrow> meta_condition \<Rightarrow> string set" where
  "docs_of L v2docs f = {d. \<exists>input docids. (input, docids) \<in> set v2docs \<and> selects L f input \<and> d \<in> set docids}"

definition condition_docs :: "text_lib \<Rightarrow> meta_data \<Rightarrow> meta_condition \<Rightarrow> string set" where
  "condition_docs L metas f =
     (case mget metas (mc_Key f) of None \<Rightarrow> {} | Some v2docs \<Rightarrow> docs_of L v2docs f)"

lemma set_id_set [simp]: "set (id_set ids) = set ids"
  by (simp add: id_set_def)

lemma distinct_id_set [simp]: "distinct (id_set ids)"
  by (simp add: id_set_def)

lemma filterOut_docs: "set (filterOut L v2docs (mc_Operator f) (mc_Value f)) = docs_of L v2docs f"
proof (cases "mc_Operator f = ''in'' \<or> mc_Operator f = ''not in''")
  case True
  then show ?thesis
    by (cases "mc_Value f") (fastforce simp: filterOut_def filterSet_def docs_of_def selects_def)+
next
  case False
  then show ?thesis by (fastforce simp: filterOut_def docs_of_def selects_def)
qed

lemma id_set_Nil [simp]: "id_set ids = [] \<longleftrightarrow> ids = []"
  by (simp add: id_set_def)

lemma filter_and_some:
  "set (filter_loop_ids L metas ''and'' fs (Some ids)) =
   set ids \<inter> (\<Inter>f \<in> set fs. condition_docs L metas f)"
proof (induction fs arbitrary: ids)
  case (Cons f fs)
  show ?case
  proof (cases "mget metas (mc_Key f)")
    case None
    then show ?thesis by (simp add: condition_docs_def)
  next
    case (Some v2docs)
    let ?s = "filter (\<lambda>id. id \<in> set ids) (filterOut L v2docs (mc_Operator f) (mc_Value f))"
    have s: "set ?s = set ids \<inter> condition_docs L metas f"
      by (auto simp: filterOut_docs condition_docs_def Some)
    show ?thesis
    proof (cases "?s = []")
      case True
      then have "set ids \<inter> condition_docs L metas f = {}" using s by simp
      with True Some show ?thesis by (auto simp: Let_def)
    next
      case False
      then have "set (filter_loop_ids L metas ''and'' (f # fs) (Some ids)) =
          set ?s \<inter> (\<Inter>f \<in> set fs. condition_docs L metas f)"
        using Cons.IH [of "id_set ?s"] Some by (simp add: Let_def)
      with s show ?thesis by (simp add: Int_assoc)
    qed
  qed
qed simp

lemma filter_and:
  "fs \<noteq> [] \<Longrightarrow> set (filter_loop_ids L metas ''and'' fs None) = (\<Inter>f \<in> set fs. condition_docs L metas f)"
  by (cases fs) (auto simp: filter_and_some condition_docs_def filterOut_docs Let_def split: option.splits)

lemma filter_or:
  assumes "logic \<noteq> ''and''"
  shows "set (filter_loop_ids L metas logic fs docIDs) =
    (case docIDs of None \<Rightarrow> {} | Some ids \<Rightarrow> set ids) \<union> (\<Union>f \<in> set fs. condition_docs L metas f)"
  using assms
proof (induction fs arbitrary: docIDs)
  case (Cons f fs)
  then show ?case
    by (auto simp: condition_docs_def filterOut_docs Let_def split: option.splits)
qed (auto split: option.splits)

lemma filter_distinct:
  "(case docIDs of None \<Rightarrow> True | Some ids \<Rightarrow> distinct ids) \<Longrightarrow>
   distinct (filter_loop_ids L metas logic fs docIDs)"
  by (induction L metas logic fs docIDs rule: filter_loop_ids.induct) (auto simp: Let_def split: option.splits)

text \<open>
  C21: A metadata filter means what its logic says: with \<open>and\<close> (also the default) it returns the
  documents that every condition selects, with any other logic those that some condition selects,
  each once; a condition on a key that no document has selects none.
\<close>

theorem meta_filter_meaning:
  assumes "mi_Conditions inp \<noteq> []"
  shows "distinct (meta_filter L metas (Some inp)) \<and>
    set (meta_filter L metas (Some inp)) =
      (if mi_Logic inp \<in> {[], ''and''} then \<Inter>f \<in> set (mi_Conditions inp). condition_docs L metas f
       else \<Union>f \<in> set (mi_Conditions inp). condition_docs L metas f)"
  using assms filter_and [OF assms] filter_or
  by (auto simp: meta_filter_def filter_distinct)

theorem meta_filter_meaning_witness:
  "set (meta_filter \<lparr>tl_lower = id, tl_parseFloat = \<lambda>_. None, tl_formatFloat = \<lambda>_. []\<rparr>
      [(''k'', [(''a'', [''d'', ''e'']), (''b'', [''f''])])]
      (Some \<lparr>mi_Conditions = [\<lparr>mc_Operator = ''='', mc_Key = ''k'', mc_Value = VStr ''a''\<rparr>,
        \<lparr>mc_Operator = ''empty'', mc_Key = ''z'', mc_Value = VNil\<rparr>], mi_Logic = ''or''\<rparr>)) = {''d'', ''e''}"
  by (subst conjunct2 [OF meta_filter_meaning])
    (auto simp: condition_docs_def docs_of_def selects_def matchValue_def compareValues_def isDate_def
      compareString_def value_text_def mget_def)

section \<open>Results of the configured filter\<close>

lemma dedup_loop_set: "set (dedup_loop known xs) = set xs - set known"
  by (induction known xs rule: dedup_loop.induct) auto

lemma dedup_loop_distinct: "distinct (dedup_loop known xs)"
  by (induction known xs rule: dedup_loop.induct) (auto simp: dedup_loop_set)

lemma Deduplicate_spec [simp]: "set (Deduplicate ids) = set ids" "distinct (Deduplicate ids)"
  by (simp_all add: Deduplicate_def dedup_loop_set dedup_loop_distinct)

lemma Deduplicate_Nil [simp]: "Deduplicate ids = [] \<longleftrightarrow> ids = []"
  by (metis Deduplicate_spec(1) set_empty)

lemma constrain_loop_eq:
  "constrain_loop filtered known ds = dedup_loop known (filter (\<lambda>d. d \<in> set filtered) ds)"
  by (induction filtered known ds rule: constrain_loop.induct) auto

text \<open>The documents asked for, in their order, as far as the filter admits them.\<close>

lemma constrainDocIDs_base:
  "base \<noteq> [] \<Longrightarrow> constrainDocIDs base ids = Deduplicate (filter (\<lambda>d. d \<in> set ids) base)"
  by (cases "ids = []") (simp_all add: constrainDocIDs_def constrain_loop_eq Let_def
      Deduplicate_def [of "[]"] Deduplicate_def [of "filter p base" for p])

lemma constrainDocIDs_all: "constrainDocIDs [] ids = Deduplicate ids"
  by (simp add: constrainDocIDs_def)

lemma constrainDocIDs_subset: "base \<noteq> [] \<Longrightarrow> set (constrainDocIDs base ids) \<subseteq> set base"
  by (auto simp: constrainDocIDs_base)

lemma generated_ids_base:
  assumes "base \<noteq> []"
  shows "set (fst (generated_ids L eng kbIDs metas base g)) \<subseteq> set base"
  using constrainDocIDs_subset [OF assms]
  by (auto simp: generated_ids_def Let_def split: option.splits)

lemma generated_ids_flag:
  "snd (generated_ids L eng kbIDs metas base g) \<Longrightarrow> fst (generated_ids L eng kbIDs metas base g) = []"
  by (auto simp: generated_ids_def Let_def split: option.splits if_splits)

lemma filter_flag_empty:
  "snd (ApplyMetaDataFilter L eng llm res conf metas base kbIDs) \<Longrightarrow>
   fst (ApplyMetaDataFilter L eng llm res conf metas base kbIDs) = []"
  by (auto simp: ApplyMetaDataFilter_def Let_def generated_ids_flag split: option.splits if_splits)

text \<open>
  C22: A metadata filter only narrows a request for certain documents: whatever the method, the
  generated conditions and the search engine's answer, every returned document was asked for, or
  the answer is the sentinel that matches no document.
\<close>

theorem metadata_filter_restricts:
  assumes "base \<noteq> []"
  shows "set (fst (ApplyMetaDataFilter L eng llm res conf metas base kbIDs)) \<subseteq> set base \<or>
    ApplyMetaDataFilter L eng llm res conf metas base kbIDs = ([NoMatchDocIDSentinel], False)"
  using generated_ids_base [OF assms] constrainDocIDs_subset [OF assms]
  by (simp add: ApplyMetaDataFilter_def Let_def split: option.split)

theorem metadata_filter_restricts_witness:
  "set (fst (ApplyMetaDataFilter \<lparr>tl_lower = id, tl_parseFloat = \<lambda>_. None, tl_formatFloat = \<lambda>_. []\<rparr> None (\<lambda>_ _. Some \<lparr>gf_Conditions = [], gf_Logic = ''or''\<rparr>) None
      (Some [(''method'', VStr ''auto'')]) [] [''d''] [])) \<subseteq> {''d''} \<or>
    ApplyMetaDataFilter \<lparr>tl_lower = id, tl_parseFloat = \<lambda>_. None, tl_formatFloat = \<lambda>_. []\<rparr> None (\<lambda>_ _. Some \<lparr>gf_Conditions = [], gf_Logic = ''or''\<rparr>) None
      (Some [(''method'', VStr ''auto'')]) [] [''d''] [] = ([NoMatchDocIDSentinel], False)"
  using metadata_filter_restricts [of "[''d'']" "\<lparr>tl_lower = id, tl_parseFloat = \<lambda>_. None, tl_formatFloat = \<lambda>_. []\<rparr>" None "\<lambda>_ _. Some \<lparr>gf_Conditions = [], gf_Logic = ''or''\<rparr>"
      None "Some [(''method'', VStr ''auto'')]" "[]" "[]"] by simp

text \<open>
  C23: In a chat the configured filter never narrows the search: the caller takes the second result
  for success, but it says that a generated filter matched nothing, so the documents stay those
  asked for or become the empty list, with which the search is not restricted at all.
\<close>

theorem chat_filter_never_narrows:
  "chat_doc_ids L eng llm conf kbs q loaded base \<in> {base, []}"
  by (auto simp: chat_doc_ids_def Let_def split_beta filter_flag_empty split: option.split)

section \<open>List values\<close>

text \<open>A list of values for \<open>in\<close> is not kept: the condition selects nothing, its negation everything.\<close>

lemma list_value_is_dropped:
  "mc_Value (convertToMetaCondition \<lparr>fl_Key = k, fl_Value = VList vs, fl_Op = ''not in''\<rparr>) = VList []"
  "selects L (convertToMetaCondition \<lparr>fl_Key = k, fl_Value = VList vs, fl_Op = ''not in''\<rparr>) input"
  "\<not> selects L (convertToMetaCondition \<lparr>fl_Key = k, fl_Value = VList vs, fl_Op = ''in''\<rparr>) input"
  by (simp_all add: convertToMetaCondition_def selects_def convertOperator_def operatorMapping_def
      mgetd_def mget_def split_on.simps)

text \<open>A text of several values, which the service would split, selects nothing here.\<close>

lemma text_value_selects_nothing:
  "ParseAndConvert (Some m) = Some inp \<Longrightarrow> f \<in> set (mi_Conditions inp) \<Longrightarrow>
   mc_Operator f \<in> {''in'', ''not in''} \<Longrightarrow> mc_Value f = VStr s \<Longrightarrow> condition_docs L metas f = {}"
  by (auto simp: condition_docs_def docs_of_def selects_def split: option.splits)

end
