(* ===== verification/Rerank.thy ===== *)
theory Rerank
  imports GoStrings "HOL-Library.Char_ord" "HOL-Library.List_Lexorder"
begin

text \<open>
  Scoring of retrieved chunks: \<open>service/nlp/reranker.go\<close> and \<open>PairwiseSum\<close> of \<open>common/number.go\<close>. A
  chunk is a map of dynamic values. The query builder's keywords and term weights, the reranking model
  and the decoding of a JSON object are arguments. A type assertion that panics makes the result None.
  Products and sums are rounded one by one, as on amd64.
\<close>

type_synonym chunk = "gval gomap"
type_synonym scores = "f64 list \<times> f64 list \<times> f64 list"

record query_builder =
  qb_keywords :: "string \<Rightarrow> string list"
  qb_termWeight :: "(string list \<Rightarrow> (string \<times> f64) list) option"

abbreviation f0 :: f64 where "f0 \<equiv> Fin 0 0"
abbreviation f1 :: f64 where "f1 \<equiv> Fin 1 0"

definition f64_minus :: "f64 \<Rightarrow> f64 \<Rightarrow> f64" where
  "f64_minus x y = f64_add x (case y of NaN \<Rightarrow> NaN | Inf b \<Rightarrow> Inf (\<not> b) | Fin m e \<Rightarrow> Fin (- m) e)"

definition f64_max :: "f64 \<Rightarrow> f64 \<Rightarrow> f64" where
  "f64_max x y =
     (if x = Inf False \<or> y = Inf False then Inf False
      else if x = NaN \<or> y = NaN then NaN
      else if f64_less y x then x else y)"

section \<open>Sums\<close>

definition naive_sum :: "f64 \<Rightarrow> f64 list \<Rightarrow> f64" where
  "naive_sum s xs = foldl f64_add s xs"

fun pair_level :: "f64 list \<Rightarrow> f64 list" where
  "pair_level (x # y # xs) = f64_add x y # pair_level xs"
| "pair_level xs = xs"

lemma length_pair_level: "length (pair_level xs) = (length xs + 1) div 2"
  by (induction xs rule: pair_level.induct) auto

function pair_levels :: "f64 list \<Rightarrow> f64" where
  "pair_levels xs = (if length xs \<le> 1 then hd xs else pair_levels (pair_level xs))"
  by pat_completeness auto
termination by (relation "measure length") (auto simp: length_pair_level)

declare pair_levels.simps [simp del]

definition PairwiseSum :: "f64 list \<Rightarrow> f64" where
  "PairwiseSum xs =
     (if xs = [] then f0 else if length xs < 16 then naive_sum f0 xs else pair_levels xs)"

section \<open>Fields of a chunk\<close>

fun itoa :: "nat \<Rightarrow> string" where
  "itoa n = (if n < 10 then [char_of (48 + n)] else itoa (n div 10) @ [char_of (48 + n mod 10)])"

declare itoa.simps [simp del]

definition vectorColumn :: "nat \<Rightarrow> string" where
  "vectorColumn dim = ''q_'' @ itoa dim @ ''_vec''"

fun floats_of :: "gval list \<Rightarrow> f64 list option" where
  "floats_of [] = Some []"
| "floats_of (v # vs) =
     (case v of VFloat x \<Rightarrow> map_option ((#) x) (floats_of vs) | _ \<Rightarrow> None)"

definition extractVector :: "chunk \<Rightarrow> string \<Rightarrow> f64 list \<Rightarrow> f64 list option" where
  "extractVector flds column zeroVector =
     (case mget flds column of
        Some (VFloats vec) \<Rightarrow> Some vec
      | Some (VList vs) \<Rightarrow> floats_of vs
      | _ \<Rightarrow> Some zeroVector)"

definition text_tokens :: "chunk \<Rightarrow> string \<Rightarrow> string list" where
  "text_tokens flds k = (case mget flds k of Some (VStr v) \<Rightarrow> Fields v | _ \<Rightarrow> [])"

fun first_seen :: "string list \<Rightarrow> string list \<Rightarrow> string list" where
  "first_seen known [] = []"
| "first_seen known (t # ts) =
     (if t \<in> set known then first_seen known ts else t # first_seen (t # known) ts)"

definition extractContentTokens :: "chunk \<Rightarrow> string \<Rightarrow> string list" where
  "extractContentTokens flds cfield = first_seen [] (text_tokens flds cfield)"

definition extractTitleTokens :: "chunk \<Rightarrow> string list" where
  "extractTitleTokens flds = filter (\<lambda>t. t \<noteq> []) (text_tokens flds ''title_tks'')"

definition extractQuestionTokens :: "chunk \<Rightarrow> string list" where
  "extractQuestionTokens flds = filter (\<lambda>t. t \<noteq> []) (text_tokens flds ''question_tks'')"

definition extractImportantKeywords :: "chunk \<Rightarrow> string list" where
  "extractImportantKeywords flds =
     (case mget flds ''important_kwd'' of
        Some (VStr s) \<Rightarrow> [s]
      | Some (VStrs ss) \<Rightarrow> ss
      | Some (VList vs) \<Rightarrow> somes (map (\<lambda>v. case v of VStr s \<Rightarrow> Some s | _ \<Rightarrow> None) vs)
      | _ \<Rightarrow> [])"

definition weighted_tokens :: "chunk \<Rightarrow> string \<Rightarrow> string list" where
  "weighted_tokens c cfield =
     extractContentTokens c cfield @ concat (replicate 2 (extractTitleTokens c)) @
     concat (replicate 5 (extractImportantKeywords c)) @ concat (replicate 6 (extractQuestionTokens c))"

section \<open>Redundant spaces\<close>

text \<open>The runes of a text; a byte that starts none stands for itself, as for a regular expression.\<close>

function rune_units :: "string \<Rightarrow> string list" where
  "rune_units [] = []"
| "rune_units (c # s) =
     (let n = max 1 (rune_len (c # s)) in take n (c # s) # rune_units (drop n (c # s)))"
  by pat_completeness auto
termination by (relation "measure length") auto

definition re_space :: "string \<Rightarrow> bool" where
  "re_space r = (r \<in> {[CHR 0x0A], [CHR 0x09], [CHR 0x0C], [CHR 0x0D], '' ''})"

definition re_word :: "string \<Rightarrow> bool" where
  "re_word r =
     (re_space r \<or> length r = 1 \<and> (byte_in 97 122 (hd r) \<or> byte_in 48 57 (hd r) \<or> r = ''.'' \<or> r = '',''))"

text \<open>
  \<open>ReplaceAllString(s, "$1$2")\<close> for the pattern \<open>(left) +(right)\<close>: matches do not overlap, so the rune
  behind the spaces cannot start the next match.
\<close>

function squeeze :: "(string \<Rightarrow> bool) \<Rightarrow> (string \<Rightarrow> bool) \<Rightarrow> string list \<Rightarrow> string list" where
  "squeeze left right [] = []"
| "squeeze left right (r # rs) =
     (let rest = dropWhile (\<lambda>x. x = '' '') rs
      in if left r \<and> rs \<noteq> [] \<and> hd rs = '' '' \<and> rest \<noteq> [] \<and> right (hd rest)
         then r # hd rest # squeeze left right (tl rest)
         else r # squeeze left right rs)"
  by pat_completeness auto
termination
proof (relation "measure (\<lambda>(_, _, rs). length rs)", goal_cases)
  case (2 left right r rs rest)
  have "length rest \<le> length rs" using 2(1) by (simp add: length_dropWhile_le)
  then show ?case by (cases rest) auto
qed auto

definition RemoveRedundantSpaces :: "string \<Rightarrow> string" where
  "RemoveRedundantSpaces s =
     (let once = concat (squeeze (\<lambda>r. \<not> (re_word r \<or> r = '')'' \<or> r = ''>'')) (\<lambda>r. \<not> re_space r) (rune_units s))
      in concat (squeeze (\<lambda>r. \<not> re_space r) (\<lambda>r. \<not> (re_word r \<or> r = ''('')) (rune_units once)))"

section \<open>Similarity of tokens\<close>

definition four_tenths :: f64 where "four_tenths = Fin 3602879701896397 (- 53)"
definition six_tenths :: f64 where "six_tenths = Fin 5404319552844595 (- 53)"
definition tiny :: f64 where "tiny = Fin 4835703278458517 (- 82)"

text \<open>The weights of terms and of pairs of neighbours, with the keys in the order of their first use.\<close>

definition dict_add :: "string \<Rightarrow> f64 \<Rightarrow> f64 gomap \<times> string list \<Rightarrow> f64 gomap \<times> string list" where
  "dict_add k w = (\<lambda>(d, keyOrder).
     (mput k (f64_add (mgetd f0 d k) w) d, if mhas d k then keyOrder else keyOrder @ [k]))"

fun dict_loop :: "(string \<times> f64) list \<Rightarrow> f64 gomap \<times> string list \<Rightarrow> f64 gomap \<times> string list" where
  "dict_loop [] s = s"
| "dict_loop ((t, c) # wts) s =
     (let s = dict_add t (f64_mul c four_tenths) s
      in dict_loop wts
           (case wts of [] \<Rightarrow> s
            | (t', c') # _ \<Rightarrow> dict_add (t @ t') (f64_mul (f64_max c c') six_tenths) s))"

definition tokensToDict :: "string list \<Rightarrow> query_builder option \<Rightarrow> f64 gomap \<times> string list" where
  "tokensToDict tks qb =
     (case qb of
        None \<Rightarrow> ([], [])
      | Some q \<Rightarrow>
          (case qb_termWeight q of None \<Rightarrow> ([], []) | Some weights \<Rightarrow> dict_loop (weights tks) ([], [])))"

definition tokenDictSimilarity :: "f64 gomap \<Rightarrow> f64 gomap \<Rightarrow> string list \<Rightarrow> f64" where
  "tokenDictSimilarity qtwt dtwt qKeyOrder =
     (if qtwt = [] \<or> dtwt = [] then f0
      else
        let keys = (if qKeyOrder = [] then sort (mkeys qtwt) else qKeyOrder);
            s = naive_sum tiny (map (mgetd f0 qtwt) (filter (mhas dtwt) keys));
            q = naive_sum tiny (map (mgetd f0 qtwt) keys)
        in f64_div s q)"

definition TokenSimilarity :: "string list \<Rightarrow> string list list \<Rightarrow> query_builder option \<Rightarrow> f64 list" where
  "TokenSimilarity atks btkss qb =
     (let (atksDict, atksKeyOrder) = tokensToDict atks qb
      in map (\<lambda>btks. tokenDictSimilarity atksDict (fst (tokensToDict btks qb)) atksKeyOrder) btkss)"

section \<open>Similarity of vectors\<close>

definition cosineSimilarity_nlp :: "f64 list \<Rightarrow> f64 list \<Rightarrow> f64" where
  "cosineSimilarity_nlp a b =
     (if length a \<noteq> length b then f0
      else
        let dot = PairwiseSum (map2 f64_mul a b);
            normA = PairwiseSum (map2 f64_mul a a);
            normB = PairwiseSum (map2 f64_mul b b)
        in if f64_eq normA f0 \<or> f64_eq normB f0 then f0
           else f64_div dot (f64_mul (f64_sqrt normA) (f64_sqrt normB)))"

definition combine :: "f64 \<Rightarrow> f64 \<Rightarrow> f64 list \<Rightarrow> f64 list \<Rightarrow> f64 list" where
  "combine tkWeight vtWeight tsim vsim =
     map2 (\<lambda>t v. f64_add (f64_mul tkWeight t) (f64_mul vtWeight v)) tsim vsim"

definition no_vectors :: "f64 list \<Rightarrow> bool" where
  "no_vectors vsim = list_all (\<lambda>s. f64_eq s f0) vsim"

definition HybridSimilarity ::
    "f64 list \<Rightarrow> f64 list list \<Rightarrow> string list \<Rightarrow> string list list \<Rightarrow> f64 \<Rightarrow> f64 \<Rightarrow> query_builder option \<Rightarrow> scores" where
  "HybridSimilarity avec bvecs atks btkss tkWeight vtWeight qb =
     (let vsim = map (cosineSimilarity_nlp avec) bvecs;
          tsim = TokenSimilarity atks btkss qb
      in if no_vectors vsim then (tsim, tsim, vsim)
         else (combine tkWeight vtWeight tsim vsim, tsim, vsim))"

section \<open>Rank features\<close>

definition PAGERANK_FLD :: string where "PAGERANK_FLD = ''pagerank_fea''"
definition TAG_FLD :: string where "TAG_FLD = ''tag_feas''"

definition toFloat64 :: "gval \<Rightarrow> f64 option" where
  "toFloat64 v =
     (case v of
        VFloat x \<Rightarrow> Some x
      | VInt i \<Rightarrow> Some (f64_of_int (sint i))
      | VNum k i \<Rightarrow> (if k \<in> {KFloat32, KInt64, KInt32} then Some (f64_of_int i) else None)
      | _ \<Rightarrow> None)"

text \<open>\<open>unjson\<close> decodes a text to a map of dynamic values; None is an error.\<close>

definition parseTagFeasRerank :: "(string \<Rightarrow> gval gomap option) \<Rightarrow> string \<Rightarrow> f64 gomap" where
  "parseTagFeasRerank unjson tagFeasStr =
     (if tagFeasStr = [] \<or> tagFeasStr = ''{}'' then []
      else case unjson tagFeasStr of
        None \<Rightarrow> []
      | Some m \<Rightarrow> somes (map (\<lambda>(k, v). map_option (Pair k) (toFloat64 v)) m))"

definition pagerank :: "chunk option \<Rightarrow> f64" where
  "pagerank c =
     (case Option.bind c (\<lambda>m. Option.bind (mget m PAGERANK_FLD) toFloat64) of None \<Rightarrow> f0 | Some f \<Rightarrow> f)"

definition query_denor :: "f64 gomap \<Rightarrow> f64" where
  "query_denor rankFeature =
     f64_sqrt (PairwiseSum (map (\<lambda>t. f64_mul (mgetd f0 rankFeature t) (mgetd f0 rankFeature t))
       (filter (\<lambda>t. t \<noteq> PAGERANK_FLD) (sort (mkeys rankFeature)))))"

definition tag_score :: "(string \<Rightarrow> gval gomap option) \<Rightarrow> f64 gomap \<Rightarrow> f64 \<Rightarrow> chunk option \<Rightarrow> f64" where
  "tag_score unjson rankFeature qDenor c =
     (case Option.bind c (\<lambda>m. mget m TAG_FLD) of
        Some (VStr tagFeaStr) \<Rightarrow>
          (if tagFeaStr = [] then f0
           else
             let tagFeaMap = parseTagFeasRerank unjson tagFeaStr;
                 keys = sort (mkeys tagFeaMap);
                 nor = naive_sum f0 (map (\<lambda>t. f64_mul (mgetd f0 rankFeature t) (mgetd f0 tagFeaMap t))
                   (filter (mhas rankFeature) keys));
                 denor = naive_sum f0 (map (\<lambda>t. f64_mul (mgetd f0 tagFeaMap t) (mgetd f0 tagFeaMap t)) keys)
             in if f64_eq denor f0 then f0 else f64_div (f64_div nor (f64_sqrt denor)) qDenor)
      | _ \<Rightarrow> f0)"

text \<open>The common body of the two functions; there are never more similarities than chunks.\<close>

definition add_features ::
    "(string \<Rightarrow> gval gomap option) \<Rightarrow> chunk option list \<Rightarrow> f64 list \<Rightarrow> f64 gomap \<Rightarrow> f64 list" where
  "add_features unjson cs sim rankFeature =
     (if cs = [] \<or> sim = [] then sim
      else if rankFeature = [] then map2 f64_add sim (map pagerank cs)
      else
        let qDenor = query_denor rankFeature
        in if f64_eq qDenor f0 then map2 f64_add sim (map pagerank cs)
           else map2 (\<lambda>s c. f64_add s (f64_add (f64_mul (tag_score unjson rankFeature qDenor c) (Fin 5 1)) (pagerank c)))
                  sim cs)"

definition applyRankFeatureScores ::
    "(string \<Rightarrow> gval gomap option) \<Rightarrow> chunk list \<Rightarrow> f64 list \<Rightarrow> f64 gomap \<Rightarrow> f64 list" where
  "applyRankFeatureScores unjson chunks sim rankFeature = add_features unjson (map Some chunks) sim rankFeature"

definition applyRankFeatureScoresForIDs ::
    "(string \<Rightarrow> gval gomap option) \<Rightarrow> string list \<Rightarrow> chunk gomap \<Rightarrow> f64 list \<Rightarrow> f64 gomap \<Rightarrow> f64 list" where
  "applyRankFeatureScoresForIDs unjson ids field sim rankFeature =
     add_features unjson (map (mget field) ids) sim rankFeature"

section \<open>Reranking\<close>

definition one_thousandth :: f64 where "one_thousandth = Fin 1152921504606847 (- 60)"

definition fmin :: "f64 \<Rightarrow> f64 \<Rightarrow> f64" where "fmin m s = (if f64_less s m then s else m)"
definition fmax :: "f64 \<Rightarrow> f64 \<Rightarrow> f64" where "fmax m s = (if f64_less m s then s else m)"

definition f64_ge :: "f64 \<Rightarrow> f64 \<Rightarrow> bool" where
  "f64_ge x y = (f64_less y x \<or> f64_eq x y)"

definition clamp :: "f64 \<Rightarrow> f64" where
  "clamp s = (if f64_less s f0 then f0 else if f64_less f1 s then f1 else s)"

definition NormalizeRerankScores :: "f64 list \<Rightarrow> f64 list" where
  "NormalizeRerankScores scores =
     (case scores of
        [] \<Rightarrow> scores
      | s0 # rest \<Rightarrow>
          let minScore = foldl fmin s0 rest; maxScore = foldl fmax s0 rest
          in if f64_ge minScore f0 \<and> f64_ge f1 maxScore then scores
             else
               let span = f64_minus maxScore minScore
               in if f64_less span one_thousandth then map clamp scores
                  else let invSpan = f64_div f1 span
                       in map (\<lambda>s. f64_mul (f64_minus s minScore) invSpan) scores)"

text \<open>The reranking model maps a query and documents to indexes with scores, or fails.\<close>

type_synonym rerank_model = "string \<Rightarrow> string list \<Rightarrow> (int \<times> f64) list option"

fun place_scores :: "(int \<times> f64) list \<Rightarrow> f64 list \<Rightarrow> f64 list" where
  "place_scores [] modelSim = modelSim"
| "place_scores ((i, x) # data) modelSim =
     place_scores data (if 0 \<le> i \<and> i < int (length modelSim) then modelSim[nat i := x] else modelSim)"

fun model_chunks :: "chunk list \<Rightarrow> chunk gomap \<Rightarrow> nat \<Rightarrow> string list \<Rightarrow> chunk list" where
  "model_chunks chunks field i [] = []"
| "model_chunks chunks field i (chunkID # ids) =
     (case mget field chunkID of
        Some c \<Rightarrow> c # model_chunks chunks field (Suc i) ids
      | None \<Rightarrow>
          (if i < length chunks then chunks ! i # model_chunks chunks field (Suc i) ids
           else model_chunks chunks field (Suc i) ids))"

definition query_keywords :: "query_builder option \<Rightarrow> string \<Rightarrow> string list" where
  "query_keywords qb query = (case qb of None \<Rightarrow> [] | Some q \<Rightarrow> qb_keywords q query)"

definition RerankByModel ::
    "(string \<Rightarrow> gval gomap option) \<Rightarrow> rerank_model \<Rightarrow> chunk list \<Rightarrow> string list \<Rightarrow> chunk gomap \<Rightarrow> string \<Rightarrow>
     f64 \<Rightarrow> f64 \<Rightarrow> string \<Rightarrow> query_builder option \<Rightarrow> f64 gomap \<Rightarrow> scores" where
  "RerankByModel unjson model chunks ids field query tkWeight vtWeight cfield qb rankFeature =
     (if chunks = [] then ([], [], [])
      else
        let insTw = map (\<lambda>c. extractContentTokens c cfield @ extractTitleTokens c @ extractImportantKeywords c)
                      (model_chunks chunks field 0 ids);
            docs = map (\<lambda>tks. RemoveRedundantSpaces (join_with (CHR '' '') tks)) insTw;
            tsim = TokenSimilarity (query_keywords qb query) insTw qb;
            data = (case model query docs of None \<Rightarrow> [] | Some data \<Rightarrow> data);
            modelSim = NormalizeRerankScores (place_scores data (replicate (length insTw) f0));
            sim = combine tkWeight vtWeight tsim modelSim
        in (applyRankFeatureScoresForIDs unjson ids field sim rankFeature, tsim, modelSim))"

definition all_vectors :: "chunk list \<Rightarrow> string \<Rightarrow> f64 list \<Rightarrow> f64 list list option" where
  "all_vectors chunks column zeroVector =
     (let vs = map (\<lambda>c. extractVector c column zeroVector) chunks
      in if None \<in> set vs then None else Some (map the vs))"

text \<open>
  If every vector similarity is zero, the similarities and the token similarities are one slice, so the
  features are added to both.
\<close>

definition RerankStandard ::
    "(string \<Rightarrow> gval gomap option) \<Rightarrow> chunk list \<Rightarrow> string list \<Rightarrow> f64 list \<Rightarrow> string \<Rightarrow>
     f64 \<Rightarrow> f64 \<Rightarrow> string \<Rightarrow> query_builder option \<Rightarrow> f64 gomap \<Rightarrow> scores option" where
  "RerankStandard unjson chunks keywords questionVector query tkWeight vtWeight cfield qb rankFeature =
     (if chunks = [] then Some ([], [], [])
      else
        let keywords = (if keywords = [] then query_keywords qb query else keywords);
            n = length questionVector
        in case all_vectors chunks (vectorColumn n) (replicate n f0) of
             None \<Rightarrow> None
           | Some insEmbd \<Rightarrow>
               let insTw = map (\<lambda>c. weighted_tokens c cfield) chunks;
                   (sim, tsim, vsim) = HybridSimilarity questionVector insEmbd keywords insTw tkWeight vtWeight qb;
                   ranked = applyRankFeatureScores unjson chunks sim rankFeature
               in Some (ranked, if no_vectors vsim then ranked else tsim, vsim))"

definition score_fields :: "string list" where
  "score_fields =
     [''SCORE'', ''score'', ''SIMILARITY'', ''similarity'', ''_score'', ''score()'', ''similarity()'']"

fun first_score :: "chunk \<Rightarrow> string list \<Rightarrow> f64 \<Rightarrow> f64" where
  "first_score c [] z = z"
| "first_score c (k # ks) z = (case mget c k of Some (VFloat x) \<Rightarrow> x | _ \<Rightarrow> first_score c ks z)"

definition RerankInfinityFallback :: "chunk list \<Rightarrow> scores" where
  "RerankInfinityFallback chunks =
     (let sim = map (\<lambda>c. first_score c score_fields f1) chunks in (sim, sim, sim))"

definition Rerank ::
    "(string \<Rightarrow> gval gomap option) \<Rightarrow> rerank_model option \<Rightarrow> chunk list \<Rightarrow> int \<Rightarrow> string list \<Rightarrow>
     f64 list \<Rightarrow> string \<Rightarrow> f64 \<Rightarrow> f64 \<Rightarrow> bool \<Rightarrow> string \<Rightarrow> query_builder option \<Rightarrow> f64 gomap \<Rightarrow> scores option" where
  "Rerank unjson model chunks found keywords questionVector query tkWeight vtWeight useInfinity cfield qb
     rankFeature =
     (case model of
        Some rm \<Rightarrow>
          (if 0 < found then
             Some (RerankByModel unjson rm chunks [] [] query tkWeight vtWeight cfield qb rankFeature)
           else if useInfinity then
             Some (if found = 0 \<or> chunks = [] then ([], [], []) else RerankInfinityFallback chunks)
           else RerankStandard unjson chunks keywords questionVector query tkWeight vtWeight cfield qb rankFeature)
      | None \<Rightarrow>
          (if useInfinity then
             Some (if found = 0 \<or> chunks = [] then ([], [], []) else RerankInfinityFallback chunks)
           else RerankStandard unjson chunks keywords questionVector query tkWeight vtWeight cfield qb rankFeature))"

text \<open>A text in \<open>important_kwd\<close> becomes a list of one text, in the map of fields itself.\<close>

fun wrap_keywords :: "string list \<Rightarrow> chunk gomap \<Rightarrow> chunk gomap" where
  "wrap_keywords [] field = field"
| "wrap_keywords (chunkID # ids) field =
     wrap_keywords ids
       (case mget field chunkID of
          None \<Rightarrow> field
        | Some c \<Rightarrow>
            (case mget c ''important_kwd'' of
               Some (VStr s) \<Rightarrow> mput chunkID (mput ''important_kwd'' (VStrs [s]) c) field
             | _ \<Rightarrow> field))"

fun knn_tokens :: "chunk list \<Rightarrow> chunk gomap \<Rightarrow> string \<Rightarrow> nat \<Rightarrow> string list \<Rightarrow> string list list" where
  "knn_tokens chunks field cfield i [] = []"
| "knn_tokens chunks field cfield i (chunkID # ids) =
     (case mget field chunkID of
        Some c \<Rightarrow> weighted_tokens c cfield
      | None \<Rightarrow> (if i < length chunks then weighted_tokens (chunks ! i) cfield else []))
     # knn_tokens chunks field cfield (Suc i) ids"

definition RerankWithKNN ::
    "(string \<Rightarrow> gval gomap option) \<Rightarrow> chunk list \<Rightarrow> string list \<Rightarrow> chunk gomap \<Rightarrow> f64 gomap \<Rightarrow> string \<Rightarrow>
     f64 \<Rightarrow> f64 \<Rightarrow> string \<Rightarrow> query_builder option \<Rightarrow> f64 gomap \<Rightarrow> scores \<times> chunk gomap" where
  "RerankWithKNN unjson chunks ids field knnScores query tkWeight vtWeight cfield qb rankFeature =
     (if ids = [] then (([], [], []), field)
      else
        let field = wrap_keywords ids field;
            insTw = knn_tokens chunks field cfield 0 ids;
            tsim = TokenSimilarity (query_keywords qb query) insTw qb;
            vsim = map (mgetd f0 knnScores) ids;
            sim = combine tkWeight vtWeight tsim vsim
        in ((applyRankFeatureScoresForIDs unjson ids field sim rankFeature, tsim, vsim), field))"

end
