(* ===== verification/Retrieval.thy ===== *)
theory Retrieval
  imports Rerank "HOL-Library.Signed_Division"
begin

text \<open>
  \<open>service/nlp/retrieval.go\<close>: searching, scoring, ordering and paging of chunks. The search engine, the
  query builder with its term weights, the tokenizer, the table of documents and the models are
  arguments. \<open>int\<close> is an integer that is wrapped to 64 bits where it is computed with. None is a
  panic, the left side of a sum an error.
\<close>

definition int64 :: "int \<Rightarrow> int" where
  "int64 i = signed_take_bit 63 i"

section \<open>Interfaces\<close>

record dense_expr =
  dx_Column :: string
  dx_Data :: "f64 list"
  dx_TopN :: int
  dx_Similarity :: f64

datatype match_expr = MText "gval option" | MDense dense_expr | MFusion int

record search_request =
  sq_IndexNames :: "string list"
  sq_KbIDs :: "string list"
  sq_Offset :: int
  sq_Limit :: int
  sq_Filter :: chunk
  sq_SelectFields :: "string list"
  sq_MatchExprs :: "match_expr list"
  sq_RankFeature :: "f64 gomap option"
  sq_OrderBy :: "(string \<times> bool) list"

record engine_result =
  er_Chunks :: "chunk list"
  er_Total :: int

text \<open>\<open>en_KNNScores\<close> is \<open>GetScores\<close> of the result of \<open>KNNScores\<close>, or None if that fails.\<close>

record doc_engine =
  en_Search :: "search_request \<Rightarrow> string + engine_result"
  en_GetChunkIDs :: "chunk list \<Rightarrow> string list"
  en_GetFields :: "chunk list \<Rightarrow> string list \<Rightarrow> chunk gomap"
  en_GetAggregation :: "chunk list \<Rightarrow> string \<Rightarrow> gval list"
  en_GetHighlight :: "chunk list \<Rightarrow> string list \<Rightarrow> string \<Rightarrow> string gomap option"
  en_KNNScores :: "chunk list \<Rightarrow> f64 list option \<Rightarrow> nat \<Rightarrow> f64 gomap option"
  en_GetChunk :: "string \<Rightarrow> string \<Rightarrow> string list \<Rightarrow> gval option"

text \<open>
  The engine and whether it is Elasticsearch, the query builder (\<open>Question\<close> and the term weights), the
  tokenizer, the documents that exist among given ones, and the decoding of JSON objects.
\<close>

record nlp_env =
  ne_engine :: doc_engine
  ne_elastic :: bool
  ne_question :: "string \<Rightarrow> string \<Rightarrow> f64 \<Rightarrow> gval option \<times> string list"
  ne_weights :: "string list \<Rightarrow> (string \<times> f64) list"
  ne_fineGrained :: "string \<Rightarrow> string"
  ne_documents :: "(string list \<Rightarrow> string + string list) option"
  ne_unjson :: "string \<Rightarrow> gval gomap option"

definition builder :: "nlp_env \<Rightarrow> query_builder option" where
  "builder E = Some \<lparr>qb_keywords = (\<lambda>q. snd (ne_question E q ''qa'' six_tenths)), qb_termWeight = Some (ne_weights E)\<rparr>"

text \<open>An embedding model maps texts to vectors or fails.\<close>

type_synonym embedding_model = "string list \<Rightarrow> string + f64 list list"

record retrieval_request =
  rq_Question :: string
  rq_TenantIDs :: "string list"
  rq_KbIDs :: "string list"
  rq_DocIDs :: "string list"
  rq_Page :: int
  rq_PageSize :: int
  rq_Top :: "int option"
  rq_SimilarityThreshold :: "f64 option"
  rq_VectorSimilarityWeight :: "f64 option"
  rq_RankFeature :: "f64 gomap option"
  rq_RerankModel :: "rerank_model option"
  rq_EmbeddingModel :: "embedding_model option"
  rq_Aggs :: "bool option"
  rq_Highlight :: "bool option"

record retrieval_result =
  rt_Chunks :: "chunk list"
  rt_DocAggs :: "chunk list"
  rt_Total :: int

record retrieval_search_request =
  rs_Question :: string
  rs_TenantIDs :: "string list"
  rs_KbIDs :: "string list"
  rs_DocIDs :: "string list"
  rs_Top :: int
  rs_Page :: int
  rs_PageSize :: int
  rs_Sort :: bool
  rs_SimilarityThreshold :: f64
  rs_RankFeature :: "f64 gomap option"
  rs_Filter :: chunk
  rs_EmbeddingModel :: "embedding_model option"

record retrieval_search_result =
  sr_Chunks :: "chunk list"
  sr_Total :: int
  sr_QueryVector :: "f64 list option"
  sr_Highlight :: "string gomap option"
  sr_Field :: "chunk gomap"
  sr_IDs :: "string list"
  sr_Keywords :: "string list"
  sr_Aggregation :: "gval list"
  sr_IndexNames :: "string list"

section \<open>Searching\<close>

definition texts :: "string list \<Rightarrow> gval" where
  "texts ss = VStrs ss"

definition buildIndexNames :: "string list \<Rightarrow> string list" where
  "buildIndexNames tenantIDs =
     map (\<lambda>part. ''ragflow_'' @ part)
       (filter (\<lambda>part. part \<noteq> []) (map TrimSpace (concat (map (split_on (CHR '','')) tenantIDs))))"

definition filter_keys :: "string list" where
  "filter_keys =
     [''knowledge_graph_kwd'', ''available_int'', ''entity_kwd'', ''from_entity_kwd'', ''to_entity_kwd'', ''removed_kwd'']"

fun copy_keys :: "chunk \<Rightarrow> string list \<Rightarrow> chunk \<Rightarrow> chunk" where
  "copy_keys src [] filters = filters"
| "copy_keys src (key # keys) filters =
     copy_keys src keys
       (case mget src key of Some val \<Rightarrow> (if val \<noteq> VNil then mput key val filters else filters) | None \<Rightarrow> filters)"

fun copy_rest :: "chunk \<Rightarrow> chunk \<Rightarrow> chunk" where
  "copy_rest [] filters = filters"
| "copy_rest ((key, val) # src) filters =
     copy_rest src (if \<not> mhas filters key \<and> val \<noteq> VNil then mput key val filters else filters)"

definition GetFilters :: "retrieval_search_request \<Rightarrow> chunk" where
  "GetFilters r =
     (let filters = [];
          filters = (if rs_KbIDs r \<noteq> [] then mput ''kb_id'' (texts (rs_KbIDs r)) filters else filters);
          filters = (if rs_DocIDs r \<noteq> [] then mput ''doc_id'' (texts (rs_DocIDs r)) filters else filters)
      in copy_rest (rs_Filter r) (copy_keys (rs_Filter r) filter_keys filters))"

definition GetVector ::
    "string \<Rightarrow> embedding_model \<Rightarrow> int \<Rightarrow> f64 \<Rightarrow> (string + dense_expr) option" where
  "GetVector txt embModel topk similarity =
     (case embModel [txt] of
        Inl err \<Rightarrow> Some (Inl err)
      | Inr [] \<Rightarrow> None
      | Inr (vector # _) \<Rightarrow>
          Some (Inr \<lparr>dx_Column = vectorColumn (length vector), dx_Data = vector, dx_TopN = topk,
            dx_Similarity = similarity\<rparr>))"

definition src_fields :: "string list" where
  "src_fields =
     [''docnm_kwd'', ''content_ltks'', ''kb_id'', ''img_id'', ''title_tks'', ''important_kwd'', ''position_int'',
      ''doc_id'', ''chunk_order_int'', ''page_num_int'', ''top_int'', ''create_timestamp_flt'', ''knowledge_graph_kwd'',
      ''question_kwd'', ''question_tks'', ''doc_type_kwd'', ''available_int'', ''content_with_weight'', ''mom_id'',
      ''pagerank_fea'', ''tag_feas'', ''row_id()'', ''_score'']"

definition one_tenth :: f64 where "one_tenth = Fin 3602879701896397 (- 55)"
definition two_tenths :: f64 where "two_tenths = Fin 3602879701896397 (- 54)"
definition three_tenths_nlp :: f64 where "three_tenths_nlp = Fin 5404319552844595 (- 54)"
definition relaxed_similarity :: f64 where "relaxed_similarity = Fin 6124895493223875 (- 55)"

definition add_word :: "string \<Rightarrow> string list \<Rightarrow> string list" where
  "add_word k kwds = (if k \<in> set kwds then kwds else kwds @ [k])"

definition collect_keywords :: "(string \<Rightarrow> string) \<Rightarrow> string list \<Rightarrow> string list" where
  "collect_keywords fineGrained keywords =
     (let kwds = fold add_word keywords []
      in fold (\<lambda>k kwds. fold add_word (filter (\<lambda>kk. 2 \<le> length kk) (Fields (fineGrained k))) (add_word k kwds))
           keywords kwds)"

definition search_failed :: "string \<Rightarrow> string" where "search_failed err = ''Search failed: '' @ err"
definition retry_failed :: "string \<Rightarrow> string" where "retry_failed err = ''Search retry failed: '' @ err"

definition map_err :: "(string \<Rightarrow> string) \<Rightarrow> string + 'a \<Rightarrow> string + 'a" where
  "map_err f x = (case x of Inl err \<Rightarrow> Inl (f err) | Inr v \<Rightarrow> Inr v)"

definition hybrid_search ::
    "nlp_env \<Rightarrow> retrieval_search_request \<Rightarrow> search_request \<Rightarrow> gval option \<Rightarrow> dense_expr \<Rightarrow> int \<Rightarrow> string + engine_result" where
  "hybrid_search E req base matchText matchDense topk =
     (let flds = (if ne_elastic E then src_fields @ [dx_Column matchDense] else src_fields);
          first = base\<lparr>sq_SelectFields := flds,
            sq_MatchExprs := [MText matchText, MDense matchDense, MFusion topk], sq_RankFeature := rs_RankFeature req\<rparr>
      in case en_Search (ne_engine E) first of
           Inl err \<Rightarrow> Inl (search_failed err)
         | Inr r \<Rightarrow>
             (if er_Total r \<noteq> 0 then Inr r
              else if mhas (sq_Filter base) ''doc_id''
              then map_err retry_failed (en_Search (ne_engine E)
                     (first\<lparr>sq_SelectFields := src_fields, sq_MatchExprs := [], sq_RankFeature := None\<rparr>))
              else
                let (relaxed, _) = ne_question E (rs_Question req) ''qa'' one_tenth
                in map_err retry_failed (en_Search (ne_engine E)
                     (first\<lparr>sq_MatchExprs := [MText relaxed, MDense (matchDense\<lparr>dx_Similarity := relaxed_similarity\<rparr>),
                        MFusion topk], sq_RankFeature := rs_RankFeature req\<rparr>))))"

definition search_result ::
    "nlp_env \<Rightarrow> search_request \<Rightarrow> f64 list option \<Rightarrow> string list \<Rightarrow> engine_result \<Rightarrow> retrieval_search_result" where
  "search_result E sq queryVector kwds r =
     \<lparr>sr_Chunks = er_Chunks r, sr_Total = er_Total r, sr_QueryVector = queryVector,
      sr_Highlight = (if kwds = [] then None
        else en_GetHighlight (ne_engine E) (er_Chunks r) kwds ''content_with_weight''),
      sr_Field = en_GetFields (ne_engine E) (er_Chunks r) src_fields,
      sr_IDs = en_GetChunkIDs (ne_engine E) (er_Chunks r), sr_Keywords = kwds,
      sr_Aggregation = en_GetAggregation (ne_engine E) (er_Chunks r) ''docnm_kwd'',
      sr_IndexNames = sq_IndexNames sq\<rparr>"

definition base_request :: "retrieval_search_request \<Rightarrow> int \<Rightarrow> search_request" where
  "base_request req topk =
     (let filters = GetFilters req;
          filters = (if mhas filters ''available_int'' then filters else mput ''available_int'' (VInt 1) filters);
          pg = max 0 (int64 (rs_Page req - 1));
          pageSize = (if rs_PageSize req \<le> 0 then topk else rs_PageSize req)
      in \<lparr>sq_IndexNames = buildIndexNames (rs_TenantIDs req), sq_KbIDs = rs_KbIDs req,
          sq_Offset = int64 (pg * pageSize), sq_Limit = pageSize, sq_Filter = filters,
          sq_SelectFields = src_fields, sq_MatchExprs = [], sq_RankFeature = None, sq_OrderBy = []\<rparr>)"

definition Search :: "nlp_env \<Rightarrow> retrieval_search_request \<Rightarrow> (string + retrieval_search_result) option" where
  "Search E req =
     (let topk = (if rs_Top req \<le> 0 then 1024 else rs_Top req);
          base = base_request req topk;
          found = (\<lambda>queryVector kwds r. map_err search_failed (case r of Inl err \<Rightarrow> Inl err
            | Inr r \<Rightarrow> Inr (search_result E base queryVector kwds r)))
      in if rs_Question req = [] then
           let order = (if rs_Sort req then [(''chunk_order_int'', True), (''page_num_int'', True), (''top_int'', True),
                 (''create_timestamp_flt'', False)] else [])
           in Some (found None [] (en_Search (ne_engine E) (base\<lparr>sq_OrderBy := order\<rparr>)))
         else
           let (matchText, keywords) = ne_question E (rs_Question req) [] three_tenths_nlp;
               kwds = collect_keywords (ne_fineGrained E) keywords
           in case rs_EmbeddingModel req of
                None \<Rightarrow>
                  Some (found None kwds (en_Search (ne_engine E)
                    (base\<lparr>sq_MatchExprs := [MText matchText], sq_RankFeature := rs_RankFeature req\<rparr>)))
              | Some emb \<Rightarrow>
                  (case GetVector (rs_Question req) emb topk
                          (if f64_ge f0 (rs_SimilarityThreshold req) then one_tenth else rs_SimilarityThreshold req) of
                     None \<Rightarrow> None
                   | Some (Inl err) \<Rightarrow> Some (Inl (''GetVector failed: '' @ err))
                   | Some (Inr matchDense) \<Rightarrow>
                       Some (case hybrid_search E req base matchText matchDense topk of
                           Inl err \<Rightarrow> Inl err
                         | Inr r \<Rightarrow> Inr (search_result E base (Some (dx_Data matchDense)) kwds r))))"

section \<open>Deleted documents\<close>

definition doc_id :: "chunk \<Rightarrow> string" where
  "doc_id c = (case mget c ''doc_id'' of Some (VStr d) \<Rightarrow> d | _ \<Rightarrow> [])"

definition kept_chunk :: "string set \<Rightarrow> chunk gomap \<Rightarrow> string \<Rightarrow> bool" where
  "kept_chunk existing field chunkID =
     (case mget field chunkID of None \<Rightarrow> False | Some c \<Rightarrow> doc_id c = [] \<or> doc_id c \<in> existing)"

definition PruneDeletedChunks ::
    "(string list \<Rightarrow> string + string list) option \<Rightarrow> retrieval_search_result \<Rightarrow> string + retrieval_search_result" where
  "PruneDeletedChunks documents result =
     (case documents of
        None \<Rightarrow> Inl ''documentDAO is not initialized''
      | Some getByIDs \<Rightarrow>
          let chunkDocIDs = filter (\<lambda>d. d \<noteq> []) (map (\<lambda>(_, c). doc_id c) (sr_Field result))
          in if chunkDocIDs = [] then Inr result
             else
               let uniqueDocIDs = first_seen [] chunkDocIDs
               in case getByIDs uniqueDocIDs of
                    Inl err \<Rightarrow> Inl (''GetByIDs failed: '' @ err)
                  | Inr docs \<Rightarrow>
                      (if card (set docs) = length uniqueDocIDs then Inr result
                       else
                         let ids = filter (kept_chunk (set docs) (sr_Field result)) (sr_IDs result);
                             chunk = (\<lambda>id. the (mget (sr_Field result) id))
                         in Inr (result
                              \<lparr>sr_Chunks := map chunk ids, sr_Total := int (length ids), sr_IDs := ids,
                               sr_Field := fold (\<lambda>id. mput id (chunk id)) ids [],
                               sr_Highlight := Some (case sr_Highlight result of None \<Rightarrow> []
                                 | Some hl \<Rightarrow> fold (\<lambda>id m. case mget hl id of None \<Rightarrow> m | Some t \<Rightarrow> mput id t m) ids []),
                               sr_IndexNames := []\<rparr>)))"

section \<open>Paging\<close>

text \<open>\<open>math.Ceil\<close> as an integer.\<close>

fun f64_ceil :: "f64 \<Rightarrow> int" where
  "f64_ceil (Fin m e) = (if 0 \<le> e then m * 2 ^ nat e else - ((- m) div 2 ^ nat (- e)))"
| "f64_ceil x = - (2 ^ 63)"

definition rerank_limit :: "int \<Rightarrow> int \<Rightarrow> bool \<Rightarrow> int" where
  "rerank_limit pageSize topN model =
     (let limit = (if 1 < pageSize then int64 (f64_ceil (f64_div (Fin 1 6) (f64_of_int pageSize)) * pageSize) else 1);
          limit = (if limit < 30 then 30 else limit)
      in if model \<and> 0 < topN then min 64 (min limit topN) else limit)"

definition global_offset :: "int \<Rightarrow> int \<Rightarrow> int" where
  "global_offset page pageSize = int64 ((page - 1) * pageSize)"

definition search_page :: "int \<Rightarrow> int \<Rightarrow> int" where
  "search_page globalOffset rerankLimit = int64 (globalOffset sdiv rerankLimit + 1)"

definition page_begin :: "int \<Rightarrow> int \<Rightarrow> int" where
  "page_begin globalOffset rerankLimit = globalOffset smod rerankLimit"

text \<open>\<open>validIdx[begin:end]\<close>; a negative bound and an end before the begin panic.\<close>

definition page_slice :: "int \<Rightarrow> int \<Rightarrow> 'a list \<Rightarrow> 'a list option" where
  "page_slice begin pageSize valid =
     (if begin < int (length valid) then
        let stop = min (int64 (begin + pageSize)) (int (length valid))
        in if begin < 0 \<or> stop < begin then None
           else Some (take (nat (stop - begin)) (drop (nat begin) valid))
      else Some [])"

section \<open>Ordering\<close>

text \<open>
  \<open>sort.SliceStable\<close> by descending score. Its result is determined when the scores are numbers; with a
  NaN among them the order of the comparisons would matter.
\<close>

fun rank_insert :: "nat \<times> f64 \<Rightarrow> (nat \<times> f64) list \<Rightarrow> (nat \<times> f64) list" where
  "rank_insert x [] = [x]"
| "rank_insert x (y # ys) = (if f64_less (snd y) (snd x) then x # y # ys else y # rank_insert x ys)"

definition rank_order :: "f64 list \<Rightarrow> (nat \<times> f64) list" where
  "rank_order sim = foldl (\<lambda>ys x. rank_insert x ys) [] (zip [0..<length sim] sim)"

definition valid_indexes :: "f64 list \<Rightarrow> f64 \<Rightarrow> nat list" where
  "valid_indexes sim postThreshold = map fst (filter (\<lambda>(_, score). f64_ge score postThreshold) (rank_order sim))"

section \<open>Scores\<close>

definition infinity_score :: "chunk gomap \<Rightarrow> string \<Rightarrow> f64" where
  "infinity_score field chunkID =
     (case mget field chunkID of
        None \<Rightarrow> f0
      | Some c \<Rightarrow> first_score c [''_score'', ''SCORE'', ''SIMILARITY''] f0)"

definition score_chunks ::
    "nlp_env \<Rightarrow> retrieval_request \<Rightarrow> f64 \<Rightarrow> f64 gomap \<Rightarrow> retrieval_search_result \<Rightarrow> (scores \<times> chunk gomap) option" where
  "score_chunks E req vtWeight rankFeature sr =
     (let tkWeight = f64_minus f1 vtWeight; qb = builder E
      in case (if 0 < sr_Total sr then rq_RerankModel req else None) of
           Some model \<Rightarrow>
             Some (RerankByModel (ne_unjson E) model (sr_Chunks sr) (sr_IDs sr) (sr_Field sr) (rq_Question req)
               tkWeight vtWeight ''content_ltks'' qb rankFeature, sr_Field sr)
         | None \<Rightarrow>
             (if \<not> ne_elastic E then
                let sim = map (infinity_score (sr_Field sr)) (sr_IDs sr) in Some ((sim, sim, sim), sr_Field sr)
              else
                case en_KNNScores (ne_engine E) (sr_Chunks sr) (sr_QueryVector sr) (length (sr_IDs sr)) of
                  None \<Rightarrow>
                    map_option (\<lambda>s. (s, sr_Field sr))
                      (RerankStandard (ne_unjson E) (sr_Chunks sr) []
                        (case sr_QueryVector sr of None \<Rightarrow> [] | Some v \<Rightarrow> v) (rq_Question req)
                        tkWeight vtWeight ''content_ltks'' qb rankFeature)
                | Some knnScores \<Rightarrow>
                    Some (RerankWithKNN (ne_unjson E) (sr_Chunks sr) (sr_IDs sr) (sr_Field sr) knnScores
                      (rq_Question req) tkWeight vtWeight ''content_ltks'' qb rankFeature)))"

section \<open>The page\<close>

definition copy_field :: "string \<Rightarrow> string \<Rightarrow> chunk \<Rightarrow> chunk \<Rightarrow> chunk" where
  "copy_field k k' src dst = (case mget src k of None \<Rightarrow> dst | Some v \<Rightarrow> mput k' v dst)"

definition copy_default :: "string \<Rightarrow> string \<Rightarrow> gval \<Rightarrow> chunk \<Rightarrow> chunk \<Rightarrow> chunk" where
  "copy_default k k' z src dst = mput k' (mgetd z src k) dst"

definition doc_type :: "chunk \<Rightarrow> gval" where
  "doc_type c =
     (case mget c ''doc_type_kwd'' of
        Some (VStr s) \<Rightarrow> (if s = [] then VNil else VStr s)
      | Some (VList vs) \<Rightarrow> (if vs = [] then VNil else VList vs)
      | _ \<Rightarrow> VNil)"

definition result_chunk ::
    "string \<Rightarrow> chunk \<Rightarrow> f64 \<Rightarrow> f64 \<Rightarrow> f64 \<Rightarrow> nat \<Rightarrow> string gomap option \<Rightarrow> chunk" where
  "result_chunk chunkID c sim tsim vsim dim highlight =
     (let r = [(''chunk_id'', VStr chunkID)];
          r = fold (\<lambda>k. copy_field k k c) [''content_ltks'', ''content_with_weight'', ''doc_id'', ''docnm_kwd'', ''kb_id'',
                ''important_kwd'', ''tag_kwd''] r;
          r = copy_default ''img_id'' ''image_id'' (VStr []) c r;
          r = mput ''positions'' (case mget c ''position_int'' of
                Some v \<Rightarrow> (if v \<noteq> VNil then v else VList []) | None \<Rightarrow> VList []) r;
          r = mput ''doc_type_kwd'' (doc_type c) r;
          r = copy_field ''row_id()'' ''row_id'' c r;
          r = mput ''similarity'' (VFloat sim) r;
          r = mput ''term_similarity'' (VFloat tsim) r;
          r = mput ''vector_similarity'' (VFloat vsim) r;
          r = copy_default ''important_kwd'' ''important_kwd'' (VStrs []) c r;
          r = copy_default ''mom_id'' ''mom_id'' (VStr []) c r;
          r = copy_default ''row_id()'' ''row_id'' VNil c r;
          r = copy_default ''tag_kwd'' ''tag_kwd'' (VStrs []) c r;
          r = copy_default (vectorColumn dim) ''vector'' (VFloats (replicate dim f0)) c r
      in case highlight of
           None \<Rightarrow> r
         | Some hl \<Rightarrow>
             (case mget hl chunkID of
                Some t \<Rightarrow> mput ''highlight'' (VStr (RemoveRedundantSpaces t)) r
              | None \<Rightarrow>
                  (case mget c ''content_with_weight'' of
                     Some (VStr t) \<Rightarrow> mput ''highlight'' (VStr (RemoveRedundantSpaces t)) r
                   | _ \<Rightarrow> r)))"

definition page_chunk ::
    "string list \<Rightarrow> chunk gomap \<Rightarrow> scores \<Rightarrow> nat \<Rightarrow> string gomap option \<Rightarrow> nat \<Rightarrow> chunk option" where
  "page_chunk ids field s dim highlight i =
     (if length ids \<le> i then None
      else case mget field (ids ! i) of
        None \<Rightarrow> None
      | Some c \<Rightarrow>
          Some (result_chunk (ids ! i) c (fst s ! i) (fst (snd s) ! i) (snd (snd s) ! i) dim highlight))"

definition count_doc :: "chunk \<Rightarrow> (string \<times> int) gomap \<Rightarrow> (string \<times> int) gomap" where
  "count_doc c m =
     (let docName = (case mget c ''docnm_kwd'' of Some (VStr n) \<Rightarrow> n | _ \<Rightarrow> [])
      in case mget m docName of
           Some (d, n) \<Rightarrow> mput docName (d, n + 1) m
         | None \<Rightarrow> mput docName (doc_id c, 1) m)"

text \<open>The order among equal counts is left as it was.\<close>

fun count_insert :: "string \<times> string \<times> int \<Rightarrow> (string \<times> string \<times> int) list \<Rightarrow> (string \<times> string \<times> int) list" where
  "count_insert x [] = [x]"
| "count_insert x (y # ys) = (if snd (snd y) < snd (snd x) then x # y # ys else y # count_insert x ys)"

definition doc_aggs :: "string list \<Rightarrow> chunk gomap \<Rightarrow> nat list \<Rightarrow> (string \<times> string \<times> int) list" where
  "doc_aggs ids field validIdx =
     (let cs = somes (map (\<lambda>i. if length ids \<le> i then None else mget field (ids ! i)) validIdx)
      in foldl (\<lambda>ys x. count_insert x ys) [] (fold count_doc cs []))"

definition agg_chunk :: "string \<times> string \<times> int \<Rightarrow> chunk" where
  "agg_chunk = (\<lambda>(docName, docID, count).
     [(''doc_name'', VStr docName), (''doc_id'', VStr docID), (''count'', VInt (word_of_int count))])"

section \<open>Retrieval\<close>

definition no_result :: retrieval_result where
  "no_result = \<lparr>rt_Chunks = [], rt_DocAggs = [], rt_Total = 0\<rparr>"

definition or_else :: "'a \<Rightarrow> 'a option \<Rightarrow> 'a" where
  "or_else z x = (case x of None \<Rightarrow> z | Some v \<Rightarrow> v)"

definition rank_page ::
    "retrieval_request \<Rightarrow> retrieval_search_result \<Rightarrow> chunk gomap \<Rightarrow> scores \<Rightarrow> f64 \<Rightarrow> int \<Rightarrow> int \<Rightarrow> retrieval_result option" where
  "rank_page req sr field s postThreshold begin pageSize =
     (if fst s = [] then Some no_result
      else
        let validIdx = valid_indexes (fst s) postThreshold
        in if validIdx = [] then Some no_result
           else
             let dim = (case sr_QueryVector sr of None \<Rightarrow> 0 | Some v \<Rightarrow> length v);
                 highlight = (if rq_Highlight req = Some True then sr_Highlight sr else None)
             in case page_slice begin pageSize validIdx of
                  None \<Rightarrow> None
                | Some pageIdx \<Rightarrow>
                    let chunks = somes (map (page_chunk (sr_IDs sr) field s dim highlight) pageIdx)
                    in Some \<lparr>rt_Chunks = chunks,
                        rt_DocAggs = (if or_else True (rq_Aggs req)
                          then map agg_chunk (doc_aggs (sr_IDs sr) field validIdx) else []),
                        rt_Total = int (length chunks)\<rparr>)"

definition retrieval_search :: "retrieval_request \<Rightarrow> int \<Rightarrow> int \<Rightarrow> int \<Rightarrow> f64 gomap \<Rightarrow> retrieval_search_request" where
  "retrieval_search req page limit topN rankFeature =
     \<lparr>rs_Question = rq_Question req, rs_TenantIDs = rq_TenantIDs req, rs_KbIDs = rq_KbIDs req,
      rs_DocIDs = rq_DocIDs req, rs_Top = topN, rs_Page = page, rs_PageSize = limit, rs_Sort = False,
      rs_SimilarityThreshold = f0, rs_RankFeature = Some rankFeature, rs_Filter = [],
      rs_EmbeddingModel = rq_EmbeddingModel req\<rparr>"

definition Retrieval :: "nlp_env \<Rightarrow> retrieval_request \<Rightarrow> (string + retrieval_result) option" where
  "Retrieval E req =
     (if rq_Question req = [] then Some (Inr no_result)
      else
        let topN = or_else 1024 (rq_Top req);
            threshold = or_else two_tenths (rq_SimilarityThreshold req);
            vtWeight = or_else three_tenths_nlp (rq_VectorSimilarityWeight req);
            rankFeature = or_else [(''pagerank_fea'', Fin 5 1)] (rq_RankFeature req);
            page = (if rq_Page req \<le> 0 then 1 else rq_Page req);
            pageSize = (if rq_PageSize req \<le> 0 then 1 else rq_PageSize req);
            limit = rerank_limit pageSize topN (rq_RerankModel req \<noteq> None);
            offset = global_offset page pageSize
        in case Search E (retrieval_search req (search_page offset limit) limit topN rankFeature) of
             None \<Rightarrow> None
           | Some (Inl err) \<Rightarrow> Some (Inl (search_failed err))
           | Some (Inr found) \<Rightarrow>
               (case PruneDeletedChunks (ne_documents E) found of
                  Inl err \<Rightarrow> Some (Inl (''PruneDeletedChunks failed: '' @ err))
                | Inr sr \<Rightarrow>
                    (if sr_Total sr = 0 then Some (Inr no_result)
                     else case score_chunks E req vtWeight rankFeature sr of
                       None \<Rightarrow> None
                     | Some (s, field) \<Rightarrow>
                         map_option Inr (rank_page req sr field s
                           (if f64_ge f0 vtWeight then f0 else threshold) (page_begin offset limit) pageSize))))"

end
