(* ===== verification/ParentChunks.thy ===== *)
theory ParentChunks
  imports Retrieval
begin

text \<open>
  The rest of \<open>service/nlp/retrieval.go\<close>: \<open>RetrievalByChildren\<close>, which replaces chunks by their parent,
  and \<open>FetchChunkVectors\<close>. \<open>order\<close> is the order in which the map of parents is iterated.
\<close>

section \<open>Children and parents\<close>

definition str_value :: "chunk \<Rightarrow> string \<Rightarrow> string" where
  "str_value c k = (case mget c k of Some (VStr s) \<Rightarrow> s | _ \<Rightarrow> [])"

text \<open>\<open>ck["mom_id"]\<close> as a text that is not empty.\<close>

definition mom_id :: "chunk \<Rightarrow> string" where
  "mom_id c = str_value c ''mom_id''"

fun group_children :: "chunk list \<Rightarrow> chunk list gomap \<Rightarrow> chunk list \<Rightarrow> chunk list gomap \<times> chunk list" where
  "group_children [] momChunks remaining = (momChunks, remaining)"
| "group_children (ck # cks) momChunks remaining =
     (if mom_id ck = [] then group_children cks momChunks (remaining @ [ck])
      else group_children cks (mput (mom_id ck) (mgetd [] momChunks (mom_id ck) @ [ck]) momChunks) remaining)"

definition child_kbs :: "chunk list \<Rightarrow> string list" where
  "child_kbs childList =
     (let kbIDs = filter (\<lambda>k. k \<noteq> []) (map (\<lambda>c. str_value c ''kb_id'') childList)
      in if kbIDs = [] then [[]] else kbIDs)"

definition average_similarity :: "chunk list \<Rightarrow> f64" where
  "average_similarity childList =
     f64_div (PairwiseSum (somes (map (\<lambda>c. case mget c ''similarity'' of Some (VFloat x) \<Rightarrow> Some x | _ \<Rightarrow> None) childList)))
       (f64_of_int (int (length childList)))"

definition child_text :: "chunk list \<Rightarrow> string" where
  "child_text childList =
     join_with (CHR '' '')
       (somes (map (\<lambda>c. case mget c ''content_ltks'' of Some (VStr t) \<Rightarrow> Some t | _ \<Rightarrow> None) childList))"

definition child_keywords :: "chunk list \<Rightarrow> gval" where
  "child_keywords childList =
     VStrs (concat (map (\<lambda>c. case mget c ''important_kwd'' of
       Some (VList vs) \<Rightarrow> somes (map (\<lambda>v. case v of VStr s \<Rightarrow> Some s | _ \<Rightarrow> None) vs) | _ \<Rightarrow> []) childList))"

text \<open>The first vector under a key that ends in \<open>_vec\<close>.\<close>

definition vec_key :: "string \<Rightarrow> bool" where
  "vec_key k = starts_with (rev ''_vec'') (rev k)"

fun chunk_vector :: "chunk \<Rightarrow> f64 list option" where
  "chunk_vector [] = None"
| "chunk_vector ((k, v) # c) =
     (case (if vec_key k then (case v of VFloats vec \<Rightarrow> Some vec | _ \<Rightarrow> None) else None) of
        Some vec \<Rightarrow> Some vec
      | None \<Rightarrow> chunk_vector c)"

fun child_vector :: "chunk list \<Rightarrow> f64 list option" where
  "child_vector [] = None"
| "child_vector (c # cs) = (case chunk_vector c of Some vec \<Rightarrow> Some vec | None \<Rightarrow> child_vector cs)"

definition aggregated :: "string \<Rightarrow> chunk \<Rightarrow> chunk list \<Rightarrow> f64 list \<Rightarrow> chunk" where
  "aggregated momID parent childList vector =
     (let avg = average_similarity childList
      in [(''chunk_id'', VStr momID), (''content_ltks'', VStr (child_text childList)),
          (''content_with_weight'', mgetd VNil parent ''content_with_weight''),
          (''doc_id'', mgetd VNil parent ''doc_id''), (''docnm_kwd'', mgetd VNil parent ''docnm_kwd''),
          (''kb_id'', mgetd VNil parent ''kb_id''), (''important_kwd'', child_keywords childList),
          (''image_id'', if mgetd VNil parent ''img_id'' = VNil then VStr [] else mgetd VNil parent ''img_id''),
          (''similarity'', VFloat avg), (''vector_similarity'', VFloat avg), (''term_similarity'', VFloat avg),
          (''vector'', VFloats vector), (''positions'', mgetd VNil parent ''position_int''),
          (''doc_type_kwd'', VStr (str_value parent ''doc_type_kwd''))])"

fun parent_loop :: "doc_engine \<Rightarrow> string \<Rightarrow> nat \<Rightarrow> (string \<times> chunk list) list \<Rightarrow> chunk list" where
  "parent_loop eng index vectorSize [] = []"
| "parent_loop eng index vectorSize ((momID, childList) # moms) =
     (case en_GetChunk eng index momID (child_kbs childList) of
        Some (VMap parent) \<Rightarrow>
          let vector = or_else (replicate vectorSize f0) (child_vector childList)
          in aggregated momID parent childList vector # parent_loop eng index (length vector) moms
      | _ \<Rightarrow> parent_loop eng index vectorSize moms)"

section \<open>Sorting\<close>

definition similarity :: "chunk \<Rightarrow> f64" where
  "similarity c = (case mget c ''similarity'' of Some (VFloat x) \<Rightarrow> x | _ \<Rightarrow> f0)"

text \<open>One pass of the outer loop: the element at \<open>i\<close> and those behind it, exchanged where a later one is larger.\<close>

fun exchange_row :: "chunk \<Rightarrow> chunk list \<Rightarrow> chunk \<times> chunk list" where
  "exchange_row x [] = (x, [])"
| "exchange_row x (y # ys) =
     (if f64_less (similarity x) (similarity y)
      then (let (z, zs) = exchange_row y ys in (z, x # zs))
      else (let (z, zs) = exchange_row x ys in (z, y # zs)))"

lemma exchange_row_length: "length (snd (exchange_row x ys)) = length ys"
  by (induction x ys rule: exchange_row.induct) (simp_all add: Let_def split_beta)

function exchange_sort :: "chunk list \<Rightarrow> chunk list" where
  "exchange_sort [] = []"
| "exchange_sort (x # xs) = fst (exchange_row x xs) # exchange_sort (snd (exchange_row x xs))"
  by pat_completeness auto
termination by (relation "measure length") (simp_all add: exchange_row_length)

definition RetrievalByChildren ::
    "((string \<times> chunk list) list \<Rightarrow> (string \<times> chunk list) list) \<Rightarrow> chunk list \<Rightarrow> string list \<Rightarrow> doc_engine \<Rightarrow> chunk list" where
  "RetrievalByChildren order chunks tenantIDs eng =
     (let indexNames = buildIndexNames tenantIDs
      in if chunks = [] \<or> indexNames = [] then chunks
         else
           let (momChunks, remaining) = group_children chunks [] []
           in if momChunks = [] then chunks
              else exchange_sort (remaining @ parent_loop eng (hd indexNames) 1024 (order momChunks)))"

section \<open>Vectors\<close>

definition float_entry :: "gval \<Rightarrow> f64" where
  "float_entry v =
     (case v of VFloat x \<Rightarrow> x | VNum k i \<Rightarrow> (if k = KFloat32 then f64_of_int i else f0) | _ \<Rightarrow> f0)"

definition parse_vector :: "(string \<Rightarrow> f64 option) \<Rightarrow> gval option \<Rightarrow> f64 list" where
  "parse_vector parseFloat v =
     (case v of
        Some (VFloats vec) \<Rightarrow> vec
      | Some (VList vs) \<Rightarrow> map float_entry vs
      | Some (VStr t) \<Rightarrow> somes (map (\<lambda>p. parseFloat (TrimSpace p)) (split_on (CHR 0x09) t))
      | _ \<Rightarrow> [])"

fun collect_vectors :: "(string \<Rightarrow> f64 option) \<Rightarrow> string \<Rightarrow> nat \<Rightarrow> chunk list \<Rightarrow> f64 list gomap \<Rightarrow> f64 list gomap" where
  "collect_vectors parseFloat vecField dim [] out = out"
| "collect_vectors parseFloat vecField dim (c # cs) out =
     (let cid = str_value c ''id''
      in if cid = [] then collect_vectors parseFloat vecField dim cs out
         else
           let vec = parse_vector parseFloat (mget c vecField);
               vec = (if length vec \<noteq> dim then replicate dim f0 else vec)
           in collect_vectors parseFloat vecField dim cs (mput cid vec out))"

definition FetchChunkVectors ::
    "(string \<Rightarrow> f64 option) \<Rightarrow> doc_engine \<Rightarrow> string list \<Rightarrow> string list \<Rightarrow> string list \<Rightarrow> int \<Rightarrow> string + f64 list gomap" where
  "FetchChunkVectors parseFloat eng chunkIDs tenantIDs kbIDs dim =
     (if dim \<le> 0 then
        Inl (''FetchChunkVectors: dim must be > 0, got '' @ (if dim < 0 then ''-'' else []) @ itoa (nat \<bar>dim\<bar>))
      else if chunkIDs = [] then Inr []
      else
        let vecField = vectorColumn (nat dim)
        in case en_Search eng
             \<lparr>sq_IndexNames = buildIndexNames tenantIDs, sq_KbIDs = kbIDs, sq_Offset = 0,
              sq_Limit = int (length chunkIDs), sq_Filter = [(''id'', texts chunkIDs)],
              sq_SelectFields = [''id'', vecField], sq_MatchExprs = [], sq_RankFeature = None, sq_OrderBy = []\<rparr> of
             Inl err \<Rightarrow> Inl (''FetchChunkVectors: engine search failed: '' @ err)
           | Inr r \<Rightarrow>
               Inr (collect_vectors parseFloat vecField (nat dim) (er_Chunks r)
                 (fold (\<lambda>cid. mput cid (replicate (nat dim) f0)) chunkIDs [])))"

end
