(* ===== verification/FloatOrder.thy ===== *)
theory FloatOrder
  imports Complex_Main Floats
begin

text \<open>
  The order of \<open>float64\<close> and its operations. Every number has a real value, the infinities standing
  just outside the finite range; rounding is monotone in that value and leaves numbers of the format
  as they are, and so are the operations that round an exact result.
\<close>

section \<open>Lengths of binary numbers\<close>

lemma bitlen_double: "0 < n \<Longrightarrow> bitlen (2 * n) = Suc (bitlen n)"
  by (subst bitlen.simps) simp

lemma bitlen_bounds: "0 < n \<Longrightarrow> 2 ^ (bitlen n - 1) \<le> n \<and> n < 2 ^ bitlen n"
proof (induction n rule: bitlen.induct)
  case (1 n)
  show ?case
  proof (cases "n div 2 = 0")
    case True
    with "1.prems" have "n = 1" by simp
    then show ?thesis by (simp add: bitlen.simps)
  next
    case False
    with 1 have ih: "2 ^ (bitlen (n div 2) - 1) \<le> n div 2" "n div 2 < 2 ^ bitlen (n div 2)" by auto
    have "0 < bitlen (n div 2)" using False by (subst bitlen.simps) simp
    with ih have "2 ^ bitlen (n div 2) \<le> n" "n < 2 * 2 ^ bitlen (n div 2)"
      by (cases "bitlen (n div 2)"; simp)+
    with "1.prems" show ?thesis by (subst (1 2) bitlen.simps) simp
  qed
qed

lemma bitlen_pos: "0 < n \<Longrightarrow> 0 < bitlen n"
  by (subst bitlen.simps) simp

lemma bitlen_less:
  assumes "bitlen n \<le> k"
  shows "n < 2 ^ k"
proof (cases "n = 0")
  case False
  then have "n < 2 ^ bitlen n" using bitlen_bounds [of n] by simp
  also have "(2 :: nat) ^ bitlen n \<le> 2 ^ k" using assms by (rule power_increasing) simp
  finally show ?thesis .
qed simp

lemma bitlen_mono: "m \<le> n \<Longrightarrow> bitlen m \<le> bitlen n"
  using bitlen_bounds [of n] by (cases "n = 0") (auto intro!: bitlen_le)

lemma bitlen_scale: "0 < n \<Longrightarrow> bitlen (n * 2 ^ k) = bitlen n + k"
proof (induction k)
  case (Suc k)
  then show ?case using bitlen_double [of "n * 2 ^ k"] by (simp add: ac_simps)
qed simp

section \<open>Rounding of natural numbers\<close>

lemma rhe_exact: "round_half_even (k * 2 ^ s) s = k"
  by (simp add: round_half_even_def Let_def)

lemma rhe_mono:
  assumes "n \<le> m"
  shows "round_half_even n s \<le> round_half_even m s"
proof -
  let ?P = "2 ^ s :: nat"
  have q: "n div ?P \<le> m div ?P" using assms by (rule div_le_mono)
  show ?thesis
  proof (cases "n div ?P = m div ?P")
    case True
    have "n div ?P * ?P + n mod ?P \<le> m div ?P * ?P + m mod ?P"
      using assms by (simp only: div_mult_mod_eq)
    then have "n mod ?P \<le> m mod ?P" using True by simp
    with True show ?thesis by (auto simp: round_half_even_def Let_def)
  next
    case False
    with q have "n div ?P + 1 \<le> m div ?P" by simp
    then show ?thesis by (auto simp: round_half_even_def Let_def)
  qed
qed

text \<open>How many bits are cut off, and the rounded number in the original unit.\<close>

definition cut_bits :: "nat \<Rightarrow> int \<Rightarrow> int" where
  "cut_bits n e = max (int (bitlen n) - 53) (- 1074 - e)"

definition rd :: "nat \<Rightarrow> int \<Rightarrow> nat" where
  "rd n e = (if cut_bits n e \<le> 0 then n else round_half_even n (nat (cut_bits n e)) * 2 ^ nat (cut_bits n e))"

lemma rd_mono:
  assumes "n \<le> m"
  shows "rd n e \<le> rd m e"
proof (cases "n = 0")
  case True
  then show ?thesis
    by (simp add: rd_def) (metis mult_is_0 nat_zero_as_int rhe_exact zero_le)
next
  case False
  have c: "cut_bits n e \<le> cut_bits m e" using bitlen_mono [OF assms] by (auto simp: cut_bits_def)
  show ?thesis
  proof (cases "cut_bits n e = cut_bits m e \<or> cut_bits m e \<le> 0")
    case True
    then show ?thesis using assms c by (auto simp: rd_def rhe_mono)
  next
    case False
    then have lt: "cut_bits n e < cut_bits m e" and pos: "0 < cut_bits m e" using c by auto
    then have cm: "cut_bits m e = int (bitlen m) - 53" by (auto simp: cut_bits_def)
    let ?B = "2 ^ nat (cut_bits m e + 52) :: nat"
    have split: "?B = 2 ^ 52 * 2 ^ nat (cut_bits m e)"
      using pos by (simp add: nat_add_distrib power_add)
    have "nat (cut_bits m e + 52) = bitlen m - 1" using cm pos by simp
    moreover have "0 < m" using assms \<open>n \<noteq> 0\<close> by simp
    ultimately have B: "?B \<le> m" using bitlen_bounds [of m] by simp
    have m: "?B \<le> rd m e"
      using rhe_mono [OF B, of "nat (cut_bits m e)"] pos by (simp add: rd_def split rhe_exact)
    have "int (bitlen n) \<le> cut_bits n e + 53" by (simp add: cut_bits_def)
    then have "bitlen n \<le> nat (cut_bits m e + 52)" using lt by simp
    then have "n \<le> ?B"
      using bitlen_bounds [of n] False \<open>n \<noteq> 0\<close> power_increasing [of "bitlen n" "nat (cut_bits m e + 52)" "2 :: nat"]
      by linarith
    have n: "rd n e \<le> ?B"
    proof (cases "cut_bits n e \<le> 0")
      case True
      then show ?thesis using \<open>n \<le> ?B\<close> by (simp add: rd_def)
    next
      case pos: False
      have "?B = 2 ^ nat (cut_bits m e + 52 - cut_bits n e) * 2 ^ nat (cut_bits n e)"
        using pos lt by (simp flip: power_add add: nat_add_distrib [symmetric])
      then show ?thesis
        using rhe_mono [OF \<open>n \<le> ?B\<close>, of "nat (cut_bits n e)"] pos by (simp add: rd_def rhe_exact)
    qed
    from n m show ?thesis by (rule order_trans)
  qed
qed

lemma rhe_scale: "0 < s \<Longrightarrow> round_half_even (n * 2 ^ k) (s + k) = round_half_even n s"
proof -
  assume s: "0 < s"
  have "(2::nat) ^ (s + k - 1) = 2 ^ (s - 1) * 2 ^ k" using s by (simp flip: power_add)
  then show ?thesis
    by (simp add: round_half_even_def Let_def power_add flip: mult_mod_left)
qed

lemma rd_scale: "rd (n * 2 ^ k) (e - int k) = rd n e * 2 ^ k"
proof (cases "n = 0")
  case True
  then show ?thesis
    using rhe_exact [of 0] by (simp add: rd_def)
next
  case False
  then have c: "cut_bits (n * 2 ^ k) (e - int k) = cut_bits n e + int k" by (simp add: cut_bits_def bitlen_scale)
  show ?thesis
  proof (cases "cut_bits n e \<le> 0")
    case neg: True
    show ?thesis
    proof (cases "cut_bits n e + int k \<le> 0")
      case True
      with neg c show ?thesis by (simp add: rd_def)
    next
      case False
      let ?s = "nat (cut_bits n e + int k)"
      have "k = (k - ?s) + ?s" using neg False by simp
      then have eq: "n * 2 ^ k = n * 2 ^ (k - ?s) * 2 ^ ?s" by (metis mult.assoc power_add)
      have "round_half_even (n * 2 ^ k) ?s * 2 ^ ?s = n * 2 ^ k"
        by (simp only: eq rhe_exact)
      then show ?thesis using neg False c by (simp add: rd_def)
    qed
  next
    case pos: False
    then have "nat (cut_bits n e + int k) = nat (cut_bits n e) + k" by simp
    then show ?thesis
      using pos c rhe_scale [of "nat (cut_bits n e)" n k] by (simp add: rd_def power_add)
  qed
qed

section \<open>Values\<close>

definition dy :: "int \<Rightarrow> int \<Rightarrow> real" where
  "dy m e = real_of_int m * 2 powi e"

definition huge :: real where
  "huge = 2 powi 1024"

definition fval :: "f64 \<Rightarrow> real" where
  "fval x = (case x of NaN \<Rightarrow> 0 | Inf b \<Rightarrow> (if b then - huge else huge) | Fin m e \<Rightarrow> dy m e)"

fun wf_f64 :: "f64 \<Rightarrow> bool" where
  "wf_f64 (Fin m e) =
     (m = 0 \<and> e = 0 \<or>
      odd m \<and> bitlen (nat \<bar>m\<bar>) \<le> 53 \<and> - 1074 \<le> e \<and> int (bitlen (nat \<bar>m\<bar>)) + e \<le> 1024)"
| "wf_f64 x = True"

lemma huge_pos: "0 < huge"
  by (simp add: huge_def)

lemma powi_two_pos [simp]: "(0::real) < 2 powi e" "(2::real) powi e \<noteq> 0"
  by simp_all

lemma dy_shift: "dy (m * 2 ^ k) e = dy m (e + int k)"
  by (simp add: dy_def power_int_add)

lemma dy_0 [simp]: "dy 0 e = 0"
  by (simp add: dy_def)

lemma dy_abs: "\<bar>dy m e\<bar> = dy \<bar>m\<bar> e"
  by (simp add: dy_def abs_mult)

lemma dy_eq_iff: "dy m e = dy n e \<longleftrightarrow> m = n"
  by (simp add: dy_def)

lemma dy_add: "dy m e + dy n e = dy (m + n) e"
  by (simp add: dy_def distrib_right)

lemma dy_less_iff: "dy m e < dy n e \<longleftrightarrow> m < n" and dy_le_iff: "dy m e \<le> dy n e \<longleftrightarrow> m \<le> n"
  by (simp_all add: dy_def)

lemma canon_dy:
  assumes "canon m e = (c, k)"
  shows "dy c k = dy m e \<and> (c = 0 \<and> k = 0 \<or> odd c) \<and> (m \<noteq> 0 \<longrightarrow> odd c \<and> e \<le> k \<and> \<bar>c\<bar> \<le> \<bar>m\<bar>)"
  using assms
proof (induction m e arbitrary: c k rule: canon.induct)
  case (1 m e)
  show ?case
  proof (cases "m = 0 \<or> odd m")
    case True
    with "1.prems" show ?thesis by (auto simp: canon.simps [of m e] split: if_splits)
  next
    case False
    then have eq: "canon (m div 2) (e + 1) = (c, k)"
      using "1.prems" by (simp add: canon.simps [of m e])
    note ih = "1.IH" [OF _ _ eq]
    have "m = m div 2 * 2 ^ 1" using False by simp
    then have "dy m e = dy (m div 2) (e + int 1)" by (metis dy_shift)
    moreover have "m div 2 \<noteq> 0" "\<bar>m div 2\<bar> \<le> \<bar>m\<bar>" using False by auto
    ultimately show ?thesis using ih False by auto
  qed
qed

section \<open>Rounding\<close>

definition rdv :: "int \<Rightarrow> int \<Rightarrow> real" where
  "rdv m e = dy (sgn m * int (rd (nat \<bar>m\<bar>) e)) e"

lemma rd_0 [simp]: "rd 0 e = 0"
  using rhe_exact [of 0] by (simp add: rd_def)

lemma dy_neg: "dy (- m) e = - dy m e"
  by (simp add: dy_def)

lemma rdv_mono: "m \<le> n \<Longrightarrow> rdv m e \<le> rdv n e"
  using rd_mono [of "nat \<bar>m\<bar>" "nat \<bar>n\<bar>" e] rd_mono [of "nat \<bar>n\<bar>" "nat \<bar>m\<bar>" e]
  by (auto simp: rdv_def dy_le_iff sgn_if)

lemma rdv_scale: "rdv (m * 2 ^ k) (e - int k) = rdv m e"
proof -
  have "nat \<bar>m * 2 ^ k\<bar> = nat \<bar>m\<bar> * 2 ^ k" by (simp add: abs_mult nat_mult_distrib nat_power_eq)
  moreover have "sgn (m * 2 ^ k) = sgn m" by (simp add: sgn_mult)
  ultimately have "rdv (m * 2 ^ k) (e - int k) = dy (sgn m * int (rd (nat \<bar>m\<bar>) e) * 2 ^ k) (e - int k)"
    by (simp add: rdv_def rd_scale mult.assoc)
  then show ?thesis by (simp add: dy_shift rdv_def)
qed

lemma rdv_dy_mono:
  assumes "dy m1 e1 \<le> dy m2 e2"
  shows "rdv m1 e1 \<le> rdv m2 e2"
proof -
  let ?e = "min e1 e2"
  let ?n1 = "m1 * 2 ^ nat (e1 - ?e)" and ?n2 = "m2 * 2 ^ nat (e2 - ?e)"
  have "dy ?n1 ?e = dy m1 e1" "dy ?n2 ?e = dy m2 e2" by (simp_all add: dy_shift)
  with assms have "?n1 \<le> ?n2" by (metis dy_le_iff)
  moreover have "rdv ?n1 ?e = rdv m1 e1" "rdv ?n2 ?e = rdv m2 e2"
    using rdv_scale [of m1 "nat (e1 - ?e)" e1] rdv_scale [of m2 "nat (e2 - ?e)" e2] by simp_all
  ultimately show ?thesis using rdv_mono by metis
qed

text \<open>\<open>f64_round\<close> is this rounding, with the infinities for what is out of range.\<close>

lemma dy_huge:
  assumes "0 < n"
  shows "1024 < int (bitlen n) + e \<longleftrightarrow> huge \<le> dy (int n) e"
proof -
  have "real (2 ^ (bitlen n - 1)) \<le> real n" "real n < real (2 ^ bitlen n)"
    using bitlen_bounds [OF assms] by (simp_all only: of_nat_le_iff of_nat_less_iff)
  moreover have "int (bitlen n) - 1 = int (bitlen n - 1)" using bitlen_pos [OF assms] by simp
  ultimately have lo: "2 powi (int (bitlen n) - 1) \<le> real n" and hi: "real n < 2 powi (int (bitlen n))"
    by (simp_all del: of_nat_diff)
  show ?thesis
  proof
    assume "1024 < int (bitlen n) + e"
    then have "huge \<le> 2 powi (int (bitlen n) - 1 + e)"
      unfolding huge_def by (intro power_int_increasing) auto
    also have "\<dots> = 2 powi (int (bitlen n) - 1) * 2 powi e" by (rule power_int_add) simp
    also have "\<dots> \<le> dy (int n) e" using lo by (simp add: dy_def)
    finally show "huge \<le> dy (int n) e" .
  next
    assume h: "huge \<le> dy (int n) e"
    show "1024 < int (bitlen n) + e"
    proof (rule ccontr)
      assume "\<not> 1024 < int (bitlen n) + e"
      then have "2 powi (int (bitlen n) + e) \<le> huge"
        unfolding huge_def by (intro power_int_increasing) auto
      moreover have "dy (int n) e < 2 powi (int (bitlen n) + e)"
        using hi by (simp add: dy_def power_int_add)
      ultimately show False using h by simp
    qed
  qed
qed

lemma f64_round_cases:
  assumes "m \<noteq> 0"
  obtains n e' where "f64_round m e =
      (if 1024 < int (bitlen n) + e' then Inf (m < 0) else (case canon (sgn m * int n) e' of (c, k) \<Rightarrow> Fin c k))"
    and "dy (int n) e' = dy (int (rd (nat \<bar>m\<bar>) e)) e" and "n \<le> 2 ^ 53" and "- 1074 \<le> e'" and "n = 0 \<longrightarrow> e' = - 1074"
proof (cases "cut_bits (nat \<bar>m\<bar>) e \<le> 0")
  case True
  show ?thesis
  proof (rule that [of "nat \<bar>m\<bar>" e])
    show "f64_round m e = (if 1024 < int (bitlen (nat \<bar>m\<bar>)) + e then Inf (m < 0)
        else (case canon (sgn m * int (nat \<bar>m\<bar>)) e of (c, k) \<Rightarrow> Fin c k))"
      using True assms by (simp add: f64_round_def Let_def cut_bits_def)
    show "dy (int (nat \<bar>m\<bar>)) e = dy (int (rd (nat \<bar>m\<bar>) e)) e" using True by (simp add: rd_def)
    have "bitlen (nat \<bar>m\<bar>) \<le> 53" using True by (simp add: cut_bits_def)
    then show "nat \<bar>m\<bar> \<le> 2 ^ 53"
      using bitlen_bounds [of "nat \<bar>m\<bar>"] assms power_increasing [of "bitlen (nat \<bar>m\<bar>)" 53 "2 :: nat"] by linarith
    show "- 1074 \<le> e" using True by (simp add: cut_bits_def)
    show "nat \<bar>m\<bar> = 0 \<longrightarrow> e = - 1074" using assms by simp
  qed
next
  case False
  let ?s = "cut_bits (nat \<bar>m\<bar>) e" and ?n = "nat \<bar>m\<bar>"
  let ?r = "round_half_even ?n (nat ?s)"
  show ?thesis
  proof (rule that [of ?r "e + ?s"])
    show "f64_round m e = (if 1024 < int (bitlen ?r) + (e + ?s) then Inf (m < 0)
        else (case canon (sgn m * int ?r) (e + ?s) of (c, k) \<Rightarrow> Fin c k))"
      using False assms by (simp add: f64_round_def Let_def flip: cut_bits_def)
    show "dy (int ?r) (e + ?s) = dy (int (rd ?n e)) e"
      using False dy_shift [of "int ?r" "nat ?s" e] by (simp add: rd_def)
    have "?n \<le> 2 ^ 53 * 2 ^ nat ?s"
    proof -
      have "0 < ?n" using assms by simp
      note bitlen_bounds [OF this, THEN conjunct2]
      also have "(2 :: nat) ^ bitlen ?n \<le> 2 ^ (53 + nat ?s)"
        using False by (intro power_increasing) (simp_all add: cut_bits_def)
      finally show ?thesis by (simp only: power_add less_imp_le)
    qed
    then show "?r \<le> 2 ^ 53" using rhe_mono rhe_exact by metis
    show "- 1074 \<le> e + ?s" unfolding cut_bits_def by linarith
    show "?r = 0 \<longrightarrow> e + ?s = - 1074"
    proof (rule ccontr)
      assume "\<not> (?r = 0 \<longrightarrow> e + ?s = - 1074)"
      then have r: "?r = 0" and "?s \<noteq> - 1074 - e" by auto
      then have s: "?s = int (bitlen ?n) - 53" by (auto simp: cut_bits_def max_def split: if_splits)
      have "2 ^ 52 * 2 ^ nat ?s = (2 :: nat) ^ (bitlen ?n - 1)"
      proof -
        have "bitlen ?n - 1 = 52 + nat ?s" using s False by (simp add: nat_diff_distrib)
        then show ?thesis by (simp only: power_add)
      qed
      also have "\<dots> \<le> ?n" using bitlen_bounds [of ?n] assms by simp
      finally have "2 ^ 52 \<le> ?r" using rhe_mono rhe_exact by metis
      with r show False by simp
    qed
  qed
qed

lemma fval_round: "fval (f64_round m e) = max (- huge) (min huge (rdv m e))"
proof (cases "m = 0")
  case True
  then show ?thesis using huge_pos by (simp add: f64_round_def fval_def rdv_def)
next
  case False
  then obtain n e' where r: "f64_round m e =
      (if 1024 < int (bitlen n) + e' then Inf (m < 0) else (case canon (sgn m * int n) e' of (c, k) \<Rightarrow> Fin c k))"
    and v: "dy (int n) e' = dy (int (rd (nat \<bar>m\<bar>) e)) e" and 0: "n = 0 \<longrightarrow> e' = - 1074"
    by (rule f64_round_cases)
  have val: "rdv m e = sgn (real_of_int m) * dy (int n) e'"
    using v by (auto simp: rdv_def dy_def sgn_if)
  have nonneg: "0 \<le> dy (int n) e'" by (simp add: dy_def)
  show ?thesis
  proof (cases "huge \<le> dy (int n) e'")
    case True
    then have "0 < n" using huge_pos by (cases n) auto
    then have "f64_round m e = Inf (m < 0)" using r dy_huge [of n e'] True by simp
    then show ?thesis using True huge_pos \<open>m \<noteq> 0\<close> val by (auto simp: fval_def sgn_if)
  next
    case False
    obtain c k where ck: "canon (sgn m * int n) e' = (c, k)" by (cases "canon (sgn m * int n) e'")
    have "f64_round m e = Fin c k"
      using r ck 0 dy_huge [of n e'] False by (cases "n = 0") simp_all
    moreover have "dy c k = sgn (real_of_int m) * dy (int n) e'"
      using canon_dy [OF ck] by (auto simp: dy_def sgn_if)
    ultimately show ?thesis using val nonneg False by (auto simp: fval_def sgn_if)
  qed
qed

lemma fval_round_mono: "dy m1 e1 \<le> dy m2 e2 \<Longrightarrow> fval (f64_round m1 e1) \<le> fval (f64_round m2 e2)"
  using rdv_dy_mono [of m1 e1 m2 e2] by (auto simp: fval_round)

text \<open>The result is a number of the format, and numbers of the format are left as they are.\<close>

lemma wf_round: "wf_f64 (f64_round m e)"
proof (cases "m = 0")
  case True
  then show ?thesis by (simp add: f64_round_def)
next
  case False
  then obtain n e' where r: "f64_round m e =
      (if 1024 < int (bitlen n) + e' then Inf (m < 0) else (case canon (sgn m * int n) e' of (c, k) \<Rightarrow> Fin c k))"
    and n: "n \<le> 2 ^ 53" and e': "- 1074 \<le> e'"
    by (rule f64_round_cases)
  obtain c k where ck: "canon (sgn m * int n) e' = (c, k)" by (cases "canon (sgn m * int n) e'")
  note cd = canon_dy [OF ck]
  show ?thesis
  proof (cases "n = 0 \<or> 1024 < int (bitlen n) + e'")
    case True
    then show ?thesis using r ck cd by (auto simp: canon.simps)
  next
    case fin: False
    then have odd: "odd c" and ek: "e' \<le> k" and le: "nat \<bar>c\<bar> \<le> n" and v: "dy c k = dy (sgn m * int n) e'"
      using cd False by (auto simp: abs_mult sgn_if split: if_splits)
    then have "dy \<bar>c\<bar> k = dy \<bar>sgn m * int n\<bar> e'" by (simp only: dy_abs [symmetric])
    then have "dy (int (nat \<bar>c\<bar>)) k = dy (int n) e'" using False by (simp add: abs_mult)
    then have "int (bitlen (nat \<bar>c\<bar>)) + k \<le> 1024"
      using fin dy_huge [of n e'] dy_huge [of "nat \<bar>c\<bar>" k] odd by force
    have "odd (nat \<bar>c\<bar>)" using odd by (simp add: even_nat_iff)
    moreover have "even (2 ^ 53 :: nat)" by simp
    ultimately have "nat \<bar>c\<bar> \<noteq> 2 ^ 53" by metis
    then have "bitlen (nat \<bar>c\<bar>) \<le> 53" using le n by (intro bitlen_le) linarith
    with \<open>int (bitlen (nat \<bar>c\<bar>)) + k \<le> 1024\<close> have "wf_f64 (Fin c k)" using odd ek e' by simp
    then show ?thesis using fin r ck by simp
  qed
qed

lemma round_wf: "wf_f64 (Fin m e) \<Longrightarrow> f64_round m e = Fin m e"
proof (cases "m = 0")
  case False
  assume wf: "wf_f64 (Fin m e)"
  with False have "canon m e = (m, e)" by (subst canon.simps) simp
  then show ?thesis using False wf by (simp add: f64_round_def mult_sgn_abs)
qed (simp add: f64_round_def)

lemma fval_round_wf: "wf_f64 (Fin m e) \<Longrightarrow> dy m e \<le> dy n f \<Longrightarrow> dy m e \<le> fval (f64_round n f)"
  and fval_round_wf': "wf_f64 (Fin m e) \<Longrightarrow> dy n f \<le> dy m e \<Longrightarrow> fval (f64_round n f) \<le> dy m e"
  using fval_round_mono [of m e n f] fval_round_mono [of n f m e] round_wf [of m e]
  by (simp_all add: fval_def)

section \<open>Comparison\<close>

lemma wf_bound: "wf_f64 (Fin m e) \<Longrightarrow> \<bar>dy m e\<bar> < huge"
proof (cases "m = 0")
  case False
  assume "wf_f64 (Fin m e)"
  with False have "\<not> 1024 < int (bitlen (nat \<bar>m\<bar>)) + e" by auto
  with dy_huge [of "nat \<bar>m\<bar>" e] False show ?thesis by (simp add: dy_abs)
qed (simp add: huge_pos)

lemma less_fval:
  assumes "wf_f64 x" "wf_f64 y" "x \<noteq> NaN" "y \<noteq> NaN"
  shows "f64_less x y \<longleftrightarrow> fval x < fval y"
proof (cases x; cases y)
  fix m1 e1 m2 e2
  assume xy: "x = Fin m1 e1" "y = Fin m2 e2"
  let ?e = "min e1 e2"
  let ?n1 = "m1 * 2 ^ nat (e1 - ?e)" and ?n2 = "m2 * 2 ^ nat (e2 - ?e)"
  have "dy ?n1 ?e = dy m1 e1" "dy ?n2 ?e = dy m2 e2" by (simp_all add: dy_shift)
  then show ?thesis using xy dy_less_iff [of ?n1 ?e ?n2] by (simp add: fval_def Let_def)
next
  fix m e b
  assume "x = Fin m e" "y = Inf b"
  then show ?thesis using wf_bound [of m e] assms huge_pos by (cases b) (auto simp: fval_def)
next
  fix m e b
  assume "x = Inf b" "y = Fin m e"
  then show ?thesis using wf_bound [of m e] assms huge_pos by (cases b) (auto simp: fval_def)
qed (use assms huge_pos in \<open>auto simp: fval_def\<close>)

lemma dy_unique:
  assumes "odd m" "odd n" "dy m e = dy n f"
  shows "m = n \<and> e = f"
proof -
  have *: "e = f" if "e \<le> f" "odd m" "dy m e = dy n f" for m n e f
  proof (rule ccontr)
    assume "e \<noteq> f"
    with that have "0 < nat (f - e)" by simp
    have "dy (n * 2 ^ nat (f - e)) e = dy n f" using that by (simp add: dy_shift)
    with that have "dy m e = dy (n * 2 ^ nat (f - e)) e" by simp
    then have "m = n * 2 ^ nat (f - e)" by (simp only: dy_eq_iff)
    with \<open>0 < nat (f - e)\<close> that(2) show False by simp
  qed
  have "e = f"
    using * [of e f m n] * [of f e n m] assms by (cases "e \<le> f") auto
  with assms show ?thesis by (simp add: dy_def)
qed

lemma fval_inj:
  assumes "wf_f64 x" "wf_f64 y" "x \<noteq> NaN" "y \<noteq> NaN" "fval x = fval y"
  shows "x = y"
proof (cases x; cases y)
  fix m1 e1 m2 e2
  assume xy: "x = Fin m1 e1" "y = Fin m2 e2"
  with assms have eq: "dy m1 e1 = dy m2 e2" by (simp add: fval_def)
  then have "m1 = 0 \<longleftrightarrow> m2 = 0" by (auto simp: dy_def)
  then show ?thesis using eq xy assms dy_unique [of m1 m2 e1 e2] by auto
next
  fix m e b
  assume "x = Fin m e" "y = Inf b"
  then show ?thesis using wf_bound [of m e] assms by (cases b) (auto simp: fval_def)
next
  fix m e b
  assume "x = Inf b" "y = Fin m e"
  then show ?thesis using wf_bound [of m e] assms by (cases b) (auto simp: fval_def)
qed (use assms huge_pos in \<open>auto simp: fval_def split: if_splits\<close>)

section \<open>Arithmetic\<close>

definition finite_f64 :: "f64 \<Rightarrow> bool" where
  "finite_f64 x = (wf_f64 x \<and> (case x of Fin m e \<Rightarrow> True | _ \<Rightarrow> False))"

lemma finite_f64_Fin: "finite_f64 x \<longleftrightarrow> (\<exists>m e. x = Fin m e \<and> wf_f64 (Fin m e))"
  by (cases x) (auto simp: finite_f64_def)

lemma add_round:
  obtains m e where "f64_add (Fin m1 e1) (Fin m2 e2) = f64_round m e" "dy m e = dy m1 e1 + dy m2 e2"
proof
  let ?e = "min e1 e2"
  let ?n1 = "m1 * 2 ^ nat (e1 - ?e)" and ?n2 = "m2 * 2 ^ nat (e2 - ?e)"
  show "f64_add (Fin m1 e1) (Fin m2 e2) = f64_round (?n1 + ?n2) ?e" by (simp add: Let_def)
  have "dy ?n1 ?e = dy m1 e1" "dy ?n2 ?e = dy m2 e2" by (simp_all add: dy_shift)
  then show "dy (?n1 + ?n2) ?e = dy m1 e1 + dy m2 e2" by (simp only: dy_add [symmetric])
qed

lemma mul_round: "dy (m1 * m2) (e1 + e2) = dy m1 e1 * dy m2 e2"
  by (simp add: dy_def power_int_add)

text \<open>Adding something that is not negative does not make a sum smaller.\<close>

lemma wf_add: "wf_f64 x \<Longrightarrow> wf_f64 y \<Longrightarrow> wf_f64 (f64_add x y)"
  by (cases x; cases y) (auto simp: wf_round Let_def simp del: wf_f64.simps(1))

lemma wf_mul: "wf_f64 (f64_mul x y)"
  by (cases x; cases y) (auto simp: wf_round simp del: wf_f64.simps(1)) 

section \<open>Division\<close>

text \<open>The quotient of two positive numbers as it is cut off, with the last bit that says so.\<close>

definition sticky :: "nat \<Rightarrow> nat \<Rightarrow> nat" where
  "sticky n d = 2 * (n div d) + (if n mod d \<noteq> 0 then 1 else 0)"

lemma sticky_le:
  assumes "n \<le> d * u" "0 < d"
  shows "sticky n d \<le> 2 * u"
proof (cases "n div d < u")
  case True
  then show ?thesis by (simp add: sticky_def)
next
  case False
  have "n div d \<le> u" using assms by (metis div_le_mono nonzero_mult_div_cancel_left less_numeral_extra(3))
  with False have "n div d = u" by simp
  moreover have "n = d * u + n mod d" using calculation by (metis mult_div_mod_eq)
  ultimately have "n mod d = 0" using assms by linarith
  with \<open>n div d = u\<close> show ?thesis by (simp add: sticky_def)
qed

lemma sticky_ge:
  assumes "d * u \<le> n" "0 < d"
  shows "2 * u \<le> sticky n d"
proof -
  have "u \<le> n div d" using assms by (metis div_le_mono nonzero_mult_div_cancel_left less_numeral_extra(3))
  then show ?thesis by (simp add: sticky_def)
qed

lemma div_sticky:
  assumes "0 < a" "0 < d"
  obtains k where "f64_div (Fin a e) (Fin d f) = f64_round (int (sticky (nat a * 2 ^ k) (nat d))) (e - f - int k - 1)"
    and "2 ^ 55 * nat d < nat a * 2 ^ k"
proof -
  let ?k = "55 + bitlen (nat d)"
  have "nat d < 2 ^ bitlen (nat d)" using assms bitlen_bounds [of "nat d"] by simp
  then have "2 ^ 55 * nat d < 2 ^ ?k" by (simp add: power_add)
  also have "\<dots> \<le> nat a * 2 ^ ?k" using assms by simp
  finally have "2 ^ 55 * nat d < nat a * 2 ^ ?k" .
  moreover have "f64_div (Fin a e) (Fin d f) = f64_round (int (sticky (nat a * 2 ^ ?k) (nat d))) (e - f - int ?k - 1)"
    using assms by (simp add: Let_def sticky_def)
  ultimately show ?thesis using that by blast
qed

lemma real_dy_div:
  assumes "0 < a"
  shows "dy a e = dy (int (2 * (nat a * 2 ^ k))) (e - f - int k - 1) * 2 powi f"
proof -
  have "dy (int (2 * (nat a * 2 ^ k))) (e - f - int k - 1) = dy (a * 2 ^ (k + 1)) (e - f - int (k + 1))"
    using assms by (simp add: algebra_simps)
  also have "\<dots> = dy a (e - f)" by (simp only: dy_shift) simp
  finally show ?thesis by (simp add: dy_def power_int_diff)
qed

lemma div_bound:
  assumes "0 < a" "0 < d" and b: "wf_f64 (Fin b g)"
  shows "dy a e \<le> dy b g * dy d f \<Longrightarrow> fval (f64_div (Fin a e) (Fin d f)) \<le> dy b g"
    and "dy b g * dy d f \<le> dy a e \<Longrightarrow> dy b g \<le> fval (f64_div (Fin a e) (Fin d f))"
proof -
  obtain k where r: "f64_div (Fin a e) (Fin d f) =
      f64_round (int (sticky (nat a * 2 ^ k) (nat d))) (e - f - int k - 1)"
    and big: "2 ^ 55 * nat d < nat a * 2 ^ k"
    using div_sticky [OF assms(1, 2)] .
  define N where "N = nat a * 2 ^ k"
  define D where "D = nat d"
  define E where "E = e - f - int k - 1"
  have D: "0 < D" "int D = d" using assms by (simp_all add: D_def)
  have dyd: "dy d f = real D * 2 powi f" using D by (simp add: dy_def flip: D(2))
  have dya: "dy a e = 2 * real N * 2 powi E * 2 powi f"
    using real_dy_div [OF assms(1), of e k f] by (simp add: dy_def N_def E_def)
  have small: "real_of_int b < 2 ^ 53"
  proof (cases "b \<le> 0")
    case False
    then have "bitlen (nat b) \<le> 53" using b by auto
    then have "nat b < 2 ^ 53" by (rule bitlen_less)
    then have "real (nat b) < real (2 ^ 53)" by (simp only: of_nat_less_iff)
    then show ?thesis using False by simp
  next
    case True
    then have "real_of_int b \<le> 0" by simp
    then show ?thesis by (rule order_le_less_trans) simp
  qed
  have low: "dy b g < dy (2 ^ 53) E" if "g \<le> E"
  proof -
    have "dy b g < 2 ^ 53 * 2 powi g" using small by (simp add: dy_def)
    also have "\<dots> \<le> 2 ^ 53 * 2 powi E" using that by (intro mult_left_mono power_int_increasing) auto
    finally show ?thesis by (simp add: dy_def)
  qed
  have high: "2 ^ 55 * real D < real N"
  proof -
    have "real (2 ^ 55 * D) < real N" using big unfolding N_def D_def by (simp only: of_nat_less_iff)
    then show ?thesis by simp
  qed
  have cmp: "dy a e \<le> dy b g * dy d f \<longleftrightarrow> 2 * real N * 2 powi E \<le> dy b g * real D"
    "dy b g * dy d f \<le> dy a e \<longleftrightarrow> dy b g * real D \<le> 2 * real N * 2 powi E"
    by (simp_all add: dya dyd flip: mult.assoc)
  have even: "\<exists>u. dy b g = dy (2 * u) E" if "E < g"
  proof
    have "nat (g - E) = Suc (nat (g - E - 1))" using that by simp
    then have "dy (2 * (b * 2 ^ nat (g - E - 1))) E = dy (b * 2 ^ nat (g - E)) E" by (simp add: mult.left_commute)
    also have "\<dots> = dy b g" using that by (simp add: dy_shift)
    finally show "dy b g = dy (2 * (b * 2 ^ nat (g - E - 1))) E" by simp
  qed
  show "fval (f64_div (Fin a e) (Fin d f)) \<le> dy b g" if "dy a e \<le> dy b g * dy d f"
  proof (cases "E < g")
    case True
    then obtain u where u: "dy b g = dy (2 * u) E" using even by auto
    have "2 * real N * 2 powi E \<le> dy b g * real D" using that cmp(1) by blast
    also have "\<dots> = 2 * (real_of_int u * real D) * 2 powi E" unfolding u by (simp add: dy_def)
    finally have "real N * (2 * 2 powi E) \<le> (real_of_int u * real D) * (2 * 2 powi E)" by (simp only: ac_simps)
    then have le: "real N \<le> real_of_int u * real D" by (rule mult_right_le_imp_le) simp
    have "0 \<le> u"
    proof (rule ccontr)
      assume "\<not> 0 \<le> u"
      then have "real_of_int u * real D \<le> 0" by (intro mult_nonpos_nonneg) simp_all
      moreover have "0 \<le> 2 ^ 55 * real D" by simp
      ultimately show False using le high by linarith
    qed
    with le have "real N \<le> real (D * nat u)" by (simp add: mult.commute)
    then have "N \<le> D * nat u" by (simp only: of_nat_le_iff)
    then have "sticky N D \<le> 2 * nat u" by (rule sticky_le [OF _ D(1)])
    then have "int (sticky N D) \<le> 2 * u" using \<open>0 \<le> u\<close> by linarith
    then have "dy (int (sticky N D)) E \<le> dy b g" by (simp only: u dy_le_iff)
    then show ?thesis using fval_round_wf' [OF b] r by (simp add: N_def D_def E_def)
  next
    case False
    then have "dy b g < 2 ^ 53 * 2 powi E" using low by (simp add: dy_def)
    then have "dy b g * real D < 2 ^ 53 * 2 powi E * real D" using D by simp
    also have "\<dots> \<le> 2 * real N * 2 powi E"
      using high D by simp
    finally show ?thesis using that cmp by simp
  qed
  show "dy b g \<le> fval (f64_div (Fin a e) (Fin d f))" if "dy b g * dy d f \<le> dy a e"
  proof -
    have "dy b g \<le> dy (int (sticky N D)) E"
    proof (cases "E < g")
      case True
      then obtain u where u: "dy b g = dy (2 * u) E" using even by auto
      show ?thesis
      proof (cases "u \<le> 0")
        case True
        then show ?thesis unfolding u dy_le_iff by linarith
      next
        case False
        have "2 * (real_of_int u * real D) * 2 powi E = dy b g * real D" unfolding u by (simp add: dy_def)
        also have "\<dots> \<le> 2 * real N * 2 powi E" using that cmp(2) by blast
        finally have "(real_of_int u * real D) * (2 * 2 powi E) \<le> real N * (2 * 2 powi E)" by (simp only: ac_simps)
        then have "real_of_int u * real D \<le> real N" by (rule mult_right_le_imp_le) simp
        with False have "real (D * nat u) \<le> real N" by (simp add: mult.commute)
        then have "D * nat u \<le> N" by (simp only: of_nat_le_iff)
        then have "2 * nat u \<le> sticky N D" using D by (intro sticky_ge)
        then show ?thesis unfolding u dy_le_iff by linarith
      qed
    next
      case False
      have "2 ^ 55 * D \<le> N" using big by (simp add: N_def D_def)
      then have "2 * 2 ^ 55 \<le> sticky N D" using D by (intro sticky_ge) (simp_all add: mult.commute)
      then have "dy (2 ^ 53) E \<le> dy (int (sticky N D)) E" by (simp add: dy_le_iff)
      with low False show ?thesis by simp
    qed
    then show ?thesis using fval_round_wf [OF b] r by (simp add: N_def D_def E_def)
  qed
qed

lemma rhe_le: "0 < s \<Longrightarrow> round_half_even n s * 2 ^ s \<le> n + 2 ^ (s - 1)"
proof -
  assume "0 < s"
  then have h: "(2 :: nat) ^ s = 2 * 2 ^ (s - 1)" by (cases s) auto
  have "n = n div 2 ^ s * 2 ^ s + n mod 2 ^ s" by (simp only: div_mult_mod_eq)
  then show ?thesis
    unfolding round_half_even_def Let_def using h by (auto simp: distrib_right)
qed

lemma sticky_error:
  assumes "0 < d" "1 < s" "bitlen (sticky n d) = s + 53"
  shows "real (round_half_even (sticky n d) s * 2 ^ s * d) \<le> 2 * real n * (1 + 2 powi - 53)"
proof -
  let ?S = "sticky n d" and ?R = "round_half_even (sticky n d) s * 2 ^ s" and ?Q = "2 * (n div d)"
  have h: "even (2 ^ (s - 1) :: nat)" "even ?R" "even (2 ^ (52 + s) :: nat)" using assms(2) by auto
  have le: "?R \<le> ?S + 2 ^ (s - 1)" using assms(2) by (intro rhe_le) simp
  have top: "2 ^ (52 + s) \<le> ?S"
    using bitlen_bounds [of ?S] assms(3) by (cases "?S = 0") auto
  have R: "?R * d \<le> 2 * n + 2 ^ (s - 1) * d \<and> 2 ^ (52 + s) * d \<le> 2 * n"
  proof (cases "n mod d = 0")
    case True
    then have S: "?S = ?Q" and "?Q * d = 2 * n" by (auto simp: sticky_def)
    have "?R * d \<le> (?S + 2 ^ (s - 1)) * d" "2 ^ (52 + s) * d \<le> ?S * d"
      using le top by (simp_all only: mult_le_mono1)
    then show ?thesis using S \<open>?Q * d = 2 * n\<close> by (simp add: distrib_right)
  next
    case False
    then have S: "?S = ?Q + 1" by (simp add: sticky_def)
    then have "?R \<noteq> ?S + 2 ^ (s - 1)" "?S \<noteq> 2 ^ (52 + s)" using h by (metis even_add even_mult_iff odd_one even_numeral)+
    then have A: "?R \<le> ?Q + 2 ^ (s - 1)" and B: "2 ^ (52 + s) \<le> ?Q" using le top S by auto
    have 1: "?R * d \<le> ?Q * d + 2 ^ (s - 1) * d"
      using mult_le_mono1 [OF A, of d] by (simp only: distrib_right)
    have 2: "2 ^ (52 + s) * d \<le> ?Q * d" by (rule mult_le_mono1 [OF B])
    have "n div d * d \<le> n" by simp
    then have "?Q * d \<le> 2 * n" by linarith
    with 1 2 show ?thesis by linarith
  qed
  have "real (2 ^ (52 + s) * d) \<le> real (2 * n)" using R by (simp only: of_nat_le_iff)
  moreover have "(2 :: real) ^ (52 + s) = 2 ^ (s - 1) * 2 ^ 53"
  proof -
    have "52 + s = s - 1 + 53" using assms(2) by simp
    then show ?thesis by (simp only: power_add)
  qed
  ultimately have "2 ^ (s - 1) * real d \<le> 2 * real n * 2 powi - 53" by (simp add: power_int_minus field_simps)
  moreover have "real (?R * d) \<le> real (2 * n + 2 ^ (s - 1) * d)" using R by (simp only: of_nat_le_iff)
  ultimately show ?thesis by (simp add: distrib_left)
qed

lemma div_error:
  assumes "0 < a" "0 < d" and normal: "2 powi - 1022 * dy d f \<le> dy a e"
  shows "fval (f64_div (Fin a e) (Fin d f)) * dy d f \<le> dy a e * (1 + 2 powi - 53)"
proof -
  obtain k where r: "f64_div (Fin a e) (Fin d f) =
      f64_round (int (sticky (nat a * 2 ^ k) (nat d))) (e - f - int k - 1)"
    and big: "2 ^ 55 * nat d < nat a * 2 ^ k"
    using div_sticky [OF assms(1, 2)] .
  define N where "N = nat a * 2 ^ k"
  define D where "D = nat d"
  define E where "E = e - f - int k - 1"
  define S where "S = sticky N D"
  have D: "0 < D" "int D = d" using assms by (simp_all add: D_def)
  have dyd: "dy d f = real D * 2 powi f" using D by (simp add: dy_def flip: D(2))
  have dya: "dy a e = 2 * real N * 2 powi E * 2 powi f"
    using real_dy_div [OF assms(1), of e k f] by (simp add: dy_def N_def E_def)
  have "2 ^ 55 * D \<le> N" using big by (simp add: N_def D_def)
  then have "2 * 2 ^ 55 \<le> S" using D unfolding S_def by (intro sticky_ge) (simp_all add: mult.commute)
  then have "2 ^ 56 \<le> S" by simp
  then have len: "57 \<le> bitlen S" using bitlen_mono [of "2 ^ 56" S] by (simp add: bitlen.simps)
  have cut: "cut_bits S E = int (bitlen S) - 53"
  proof (cases "- 1022 \<le> E")
    case True
    then show ?thesis using len by (simp add: cut_bits_def)
  next
    case False
    let ?u = "2 ^ nat (- 1023 - E) :: nat"
    have "2 * real ?u * 2 powi E = 2 powi (- 1022)"
    proof -
      have "nat (- 1022 - E) = Suc (nat (- 1023 - E))" using False by simp
      then have "2 * real ?u = 2 powi (- 1022 - E)" using False by (simp add: power_int_def)
      then show ?thesis by (simp flip: power_int_add)
    qed
    moreover have "2 powi (- 1022) * real D * 2 powi f \<le> 2 * real N * 2 powi E * 2 powi f"
      using normal by (simp add: dyd dya mult.assoc)
    then have "2 powi (- 1022) * real D \<le> 2 * real N * 2 powi E" by (rule mult_right_le_imp_le) simp
    ultimately have "2 * real ?u * 2 powi E * real D \<le> 2 * real N * 2 powi E" by (simp only:)
    then have "(real ?u * real D) * (2 * 2 powi E) \<le> real N * (2 * 2 powi E)" by (simp only: ac_simps)
    then have "real ?u * real D \<le> real N" by (rule mult_right_le_imp_le) simp
    then have "real (D * ?u) \<le> real N" by (simp add: mult.commute)
    then have "D * ?u \<le> N" by (simp only: of_nat_le_iff)
    then have "2 * ?u \<le> S" using D unfolding S_def by (intro sticky_ge)
    then have "bitlen (2 ^ nat (- 1022 - E)) \<le> bitlen S"
    proof -
      have "nat (- 1022 - E) = Suc (nat (- 1023 - E))" using False by simp
      then show ?thesis using \<open>2 * ?u \<le> S\<close> by (intro bitlen_mono) simp
    qed
    moreover have "bitlen (2 ^ nat (- 1022 - E)) = 1 + nat (- 1022 - E)"
      using bitlen_scale [of 1 "nat (- 1022 - E)"] by (simp add: bitlen.simps)
    ultimately show ?thesis using False by (simp add: cut_bits_def)
  qed
  define s where "s = bitlen S - 53"
  have s: "1 < s" "bitlen S = s + 53" "nat (cut_bits S E) = s" "\<not> cut_bits S E \<le> 0"
    using len cut by (auto simp: s_def)
  have "0 < S" using len by (cases "S = 0") auto
  have rd: "rdv (int S) E = real (round_half_even S s * 2 ^ s) * 2 powi E"
    using s \<open>0 < S\<close> by (simp add: rdv_def rd_def dy_def)
  have err: "real (round_half_even S s * 2 ^ s * D) \<le> 2 * real N * (1 + 2 powi - 53)"
    unfolding S_def using D(1) s(1, 2) by (intro sticky_error) (simp_all add: S_def)
  have "0 \<le> rdv (int S) E" by (simp add: rd)
  then have "fval (f64_round (int S) E) \<le> rdv (int S) E" using huge_pos by (simp add: fval_round)
  then have "fval (f64_div (Fin a e) (Fin d f)) \<le> rdv (int S) E"
    unfolding r S_def N_def D_def E_def .
  then have "fval (f64_div (Fin a e) (Fin d f)) * dy d f \<le> rdv (int S) E * dy d f"
    by (rule mult_right_mono) (simp add: dyd)
  also have "\<dots> = real (round_half_even S s * 2 ^ s * D) * (2 powi E * 2 powi f)"
    by (simp add: rd dyd)
  also have "\<dots> \<le> (2 * real N * (1 + 2 powi - 53)) * (2 powi E * 2 powi f)"
    using err by (rule mult_right_mono) simp
  also have "\<dots> = dy a e * (1 + 2 powi - 53)" by (simp add: dya)
  finally show ?thesis .
qed

end
