(* ===== verification/RerankProps.thy ===== *)
theory RerankProps
  imports Rerank FloatOrder
begin

text \<open>
  The scores stay on the scale that the weighted sum of the reranker supposes: the normalisation of a
  model's scores and the similarity of tokens yield numbers between 0 and 1 in the arithmetic of
  \<open>float64\<close>, rounding included.
\<close>

section \<open>Numbers and their values\<close>

definition unit_f64 :: "f64 \<Rightarrow> bool" where
  "unit_f64 x = (finite_f64 x \<and> f64_ge x f0 \<and> f64_ge f1 x)"

definition bounded_f64 :: "f64 \<Rightarrow> bool" where
  "bounded_f64 x = (finite_f64 x \<and> f64_ge (Fin 1 1021) x \<and> f64_ge x (Fin (- 1) 1021))"

lemma wf_consts [simp]: "wf_f64 f0" "wf_f64 f1" "wf_f64 (Fin 1 1021)" "wf_f64 (Fin (- 1) 1021)"
  "wf_f64 (Fin 1 1022)" "wf_f64 (Fin 1 10)" "wf_f64 tiny" "wf_f64 one_thousandth"
  by (simp_all add: tiny_def one_thousandth_def bitlen.simps)

lemma fval_consts: "fval f0 = 0" "fval f1 = 1" "fval (Fin 1 e) = 2 powi e" "fval (Fin (- 1) e) = - (2 powi e)"
  by (simp_all add: fval_def dy_def)

lemma finite_wf: "finite_f64 x \<Longrightarrow> wf_f64 x \<and> x \<noteq> NaN"
  by (auto simp: finite_f64_def)

lemma finite_obtain:
  assumes "finite_f64 x"
  obtains m e where "x = Fin m e" "fval x = dy m e" "wf_f64 (Fin m e)"
  using assms by (auto simp: finite_f64_Fin fval_def)

lemma ge_fval:
  assumes "wf_f64 x" "wf_f64 y" "x \<noteq> NaN" "y \<noteq> NaN"
  shows "f64_ge x y \<longleftrightarrow> fval y \<le> fval x"
  using less_fval [OF assms(2, 1, 4, 3)] fval_inj [OF assms] assms
  by (auto simp: f64_ge_def f64_eq_def order_le_less)

lemma fin_ge: "finite_f64 x \<Longrightarrow> finite_f64 y \<Longrightarrow> f64_ge x y \<longleftrightarrow> fval y \<le> fval x"
  and fin_less: "finite_f64 x \<Longrightarrow> finite_f64 y \<Longrightarrow> f64_less x y \<longleftrightarrow> fval x < fval y"
  by (simp_all add: ge_fval less_fval finite_wf)

lemma finite_consts [simp]: "finite_f64 f0" "finite_f64 f1" "finite_f64 (Fin 1 1021)" "finite_f64 (Fin (- 1) 1021)"
  "finite_f64 tiny" "finite_f64 one_thousandth"
  using wf_consts by (simp_all add: finite_f64_def tiny_def one_thousandth_def del: wf_f64.simps(1))

lemma unit_fval: "unit_f64 x \<longleftrightarrow> finite_f64 x \<and> 0 \<le> fval x \<and> fval x \<le> 1"
  by (auto simp: unit_f64_def fin_ge fval_consts)

lemma round_not_NaN: "f64_round m e \<noteq> NaN"
proof (cases "m = 0")
  case False
  then show ?thesis by (rule f64_round_cases [where e = e]) (simp split: prod.split)
qed (simp add: f64_round_def)

lemma round_finite: "\<bar>fval (f64_round m e)\<bar> < huge \<Longrightarrow> finite_f64 (f64_round m e)"
  using wf_round [of m e] round_not_NaN [of m e] huge_pos by (auto simp: finite_f64_def fval_def split: f64.splits if_splits)

lemma minus_round:
  assumes "finite_f64 x" "finite_f64 y"
  obtains m e where "f64_minus x y = f64_round m e" "dy m e = fval x - fval y"
proof -
  obtain m1 e1 m2 e2 where *: "x = Fin m1 e1" "fval x = dy m1 e1" "y = Fin m2 e2" "fval y = dy m2 e2"
    using assms by (auto elim!: finite_obtain)
  obtain m e where "f64_add (Fin m1 e1) (Fin (- m2) e2) = f64_round m e" "dy m e = dy m1 e1 + dy (- m2) e2"
    by (rule add_round)
  then show ?thesis using * that by (simp add: f64_minus_def dy_neg)
qed

lemma times_round:
  assumes "finite_f64 x" "finite_f64 y"
  obtains m e where "f64_mul x y = f64_round m e" "dy m e = fval x * fval y"
proof -
  obtain m1 e1 m2 e2 where *: "x = Fin m1 e1" "fval x = dy m1 e1" "y = Fin m2 e2" "fval y = dy m2 e2"
    using assms by (auto elim!: finite_obtain)
  then show ?thesis using that [of "m1 * m2" "e1 + e2"] by (simp add: mul_round)
qed

lemma huge_big: "2 powi 1022 < huge" "(1 :: real) < huge"
  unfolding huge_def by (auto intro: power_int_strict_increasing one_less_power)

section \<open>Normalised scores\<close>

lemma fold_min:
  "finite_f64 s \<Longrightarrow> list_all finite_f64 xs \<Longrightarrow>
   finite_f64 (foldl fmin s xs) \<and> foldl fmin s xs \<in> set (s # xs) \<and> (\<forall>x \<in> set (s # xs). fval (foldl fmin s xs) \<le> fval x)"
proof (induction xs arbitrary: s)
  case (Cons x xs)
  have "finite_f64 (fmin s x)" "fmin s x \<in> {s, x}" "fval (fmin s x) \<le> fval s" "fval (fmin s x) \<le> fval x"
    using Cons.prems by (auto simp: fmin_def fin_less)
  then show ?case using Cons.IH [of "fmin s x"] Cons.prems by auto
qed simp

lemma fold_max:
  "finite_f64 s \<Longrightarrow> list_all finite_f64 xs \<Longrightarrow>
   finite_f64 (foldl fmax s xs) \<and> foldl fmax s xs \<in> set (s # xs) \<and> (\<forall>x \<in> set (s # xs). fval x \<le> fval (foldl fmax s xs))"
proof (induction xs arbitrary: s)
  case (Cons x xs)
  have "finite_f64 (fmax s x)" "fmax s x \<in> {s, x}" "fval s \<le> fval (fmax s x)" "fval x \<le> fval (fmax s x)"
    using Cons.prems by (auto simp: fmax_def fin_less)
  then show ?case using Cons.IH [of "fmax s x"] Cons.prems by auto
qed simp

lemma clamp_fval: "finite_f64 s \<Longrightarrow> finite_f64 (clamp s) \<and> fval (clamp s) = max 0 (min 1 (fval s))"
  by (auto simp: clamp_def fin_less fval_consts)

text \<open>One more than 1 by half a unit in the last place is rounded to 1.\<close>

lemma round_one: "f64_round (2 ^ 53 + 1) (- 53) = f1"
  by (simp add: f64_round_def round_half_even_def bitlen.simps canon.simps)

lemma scaled_unit:
  assumes x: "finite_f64 x" and lo: "finite_f64 lo" and sp: "finite_f64 sp"
    and sp_eq: "sp = f64_minus hi lo" and hi: "finite_f64 hi"
    and le: "fval lo \<le> fval x" "fval x \<le> fval hi"
    and pos: "fval one_thousandth \<le> fval sp" and bnd: "fval hi - fval lo \<le> 2 powi 1022"
  shows "unit_f64 (f64_mul (f64_minus x lo) (f64_div f1 sp))"
    and "finite_f64 (f64_div f1 sp)" and "0 \<le> fval (f64_div f1 sp)" and "finite_f64 (f64_minus x lo)"
proof -
  have small: "2 powi (- 10) \<le> fval one_thousandth"
    by (simp add: one_thousandth_def fval_def dy_def power_int_minus)
  obtain m e where sp_me: "sp = Fin m e" "fval sp = dy m e" using sp by (rule finite_obtain)
  have dpos: "2 powi (- 10) \<le> dy m e" using small pos sp_me by simp
  then have "0 < dy m e" by (rule order_less_le_trans [rotated]) simp
  then have "dy 0 e < dy m e" by simp
  then have m: "0 < m" by (simp only: dy_less_iff)
  obtain ms es where s: "f64_minus hi lo = f64_round ms es" "dy ms es = fval hi - fval lo"
    using hi lo by (rule minus_round)
  have "fval sp \<le> 2 powi 1022"
    using fval_round_wf' [of 1 1022 ms es] bnd s sp_eq by (simp add: dy_def del: wf_f64.simps)
  obtain mx ex where d: "f64_minus x lo = f64_round mx ex" "dy mx ex = fval x - fval lo"
    using x lo by (rule minus_round)
  have dle: "fval (f64_minus x lo) \<le> fval sp"
    using fval_round_mono [of mx ex ms es] d s sp_eq le by simp
  have dge: "0 \<le> fval (f64_minus x lo)"
    using fval_round_wf [of 0 0 mx ex] d le by simp
  show fd: "finite_f64 (f64_minus x lo)"
    using d(1) dle dge \<open>fval sp \<le> 2 powi 1022\<close> huge_big by (intro round_finite [of mx ex, folded d(1)]) simp
  have one: "dy 1 0 = 1" by (simp add: dy_def)
  obtain k where inv: "f64_div f1 sp = f64_round (int (sticky (nat 1 * 2 ^ k) (nat m))) (0 - e - int k - 1)"
    unfolding sp_me(1) using div_sticky [OF zero_less_one m, of 0 e] by blast
  have up: "fval (f64_div f1 sp) \<le> 2 powi 10"
    using div_bound(1) [of 1 m 1 10 0 e] m dpos sp_me one by (simp add: dy_def power_int_minus field_simps del: f64_div.simps wf_f64.simps)
  show i0: "0 \<le> fval (f64_div f1 sp)"
    using div_bound(2) [of 1 m 0 0 e 0] m sp_me one by (simp del: f64_div.simps)
  have "(2 :: real) powi 10 < huge" unfolding huge_def by (intro power_int_strict_increasing) auto
  then show fi: "finite_f64 (f64_div f1 sp)"
    using up i0 unfolding inv by (intro round_finite) simp
  have "2 powi (- 1022) * dy m e \<le> 1"
  proof -
    have "2 powi (- 1022) * dy m e \<le> 2 powi (- 1022) * 2 powi 1022"
      using \<open>fval sp \<le> 2 powi 1022\<close> sp_me by (intro mult_left_mono) auto
    also have "\<dots> = 1" by (subst power_int_add [symmetric]) simp_all
    finally show ?thesis .
  qed
  then have err: "fval (f64_div f1 sp) * fval sp \<le> 1 + 2 powi (- 53)"
    using div_error [of 1 m e 0] m sp_me one by (simp del: f64_div.simps)
  obtain mp ep where p: "f64_mul (f64_minus x lo) (f64_div f1 sp) = f64_round mp ep"
    "dy mp ep = fval (f64_minus x lo) * fval (f64_div f1 sp)"
    using fd fi by (rule times_round)
  have "dy mp ep \<le> fval sp * fval (f64_div f1 sp)" using p dle i0 by (simp add: mult_right_mono)
  also have "\<dots> \<le> dy (2 ^ 53 + 1) (- 53)" using err by (simp add: mult.commute dy_def power_int_minus field_simps)
  finally have le1: "fval (f64_round mp ep) \<le> 1"
    using fval_round_mono [of mp ep "2 ^ 53 + 1" "- 53"] unfolding round_one fval_consts(2) by blast
  have ge0: "0 \<le> fval (f64_round mp ep)" using fval_round_wf [of 0 0 mp ep] p dge i0 by simp
  have "finite_f64 (f64_round mp ep)" using le1 ge0 huge_big by (intro round_finite) simp
  then show "unit_f64 (f64_mul (f64_minus x lo) (f64_div f1 sp))"
    unfolding unit_fval p(1) using le1 ge0 by simp
qed

lemma scaled_mono:
  assumes x: "finite_f64 x" "finite_f64 y" and lo: "finite_f64 lo" and le: "fval x \<le> fval y"
    and fd: "finite_f64 (f64_minus x lo)" "finite_f64 (f64_minus y lo)" and fi: "finite_f64 w" and i0: "0 \<le> fval w"
  shows "fval (f64_mul (f64_minus x lo) w) \<le> fval (f64_mul (f64_minus y lo) w)"
proof -
  obtain m1 e1 where 1: "f64_minus x lo = f64_round m1 e1" "dy m1 e1 = fval x - fval lo"
    using x(1) lo by (rule minus_round)
  obtain m2 e2 where 2: "f64_minus y lo = f64_round m2 e2" "dy m2 e2 = fval y - fval lo"
    using x(2) lo by (rule minus_round)
  have d: "fval (f64_minus x lo) \<le> fval (f64_minus y lo)"
    unfolding 1(1) 2(1) using 1(2) 2(2) le by (intro fval_round_mono) simp
  obtain p1 q1 where 3: "f64_mul (f64_minus x lo) w = f64_round p1 q1" "dy p1 q1 = fval (f64_minus x lo) * fval w"
    using fd(1) fi by (rule times_round)
  obtain p2 q2 where 4: "f64_mul (f64_minus y lo) w = f64_round p2 q2" "dy p2 q2 = fval (f64_minus y lo) * fval w"
    using fd(2) fi by (rule times_round)
  show ?thesis
    unfolding 3(1) 4(1) using 3(2) 4(2) d i0 by (intro fval_round_mono) (simp add: mult_right_mono)
qed

lemma bounded_fval: "bounded_f64 x \<longleftrightarrow> finite_f64 x \<and> \<bar>fval x\<bar> \<le> 2 powi 1021"
  by (auto simp: bounded_f64_def fin_ge fval_consts abs_le_iff simp del: power_int_numeral)

text \<open>The normalisation applies one monotone function to every score.\<close>

lemma normalize_map:
  assumes "list_all bounded_f64 scores"
  shows "\<exists>g. NormalizeRerankScores scores = map g scores \<and> (\<forall>x \<in> set scores. unit_f64 (g x)) \<and>
    (\<forall>x \<in> set scores. \<forall>y \<in> set scores. fval x \<le> fval y \<longrightarrow> fval (g x) \<le> fval (g y))"
proof (cases scores)
  case Nil
  then show ?thesis by (simp add: NormalizeRerankScores_def)
next
  case (Cons s0 rest)
  define lo where "lo = foldl fmin s0 rest"
  define hi where "hi = foldl fmax s0 rest"
  have fin: "\<And>x. x \<in> set scores \<Longrightarrow> finite_f64 x" and bnd: "\<And>x. x \<in> set scores \<Longrightarrow> \<bar>fval x\<bar> \<le> 2 powi 1021"
    using assms by (auto simp: list_all_iff bounded_fval)
  then have "finite_f64 s0" "list_all finite_f64 rest" using Cons by (auto simp: list_all_iff)
  with fold_min [of s0 rest] fold_max [of s0 rest] Cons
  have lo: "finite_f64 lo" "lo \<in> set scores" "\<And>x. x \<in> set scores \<Longrightarrow> fval lo \<le> fval x"
    and hi: "finite_f64 hi" "hi \<in> set scores" "\<And>x. x \<in> set scores \<Longrightarrow> fval x \<le> fval hi"
    by (auto simp: lo_def hi_def)
  let ?sp = "f64_minus hi lo"
  have N: "NormalizeRerankScores scores =
      (if f64_ge lo f0 \<and> f64_ge f1 hi then scores
       else if f64_less ?sp one_thousandth then map clamp scores
       else map (\<lambda>s. f64_mul (f64_minus s lo) (f64_div f1 ?sp)) scores)"
    using Cons by (simp add: NormalizeRerankScores_def Let_def lo_def hi_def)
  consider "f64_ge lo f0 \<and> f64_ge f1 hi" | "\<not> (f64_ge lo f0 \<and> f64_ge f1 hi)" "f64_less ?sp one_thousandth"
    | "\<not> (f64_ge lo f0 \<and> f64_ge f1 hi)" "\<not> f64_less ?sp one_thousandth" by blast
  then show ?thesis
  proof cases
    case 1
    then have "\<And>x. x \<in> set scores \<Longrightarrow> 0 \<le> fval x \<and> fval x \<le> 1"
      using lo hi by (force simp: fin_ge fval_consts)
    with 1 N fin show ?thesis by (intro exI [of _ id]) (auto simp: unit_fval)
  next
    case 2
    have "NormalizeRerankScores scores = map clamp scores"
      unfolding N if_not_P [OF 2(1)] if_P [OF 2(2)] ..
    then show ?thesis
      using clamp_fval [OF fin] by (intro exI [of _ clamp]) (auto simp: unit_fval)
  next
    case 3
    let ?g = "\<lambda>s. f64_mul (f64_minus s lo) (f64_div f1 ?sp)"
    have "fval hi - fval lo \<le> 2 powi 1021 + 2 powi 1021"
      using bnd [OF hi(2)] bnd [OF lo(2)] by linarith
    also have "\<dots> = 2 powi 1022" using power_int_add_1 [of "2 :: real" 1021] by (simp only: mult_2_right) simp
    finally have d: "fval hi - fval lo \<le> 2 powi 1022" .
    obtain m e where s: "?sp = f64_round m e" "dy m e = fval hi - fval lo" using hi(1) lo(1) by (rule minus_round)
    have "0 \<le> fval ?sp" "fval ?sp \<le> 2 powi 1022"
      using fval_round_wf [of 0 0 m e] fval_round_wf' [of 1 1022 m e] s d lo(3) [OF hi(2)]
      by (simp_all add: dy_def del: wf_f64.simps power_int_numeral)
    then have sp: "finite_f64 ?sp" unfolding s(1) using huge_big by (intro round_finite) linarith
    then have pos: "fval one_thousandth \<le> fval ?sp" using 3(2) by (simp add: fin_less)
    note unit = scaled_unit [OF fin lo(1) sp refl hi(1) lo(3) hi(3) pos d]
    have "NormalizeRerankScores scores = map ?g scores"
      unfolding N if_not_P [OF 3(1)] if_not_P [OF 3(2)] ..
    moreover have "\<forall>x \<in> set scores. unit_f64 (?g x)" using unit(1) by blast
    moreover have "\<forall>x \<in> set scores. \<forall>y \<in> set scores. fval x \<le> fval y \<longrightarrow> fval (?g x) \<le> fval (?g y)"
      using scaled_mono [OF fin fin lo(1) _ unit(4) unit(4) unit(2, 3)] by blast
    ultimately show ?thesis by blast
  qed
qed

text \<open>
  C15: Scores of a reranking model that are finite and not astronomically large are normalised to
  numbers between 0 and 1 without changing their order, whatever scale the model uses; the
  floating-point roundings cannot push a score out of the range.
\<close>

theorem normalize_scores_unit:
  assumes "list_all bounded_f64 scores"
  shows "list_all unit_f64 (NormalizeRerankScores scores) \<and>
    (\<forall>i < length scores. \<forall>j < length scores. f64_ge (scores ! i) (scores ! j) \<longrightarrow>
      f64_ge (NormalizeRerankScores scores ! i) (NormalizeRerankScores scores ! j))"
proof -
  obtain g where g: "NormalizeRerankScores scores = map g scores" "\<forall>x \<in> set scores. unit_f64 (g x)"
    "\<forall>x \<in> set scores. \<forall>y \<in> set scores. fval x \<le> fval y \<longrightarrow> fval (g x) \<le> fval (g y)"
    using normalize_map [OF assms] by blast
  have "\<And>x. x \<in> set scores \<Longrightarrow> finite_f64 x \<and> finite_f64 (g x)"
    using assms g(2) by (auto simp: list_all_iff bounded_fval unit_fval)
  then show ?thesis using g by (auto simp: list_all_iff fin_ge)
qed

theorem normalize_scores_unit_witness:
  "length (NormalizeRerankScores [Fin 3 0, Fin (- 5) 0]) = 2 \<and>
   unit_f64 (NormalizeRerankScores [Fin 3 0, Fin (- 5) 0] ! 0) \<and>
   f64_ge (NormalizeRerankScores [Fin 3 0, Fin (- 5) 0] ! 0) (NormalizeRerankScores [Fin 3 0, Fin (- 5) 0] ! 1)"
proof -
  have "bitlen 3 = 2" "bitlen 5 = 3" by (simp_all add: bitlen.simps)
  then have "finite_f64 (Fin 3 0)" "finite_f64 (Fin (- 5) 0)" by (simp_all add: finite_f64_def)
  moreover have "(5 :: real) \<le> 2 powi 1021"
    using power_int_increasing [of 3 1021 "2 :: real"] by (simp del: power_int_numeral add: power_int_numeral [of _ "num.Bit1 num.One"])
  ultimately have "list_all bounded_f64 [Fin 3 0, Fin (- 5) 0]"
    by (simp add: bounded_fval fval_def dy_def del: power_int_numeral)
  note n = normalize_scores_unit [OF this]
  have "length (NormalizeRerankScores [Fin 3 0, Fin (- 5) 0]) = 2"
    by (simp add: NormalizeRerankScores_def Let_def)
  moreover have "f64_ge (Fin 3 0) (Fin (- 5) 0)" by (simp add: f64_ge_def)
  ultimately show ?thesis using n by (simp add: list_all_length)
qed

section \<open>Similarity of tokens\<close>

definition weight_ok :: "f64 \<Rightarrow> bool" where
  "weight_ok x = (wf_f64 x \<and> x \<noteq> NaN \<and> 0 \<le> fval x)"

lemma fval_le_huge: "wf_f64 x \<Longrightarrow> fval x \<le> huge"
  using huge_pos wf_bound by (cases x) (auto simp: fval_def abs_less_iff intro: less_imp_le)

lemma weight_cases:
  assumes "weight_ok x"
  obtains "x = Inf False" "fval x = huge" | m e where "x = Fin m e" "fval x = dy m e" "0 \<le> dy m e"
  using assms huge_pos by (cases x) (auto simp: weight_ok_def fval_def split: if_splits)

lemma weight_finite: "weight_ok x \<Longrightarrow> x = Inf False \<or> finite_f64 x"
proof -
  assume w: "weight_ok x"
  then show ?thesis
    by (cases rule: weight_cases) (use w in \<open>auto simp: finite_f64_def weight_ok_def simp del: wf_f64.simps\<close>)
qed

lemma add_weights:
  assumes "weight_ok x" "weight_ok y"
  shows "weight_ok (f64_add x y) \<and> fval x \<le> fval (f64_add x y)"
proof -
  have wf: "wf_f64 (f64_add x y)" using assms by (simp add: weight_ok_def wf_add)
  from assms(1) show ?thesis
  proof (cases rule: weight_cases)
    case 1
    then show ?thesis using assms by (cases rule: weight_cases [OF assms(2)]) (auto simp: weight_ok_def)
  next
    case x: (2 m1 e1)
    from assms(2) show ?thesis
    proof (cases rule: weight_cases)
      case 1
      then show ?thesis using x assms fval_le_huge [of x] by (auto simp: weight_ok_def)
    next
      case y: (2 m2 e2)
      obtain m e where r: "f64_add (Fin m1 e1) (Fin m2 e2) = f64_round m e" "dy m e = dy m1 e1 + dy m2 e2"
        by (rule add_round)
      have "wf_f64 (Fin m1 e1)" using assms x by (simp add: weight_ok_def del: wf_f64.simps)
      then have "dy m1 e1 \<le> fval (f64_round m e)" using r(2) y by (intro fval_round_wf) simp_all
      then show ?thesis using wf r x y round_not_NaN [of m e] by (simp add: weight_ok_def)
    qed
  qed
qed

lemma add_mono:
  assumes "weight_ok x" "weight_ok y" "weight_ok x'" "weight_ok y'" "fval x \<le> fval x'" "fval y \<le> fval y'"
  shows "fval (f64_add x y) \<le> fval (f64_add x' y')"
proof (cases "finite_f64 x' \<and> finite_f64 y'")
  case True
  then have "fval x < huge" "fval y < huge"
    using assms wf_bound by (auto simp: finite_f64_Fin fval_def abs_less_iff simp del: wf_f64.simps) (metis order_le_less_trans)+
  then obtain m1 e1 m2 e2 where *: "x = Fin m1 e1" "fval x = dy m1 e1" "y = Fin m2 e2" "fval y = dy m2 e2"
    using assms(1, 2) by (auto elim!: weight_cases)
  obtain m3 e3 m4 e4 where **: "x' = Fin m3 e3" "fval x' = dy m3 e3" "y' = Fin m4 e4" "fval y' = dy m4 e4"
    using True by (auto elim!: finite_obtain)
  obtain m e where r: "f64_add (Fin m1 e1) (Fin m2 e2) = f64_round m e" "dy m e = dy m1 e1 + dy m2 e2"
    by (rule add_round)
  obtain m' e' where r': "f64_add (Fin m3 e3) (Fin m4 e4) = f64_round m' e'" "dy m' e' = dy m3 e3 + dy m4 e4"
    by (rule add_round)
  have "dy m e \<le> dy m' e'" using r(2) r'(2) assms(5, 6) * ** by simp
  then show ?thesis unfolding *(1, 3) **(1, 3) r(1) r'(1) by (rule fval_round_mono)
next
  case False
  then have "x' = Inf False \<or> y' = Inf False" using assms weight_finite by blast
  then have "f64_add x' y' = Inf False"
    using assms by (auto elim!: weight_cases)
  moreover have "fval (f64_add x y) \<le> huge"
    using add_weights [OF assms(1, 2)] by (simp add: weight_ok_def fval_le_huge)
  ultimately show ?thesis by (simp add: fval_def)
qed

lemma naive_sum_simps [simp]: "naive_sum a [] = a" "naive_sum a (x # xs) = naive_sum (f64_add a x) xs"
  by (simp_all add: naive_sum_def)

lemma naive_sum_ok: "weight_ok a \<Longrightarrow> list_all weight_ok xs \<Longrightarrow> weight_ok (naive_sum a xs) \<and> fval a \<le> fval (naive_sum a xs)"
proof (induction xs arbitrary: a)
  case (Cons x xs)
  then have a: "weight_ok (f64_add a x)" "fval a \<le> fval (f64_add a x)" using add_weights [of a x] by simp_all
  have "weight_ok (naive_sum (f64_add a x) xs) \<and> fval (f64_add a x) \<le> fval (naive_sum (f64_add a x) xs)"
    using Cons.prems a(1) by (intro Cons.IH) simp_all
  with a(2) show ?case by simp
qed simp

lemma naive_sum_filter:
  "weight_ok a \<Longrightarrow> weight_ok b \<Longrightarrow> list_all weight_ok (map w ks) \<Longrightarrow> fval a \<le> fval b \<Longrightarrow>
   fval (naive_sum a (map w (filter P ks))) \<le> fval (naive_sum b (map w ks))"
proof (induction ks arbitrary: a b)
  case (Cons k ks)
  then have ok: "weight_ok (f64_add a (w k))" "weight_ok (f64_add b (w k))"
    "fval b \<le> fval (f64_add b (w k))" "fval (f64_add a (w k)) \<le> fval (f64_add b (w k))"
    using add_weights [of a "w k"] add_weights [of b "w k"] add_mono [of a "w k" b "w k"] by simp_all
  have "fval (naive_sum (f64_add a (w k)) (map w (filter P ks))) \<le> fval (naive_sum (f64_add b (w k)) (map w ks))"
    "fval (naive_sum a (map w (filter P ks))) \<le> fval (naive_sum (f64_add b (w k)) (map w ks))"
    using Cons.prems ok by (auto intro!: Cons.IH)
  then show ?case by simp
qed simp

lemma tiny_ok: "weight_ok tiny" "0 < fval tiny"
  using wf_consts(7) by (simp_all add: weight_ok_def fval_def tiny_def dy_def del: wf_f64.simps)

lemma quotient_unit:
  assumes "weight_ok s" "0 < fval s" "fval s \<le> fval q" "finite_f64 q"
  shows "unit_f64 (f64_div s q) \<and> (s = q \<longrightarrow> f64_div s q = f1)"
proof -
  obtain d f where q: "q = Fin d f" "fval q = dy d f" using assms(4) by (auto elim: finite_obtain)
  have "fval q < huge" using q wf_bound [of d f] assms(4) by (simp add: finite_f64_def abs_less_iff del: wf_f64.simps)
  then obtain a e where s: "s = Fin a e" "fval s = dy a e" using assms(1, 3) by (auto elim!: weight_cases)
  have "0 < a" "0 < d" using assms(2, 3) s q dy_less_iff [of 0 e a] dy_less_iff [of 0 f d] by simp_all
  note b = div_bound [OF this]
  have "dy a e \<le> dy 1 0 * dy d f" using assms(3) s q by (simp add: dy_def)
  then have "fval (f64_div s q) \<le> dy 1 0" unfolding s(1) q(1) by (rule b(1) [OF wf_consts(2)])
  then have up: "fval (f64_div s q) \<le> 1" by (simp add: dy_def)
  have "dy 0 0 * dy d f \<le> dy a e" using assms(2) s by simp
  then have "dy 0 0 \<le> fval (f64_div s q)" unfolding s(1) q(1) by (rule b(2) [OF wf_consts(1)])
  then have lo: "0 \<le> fval (f64_div s q)" by simp
  obtain k n where r: "f64_div s q = f64_round k n"
    unfolding s(1) q(1) using div_sticky [OF \<open>0 < a\<close> \<open>0 < d\<close>] by metis
  have fin: "finite_f64 (f64_div s q)" unfolding r using up lo huge_big r by (intro round_finite) simp
  moreover have "f64_div s q = f1" if "s = q"
  proof -
    have "dy 1 0 * dy d f \<le> dy a e" using that s q by (simp add: dy_def)
    then have "dy 1 0 \<le> fval (f64_div s q)" unfolding s(1) q(1) by (rule b(2) [OF wf_consts(2)])
    then have "fval (f64_div s q) = fval f1" using up by (simp add: dy_def fval_consts)
    then show ?thesis
      using fval_inj [of "f64_div s q" f1] finite_wf [OF fin] finite_wf [OF finite_consts(2)] by blast
  qed
  ultimately show ?thesis using up lo by (simp add: unit_fval)
qed

text \<open>The entries of a dictionary of weights that are not negative.\<close>

definition dict_ok :: "f64 gomap \<Rightarrow> bool" where
  "dict_ok d = list_all weight_ok (map snd d)"

lemma dict_ok_get: "dict_ok d \<Longrightarrow> weight_ok (mgetd f0 d k)"
  by (cases "mget d k") (auto simp: mgetd_def dict_ok_def list_all_iff weight_ok_def fval_consts dest!: mget_Some_mem)

lemma dict_ok_put: "dict_ok d \<Longrightarrow> weight_ok w \<Longrightarrow> dict_ok (mput k w d)"
  by (induction d) (auto simp: dict_ok_def)

lemma dict_add_ok: "dict_ok (fst s) \<Longrightarrow> weight_ok w \<Longrightarrow> dict_ok (fst (dict_add k w s))"
  using add_weights dict_ok_get by (cases s) (simp add: dict_add_def dict_ok_put)

lemma mul_ok:
  assumes "weight_ok x" "finite_f64 x" "finite_f64 c" "0 \<le> fval c"
  shows "weight_ok (f64_mul x c)"
proof -
  obtain m e where r: "f64_mul x c = f64_round m e" "dy m e = fval x * fval c"
    using assms(2, 3) by (rule times_round)
  have "dy 0 0 \<le> dy m e" using r(2) assms by (simp add: weight_ok_def)
  then have "dy 0 0 \<le> fval (f64_round m e)" by (intro fval_round_wf) simp_all
  then show ?thesis using r by (simp add: weight_ok_def wf_round round_not_NaN)
qed

definition term_ok :: "string \<times> f64 \<Rightarrow> bool" where
  "term_ok = (\<lambda>(t, w). finite_f64 w \<and> f64_ge w f0)"

lemma term_weight: "finite_f64 w \<Longrightarrow> f64_ge w f0 \<longleftrightarrow> weight_ok w"
  by (auto simp: weight_ok_def fin_ge fval_consts finite_wf)

lemma tenths: "finite_f64 four_tenths" "0 \<le> fval four_tenths" "finite_f64 six_tenths" "0 \<le> fval six_tenths"
  by (simp_all add: finite_f64_def four_tenths_def six_tenths_def fval_def dy_def bitlen.simps)

lemma dict_loop_ok:
  "list_all term_ok wts \<Longrightarrow> dict_ok (fst s) \<Longrightarrow> dict_ok (fst (dict_loop wts s))"
proof (induction wts s rule: dict_loop.induct)
  case (2 t c wts s)
  have c: "weight_ok c" "finite_f64 c" using "2.prems" term_weight [of c] by (auto simp: term_ok_def)
  let ?s = "dict_add t (f64_mul c four_tenths) s"
  have s: "dict_ok (fst ?s)" using "2.prems" c tenths by (intro dict_add_ok mul_ok) simp_all
  show ?case
  proof (cases wts)
    case Nil
    then show ?thesis using "2.IH" [OF refl] s by simp
  next
    case (Cons p rest)
    obtain t' c' where p: "p = (t', c')" by (cases p)
    then have c': "weight_ok c'" "finite_f64 c'" using "2.prems" Cons term_weight [of c'] by (auto simp: term_ok_def)
    have "f64_max c c' \<in> {c, c'}"
      using c c' by (auto simp: f64_max_def finite_f64_def)
    then have "weight_ok (f64_mul (f64_max c c') six_tenths)"
      using c c' tenths by (auto intro: mul_ok)
    then have "dict_ok (fst (dict_add (t @ t') (f64_mul (f64_max c c') six_tenths) ?s))"
      using dict_add_ok [OF s] by blast
    then show ?thesis using "2.IH" [OF refl] "2.prems" Cons p by simp
  qed
qed simp

lemma dict_keys:
  "set (snd s) = set (mkeys (fst s)) \<Longrightarrow> set (snd (dict_loop wts s)) = set (mkeys (fst (dict_loop wts s)))"
proof (induction wts s rule: dict_loop.induct)
  case (2 t c wts s)
  have add: "set (snd (dict_add k w s)) = set (mkeys (fst (dict_add k w s)))"
    if "set (snd s) = set (mkeys (fst s))" for k w s
    using that by (cases s) (simp add: dict_add_def mhas_iff mkeys_mput insert_absorb)
  let ?s = "dict_add t (f64_mul c four_tenths) s"
  have s: "set (snd ?s) = set (mkeys (fst ?s))" using "2.prems" by (rule add)
  show ?case
  proof (cases wts)
    case Nil
    then show ?thesis using s by (simp add: Let_def)
  next
    case (Cons p rest)
    obtain t' c' where p: "p = (t', c')" by (cases p)
    let ?s' = "dict_add (t @ t') (f64_mul (f64_max c c') six_tenths) ?s"
    have "set (snd ?s') = set (mkeys (fst ?s'))" using s by (rule add)
    then show ?thesis using "2.IH" [OF refl] Cons p by (simp add: Let_def)
  qed
qed simp

text \<open>
  C16: With term weights that are finite and not negative, and a finite total, every similarity of
  tokens lies between 0 and 1; a document that has all terms and neighbouring pairs of the query
  reaches exactly 1.
\<close>

theorem token_similarity_unit:
  assumes "qb_termWeight q = Some W" and "list_all term_ok (W atks)"
    and "tokensToDict atks (Some q) = (d, keys)"
    and "finite_f64 (naive_sum tiny (map (mgetd f0 d) keys))"
  shows "list_all unit_f64 (TokenSimilarity atks btkss (Some q)) \<and>
    (\<forall>i < length btkss. d \<noteq> [] \<and> set keys \<subseteq> set (mkeys (fst (tokensToDict (btkss ! i) (Some q)))) \<longrightarrow>
      TokenSimilarity atks btkss (Some q) ! i = f1)"
proof -
  have dk: "dict_loop (W atks) ([], []) = (d, keys)" using assms(1, 3) by (simp add: tokensToDict_def)
  have "dict_ok d" using dict_loop_ok [OF assms(2), of "([], [])"] by (simp add: dk dict_ok_def)
  then have ws: "list_all weight_ok (map (mgetd f0 d) keys)" by (simp add: list_all_iff dict_ok_get)
  have "set keys = set (mkeys d)" using dict_keys [of "([], [])" "W atks"] by (simp add: dk)
  then have ne: "keys \<noteq> [] \<longleftrightarrow> d \<noteq> []" by (metis mkeys_def map_is_Nil_conv set_empty)
  let ?q = "naive_sum tiny (map (mgetd f0 d) keys)"
  have sim: "unit_f64 (tokenDictSimilarity d dt keys) \<and>
      (d \<noteq> [] \<and> set keys \<subseteq> set (mkeys dt) \<longrightarrow> tokenDictSimilarity d dt keys = f1)" for dt
  proof (cases "d = [] \<or> dt = []")
    case True
    then show ?thesis using ne by (auto simp: tokenDictSimilarity_def unit_fval fval_consts mkeys_def)
  next
    case False
    let ?s = "naive_sum tiny (map (mgetd f0 d) (filter (mhas dt) keys))"
    have t: "tokenDictSimilarity d dt keys = f64_div ?s ?q"
      using False ne by (simp add: tokenDictSimilarity_def)
    have "list_all weight_ok (map (mgetd f0 d) (filter (mhas dt) keys))" using ws by (simp add: list_all_iff)
    then have s: "weight_ok ?s" "0 < fval ?s" using naive_sum_ok [OF tiny_ok(1)] tiny_ok(2) by force+
    have "fval ?s \<le> fval ?q" using naive_sum_filter [OF tiny_ok(1) tiny_ok(1) ws] by simp
    then have unit: "unit_f64 (f64_div ?s ?q) \<and> (?s = ?q \<longrightarrow> f64_div ?s ?q = f1)"
      using s assms(4) by (intro quotient_unit)
    moreover have "filter (mhas dt) keys = keys" if "set keys \<subseteq> set (mkeys dt)"
      using that by (auto simp: filter_id_conv mhas_iff)
    ultimately show ?thesis unfolding t by auto
  qed
  have "TokenSimilarity atks btkss (Some q) =
      map (\<lambda>btks. tokenDictSimilarity d (fst (tokensToDict btks (Some q))) keys) btkss"
    by (simp add: TokenSimilarity_def assms(3))
  then show ?thesis using sim by (simp add: list_all_iff)
qed

theorem token_similarity_unit_witness:
  "list_all unit_f64 (TokenSimilarity [''a''] [[''a''], []]
    (Some \<lparr>qb_keywords = (\<lambda>_. []), qb_termWeight = Some (map (\<lambda>t. (t, f1)))\<rparr>))"
proof -
  let ?q = "\<lparr>qb_keywords = (\<lambda>_. []), qb_termWeight = Some (map (\<lambda>t. (t, f1)))\<rparr>"
  have wf: "wf_f64 (Fin 3602879701896397 (- 53))" using tenths(1) by (simp add: finite_f64_def four_tenths_def del: wf_f64.simps)
  have one: "f64_mul f1 four_tenths = four_tenths" "f64_add f0 four_tenths = four_tenths"
    using round_wf [OF wf] by (simp_all add: four_tenths_def)
  then have d: "tokensToDict [''a''] (Some ?q) = ([(''a'', four_tenths)], [''a''])"
    by (simp add: tokensToDict_def dict_add_def mgetd_def mhas_def)
  obtain m e where r: "f64_add tiny four_tenths = f64_round m e" "dy m e = fval tiny + fval four_tenths"
    unfolding tiny_def four_tenths_def fval_def f64.case by (rule add_round)
  have "dy m e \<le> dy 1 0" unfolding r(2) by (simp add: tiny_def four_tenths_def fval_def dy_def power_int_minus)
  then have "fval (f64_round m e) \<le> dy 1 0" by (rule fval_round_wf' [OF wf_consts(2)])
  moreover have "dy 0 0 \<le> dy m e" using r(2) tenths(2) tiny_ok(2) by simp
  then have "dy 0 0 \<le> fval (f64_round m e)" by (rule fval_round_wf [OF wf_consts(1)])
  ultimately have "finite_f64 (f64_round m e)" using huge_big by (intro round_finite) (simp add: dy_def)
  then have fin: "finite_f64 (naive_sum tiny (map (mgetd f0 [(''a'', four_tenths)]) [''a'']))"
    by (simp add: mgetd_def r(1))
  have "list_all term_ok (map (\<lambda>t. (t, f1)) [''a''])" by (simp add: term_ok_def fin_ge fval_consts)
  from token_similarity_unit [where W = "map (\<lambda>t. (t, f1))", OF _ this d fin] show ?thesis by simp
qed

section \<open>A shared slice\<close>

text \<open>Without vectors the reported token similarity is the final score, rank features included.\<close>

lemma features_in_token_similarity:
  assumes "RerankStandard unjson chunks kw qv query tk vt cfield qb rf = Some (sim, tsim, vsim)" "no_vectors vsim"
  shows "tsim = sim"
  using assms by (auto simp: RerankStandard_def Let_def split: if_splits option.splits prod.splits)

end
