(* ===== verification/RetrievalProps.thy ===== *)
theory RetrievalProps
  imports ParentChunks RerankProps "HOL-Library.Multiset"
begin

text \<open>Properties of retrieval: paging, ordering, deleted documents, and chunks replaced by their parent.\<close>

section \<open>The size of a window\<close>

lemma int64_small: "- (2 ^ 63) \<le> i \<Longrightarrow> i < 2 ^ 63 \<Longrightarrow> int64 i = i"
  by (simp add: int64_def signed_take_bit_int_eq_self)

lemma of_int_fval:
  assumes "\<bar>i\<bar> < 2 ^ 53"
  shows "fval (f64_of_int i) = real_of_int i \<and> finite_f64 (f64_of_int i)"
proof -
  have "nat \<bar>i\<bar> < 2 ^ 53" using assms by (simp add: nat_less_iff)
  then have "bitlen (nat \<bar>i\<bar>) \<le> 53" by (rule bitlen_le)
  then have "rd (nat \<bar>i\<bar>) 0 = nat \<bar>i\<bar>" by (simp add: rd_def cut_bits_def)
  then have r: "rdv i 0 = real_of_int i" by (simp add: rdv_def dy_def mult_sgn_abs flip: of_int_mult)
  have "\<bar>real_of_int i\<bar> < 2 ^ 53"
  proof -
    have "real_of_int \<bar>i\<bar> < real_of_int (2 ^ 53)" using assms by (simp only: of_int_less_iff)
    then show ?thesis by simp
  qed
  also have "(2 :: real) ^ 53 \<le> huge" unfolding huge_def using power_int_increasing [of 53 1024 "2 :: real"] by simp
  finally have "\<bar>real_of_int i\<bar> < huge" .
  then have "fval (f64_round i 0) = real_of_int i" by (auto simp: fval_round r)
  with \<open>\<bar>real_of_int i\<bar> < huge\<close> show ?thesis by (auto simp: f64_of_int_def intro: round_finite)
qed

lemma ceil_fval: "finite_f64 x \<Longrightarrow> f64_ceil x = \<lceil>fval x\<rceil>"
proof (erule finite_obtain)
  fix m e
  assume "x = Fin m e" "fval x = dy m e"
  moreover have "f64_ceil (Fin m e) = \<lceil>dy m e\<rceil>"
  proof (cases "0 \<le> e")
    case True
    then have "2 powi e = (2 :: real) ^ nat e" by (simp add: power_int_def)
    then have "dy m e = real_of_int (m * 2 ^ nat e)" by (simp add: dy_def)
    moreover have "f64_ceil (Fin m e) = m * 2 ^ nat e" using True by simp
    ultimately show ?thesis by (simp only: ceiling_of_int)
  next
    case False
    then have "2 powi e = inverse ((2 :: real) ^ nat (- e))" by (simp add: power_int_def power_one_over inverse_eq_divide)
    then have "dy m e = real_of_int m / real_of_int (2 ^ nat (- e))" by (simp add: dy_def divide_inverse)
    moreover have "f64_ceil (Fin m e) = - ((- m) div 2 ^ nat (- e))" using False by simp
    ultimately show ?thesis by (simp only: ceiling_divide_eq_div)
  qed
  ultimately show ?thesis by simp
qed

text \<open>The quotient is rounded, but its ceiling is that of the exact quotient.\<close>

lemma ceil_quotient:
  assumes "0 < ps" "ps \<le> 2 ^ 31"
  shows "f64_ceil (f64_div (Fin 1 6) (f64_of_int ps)) = (63 + ps) div ps"
proof -
  have "ps < 2 ^ 53" using assms(2) by simp
  then have p: "fval (f64_of_int ps) = real_of_int ps" "finite_f64 (f64_of_int ps)"
    using of_int_fval [of ps] assms(1) by simp_all
  then obtain d f where d: "f64_of_int ps = Fin d f" "dy d f = real_of_int ps" by (auto elim: finite_obtain)
  have "dy 0 f < dy d f" using d assms by simp
  then have "0 < d" by (simp only: dy_less_iff)
  note bound = div_bound(1) [OF zero_less_one this, of _ _ 6 f, folded d(1)]
    div_bound(2) [OF zero_less_one this, of _ _ f 6, folded d(1)]
  have six: "dy 1 6 = 64" by (simp add: dy_def)
  define q where "q = f64_div (Fin 1 6) (f64_of_int ps)"
  define u where "u = (63 + ps) div ps"
  have u: "0 < u" "u \<le> 64" "64 \<le> u * ps" "(u - 1) * ps < 64"
  proof -
    have m: "u * ps + (63 + ps) mod ps = 63 + ps" unfolding u_def by (rule div_mult_mod_eq)
    have r: "0 \<le> (63 + ps) mod ps" "(63 + ps) mod ps < ps" using assms by simp_all
    show "64 \<le> u * ps" "(u - 1) * ps < 64" using m r by (simp_all add: left_diff_distrib)
    then have "0 < u * ps" by simp
    then show "0 < u" using assms by (simp add: zero_less_mult_iff)
    have "63 + ps \<le> 64 * ps" using assms by simp
    then show "u \<le> 64" using assms unfolding u_def by (metis div_le_dividend zdiv_mono1 nonzero_mult_div_cancel_right order_less_irrefl)
  qed
  have up: "fval q \<le> real_of_int u"
  proof -
    obtain b g where b: "f64_of_int u = Fin b g" "dy b g = real_of_int u" "wf_f64 (Fin b g)"
      using of_int_fval [of u] u(1, 2) by (auto elim!: finite_obtain)
    have "64 \<le> real_of_int u * real_of_int ps" using u(3) by (simp flip: of_int_mult)
    then show ?thesis using bound(1) [OF b(3)] b(2) d(2) six by (simp add: q_def)
  qed
  have low: "real_of_int (u - 1) < fval q"
  proof (cases "ps \<le> 64")
    case True
    let ?b = "64 * (u - 1) + 1"
    have b: "wf_f64 (Fin ?b (- 6))"
    proof -
      have "nat \<bar>?b\<bar> < 2 ^ 13" using u(1, 2) by (simp add: nat_less_iff)
      then have "bitlen (nat \<bar>?b\<bar>) \<le> 13" by (rule bitlen_le)
      then show ?thesis by simp
    qed
    have "?b * ps = 64 * ((u - 1) * ps) + ps" by (simp add: algebra_simps)
    then have "?b * ps \<le> 64 * 64" using u(4) True by linarith
    then have "real_of_int (?b * ps) \<le> real_of_int (64 * 64)" by (simp only: of_int_le_iff)
    then have "real_of_int ?b * real_of_int ps \<le> 64 * 64" by (simp only: of_int_mult of_int_numeral)
    then have "real_of_int ?b * real_of_int ps / 64 \<le> 64" by (simp only: pos_divide_le_eq zero_less_numeral)
    moreover have "(2 :: real) powi - 6 = inverse 64" by (simp add: power_int_minus)
    then have "dy ?b (- 6) = real_of_int ?b / 64" by (simp only: dy_def divide_inverse)
    ultimately have "dy ?b (- 6) * dy d f \<le> dy 1 6" by (simp only: d(2) six times_divide_eq_left)
    then have "dy ?b (- 6) \<le> fval q" unfolding q_def by (rule bound(2) [OF b])
    moreover have "real_of_int (u - 1) < dy ?b (- 6)" by (simp add: dy_def power_int_minus)
    ultimately show ?thesis by simp
  next
    case False
    then have "u = 1" unfolding u_def using assms by (intro int_div_pos_eq [of _ _ _ 63]) auto
    have b: "wf_f64 (Fin 1 (- 25))" by (simp add: bitlen.simps)
    have "real_of_int ps \<le> real_of_int (2 ^ 31)" using assms(2) by (simp only: of_int_le_iff)
    then have "real_of_int ps \<le> 64 * 2 ^ 25" by (simp only: of_int_power of_int_numeral) simp
    then have "1 / 2 ^ 25 * real_of_int ps \<le> 64" by simp
    moreover have "(2 :: real) powi - 25 = inverse (2 ^ 25)" by (simp add: power_int_minus)
    then have "dy 1 (- 25) = 1 / 2 ^ 25" by (simp only: dy_def divide_inverse of_int_1)
    ultimately have "dy 1 (- 25) * dy d f \<le> dy 1 6" by (simp only: d(2) six)
    then have "dy 1 (- 25) \<le> fval q" unfolding q_def by (rule bound(2) [OF b])
    then show ?thesis using \<open>u = 1\<close> by (simp add: dy_def power_int_minus)
  qed
  obtain m e where r: "q = f64_round m e"
    unfolding q_def d(1) using div_sticky [OF zero_less_one \<open>0 < d\<close>, of 6 f] by metis
  have "\<bar>fval q\<bar> < huge"
    using low up u(1, 2) power_int_strict_increasing [of 7 1024 "2 :: real"] by (simp add: huge_def)
  then have "finite_f64 q" using r round_finite by simp
  then have "f64_ceil q = \<lceil>fval q\<rceil>" by (rule ceil_fval)
  also have "\<dots> = u" using low up by (intro ceiling_unique) simp_all
  finally show ?thesis by (simp add: q_def u_def)
qed

lemma rerank_limit_value:
  assumes "0 < ps" "ps \<le> 2 ^ 31"
  shows "rerank_limit ps topN False = (if ps = 1 then 30 else (63 + ps) div ps * ps)"
proof (cases "ps = 1")
  case False
  let ?u = "(63 + ps) div ps"
  have "?u * ps + (63 + ps) mod ps = 63 + ps" by (rule div_mult_mod_eq)
  moreover have "0 \<le> (63 + ps) mod ps" "(63 + ps) mod ps < ps" using assms by simp_all
  ultimately have "64 \<le> ?u * ps" "?u * ps \<le> 63 + ps" by linarith+
  then show ?thesis
    using False assms by (simp add: rerank_limit_def Let_def ceil_quotient int64_small)
qed (simp add: rerank_limit_def)

lemma signed_nonneg: "0 \<le> a \<Longrightarrow> 0 < b \<Longrightarrow> a sdiv b = a div b \<and> a smod b = a mod b" for a b :: int
  by (auto simp: signed_divide_int_def signed_modulo_int_def sgn_if)

lemma page_slice_eq:
  assumes "0 \<le> b" "0 < p" "b + p < 2 ^ 63"
  shows "page_slice b p valid = Some (take (nat p) (drop (nat b) valid))"
proof (cases "b < int (length valid)")
  case True
  have "take (nat (min (b + p) (int (length valid)) - b)) (drop (nat b) valid) = take (nat p) (drop (nat b) valid)"
  proof (cases "b + p \<le> int (length valid)")
    case False
    then have "length (drop (nat b) valid) \<le> nat p" using assms by simp
    moreover have "length (drop (nat b) valid) \<le> nat (min (b + p) (int (length valid)) - b)"
      using False True assms by simp
    ultimately show ?thesis by simp
  qed simp
  moreover have "int64 (b + p) = b + p" using assms by (intro int64_small) simp_all
  ultimately show ?thesis using True assms by (simp add: page_slice_def Let_def)
qed (use assms in \<open>simp add: page_slice_def\<close>)

lemma concat_slices: "concat (map (\<lambda>j. take p (drop (j * p) xs)) [0..<n]) = take (n * p) xs"
  by (induction n) (simp_all add: take_add [symmetric] add.commute)

text \<open>
  C17: Without a reranking model the pages of a size tile the window of candidates: all pages of one
  window search the same window, none panics, and put together they are the ranked candidates, each
  once and in order.
\<close>

theorem retrieval_pages_tile:
  assumes "0 < ps" "ps \<le> 2 ^ 31" "0 \<le> w" "w \<le> 2 ^ 30"
    and limit: "limit = rerank_limit ps topN False" and "length valid \<le> nat limit"
  shows "(\<forall>j < nat (limit div ps). search_page (global_offset (w * (limit div ps) + int j + 1) ps) limit = w + 1) \<and>
    (\<exists>pages. map (\<lambda>j. page_slice (page_begin (global_offset (w * (limit div ps) + int j + 1) ps) limit) ps valid)
        [0..<nat (limit div ps)] = map Some pages \<and> concat pages = valid)"
proof -
  let ?n = "limit div ps"
  have n: "?n * ps = limit" "0 < ?n" and small: "limit \<le> 63 + ps"
  proof -
    have "(63 + ps) div ps * ps + (63 + ps) mod ps = 63 + ps" by (rule div_mult_mod_eq)
    moreover have "0 \<le> (63 + ps) mod ps" using assms by simp
    ultimately have "(63 + ps) div ps * ps \<le> 63 + ps" by linarith
    moreover have "0 < (63 + ps) div ps" using assms by (simp add: pos_imp_zdiv_pos_iff pos_imp_zdiv_nonneg_iff)
    ultimately show "?n * ps = limit" "0 < ?n" "limit \<le> 63 + ps"
      using assms by (auto simp: rerank_limit_value)
  qed
  have page: "search_page (global_offset (w * ?n + int j + 1) ps) limit = w + 1 \<and>
      page_begin (global_offset (w * ?n + int j + 1) ps) limit = int j * ps \<and> int j * ps + ps < 2 ^ 63"
    if "j < nat ?n" for j
  proof -
    have j: "int j * ps \<le> (?n - 1) * ps" using that assms by (intro mult_right_mono) auto
    have jl: "int j * ps < limit" using j n assms(1) by (simp add: left_diff_distrib)
    have "(w * ?n + int j + 1 - 1) * ps = w * limit + int j * ps"
      using n(1) by (simp add: distrib_right mult.assoc)
    moreover have "0 < limit" using n assms(1) by (metis mult_pos_pos)
    then have wl: "0 \<le> w * limit" "w * limit \<le> 2 ^ 30 * (63 + 2 ^ 31)"
      using assms(2, 3, 4) small by (intro mult_nonneg_nonneg mult_mono; linarith)+
    moreover have "0 \<le> int j * ps" using assms by simp
    ultimately have off: "global_offset (w * ?n + int j + 1) ps = w * limit + int j * ps"
      using jl small assms(2) by (simp add: global_offset_def int64_small)
    have "int j * ps + ps < 2 ^ 63" using jl small assms(2) by simp
    have "(w * limit + int j * ps) div limit = w" "(w * limit + int j * ps) mod limit = int j * ps"
      using jl \<open>0 \<le> int j * ps\<close> by (simp_all add: div_add1_eq mod_pos_pos_trivial div_pos_pos_trivial)
    moreover note \<open>int j * ps + ps < 2 ^ 63\<close>
    moreover have "0 < limit" using jl \<open>0 \<le> int j * ps\<close> by linarith
    moreover have "int64 (w + 1) = w + 1" using assms(3, 4) by (intro int64_small) simp_all
    ultimately show ?thesis
      using wl \<open>0 \<le> int j * ps\<close> signed_nonneg [of "w * limit + int j * ps" limit] jl small
      by (simp add: search_page_def page_begin_def off)
  qed
  let ?pages = "map (\<lambda>j. take (nat ps) (drop (j * nat ps) valid)) [0..<nat ?n]"
  have "map (\<lambda>j. page_slice (page_begin (global_offset (w * ?n + int j + 1) ps) limit) ps valid) [0..<nat ?n] = map Some ?pages"
    using page assms by (simp add: page_slice_eq nat_mult_distrib)
  moreover have "nat ?n * nat ps = nat limit" using n assms(1) by (simp flip: nat_mult_distrib)
  then have "concat ?pages = valid" using assms(6) by (simp add: concat_slices)
  ultimately show ?thesis using page by blast
qed

theorem retrieval_pages_tile_witness:
  "search_page (global_offset 17 10) 70 = 3 \<and> length [7 :: nat] = 1"
proof -
  have "rerank_limit 10 1024 False = 70" by (simp add: rerank_limit_value)
  with retrieval_pages_tile [of 10 2 70 1024 "[7 :: nat]"]
  have "\<forall>j < 7. search_page (global_offset (2 * 7 + int j + 1) 10) 70 = 3" by simp
  from this [rule_format, of 2] show ?thesis by simp
qed

text \<open>With a reranking model the window is cut to 64, and pages fall between two windows.\<close>

lemma capped_pages_lose_results:
  "rerank_limit 10 1024 True = 64" "search_page (global_offset 7 10) 64 = 1" "page_begin (global_offset 7 10) 64 = 60"
  "search_page (global_offset 8 10) 64 = 2" "page_begin (global_offset 8 10) 64 = 6"
  by (simp_all add: rerank_limit_def Let_def ceil_quotient int64_small search_page_def page_begin_def
      global_offset_def signed_divide_int_def signed_modulo_int_def)

text \<open>The product of a large page number and the page size wraps, and the slice gets a negative bound.\<close>

lemma huge_page_panics: "page_slice (page_begin (global_offset (2 ^ 62) 4) 64) 4 (x # valid) = None"
proof -
  have "global_offset (2 ^ 62) 4 = - 4" by (simp add: global_offset_def int64_def)
  then show ?thesis by (simp add: page_slice_def page_begin_def signed_modulo_int_def)
qed

section \<open>The order of a page\<close>

definition score_ok :: "f64 \<Rightarrow> bool" where
  "score_ok x = (wf_f64 x \<and> x \<noteq> NaN)"

definition before :: "nat \<times> f64 \<Rightarrow> nat \<times> f64 \<Rightarrow> bool" where
  "before a b = (fval (snd b) < fval (snd a) \<or> fval (snd b) = fval (snd a) \<and> fst a < fst b)"

lemma score_less: "score_ok x \<Longrightarrow> score_ok y \<Longrightarrow> f64_less x y \<longleftrightarrow> fval x < fval y"
  and score_ge: "score_ok x \<Longrightarrow> score_ok y \<Longrightarrow> f64_ge x y \<longleftrightarrow> fval y \<le> fval x"
  by (simp_all add: score_ok_def less_fval ge_fval)

lemma rank_insert_mset [simp]: "mset (rank_insert x ys) = add_mset x (mset ys)"
  by (induction x ys rule: rank_insert.induct) auto

lemma rank_insert_set [simp]: "set (rank_insert x ys) = insert x (set ys)"
  by (metis rank_insert_mset set_mset_add_mset_insert set_mset_mset)

lemma rank_insert_sorted:
  assumes "sorted_wrt before ys" "\<forall>y \<in> set ys. fst y < fst x \<and> score_ok (snd y)" "score_ok (snd x)"
  shows "sorted_wrt before (rank_insert x ys)"
  using assms
proof (induction x ys rule: rank_insert.induct)
  case (2 x y ys)
  show ?case
  proof (cases "f64_less (snd y) (snd x)")
    case True
    then have xy: "fval (snd y) < fval (snd x)" using 2 by (simp add: score_less)
    have "before x z" if "z \<in> set ys" for z
      using that "2.prems"(1) xy by (fastforce simp: before_def)
    with True xy 2 show ?thesis by (auto simp: before_def)
  next
    case False
    then have "fval (snd x) \<le> fval (snd y)" using 2 by (simp add: score_less not_less)
    then have "before y x" using 2 by (auto simp: before_def)
    with False 2 show ?thesis by auto
  qed
qed simp

lemma rank_fold:
  assumes "sorted_wrt before ys" "\<forall>y \<in> set ys. fst y < k \<and> score_ok (snd y)" "list_all score_ok sim"
  shows "sorted_wrt before (foldl (\<lambda>ys x. rank_insert x ys) ys (zip [k..<k + length sim] sim)) \<and>
    mset (foldl (\<lambda>ys x. rank_insert x ys) ys (zip [k..<k + length sim] sim)) = mset ys + mset (zip [k..<k + length sim] sim)"
  using assms
proof (induction sim arbitrary: ys k)
  case (Cons s sim)
  have "[k..<k + length (s # sim)] = k # [Suc k..<Suc k + length sim]" by (subst upt_conv_Cons) simp_all
  moreover have "sorted_wrt before (rank_insert (k, s) ys)" using Cons.prems by (intro rank_insert_sorted) auto
  moreover have "\<forall>y \<in> set (rank_insert (k, s) ys). fst y < Suc k \<and> score_ok (snd y)"
    using Cons.prems by auto
  ultimately show ?case using Cons.IH [of "rank_insert (k, s) ys" "Suc k"] Cons.prems by simp
qed simp

lemma rank_order_spec:
  assumes "list_all score_ok sim"
  shows "sorted_wrt before (rank_order sim)" and "mset (rank_order sim) = mset (zip [0..<length sim] sim)"
  using rank_fold [of "[]" 0 sim] assms by (simp_all add: rank_order_def)

lemma rank_order_mem: "list_all score_ok sim \<Longrightarrow> (i, x) \<in> set (rank_order sim) \<longleftrightarrow> i < length sim \<and> x = sim ! i"
  using rank_order_spec(2) [of sim, THEN mset_eq_setD] by (force simp: set_zip)

lemma valid_indexes_spec:
  assumes "list_all score_ok sim" "score_ok t"
  shows "distinct (valid_indexes sim t)"
    and "set (valid_indexes sim t) = {i. i < length sim \<and> f64_ge (sim ! i) t}"
    and "sorted_wrt (\<lambda>i j. f64_ge (sim ! i) (sim ! j)) (valid_indexes sim t)"
proof -
  let ?r = "rank_order sim"
  have mem: "\<And>p. p \<in> set ?r \<Longrightarrow> fst p < length sim \<and> snd p = sim ! fst p"
    using rank_order_mem [OF assms(1)] by force
  have "mset (map fst ?r) = mset [0..<length sim]"
    using arg_cong [OF rank_order_spec(2) [OF assms(1)], of "image_mset fst"] by (simp only: mset_map [symmetric] map_fst_zip length_upt diff_zero)
  then have "distinct (map fst ?r)" by (metis distinct_upt mset_eq_imp_distinct_iff)
  then show "distinct (valid_indexes sim t)" by (simp add: valid_indexes_def distinct_map_filter)
  show "set (valid_indexes sim t) = {i. i < length sim \<and> f64_ge (sim ! i) t}"
    using rank_order_mem [OF assms(1)] by (force simp: valid_indexes_def)
  have "sorted_wrt before (filter (\<lambda>(_, x). f64_ge x t) ?r)"
    using rank_order_spec(1) [OF assms(1)] by (rule sorted_wrt_filter)
  then have "sorted_wrt (\<lambda>a b. f64_ge (sim ! fst a) (sim ! fst b)) (filter (\<lambda>(_, x). f64_ge x t) ?r)"
  proof (rule sorted_wrt_mono_rel [rotated])
    fix a b
    assume "a \<in> set (filter (\<lambda>(_, x). f64_ge x t) ?r)" "b \<in> set (filter (\<lambda>(_, x). f64_ge x t) ?r)" "before a b"
    then have "fst a < length sim" "snd a = sim ! fst a" "fst b < length sim" "snd b = sim ! fst b"
      and le: "fval (snd b) \<le> fval (snd a)" using mem [of a] mem [of b] by (auto simp: before_def)
    moreover from this have "score_ok (sim ! fst a)" "score_ok (sim ! fst b)" using assms(1) by (simp_all add: list_all_length)
    ultimately show "f64_ge (sim ! fst a) (sim ! fst b)" by (simp add: score_ge)
  qed
  then show "sorted_wrt (\<lambda>i j. f64_ge (sim ! i) (sim ! j)) (valid_indexes sim t)"
    by (simp add: valid_indexes_def sorted_wrt_map)
qed

lemma page_slice_sub:
  assumes "page_slice b p valid = Some xs" "0 \<le> p"
  obtains l r where "valid = l @ xs @ r" "length xs \<le> nat p"
proof -
  let ?n = "nat (min (int64 (b + p)) (int (length valid)) - b)"
  from assms have "xs = [] \<or> 0 \<le> b \<and> xs = take ?n (drop (nat b) valid)"
    by (auto simp: page_slice_def Let_def split: if_splits)
  then show ?thesis
  proof
    assume "xs = []"
    then show ?thesis using that [of valid "[]"] by simp
  next
    assume "0 \<le> b \<and> xs = take ?n (drop (nat b) valid)"
    then have b: "0 \<le> b" and xs: "xs = take ?n (drop (nat b) valid)" by simp_all
    have "int64 (b + p) \<le> b + p"
      using b assms(2) by (simp add: int64_def signed_take_bit_int_less_eq_self_iff)
    then have "?n \<le> nat p" by simp
    then have "length xs \<le> nat p" unfolding xs by simp
    then show ?thesis
      using that [of "take (nat b) valid" "drop ?n (drop (nat b) valid)"] xs by (metis append_take_drop_id)
  qed
qed

lemma mget_copy_field: "k' \<noteq> x \<Longrightarrow> mget (copy_field k k' c r) x = mget r x"
  and mget_copy_default: "k' \<noteq> x \<Longrightarrow> mget (copy_default k k' z c r) x = mget r x"
  by (simp_all add: copy_field_def copy_default_def split: option.split)

lemma similarity_result [simp]: "similarity (result_chunk chunkID c s t v n hl) = s"
proof -
  have "mget (result_chunk chunkID c s t v n hl) ''similarity'' = Some (VFloat s)"
    unfolding result_chunk_def Let_def
    by (cases hl; simp add: mget_copy_default mget_copy_field split: option.split gval.split)
  then show ?thesis by (simp add: similarity_def)
qed

text \<open>
  C18: A page that retrieval returns has at most the asked number of chunks, ordered by descending
  score, and every chunk on it reaches the threshold.
\<close>

theorem retrieval_page_ranked:
  assumes "rank_page req sr field s t begin pageSize = Some r" and "0 \<le> pageSize"
    and "list_all score_ok (fst s)" "score_ok t"
  shows "int (length (rt_Chunks r)) \<le> pageSize \<and> rt_Total r = int (length (rt_Chunks r)) \<and>
    sorted_wrt (\<lambda>c d. f64_ge (similarity c) (similarity d)) (rt_Chunks r) \<and>
    list_all (\<lambda>c. f64_ge (similarity c) t) (rt_Chunks r)"
proof (cases "r = no_result")
  case True
  then show ?thesis using assms(2) by (simp add: no_result_def)
next
  case False
  let ?valid = "valid_indexes (fst s) t"
  obtain pageIdx dim hl where p: "page_slice begin pageSize ?valid = Some pageIdx"
    and r: "rt_Chunks r = somes (map (page_chunk (sr_IDs sr) field s dim hl) pageIdx)"
    and n: "rt_Total r = int (length (rt_Chunks r))"
    using assms(1) False by (auto simp: rank_page_def Let_def split: if_splits option.splits)
  obtain a b where v: "?valid = a @ pageIdx @ b" "length pageIdx \<le> nat pageSize"
    using p assms(2) by (rule page_slice_sub)
  note spec = valid_indexes_spec [OF assms(3, 4)]
  have sub: "set pageIdx \<subseteq> set ?valid" using v by auto
  have srt: "sorted_wrt (\<lambda>i j. f64_ge (fst s ! i) (fst s ! j)) pageIdx"
    using spec(3) unfolding v(1) by (simp add: sorted_wrt_append)
  have sim: "\<And>i c. page_chunk (sr_IDs sr) field s dim hl i = Some c \<Longrightarrow> similarity c = fst s ! i"
    by (auto simp: page_chunk_def split: if_splits option.splits)
  have gen: "length (somes (map f xs)) \<le> length xs \<and>
      (sorted_wrt (\<lambda>i j. f64_ge (g i) (g j)) xs \<longrightarrow> sorted_wrt (\<lambda>c d. f64_ge (similarity c) (similarity d)) (somes (map f xs))) \<and>
      (\<forall>c \<in> set (somes (map f xs)). \<exists>i \<in> set xs. similarity c = g i)"
    if "\<And>i c. f i = Some c \<Longrightarrow> similarity c = g i" for f :: "nat \<Rightarrow> chunk option" and g xs
  proof (induction xs)
    case (Cons x xs)
    then show ?case using that by (cases "f x") fastforce+
  qed simp
  have ge: "\<And>i. i \<in> set pageIdx \<Longrightarrow> f64_ge (fst s ! i) t" using spec(2) sub by auto
  note g = gen [of "page_chunk (sr_IDs sr) field s dim hl" "\<lambda>i. fst s ! i" pageIdx, OF sim, folded r]
  have "int (length (rt_Chunks r)) \<le> pageSize" using g v(2) assms(2) by linarith
  moreover have "sorted_wrt (\<lambda>c d. f64_ge (similarity c) (similarity d)) (rt_Chunks r)" using g srt by blast
  moreover have "list_all (\<lambda>c. f64_ge (similarity c) t) (rt_Chunks r)"
    unfolding list_all_iff
  proof
    fix c
    assume "c \<in> set (rt_Chunks r)"
    then obtain i where "i \<in> set pageIdx" "similarity c = fst s ! i" using g by blast
    then show "f64_ge (similarity c) t" using ge by simp
  qed
  ultimately show ?thesis using n by blast
qed

abbreviation sample_request :: retrieval_request where
  "sample_request \<equiv> \<lparr>rq_Question = ''q'', rq_TenantIDs = [], rq_KbIDs = [], rq_DocIDs = [], rq_Page = 1,
     rq_PageSize = 1, rq_Top = None, rq_SimilarityThreshold = None, rq_VectorSimilarityWeight = None,
     rq_RankFeature = None, rq_RerankModel = None, rq_EmbeddingModel = None, rq_Aggs = None, rq_Highlight = None\<rparr>"

abbreviation sample_result :: retrieval_search_result where
  "sample_result \<equiv> \<lparr>sr_Chunks = [], sr_Total = 2, sr_QueryVector = None, sr_Highlight = None,
     sr_Field = [(''a'', [(''doc_id'', VStr ''d'')]), (''b'', [(''doc_id'', VStr ''e'')])], sr_IDs = [''a'', ''b''],
     sr_Keywords = [], sr_Aggregation = [], sr_IndexNames = []\<rparr>"

theorem retrieval_page_ranked_witness:
  "case rank_page sample_request sample_result (sr_Field sample_result) ([f0, f1], [f0, f1], [f0, f1]) f0 0 1 of
     None \<Rightarrow> False | Some r \<Rightarrow> int (length (rt_Chunks r)) \<le> 1"
proof -
  let ?s = "([f0, f1], [f0, f1], [f0, f1])"
  have "rank_page sample_request sample_result (sr_Field sample_result) ?s f0 0 1 \<noteq> None"
    by (simp add: rank_page_def Let_def page_slice_eq)
  then obtain r where r: "rank_page sample_request sample_result (sr_Field sample_result) ?s f0 0 1 = Some r" by blast
  have "list_all score_ok (fst ?s)" "score_ok f0" by (simp_all add: score_ok_def bitlen.simps)
  with retrieval_page_ranked [OF r] show ?thesis using r by simp
qed

section \<open>Deleted documents\<close>

lemma first_seen_set: "set (first_seen known xs) = set xs - set known"
  by (induction known xs rule: first_seen.induct) auto

lemma first_seen_distinct: "distinct (first_seen known xs)"
  by (induction known xs rule: first_seen.induct) (auto simp: first_seen_set)

lemma mget_fold: "mget (fold (\<lambda>i. mput i (f i)) is m) x = (if x \<in> set is then Some (f x) else mget m x)"
  by (induction "is" arbitrary: m) auto

text \<open>
  C19: Pruning keeps exactly the chunks whose document still exists or that name none, in their order
  and with their fields, if the table answers with the documents that exist among those asked for.
\<close>

theorem prune_keeps_live:
  assumes "PruneDeletedChunks (Some getByIDs) result = Inr r"
    and table: "\<And>ids docs. getByIDs ids = Inr docs \<Longrightarrow> set docs = {d \<in> set ids. live d}"
    and keys: "set (sr_IDs result) \<subseteq> set (mkeys (sr_Field result))"
  shows "sr_IDs r = filter (kept_chunk {d. live d} (sr_Field result)) (sr_IDs result) \<and>
    list_all (\<lambda>chunkID. mget (sr_Field r) chunkID = mget (sr_Field result) chunkID) (sr_IDs r)"
proof -
  let ?asked = "filter (\<lambda>d. d \<noteq> []) (map (\<lambda>(_, c). doc_id c) (sr_Field result))"
  have asked: "doc_id c \<in> set ?asked" if "mget (sr_Field result) i = Some c" "doc_id c \<noteq> []" for i c
    using mget_Some_mem [OF that(1)] that(2) by force
  have all: "filter (kept_chunk S (sr_Field result)) (sr_IDs result) = sr_IDs result"
    if "\<And>i c. mget (sr_Field result) i = Some c \<Longrightarrow> doc_id c = [] \<or> doc_id c \<in> S" for S
  proof (rule filter_True, rule ballI)
    fix i
    assume "i \<in> set (sr_IDs result)"
    then have "mget (sr_Field result) i \<noteq> None" using keys by (auto simp: mget_None_iff)
    then show "kept_chunk S (sr_Field result) i" using that by (auto simp: kept_chunk_def)
  qed
  show ?thesis
  proof (cases "?asked = []")
    case True
    then have "r = result" using assms(1) by (simp add: PruneDeletedChunks_def Let_def)
    moreover have "filter (kept_chunk {d. live d} (sr_Field result)) (sr_IDs result) = sr_IDs result"
      using asked True by (intro all) fastforce
    ultimately show ?thesis by (simp add: list_all_iff)
  next
    case False
    let ?unique = "first_seen [] ?asked"
    have u: "set ?unique = set ?asked" "distinct ?unique" by (simp_all add: first_seen_set first_seen_distinct)
    obtain docs where docs: "getByIDs ?unique = Inr docs"
      using assms(1) False by (cases "getByIDs ?unique") (auto simp: PruneDeletedChunks_def Let_def)
    have set: "set docs = {d \<in> set ?asked. live d}" using table [OF docs] u(1) by simp
    show ?thesis
    proof (cases "card (set docs) = length ?unique")
      case True
      then have "card (set docs) = card (set ?unique)" using u(2) by (simp add: distinct_card)
      then have "set docs = set ?asked"
        using set u(1) by (intro card_subset_eq) auto
      then have "filter (kept_chunk {d. live d} (sr_Field result)) (sr_IDs result) = sr_IDs result"
        using set asked by (intro all) blast
      moreover have "r = result" using assms(1) False docs True by (simp add: PruneDeletedChunks_def Let_def)
      ultimately show ?thesis by (simp add: list_all_iff)
    next
      case pruned: False
      let ?ids = "filter (kept_chunk (set docs) (sr_Field result)) (sr_IDs result)"
      have "kept_chunk (set docs) (sr_Field result) i = kept_chunk {d. live d} (sr_Field result) i" for i
        using set asked [of i] by (auto simp: kept_chunk_def split: option.split)
      then have "kept_chunk (set docs) (sr_Field result) = kept_chunk {d. live d} (sr_Field result)" by (rule ext)
      then have "?ids = filter (kept_chunk {d. live d} (sr_Field result)) (sr_IDs result)" by (simp only:)
      moreover have "sr_IDs r = ?ids"
        and "sr_Field r = fold (\<lambda>i. mput i (the (mget (sr_Field result) i))) ?ids []"
        using assms(1) False docs pruned by (auto simp: PruneDeletedChunks_def Let_def)
      ultimately show ?thesis by (auto simp: list_all_iff mget_fold kept_chunk_def split: option.splits)
    qed
  qed
qed

theorem prune_keeps_live_witness:
  "case PruneDeletedChunks (Some (\<lambda>ids. Inr (filter (\<lambda>d. d = ''d'') ids))) sample_result of
     Inl e \<Rightarrow> False | Inr r \<Rightarrow> sr_IDs r = [''a'']"
proof -
  let ?get = "\<lambda>ids. Inr (filter (\<lambda>d. d = ''d'') ids)"
  obtain r where r: "PruneDeletedChunks (Some ?get) sample_result = Inr r"
    by (cases "PruneDeletedChunks (Some ?get) sample_result")
      (auto simp: PruneDeletedChunks_def Let_def split: if_splits)
  have "sr_IDs r = filter (kept_chunk {d. d = ''d''} (sr_Field sample_result)) (sr_IDs sample_result)"
    using prune_keeps_live [OF r, of "\<lambda>d. d = ''d''"] by (auto simp: mkeys_def)
  then show ?thesis using r by (simp add: kept_chunk_def doc_id_def)
qed

section \<open>Children and parents\<close>

lemma exchange_row_mset: "exchange_row x ys = (z, zs) \<Longrightarrow> add_mset z (mset zs) = add_mset x (mset ys)"
proof (induction x ys arbitrary: z zs rule: exchange_row.induct)
  case (2 x y ys)
  show ?case
  proof (cases "f64_less (similarity x) (similarity y)")
    case True
    then obtain us where us: "exchange_row y ys = (z, us)" "zs = x # us" using "2.prems" by (auto split: prod.splits)
    then have "add_mset z (mset us) = add_mset y (mset ys)" using "2.IH"(1) True by blast
    then show ?thesis using us by (simp add: add_mset_commute [of z x])
  next
    case False
    then obtain us where us: "exchange_row x ys = (z, us)" "zs = y # us" using "2.prems" by (auto split: prod.splits)
    then have "add_mset z (mset us) = add_mset x (mset ys)" using "2.IH"(2) False by blast
    then show ?thesis using us by (simp add: add_mset_commute [of z y] add_mset_commute [of x y])
  qed
qed simp

lemma exchange_row_max:
  assumes "exchange_row x ys = (z, zs)" "\<forall>c \<in> set (x # ys). score_ok (similarity c)"
  shows "\<forall>c \<in> set (x # ys). fval (similarity c) \<le> fval (similarity z)"
  using assms
proof (induction x ys arbitrary: z zs rule: exchange_row.induct)
  case (2 x y ys)
  show ?case
  proof (cases "f64_less (similarity x) (similarity y)")
    case True
    then obtain us where "exchange_row y ys = (z, us)" using "2.prems" by (auto split: prod.splits)
    with 2 True show ?thesis by (auto simp: score_less intro: order_trans less_imp_le)
  next
    case False
    then obtain us where "exchange_row x ys = (z, us)" using "2.prems" by (auto split: prod.splits)
    with 2 False show ?thesis by (auto simp: score_less not_less intro: order_trans)
  qed
qed simp

lemma exchange_sort_mset: "mset (exchange_sort xs) = mset xs"
proof (induction xs rule: exchange_sort.induct)
  case (2 x xs)
  then show ?case using exchange_row_mset [of x xs] by (cases "exchange_row x xs") simp
qed simp

lemma exchange_sort_sorted:
  "\<forall>c \<in> set xs. score_ok (similarity c) \<Longrightarrow>
   sorted_wrt (\<lambda>c d. f64_ge (similarity c) (similarity d)) (exchange_sort xs)"
proof (induction xs rule: exchange_sort.induct)
  case (2 x xs)
  obtain z zs where r: "exchange_row x xs = (z, zs)" by (cases "exchange_row x xs")
  have "set_mset (add_mset z (mset zs)) = set_mset (add_mset x (mset xs))"
    using exchange_row_mset [OF r] by simp
  then have set: "insert z (set zs) = insert x (set xs)" by simp
  have ok: "\<forall>c \<in> set (x # xs). score_ok (similarity c)" using "2.prems" by simp
  have le: "fval (similarity c) \<le> fval (similarity z)" "score_ok (similarity c)" if "c \<in> insert z (set zs)" for c
    using exchange_row_max [OF r ok] ok that unfolding set by auto
  have "set (exchange_sort zs) = set zs" by (metis exchange_sort_mset set_mset_mset)
  then have "\<forall>c \<in> set (exchange_sort zs). f64_ge (similarity z) (similarity c)"
    using le by (auto simp: score_ge)
  moreover have "sorted_wrt (\<lambda>c d. f64_ge (similarity c) (similarity d)) (exchange_sort zs)"
    using "2.IH" le r by simp
  ultimately show ?case using r by simp
qed simp

lemma group_remaining:
  "snd (group_children cks m rest) = rest @ filter (\<lambda>c. mom_id c = []) cks"
  by (induction cks m rest rule: group_children.induct) auto

lemma group_nonempty: "m \<noteq> [] \<or> (\<exists>c \<in> set cks. mom_id c \<noteq> []) \<Longrightarrow> fst (group_children cks m rest) \<noteq> []"
proof (induction cks m rest rule: group_children.induct)
  case (2 ck cks m rest)
  have "mput k v m \<noteq> []" for k and v :: "chunk list" by (cases m) (auto split: if_splits)
  with 2 show ?case by auto
qed simp

text \<open>
  C20: Where chunks are replaced by their parents, every chunk without a parent stays, whatever the
  engine answers and in whatever order the parents come, and the result is sorted by descending
  similarity.
\<close>

theorem parents_sorted:
  assumes "buildIndexNames tenantIDs \<noteq> []" and "list_ex (\<lambda>c. mom_id c \<noteq> []) chunks"
    and "list_all (\<lambda>c. score_ok (similarity c)) (RetrievalByChildren order chunks tenantIDs eng)"
  shows "sorted_wrt (\<lambda>c d. f64_ge (similarity c) (similarity d)) (RetrievalByChildren order chunks tenantIDs eng) \<and>
    mset (filter (\<lambda>c. mom_id c = []) chunks) \<subseteq># mset (RetrievalByChildren order chunks tenantIDs eng)"
proof -
  obtain m rest where g: "group_children chunks [] [] = (m, rest)" by (cases "group_children chunks [] []")
  have rest: "rest = filter (\<lambda>c. mom_id c = []) chunks" using group_remaining [of chunks "[]" "[]"] g by simp
  have "m \<noteq> []" using group_nonempty [of "[]" chunks "[]"] assms(2) g by (simp add: list_ex_iff)
  moreover have "chunks \<noteq> []" using assms(2) by auto
  ultimately have r: "RetrievalByChildren order chunks tenantIDs eng =
      exchange_sort (rest @ parent_loop eng (hd (buildIndexNames tenantIDs)) 1024 (order m))"
    using assms(1) g by (simp add: RetrievalByChildren_def Let_def)
  have "\<forall>c \<in> set (rest @ parent_loop eng (hd (buildIndexNames tenantIDs)) 1024 (order m)). score_ok (similarity c)"
    using assms(3) unfolding r list_all_iff by (metis exchange_sort_mset set_mset_mset)
  then show ?thesis
    unfolding r by (simp add: exchange_sort_sorted exchange_sort_mset rest)
qed

abbreviation forgetful_engine :: doc_engine where
  "forgetful_engine \<equiv> \<lparr>en_Search = (\<lambda>_. Inl []), en_GetChunkIDs = (\<lambda>_. []), en_GetFields = (\<lambda>_ _. []),
     en_GetAggregation = (\<lambda>_ _. []), en_GetHighlight = (\<lambda>_ _ _. None), en_KNNScores = (\<lambda>_ _ _. None),
     en_GetChunk = (\<lambda>_ _ _. None)\<rparr>"

text \<open>A child whose parent is not found disappears, although its own text was found.\<close>

lemma lost_children:
  assumes "buildIndexNames tenantIDs \<noteq> []" "mom_id c \<noteq> []"
  shows "RetrievalByChildren order [c] tenantIDs (eng\<lparr>en_GetChunk := \<lambda>_ _ _. None\<rparr>) = []"
proof -
  have "parent_loop (eng\<lparr>en_GetChunk := \<lambda>_ _ _. None\<rparr>) index n ms = []" for index n ms
    by (induction ms arbitrary: n) auto
  then show ?thesis using assms by (simp add: RetrievalByChildren_def Let_def)
qed

theorem parents_sorted_witness:
  "mset (filter (\<lambda>c. mom_id c = []) [[(''mom_id'', VStr ''m'')], [(''similarity'', VFloat f1)]])
     \<subseteq># mset (RetrievalByChildren id [[(''mom_id'', VStr ''m'')], [(''similarity'', VFloat f1)]] [''t''] forgetful_engine)"
proof -
  let ?c = "[(''mom_id'', VStr ''m'')]" and ?d = "[(''similarity'', VFloat f1)]"
  have t: "buildIndexNames [''t''] \<noteq> []"
    by code_simp
  have m: "mom_id ?c = ''m''" "mom_id ?d = []" by (simp_all add: mom_id_def str_value_def)
  have "RetrievalByChildren id [?c, ?d] [''t''] forgetful_engine = [?d]"
    using t m by (simp add: RetrievalByChildren_def Let_def mgetd_def)
  moreover have "score_ok (similarity ?d)" by (simp add: similarity_def score_ok_def bitlen.simps)
  ultimately have "list_all (\<lambda>c. score_ok (similarity c)) (RetrievalByChildren id [?c, ?d] [''t''] forgetful_engine)"
    by simp
  moreover have "list_ex (\<lambda>c. mom_id c \<noteq> []) [?c, ?d]" using m by simp
  ultimately show ?thesis using parents_sorted [OF t] by blast
qed

text \<open>
  No key of a chunk that retrieval returns ends in \<open>_vec\<close>, so a parent never gets the vector of a child.
\<close>

definition no_vec :: "chunk \<Rightarrow> bool" where
  "no_vec c = (\<forall>k \<in> set (mkeys c). \<not> vec_key k)"

lemma no_vec_put: "no_vec c \<Longrightarrow> \<not> vec_key k \<Longrightarrow> no_vec (mput k v c)"
  by (simp add: no_vec_def mkeys_mput)

lemma no_vec_copy: "no_vec r \<Longrightarrow> \<not> vec_key k' \<Longrightarrow> no_vec (copy_field k k' c r)"
  and no_vec_default: "no_vec r \<Longrightarrow> \<not> vec_key k' \<Longrightarrow> no_vec (copy_default k k' z c r)"
  by (auto simp: copy_field_def copy_default_def no_vec_put split: option.split)

lemma no_vec_vector: "no_vec c \<Longrightarrow> chunk_vector c = None"
  by (induction c rule: chunk_vector.induct) (auto simp: no_vec_def)

lemma no_vec_highlight:
  "no_vec r \<Longrightarrow> no_vec (case hl of None \<Rightarrow> r
     | Some h \<Rightarrow> (case mget h chunkID of Some t \<Rightarrow> mput ''highlight'' (VStr (RemoveRedundantSpaces t)) r
       | None \<Rightarrow> (case mget c ''content_with_weight'' of
           Some (VStr t) \<Rightarrow> mput ''highlight'' (VStr (RemoveRedundantSpaces t)) r | _ \<Rightarrow> r)))"
  by (auto intro!: no_vec_put simp: vec_key_def split: option.split gval.split)

lemma result_has_no_vector: "chunk_vector (result_chunk chunkID c s t v n hl) = None"
proof -
  have k: "\<not> vec_key ''content_ltks''" "\<not> vec_key ''content_with_weight''" "\<not> vec_key ''doc_id''"
    "\<not> vec_key ''docnm_kwd''" "\<not> vec_key ''kb_id''" "\<not> vec_key ''important_kwd''" "\<not> vec_key ''tag_kwd''"
    "\<not> vec_key ''image_id''" "\<not> vec_key ''positions''" "\<not> vec_key ''doc_type_kwd''" "\<not> vec_key ''row_id''"
    "\<not> vec_key ''similarity''" "\<not> vec_key ''term_similarity''" "\<not> vec_key ''vector_similarity''"
    "\<not> vec_key ''mom_id''" "\<not> vec_key ''vector''" "\<not> vec_key ''highlight''" "\<not> vec_key ''chunk_id''"
    by (simp_all add: vec_key_def)
  have "no_vec (result_chunk chunkID c s t v n hl)"
    unfolding result_chunk_def Let_def fold_simps o_apply id_apply
    by (rule no_vec_highlight) (intro no_vec_default no_vec_put no_vec_copy k; simp add: no_vec_def mkeys_def k)
  then show ?thesis by (rule no_vec_vector)
qed

lemma parent_has_no_vector:
  "child_vector (map (\<lambda>(i, c, s, t, v, n, hl). result_chunk i c s t v n hl) cs) = None"
  by (induction cs) (auto simp: result_has_no_vector)

end
