(* ===== verification/Spec2Isabelle.thy ===== *)
theory Spec2Isabelle
  imports ChannelProps Registry MemorySaver CheckpointProps Interrupts RetryProps GraphCompile
    EngineResume EngineOrder EngineApi StoreProps CacheProps EmbeddingLru CliProps CliGaps
    ChunkEngineProps TokenChunkerProps TitleChunkerProps MetaFilter RetrievalProps
begin

text \<open>
  This development models parts of the Go code of the repository that carry logic of their own: the
  graph engine under \<open>internal/harness/graph\<close>, the embedding cache of \<open>internal/utility\<close>, the
  command line of \<open>internal/cli\<close> from the bytes of a line to the method that handles it, the chunking
  of texts under \<open>internal/parser/chunk\<close> and \<open>internal/ingestion/component/chunker\<close>, and the
  filtering and ranking of chunks under \<open>internal/service\<close>. All file
  names below are relative to \<open>src/internal\<close>.

  \<^bold>\<open>The program's parts.\<close> A state graph (\<open>graph/graph.go\<close>, \<open>graph/state.go\<close>) is built node by node and
  compiled; a compiled graph runs on the engine (\<open>pregel/engine.go\<close>), which in every step decides which
  nodes run, reads their input from channels (\<open>channels/*.go\<close>), runs them under a retry policy
  (\<open>pregel/retry*.go\<close>), writes the results back, and saves a checkpoint (\<open>checkpoint/*.go\<close>). A node can
  interrupt a run (\<open>interrupt/interrupt.go\<close>); the saved checkpoint resumes it. Nodes can use a store
  (\<open>store/memory.go\<close>) and a cache (\<open>pregel/cache*.go\<close>). The command line reads a line with a lexer and a
  recursive descent parser of about 290 functions and hands the command to a method by its type. The
  ingestion pipeline cuts documents into chunks: the token chunker at delimiters or, through the chunk
  library, into merged sentences; the title chunkers along headings, by group or along a tree. A question to the chat or the search is restricted to the
  documents whose metadata pass a filter; retrieval asks the search engine for a window of candidates,
  scores and orders them, and returns one page.

  \<^bold>\<open>Theories and code.\<close>
  \<^item> \<open>GoPrelude\<close>, \<open>GoValues\<close>, \<open>Floats\<close>, \<open>GoStrings\<close>: the prelude. Go maps are association lists with distinct keys
    (\<open>mget\<close>, \<open>mput\<close>, \<open>mdel\<close>), an iteration over a map goes in the order of its list, and what the code
    promises in any order is stated for any list. Dynamic values are the datatype \<open>gval\<close>; \<open>int\<close> is
    \<open>64 word\<close>; float64 is computed exactly and rounded. Errors are the left side of a sum, panics are
    None or constructors of an outcome. \<open>gval\<close> has JSON encoding and decoding.
  \<^item> \<open>Channels\<close>, \<open>ChannelAgg\<close>, \<open>ChannelSum\<close>, \<open>ChannelContract\<close>, \<open>ChannelProps\<close>: the eight channel types of
    \<open>channels/\<close>, one record and one definition per method each, their sum type, the locales of their
    contracts with an interpretation for every channel, and the properties. \<open>Registry\<close>: \<open>channels/base.go\<close>.
  \<^item> \<open>Config\<close>: \<open>types/config.go\<close>. \<open>MemorySaver\<close>, \<open>Checkpoints\<close>, \<open>CheckpointManager\<close>, \<open>CheckpointProps\<close>:
    \<open>checkpoint/memory.go\<close> and \<open>checkpoint/checkpoint.go\<close>; the locale of a checkpointer is interpreted by the
    memory saver.
  \<^item> \<open>Interrupts\<close>, \<open>Retry\<close>, \<open>RetryProps\<close>: \<open>interrupt/interrupt.go\<close>, \<open>pregel/retry.go\<close>, \<open>pregel/retry_multi.go\<close>,
    the retry policy of \<open>types/types.go\<close>.
  \<^item> \<open>StateGraph\<close>, \<open>GraphCompile\<close>: \<open>graph/graph.go\<close>, \<open>graph/state.go\<close>; building, validation, compiling.
  \<^item> \<open>Engine\<close>, \<open>EngineWrites\<close>, \<open>EngineRun\<close>, \<open>EngineLoop\<close>, \<open>EngineProps\<close>, \<open>EngineResume\<close>, \<open>EngineOrder\<close>,
    \<open>EngineApi\<close>: \<open>pregel/engine.go\<close> in its order: scheduling and tasks, writes and checkpoints, the start
    of a run, the loop, and then the properties of runs. A step is a function of the engine's state; what
    the nodes, conditions and branches compute is an argument.
  \<^item> \<open>Store\<close>, \<open>StoreProps\<close>: \<open>store/memory.go\<close>; the locale of a named store is interpreted by the in-memory
    store. \<open>Cache\<close>, \<open>CacheProps\<close>: \<open>pregel/cache.go\<close>, \<open>pregel/cache_async.go\<close>; the locale of a node cache is
    interpreted by the in-memory, the empty and the asynchronous cache. \<open>EmbeddingLru\<close>:
    \<open>utility/embedding_lru.go\<close>, refined to a list of recently used entries.
  \<^item> \<open>CliTokens\<close>, \<open>CliLexer\<close>: \<open>cli/lexer.go\<close>, with a scanner of character lists as its reference. \<open>CliParse\<close>:
    \<open>cli/parser.go\<close>, the parser's state and the combinators in which all parsing functions are written.
    \<open>CliDev\<close>: \<open>cli/dev_parser.go\<close>; \<open>CliUser1\<close> to \<open>CliUser3\<close>: \<open>cli/user_parser.go\<close>; \<open>CliAdmin1\<close> to \<open>CliAdmin3\<close>:
    \<open>cli/admin_parser.go\<close>; one definition per Go function under the same name. \<open>CliCommands\<close>: the choice
    by mode. \<open>CliDispatch\<close>: \<open>cli/cli_http.go\<close> and \<open>execute\<close> of \<open>cli/cli.go\<close>. \<open>CliRules\<close>, \<open>CliSteady\<close>: the rules by
    which every parsing function is shown to end. \<open>CliTypes\<close>, \<open>CliGaps\<close>: the types of the commands a mode
    can return, compared with the table of its switch. \<open>CliProps\<close>: the properties of lexer and parser.
  \<^item> \<open>ChunkEngine\<close>, \<open>ChunkEngineProps\<close>: \<open>parser/chunk/*.go\<close>, one definition per method of the three
    operators and \<open>Run\<close>. \<open>Chunker\<close>: \<open>schema/chunk_types.go\<close>, \<open>schema/chunker.go\<close> and \<open>chunker/common.go\<close>,
    with patterns as lists of literals. \<open>TokenChunker\<close>, \<open>TokenChunkerProps\<close>: \<open>chunker/token.go\<close>, the
    order of the workers' writes being an argument. \<open>TitleChunker\<close>: \<open>chunker/title.go\<close>. \<open>TitleStrategies\<close>:
    \<open>chunker/group.go\<close>, \<open>chunker/hierarchy.go\<close>. \<open>TitleChunkerProps\<close>: the properties of both strategies.
  \<^item> \<open>MetaFilter\<close>: \<open>common/metadata_utils.go\<close>, \<open>service/metadata_filter.go\<close> and the step of
    \<open>service/chat_pipeline.go\<close> that calls it.
  \<^item> \<open>Rerank\<close>: \<open>service/nlp/reranker.go\<close> and \<open>PairwiseSum\<close>. \<open>Retrieval\<close>, \<open>ParentChunks\<close>:
    \<open>service/nlp/retrieval.go\<close>. \<open>FloatOrder\<close>: the order of float64 and its operations in the real numbers,
    on which \<open>RerankProps\<close> rests; \<open>RetrievalProps\<close>: paging, ordering, pruning, parents.

  \<^bold>\<open>What the groups of lemmas show.\<close> Channels: the meaning of every update, and that a channel restored
  from its checkpoint cannot be told from the original. Checkpoints: round trips through JSON, the
  history of a manager as a chain, no lost update. Engine: the order in which an acyclic graph runs, the
  bound on the steps of a run, the exact channel updates of a step, and interrupts resumed with what had
  been completed. Store and caches: refinement of maps and lists, and that calls through a cache are the
  function. Command line: the lexer is its scanner, every line is parsed in finitely many steps, the only
  panic is the look-ahead after \<open>CHUNK\<close>, and exactly six command types are parsed but never handled.
  Chunking: cutting and merging lose nothing and keep the order, the parallel result is the sequential
  one, the hand-written sorts are stable sorts, and a validated title chunker cannot panic. Metadata filter: the documents a list of conditions means,
  and what the configured filter can return. Retrieval: scores between 0 and 1 with all roundings, pages
  that tile a window, pages in order, and nothing lost but what was deleted.

  \<^bold>\<open>Bounds and fuel.\<close> A run gets as many steps as its recursion limit allows and the theorems show that
  this ends it. Loops over lists are structural; the breadth-first search of the compiler, the retry loops
  and the readers of the lexer have measures, and so have the scanners of the chunkers (the text left). A loop of the parser gets one round more than there are
  characters and tokens left (\<open>budget\<close>); running out of it is the outcome \<open>PStuck\<close>, which
  \<open>parse_line_terminates\<close> excludes for every line.

  \<^bold>\<open>Conventions.\<close> Case changes and quoting in the command line are those of ASCII text: only the texts of
  error messages and parameters can hold other bytes. Clocks, random identifiers, \<open>json.Unmarshal\<close> and
  \<open>regexp\<close> are arguments, but for the one pattern of \<open>RemoveRedundantSpaces\<close>.

  \<^bold>\<open>Not modelled.\<close> Concurrency: locks are taken for granted, every method is one step, tasks of a step run
  in an arbitrary order; only the queue of the asynchronous cache is modelled with all its orders. Aliasing
  of maps and slices between values, but for the scores that \<open>RerankStandard\<close> changes in place. Stream events, callbacks, telemetry and logging. Struct states, whose
  conversion by reflection is an argument. Remote graphs, database and message bus checkpointers. The
  methods behind the commands of the command line, and the services, handlers, search engine clients and
  document parsers of the rest of the repository, which are input and output around libraries, models and
  servers.
\<close>

end
